(* ===== verification/Power_Prelude.thy ===== *)
theory Power_Prelude
  imports Main "HOL-Library.Word" "HOL-Library.Multiset"
begin

text \<open>
  Shared vocabulary of the development: C integers, C strings, the printing of
  decimal numbers by \<^verbatim>\<open>snprintf("%d")\<close>, generic lemmas on loops over table
  indices, and the named collections of facts the component theories extend.
\<close>

named_theorems frame_simps \<open>fields an operation leaves alone\<close>
named_theorems len_simps \<open>table sizes an operation keeps\<close>
named_theorems loop_defs \<open>bodies of the table loops\<close>

section \<open>C integers\<close>

type_synonym u32 = "32 word"
type_synonym u64 = "64 word"

text \<open>
  A C \<open>int\<close> is a mathematical integer. Where an operation can leave the
  32-bit range the two's complement reading is written out with \<open>c_int\<close>.
\<close>

abbreviation (input) INT_MAX :: int where "INT_MAX \<equiv> 2147483647"
abbreviation (input) INT_MIN :: int where "INT_MIN \<equiv> -2147483648"

definition c_int :: "int \<Rightarrow> int" where
  "c_int x = (x + 2147483648) mod 4294967296 - 2147483648"

lemma c_int_id [simp]: "INT_MIN \<le> x \<Longrightarrow> x \<le> INT_MAX \<Longrightarrow> c_int x = x"
  by (simp add: c_int_def)

lemma c_int_range: "INT_MIN \<le> c_int x" "c_int x \<le> INT_MAX"
  by (simp_all add: c_int_def)

text \<open>C division truncates towards zero.\<close>

definition c_div :: "int \<Rightarrow> int \<Rightarrow> int" where
  "c_div a b = sgn a * sgn b * (\<bar>a\<bar> div \<bar>b\<bar>)"

section \<open>C strings\<close>

fun nat_digits :: "nat \<Rightarrow> string" where
  "nat_digits n = (if n < 10 then [char_of (48 + n)]
                   else nat_digits (n div 10) @ [char_of (48 + n mod 10)])"

declare nat_digits.simps [simp del]

text \<open>\<^verbatim>\<open>%d\<close> of an \<open>int\<close>.\<close>

definition show_int :: "int \<Rightarrow> string" where
  "show_int i = (if i < 0 then CHR ''-'' # nat_digits (nat (- i)) else nat_digits (nat i))"

text \<open>\<^verbatim>\<open>snprintf(buf, n, "%s", s)\<close> keeps at most \<open>n - 1\<close> characters.\<close>

definition snprintf_s :: "nat \<Rightarrow> string \<Rightarrow> string" where
  "snprintf_s n s = take (n - 1) s"

section \<open>Lists updated by index\<close>

lemma nth_list_update_split:
  "i < length xs \<Longrightarrow> xs[i := x] ! j = (if i = j then x else xs ! j)"
  by simp

lemma map_list_update_id: "f x = f (xs ! i) \<Longrightarrow> map f (xs[i := x]) = map f xs"
  by (metis list_update_id map_update)

lemma list_update_out_of_range [simp]: "\<not> i < length xs \<Longrightarrow> xs[i := x] = xs"
  by (simp add: list_update_beyond)

lemma set_update_split: "i < length xs \<Longrightarrow> set (xs[i := x]) = insert x (set (take i xs @ drop (Suc i) xs))"
  by (simp add: upd_conv_take_nth_drop)

lemma set_nth_split: "i < length xs \<Longrightarrow> set xs = insert (xs ! i) (set (take i xs @ drop (Suc i) xs))"
  using set_update_split [of i xs "xs ! i"] by simp

section \<open>Loops over table indices\<close>

text \<open>
  A loop \<open>for (i = a; i < b; i++)\<close> whose body does not leave the loop is
  \<open>fold body [a..<b]\<close>. An invariant kept by every body holds at the end, and a
  component that only body \<open>j\<close> writes is at the end what body \<open>j\<close> left.
\<close>

lemma fold_invariant_list:
  assumes "P s" and "\<And>i s. i \<in> set xs \<Longrightarrow> P s \<Longrightarrow> P (f i s)"
  shows "P (fold f xs s)"
  using assms by (induction xs arbitrary: s) auto

lemma fold_component:
  assumes "distinct xs"
    and frame: "\<And>i s. i \<in> set xs \<Longrightarrow> I s \<Longrightarrow> i \<noteq> j \<Longrightarrow> get (f i s) = get s"
    and step: "\<And>s. j \<in> set xs \<Longrightarrow> I s \<Longrightarrow> get (f j s) = g (get s)"
    and inv: "\<And>i s. i \<in> set xs \<Longrightarrow> I s \<Longrightarrow> I (f i s)"
    and "I s"
  shows "get (fold f xs s) = (if j \<in> set xs then g (get s) else get s)"
  using assms
proof (induction xs arbitrary: s)
  case Nil
  then show ?case by simp
next
  case (Cons i xs)
  have IH: "get (fold f xs (f i s)) = (if j \<in> set xs then g (get (f i s)) else get (f i s))"
    using Cons.prems by (intro Cons.IH) auto
  show ?case
  proof (cases "i = j")
    case True
    with Cons.prems IH show ?thesis by auto
  next
    case False
    then have "get (f i s) = get s" using Cons.prems by auto
    with IH False show ?thesis by auto
  qed
qed

end
