(* ===== verification/Hint_Table.thy ===== *)
theory Hint_Table
  imports Power_Prelude
begin

text \<open>
  The scenario hint table of \<^verbatim>\<open>lib/powerhal/perfservice_scn.cpp\<close>: the static
  table \<open>HintMappingTbl\<close> that names every hint, the vector \<open>PowerScnTbl\<close> built from
  it, and the operations that look hints up and edit their resource lists. Every
  array read or write outside \<open>lock_rsc_list\<close> or outside the vector, which C++ leaves
  undefined, is \<open>None\<close>.
\<close>

section \<open>Hint identifiers (include/mtkpower\_hint.h)\<close>

abbreviation (input) MTKPOWER_HINT_BASE :: int where "MTKPOWER_HINT_BASE \<equiv> 20"
abbreviation (input) MTKPOWER_HINT_PROCESS_CREATE :: int where "MTKPOWER_HINT_PROCESS_CREATE \<equiv> 21"
abbreviation (input) MTKPOWER_HINT_PACK_SWITCH :: int where "MTKPOWER_HINT_PACK_SWITCH \<equiv> 22"
abbreviation (input) MTKPOWER_HINT_ACT_SWITCH :: int where "MTKPOWER_HINT_ACT_SWITCH \<equiv> 23"
abbreviation (input) MTKPOWER_HINT_APP_ROTATE :: int where "MTKPOWER_HINT_APP_ROTATE \<equiv> 24"
abbreviation (input) MTKPOWER_HINT_APP_TOUCH :: int where "MTKPOWER_HINT_APP_TOUCH \<equiv> 25"
abbreviation (input) MTKPOWER_HINT_GALLERY_BOOST :: int where "MTKPOWER_HINT_GALLERY_BOOST \<equiv> 26"
abbreviation (input) MTKPOWER_HINT_GALLERY_STEREO_BOOST :: int where "MTKPOWER_HINT_GALLERY_STEREO_BOOST \<equiv> 27"
abbreviation (input) MTKPOWER_HINT_WFD :: int where "MTKPOWER_HINT_WFD \<equiv> 28"
abbreviation (input) MTKPOWER_HINT_PMS_INSTALL :: int where "MTKPOWER_HINT_PMS_INSTALL \<equiv> 29"
abbreviation (input) MTKPOWER_HINT_EXT_LAUNCH :: int where "MTKPOWER_HINT_EXT_LAUNCH \<equiv> 30"
abbreviation (input) MTKPOWER_HINT_WHITELIST_LAUNCH :: int where "MTKPOWER_HINT_WHITELIST_LAUNCH \<equiv> 31"
abbreviation (input) MTKPOWER_HINT_WIPHY_SPEED_DL :: int where "MTKPOWER_HINT_WIPHY_SPEED_DL \<equiv> 32"
abbreviation (input) MTKPOWER_HINT_SDN :: int where "MTKPOWER_HINT_SDN \<equiv> 33"
abbreviation (input) MTKPOWER_HINT_WHITELIST_ACT_SWITCH :: int where "MTKPOWER_HINT_WHITELIST_ACT_SWITCH \<equiv> 34"
abbreviation (input) MTKPOWER_HINT_BOOT :: int where "MTKPOWER_HINT_BOOT \<equiv> 35"
abbreviation (input) MTKPOWER_HINT_AUDIO_LATENCY_DL :: int where "MTKPOWER_HINT_AUDIO_LATENCY_DL \<equiv> 36"
abbreviation (input) MTKPOWER_HINT_AUDIO_LATENCY_UL :: int where "MTKPOWER_HINT_AUDIO_LATENCY_UL \<equiv> 37"
abbreviation (input) MTKPOWER_HINT_AUDIO_POWER_DL :: int where "MTKPOWER_HINT_AUDIO_POWER_DL \<equiv> 38"
abbreviation (input) MTKPOWER_HINT_AUDIO_DISABLE_WIFI_POWER_SAVE :: int where "MTKPOWER_HINT_AUDIO_DISABLE_WIFI_POWER_SAVE \<equiv> 39"
abbreviation (input) MTKPOWER_HINT_MULTI_DISPLAY_WITH_GPU_FPS_60 :: int where "MTKPOWER_HINT_MULTI_DISPLAY_WITH_GPU_FPS_60 \<equiv> 40"
abbreviation (input) MTKPOWER_HINT_MULTI_DISPLAY_WITH_GPU_FPS_90 :: int where "MTKPOWER_HINT_MULTI_DISPLAY_WITH_GPU_FPS_90 \<equiv> 41"
abbreviation (input) MTKPOWER_HINT_MULTI_DISPLAY_WITH_GPU_FPS_120 :: int where "MTKPOWER_HINT_MULTI_DISPLAY_WITH_GPU_FPS_120 \<equiv> 42"
abbreviation (input) MTKPOWER_HINT_UX_SCROLLING :: int where "MTKPOWER_HINT_UX_SCROLLING \<equiv> 43"
abbreviation (input) MTKPOWER_HINT_AUDIO_POWER_UL :: int where "MTKPOWER_HINT_AUDIO_POWER_UL \<equiv> 44"
abbreviation (input) MTKPOWER_HINT_UX_SCROLLING_PERF_MODE :: int where "MTKPOWER_HINT_UX_SCROLLING_PERF_MODE \<equiv> 45"
abbreviation (input) MTKPOWER_HINT_AUDIO_POWER_HI_RES :: int where "MTKPOWER_HINT_AUDIO_POWER_HI_RES \<equiv> 46"
abbreviation (input) MTKPOWER_HINT_GAME_MODE :: int where "MTKPOWER_HINT_GAME_MODE \<equiv> 47"
abbreviation (input) MTKPOWER_HINT_VIDEO_MODE :: int where "MTKPOWER_HINT_VIDEO_MODE \<equiv> 48"
abbreviation (input) MTKPOWER_HINT_UX_SCROLLING_NORMAL_MODE :: int where "MTKPOWER_HINT_UX_SCROLLING_NORMAL_MODE \<equiv> 49"
abbreviation (input) MTKPOWER_HINT_FRS_ACT :: int where "MTKPOWER_HINT_FRS_ACT \<equiv> 50"
abbreviation (input) MTKPOWER_HINT_CAMERA_MODE :: int where "MTKPOWER_HINT_CAMERA_MODE \<equiv> 51"
abbreviation (input) MTKPOWER_HINT_SF_LOW_POWER_MODE :: int where "MTKPOWER_HINT_SF_LOW_POWER_MODE \<equiv> 52"
abbreviation (input) MTKPOWER_HINT_SCENE_TRANSITION :: int where "MTKPOWER_HINT_SCENE_TRANSITION \<equiv> 53"
abbreviation (input) MTKPOWER_HINT_PROCESS_CREATE_PERF_MODE_GAME :: int where "MTKPOWER_HINT_PROCESS_CREATE_PERF_MODE_GAME \<equiv> 54"
abbreviation (input) MTKPOWER_HINT_EXT_LAUNCH_FOR_GAME :: int where "MTKPOWER_HINT_EXT_LAUNCH_FOR_GAME \<equiv> 55"
abbreviation (input) MTKPOWER_HINT_UX_TOUCH_MOVE :: int where "MTKPOWER_HINT_UX_TOUCH_MOVE \<equiv> 56"
abbreviation (input) MTKPOWER_HINT_PROCESS_CREATE_PERF_MODE :: int where "MTKPOWER_HINT_PROCESS_CREATE_PERF_MODE \<equiv> 57"
abbreviation (input) MTKPOWER_HINT_PACK_SWITCH_ANIMATION_OFF :: int where "MTKPOWER_HINT_PACK_SWITCH_ANIMATION_OFF \<equiv> 58"
abbreviation (input) MTKPOWER_HINT_EXT_ACT_SWITCH :: int where "MTKPOWER_HINT_EXT_ACT_SWITCH \<equiv> 59"
abbreviation (input) MTKPOWER_HINT_EXT_LAUNCH_ANIMATION_OFF :: int where "MTKPOWER_HINT_EXT_LAUNCH_ANIMATION_OFF \<equiv> 60"
abbreviation (input) MTKPOWER_HINT_UX_SCROLLING_BALANCE_MODE :: int where "MTKPOWER_HINT_UX_SCROLLING_BALANCE_MODE \<equiv> 61"
abbreviation (input) MTKPOWER_HINT_AUDIO_ROUTING :: int where "MTKPOWER_HINT_AUDIO_ROUTING \<equiv> 62"
abbreviation (input) MTKPOWER_HINT_PROCESS_CREATE_BALANCE_MODE_GAME :: int where "MTKPOWER_HINT_PROCESS_CREATE_BALANCE_MODE_GAME \<equiv> 63"
abbreviation (input) MTKPOWER_HINT_HOT_LAUNCH :: int where "MTKPOWER_HINT_HOT_LAUNCH \<equiv> 64"
abbreviation (input) MTKPOWER_HINT_UX_ANIM_LEVE_1 :: int where "MTKPOWER_HINT_UX_ANIM_LEVE_1 \<equiv> 65"
abbreviation (input) MTKPOWER_HINT_UX_ANIM_LEVE_2 :: int where "MTKPOWER_HINT_UX_ANIM_LEVE_2 \<equiv> 66"
abbreviation (input) MTKPOWER_HINT_UX_ANIM_LEVE_3 :: int where "MTKPOWER_HINT_UX_ANIM_LEVE_3 \<equiv> 67"
abbreviation (input) MTKPOWER_HINT_UX_SCROLLING_MOVING_MODE :: int where "MTKPOWER_HINT_UX_SCROLLING_MOVING_MODE \<equiv> 68"
abbreviation (input) MTKPOWER_HINT_UX_SCROLLING_COMMON_MASK :: int where "MTKPOWER_HINT_UX_SCROLLING_COMMON_MASK \<equiv> 69"
abbreviation (input) MTKPOWER_HINT_LAST :: int where "MTKPOWER_HINT_LAST \<equiv> 70"
abbreviation (input) AIDL_BASE :: int where "AIDL_BASE \<equiv> 70"
abbreviation (input) INTERACTION :: int where "INTERACTION \<equiv> 71"
abbreviation (input) DISPLAY_UPDATE_IMMINENT :: int where "DISPLAY_UPDATE_IMMINENT \<equiv> 72"
abbreviation (input) ML_ACC :: int where "ML_ACC \<equiv> 73"
abbreviation (input) AUDIO_LAUNCH :: int where "AUDIO_LAUNCH \<equiv> 74"
abbreviation (input) CAMERA_LAUNCH :: int where "CAMERA_LAUNCH \<equiv> 75"
abbreviation (input) CAMERA_SHOT :: int where "CAMERA_SHOT \<equiv> 76"
abbreviation (input) DOUBLE_TAP_TO_WAKE :: int where "DOUBLE_TAP_TO_WAKE \<equiv> 77"
abbreviation (input) LOW_POWER :: int where "LOW_POWER \<equiv> 78"
abbreviation (input) SUSTAINED_PERFORMANCE :: int where "SUSTAINED_PERFORMANCE \<equiv> 79"
abbreviation (input) FIXED_PERFORMANCE :: int where "FIXED_PERFORMANCE \<equiv> 80"
abbreviation (input) VR :: int where "VR \<equiv> 81"
abbreviation (input) LAUNCH :: int where "LAUNCH \<equiv> 82"
abbreviation (input) EXPENSIVE_RENDERING :: int where "EXPENSIVE_RENDERING \<equiv> 83"
abbreviation (input) INTERACTIVE :: int where "INTERACTIVE \<equiv> 84"
abbreviation (input) DEVICE_IDLE :: int where "DEVICE_IDLE \<equiv> 85"
abbreviation (input) DISPLAY_INACTIVE :: int where "DISPLAY_INACTIVE \<equiv> 86"
abbreviation (input) AUDIO_STREAMING_LOW_LATENCY :: int where "AUDIO_STREAMING_LOW_LATENCY \<equiv> 87"
abbreviation (input) CAMERA_STREAMING_SECURE :: int where "CAMERA_STREAMING_SECURE \<equiv> 88"
abbreviation (input) CAMERA_STREAMING_LOW :: int where "CAMERA_STREAMING_LOW \<equiv> 89"
abbreviation (input) CAMERA_STREAMING_MID :: int where "CAMERA_STREAMING_MID \<equiv> 90"
abbreviation (input) CAMERA_STREAMING_HIGH :: int where "CAMERA_STREAMING_HIGH \<equiv> 91"
abbreviation (input) GAME :: int where "GAME \<equiv> 92"
abbreviation (input) GAME_LOADING :: int where "GAME_LOADING \<equiv> 93"
abbreviation (input) DISPLAY_CHANGE :: int where "DISPLAY_CHANGE \<equiv> 94"
abbreviation (input) AUTOMOTIVE_PROJECTION :: int where "AUTOMOTIVE_PROJECTION \<equiv> 95"
abbreviation (input) MTKPOWER_HINT_NUM :: int where "MTKPOWER_HINT_NUM \<equiv> 96"
abbreviation (input) CUS_HINT_BASE :: int where "CUS_HINT_BASE \<equiv> 1001"
abbreviation (input) CUS_HINT_MAX :: int where "CUS_HINT_MAX \<equiv> 10000"
abbreviation (input) MTKPOWER_HINT_ALWAYS_ENABLE :: int where "MTKPOWER_HINT_ALWAYS_ENABLE \<equiv> 268435455"

abbreviation (input) MAX_ARGS_PER_REQUEST :: nat where "MAX_ARGS_PER_REQUEST \<equiv> 600"

section \<open>The table\<close>

record tHintMap =
  hintId :: int
  hintCmd :: string
  lock_rsc_size :: int
  lock_rsc_list :: "int list"

definition hint_entry :: "int \<Rightarrow> string \<Rightarrow> tHintMap" where
  "hint_entry i n = \<lparr>hintId = i, hintCmd = n, lock_rsc_size = 0,
     lock_rsc_list = replicate MAX_ARGS_PER_REQUEST 0\<rparr>"

definition HintMappingTbl_aidl :: "tHintMap list" where
  "HintMappingTbl_aidl = [
     hint_entry INTERACTION ''INTERACTION'',
     hint_entry DISPLAY_UPDATE_IMMINENT ''DISPLAY_UPDATE_IMMINENT'',
     hint_entry ML_ACC ''ML_ACC'',
     hint_entry AUDIO_LAUNCH ''AUDIO_LAUNCH'',
     hint_entry CAMERA_LAUNCH ''CAMERA_LAUNCH'',
     hint_entry CAMERA_SHOT ''CAMERA_SHOT'',
     hint_entry DOUBLE_TAP_TO_WAKE ''DOUBLE_TAP_TO_WAKE'',
     hint_entry LOW_POWER ''LOW_POWER'',
     hint_entry SUSTAINED_PERFORMANCE ''SUSTAINED_PERFORMANCE'',
     hint_entry FIXED_PERFORMANCE ''FIXED_PERFORMANCE'',
     hint_entry VR ''VR'',
     hint_entry LAUNCH ''LAUNCH'',
     hint_entry EXPENSIVE_RENDERING ''EXPENSIVE_RENDERING'',
     hint_entry INTERACTIVE ''INTERACTIVE'',
     hint_entry DEVICE_IDLE ''DEVICE_IDLE '',
     hint_entry DISPLAY_INACTIVE ''DISPLAY_INACTIVE'',
     hint_entry AUDIO_STREAMING_LOW_LATENCY ''AUDIO_STREAMING_LOW_LATENCY'',
     hint_entry CAMERA_STREAMING_SECURE ''CAMERA_STREAMING_SECURE'',
     hint_entry CAMERA_STREAMING_LOW ''CAMERA_STREAMING_LOW'',
     hint_entry CAMERA_STREAMING_MID ''CAMERA_STREAMING_MID'',
     hint_entry CAMERA_STREAMING_HIGH ''CAMERA_STREAMING_HIGH'',
     hint_entry GAME ''GAME'',
     hint_entry GAME_LOADING ''GAME_LOADING'',
     hint_entry DISPLAY_CHANGE ''DISPLAY_CHANGE'',
     hint_entry AUTOMOTIVE_PROJECTION ''AUTOMOTIVE_PROJECTION'']"

definition HintMappingTbl_mtk1 :: "tHintMap list" where
  "HintMappingTbl_mtk1 = [
     hint_entry MTKPOWER_HINT_PROCESS_CREATE ''MTKPOWER_HINT_PROCESS_CREATE'',
     hint_entry MTKPOWER_HINT_PACK_SWITCH ''MTKPOWER_HINT_PACK_SWITCH'',
     hint_entry MTKPOWER_HINT_ACT_SWITCH ''MTKPOWER_HINT_ACT_SWITCH'',
     hint_entry MTKPOWER_HINT_APP_ROTATE ''MTKPOWER_HINT_APP_ROTATE'',
     hint_entry MTKPOWER_HINT_APP_TOUCH ''MTKPOWER_HINT_APP_TOUCH'',
     hint_entry MTKPOWER_HINT_GALLERY_BOOST ''MTKPOWER_HINT_GALLERY_BOOST'',
     hint_entry MTKPOWER_HINT_GALLERY_STEREO_BOOST ''MTKPOWER_HINT_GALLERY_STEREO_BOOST'',
     hint_entry MTKPOWER_HINT_WFD ''MTKPOWER_HINT_WFD'',
     hint_entry MTKPOWER_HINT_PMS_INSTALL ''MTKPOWER_HINT_PMS_INSTALL'',
     hint_entry MTKPOWER_HINT_EXT_LAUNCH ''MTKPOWER_HINT_EXT_LAUNCH'',
     hint_entry MTKPOWER_HINT_WHITELIST_LAUNCH ''MTKPOWER_HINT_WHITELIST_LAUNCH'',
     hint_entry MTKPOWER_HINT_WIPHY_SPEED_DL ''MTKPOWER_HINT_WIPHY_SPEED_DL'',
     hint_entry MTKPOWER_HINT_SDN ''MTKPOWER_HINT_SDN'',
     hint_entry MTKPOWER_HINT_WHITELIST_ACT_SWITCH ''MTKPOWER_HINT_WHITELIST_ACT_SWITCH'',
     hint_entry MTKPOWER_HINT_BOOT ''MTKPOWER_HINT_BOOT'',
     hint_entry MTKPOWER_HINT_AUDIO_LATENCY_DL ''MTKPOWER_HINT_AUDIO_LATENCY_DL'',
     hint_entry MTKPOWER_HINT_AUDIO_LATENCY_UL ''MTKPOWER_HINT_AUDIO_LATENCY_UL'',
     hint_entry MTKPOWER_HINT_AUDIO_POWER_DL ''MTKPOWER_HINT_AUDIO_POWER_DL'',
     hint_entry MTKPOWER_HINT_AUDIO_DISABLE_WIFI_POWER_SAVE ''MTKPOWER_HINT_AUDIO_DISABLE_WIFI_POWER_SAVE'',
     hint_entry MTKPOWER_HINT_MULTI_DISPLAY_WITH_GPU_FPS_60 ''MTKPOWER_HINT_MULTI_DISPLAY_WITH_GPU_FPS_60'',
     hint_entry MTKPOWER_HINT_MULTI_DISPLAY_WITH_GPU_FPS_90 ''MTKPOWER_HINT_MULTI_DISPLAY_WITH_GPU_FPS_90'',
     hint_entry MTKPOWER_HINT_MULTI_DISPLAY_WITH_GPU_FPS_120 ''MTKPOWER_HINT_MULTI_DISPLAY_WITH_GPU_FPS_120'',
     hint_entry MTKPOWER_HINT_UX_SCROLLING ''MTKPOWER_HINT_UX_SCROLLING'',
     hint_entry MTKPOWER_HINT_UX_SCROLLING_MOVING_MODE ''MTKPOWER_HINT_UX_SCROLLING_MOVING_MODE'',
     hint_entry MTKPOWER_HINT_AUDIO_POWER_UL ''MTKPOWER_HINT_AUDIO_POWER_UL'']"

definition HintMappingTbl_mtk2 :: "tHintMap list" where
  "HintMappingTbl_mtk2 = [
     hint_entry MTKPOWER_HINT_GAME_MODE ''MTKPOWER_HINT_GAME_MODE'',
     hint_entry MTKPOWER_HINT_VIDEO_MODE ''MTKPOWER_HINT_VIDEO_MODE'',
     hint_entry MTKPOWER_HINT_UX_SCROLLING_PERF_MODE ''MTKPOWER_HINT_UX_SCROLLING_PERF_MODE'',
     hint_entry MTKPOWER_HINT_UX_SCROLLING_NORMAL_MODE ''MTKPOWER_HINT_UX_SCROLLING_NORMAL_MODE'',
     hint_entry MTKPOWER_HINT_UX_SCROLLING_BALANCE_MODE ''MTKPOWER_HINT_UX_SCROLLING_BALANCE_MODE'',
     hint_entry MTKPOWER_HINT_UX_ANIM_LEVE_1 ''MTKPOWER_HINT_UX_ANIM_LEVE_1'',
     hint_entry MTKPOWER_HINT_UX_ANIM_LEVE_2 ''MTKPOWER_HINT_UX_ANIM_LEVE_2'',
     hint_entry MTKPOWER_HINT_UX_ANIM_LEVE_3 ''MTKPOWER_HINT_UX_ANIM_LEVE_3'',
     hint_entry MTKPOWER_HINT_FRS_ACT ''MTKPOWER_HINT_FRS_ACT'',
     hint_entry MTKPOWER_HINT_CAMERA_MODE ''MTKPOWER_HINT_CAMERA_MODE'',
     hint_entry MTKPOWER_HINT_UX_SCROLLING_COMMON_MASK ''MTKPOWER_HINT_UX_SCROLLING_COMMON_MASK'',
     hint_entry MTKPOWER_HINT_SF_LOW_POWER_MODE ''MTKPOWER_HINT_SF_LOW_POWER_MODE'',
     hint_entry MTKPOWER_HINT_SCENE_TRANSITION ''MTKPOWER_HINT_SCENE_TRANSITION'',
     hint_entry MTKPOWER_HINT_PROCESS_CREATE_PERF_MODE_GAME ''MTKPOWER_HINT_PROCESS_CREATE_PERF_MODE_GAME'',
     hint_entry MTKPOWER_HINT_EXT_LAUNCH_FOR_GAME ''MTKPOWER_HINT_EXT_LAUNCH_FOR_GAME'',
     hint_entry MTKPOWER_HINT_PROCESS_CREATE_PERF_MODE ''MTKPOWER_HINT_PROCESS_CREATE_PERF_MODE'',
     hint_entry MTKPOWER_HINT_PACK_SWITCH_ANIMATION_OFF ''MTKPOWER_HINT_PACK_SWITCH_ANIMATION_OFF'',
     hint_entry MTKPOWER_HINT_EXT_ACT_SWITCH ''MTKPOWER_HINT_EXT_ACT_SWITCH'',
     hint_entry MTKPOWER_HINT_EXT_LAUNCH_ANIMATION_OFF ''MTKPOWER_HINT_EXT_LAUNCH_ANIMATION_OFF'',
     hint_entry MTKPOWER_HINT_UX_TOUCH_MOVE ''MTKPOWER_HINT_UX_TOUCH_MOVE'',
     hint_entry MTKPOWER_HINT_AUDIO_ROUTING ''MTKPOWER_HINT_AUDIO_ROUTING'',
     hint_entry MTKPOWER_HINT_PROCESS_CREATE_BALANCE_MODE_GAME ''MTKPOWER_HINT_PROCESS_CREATE_BALANCE_MODE_GAME'',
     hint_entry MTKPOWER_HINT_HOT_LAUNCH ''MTKPOWER_HINT_HOT_LAUNCH'']"

definition HintMappingTbl :: "tHintMap list" where
  "HintMappingTbl = HintMappingTbl_aidl @ HintMappingTbl_mtk1 @ HintMappingTbl_mtk2"

lemmas HintMappingTbl_defs =
  HintMappingTbl_def HintMappingTbl_aidl_def HintMappingTbl_mtk1_def HintMappingTbl_mtk2_def
section \<open>Operations\<close>

text \<open>\<^verbatim>\<open>strncmp(a, b, 128) == 0\<close>.\<close>

definition strncmp128_eq :: "string \<Rightarrow> string \<Rightarrow> bool" where
  "strncmp128_eq a b \<longleftrightarrow> take 128 a = take 128 b"

fun getHintId_in :: "tHintMap list \<Rightarrow> string \<Rightarrow> int" where
  "getHintId_in [] cmd = -1"
| "getHintId_in (e # es) cmd =
     (if strncmp128_eq (hintCmd e) cmd then hintId e else getHintId_in es cmd)"

definition getHintId :: "string \<Rightarrow> int" where
  "getHintId cmd = getHintId_in HintMappingTbl cmd"

text \<open>\<open>getHintCmd\<close> leaves the caller's buffer alone (\<open>None\<close>) for an unknown hint.\<close>

fun getHintCmd_in :: "tHintMap list \<Rightarrow> int \<Rightarrow> string option" where
  "getHintCmd_in [] hint = None"
| "getHintCmd_in (e # es) hint = (if hintId e = hint then Some (hintCmd e) else getHintCmd_in es hint)"

definition getHintCmd :: "int \<Rightarrow> string option" where
  "getHintCmd hint = getHintCmd_in HintMappingTbl hint"

text \<open>The first entry of \<open>PowerScnTbl\<close> with the hint id, as the lookup loops find it.\<close>

fun hint_find :: "tHintMap list \<Rightarrow> int \<Rightarrow> tHintMap option" where
  "hint_find [] hint = None"
| "hint_find (e # es) hint = (if hint = hintId e then Some e else hint_find es hint)"

definition getHintName :: "tHintMap list \<Rightarrow> int \<Rightarrow> string" where
  "getHintName tbl hint = (case hint_find tbl hint of Some e \<Rightarrow> hintCmd e | None \<Rightarrow> '''')"

definition getHintRscSize :: "tHintMap list \<Rightarrow> int \<Rightarrow> int" where
  "getHintRscSize tbl hint = (case hint_find tbl hint of Some e \<Rightarrow> lock_rsc_size e | None \<Rightarrow> -1)"

definition arr_get :: "'a list \<Rightarrow> int \<Rightarrow> 'a option" where
  "arr_get xs i = (if 0 \<le> i \<and> nat i < length xs then Some (xs ! nat i) else None)"

definition arr_set :: "'a list \<Rightarrow> int \<Rightarrow> 'a \<Rightarrow> 'a list option" where
  "arr_set xs i v = (if 0 \<le> i \<and> nat i < length xs then Some (xs[nat i := v]) else None)"

definition getHintRscElement :: "tHintMap list \<Rightarrow> int \<Rightarrow> int \<Rightarrow> int option" where
  "getHintRscElement tbl hint idx =
     (case hint_find tbl hint of Some e \<Rightarrow> arr_get (lock_rsc_list e) idx | None \<Rightarrow> Some (-1))"

text \<open>\<open>NULL\<close> for an unknown hint is \<open>None\<close>.\<close>

definition getHintRscList :: "tHintMap list \<Rightarrow> int \<Rightarrow> int list option" where
  "getHintRscList tbl hint = map_option lock_rsc_list (hint_find tbl hint)"

text \<open>The loops that do not stop at the first match: the last index with the id.\<close>

fun last_hint_index :: "tHintMap list \<Rightarrow> int \<Rightarrow> int \<Rightarrow> int \<Rightarrow> int" where
  "last_hint_index [] hint i acc = acc"
| "last_hint_index (e # es) hint i acc =
     last_hint_index es hint (i + 1) (if hint = hintId e then i else acc)"

text \<open>
  \<open>getHintRscListParam\<close>: the guard is \<^verbatim>\<open>!idx_hint\<close> and the bound of the scan is
  \<^verbatim>\<open>PowerScnTbl[i].lock_rsc_size\<close> with the loop counter \<open>i\<close>. A read outside the
  vector or outside the array is \<open>None\<close>.
\<close>

function getHintRscListParam_loop :: "tHintMap list \<Rightarrow> int list \<Rightarrow> int \<Rightarrow> nat \<Rightarrow> int option" where
  "getHintRscListParam_loop tbl rsc cmd i =
     (if \<not> i < length tbl then None
      else if \<not> int i < lock_rsc_size (tbl ! i) then Some (-1)
      else (case arr_get rsc (int i) of
              None \<Rightarrow> None
            | Some c \<Rightarrow> if c = cmd then arr_get rsc (int i + 1)
                        else getHintRscListParam_loop tbl rsc cmd (Suc i)))"
  by pat_completeness auto
termination
  by (relation "measure (\<lambda>(tbl, rsc, cmd, i). length tbl - i)") auto

declare getHintRscListParam_loop.simps [simp del]

definition getHintRscListParam :: "tHintMap list \<Rightarrow> int \<Rightarrow> int \<Rightarrow> int option" where
  "getHintRscListParam tbl hint cmd =
     (let idx_hint = last_hint_index tbl hint 0 0
      in if idx_hint = 0
         then (if tbl = [] then None
               else getHintRscListParam_loop tbl (lock_rsc_list (tbl ! 0)) cmd 0)
         else Some (-1))"

text \<open>The scan of \<open>HintRscList_remove\<close> and \<open>HintRscList_modify\<close> for the command.\<close>

function rsc_scan :: "int list \<Rightarrow> int \<Rightarrow> int \<Rightarrow> nat \<Rightarrow> nat option option" where
  "rsc_scan rsc rsc_size cmd i =
     (if \<not> int i < rsc_size then Some None
      else (case arr_get rsc (int i) of
              None \<Rightarrow> None
            | Some c \<Rightarrow> if c = cmd then Some (Some i) else rsc_scan rsc rsc_size cmd (Suc i)))"
  by pat_completeness auto
termination
  by (relation "measure (\<lambda>(rsc, rsc_size, cmd, i). nat (rsc_size - int i))") auto

declare rsc_scan.simps [simp del]

definition HintRscList_remove :: "tHintMap list \<Rightarrow> int \<Rightarrow> int \<Rightarrow> tHintMap list option" where
  "HintRscList_remove tbl hint cmd =
     (let idx_hint = last_hint_index tbl hint 0 (-1)
      in if idx_hint > 0 then
           (let e = tbl ! nat idx_hint in
            case rsc_scan (lock_rsc_list e) (lock_rsc_size e) cmd 0 of
              None \<Rightarrow> None
            | Some None \<Rightarrow> Some tbl
            | Some (Some i) \<Rightarrow>
                (case arr_set (lock_rsc_list e) (int i) 0 of
                   None \<Rightarrow> None
                 | Some l \<Rightarrow> (case arr_set l (int i + 1) 0 of
                     None \<Rightarrow> None
                   | Some l' \<Rightarrow> Some (tbl[nat idx_hint := e\<lparr>lock_rsc_list := l'\<rparr>]))))
         else Some tbl)"

definition HintRscList_modify :: "tHintMap list \<Rightarrow> int \<Rightarrow> int \<Rightarrow> int \<Rightarrow> tHintMap list option" where
  "HintRscList_modify tbl hint cmd new_param =
     (let idx_hint = last_hint_index tbl hint 0 (-1)
      in if idx_hint > 0 then
           (let e = tbl ! nat idx_hint in
            case rsc_scan (lock_rsc_list e) (lock_rsc_size e) cmd 0 of
              None \<Rightarrow> None
            | Some None \<Rightarrow> Some tbl
            | Some (Some i) \<Rightarrow>
                (case arr_set (lock_rsc_list e) (int i + 1) new_param of
                   None \<Rightarrow> None
                 | Some l \<Rightarrow> Some (tbl[nat idx_hint := e\<lparr>lock_rsc_list := l\<rparr>])))
         else Some tbl)"

fun HintRscList_append :: "tHintMap list \<Rightarrow> int \<Rightarrow> int \<Rightarrow> int \<Rightarrow> tHintMap list option" where
  "HintRscList_append [] hint cmd param_1 = Some []"
| "HintRscList_append (e # es) hint cmd param_1 =
     (if hint = hintId e then
        (case arr_set (lock_rsc_list e) (lock_rsc_size e) cmd of
           None \<Rightarrow> None
         | Some l \<Rightarrow> (case arr_set l (lock_rsc_size e + 1) param_1 of
             None \<Rightarrow> None
           | Some l' \<Rightarrow> Some (e\<lparr>lock_rsc_list := l', lock_rsc_size := lock_rsc_size e + 2\<rparr> # es)))
      else map_option (\<lambda>es'. e # es') (HintRscList_append es hint cmd param_1))"

text \<open>
  \<open>HintRscList_init\<close> clears each entry of the static table and pushes it.
\<close>

definition HintRscList_init :: "tHintMap list \<Rightarrow> tHintMap list" where
  "HintRscList_init tbl =
     tbl @ map (\<lambda>e. e\<lparr>lock_rsc_size := 0, lock_rsc_list := replicate MAX_ARGS_PER_REQUEST 0\<rparr>)
             HintMappingTbl"

definition PowerScnTbl_append :: "tHintMap list \<Rightarrow> string option \<Rightarrow> int \<Rightarrow> tHintMap list" where
  "PowerScnTbl_append tbl hintname hint_id =
     tbl @ [hint_entry hint_id (case hintname of Some n \<Rightarrow> n | None \<Rightarrow> '' '')]"

text \<open>
  The tail of \<open>Scn_cmdSetting\<close> (perfservice.cpp): the command \<open>rsc\<close> that \<open>cmdSetting\<close>
  resolved is appended when the list has room.
\<close>

definition Scn_cmdSetting_append :: "tHintMap list \<Rightarrow> int \<Rightarrow> int \<Rightarrow> int \<Rightarrow> tHintMap list option" where
  "Scn_cmdSetting_append tbl scn rsc param_1 =
     (let sz = getHintRscSize tbl scn
      in if sz < int MAX_ARGS_PER_REQUEST \<and> sz mod 2 = 0
         then HintRscList_append tbl scn rsc param_1 else Some tbl)"

text \<open>The sequence of \<open>Scn_cmdSetting\<close> calls one scenario element of the table file causes.\<close>

fun put_all :: "('t \<Rightarrow> int \<Rightarrow> int \<Rightarrow> int \<Rightarrow> 't option) \<Rightarrow> 't \<Rightarrow> int \<Rightarrow> (int \<times> int) list \<Rightarrow> 't option" where
  "put_all put t h [] = Some t"
| "put_all put t h ((c, p) # cps) = (case put t h c p of None \<Rightarrow> None | Some t' \<Rightarrow> put_all put t' h cps)"

definition Scn_cmdSetting_all :: "tHintMap list \<Rightarrow> int \<Rightarrow> (int \<times> int) list \<Rightarrow> tHintMap list option" where
  "Scn_cmdSetting_all = put_all Scn_cmdSetting_append"

section \<open>Well-formed tables and what a hint's resource list is\<close>

definition hint_wf :: "tHintMap \<Rightarrow> bool" where
  "hint_wf e \<longleftrightarrow> length (lock_rsc_list e) = MAX_ARGS_PER_REQUEST \<and> 0 \<le> lock_rsc_size e \<and>
     lock_rsc_size e \<le> int MAX_ARGS_PER_REQUEST \<and> even (lock_rsc_size e)"

definition tbl_wf :: "tHintMap list \<Rightarrow> bool" where
  "tbl_wf tbl \<longleftrightarrow> list_all hint_wf tbl"

definition hint_rsc :: "tHintMap list \<Rightarrow> int \<Rightarrow> int list option" where
  "hint_rsc tbl hint =
     map_option (\<lambda>e. take (nat (lock_rsc_size e)) (lock_rsc_list e)) (hint_find tbl hint)"

lemma hint_find_wf: "tbl_wf tbl \<Longrightarrow> hint_find tbl h = Some e \<Longrightarrow> hint_wf e"
  by (induction tbl) (auto simp: tbl_wf_def split: if_splits)

lemma take_append_two:
  assumes "n + 1 < length l"
  shows "take (n + 2) (l[n := c, Suc n := p]) = take n l @ [c, p]"
  using assms by (simp add: take_Suc_conv_app_nth numeral_2_eq_2)

lemma HintRscList_append_ok:
  assumes "tbl_wf tbl" "\<And>e. hint_find tbl h = Some e \<Longrightarrow> lock_rsc_size e < int MAX_ARGS_PER_REQUEST"
  shows "\<exists>tbl'. HintRscList_append tbl h c p = Some tbl' \<and> tbl_wf tbl' \<and>
     hint_rsc tbl' = (\<lambda>h'. if h' = h then map_option (\<lambda>l. l @ [c, p]) (hint_rsc tbl h)
                           else hint_rsc tbl h')"
  using assms
proof (induction tbl)
  case Nil
  then show ?case by (auto simp: tbl_wf_def hint_rsc_def fun_eq_iff)
next
  case (Cons e es)
  show ?case
  proof (cases "h = hintId e")
    case True
    with Cons.prems have wf: "hint_wf e" and sz: "lock_rsc_size e < int MAX_ARGS_PER_REQUEST"
      by (auto simp: tbl_wf_def)
    define n where "n = nat (lock_rsc_size e)"
    have "even n" using wf by (auto simp: n_def hint_wf_def even_nat_iff)
    moreover have "n < 600" using sz wf by (simp add: n_def hint_wf_def)
    ultimately have n: "n + 1 < length (lock_rsc_list e)" "lock_rsc_size e = int n"
      using wf by (auto simp: n_def hint_wf_def)
    show ?thesis using True n Cons.prems(1) wf
      by (auto simp: arr_set_def hint_rsc_def tbl_wf_def hint_wf_def fun_eq_iff nat_add_distrib
          take_append_two [simplified])
  next
    case False
    with Cons obtain es' where "HintRscList_append es h c p = Some es'" "tbl_wf es'"
      "hint_rsc es' = (\<lambda>h'. if h' = h then map_option (\<lambda>l. l @ [c, p]) (hint_rsc es h)
                           else hint_rsc es h')"
      by (auto simp: tbl_wf_def)
    with False Cons.prems(1) show ?thesis
      by (auto simp: tbl_wf_def hint_rsc_def fun_eq_iff)
  qed
qed

section \<open>The interface of a hint store\<close>

text \<open>
  A store of bounded resource lists, as the table loader uses it: \<open>put\<close> appends one
  command and its parameter while the list is below the capacity, never fails, and
  touches no other hint. What a whole sequence of calls does follows from these laws.
\<close>

definition flat_pairs :: "(int \<times> int) list \<Rightarrow> int list" where
  "flat_pairs cps = concat (map (\<lambda>(c, p). [c, p]) cps)"

locale hint_store =
  fixes inv :: "'t \<Rightarrow> bool"
    and rsc :: "'t \<Rightarrow> int \<Rightarrow> int list option"
    and put :: "'t \<Rightarrow> int \<Rightarrow> int \<Rightarrow> int \<Rightarrow> 't option"
    and cap :: nat
  assumes put_ok: "inv t \<Longrightarrow> \<exists>t'. put t h c p = Some t' \<and> inv t' \<and>
    rsc t' = (\<lambda>h'. if h' = h then map_option (\<lambda>l. if length l < cap then l @ [c, p] else l) (rsc t h)
                   else rsc t h')"
begin

lemma put_all_ok:
  assumes "inv t"
  shows "\<exists>t'. put_all put t h cps = Some t' \<and> inv t' \<and>
    rsc t' = (\<lambda>h'. if h' = h
       then map_option (\<lambda>l. l @ flat_pairs (take ((cap - length l + 1) div 2) cps)) (rsc t h)
       else rsc t h')"
  using assms
proof (induction cps arbitrary: t)
  case Nil
  then show ?case by (auto simp: flat_pairs_def fun_eq_iff option.map_ident)
next
  case (Cons cp cps)
  obtain c p where cp: "cp = (c, p)" by force
  obtain t1 where t1: "put t h c p = Some t1" "inv t1"
    and r1: "rsc t1 = (\<lambda>h'. if h' = h then map_option (\<lambda>l. if length l < cap then l @ [c, p] else l) (rsc t h)
                   else rsc t h')"
    using put_ok [OF Cons.prems] by blast
  obtain t2 where t2: "put_all put t1 h cps = Some t2" "inv t2"
    and r2: "rsc t2 = (\<lambda>h'. if h' = h
       then map_option (\<lambda>l. l @ flat_pairs (take ((cap - length l + 1) div 2) cps)) (rsc t1 h)
       else rsc t1 h')"
    using Cons.IH [OF t1(2)] by blast
  have fit: "(if length l < cap then l @ [c, p] else l) @
      flat_pairs (take ((cap - length (if length l < cap then l @ [c, p] else l) + 1) div 2) cps)
    = l @ flat_pairs (take ((cap - length l + 1) div 2) ((c, p) # cps))" for l
  proof (cases "length l < cap")
    case True
    then have "(cap - length l + 1) div 2 = Suc ((cap - (length l + 2) + 1) div 2)" by presburger
    with True show ?thesis by (simp add: flat_pairs_def)
  qed simp
  show ?case
    using t1(1) t2 by (auto simp: cp r2 r1 fun_eq_iff option.map_comp o_def fit [simplified] simp del: take_Suc_Cons)
qed

end

lemma Scn_cmdSetting_append_ok:
  assumes "tbl_wf tbl"
  shows "\<exists>tbl'. Scn_cmdSetting_append tbl h c p = Some tbl' \<and> tbl_wf tbl' \<and>
    hint_rsc tbl' = (\<lambda>h'. if h' = h
       then map_option (\<lambda>l. if length l < MAX_ARGS_PER_REQUEST then l @ [c, p] else l) (hint_rsc tbl h)
       else hint_rsc tbl h')"
proof (cases "hint_find tbl h")
  case None
  then show ?thesis using assms
    by (auto simp: Scn_cmdSetting_append_def getHintRscSize_def hint_rsc_def fun_eq_iff)
next
  case (Some e)
  note wf = hint_find_wf [OF assms Some, unfolded hint_wf_def]
  show ?thesis
  proof (cases "lock_rsc_size e < int MAX_ARGS_PER_REQUEST")
    case True
    with Some HintRscList_append_ok [OF assms, of h c p] wf show ?thesis
      by (fastforce simp: Scn_cmdSetting_append_def getHintRscSize_def hint_rsc_def fun_eq_iff)
  next
    case False
    with Some wf assms show ?thesis
      by (auto simp: Scn_cmdSetting_append_def getHintRscSize_def hint_rsc_def fun_eq_iff)
  qed
qed

interpretation scn_tbl: hint_store tbl_wf hint_rsc Scn_cmdSetting_append MAX_ARGS_PER_REQUEST
  by unfold_locales (rule Scn_cmdSetting_append_ok)

section \<open>Properties\<close>

lemma hint_find_HintRscList_init:
  "hint_find (HintRscList_init []) h =
     map_option (\<lambda>e. e\<lparr>lock_rsc_size := 0, lock_rsc_list := replicate MAX_ARGS_PER_REQUEST 0\<rparr>)
       (hint_find HintMappingTbl h)"
proof -
  have "hint_find (map (\<lambda>e. e\<lparr>lock_rsc_size := 0, lock_rsc_list := xs\<rparr>) t) h =
     map_option (\<lambda>e. e\<lparr>lock_rsc_size := 0, lock_rsc_list := xs\<rparr>) (hint_find t h)" for t xs
    by (induction t) auto
  then show ?thesis by (simp add: HintRscList_init_def)
qed

lemma tbl_wf_HintRscList_init: "tbl_wf (HintRscList_init [])"
  by (auto simp: tbl_wf_def HintRscList_init_def hint_wf_def list_all_iff)

text \<open>
  C20. Loading a scenario's commands is memory safe and exact: on a well-formed table
  (in particular the one \<open>HintRscList_init\<close> builds) any number of \<open>Scn_cmdSetting\<close> calls
  for one hint never writes outside \<open>lock_rsc_list\<close>, keeps the table well-formed, appends
  the commands in order until \<open>MAX_ARGS_PER_REQUEST\<close> words are used, drops the rest, and
  changes no other hint.
\<close>

theorem Scn_cmdSetting_all_exact:
  assumes "tbl_wf tbl"
  shows "\<exists>tbl'. Scn_cmdSetting_all tbl h cps = Some tbl' \<and> tbl_wf tbl' \<and>
    hint_rsc tbl' h = map_option
       (\<lambda>l. l @ flat_pairs (take ((MAX_ARGS_PER_REQUEST - length l + 1) div 2) cps)) (hint_rsc tbl h) \<and>
    (\<forall>h'. h' \<noteq> h \<longrightarrow> hint_rsc tbl' h' = hint_rsc tbl h')"
  using scn_tbl.put_all_ok [OF assms, of h cps] by (auto simp: Scn_cmdSetting_all_def)

theorem Scn_cmdSetting_all_exact_witness:
  "\<exists>tbl'. Scn_cmdSetting_all (HintRscList_init []) INTERACTION [(0x00400000, 900000), (0x00404000, 2000000)] = Some tbl' \<and>
     tbl_wf tbl' \<and> hint_rsc tbl' INTERACTION = Some [0x00400000, 900000, 0x00404000, 2000000]"
proof -
  have "hint_rsc (HintRscList_init []) INTERACTION = Some []"
    by (simp add: hint_rsc_def hint_find_HintRscList_init HintMappingTbl_defs hint_entry_def)
  with Scn_cmdSetting_all_exact [OF tbl_wf_HintRscList_init, of INTERACTION
      "[(0x00400000, 900000), (0x00404000, 2000000)]"]
  show ?thesis by (auto simp: flat_pairs_def)
qed

lemma getHintId_in_distinct:
  assumes "distinct (map hintCmd t)" "list_all (\<lambda>e. length (hintCmd e) \<le> 128) t" "e \<in> set t"
  shows "getHintId_in t (hintCmd e) = hintId e"
  using assms by (induction t) (auto simp: strncmp128_eq_def list_all_iff)

lemma hint_find_distinct:
  "distinct (map hintId t) \<Longrightarrow> e \<in> set t \<Longrightarrow> hint_find t (hintId e) = Some e"
  by (induction t) (auto simp: rev_image_eqI)

lemma HintMappingTbl_names_distinct: "distinct (map hintCmd HintMappingTbl)"
  by code_simp

lemma HintMappingTbl_names_short: "list_all (\<lambda>e. length (hintCmd e) \<le> 128) HintMappingTbl"
  by code_simp

lemma HintMappingTbl_ids_distinct: "distinct (map hintId HintMappingTbl)"
  by code_simp

lemma DEVICE_IDLE_lookup: "getHintId ''DEVICE_IDLE'' = -1" "getHintId ''DEVICE_IDLE '' = DEVICE_IDLE"
  by code_simp+

text \<open>
  The static table names hints consistently: for every entry but one, looking the
  entry's name up with \<open>getHintId\<close> gives its id back and \<open>getHintName\<close> on the freshly
  initialised table gives the name. The exception is \<open>DEVICE_IDLE\<close>, stored with a
  trailing space: no lookup of the name the table file uses can find it.
\<close>

theorem hint_names_round_trip:
  "list_all (\<lambda>e. getHintId (hintCmd e) = hintId e \<and>
       getHintName (HintRscList_init []) (hintId e) = hintCmd e) HintMappingTbl \<and>
   getHintId ''DEVICE_IDLE'' = -1 \<and> getHintId ''DEVICE_IDLE '' = DEVICE_IDLE"
  by (simp add: list_all_iff DEVICE_IDLE_lookup [unfolded getHintId_def] getHintName_def hint_find_HintRscList_init
      hint_find_distinct [OF HintMappingTbl_ids_distinct] getHintId_def
      getHintId_in_distinct [OF HintMappingTbl_names_distinct HintMappingTbl_names_short])

lemma last_hint_index_notin:
  "h \<notin> hintId ` set es \<Longrightarrow> last_hint_index es h i acc = acc"
  by (induction es arbitrary: i) auto

lemma last_hint_index_in:
  "h \<in> hintId ` set es \<Longrightarrow> i \<le> last_hint_index es h i acc"
proof (induction es arbitrary: i acc)
  case (Cons e es)
  show ?case
  proof (cases "h \<in> hintId ` set es")
    case True
    with Cons.IH [of "i + 1"] show ?thesis by (simp add: order_trans [of i "i + 1"])
  next
    case False
    with Cons.prems show ?thesis by (auto simp: last_hint_index_notin)
  qed
qed simp

text \<open>
  Editing a stored scenario misses the first table entry: \<open>HintRscList_remove\<close> and
  \<open>HintRscList_modify\<close> test \<open>idx_hint > 0\<close>, so for a hint whose only entry is at index 0
  (\<open>INTERACTION\<close> in the shipped table) they return the table unchanged, while
  \<open>getHintRscListParam\<close> tests \<open>!idx_hint\<close> and answers \<open>-1\<close> for every hint found at a
  later index.
\<close>

theorem hint_edit_first_entry:
  assumes "tbl = e # es" "h = hintId e" "h \<notin> hintId ` set es"
  shows "HintRscList_remove tbl h cmd = Some tbl \<and> HintRscList_modify tbl h cmd v = Some tbl \<and>
    (\<forall>h' \<in> hintId ` set es. getHintRscListParam tbl h' cmd = Some (-1))"
proof (intro conjI ballI)
  have "last_hint_index tbl h 0 (-1) = 0" using assms by (simp add: last_hint_index_notin)
  then show "HintRscList_remove tbl h cmd = Some tbl" "HintRscList_modify tbl h cmd v = Some tbl"
    by (simp_all add: HintRscList_remove_def HintRscList_modify_def)
  show "getHintRscListParam tbl h' cmd = Some (-1)" if "h' \<in> hintId ` set es" for h'
    using last_hint_index_in [OF that, of 1 0] assms(1) by (simp add: getHintRscListParam_def Let_def)
qed

theorem hint_edit_first_entry_witness:
  "HintRscList_modify [hint_entry 71 ''INTERACTION'', hint_entry 72 ''ML''] 71 5 6
     = Some [hint_entry 71 ''INTERACTION'', hint_entry 72 ''ML''] \<and>
   getHintRscListParam [hint_entry 71 ''INTERACTION'', hint_entry 72 ''ML''] 72 5 = Some (-1)"
  using hint_edit_first_entry [of _ "hint_entry 71 ''INTERACTION''" "[hint_entry 72 ''ML'']" 71 5 6]
  by (simp add: hint_entry_def)

end
