(* ===== verification/Perf_State.thy ===== *)
theory Perf_State
  imports Hint_Table
begin

text \<open>
  The data of the performance service (\<^verbatim>\<open>perfservice.h\<close>, \<^verbatim>\<open>perfservice_types.h\<close>,
  the globals of \<^verbatim>\<open>perfservice.cpp\<close>) and the operations that act on one scenario
  node: \<open>resetScenario\<close>, \<open>cmdSetting\<close>, \<open>GetScnName\<close>, the handle allocator and the
  handle lookup, and the load of the resource control table.

  C arrays are lists of the array's length: \<open>ptScnList\<close> has \<open>REG_SCN_MAX\<close> nodes
  (\<open>nPackNum\<close> and \<open>nUserScnBase\<close> are 0 and never written), \<open>tConTable\<close> has
  \<open>FIELD_SIZE\<close> entries and \<open>gRscCtlTbl\<close> has as many as \<open>RscCfgTbl\<close>. A call through a
  function pointer of the resource table, a write to a kernel node and the other calls
  that leave the service are appended to \<open>acts\<close> in the order the code makes them.
\<close>

section \<open>Data\<close>

abbreviation (input) PRIORITY_HIGHEST :: int where "PRIORITY_HIGHEST \<equiv> 0"
abbreviation (input) PRIORITY_LOWEST :: int where "PRIORITY_LOWEST \<equiv> 6"
abbreviation (input) NORMAL_PRIORITY :: int where "NORMAL_PRIORITY \<equiv> 3"
abbreviation (input) MODE_PRIORITY :: int where "MODE_PRIORITY \<equiv> 6"
abbreviation (input) RSC_TBL_INVALID_VALUE :: int where "RSC_TBL_INVALID_VALUE \<equiv> -123456"
abbreviation (input) PACK_NAME_MAX :: nat where "PACK_NAME_MAX \<equiv> 128"
abbreviation (input) HANDLE_RAND_MAX :: int where "HANDLE_RAND_MAX \<equiv> 2147483645"
abbreviation (input) USER_DURATION_MAX :: int where "USER_DURATION_MAX \<equiv> 30000"
abbreviation (input) REG_SCN_MAX :: nat where "REG_SCN_MAX \<equiv> 256"

abbreviation (input) SCN_POWER_HINT :: int where "SCN_POWER_HINT \<equiv> 0"
abbreviation (input) SCN_CUS_POWER_HINT :: int where "SCN_CUS_POWER_HINT \<equiv> 1"
abbreviation (input) SCN_USER_HINT :: int where "SCN_USER_HINT \<equiv> 2"
abbreviation (input) SCN_PERF_LOCK_HINT :: int where "SCN_PERF_LOCK_HINT \<equiv> 3"
abbreviation (input) SCN_PACK_HINT :: int where "SCN_PACK_HINT \<equiv> 4"

abbreviation (input) MTKPOWER_SCREEN_OFF_DISABLE :: int where "MTKPOWER_SCREEN_OFF_DISABLE \<equiv> 0"
abbreviation (input) MTKPOWER_SCREEN_OFF_ENABLE :: int where "MTKPOWER_SCREEN_OFF_ENABLE \<equiv> 1"
abbreviation (input) MTKPOWER_SCREEN_OFF_WAIT_RESTORE :: int where "MTKPOWER_SCREEN_OFF_WAIT_RESTORE \<equiv> 2"
abbreviation (input) MTKPOWER_SCREEN_OFF_ALWAYS_VALID :: int where "MTKPOWER_SCREEN_OFF_ALWAYS_VALID \<equiv> 3"

datatype scn_state = STATE_OFF | STATE_ON | STATE_WAIT_RESTORE

datatype rsc_comp = ONESHOT | BIGGEST | SMALLEST

record tScnNode =
  handle_idx :: int
  scn_type :: int
  scn_state :: scn_state
  pack_name :: string
  act_name :: string
  sbe_featurename :: string
  fps :: string
  window_mode :: string
  render_pid :: int
  hint_hold_time :: int
  ext_hint :: int
  ext_hint_hold_time :: int
  launch_time_cold :: int
  launch_time_warm :: int
  act_switch_time :: int
  screen_off_action :: int
  pid :: int
  tid :: int
  scn_rsc :: "int list"
  scn_prev_rsc :: "int list"
  scn_param :: "int list"
  comm :: string
  cus_lock_hint :: int
  lock_duration :: int
  scn_lock_rsc_size :: int
  priority :: int
  oneshotReset :: bool
  hasReset :: bool
  timestamp :: string

record tScnConTable =
  c_cmdName :: string
  c_cmdID :: int
  c_legacyCmdID :: int
  c_entry :: string
  c_defaultVal :: int
  c_curVal :: int
  c_comp :: string
  c_maxVal :: int
  c_minVal :: int
  c_resetVal :: int
  c_isValid :: int
  c_ignore :: int
  c_init_set_default :: int
  c_prefix :: string
  c_priority :: int

text \<open>\<open>tRscConfig\<close>: a function pointer is the function's name, \<open>NULL\<close> is \<open>None\<close>.\<close>

record tRscConfig =
  cmdID :: int
  cmdName :: string
  comp :: rsc_comp
  maxVal :: int
  minVal :: int
  defaultVal :: int
  set_func :: "string option"
  unset_func :: "string option"
  init_func :: "string option"

record tRscCtlEntry =
  r_curVal :: int
  r_curSetter :: int
  r_curSetterName :: string
  r_curSetterHint :: int
  r_log :: int
  r_isValid :: int
  r_resetVal :: int
  r_priority :: int

datatype action =
    Init_func string int              \<comment> \<open>\<open>init_func(power_on_init)\<close>\<close>
  | Set_func string int nat           \<comment> \<open>\<open>set_func(value, &ptScnList[scn])\<close>\<close>
  | Unset_func string int nat
  | Write_node string string          \<comment> \<open>\<open>set_value(path, text)\<close>\<close>
  | Render_pid int nat                \<comment> \<open>\<open>set_fpsgo_render_pid(pid, &ptScnList[scn])\<close>\<close>
  | Record_cpu_freq int               \<comment> \<open>\<open>recordCPUFreqInfo(scenario)\<close>\<close>
  | Mbrain_game_mode int
  | Dump_all int
  | Aee_warning string
  | Notify string string              \<comment> \<open>a call into another module, with its text argument\<close>

record perf =
  nIsReady :: bool
  nPowerLibEnable :: int
  ptScnList :: "tScnNode list"
  tConTable :: "tScnConTable list"
  RscCfgTbl :: "tRscConfig list"
  gRscCtlTbl :: "tRscCtlEntry list"
  PowerScnTbl :: "tHintMap list"
  user_handle_now :: int
  install_max_duration :: int
  powerhalAPI_status :: "int list"
  mode_status :: "int list"
  mInteractive :: int
  mInteractiveControl :: int
  scnCheckSupport :: int
  game_mode_pid :: int
  notifyGbePid :: int
  video_mode_pid :: int
  camera_mode_pid :: int
  fg_uid :: int
  fg_pid :: int
  isMbrainSupport :: int
  SmartLaunchInfo :: "(string \<times> int) list"
  acts :: "action list"

abbreviation add_act :: "action \<Rightarrow> perf \<Rightarrow> perf" where
  "add_act a st \<equiv> st\<lparr>acts := acts st @ [a]\<rparr>"

abbreviation upd_scn :: "nat \<Rightarrow> (tScnNode \<Rightarrow> tScnNode) \<Rightarrow> perf \<Rightarrow> perf" where
  "upd_scn i f st \<equiv> st\<lparr>ptScnList := (ptScnList st)[i := f (ptScnList st ! i)]\<rparr>"

section \<open>Names and guards\<close>

definition set_str_cpy :: "string \<Rightarrow> nat \<Rightarrow> string" where
  "set_str_cpy src desc_max_size =
     (if length src < desc_max_size then src else take (desc_max_size - 1) src)"

definition checkSuccess :: "perf \<Rightarrow> int \<Rightarrow> bool" where
  "checkSuccess st scenario \<longleftrightarrow>
     nPowerLibEnable st \<noteq> 0 \<and> 0 \<le> scenario \<and> nat scenario < length (ptScnList st)"

definition GetScnName :: "perf \<Rightarrow> nat \<Rightarrow> string" where
  "GetScnName st scn =
     (let s = ptScnList st ! scn in
      if scn_type s = SCN_POWER_HINT then set_str_cpy (comm s) PACK_NAME_MAX
      else if scn_type s = SCN_PERF_LOCK_HINT then set_str_cpy (comm s) PACK_NAME_MAX
      else if scn_type s = SCN_PACK_HINT then set_str_cpy (pack_name s) PACK_NAME_MAX
      else if scn_type s = SCN_CUS_POWER_HINT
        then take PACK_NAME_MAX (getHintName (PowerScnTbl st) (cus_lock_hint s))
      else set_str_cpy (comm s) PACK_NAME_MAX)"

section \<open>resetScenario\<close>

definition resetScenario_all :: "tScnNode \<Rightarrow> tScnNode" where
  "resetScenario_all s = s\<lparr>pack_name := '''', handle_idx := -1, scn_type := -1,
     scn_state := STATE_OFF, pid := -1, tid := -1, comm := ''   '', scn_lock_rsc_size := 0,
     lock_duration := 0, launch_time_cold := 0, launch_time_warm := 0, act_switch_time := 0,
     hint_hold_time := 0, ext_hint := 0, ext_hint_hold_time := 0, cus_lock_hint := -1,
     priority := NORMAL_PRIORITY, oneshotReset := False, timestamp := ''''\<rparr>"

definition resetScenario :: "perf \<Rightarrow> nat \<Rightarrow> bool \<Rightarrow> perf" where
  "resetScenario st handle reset_all =
     upd_scn handle (\<lambda>s0.
       let s = (if reset_all then resetScenario_all s0 else s0);
           s1 = s\<lparr>screen_off_action := MTKPOWER_SCREEN_OFF_DISABLE, render_pid := -1,
                  scn_param := map c_resetVal (tConTable st)\<rparr>
       in s1\<lparr>scn_prev_rsc := (if reset_all then map r_resetVal (gRscCtlTbl st) else scn_rsc s1),
             scn_rsc := map r_resetVal (gRscCtlTbl st)\<rparr>) st"

section \<open>cmdSetting\<close>

abbreviation (input) PERF_RES_FPS_FPSGO_RENDER_PID :: int where "PERF_RES_FPS_FPSGO_RENDER_PID \<equiv> 0x02000500"
abbreviation (input) PERF_RES_POWERHAL_SCREEN_OFF_STATE :: int where "PERF_RES_POWERHAL_SCREEN_OFF_STATE \<equiv> 0x03400000"
abbreviation PERF_RES_POWERHAL_WHITELIST_APP_LAUNCH_TIME_COLD :: int
  where "PERF_RES_POWERHAL_WHITELIST_APP_LAUNCH_TIME_COLD \<equiv> 0x0340c000"
abbreviation PERF_RES_POWERHAL_WHITELIST_APP_LAUNCH_TIME_WARM :: int
  where "PERF_RES_POWERHAL_WHITELIST_APP_LAUNCH_TIME_WARM \<equiv> 0x0340c100"
abbreviation PERF_RES_POWERHAL_WHITELIST_ACT_SWITCH_TIME :: int
  where "PERF_RES_POWERHAL_WHITELIST_ACT_SWITCH_TIME \<equiv> 0x0340c200"
abbreviation (input) PERF_RES_POWER_HINT_HOLD_TIME :: int where "PERF_RES_POWER_HINT_HOLD_TIME \<equiv> 0x03410000"
abbreviation (input) PERF_RES_POWER_HINT_EXT_HINT :: int where "PERF_RES_POWER_HINT_EXT_HINT \<equiv> 0x03410100"
abbreviation PERF_RES_POWER_HINT_EXT_HINT_HOLD_TIME :: int
  where "PERF_RES_POWER_HINT_EXT_HINT_HOLD_TIME \<equiv> 0x03410200"
abbreviation PERF_RES_POWER_HINT_INSTALL_MAX_DURATION :: int
  where "PERF_RES_POWER_HINT_INSTALL_MAX_DURATION \<equiv> 0x03410400"
abbreviation PERF_RES_POWER_HINT_EXT_HINT_FOR_GAME :: int
  where "PERF_RES_POWER_HINT_EXT_HINT_FOR_GAME \<equiv> 0x03410500"
abbreviation (input) PERF_RES_POWERHAL_PRIORITY :: int where "PERF_RES_POWERHAL_PRIORITY \<equiv> 0x0341c000"
abbreviation (input) PERF_RES_POWERHAL_ONESHOT_RESET :: int where "PERF_RES_POWERHAL_ONESHOT_RESET \<equiv> 0x03424000"

text \<open>\<^verbatim>\<open>((icmd == -1) && !strcmp(scmd, name)) || icmd == id\<close>.\<close>

definition cmd_is :: "int \<Rightarrow> string \<Rightarrow> string \<Rightarrow> int \<Rightarrow> bool" where
  "cmd_is icmd scmd name i \<longleftrightarrow> (icmd = -1 \<and> scmd = name) \<or> icmd = i"

text \<open>The commands that set a field of the node: the new node, the new state and the id.\<close>

definition cmdSetting_special ::
  "perf \<Rightarrow> int \<Rightarrow> string \<Rightarrow> tScnNode \<Rightarrow> int \<Rightarrow> (tScnNode \<times> perf \<times> int) option" where
  "cmdSetting_special st icmd scmd s p =
    (if cmd_is icmd scmd ''PERF_RES_FPS_FPSGO_RENDER_PID'' PERF_RES_FPS_FPSGO_RENDER_PID
     then Some (s\<lparr>render_pid := p\<rparr>, st, PERF_RES_FPS_FPSGO_RENDER_PID)
     else if cmd_is icmd scmd ''PERF_RES_POWERHAL_SCREEN_OFF_STATE'' PERF_RES_POWERHAL_SCREEN_OFF_STATE
     then Some (s\<lparr>screen_off_action := p\<rparr>, st, PERF_RES_POWERHAL_SCREEN_OFF_STATE)
     else if cmd_is icmd scmd ''PERF_RES_POWERHAL_WHITELIST_APP_LAUNCH_TIME_COLD''
               PERF_RES_POWERHAL_WHITELIST_APP_LAUNCH_TIME_COLD
     then Some (s\<lparr>launch_time_cold := (if p \<ge> 0 then p else -1)\<rparr>, st,
                PERF_RES_POWERHAL_WHITELIST_APP_LAUNCH_TIME_COLD)
     else if cmd_is icmd scmd ''PERF_RES_POWERHAL_WHITELIST_APP_LAUNCH_TIME_WARM''
               PERF_RES_POWERHAL_WHITELIST_APP_LAUNCH_TIME_WARM
     then Some (s\<lparr>launch_time_warm := (if p \<ge> 0 then p else -1)\<rparr>, st,
                PERF_RES_POWERHAL_WHITELIST_APP_LAUNCH_TIME_WARM)
     else if cmd_is icmd scmd ''PERF_RES_POWERHAL_WHITELIST_ACT_SWITCH_TIME''
               PERF_RES_POWERHAL_WHITELIST_ACT_SWITCH_TIME
     then Some (s\<lparr>act_switch_time := (if p \<ge> 0 then p else -1)\<rparr>, st,
                PERF_RES_POWERHAL_WHITELIST_ACT_SWITCH_TIME)
     else if cmd_is icmd scmd ''PERF_RES_POWER_HINT_EXT_HINT'' PERF_RES_POWER_HINT_EXT_HINT
     then Some (s\<lparr>ext_hint := (if p > 0 then p else 0)\<rparr>, st, PERF_RES_POWER_HINT_EXT_HINT)
     else if cmd_is icmd scmd ''PERF_RES_POWER_HINT_EXT_HINT_HOLD_TIME'' PERF_RES_POWER_HINT_EXT_HINT_HOLD_TIME
     then Some (s\<lparr>ext_hint_hold_time := (if p > 0 then p else 0)\<rparr>, st,
                PERF_RES_POWER_HINT_EXT_HINT_HOLD_TIME)
     else if cmd_is icmd scmd ''PERF_RES_POWER_HINT_EXT_HINT_FOR_GAME'' PERF_RES_POWER_HINT_EXT_HINT_FOR_GAME
     then Some (s\<lparr>ext_hint := (if p > 0 then p else 0)\<rparr>, st, PERF_RES_POWER_HINT_EXT_HINT_FOR_GAME)
     else if cmd_is icmd scmd ''PERF_RES_POWER_HINT_HOLD_TIME'' PERF_RES_POWER_HINT_HOLD_TIME
     then Some (s\<lparr>hint_hold_time := (if p > 0 then p else 0)\<rparr>, st, PERF_RES_POWER_HINT_HOLD_TIME)
     else if cmd_is icmd scmd ''PERF_RES_POWER_HINT_INSTALL_MAX_DURATION'' PERF_RES_POWER_HINT_INSTALL_MAX_DURATION
     then Some (s, st\<lparr>install_max_duration := (if p > 0 then p else 0)\<rparr>,
                PERF_RES_POWER_HINT_INSTALL_MAX_DURATION)
     else if cmd_is icmd scmd ''PERF_RES_POWERHAL_PRIORITY'' PERF_RES_POWERHAL_PRIORITY
     then Some (s\<lparr>priority := p, oneshotReset := (oneshotReset s \<or> p = MODE_PRIORITY)\<rparr>, st,
                PERF_RES_POWERHAL_PRIORITY)
     else if cmd_is icmd scmd ''PERF_RES_POWERHAL_ONESHOT_RESET'' PERF_RES_POWERHAL_ONESHOT_RESET
     then Some (s\<lparr>oneshotReset := True\<rparr>, st, PERF_RES_POWERHAL_ONESHOT_RESET)
     else None)"

definition clamp_param :: "int \<Rightarrow> int \<Rightarrow> int \<Rightarrow> int" where
  "clamp_param lo hi p =
     (if p \<ge> lo \<and> p \<le> hi then p else if p < lo then lo else hi)"

text \<open>One round of the two table scans; \<open>icmd\<close> becomes the id of the entry that matched.\<close>

definition cmdSetting_con :: "perf \<Rightarrow> string \<Rightarrow> int \<Rightarrow> nat \<Rightarrow> int \<times> tScnNode \<times> int \<Rightarrow> int \<times> tScnNode \<times> int" where
  "cmdSetting_con st scmd p idx = (\<lambda>(icmd, s, ret).
     let c = tConTable st ! idx in
     if cmd_is icmd scmd (c_cmdName c) (c_cmdID c)
     then (c_cmdID c, s\<lparr>scn_param := (scn_param s)[idx := clamp_param (c_minVal c) (c_maxVal c) p]\<rparr>, 0)
     else (icmd, s, ret))"

definition cmdSetting_rsc :: "perf \<Rightarrow> string \<Rightarrow> int \<Rightarrow> nat \<Rightarrow> int \<times> tScnNode \<times> int \<Rightarrow> int \<times> tScnNode \<times> int" where
  "cmdSetting_rsc st scmd p idx = (\<lambda>(icmd, s, ret).
     let r = RscCfgTbl st ! idx in
     if cmd_is icmd scmd (cmdName r) (cmdID r)
     then (cmdID r, s\<lparr>scn_rsc := (scn_rsc s)[idx := clamp_param (minVal r) (maxVal r) p]\<rparr>, 0)
     else (icmd, s, ret))"

text \<open>\<open>cmdSetting\<close>: return value, new node, new state, and what is stored in \<open>*rsc_id\<close>.\<close>

definition cmdSetting ::
  "perf \<Rightarrow> int \<Rightarrow> string option \<Rightarrow> tScnNode \<Rightarrow> int \<Rightarrow> int \<times> tScnNode \<times> perf \<times> int option" where
  "cmdSetting st icmd scmd s p =
    (if icmd < 0 \<and> scmd = None then (-1, s, st, None)
     else
       let name = (case scmd of None \<Rightarrow> '''' | Some n \<Rightarrow> n) in
       case cmdSetting_special st icmd name s p of
         Some (s', st', i) \<Rightarrow> (0, s', st', Some i)
       | None \<Rightarrow>
          (let x = fold (cmdSetting_con st name p) [0..<length (tConTable st)] (icmd, s, -1);
               (icmd', s', ret) = fold (cmdSetting_rsc st name p) [0..<length (RscCfgTbl st)] x
           in (ret, s', st, Some icmd')))"

section \<open>Handles\<close>

definition allocNewHandleNum :: "perf \<Rightarrow> int \<times> perf" where
  "allocNewHandleNum st =
     (let h = (user_handle_now st + 1) mod HANDLE_RAND_MAX;
          h' = (if h = 0 then h + 1 else h)
      in (h', st\<lparr>user_handle_now := h'\<rparr>))"

definition is_user_scn :: "tScnNode \<Rightarrow> bool" where
  "is_user_scn s \<longleftrightarrow> scn_type s = SCN_USER_HINT \<or> scn_type s = SCN_CUS_POWER_HINT \<or>
     scn_type s = SCN_PERF_LOCK_HINT"

fun find_handle_from :: "tScnNode list \<Rightarrow> int \<Rightarrow> nat \<Rightarrow> int" where
  "find_handle_from [] handle i = -1"
| "find_handle_from (s # ss) handle i =
     (if is_user_scn s \<and> handle = handle_idx s then int i else find_handle_from ss handle (Suc i))"

definition findHandleToIndex :: "perf \<Rightarrow> int \<Rightarrow> int" where
  "findHandleToIndex st handle =
     (if handle \<le> 0 then -1 else find_handle_from (ptScnList st) handle 0)"

section \<open>Loading the resource control table\<close>

definition rsc_reset_value :: "tRscConfig \<Rightarrow> int" where
  "rsc_reset_value r = (if comp r = SMALLEST then c_int (maxVal r + 1)
     else if comp r = BIGGEST then c_int (minVal r - 1) else RSC_TBL_INVALID_VALUE)"

definition loadRscTable_entry :: "tRscConfig \<Rightarrow> tRscCtlEntry" where
  "loadRscTable_entry r = \<lparr>r_curVal = rsc_reset_value r, r_curSetter = -1, r_curSetterName = ''-1'',
     r_curSetterHint = -1, r_log = 1, r_isValid = 1, r_resetVal = rsc_reset_value r,
     r_priority = PRIORITY_LOWEST\<rparr>"

definition loadRscTable :: "perf \<Rightarrow> int \<Rightarrow> perf" where
  "loadRscTable st power_on_init =
     st\<lparr>gRscCtlTbl := map loadRscTable_entry (RscCfgTbl st),
        acts := acts st @ concat (map (\<lambda>r. case init_func r of None \<Rightarrow> []
                    | Some f \<Rightarrow> [Init_func f power_on_init]) (RscCfgTbl st))\<rparr>"

end
