(* ===== verification/Arbiter.thy ===== *)
theory Arbiter
  imports Perf_State
begin

text \<open>
  The arbitration engine of \<^verbatim>\<open>perfservice.cpp\<close>: \<open>perfScnEnable\<close>, which turns a
  scenario on and lets its requests compete with the current settings, and
  \<open>perfScnUpdate\<close>, which turns it off (or re-applies it) and recomputes every setting
  it may have decided. Each is two loops, one over the node table \<open>tConTable\<close> and one
  over the resource table \<open>RscCfgTbl\<close>; the body of each loop is a definition of its own.
\<close>

section \<open>Shared pieces of the loop bodies\<close>

text \<open>The text written to a node: \<open>set_value(entry, v)\<close>, or the 64-byte buffer with the prefix.\<close>

definition con_write :: "tScnConTable \<Rightarrow> int \<Rightarrow> action list" where
  "con_write c v =
     (if c_entry c = '''' then []
      else if c_prefix c = '''' then [Write_node (c_entry c) (show_int v)]
      else [Write_node (c_entry c) (snprintf_s 64 (c_prefix c @ show_int v))])"

definition con_better :: "tScnConTable \<Rightarrow> int \<Rightarrow> int \<Rightarrow> bool" where
  "con_better c a b = (if c_comp c = ''less'' then a < b else a > b)"

definition rsc_better :: "tRscConfig \<Rightarrow> int \<Rightarrow> int \<Rightarrow> bool" where
  "rsc_better r a b = (if comp r = SMALLEST then a < b else a > b)"

definition call_set :: "tRscConfig \<Rightarrow> int \<Rightarrow> nat \<Rightarrow> action" where
  "call_set r v scn = Set_func (the (set_func r)) v scn"

definition call_unset :: "tRscConfig \<Rightarrow> int \<Rightarrow> nat \<Rightarrow> action" where
  "call_unset r v scn = Unset_func (the (unset_func r)) v scn"

text \<open>
  The loop over the resource table leaves at the first entry without a set or an unset
  function.
\<close>

definition rsc_has_funcs :: "tRscConfig \<Rightarrow> bool" where
  "rsc_has_funcs r \<longleftrightarrow> set_func r \<noteq> None \<and> unset_func r \<noteq> None"

fun rsc_loop :: "(nat \<Rightarrow> perf \<Rightarrow> perf) \<Rightarrow> nat list \<Rightarrow> perf \<Rightarrow> perf" where
  "rsc_loop body [] st = st"
| "rsc_loop body (idx # is) st =
     (if rsc_has_funcs (RscCfgTbl st ! idx) then rsc_loop body is (body idx st) else st)"

section \<open>perfScnEnable\<close>

definition pe_con_fires :: "tScnNode \<Rightarrow> int \<Rightarrow> tScnConTable \<Rightarrow> bool" where
  "pe_con_fires s v c \<longleftrightarrow> c_isValid c \<noteq> -1 \<and> \<not> priority s > c_priority c \<and>
     (con_better c v (c_curVal c) \<and> priority s = c_priority c \<or>
      priority s < c_priority c \<and> v \<noteq> c_resetVal c)"

definition pe_con :: "nat \<Rightarrow> nat \<Rightarrow> perf \<Rightarrow> perf" where
  "pe_con scn idx st =
     (let s = ptScnList st ! scn; c = tConTable st ! idx; v = scn_param s ! idx
      in if pe_con_fires s v c
         then st\<lparr>tConTable := (tConTable st)[idx := c\<lparr>c_curVal := v, c_priority := priority s\<rparr>],
                 acts := acts st @ con_write c v\<rparr>
         else st)"

definition pe_rsc_fires :: "tScnNode \<Rightarrow> int \<Rightarrow> tRscConfig \<Rightarrow> tRscCtlEntry \<Rightarrow> bool" where
  "pe_rsc_fires s v r e \<longleftrightarrow>
     rsc_better r v (r_curVal e) \<and> priority s = r_priority e \<or>
     priority s < r_priority e \<and> v \<noteq> r_resetVal e"

definition pe_rsc_level :: "nat \<Rightarrow> string \<Rightarrow> nat \<Rightarrow> perf \<Rightarrow> perf" where
  "pe_rsc_level scn name idx st =
     (let s = ptScnList st ! scn; r = RscCfgTbl st ! idx; e = gRscCtlTbl st ! idx; v = scn_rsc s ! idx
      in if pe_rsc_fires s v r e
         then st\<lparr>gRscCtlTbl := (gRscCtlTbl st)[idx := e\<lparr>r_curVal := v, r_curSetter := pid s,
                   r_curSetterName := name, r_curSetterHint := cus_lock_hint s,
                   r_priority := priority s\<rparr>],
                 acts := acts st @ [call_set r v scn]\<rparr>
         else st)"

text \<open>The inner loop of the one-shot branch: lower scenarios are unset first.\<close>

definition pe_oneshot_unset :: "nat \<Rightarrow> nat \<Rightarrow> nat \<Rightarrow> bool \<times> perf \<Rightarrow> bool \<times> perf" where
  "pe_oneshot_unset scn idx i = (\<lambda>(unsetCheck, st).
     let s = ptScnList st ! i; r = RscCfgTbl st ! idx; e = gRscCtlTbl st ! idx
     in if scn \<noteq> i \<and> scn_state s = STATE_ON \<and> priority (ptScnList st ! scn) < r_priority e \<and>
           oneshotReset s \<and> scn_rsc s ! idx \<noteq> r_resetVal e
        then (True, (upd_scn i (\<lambda>s. s\<lparr>hasReset := False\<rparr>) st)
                \<lparr>acts := acts st @ [Render_pid (render_pid s) i, call_unset r (scn_rsc s ! idx) i]\<rparr>)
        else (unsetCheck, st))"

definition pe_rsc_oneshot :: "nat \<Rightarrow> nat \<Rightarrow> perf \<Rightarrow> perf" where
  "pe_rsc_oneshot scn idx st =
     (let s = ptScnList st ! scn; r = RscCfgTbl st ! idx; e = gRscCtlTbl st ! idx; v = scn_rsc s ! idx
      in if v \<noteq> r_resetVal e \<and> priority s \<le> r_priority e then
           (let (unsetCheck, st1) =
                  fold (pe_oneshot_unset scn idx) [0..<length (ptScnList st)] (False, st);
                st2 = (if unsetCheck then add_act (Render_pid (render_pid s) scn) st1 else st1)
            in st2\<lparr>gRscCtlTbl := (gRscCtlTbl st2)[idx := e\<lparr>r_curVal := v, r_priority := priority s\<rparr>],
                   acts := acts st2 @ [call_set r v scn]\<rparr>)
         else st)"

definition pe_rsc :: "nat \<Rightarrow> string \<Rightarrow> nat \<Rightarrow> perf \<Rightarrow> perf" where
  "pe_rsc scn name idx st =
     (let r = RscCfgTbl st ! idx; e = gRscCtlTbl st ! idx
      in if r_isValid e \<noteq> 1 then st
         else if priority (ptScnList st ! scn) > r_priority e then st
         else if comp r = ONESHOT then pe_rsc_oneshot scn idx st
         else pe_rsc_level scn name idx st)"

definition perfScnEnable :: "perf \<Rightarrow> int \<Rightarrow> perf" where
  "perfScnEnable st scenario =
     add_act (Record_cpu_freq scenario)
       (if checkSuccess st scenario then
          (let scn = nat scenario;
               name = GetScnName st scn;
               st1 = upd_scn scn (\<lambda>s. s\<lparr>scn_state := STATE_ON\<rparr>) st;
               st2 = fold (pe_con scn) [0..<length (tConTable st1)] st1;
               st3 = add_act (Render_pid (render_pid (ptScnList st2 ! scn)) scn) st2
           in rsc_loop (pe_rsc scn name) [0..<length (RscCfgTbl st3)] st3)
        else st)"

section \<open>perfScnUpdate\<close>

text \<open>The scan of the scenarios that are on, for one node: value and priority to set.\<close>

fun con_scan :: "(int \<Rightarrow> int \<Rightarrow> bool) \<Rightarrow> int \<Rightarrow> nat \<Rightarrow> tScnNode list \<Rightarrow> int \<times> int \<Rightarrow> int \<times> int" where
  "con_scan better reset idx [] np = np"
| "con_scan better reset idx (s # ss) (num, pr) =
     con_scan better reset idx ss
       (if scn_state s = STATE_ON \<and> scn_param s ! idx \<noteq> reset then
          (if priority s = pr then (if better num (scn_param s ! idx) then num else scn_param s ! idx, pr)
           else if priority s < pr then (scn_param s ! idx, priority s) else (num, pr))
        else (num, pr))"

definition pu_con_fires :: "bool \<Rightarrow> tScnNode \<Rightarrow> int \<Rightarrow> tScnConTable \<Rightarrow> bool" where
  "pu_con_fires force_update s v c \<longleftrightarrow> c_isValid c \<noteq> -1 \<and> \<not> priority s > c_priority c \<and>
     (force_update \<or> con_better c v (c_resetVal c) \<and> \<not> con_better c (c_curVal c) v)"

definition pu_con :: "bool \<Rightarrow> nat \<Rightarrow> nat \<Rightarrow> perf \<Rightarrow> perf" where
  "pu_con force_update scn idx st =
     (let s = ptScnList st ! scn; c = tConTable st ! idx; v = scn_param s ! idx
      in if pu_con_fires force_update s v c then
           (let (numToSet, pr) = con_scan (con_better c) (c_resetVal c) idx (ptScnList st)
                                   (c_resetVal c, PRIORITY_LOWEST);
                c' = c\<lparr>c_curVal := numToSet, c_priority := pr\<rparr>
            in st\<lparr>tConTable := (tConTable st)[idx := c'],
                  acts := acts st @
                    (if numToSet \<noteq> c_curVal c
                     then con_write c' (if numToSet = c_resetVal c then c_defaultVal c else numToSet)
                     else [])\<rparr>)
         else st)"

text \<open>The scan for one resource also records who set the value.\<close>

record rsc_choice =
  ch_num :: int
  ch_pr :: int
  ch_setter :: int
  ch_setterName :: string
  ch_setterHint :: int

definition rsc_scan_step :: "perf \<Rightarrow> tRscConfig \<Rightarrow> int \<Rightarrow> nat \<Rightarrow> nat \<Rightarrow> rsc_choice \<Rightarrow> rsc_choice" where
  "rsc_scan_step st r reset idx i ch =
     (let s = ptScnList st ! i; v = scn_rsc s ! idx
      in if scn_state s = STATE_ON \<and> rsc_better r v reset \<and>
            (priority s = ch_pr ch \<and> rsc_better r v (ch_num ch) \<or> priority s < ch_pr ch)
         then \<lparr>ch_num = v, ch_pr = priority s, ch_setter = pid s, ch_setterName = GetScnName st i,
               ch_setterHint = cus_lock_hint s\<rparr>
         else ch)"

definition pu_rsc_level :: "bool \<Rightarrow> nat \<Rightarrow> nat \<Rightarrow> perf \<Rightarrow> perf" where
  "pu_rsc_level force_update scn idx st =
     (let s = ptScnList st ! scn; r = RscCfgTbl st ! idx; e = gRscCtlTbl st ! idx;
          v = scn_rsc s ! idx; reset = r_resetVal e
      in if force_update \<or> rsc_better r v reset \<and> \<not> rsc_better r (r_curVal e) v then
           (let ch = fold (rsc_scan_step st r reset idx) [0..<length (ptScnList st)]
                  \<lparr>ch_num = reset, ch_pr = PRIORITY_LOWEST, ch_setter = r_curSetter e,
                   ch_setterName = r_curSetterName e, ch_setterHint = r_curSetterHint e\<rparr>;
                e1 = e\<lparr>r_curSetter := ch_setter ch, r_curSetterName := ch_setterName ch,
                       r_curSetterHint := ch_setterHint ch\<rparr>;
                e2 = (if ch_num ch = reset
                      then e1\<lparr>r_curSetter := -1, r_curSetterName := ''-1'', r_curSetterHint := -1\<rparr>
                      else e1);
                e3 = e2\<lparr>r_curVal := ch_num ch, r_priority := ch_pr ch\<rparr>
            in st\<lparr>gRscCtlTbl := (gRscCtlTbl st)[idx := e3],
                  acts := acts st @
                    (if ch_num ch \<noteq> r_curVal e
                     then [if ch_num ch = reset then call_unset r (defaultVal r) scn
                           else call_set r (ch_num ch) scn]
                     else [])\<rparr>)
         else st)"

fun oneshot_priority :: "nat \<Rightarrow> int \<Rightarrow> tScnNode list \<Rightarrow> int \<Rightarrow> int" where
  "oneshot_priority idx reset [] pr = pr"
| "oneshot_priority idx reset (s # ss) pr =
     oneshot_priority idx reset ss
       (if scn_state s = STATE_ON \<and> priority s \<le> pr \<and> scn_rsc s ! idx \<noteq> reset then priority s else pr)"

text \<open>The inner loop that re-applies lower scenarios after a one-shot setting is withdrawn.\<close>

definition pu_oneshot_reset :: "int \<Rightarrow> nat \<Rightarrow> nat \<Rightarrow> perf \<Rightarrow> perf" where
  "pu_oneshot_reset pr idx i st =
     (let s = ptScnList st ! i; r = RscCfgTbl st ! idx; e = gRscCtlTbl st ! idx; v = scn_rsc s ! idx
      in if scn_state s = STATE_ON \<and> oneshotReset s \<and> priority s = pr \<and> \<not> hasReset s \<and>
            v \<noteq> r_resetVal e \<and> v \<noteq> r_curVal e
         then (upd_scn i (\<lambda>s. s\<lparr>hasReset := True\<rparr>) st)
                \<lparr>gRscCtlTbl := (gRscCtlTbl st)[idx := e\<lparr>r_curVal := v\<rparr>],
                 acts := acts st @ [Render_pid (render_pid s) i, call_set r v i]\<rparr>
         else st)"

definition pu_oneshot_force :: "int \<Rightarrow> nat \<Rightarrow> nat \<Rightarrow> perf \<Rightarrow> perf" where
  "pu_oneshot_force pr scn idx st =
     (let s = ptScnList st ! scn; r = RscCfgTbl st ! idx; e = gRscCtlTbl st ! idx;
          v = scn_rsc s ! idx; prev = scn_prev_rsc s ! idx; reset = r_resetVal e;
          st1 = (if prev \<noteq> reset \<and> prev \<noteq> v then add_act (call_unset r prev scn) st else st)
      in if v \<noteq> reset \<and> v \<noteq> prev \<and> r_priority e = pr
         then st1\<lparr>gRscCtlTbl := (gRscCtlTbl st1)[idx := e\<lparr>r_curVal := v\<rparr>],
                  acts := acts st1 @ [call_set r v scn]\<rparr>
         else st1)"

definition pu_rsc_oneshot :: "bool \<Rightarrow> nat \<Rightarrow> nat \<Rightarrow> perf \<Rightarrow> perf" where
  "pu_rsc_oneshot force_update scn idx st =
     (let s = ptScnList st ! scn; r = RscCfgTbl st ! idx; e = gRscCtlTbl st ! idx;
          v = scn_rsc s ! idx;
          pr = oneshot_priority idx (r_resetVal e) (ptScnList st) PRIORITY_LOWEST
      in if force_update then pu_oneshot_force pr scn idx st
         else if v \<noteq> r_resetVal e then
           (let st1 = st\<lparr>gRscCtlTbl := (gRscCtlTbl st)[idx := e\<lparr>r_priority := pr\<rparr>],
                         acts := acts st @ [call_unset r v scn]\<rparr>;
                st2 = fold (pu_oneshot_reset pr idx) [0..<length (ptScnList st1)] st1
            in add_act (Render_pid (render_pid s) scn) st2)
         else st)"

definition pu_rsc :: "bool \<Rightarrow> nat \<Rightarrow> nat \<Rightarrow> perf \<Rightarrow> perf" where
  "pu_rsc force_update scn idx st =
     (let r = RscCfgTbl st ! idx; e = gRscCtlTbl st ! idx
      in if r_isValid e \<noteq> 1 then st
         else if priority (ptScnList st ! scn) > r_priority e then st
         else if comp r = ONESHOT then pu_rsc_oneshot force_update scn idx st
         else pu_rsc_level force_update scn idx st)"

definition perfScnUpdate :: "perf \<Rightarrow> int \<Rightarrow> bool \<Rightarrow> perf" where
  "perfScnUpdate st scenario force_update =
     (if checkSuccess st scenario then
        (if scn_state (ptScnList st ! nat scenario) = STATE_OFF then st
         else
          (let scn = nat scenario;
               st1 = (if force_update then st
                      else upd_scn scn (\<lambda>s. s\<lparr>scn_state := STATE_OFF\<rparr>) st);
               st2 = fold (pu_con force_update scn) [0..<length (tConTable st1)] st1;
               st3 = add_act (Render_pid (render_pid (ptScnList st2 ! scn)) scn) st2;
               st4 = rsc_loop (pu_rsc force_update scn) [0..<length (RscCfgTbl st3)] st3
           in add_act (Record_cpu_freq scenario) st4))
      else add_act (Record_cpu_freq scenario) st)"

definition perfScnDisable :: "perf \<Rightarrow> int \<Rightarrow> perf" where
  "perfScnDisable st scenario = perfScnUpdate st scenario False"

end
