(* ===== verification/Arbiter_Inv.thy ===== *)
theory Arbiter_Inv
  imports Arbiter
begin

text \<open>
  What the arbitration engine guarantees. A candidate is a scenario that is on, asks
  for a value other than the reset value and has a priority the table can hold. The
  contract: the current value and priority of an entry are those of the best candidate
  (smallest priority number first, then the better value), or the reset value and the
  lowest priority if there is none. The locale proves this for any strict linear order
  on values; it is interpreted for both comparison directions of the tables.
\<close>

section \<open>The contract of arbitration\<close>

definition arb :: "(int \<Rightarrow> int \<Rightarrow> bool) \<Rightarrow> int \<Rightarrow> (int \<times> int) set \<Rightarrow> int \<Rightarrow> int \<Rightarrow> bool" where
  "arb better reset C num pr \<longleftrightarrow>
     (if C = {} then num = reset \<and> pr = PRIORITY_LOWEST
      else (pr, num) \<in> C \<and> (\<forall>(p, v) \<in> C. pr \<le> p \<and> (p = pr \<longrightarrow> \<not> better v num)))"

text \<open>Candidates all have a value better than the reset value and a priority in range.\<close>

definition cands_ok :: "(int \<Rightarrow> int \<Rightarrow> bool) \<Rightarrow> int \<Rightarrow> (int \<times> int) set \<Rightarrow> bool" where
  "cands_ok better reset C \<longleftrightarrow> (\<forall>(p, v) \<in> C. better v reset \<and> p \<le> PRIORITY_LOWEST)"

text \<open>One step of the recomputation over the candidates in table order.\<close>

definition arb_step :: "(int \<Rightarrow> int \<Rightarrow> bool) \<Rightarrow> int \<times> int \<Rightarrow> int \<times> int \<Rightarrow> int \<times> int" where
  "arb_step better = (\<lambda>(p, v) (num, pr).
     if p = pr \<and> better v num \<or> p < pr then (v, p) else (num, pr))"

locale arbitration =
  fixes better :: "int \<Rightarrow> int \<Rightarrow> bool"
  assumes irrefl: "\<not> better a a"
    and trans: "better a b \<Longrightarrow> better b c \<Longrightarrow> better a c"
    and total: "a \<noteq> b \<Longrightarrow> better a b \<or> better b a"
begin

lemma asym: "better a b \<Longrightarrow> \<not> better b a"
  using irrefl trans by blast

lemma not_better_trans: "\<not> better a b \<Longrightarrow> \<not> better b c \<Longrightarrow> \<not> better a c"
  using trans total by metis

lemma arb_unique:
  assumes "arb better reset C n p" "arb better reset C n' p'"
  shows "n = n' \<and> p = p'"
proof (cases "C = {}")
  case True
  with assms show ?thesis by (simp add: arb_def)
next
  case False
  with assms have "(p, n) \<in> C" and 1: "\<And>q w. (q, w) \<in> C \<Longrightarrow> p \<le> q \<and> (q = p \<longrightarrow> \<not> better w n)"
    and "(p', n') \<in> C" and 2: "\<And>q w. (q, w) \<in> C \<Longrightarrow> p' \<le> q \<and> (q = p' \<longrightarrow> \<not> better w n')"
    by (auto simp: arb_def)
  then have "p = p'" by (meson order_antisym)
  moreover from this 1 2 \<open>(p, n) \<in> C\<close> \<open>(p', n') \<in> C\<close> have "\<not> better n n'" "\<not> better n' n" by blast+
  ultimately show ?thesis using total by blast
qed

text \<open>A scenario is turned on: its request wins or the old setting stays.\<close>

lemma arb_insert:
  assumes "arb better reset C num pr" and "better v reset" "p \<le> PRIORITY_LOWEST" "cands_ok better reset C"
  shows "arb better reset (insert (p, v) C)
           (if p = pr \<and> better v num \<or> p < pr then v else num)
           (if p = pr \<and> better v num \<or> p < pr then p else pr)"
proof (cases "C = {}")
  case True
  with assms irrefl show ?thesis by (auto simp: arb_def)
next
  case False
  with assms(1) have *: "(pr, num) \<in> C" "\<And>q w. (q, w) \<in> C \<Longrightarrow> pr \<le> q \<and> (q = pr \<longrightarrow> \<not> better w num)"
    by (auto simp: arb_def)
  show ?thesis
  proof (cases "p = pr \<and> better v num \<or> p < pr")
    case True
    have "p \<le> q \<and> (q = p \<longrightarrow> \<not> better w v)" if "(q, w) \<in> C" for q w
      using True *(2) [OF that] trans [of w v num] by linarith
    with irrefl have "\<forall>(q, w) \<in> insert (p, v) C. p \<le> q \<and> (q = p \<longrightarrow> \<not> better w v)" by auto
    with True show ?thesis by (simp add: arb_def)
  next
    case False
    then have "\<forall>(q, w) \<in> insert (p, v) C. pr \<le> q \<and> (q = pr \<longrightarrow> \<not> better w num)"
      using * by auto
    with False *(1) show ?thesis by (auto simp: arb_def)
  qed
qed

text \<open>A scenario that did not decide the setting is turned off: the setting stays.\<close>

lemma arb_remove_other:
  assumes "arb better reset (insert (p, v) D) num pr" and "p > pr \<or> better num v"
  shows "arb better reset D num pr"
proof -
  have "(pr, num) \<noteq> (p, v)" using assms(2) irrefl by auto
  with assms(1) show ?thesis by (auto simp: arb_def split: if_splits)
qed

text \<open>Recomputing from scratch gives the contract.\<close>

lemma arb_scan:
  assumes "cands_ok better reset (set cs)"
  shows "(case fold (arb_step better) cs (reset, PRIORITY_LOWEST) of (num, pr) \<Rightarrow> arb better reset (set cs) num pr)"
  using assms
proof (induction cs rule: rev_induct)
  case Nil
  then show ?case by (simp add: arb_def)
next
  case (snoc c cs)
  obtain p v where c: "c = (p, v)" by force
  obtain num pr where f: "fold (arb_step better) cs (reset, PRIORITY_LOWEST) = (num, pr)" by force
  with snoc have "arb better reset (set cs) num pr" "cands_ok better reset (set cs)"
    by (auto simp: cands_ok_def)
  moreover from snoc.prems have "better v reset" "p \<le> PRIORITY_LOWEST"
    by (auto simp: c cands_ok_def)
  ultimately have "arb better reset (insert (p, v) (set cs))
      (if p = pr \<and> better v num \<or> p < pr then v else num) (if p = pr \<and> better v num \<or> p < pr then p else pr)"
    by (intro arb_insert)
  moreover have "fold (arb_step better) (cs @ [c]) (reset, PRIORITY_LOWEST) =
      (if p = pr \<and> better v num \<or> p < pr then v else num, if p = pr \<and> better v num \<or> p < pr then p else pr)"
    by (simp add: f) (simp add: c arb_step_def)
  ultimately show ?case by (simp add: c del: fold_append)
qed

end

interpretation less: arbitration "\<lambda>a b :: int. a < b"
  by unfold_locales auto

interpretation more: arbitration "\<lambda>a b :: int. a > b"
  by unfold_locales auto

lemma con_better_arbitration: "arbitration (con_better c)"
  unfolding con_better_def by (cases "c_comp c = ''less''") (simp_all add: less.arbitration_axioms more.arbitration_axioms)

lemma rsc_better_arbitration: "arbitration (rsc_better r)"
  unfolding rsc_better_def by (cases "comp r = SMALLEST") (simp_all add: less.arbitration_axioms more.arbitration_axioms)

interpretation con: arbitration "con_better c" for c
  by (rule con_better_arbitration)

interpretation rsc: arbitration "rsc_better r" for r
  by (rule rsc_better_arbitration)

section \<open>Candidates of a scenario list\<close>

definition cand :: "(tScnNode \<Rightarrow> int) \<Rightarrow> int \<Rightarrow> tScnNode \<Rightarrow> bool" where
  "cand val reset s \<longleftrightarrow> scn_state s = STATE_ON \<and> val s \<noteq> reset \<and> priority s \<le> PRIORITY_LOWEST"

definition cands :: "(tScnNode \<Rightarrow> int) \<Rightarrow> int \<Rightarrow> tScnNode list \<Rightarrow> (int \<times> int) set" where
  "cands val reset ss = (\<lambda>s. (priority s, val s)) ` set (filter (cand val reset) ss)"

definition vals_ok :: "(int \<Rightarrow> int \<Rightarrow> bool) \<Rightarrow> (tScnNode \<Rightarrow> int) \<Rightarrow> int \<Rightarrow> tScnNode list \<Rightarrow> bool" where
  "vals_ok better val reset ss \<longleftrightarrow> (\<forall>s \<in> set ss. val s = reset \<or> better (val s) reset)"

lemma cands_ok_cands: "vals_ok better val reset ss \<Longrightarrow> cands_ok better reset (cands val reset ss)"
  by (auto simp: cands_ok_def cands_def cand_def vals_ok_def)

lemma vals_ok_switch:
  assumes "vals_ok better val reset ss" "i < length ss" "val s' = val (ss ! i)"
  shows "vals_ok better val reset (ss[i := s'])"
  using assms(1,3) nth_mem [OF assms(2)] set_update_subset_insert [of ss i s']
  unfolding vals_ok_def by (metis insertE subsetD)

lemma cands_switch:
  assumes "i < length ss" "scn_state s' \<noteq> STATE_ON"
  shows "cands val reset ss = cands val reset (ss[i := s']) \<union>
     (if cand val reset (ss ! i) then {(priority (ss ! i), val (ss ! i))} else {})"
proof -
  have "set ss = insert (ss ! i) (set (take i ss @ drop (Suc i) ss))"
    using assms(1) by (rule set_nth_split)
  moreover have "set (ss[i := s']) = insert s' (set (take i ss @ drop (Suc i) ss))"
    using assms(1) by (rule set_update_split)
  ultimately show ?thesis using assms(2) by (auto simp: cands_def cand_def)
qed

section \<open>The recomputing scans compute the contract\<close>

lemma arb_step_low: "pr \<le> PRIORITY_LOWEST \<Longrightarrow> snd (arb_step better (p, v) (num, pr)) \<le> PRIORITY_LOWEST"
  by (auto simp: arb_step_def)

lemma con_scan_fold:
  assumes "pr \<le> PRIORITY_LOWEST"
  shows "con_scan (con_better c) reset idx ss (num, pr) =
    fold (arb_step (con_better c))
      (map (\<lambda>s. (priority s, scn_param s ! idx)) (filter (cand (\<lambda>s. scn_param s ! idx) reset) ss)) (num, pr)"
  using assms
proof (induction ss arbitrary: num pr)
  case Nil
  then show ?case by simp
next
  case (Cons s ss)
  let ?v = "scn_param s ! idx"
  have same: "(if con_better c num ?v then num else ?v) = (if con_better c ?v num then ?v else num)"
    using con.total [of num ?v c] con.asym [of c num ?v] con.irrefl [of c num] by (cases "num = ?v") auto
  show ?case using Cons.prems
    by (auto simp: Cons.IH cand_def arb_step_def same)
qed

lemma rsc_scan_fold:
  assumes "ch_pr ch \<le> PRIORITY_LOWEST"
    and "\<And>i. i \<in> set is \<Longrightarrow> scn_rsc (ptScnList st ! i) ! idx = reset \<or> rsc_better r (scn_rsc (ptScnList st ! i) ! idx) reset"
  shows "(let ch' = fold (rsc_scan_step st r reset idx) is ch in (ch_num ch', ch_pr ch')) =
    fold (arb_step (rsc_better r))
      (map (\<lambda>s. (priority s, scn_rsc s ! idx))
        (filter (cand (\<lambda>s. scn_rsc s ! idx) reset) (map (nth (ptScnList st)) is))) (ch_num ch, ch_pr ch)"
  using assms
proof (induction "is" arbitrary: ch)
  case Nil
  then show ?case by simp
next
  case (Cons i "is")
  let ?s = "ptScnList st ! i" and ?v = "scn_rsc (ptScnList st ! i) ! idx"
  let ?ch = "rsc_scan_step st r reset idx i ch"
  have v: "rsc_better r ?v reset \<longleftrightarrow> ?v \<noteq> reset"
    using Cons.prems(2) [of i] rsc.irrefl [of r reset] by auto
  have step: "(ch_num ?ch, ch_pr ?ch) =
     (if cand (\<lambda>s. scn_rsc s ! idx) reset ?s then arb_step (rsc_better r) (priority ?s, ?v) (ch_num ch, ch_pr ch)
      else (ch_num ch, ch_pr ch))"
    using Cons.prems(1) by (auto simp: rsc_scan_step_def v cand_def arb_step_def Let_def)
  have low: "ch_pr ?ch \<le> PRIORITY_LOWEST"
    using step Cons.prems(1) arb_step_low [of "ch_pr ch" "rsc_better r" "priority ?s" ?v "ch_num ch"]
    by (metis snd_conv)
  show ?case
    using Cons.IH [OF low] Cons.prems(2) step by (simp split: if_splits)
qed

lemma con_scan_arb:
  assumes "vals_ok (con_better c) (\<lambda>s. scn_param s ! idx) reset ss"
    and "con_scan (con_better c) reset idx ss (reset, PRIORITY_LOWEST) = (num, pr)"
  shows "arb (con_better c) reset (cands (\<lambda>s. scn_param s ! idx) reset ss) num pr"
  using con.arb_scan [of c reset "map (\<lambda>s. (priority s, scn_param s ! idx))
      (filter (cand (\<lambda>s. scn_param s ! idx) reset) ss)"] cands_ok_cands [OF assms(1)] assms(2)
  by (simp add: con_scan_fold cands_def)

lemma rsc_scan_arb:
  assumes "vals_ok (rsc_better r) (\<lambda>s. scn_rsc s ! idx) reset (ptScnList st)"
    and "ch_num ch = reset" "ch_pr ch = PRIORITY_LOWEST"
    and "fold (rsc_scan_step st r reset idx) [0..<length (ptScnList st)] ch = ch'"
  shows "arb (rsc_better r) reset (cands (\<lambda>s. scn_rsc s ! idx) reset (ptScnList st)) (ch_num ch') (ch_pr ch')"
  using rsc.arb_scan [of r reset "map (\<lambda>s. (priority s, scn_rsc s ! idx))
      (filter (cand (\<lambda>s. scn_rsc s ! idx) reset) (ptScnList st))"] cands_ok_cands [OF assms(1)]
    rsc_scan_fold [of ch "[0..<length (ptScnList st)]" st idx reset r] assms
  by (auto simp: vals_ok_def map_nth cands_def Let_def)

section \<open>One entry when a scenario is switched\<close>

context arbitration
begin

lemma arb_range:
  assumes "arb better reset C num pr" "cands_ok better reset C"
  shows "pr \<le> PRIORITY_LOWEST \<and> (num = reset \<or> better num reset)"
  using assms by (auto simp: arb_def cands_ok_def split: if_splits)

lemma enable_entry:
  assumes vals: "vals_ok better val reset ss" and arb: "arb better reset (cands val reset ss) num pr"
    and i: "i < length ss" and val: "\<And>s x. val (s\<lparr>scn_state := x\<rparr>) = val s"
  defines "s \<equiv> (ss ! i)\<lparr>scn_state := STATE_ON\<rparr>"
  defines "F \<equiv> \<not> priority s > pr \<and> (better (val s) num \<and> priority s = pr \<or> priority s < pr \<and> val s \<noteq> reset)"
  shows "arb better reset (cands val reset (ss[i := s])) (if F then val s else num) (if F then priority s else pr)"
proof -
  let ?C = "cands val reset ss" and ?C' = "cands val reset (ss[i := s])"
  have C': "?C' = ?C \<union> (if cand val reset s then {(priority s, val s)} else {})"
  proof (cases "scn_state (ss ! i) = STATE_ON")
    case True
    then have "s = ss ! i" by (simp add: s_def)
    then show ?thesis using i by (auto simp: cands_def)
  next
    case False
    then show ?thesis using cands_switch [of i "ss[i := s]" "ss ! i" val reset] i by simp
  qed
  note ok = cands_ok_cands [OF vals] and rng = arb_range [OF arb cands_ok_cands [OF vals]]
  have vs: "val s = reset \<or> better (val s) reset"
    using vals i by (auto simp: vals_ok_def s_def val)
  show ?thesis
  proof (cases "cand val reset s")
    case True
    then have "F \<longleftrightarrow> priority s = pr \<and> better (val s) num \<or> priority s < pr"
      by (auto simp: F_def cand_def)
    with True arb_insert [OF arb _ _ ok, of "val s" "priority s"] vs show ?thesis
      by (auto simp: C' cand_def)
  next
    case False
    then have "val s = reset \<or> priority s > PRIORITY_LOWEST" by (auto simp: cand_def s_def)
    then have "\<not> F" using rng irrefl asym by (auto simp: F_def)
    with False arb show ?thesis by (simp add: C')
  qed
qed

lemma disable_entry:
  assumes vals: "vals_ok better val reset ss" and arb: "arb better reset (cands val reset ss) num pr"
    and i: "i < length ss" and val: "\<And>s x. val (s\<lparr>scn_state := x\<rparr>) = val s"
  defines "s \<equiv> (ss ! i)\<lparr>scn_state := STATE_OFF\<rparr>"
  assumes keep: "\<not> (\<not> priority s > pr \<and> better (val s) reset \<and> \<not> better num (val s))"
  shows "arb better reset (cands val reset (ss[i := s])) num pr"
proof -
  have C: "cands val reset ss = cands val reset (ss[i := s]) \<union>
      (if cand val reset (ss ! i) then {(priority s, val s)} else {})"
    using cands_switch [of i ss s val reset] i by (simp add: s_def val)
  show ?thesis
  proof (cases "cand val reset (ss ! i)")
    case True
    then have "val s \<noteq> reset" by (simp add: cand_def s_def val)
    moreover have "val s = reset \<or> better (val s) reset"
      using vals i by (auto simp: vals_ok_def s_def val)
    ultimately have "priority s > pr \<or> better num (val s)" using keep by blast
    moreover have "arb better reset (insert (priority s, val s) (cands val reset (ss[i := s]))) num pr"
      using arb C True by simp
    ultimately show ?thesis by (rule arb_remove_other [rotated])
  next
    case False
    with arb C show ?thesis by simp
  qed
qed

end

section \<open>The invariant of the tables\<close>

abbreviation con_val :: "nat \<Rightarrow> tScnNode \<Rightarrow> int" where "con_val idx s \<equiv> scn_param s ! idx"
abbreviation rsc_val :: "nat \<Rightarrow> tScnNode \<Rightarrow> int" where "rsc_val idx s \<equiv> scn_rsc s ! idx"

definition con_managed :: "tScnConTable \<Rightarrow> bool" where
  "con_managed c \<longleftrightarrow> c_isValid c \<noteq> -1 \<and> c_cmdName c \<noteq> ''''"

definition rsc_managed :: "tRscConfig \<Rightarrow> tRscCtlEntry \<Rightarrow> bool" where
  "rsc_managed r e \<longleftrightarrow> r_isValid e = 1 \<and> comp r \<noteq> ONESHOT"

definition con_arbitrated :: "tScnNode list \<Rightarrow> nat \<Rightarrow> tScnConTable \<Rightarrow> bool" where
  "con_arbitrated ss idx c \<longleftrightarrow>
     arb (con_better c) (c_resetVal c) (cands (con_val idx) (c_resetVal c) ss) (c_curVal c) (c_priority c)"

definition rsc_arbitrated :: "tScnNode list \<Rightarrow> nat \<Rightarrow> tRscConfig \<Rightarrow> tRscCtlEntry \<Rightarrow> bool" where
  "rsc_arbitrated ss idx r e \<longleftrightarrow>
     arb (rsc_better r) (r_resetVal e) (cands (rsc_val idx) (r_resetVal e) ss) (r_curVal e) (r_priority e)"

definition con_vals :: "tScnNode list \<Rightarrow> nat \<Rightarrow> tScnConTable \<Rightarrow> bool" where
  "con_vals ss idx c \<longleftrightarrow> vals_ok (con_better c) (con_val idx) (c_resetVal c) ss"

definition rsc_vals :: "tScnNode list \<Rightarrow> nat \<Rightarrow> tRscConfig \<Rightarrow> tRscCtlEntry \<Rightarrow> bool" where
  "rsc_vals ss idx r e \<longleftrightarrow> vals_ok (rsc_better r) (rsc_val idx) (r_resetVal e) ss"

text \<open>Sizes agree and every resource has its set and unset function.\<close>

definition tables_wf :: "perf \<Rightarrow> bool" where
  "tables_wf st \<longleftrightarrow> length (gRscCtlTbl st) = length (RscCfgTbl st) \<and>
     (\<forall>r \<in> set (RscCfgTbl st). rsc_has_funcs r) \<and>
     (\<forall>s \<in> set (ptScnList st). length (scn_param s) = length (tConTable st) \<and>
        length (scn_rsc s) = length (RscCfgTbl st))"

text \<open>
  Requests are on the good side of the reset value: what \<open>resetScenario\<close> and the clamping
  of \<open>cmdSetting\<close> establish.
\<close>

definition requests_ok :: "perf \<Rightarrow> bool" where
  "requests_ok st \<longleftrightarrow>
     (\<forall>idx < length (tConTable st). con_managed (tConTable st ! idx) \<longrightarrow>
        con_vals (ptScnList st) idx (tConTable st ! idx)) \<and>
     (\<forall>idx < length (RscCfgTbl st). rsc_managed (RscCfgTbl st ! idx) (gRscCtlTbl st ! idx) \<longrightarrow>
        rsc_vals (ptScnList st) idx (RscCfgTbl st ! idx) (gRscCtlTbl st ! idx))"

definition arbitrated :: "perf \<Rightarrow> bool" where
  "arbitrated st \<longleftrightarrow>
     (\<forall>idx < length (tConTable st). con_managed (tConTable st ! idx) \<longrightarrow>
        con_arbitrated (ptScnList st) idx (tConTable st ! idx)) \<and>
     (\<forall>idx < length (RscCfgTbl st). rsc_managed (RscCfgTbl st ! idx) (gRscCtlTbl st ! idx) \<longrightarrow>
        rsc_arbitrated (ptScnList st) idx (RscCfgTbl st ! idx) (gRscCtlTbl st ! idx))"

definition arb_inv :: "perf \<Rightarrow> bool" where
  "arb_inv st \<longleftrightarrow> tables_wf st \<and> requests_ok st \<and> arbitrated st"

section \<open>The loop over the node table\<close>

text \<open>
  Each body rewrites its own entry as a function of the scenarios and appends writes, so
  the loop is a map over the table.
\<close>

definition con_body :: "(nat \<Rightarrow> perf \<Rightarrow> perf) \<Rightarrow> (tScnNode list \<Rightarrow> nat \<Rightarrow> tScnConTable \<Rightarrow> tScnConTable) \<Rightarrow>
    (tScnNode list \<Rightarrow> nat \<Rightarrow> tScnConTable \<Rightarrow> action list) \<Rightarrow> bool" where
  "con_body body ent w \<longleftrightarrow> (\<forall>idx st. body idx st =
     st\<lparr>tConTable := (tConTable st)[idx := ent (ptScnList st) idx (tConTable st ! idx)],
        acts := acts st @ w (ptScnList st) idx (tConTable st ! idx)\<rparr>)"

lemma con_fold_prefix:
  assumes "con_body body ent w" "k \<le> length (tConTable st)"
  shows "fold body [0..<k] st =
    st\<lparr>tConTable := map (\<lambda>j. ent (ptScnList st) j (tConTable st ! j)) [0..<k] @ drop k (tConTable st),
       acts := acts st @ concat (map (\<lambda>j. w (ptScnList st) j (tConTable st ! j)) [0..<k])\<rparr>"
  using assms(2)
proof (induction k)
  case 0
  then show ?case by simp
next
  case (Suc k)
  then have "fold body [0..<k] st =
    st\<lparr>tConTable := map (\<lambda>j. ent (ptScnList st) j (tConTable st ! j)) [0..<k] @ drop k (tConTable st),
       acts := acts st @ concat (map (\<lambda>j. w (ptScnList st) j (tConTable st ! j)) [0..<k])\<rparr>"
    by simp
  moreover have "drop k (tConTable st) = tConTable st ! k # drop (Suc k) (tConTable st)"
    using Suc.prems by (simp add: Cons_nth_drop_Suc)
  moreover have "fold body [0..<Suc k] st = body k (fold body [0..<k] st)" by simp
  ultimately show ?case
    using assms(1) [unfolded con_body_def, rule_format, of k "fold body [0..<k] st"]
    by (simp add: list_update_append nth_append)
qed

lemma con_fold:
  assumes "con_body body ent w"
  shows "fold body [0..<length (tConTable st)] st =
    st\<lparr>tConTable := map (\<lambda>j. ent (ptScnList st) j (tConTable st ! j)) [0..<length (tConTable st)],
       acts := acts st @ concat (map (\<lambda>j. w (ptScnList st) j (tConTable st ! j)) [0..<length (tConTable st)])\<rparr>"
  by (simp add: con_fold_prefix [OF assms])

definition pe_con_ent :: "nat \<Rightarrow> tScnNode list \<Rightarrow> nat \<Rightarrow> tScnConTable \<Rightarrow> tScnConTable" where
  "pe_con_ent scn ss idx c = (if pe_con_fires (ss ! scn) (con_val idx (ss ! scn)) c
     then c\<lparr>c_curVal := con_val idx (ss ! scn), c_priority := priority (ss ! scn)\<rparr> else c)"

definition pe_con_acts :: "nat \<Rightarrow> tScnNode list \<Rightarrow> nat \<Rightarrow> tScnConTable \<Rightarrow> action list" where
  "pe_con_acts scn ss idx c = (if pe_con_fires (ss ! scn) (con_val idx (ss ! scn)) c
     then con_write c (con_val idx (ss ! scn)) else [])"

definition pu_con_ent :: "bool \<Rightarrow> nat \<Rightarrow> tScnNode list \<Rightarrow> nat \<Rightarrow> tScnConTable \<Rightarrow> tScnConTable" where
  "pu_con_ent fu scn ss idx c = (if pu_con_fires fu (ss ! scn) (con_val idx (ss ! scn)) c
     then (let (num, pr) = con_scan (con_better c) (c_resetVal c) idx ss (c_resetVal c, PRIORITY_LOWEST)
           in c\<lparr>c_curVal := num, c_priority := pr\<rparr>) else c)"

definition pu_con_acts :: "bool \<Rightarrow> nat \<Rightarrow> tScnNode list \<Rightarrow> nat \<Rightarrow> tScnConTable \<Rightarrow> action list" where
  "pu_con_acts fu scn ss idx c =
     (let c' = pu_con_ent fu scn ss idx c in
      if c_curVal c' \<noteq> c_curVal c
      then con_write c' (if c_curVal c' = c_resetVal c then c_defaultVal c else c_curVal c') else [])"

lemma pe_con_body: "con_body (pe_con scn) (pe_con_ent scn) (pe_con_acts scn)"
  by (simp add: con_body_def pe_con_def pe_con_ent_def pe_con_acts_def Let_def)

lemma pu_con_body: "con_body (pu_con fu scn) (pu_con_ent fu scn) (pu_con_acts fu scn)"
  unfolding con_body_def
proof (intro allI)
  fix idx and st :: perf
  let ?c = "tConTable st ! idx" and ?s = "ptScnList st ! scn"
  obtain num pr where "con_scan (con_better ?c) (c_resetVal ?c) idx (ptScnList st)
      (c_resetVal ?c, PRIORITY_LOWEST) = (num, pr)" by force
  then show "pu_con fu scn idx st =
     st\<lparr>tConTable := (tConTable st)[idx := pu_con_ent fu scn (ptScnList st) idx ?c],
        acts := acts st @ pu_con_acts fu scn (ptScnList st) idx ?c\<rparr>"
    by (cases "pu_con_fires fu ?s (con_val idx ?s) ?c")
      (simp_all add: pu_con_def pu_con_ent_def pu_con_acts_def Let_def)
qed

lemma con_better_upd [simp]:
  "con_better (c\<lparr>c_curVal := a, c_priority := b\<rparr>) = con_better c"
  by (simp add: con_better_def fun_eq_iff)

lemma con_managed_upd [simp]:
  "con_managed (c\<lparr>c_curVal := a, c_priority := b\<rparr>) = con_managed c"
  by (simp add: con_managed_def)

lemma pe_con_ent_same [simp]:
  "c_resetVal (pe_con_ent scn ss idx c) = c_resetVal c" "con_better (pe_con_ent scn ss idx c) = con_better c"
  "con_managed (pe_con_ent scn ss idx c) = con_managed c"
  by (simp_all add: pe_con_ent_def)

lemma pu_con_ent_same [simp]:
  "c_resetVal (pu_con_ent fu scn ss idx c) = c_resetVal c" "con_better (pu_con_ent fu scn ss idx c) = con_better c"
  "con_managed (pu_con_ent fu scn ss idx c) = con_managed c"
  by (auto simp: pu_con_ent_def split: prod.splits)

lemma con_enable_arbitrated:
  assumes "con_managed c" "con_vals ss idx c" "con_arbitrated ss idx c" "scn < length ss"
  defines "ss1 \<equiv> ss[scn := (ss ! scn)\<lparr>scn_state := STATE_ON\<rparr>]"
  shows "con_arbitrated ss1 idx (pe_con_ent scn ss1 idx c)"
proof -
  have "pe_con_fires (ss1 ! scn) (con_val idx (ss1 ! scn)) c \<longleftrightarrow> \<not> priority (ss1 ! scn) > c_priority c \<and>
      (con_better c (con_val idx (ss1 ! scn)) (c_curVal c) \<and> priority (ss1 ! scn) = c_priority c \<or>
       priority (ss1 ! scn) < c_priority c \<and> con_val idx (ss1 ! scn) \<noteq> c_resetVal c)"
    using assms(1) by (simp add: pe_con_fires_def con_managed_def)
  with con.enable_entry [of c "con_val idx" "c_resetVal c" ss "c_curVal c" "c_priority c" scn] assms
  show ?thesis
    by (simp add: con_arbitrated_def con_vals_def pe_con_ent_def if_distrib cong: if_cong)
qed

lemma con_disable_arbitrated:
  assumes "con_managed c" "con_vals ss idx c" "con_arbitrated ss idx c" "scn < length ss"
  defines "ss1 \<equiv> ss[scn := (ss ! scn)\<lparr>scn_state := STATE_OFF\<rparr>]"
  shows "con_arbitrated ss1 idx (pu_con_ent False scn ss1 idx c)"
proof (cases "pu_con_fires False (ss1 ! scn) (con_val idx (ss1 ! scn)) c")
  case True
  obtain num pr where np: "con_scan (con_better c) (c_resetVal c) idx ss1 (c_resetVal c, PRIORITY_LOWEST) = (num, pr)"
    by force
  have "vals_ok (con_better c) (con_val idx) (c_resetVal c) ss1"
    using assms(2,4) by (simp add: ss1_def con_vals_def vals_ok_switch)
  from con_scan_arb [OF this np] True np show ?thesis
    by (simp add: con_arbitrated_def pu_con_ent_def)
next
  case False
  with con.disable_entry [of c "con_val idx" "c_resetVal c" ss "c_curVal c" "c_priority c" scn] assms
  show ?thesis
    by (auto simp: con_arbitrated_def con_vals_def pu_con_ent_def pu_con_fires_def con_managed_def ss1_def)
qed

section \<open>The loop over the resource table\<close>

text \<open>
  What the bodies read of a scenario apart from \<open>hasReset\<close>, and the part of the state the
  loop keeps.
\<close>

definition scn_key :: "tScnNode \<Rightarrow> scn_state \<times> int \<times> int list \<times> int list" where
  "scn_key s = (scn_state s, priority s, scn_rsc s, scn_param s)"

definition rsc_frame :: "perf \<Rightarrow> perf \<Rightarrow> bool" where
  "rsc_frame st st' \<longleftrightarrow> RscCfgTbl st' = RscCfgTbl st \<and> tConTable st' = tConTable st \<and>
     length (gRscCtlTbl st') = length (gRscCtlTbl st) \<and>
     map scn_key (ptScnList st') = map scn_key (ptScnList st)"

lemma rsc_frame_refl [simp]: "rsc_frame st st"
  by (simp add: rsc_frame_def)

lemma rsc_frame_trans: "rsc_frame a b \<Longrightarrow> rsc_frame b c \<Longrightarrow> rsc_frame a c"
  by (simp add: rsc_frame_def)

lemma scn_key_hasReset [simp]: "scn_key (s\<lparr>hasReset := b\<rparr>) = scn_key s"
  by (simp add: scn_key_def)

lemma rsc_frame_act [simp]: "rsc_frame st (st\<lparr>acts := a\<rparr>)"
  by (simp add: rsc_frame_def)

lemma rsc_frame_ctl [simp]: "rsc_frame st (st\<lparr>gRscCtlTbl := (gRscCtlTbl st)[i := e], acts := a\<rparr>)"
  by (simp add: rsc_frame_def)

lemma rsc_frame_hasReset [simp]:
  "rsc_frame st (st\<lparr>ptScnList := (ptScnList st)[i := (ptScnList st ! i)\<lparr>hasReset := b\<rparr>],
     gRscCtlTbl := (gRscCtlTbl st)[j := e], acts := a\<rparr>)"
  "rsc_frame st (st\<lparr>ptScnList := (ptScnList st)[i := (ptScnList st ! i)\<lparr>hasReset := b\<rparr>], acts := a\<rparr>)"
  by (simp_all add: rsc_frame_def map_list_update_id)

text \<open>Only the entry of the body's own resource changes.\<close>

definition rsc_only :: "nat \<Rightarrow> perf \<Rightarrow> perf \<Rightarrow> bool" where
  "rsc_only idx st st' \<longleftrightarrow> rsc_frame st st' \<and> (\<forall>j. j \<noteq> idx \<longrightarrow> gRscCtlTbl st' ! j = gRscCtlTbl st ! j)"

lemma rsc_only_refl [simp]: "rsc_only idx st st"
  by (simp add: rsc_only_def)

lemma rsc_only_trans: "rsc_only i a b \<Longrightarrow> rsc_only i b c \<Longrightarrow> rsc_only i a c"
  by (auto simp: rsc_only_def intro: rsc_frame_trans)

lemma rsc_only_act [simp]: "rsc_only idx st (st\<lparr>acts := a\<rparr>)"
  by (simp add: rsc_only_def)

lemma rsc_only_ctl [simp]: "rsc_only idx st (st\<lparr>gRscCtlTbl := (gRscCtlTbl st)[idx := e], acts := a\<rparr>)"
  by (simp add: rsc_only_def)

lemma rsc_only_hasReset [simp]:
  "rsc_only idx st (st\<lparr>ptScnList := (ptScnList st)[i := (ptScnList st ! i)\<lparr>hasReset := b\<rparr>],
     gRscCtlTbl := (gRscCtlTbl st)[idx := e], acts := a\<rparr>)"
  "rsc_only idx st (st\<lparr>ptScnList := (ptScnList st)[i := (ptScnList st ! i)\<lparr>hasReset := b\<rparr>], acts := a\<rparr>)"
  by (simp_all add: rsc_only_def)

lemma pe_rsc_level_only [simp]: "rsc_only idx st (pe_rsc_level scn name idx st)"
  by (simp add: pe_rsc_level_def Let_def)

lemma pu_rsc_level_only [simp]: "rsc_only idx st (pu_rsc_level fu scn idx st)"
  by (simp add: pu_rsc_level_def Let_def)

lemma pe_oneshot_unset_only: "rsc_only idx st (snd x) \<Longrightarrow> rsc_only idx st (snd (pe_oneshot_unset scn idx i x))"
  by (cases x) (auto simp: pe_oneshot_unset_def Let_def intro: rsc_only_trans)

lemma pe_rsc_oneshot_only [simp]: "rsc_only idx st (pe_rsc_oneshot scn idx st)"
proof -
  let ?f = "fold (pe_oneshot_unset scn idx) [0..<length (ptScnList st)] (False, st)"
  have "rsc_only idx st (snd ?f)"
    by (rule fold_invariant_list [where P = "\<lambda>x. rsc_only idx st (snd x)"])
      (simp_all add: pe_oneshot_unset_only)
  moreover obtain b st1 where "?f = (b, st1)" by force
  ultimately show ?thesis
    by (auto simp: pe_rsc_oneshot_def Let_def intro: rsc_only_trans)
qed

lemma pu_oneshot_reset_only: "rsc_only idx st st' \<Longrightarrow> rsc_only idx st (pu_oneshot_reset pr idx i st')"
  by (auto simp: pu_oneshot_reset_def Let_def intro: rsc_only_trans)

lemma pu_rsc_oneshot_only [simp]: "rsc_only idx st (pu_rsc_oneshot fu scn idx st)"
proof -
  have fold_only: "rsc_only idx st (fold (pu_oneshot_reset pr idx) is st')" if "rsc_only idx st st'" for pr "is" st'
    using that by (induction "is" arbitrary: st') (simp_all add: pu_oneshot_reset_only)
  have "rsc_only idx st (pu_oneshot_force pr scn idx st)" for pr
    by (auto simp: pu_oneshot_force_def Let_def intro: rsc_only_trans)
  moreover have "rsc_only idx st (add_act a (fold (pu_oneshot_reset pr idx) is
      (st\<lparr>gRscCtlTbl := (gRscCtlTbl st)[idx := e], acts := b\<rparr>)))" for a pr "is" e b
    by (rule rsc_only_trans [OF fold_only [OF rsc_only_ctl] rsc_only_act])
  ultimately show ?thesis by (simp add: pu_rsc_oneshot_def Let_def)
qed

lemma pe_rsc_only: "rsc_only idx st (pe_rsc scn name idx st)"
  by (simp add: pe_rsc_def Let_def)

lemma pu_rsc_only: "rsc_only idx st (pu_rsc fu scn idx st)"
  by (simp add: pu_rsc_def Let_def)

text \<open>With every function present the loop runs over the whole table.\<close>

lemma rsc_loop_fold:
  assumes "\<forall>r \<in> set (RscCfgTbl st). rsc_has_funcs r" "\<forall>i \<in> set is. i < length (RscCfgTbl st)"
    and "\<And>i st. rsc_only i st (body i st)"
  shows "rsc_loop body is st = fold body is st"
  using assms(1,2)
proof (induction "is" arbitrary: st)
  case (Cons i "is")
  from assms(3) have "RscCfgTbl (body i st) = RscCfgTbl st" by (simp add: rsc_only_def rsc_frame_def)
  with Cons show ?case by simp
qed simp

lemma rsc_fold_frame:
  assumes "\<And>i st. rsc_only i st (body i st)"
  shows "rsc_frame st (fold body is st)"
proof (induction "is" arbitrary: st)
  case (Cons i "is")
  then show ?case using assms [of i st] rsc_frame_trans by (simp add: rsc_only_def) blast
qed simp

text \<open>The final entry of a resource is what its own body made of the initial entry.\<close>

lemma rsc_fold_entry:
  assumes only: "\<And>i st. rsc_only i st (body i st)" and "distinct is" "j \<in> set is"
    and step: "\<And>st'. rsc_frame st st' \<Longrightarrow> gRscCtlTbl st' ! j = gRscCtlTbl st ! j \<Longrightarrow> P (gRscCtlTbl (body j st') ! j)"
  shows "P (gRscCtlTbl (fold body is st) ! j)"
proof -
  obtain xs ys where "is": "is = xs @ j # ys" and j: "j \<notin> set xs" "j \<notin> set ys"
    using assms(2,3) by (auto simp: in_set_conv_decomp)
  have keep: "gRscCtlTbl (fold body zs s) ! j = gRscCtlTbl s ! j" if "j \<notin> set zs" for zs s
    using that
  proof (induction zs arbitrary: s)
    case (Cons z zs)
    then show ?case using only [of z s] by (auto simp: rsc_only_def)
  qed simp
  show ?thesis
    using step [OF rsc_fold_frame [OF only, of st xs] keep [OF j(1), of st]] keep [OF j(2)] by (simp add: "is")
qed

section \<open>Entries depend on the scenarios only through their keys\<close>

lemma cands_key:
  assumes "\<And>s. val s = vk (scn_key s)"
  shows "cands val reset ss = (\<lambda>k. (fst (snd k), vk k)) `
    {k \<in> set (map scn_key ss). fst k = STATE_ON \<and> vk k \<noteq> reset \<and> fst (snd k) \<le> PRIORITY_LOWEST}"
  by (force simp: cands_def cand_def assms scn_key_def)

lemma vals_ok_key:
  assumes "\<And>s. val s = vk (scn_key s)"
  shows "vals_ok better val reset ss \<longleftrightarrow> (\<forall>k \<in> set (map scn_key ss). vk k = reset \<or> better (vk k) reset)"
  by (auto simp: vals_ok_def assms)

lemma con_val_key: "con_val idx s = (\<lambda>k. snd (snd (snd k)) ! idx) (scn_key s)"
  by (simp add: scn_key_def)

lemma rsc_val_key: "rsc_val idx s = (\<lambda>k. fst (snd (snd k)) ! idx) (scn_key s)"
  by (simp add: scn_key_def)

lemma keys_cong:
  assumes "map scn_key ss' = map scn_key ss"
  shows "con_arbitrated ss' idx c \<longleftrightarrow> con_arbitrated ss idx c"
    and "con_vals ss' idx c \<longleftrightarrow> con_vals ss idx c"
    and "rsc_arbitrated ss' idx r e \<longleftrightarrow> rsc_arbitrated ss idx r e"
    and "rsc_vals ss' idx r e \<longleftrightarrow> rsc_vals ss idx r e"
  unfolding con_arbitrated_def con_vals_def rsc_arbitrated_def rsc_vals_def
  unfolding cands_key [of "con_val idx", OF con_val_key] cands_key [of "rsc_val idx", OF rsc_val_key]
    vals_ok_key [of "con_val idx", OF con_val_key] vals_ok_key [of "rsc_val idx", OF rsc_val_key] assms
  by (rule refl)+

lemma keys_nth:
  assumes "map scn_key ss' = map scn_key ss" "i < length ss"
  shows "priority (ss' ! i) = priority (ss ! i)" "rsc_val j (ss' ! i) = rsc_val j (ss ! i)"
    "con_val j (ss' ! i) = con_val j (ss ! i)" "scn_state (ss' ! i) = scn_state (ss ! i)"
proof -
  have "scn_key (ss' ! i) = scn_key (ss ! i)"
    using assms by (metis length_map nth_map)
  then show "priority (ss' ! i) = priority (ss ! i)" "rsc_val j (ss' ! i) = rsc_val j (ss ! i)"
    "con_val j (ss' ! i) = con_val j (ss ! i)" "scn_state (ss' ! i) = scn_state (ss ! i)"
    by (simp_all add: scn_key_def)
qed

section \<open>One resource entry when a scenario is switched\<close>

abbreviation switch_scn :: "scn_state \<Rightarrow> nat \<Rightarrow> tScnNode list \<Rightarrow> tScnNode list" where
  "switch_scn x i ss \<equiv> ss[i := (ss ! i)\<lparr>scn_state := x\<rparr>]"

definition rsc_entry_ok :: "tScnNode list \<Rightarrow> nat \<Rightarrow> tRscConfig \<Rightarrow> tRscCtlEntry \<Rightarrow> tRscCtlEntry \<Rightarrow> bool" where
  "rsc_entry_ok ss idx r e e' \<longleftrightarrow> r_resetVal e' = r_resetVal e \<and> r_isValid e' = r_isValid e \<and>
     (rsc_managed r e \<longrightarrow> rsc_arbitrated ss idx r e')"

lemma rsc_enable_arbitrated:
  assumes "rsc_managed r e" "rsc_vals ss j r e" "rsc_arbitrated ss j r e" "scn < length ss"
  defines "ss1 \<equiv> switch_scn STATE_ON scn ss"
  defines "F \<equiv> \<not> priority (ss1 ! scn) > r_priority e \<and> pe_rsc_fires (ss1 ! scn) (rsc_val j (ss1 ! scn)) r e"
  shows "arb (rsc_better r) (r_resetVal e) (cands (rsc_val j) (r_resetVal e) ss1)
    (if F then rsc_val j (ss1 ! scn) else r_curVal e) (if F then priority (ss1 ! scn) else r_priority e)"
proof -
  have "ss1 ! scn = (ss ! scn)\<lparr>scn_state := STATE_ON\<rparr>" using assms(4) by (simp add: ss1_def)
  with rsc.enable_entry [of r "rsc_val j" "r_resetVal e" ss "r_curVal e" "r_priority e" scn] assms(2-4)
  show ?thesis
    unfolding F_def pe_rsc_fires_def ss1_def by (simp add: rsc_arbitrated_def rsc_vals_def cong: if_cong)
qed

lemma pe_rsc_entry:
  assumes fr: "rsc_frame st1 st'" and e: "gRscCtlTbl st' ! j = e" and j: "j < length (gRscCtlTbl st')"
    and st1: "ptScnList st1 = switch_scn STATE_ON scn ss" "scn < length ss"
    and m: "rsc_managed r e \<longrightarrow> rsc_vals ss j r e \<and> rsc_arbitrated ss j r e"
    and r: "RscCfgTbl st1 ! j = r" "comp r \<noteq> ONESHOT"
  shows "rsc_entry_ok (switch_scn STATE_ON scn ss) j r e (gRscCtlTbl (pe_rsc scn name j st') ! j)"
  unfolding st1(1) [symmetric]
proof -
  let ?goal = "rsc_entry_ok (ptScnList st1) j r e (gRscCtlTbl (pe_rsc scn name j st') ! j)"
  let ?s = "ptScnList st' ! scn" and ?s1 = "switch_scn STATE_ON scn ss ! scn"
  have keys: "map scn_key (ptScnList st') = map scn_key (ptScnList st1)" and R: "RscCfgTbl st' ! j = r"
    using fr r by (auto simp: rsc_frame_def)
  have len: "scn < length (ptScnList st1)" using st1 by simp
  have k: "priority ?s = priority ?s1" "rsc_val j ?s = rsc_val j ?s1"
    using keys_nth [OF keys len] st1 by simp_all
  define F where "F \<longleftrightarrow> \<not> priority ?s1 > r_priority e \<and> pe_rsc_fires ?s1 (rsc_val j ?s1) r e"
  have F: "F \<longleftrightarrow> \<not> priority ?s > r_priority e \<and> pe_rsc_fires ?s (rsc_val j ?s) r e"
    unfolding F_def pe_rsc_fires_def k ..
  have arb: "arb (rsc_better r) (r_resetVal e) (cands (rsc_val j) (r_resetVal e) (ptScnList st1))
    (if F then rsc_val j ?s else r_curVal e) (if F then priority ?s else r_priority e)" if "rsc_managed r e"
    using rsc_enable_arbitrated [of r e ss j scn] m that st1 unfolding F_def [symmetric] k by simp
  show ?goal
  proof (cases "F \<and> r_isValid e = 1")
    case True
    with arb F e j r(2) R show ?goal
      by (simp add: rsc_entry_ok_def pe_rsc_def pe_rsc_level_def Let_def rsc_managed_def rsc_arbitrated_def)
  next
    case False
    then have "gRscCtlTbl (pe_rsc scn name j st') ! j = e"
      using F e r(2) R by (auto simp: pe_rsc_def pe_rsc_level_def Let_def)
    with arb False show ?goal by (auto simp: rsc_entry_ok_def rsc_managed_def rsc_arbitrated_def)
  qed
qed

lemma pu_rsc_entry:
  assumes fr: "rsc_frame st1 st'" and e: "gRscCtlTbl st' ! j = e" and j: "j < length (gRscCtlTbl st')"
    and st1: "ptScnList st1 = switch_scn STATE_OFF scn ss" "scn < length ss"
    and m: "rsc_managed r e \<longrightarrow> rsc_vals ss j r e \<and> rsc_arbitrated ss j r e"
    and r: "RscCfgTbl st1 ! j = r" "comp r \<noteq> ONESHOT"
  shows "rsc_entry_ok (switch_scn STATE_OFF scn ss) j r e (gRscCtlTbl (pu_rsc False scn j st') ! j)"
  unfolding st1(1) [symmetric]
proof -
  let ?goal = "rsc_entry_ok (ptScnList st1) j r e (gRscCtlTbl (pu_rsc False scn j st') ! j)"
  let ?s = "ptScnList st' ! scn"
  have keys: "map scn_key (ptScnList st') = map scn_key (ptScnList st1)" and R: "RscCfgTbl st' ! j = r"
    using fr r by (auto simp: rsc_frame_def)
  have len: "scn < length (ptScnList st1)" using st1 by simp
  note k = keys_nth [OF keys len]
  define F where "F \<longleftrightarrow> \<not> priority ?s > r_priority e \<and> rsc_better r (rsc_val j ?s) (r_resetVal e) \<and>
      \<not> rsc_better r (r_curVal e) (rsc_val j ?s)"
  have keep: "gRscCtlTbl (pu_rsc False scn j st') ! j = e" if "\<not> F \<or> r_isValid e \<noteq> 1"
    using that e R r(2) by (auto simp: pu_rsc_def pu_rsc_level_def Let_def F_def)
  show ?goal
  proof (cases "rsc_managed r e")
    case False
    with r(2) keep show ?goal by (simp add: rsc_entry_ok_def rsc_managed_def)
  next
    case True
    note mm = m [rule_format, OF True, unfolded rsc_arbitrated_def rsc_vals_def]
    show ?goal
    proof (cases F)
      case False
      then have "rsc_arbitrated (ptScnList st1) j r e"
        using rsc.disable_entry [OF conjunct1 [OF mm] conjunct2 [OF mm] st1(2)] st1
        by (simp add: rsc_arbitrated_def F_def k)
      with False keep show ?goal by (simp add: rsc_entry_ok_def)
    next
      case Fire: True
      let ?ch = "fold (rsc_scan_step st' r (r_resetVal e) j) [0..<length (ptScnList st')]
        \<lparr>ch_num = r_resetVal e, ch_pr = PRIORITY_LOWEST, ch_setter = r_curSetter e,
         ch_setterName = r_curSetterName e, ch_setterHint = r_curSetterHint e\<rparr>"
      have "rsc_vals (ptScnList st1) j r e"
        using mm st1 by (simp add: rsc_vals_def vals_ok_switch)
      then have "vals_ok (rsc_better r) (rsc_val j) (r_resetVal e) (ptScnList st')"
        using keys_cong(4) [OF keys] by (simp add: rsc_vals_def)
      from rsc_scan_arb [OF this _ _ refl] have "rsc_arbitrated (ptScnList st') j r (e\<lparr>r_curVal := ch_num ?ch, r_priority := ch_pr ?ch\<rparr>)"
        by (simp add: rsc_arbitrated_def)
      then have "rsc_arbitrated (ptScnList st1) j r (e\<lparr>r_curVal := ch_num ?ch, r_priority := ch_pr ?ch\<rparr>)"
        by (simp only: keys_cong(3) [OF keys])
      then show ?goal
        using Fire True e j R r(2)
        by (auto simp: rsc_entry_ok_def pu_rsc_def pu_rsc_level_def Let_def F_def rsc_managed_def rsc_arbitrated_def)
    qed
  qed
qed

section \<open>Switching a scenario keeps the invariant\<close>

lemma node_arb_inv:
  assumes inv: "arb_inv st" and scn: "scn < length (ptScnList st)"
    and lens: "length (scn_param s') = length (tConTable st)" "length (scn_rsc s') = length (RscCfgTbl st)"
    and req': "requests_ok (st\<lparr>ptScnList := (ptScnList st)[scn := s']\<rparr>)"
    and st3: "RscCfgTbl st3 = RscCfgTbl st" "gRscCtlTbl st3 = gRscCtlTbl st"
      "ptScnList st3 = (ptScnList st)[scn := s']"
      "tConTable st3 = map (\<lambda>j. ent j (tConTable st ! j)) [0..<length (tConTable st)]"
    and ent: "\<And>j c. c_resetVal (ent j c) = c_resetVal c" "\<And>j c. con_better (ent j c) = con_better c"
      "\<And>j c. con_managed (ent j c) = con_managed c"
    and con: "\<And>j c. con_managed c \<Longrightarrow> con_vals (ptScnList st) j c \<Longrightarrow> con_arbitrated (ptScnList st) j c \<Longrightarrow>
      con_vals (ptScnList st3) j c \<Longrightarrow> con_arbitrated (ptScnList st3) j (ent j c)"
    and only: "\<And>i st. rsc_only i st (body i st)"
    and rsc: "\<And>st' j e r. rsc_frame st3 st' \<Longrightarrow> gRscCtlTbl st' ! j = e \<Longrightarrow> j < length (gRscCtlTbl st') \<Longrightarrow>
      (rsc_managed r e \<longrightarrow> rsc_vals (ptScnList st) j r e \<and> rsc_arbitrated (ptScnList st) j r e \<and>
         rsc_vals (ptScnList st3) j r e) \<Longrightarrow>
      RscCfgTbl st3 ! j = r \<Longrightarrow> comp r \<noteq> ONESHOT \<Longrightarrow>
      rsc_entry_ok (ptScnList st3) j r e (gRscCtlTbl (body j st') ! j)"
  shows "arb_inv (rsc_loop body [0..<length (RscCfgTbl st3)] st3)"
proof -
  let ?st4 = "rsc_loop body [0..<length (RscCfgTbl st3)] st3"
  from inv have wf: "tables_wf st" and req: "requests_ok st" and arbd: "arbitrated st"
    by (simp_all add: arb_inv_def)
  have st4: "?st4 = fold body [0..<length (RscCfgTbl st3)] st3"
    using wf st3(1) by (intro rsc_loop_fold [OF _ _ only]) (auto simp: tables_wf_def)
  have fr: "rsc_frame st3 ?st4" unfolding st4 by (rule rsc_fold_frame [OF only])
  then have keys: "map scn_key (ptScnList ?st4) = map scn_key (ptScnList st3)"
    and same: "RscCfgTbl ?st4 = RscCfgTbl st" "tConTable ?st4 = tConTable st3"
      "length (gRscCtlTbl ?st4) = length (gRscCtlTbl st)"
    using st3 by (simp_all add: rsc_frame_def)
  have "map (\<lambda>s. (length (scn_param s), length (scn_rsc s))) (ptScnList ?st4) =
      map (\<lambda>s. (length (scn_param s), length (scn_rsc s))) (ptScnList st3)"
    using arg_cong [OF keys, of "map (\<lambda>k. (length (snd (snd (snd k))), length (fst (snd (snd k)))))"]
    by (simp add: scn_key_def o_def)
  then have "set (map (\<lambda>s. (length (scn_param s), length (scn_rsc s))) (ptScnList ?st4)) \<subseteq>
      {(length (tConTable st), length (RscCfgTbl st))}"
    using wf lens set_update_subset_insert [of "ptScnList st" scn s'] by (fastforce simp: st3 tables_wf_def)
  then have wf4: "tables_wf ?st4"
    using wf same st3 by (auto simp: tables_wf_def)
  have conj: "con_vals (ptScnList st3) j (ent j (tConTable st ! j)) \<and> con_arbitrated (ptScnList st3) j (ent j (tConTable st ! j))"
    if "j < length (tConTable st)" "con_managed (tConTable st ! j)" for j
    using req req' arbd con [of "tConTable st ! j" j] that
    by (simp add: requests_ok_def arbitrated_def con_vals_def ent st3(3))
  have rscj: "rsc_vals (ptScnList st3) j (RscCfgTbl st ! j) (gRscCtlTbl ?st4 ! j) \<and>
      rsc_arbitrated (ptScnList st3) j (RscCfgTbl st ! j) (gRscCtlTbl ?st4 ! j)"
    if j: "j < length (RscCfgTbl st)" and m: "rsc_managed (RscCfgTbl st ! j) (gRscCtlTbl ?st4 ! j)" for j
  proof -
    let ?r = "RscCfgTbl st ! j" and ?e = "gRscCtlTbl st ! j"
    have old: "rsc_managed ?r ?e \<longrightarrow> rsc_vals (ptScnList st) j ?r ?e \<and> rsc_arbitrated (ptScnList st) j ?r ?e \<and>
        rsc_vals (ptScnList st3) j ?r ?e"
      using req req' arbd j st3(3) by (simp add: requests_ok_def arbitrated_def)
    have shot: "comp ?r \<noteq> ONESHOT" using m by (simp add: rsc_managed_def)
    have "rsc_entry_ok (ptScnList st3) j ?r ?e (gRscCtlTbl ?st4 ! j)"
      unfolding st4
    proof (rule rsc_fold_entry [OF only])
      fix st' assume "rsc_frame st3 st'" "gRscCtlTbl st' ! j = gRscCtlTbl st3 ! j"
      then show "rsc_entry_ok (ptScnList st3) j ?r ?e (gRscCtlTbl (body j st') ! j)"
        using wf j st3 shot old by (intro rsc) (auto simp: rsc_frame_def tables_wf_def)
    qed (use j st3 in auto)
    then show ?thesis using m old by (auto simp: rsc_entry_ok_def rsc_managed_def rsc_vals_def)
  qed
  show ?thesis
    unfolding arb_inv_def requests_ok_def arbitrated_def
    using wf4 conj rscj by (simp add: same st3(4) ent keys_cong [OF keys])
qed

lemma requests_ok_switch:
  assumes "requests_ok st" "scn < length (ptScnList st)"
  shows "requests_ok (st\<lparr>ptScnList := switch_scn x scn (ptScnList st)\<rparr>)"
  using assms by (auto simp: requests_ok_def con_vals_def rsc_vals_def intro: vals_ok_switch)

lemma switch_wf:
  assumes "arb_inv st" "scn < length (ptScnList st)"
  shows "length (scn_param (ptScnList st ! scn)) = length (tConTable st)"
    "length (scn_rsc (ptScnList st ! scn)) = length (RscCfgTbl st)"
    "requests_ok (st\<lparr>ptScnList := switch_scn x scn (ptScnList st)\<rparr>)"
  using assms nth_mem [OF assms(2)] by (auto simp: arb_inv_def tables_wf_def requests_ok_switch)

lemma arb_inv_acts [simp]: "arb_inv (st\<lparr>acts := a\<rparr>) = arb_inv st"
  by (simp add: arb_inv_def tables_wf_def requests_ok_def arbitrated_def)

lemma checkSuccess_index: "checkSuccess st scenario \<Longrightarrow> nat scenario < length (ptScnList st)"
  by (simp add: checkSuccess_def)

lemma con_fold_scn:
  assumes "con_body body ent w"
  shows "fold body [0..<length (tConTable st)] (st\<lparr>ptScnList := ss\<rparr>) =
    st\<lparr>ptScnList := ss, tConTable := map (\<lambda>j. ent ss j (tConTable st ! j)) [0..<length (tConTable st)],
       acts := acts st @ concat (map (\<lambda>j. w ss j (tConTable st ! j)) [0..<length (tConTable st)])\<rparr>"
  using con_fold [OF assms, of "st\<lparr>ptScnList := ss\<rparr>"] by simp

lemma perfScnEnable_inv:
  assumes "arb_inv st"
  shows "arb_inv (perfScnEnable st scenario)"
proof (cases "checkSuccess st scenario")
  case True
  note scn = checkSuccess_index [OF True]
  show ?thesis
    unfolding perfScnEnable_def Let_def arb_inv_acts if_P [OF True]
    by (rule node_arb_inv [OF assms scn, where s' = "(ptScnList st ! nat scenario)\<lparr>scn_state := STATE_ON\<rparr>" and ent = "pe_con_ent (nat scenario)
            (switch_scn STATE_ON (nat scenario) (ptScnList st))"])
      (use scn switch_wf [OF assms scn] in \<open>simp_all add: con_fold_scn [OF pe_con_body] con_enable_arbitrated pe_rsc_only,
        auto intro!: pe_rsc_entry\<close>)
qed (use assms in \<open>simp add: perfScnEnable_def\<close>)

lemma perfScnDisable_inv:
  assumes "arb_inv st"
  shows "arb_inv (perfScnDisable st scenario)"
proof (cases "checkSuccess st scenario \<and> scn_state (ptScnList st ! nat scenario) \<noteq> STATE_OFF")
  case True
  then have scn: "nat scenario < length (ptScnList st)" by (simp add: checkSuccess_index)
  have "arb_inv (rsc_loop (pu_rsc False (nat scenario)) [0..<length (RscCfgTbl st3)] st3)"
    if "st3 = add_act a (fold (pu_con False (nat scenario)) [0..<length (tConTable st)]
          (upd_scn (nat scenario) (\<lambda>s. s\<lparr>scn_state := STATE_OFF\<rparr>) st))" for a st3
    by (rule node_arb_inv [OF assms scn, where s' = "(ptScnList st ! nat scenario)\<lparr>scn_state := STATE_OFF\<rparr>" and ent = "pu_con_ent False (nat scenario)
            (switch_scn STATE_OFF (nat scenario) (ptScnList st))"])
      (use scn switch_wf [OF assms scn] in \<open>simp_all add: that con_fold_scn [OF pu_con_body] con_disable_arbitrated pu_rsc_only,
        auto intro!: pu_rsc_entry\<close>)
  with True show ?thesis by (simp add: perfScnDisable_def perfScnUpdate_def Let_def)
qed (use assms in \<open>auto simp: perfScnDisable_def perfScnUpdate_def\<close>)

section \<open>Edits of a node and forced updates\<close>

context arbitration
begin

lemma edit_entry:
  assumes arb: "arb better reset (cands val reset ss) num pr" and i: "i < length ss"
    and old: "scn_state (ss ! i) = STATE_ON \<longrightarrow> priority (ss ! i) > pr"
    and new: "scn_state s' = STATE_ON \<longrightarrow> priority s' > pr \<and> cands_ok better reset (cands val reset (ss[i := s']))"
    and ok: "cands_ok better reset (cands val reset ss)"
  shows "arb better reset (cands val reset (ss[i := s'])) num pr"
proof -
  let ?off = "(ss ! i)\<lparr>scn_state := STATE_OFF\<rparr>"
  let ?D = "cands val reset (ss[i := ?off])"
  have C: "cands val reset ss = ?D \<union> (if cand val reset (ss ! i) then {(priority (ss ! i), val (ss ! i))} else {})"
    using cands_switch [of i ss ?off val reset] i by simp
  have C': "cands val reset (ss[i := s']) = ?D \<union> (if cand val reset s' then {(priority s', val s')} else {})"
    using cands_switch [of i "ss[i := s']" ?off val reset] i by simp
  have D: "arb better reset ?D num pr"
    using arb C old arb_remove_other [of reset "priority (ss ! i)" "val (ss ! i)" ?D num pr]
    by (auto simp: cand_def split: if_splits)
  show ?thesis
  proof (cases "cand val reset s'")
    case True
    then have "priority s' > pr" "better (val s') reset" "priority s' \<le> PRIORITY_LOWEST"
      using new C' by (auto simp: cand_def cands_ok_def)
    moreover have "cands_ok better reset ?D" using ok by (simp add: C cands_ok_def)
    ultimately show ?thesis
      using arb_insert [OF D, of "val s'" "priority s'"] True by (simp add: C')
  qed (use D C' in simp)
qed

end

text \<open>A node that is not on can be rewritten freely.\<close>

lemma edit_off_inv:
  assumes inv: "arb_inv st" and i: "i < length (ptScnList st)"
    and off: "scn_state (ptScnList st ! i) \<noteq> STATE_ON" "scn_state s' \<noteq> STATE_ON"
    and st': "ptScnList st' = (ptScnList st)[i := s']" "tConTable st' = tConTable st"
      "RscCfgTbl st' = RscCfgTbl st" "gRscCtlTbl st' = gRscCtlTbl st"
    and wf: "tables_wf st'" and req: "requests_ok st'"
  shows "arb_inv st'"
proof -
  have "con_arbitrated (ptScnList st') j c" if "con_vals (ptScnList st) j c" "con_arbitrated (ptScnList st) j c" for j c
    using con.edit_entry [of c "c_resetVal c" "con_val j" "ptScnList st" "c_curVal c" "c_priority c" i s']
      that i off st'(1) cands_ok_cands
    by (simp add: con_arbitrated_def con_vals_def)
  moreover have "rsc_arbitrated (ptScnList st') j r e"
    if "rsc_vals (ptScnList st) j r e" "rsc_arbitrated (ptScnList st) j r e" for j r e
    using rsc.edit_entry [of r "r_resetVal e" "rsc_val j" "ptScnList st" "r_curVal e" "r_priority e" i s']
      that i off st'(1) cands_ok_cands
    by (simp add: rsc_arbitrated_def rsc_vals_def)
  ultimately show ?thesis
    using inv wf req by (simp add: arb_inv_def arbitrated_def requests_ok_def st'(2-4))
qed

lemma con_force_arbitrated:
  assumes "con_managed c" "con_vals ss idx c" "con_arbitrated ss idx c" "scn < length ss"
    and s': "priority s' = priority (ss ! scn)" "con_vals (ss[scn := s']) idx c"
  defines "ss1 \<equiv> ss[scn := s']"
  shows "con_arbitrated ss1 idx (pu_con_ent True scn ss1 idx c)"
proof (cases "priority s' > c_priority c")
  case False
  obtain num pr where np: "con_scan (con_better c) (c_resetVal c) idx ss1 (c_resetVal c, PRIORITY_LOWEST) = (num, pr)"
    by force
  have "vals_ok (con_better c) (con_val idx) (c_resetVal c) ss1"
    using s' by (simp add: ss1_def con_vals_def)
  moreover have "ss1 ! scn = s'" using assms(4) by (simp add: ss1_def)
  ultimately show ?thesis using con_scan_arb [OF _ np] False assms(1) np
    by (simp add: con_arbitrated_def pu_con_ent_def pu_con_fires_def con_managed_def)
next
  case True
  with assms have "con_arbitrated ss1 idx c"
    using con.edit_entry [of c "c_resetVal c" "con_val idx" ss "c_curVal c" "c_priority c" scn s'] cands_ok_cands
    by (simp add: con_arbitrated_def con_vals_def)
  moreover have "ss1 ! scn = s'" using assms(4) by (simp add: ss1_def)
  ultimately show ?thesis using True by (simp add: pu_con_ent_def pu_con_fires_def)
qed

lemma pu_rsc_force_entry:
  assumes fr: "rsc_frame st1 st'" and e: "gRscCtlTbl st' ! j = e" and j: "j < length (gRscCtlTbl st')"
    and st1: "ptScnList st1 = ss[scn := s']" "scn < length ss"
    and s': "priority s' = priority (ss ! scn)"
    and m: "rsc_managed r e \<longrightarrow> rsc_vals ss j r e \<and> rsc_arbitrated ss j r e \<and> rsc_vals (ss[scn := s']) j r e"
    and r: "RscCfgTbl st1 ! j = r" "comp r \<noteq> ONESHOT"
  shows "rsc_entry_ok (ss[scn := s']) j r e (gRscCtlTbl (pu_rsc True scn j st') ! j)"
  unfolding st1(1) [symmetric]
proof -
  let ?s = "ptScnList st' ! scn"
  let ?goal = "rsc_entry_ok (ptScnList st1) j r e (gRscCtlTbl (pu_rsc True scn j st') ! j)"
  have keys: "map scn_key (ptScnList st') = map scn_key (ptScnList st1)" and R: "RscCfgTbl st' ! j = r"
    using fr r by (auto simp: rsc_frame_def)
  have len: "scn < length (ptScnList st1)" using st1 by simp
  have k: "priority ?s = priority s'" using keys_nth(1) [OF keys len] st1 by simp
  show ?goal
  proof (cases "r_isValid e = 1 \<and> \<not> priority s' > r_priority e")
    case False
    then have "gRscCtlTbl (pu_rsc True scn j st') ! j = e"
      using e R k by (auto simp: pu_rsc_def Let_def)
    moreover have "rsc_arbitrated (ptScnList st1) j r e" if "rsc_managed r e"
      using rsc.edit_entry [of r "r_resetVal e" "rsc_val j" ss "r_curVal e" "r_priority e" scn s'] m that False s' st1
        cands_ok_cands by (simp add: rsc_arbitrated_def rsc_vals_def rsc_managed_def)
    ultimately show ?goal by (simp add: rsc_entry_ok_def)
  next
    case True
    let ?ch = "fold (rsc_scan_step st' r (r_resetVal e) j) [0..<length (ptScnList st')]
      \<lparr>ch_num = r_resetVal e, ch_pr = PRIORITY_LOWEST, ch_setter = r_curSetter e,
       ch_setterName = r_curSetterName e, ch_setterHint = r_curSetterHint e\<rparr>"
    have managed: "rsc_managed r e" using True r(2) by (simp add: rsc_managed_def)
    then have "vals_ok (rsc_better r) (rsc_val j) (r_resetVal e) (ptScnList st')"
      using m st1 keys_cong(4) [OF keys] by (simp add: rsc_vals_def)
    from rsc_scan_arb [OF this _ _ refl]
    have "rsc_arbitrated (ptScnList st') j r (e\<lparr>r_curVal := ch_num ?ch, r_priority := ch_pr ?ch\<rparr>)"
      by (simp add: rsc_arbitrated_def)
    then have "rsc_arbitrated (ptScnList st1) j r (e\<lparr>r_curVal := ch_num ?ch, r_priority := ch_pr ?ch\<rparr>)"
      by (simp only: keys_cong(3) [OF keys])
    then show ?goal
      using True e j R r(2) k
      by (auto simp: rsc_entry_ok_def pu_rsc_def pu_rsc_level_def Let_def rsc_managed_def rsc_arbitrated_def)
  qed
qed


lemma perfScnUpdate_force_inv:
  assumes inv: "arb_inv st0" and ok: "checkSuccess st0 scenario"
    and on: "scn_state s' = STATE_ON" and pr: "priority s' = priority (ptScnList st0 ! nat scenario)"
    and lens: "length (scn_param s') = length (tConTable st0)" "length (scn_rsc s') = length (RscCfgTbl st0)"
    and req: "requests_ok (st0\<lparr>ptScnList := (ptScnList st0)[nat scenario := s']\<rparr>)"
  shows "arb_inv (perfScnUpdate (st0\<lparr>ptScnList := (ptScnList st0)[nat scenario := s']\<rparr>) scenario True)"
proof -
  note scn = checkSuccess_index [OF ok]
  have "arb_inv (rsc_loop (pu_rsc True (nat scenario)) [0..<length (RscCfgTbl st3)] st3)"
    if "st3 = add_act a (fold (pu_con True (nat scenario)) [0..<length (tConTable st0)]
          (st0\<lparr>ptScnList := (ptScnList st0)[nat scenario := s']\<rparr>))" for a st3
    by (rule node_arb_inv [OF inv scn lens req, where ent = "pu_con_ent True (nat scenario)
            ((ptScnList st0)[nat scenario := s'])"])
      (use scn pr in \<open>simp_all add: that con_fold_scn [OF pu_con_body] con_force_arbitrated pu_rsc_only,
        auto intro!: pu_rsc_force_entry\<close>)
  moreover have "checkSuccess (st0\<lparr>ptScnList := (ptScnList st0)[nat scenario := s']\<rparr>) scenario"
    using ok by (simp add: checkSuccess_def)
  ultimately show ?thesis using on scn by (simp add: perfScnUpdate_def Let_def)
qed

end
