(* ===== verification/Arbiter_Props.thy ===== *)
theory Arbiter_Props
  imports Arbiter_Inv
begin

text \<open>
  The settings as a function of the requests. With the invariant of \<open>Arbiter_Inv\<close> the
  value and priority of every managed entry are determined by the requests alone, so the
  effect of a sequence of operations is compared by comparing the requests.
\<close>

section \<open>What switching a scenario leaves alone\<close>

definition con_static :: "tScnConTable \<Rightarrow> tScnConTable" where
  "con_static c = c\<lparr>c_curVal := 0, c_priority := 0\<rparr>"

definition rsc_static :: "tRscCtlEntry \<Rightarrow> int \<times> int" where
  "rsc_static e = (r_resetVal e, r_isValid e)"

definition same_config :: "perf \<Rightarrow> perf \<Rightarrow> bool" where
  "same_config a b \<longleftrightarrow> RscCfgTbl b = RscCfgTbl a \<and> map con_static (tConTable b) = map con_static (tConTable a) \<and>
     map rsc_static (gRscCtlTbl b) = map rsc_static (gRscCtlTbl a)"

lemma same_config_refl [simp]: "same_config st st"
  by (simp add: same_config_def)

lemma same_config_trans: "same_config a b \<Longrightarrow> same_config b c \<Longrightarrow> same_config a c"
  by (simp add: same_config_def)

lemma same_config_sym: "same_config a b \<Longrightarrow> same_config b a"
  by (simp add: same_config_def)

abbreviation ctl_static :: "perf \<Rightarrow> (int \<times> int) list" where
  "ctl_static st \<equiv> map rsc_static (gRscCtlTbl st)"

lemma static_update [simp]:
  "rsc_static e = rsc_static (xs ! i) \<Longrightarrow> map rsc_static (xs[i := e]) = map rsc_static xs"
  by (rule map_list_update_id)

lemma pe_rsc_static: "ctl_static (pe_rsc scn name idx st) = ctl_static st"
proof -
  obtain b st1 where f: "fold (pe_oneshot_unset scn idx) [0..<length (ptScnList st)] (False, st) = (b, st1)"
    by force
  have "gRscCtlTbl (snd (fold (pe_oneshot_unset scn idx) [0..<length (ptScnList st)] (False, st))) = gRscCtlTbl st"
    by (rule fold_invariant_list [where P = "\<lambda>x. gRscCtlTbl (snd x) = gRscCtlTbl st"])
      (auto simp: pe_oneshot_unset_def Let_def split: prod.splits)
  with f have "gRscCtlTbl st1 = gRscCtlTbl st" by simp
  with f show ?thesis
    by (simp add: pe_rsc_def pe_rsc_level_def pe_rsc_oneshot_def Let_def rsc_static_def)
qed

lemma pu_rsc_static: "ctl_static (pu_rsc fu scn idx st) = ctl_static st"
proof -
  have "ctl_static (fold (pu_oneshot_reset pr idx) is st') = ctl_static st'" for pr "is" st'
    by (rule fold_invariant_list [where P = "\<lambda>s. ctl_static s = ctl_static st'"])
      (auto simp: pu_oneshot_reset_def Let_def rsc_static_def)
  then show ?thesis
    by (auto simp: pu_rsc_def pu_rsc_level_def pu_rsc_oneshot_def pu_oneshot_force_def Let_def rsc_static_def)
qed

lemma rsc_loop_static:
  assumes "\<And>i st. ctl_static (body i st) = ctl_static st"
  shows "ctl_static (rsc_loop body is st) = ctl_static st"
  using assms by (induction "is" arbitrary: st) auto

lemma rsc_loop_frame:
  assumes "\<And>i st. rsc_only i st (body i st)"
  shows "rsc_frame st (rsc_loop body is st)"
proof (induction "is" arbitrary: st)
  case (Cons i "is")
  then show ?case using assms [of i st] rsc_frame_trans by (simp add: rsc_only_def) blast
qed simp

lemma con_ent_static:
  assumes "\<And>j c. con_static (ent j c) = con_static c"
  shows "map con_static (map (\<lambda>j. ent j (tConTable st ! j)) [0..<length (tConTable st)]) =
    map con_static (tConTable st)"
  by (rule nth_equalityI) (simp_all add: assms)

lemma pe_con_ent_static: "con_static (pe_con_ent scn ss j c) = con_static c"
  by (simp add: con_static_def pe_con_ent_def)

lemma pu_con_ent_static: "con_static (pu_con_ent fu scn ss j c) = con_static c"
  by (auto simp: con_static_def pu_con_ent_def split: prod.splits)

text \<open>Everything but the settings, the \<open>hasReset\<close> flags and the trace of actions.\<close>

definition perf_rest :: "perf \<Rightarrow> perf" where
  "perf_rest st = st\<lparr>ptScnList := map (\<lambda>s. s\<lparr>hasReset := False\<rparr>) (ptScnList st), tConTable := [],
     gRscCtlTbl := [], acts := []\<rparr>"

lemma hasReset_update [simp]:
  "map (\<lambda>s. s\<lparr>hasReset := False\<rparr>) (ss[i := (ss ! i)\<lparr>hasReset := b\<rparr>]) = map (\<lambda>s. s\<lparr>hasReset := False\<rparr>) ss"
  by (rule map_list_update_id) simp

lemma perf_rest_upd [simp]:
  "perf_rest (st\<lparr>gRscCtlTbl := g\<rparr>) = perf_rest st"
  "perf_rest (st\<lparr>tConTable := t\<rparr>) = perf_rest st"
  "perf_rest (st\<lparr>acts := a\<rparr>) = perf_rest st"
  "perf_rest (st\<lparr>ptScnList := (ptScnList st)[i := (ptScnList st ! i)\<lparr>hasReset := b\<rparr>]\<rparr>) = perf_rest st"
  by (simp_all add: perf_rest_def)

lemma pe_rsc_rest: "perf_rest (pe_rsc scn name idx st) = perf_rest st"
proof -
  obtain b st1 where f: "fold (pe_oneshot_unset scn idx) [0..<length (ptScnList st)] (False, st) = (b, st1)"
    by force
  have "perf_rest (snd (fold (pe_oneshot_unset scn idx) [0..<length (ptScnList st)] (False, st))) = perf_rest st"
    by (rule fold_invariant_list [where P = "\<lambda>x. perf_rest (snd x) = perf_rest st"])
      (auto simp: pe_oneshot_unset_def Let_def split: prod.splits)
  with f have "perf_rest st1 = perf_rest st" by simp
  with f show ?thesis
    by (simp add: pe_rsc_def pe_rsc_level_def pe_rsc_oneshot_def Let_def)
qed

lemma pu_rsc_rest: "perf_rest (pu_rsc fu scn idx st) = perf_rest st"
proof -
  have "perf_rest (fold (pu_oneshot_reset pr idx) is st') = perf_rest st'" for pr "is" st'
    by (rule fold_invariant_list [where P = "\<lambda>s. perf_rest s = perf_rest st'"])
      (auto simp: pu_oneshot_reset_def Let_def)
  then show ?thesis
    by (simp add: pu_rsc_def pu_rsc_level_def pu_rsc_oneshot_def pu_oneshot_force_def Let_def)
qed

lemma rsc_loop_rest:
  assumes "\<And>i st. perf_rest (body i st) = perf_rest st"
  shows "perf_rest (rsc_loop body is st) = perf_rest st"
  using assms by (induction "is" arbitrary: st) auto

text \<open>
  \<open>perfScnEnable\<close> and \<open>perfScnUpdate\<close> change the state of one scenario, no request, and no
  configuration.
\<close>

lemma con_loop_rest:
  assumes "con_body body ent w" "\<And>ss j c. con_static (ent ss j c) = con_static c"
  shows "perf_rest (fold body [0..<length (tConTable st)] st) = perf_rest st"
    "same_config st (fold body [0..<length (tConTable st)] st)"
  unfolding con_fold [OF assms(1)]
  using con_ent_static [where ent = "ent (ptScnList st)", OF assms(2)] by (simp_all add: same_config_def)

lemma same_config_loops:
  assumes "\<And>i st. rsc_only i st (body i st)" "\<And>i st. ctl_static (body i st) = ctl_static st"
  shows "same_config st (rsc_loop body is (st\<lparr>acts := a\<rparr>))"
  using rsc_loop_frame [OF assms(1), of "st\<lparr>acts := a\<rparr>" "is"] rsc_loop_static [where body = body, OF assms(2)]
  by (simp add: same_config_def rsc_frame_def)

lemma perfScnEnable_rest:
  "perf_rest (perfScnEnable st scenario) =
     perf_rest (if checkSuccess st scenario then upd_scn (nat scenario) (\<lambda>s. s\<lparr>scn_state := STATE_ON\<rparr>) st else st)"
  using con_loop_rest(1) [OF pe_con_body pe_con_ent_static, where st = "upd_scn (nat scenario) (\<lambda>s. s\<lparr>scn_state := STATE_ON\<rparr>) st"]
  by (simp add: perfScnEnable_def Let_def rsc_loop_rest [OF pe_rsc_rest])

lemma perfScnUpdate_rest:
  "perf_rest (perfScnUpdate st scenario fu) =
     perf_rest (if checkSuccess st scenario \<and> \<not> fu \<and> scn_state (ptScnList st ! nat scenario) \<noteq> STATE_OFF
        then upd_scn (nat scenario) (\<lambda>s. s\<lparr>scn_state := STATE_OFF\<rparr>) st else st)"
  using con_loop_rest(1) [OF pu_con_body pu_con_ent_static, where st = "upd_scn (nat scenario) (\<lambda>s. s\<lparr>scn_state := STATE_OFF\<rparr>) st"]
    con_loop_rest(1) [OF pu_con_body pu_con_ent_static, where st = st]
  by (auto simp: perfScnUpdate_def Let_def rsc_loop_rest [OF pu_rsc_rest])

lemma same_config_upd_scn [simp]:
  "same_config st (st\<lparr>acts := a\<rparr>)" "same_config (st\<lparr>ptScnList := ss\<rparr>) st' = same_config st st'"
  "same_config st (st'\<lparr>acts := a\<rparr>) = same_config st st'"
  by (auto simp: same_config_def)

lemma perfScnEnable_config: "same_config st (perfScnEnable st scenario)"
proof -
  have "same_config st (rsc_loop (pe_rsc scn name) is (fold (pe_con scn) [0..<length (tConTable st)]
      (st\<lparr>ptScnList := ss\<rparr>)\<lparr>acts := a\<rparr>))" for scn name ss "is" a
    using con_loop_rest(2) [OF pe_con_body pe_con_ent_static, where st = "st\<lparr>ptScnList := ss\<rparr>"]
      same_config_loops [where body = "pe_rsc scn name", OF pe_rsc_only pe_rsc_static] by simp (blast intro: same_config_trans)
  then show ?thesis by (simp add: perfScnEnable_def Let_def)
qed

lemma perfScnUpdate_config: "same_config st (perfScnUpdate st scenario fu)"
proof -
  have "same_config st (rsc_loop (pu_rsc fu scn) is (fold (pu_con fu scn) [0..<length (tConTable st)]
      (st\<lparr>ptScnList := ss\<rparr>)\<lparr>acts := a\<rparr>))" for scn ss "is" a
    using con_loop_rest(2) [OF pu_con_body pu_con_ent_static, where st = "st\<lparr>ptScnList := ss\<rparr>"]
      same_config_loops [where body = "pu_rsc fu scn", OF pu_rsc_only pu_rsc_static] by simp (blast intro: same_config_trans)
  from this [where ss = "ptScnList st"] this show ?thesis by (cases fu) (simp_all add: perfScnUpdate_def Let_def)
qed

section \<open>Requests determine settings\<close>

definition con_setting :: "tScnConTable \<Rightarrow> (int \<times> int) option" where
  "con_setting c = (if con_managed c then Some (c_curVal c, c_priority c) else None)"

definition rsc_setting :: "tRscConfig \<times> tRscCtlEntry \<Rightarrow> (int \<times> int) option" where
  "rsc_setting = (\<lambda>(r, e). if rsc_managed r e then Some (r_curVal e, r_priority e) else None)"

text \<open>Value and priority of every managed node and resource.\<close>

definition settings :: "perf \<Rightarrow> (int \<times> int) option list \<times> (int \<times> int) option list" where
  "settings st = (map con_setting (tConTable st), map rsc_setting (zip (RscCfgTbl st) (gRscCtlTbl st)))"

text \<open>What the scenarios ask for: state, priority and values of each.\<close>

definition requests :: "perf \<Rightarrow> (scn_state \<times> int \<times> int list \<times> int list) list" where
  "requests st = map scn_key (ptScnList st)"

lemma con_static_fields:
  "c_resetVal (con_static c) = c_resetVal c" "con_better (con_static c) = con_better c"
  "con_managed (con_static c) = con_managed c"
  by (simp_all add: con_static_def)

lemma con_static_eq:
  "con_static c' = con_static c \<Longrightarrow>
     c_resetVal c' = c_resetVal c \<and> con_better c' = con_better c \<and> con_managed c' = con_managed c"
  by (metis con_static_fields)

lemma arb_inv_con:
  "arb_inv st \<Longrightarrow> j < length (tConTable st) \<Longrightarrow> con_managed (tConTable st ! j) \<Longrightarrow>
     con_arbitrated (ptScnList st) j (tConTable st ! j)"
  by (simp add: arb_inv_def arbitrated_def)

definition active :: "perf \<Rightarrow> (scn_state \<times> int \<times> int list \<times> int list) set" where
  "active st = {k \<in> set (requests st). fst k = STATE_ON}"

lemma cands_active:
  assumes "\<And>s. val s = vk (scn_key s)" "active a = active b"
  shows "cands val reset (ptScnList a) = cands val reset (ptScnList b)"
proof -
  have "cands val reset (ptScnList st) = (\<lambda>k. (fst (snd k), vk k)) `
      {k \<in> active st. vk k \<noteq> reset \<and> fst (snd k) \<le> PRIORITY_LOWEST}" for st
    unfolding cands_key [of val vk, OF assms(1)] active_def requests_def by (rule arg_cong [where f = "image _"]) auto
  with assms(2) show ?thesis by simp
qed

lemma settings_active:
  assumes "arb_inv a" "arb_inv b" and conf: "same_config a b" and act: "active b = active a"
  shows "settings b = settings a"
proof -
  from conf have R: "RscCfgTbl b = RscCfgTbl a" and C: "map con_static (tConTable b) = map con_static (tConTable a)"
    and G: "map rsc_static (gRscCtlTbl b) = map rsc_static (gRscCtlTbl a)" by (simp_all add: same_config_def)
  note lenC = map_eq_imp_length_eq [OF C] and lenG = map_eq_imp_length_eq [OF G]
  have "con_setting (tConTable b ! j) = con_setting (tConTable a ! j)" if j: "j < length (tConTable a)" for j
  proof -
    let ?c = "tConTable a ! j" and ?d = "tConTable b ! j"
    have s: "c_resetVal ?d = c_resetVal ?c \<and> con_better ?d = con_better ?c \<and> con_managed ?d = con_managed ?c"
      using arg_cong [OF C, of "\<lambda>l. l ! j"] j lenC by (intro con_static_eq) simp
    have "con_managed ?c \<Longrightarrow> con_arbitrated (ptScnList a) j ?c \<and> con_arbitrated (ptScnList b) j ?d"
      using assms(1,2) j lenC s by (simp add: arb_inv_con)
    then show ?thesis
      using s con.arb_unique [of ?c "c_resetVal ?c" "cands (con_val j) (c_resetVal ?c) (ptScnList a)" "c_curVal ?c" "c_priority ?c" "c_curVal ?d" "c_priority ?d"]
        cands_active [of "con_val j", OF con_val_key act, of "c_resetVal ?c"]
      by (auto simp: con_arbitrated_def con_setting_def)
  qed
  then have 1: "map con_setting (tConTable b) = map con_setting (tConTable a)"
    by (intro nth_equalityI) (simp_all add: lenC)
  have "rsc_setting (RscCfgTbl a ! j, gRscCtlTbl b ! j) = rsc_setting (RscCfgTbl a ! j, gRscCtlTbl a ! j)"
    if j: "j < length (RscCfgTbl a)" "j < length (gRscCtlTbl a)" for j
  proof -
    let ?r = "RscCfgTbl a ! j" and ?e = "gRscCtlTbl a ! j" and ?d = "gRscCtlTbl b ! j"
    have s: "r_resetVal ?d = r_resetVal ?e" "rsc_managed ?r ?d = rsc_managed ?r ?e"
      using arg_cong [OF G, of "\<lambda>l. l ! j"] j lenG by (auto simp: rsc_static_def rsc_managed_def)
    have "rsc_managed ?r ?e \<Longrightarrow> rsc_arbitrated (ptScnList a) j ?r ?e \<and> rsc_arbitrated (ptScnList b) j ?r ?d"
      using assms(1,2) j lenG R s by (simp add: arb_inv_def arbitrated_def)
    then show ?thesis
      using s rsc.arb_unique [of ?r "r_resetVal ?e" "cands (rsc_val j) (r_resetVal ?e) (ptScnList a)" "r_curVal ?e" "r_priority ?e" "r_curVal ?d" "r_priority ?d"]
        cands_active [of "rsc_val j", OF rsc_val_key act, of "r_resetVal ?e"]
      by (auto simp: rsc_arbitrated_def rsc_setting_def)
  qed
  then have "map rsc_setting (zip (RscCfgTbl b) (gRscCtlTbl b)) = map rsc_setting (zip (RscCfgTbl a) (gRscCtlTbl a))"
    by (intro nth_equalityI) (simp_all add: lenG R)
  with 1 show ?thesis by (simp add: settings_def)
qed

lemma settings_unique:
  assumes "arb_inv a" "arb_inv b" "same_config a b" "requests b = requests a"
  shows "settings b = settings a"
  using assms(4) by (intro settings_active [OF assms(1-3)]) (simp add: active_def)

lemma perf_rest_requests: "perf_rest a = perf_rest b \<Longrightarrow> requests a = requests b"
proof -
  have "requests st = map scn_key (ptScnList (perf_rest st))" for st
    by (simp add: requests_def perf_rest_def)
  then show "perf_rest a = perf_rest b \<Longrightarrow> requests a = requests b" by simp
qed

lemma perf_rest_check:
  assumes "perf_rest a = perf_rest b"
  shows "checkSuccess a = checkSuccess b"
proof
  fix i
  have "checkSuccess st i = checkSuccess (perf_rest st) i" for st
    by (simp add: checkSuccess_def perf_rest_def)
  with assms show "checkSuccess a i = checkSuccess b i" by metis
qed

lemma scn_key_state [simp]: "scn_key (s\<lparr>scn_state := x\<rparr>) = (x, snd (scn_key s))"
  by (simp add: scn_key_def)

abbreviation switch_req :: "scn_state \<Rightarrow> int \<Rightarrow> perf \<Rightarrow> (scn_state \<times> int \<times> int list \<times> int list) list" where
  "switch_req x i st \<equiv> (requests st)[nat i := (x, snd (requests st ! nat i))]"

lemma perfScnEnable_requests:
  "checkSuccess st i \<Longrightarrow> requests (perfScnEnable st i) = switch_req STATE_ON i st"
  using perf_rest_requests [OF perfScnEnable_rest, of st i] checkSuccess_index [of st i]
  by (simp add: requests_def map_update)

lemma perfScnDisable_requests:
  assumes "checkSuccess st i"
  shows "requests (perfScnDisable st i) = switch_req STATE_OFF i st"
proof (cases "scn_state (ptScnList st ! nat i) = STATE_OFF")
  case True
  then have "(STATE_OFF, snd (requests st ! nat i)) = requests st ! nat i"
    using checkSuccess_index [OF assms] by (simp add: requests_def scn_key_def)
  moreover have "perfScnDisable st i = st" using True assms by (simp add: perfScnDisable_def perfScnUpdate_def)
  ultimately show ?thesis by simp
next
  case False
  with perf_rest_requests [OF perfScnUpdate_rest, of st i False] checkSuccess_index [OF assms] assms
  show ?thesis by (simp add: perfScnDisable_def requests_def map_update)
qed

lemma perfScnEnable_check [simp]: "checkSuccess (perfScnEnable st i) = checkSuccess st"
proof -
  have "checkSuccess (upd_scn j f st) = checkSuccess st" for j f by (simp add: checkSuccess_def fun_eq_iff)
  with perf_rest_check [OF perfScnEnable_rest, of st i] show ?thesis by simp
qed

lemma perfScnDisable_check [simp]: "checkSuccess (perfScnDisable st i) = checkSuccess st"
proof -
  have "checkSuccess (upd_scn j f st) = checkSuccess st" for j f by (simp add: checkSuccess_def fun_eq_iff)
  with perf_rest_check [OF perfScnUpdate_rest, of st i False] show ?thesis by (simp add: perfScnDisable_def)
qed

lemmas perfScnDisable_config = perfScnUpdate_config [where fu = False, folded perfScnDisable_def]

section \<open>Properties\<close>

text \<open>
  C2. Turning a scenario on keeps the arbitration contract: afterwards the scenario is on,
  no request of any scenario has changed, and every managed node and resource holds the
  value and the priority of the best request among the scenarios that are on (smallest
  priority number first, then the direction of the entry's comparison), or its reset value
  if there is none.
\<close>

theorem perfScnEnable_arbitrates:
  assumes "arb_inv st" and "checkSuccess st scenario"
  shows "arb_inv (perfScnEnable st scenario) \<and>
    requests (perfScnEnable st scenario) = switch_req STATE_ON scenario st"
  using perfScnEnable_inv [OF assms(1)] perfScnEnable_requests [OF assms(2)] by simp

text \<open>
  C3. Turning a scenario off keeps the arbitration contract: afterwards the scenario is off,
  no request has changed, and every managed node and resource holds the value and priority
  of the best request that is left, or its reset value.
\<close>

theorem perfScnDisable_arbitrates:
  assumes "arb_inv st" and "checkSuccess st scenario"
  shows "arb_inv (perfScnDisable st scenario) \<and>
    requests (perfScnDisable st scenario) = switch_req STATE_OFF scenario st"
  using perfScnDisable_inv [OF assms(1)] perfScnDisable_requests [OF assms(2)] by simp

text \<open>
  C5. Releasing a scenario undoes acquiring it: for a scenario that is off, enabling and then
  disabling it restores the value and priority of every managed node and resource, whatever
  the other scenarios ask for.
\<close>

theorem enable_disable_restores:
  assumes "arb_inv st" and "checkSuccess st scenario" and "scn_state (ptScnList st ! nat scenario) = STATE_OFF"
  shows "settings (perfScnDisable (perfScnEnable st scenario) scenario) = settings st"
proof (rule settings_unique)
  have "nat scenario < length (requests st)" using checkSuccess_index [OF assms(2)] by (simp add: requests_def)
  moreover have "requests st ! nat scenario = (STATE_OFF, snd (requests st ! nat scenario))"
    using assms(3) calculation by (simp add: requests_def scn_key_def)
  ultimately show "requests (perfScnDisable (perfScnEnable st scenario) scenario) = requests st"
    using assms(2) by (metis (no_types, lifting) fst_conv list_update_id list_update_overwrite nth_list_update_eq
        perfScnDisable_requests perfScnEnable_check perfScnEnable_requests snd_conv)
  show "same_config st (perfScnDisable (perfScnEnable st scenario) scenario)"
    by (rule same_config_trans [OF perfScnEnable_config perfScnDisable_config])
qed (use assms(1) perfScnEnable_inv perfScnDisable_inv in auto)

text \<open>
  C6. The order in which two scenarios are turned on does not matter for the settings.
\<close>

theorem enable_order_irrelevant:
  assumes "arb_inv st" and "checkSuccess st i" and "checkSuccess st j"
  shows "settings (perfScnEnable (perfScnEnable st i) j) = settings (perfScnEnable (perfScnEnable st j) i)"
proof (rule settings_unique)
  show "requests (perfScnEnable (perfScnEnable st i) j) = requests (perfScnEnable (perfScnEnable st j) i)"
    using assms(2,3) by (cases "nat i = nat j") (simp_all add: perfScnEnable_requests list_update_swap)
  show "same_config (perfScnEnable (perfScnEnable st j) i) (perfScnEnable (perfScnEnable st i) j)"
    by (meson perfScnEnable_config same_config_sym same_config_trans)
qed (use assms(1) perfScnEnable_inv in auto)

section \<open>A small configuration\<close>

text \<open>
  Two scenarios over one node (smaller is better), one resource (bigger is better) and one
  one-shot resource, used to show that the hypotheses above can hold.
\<close>

definition demo_scn :: "scn_state \<Rightarrow> int \<Rightarrow> int \<Rightarrow> int \<Rightarrow> tScnNode" where
  "demo_scn x pr p v = \<lparr>handle_idx = 1, scn_type = SCN_PERF_LOCK_HINT, scn_state = x, pack_name = '''', act_name = '''',
     sbe_featurename = '''', fps = '''', window_mode = '''',
     render_pid = -1, hint_hold_time = 0, ext_hint = 0, ext_hint_hold_time = 0, launch_time_cold = 0,
     launch_time_warm = 0, act_switch_time = 0, screen_off_action = 0, pid = 100, tid = 101,
     scn_rsc = [v, RSC_TBL_INVALID_VALUE], scn_prev_rsc = [v, RSC_TBL_INVALID_VALUE], scn_param = [p],
     comm = ''app'', cus_lock_hint = -1, lock_duration = 0, scn_lock_rsc_size = 2, priority = pr,
     oneshotReset = False, hasReset = False, timestamp = ''''\<rparr>"

definition demo_con :: "int \<Rightarrow> int \<Rightarrow> tScnConTable" where
  "demo_con v pr = \<lparr>c_cmdName = ''PERF_RES_DEMO'', c_cmdID = 7, c_legacyCmdID = -1, c_entry = ''/proc/demo'',
     c_defaultVal = 50, c_curVal = v, c_comp = ''less'', c_maxVal = 100, c_minVal = 0, c_resetVal = 101,
     c_isValid = 0, c_ignore = 0, c_init_set_default = 0, c_prefix = '''', c_priority = pr\<rparr>"

definition demo_cfg :: "rsc_comp \<Rightarrow> tRscConfig" where
  "demo_cfg x = \<lparr>cmdID = 8, cmdName = ''PERF_RES_DEMO_RSC'', comp = x, maxVal = 10, minVal = 0, defaultVal = 0,
     set_func = Some ''setDemo'', unset_func = Some ''unsetDemo'', init_func = None\<rparr>"

definition demo_perf :: "tScnNode list \<Rightarrow> tScnConTable \<Rightarrow> int \<Rightarrow> int \<Rightarrow> perf" where
  "demo_perf ss c v pr = \<lparr>nIsReady = True, nPowerLibEnable = 1, ptScnList = ss, tConTable = [c],
     RscCfgTbl = [demo_cfg BIGGEST, demo_cfg ONESHOT],
     gRscCtlTbl = [(loadRscTable_entry (demo_cfg BIGGEST))\<lparr>r_curVal := v, r_priority := pr\<rparr>,
                   loadRscTable_entry (demo_cfg ONESHOT)],
     PowerScnTbl = [], user_handle_now = 1, install_max_duration = 0, powerhalAPI_status = [1, 1, 1],
     mode_status = [1, 0], mInteractive = 1, mInteractiveControl = 1, scnCheckSupport = 1,
     game_mode_pid = -1, notifyGbePid = 1, video_mode_pid = -1, camera_mode_pid = -1, fg_uid = 0, fg_pid = 0,
     isMbrainSupport = 0, SmartLaunchInfo = [], acts = []\<rparr>"

text \<open>The first scenario is on and asks for 40 and 3; the second is off and asks for 30 and 5.\<close>

definition demo_on_off :: perf where
  "demo_on_off = demo_perf [demo_scn STATE_ON 3 40 3, demo_scn STATE_OFF 3 30 5] (demo_con 40 3) 3 3"

lemmas demo_defs = demo_on_off_def demo_perf_def demo_scn_def demo_con_def demo_cfg_def loadRscTable_entry_def
  rsc_reset_value_def

lemmas arb_inv_defs = arb_inv_def tables_wf_def requests_ok_def arbitrated_def con_managed_def rsc_managed_def
  con_vals_def rsc_vals_def vals_ok_def con_arbitrated_def rsc_arbitrated_def arb_def cands_def cand_def
  con_better_def rsc_better_def rsc_has_funcs_def

lemma demo_inv: "arb_inv demo_on_off"
  by (simp add: arb_inv_defs demo_defs less_Suc_eq)

lemma demo_check: "checkSuccess demo_on_off 1"
  by (simp add: checkSuccess_def demo_defs)

theorem perfScnEnable_arbitrates_witness:
  "arb_inv (perfScnEnable demo_on_off 1) \<and> settings (perfScnEnable demo_on_off 1) = ([Some (30, 3)], [Some (5, 3), None])"
  using perfScnEnable_arbitrates [OF demo_inv demo_check] by (simp; code_simp)

theorem perfScnDisable_arbitrates_witness:
  "arb_inv (perfScnDisable demo_on_off 0) \<and> settings (perfScnDisable demo_on_off 0) = ([Some (101, 6)], [Some (-1, 6), None])"
proof -
  have "checkSuccess demo_on_off 0" by (simp add: checkSuccess_def demo_defs)
  from perfScnDisable_arbitrates [OF demo_inv this] show ?thesis by (simp; code_simp)
qed

theorem enable_disable_restores_witness:
  "settings (perfScnDisable (perfScnEnable demo_on_off 1) 1) = ([Some (40, 3)], [Some (3, 3), None])"
proof -
  have "scn_state (ptScnList demo_on_off ! nat 1) = STATE_OFF" by (simp add: demo_defs)
  from enable_disable_restores [OF demo_inv demo_check this] show ?thesis by (simp; code_simp)
qed

theorem enable_order_irrelevant_witness:
  "settings (perfScnEnable (perfScnEnable demo_on_off 0) 1) = settings (perfScnEnable (perfScnEnable demo_on_off 1) 0)"
proof -
  have "checkSuccess demo_on_off 0" by (simp add: checkSuccess_def demo_defs)
  from enable_order_irrelevant [OF demo_inv this demo_check] show ?thesis .
qed

section \<open>Re-applying a scenario\<close>

text \<open>
  C7. A forced update after the requests of an active scenario have been replaced keeps the
  contract, provided its priority is the old one: the settings are those of the new requests.
\<close>

theorem forced_update_arbitrates:
  assumes "arb_inv st0" and "checkSuccess st0 scenario" and "scn_state s' = STATE_ON"
    and "priority s' = priority (ptScnList st0 ! nat scenario)"
    and "length (scn_param s') = length (tConTable st0)" "length (scn_rsc s') = length (RscCfgTbl st0)"
    and "requests_ok (st0\<lparr>ptScnList := (ptScnList st0)[nat scenario := s']\<rparr>)"
  shows "arb_inv (perfScnUpdate (st0\<lparr>ptScnList := (ptScnList st0)[nat scenario := s']\<rparr>) scenario True)"
  using assms by (rule perfScnUpdate_force_inv)

theorem forced_update_arbitrates_witness:
  "arb_inv (perfScnUpdate (demo_on_off\<lparr>ptScnList := (ptScnList demo_on_off)[0 := demo_scn STATE_ON 3 60 1]\<rparr>) 0 True)"
proof -
  have "requests_ok (demo_on_off\<lparr>ptScnList := (ptScnList demo_on_off)[nat 0 := demo_scn STATE_ON 3 60 1]\<rparr>)"
    by (simp add: arb_inv_defs demo_defs less_Suc_eq)
  moreover have "checkSuccess demo_on_off 0" by (simp add: checkSuccess_def demo_defs)
  ultimately show ?thesis
    using forced_update_arbitrates [OF demo_inv, of 0 "demo_scn STATE_ON 3 60 1"] by (simp add: demo_defs)
qed


end
