(* ===== verification/Con_Load.thy ===== *)
theory Con_Load
  imports Arbiter_Props
begin

text \<open>
  Loading the tables (\<^verbatim>\<open>perfservice_xmlparse.cpp\<close>) and \<open>init\<close> of
  \<^verbatim>\<open>perfservice.cpp\<close>. The XML library is not part of the program: a parsed document is
  the list of the elements the code walks over, with the attributes and texts it reads as
  options (\<open>None\<close>: the library returns a null pointer). What the kernel files and the
  property service answer are arguments, collected in the record \<open>load_env\<close>. A step in
  which the C++ code constructs a \<open>std::string\<close> from a null pointer, or indexes past the end
  of \<open>tConTable\<close>, has no behaviour and is \<open>None\<close>.
\<close>

section \<open>strtol\<close>

definition c_isspace :: "char \<Rightarrow> bool" where
  "c_isspace c \<longleftrightarrow> c = CHR '' '' \<or> (9 \<le> (of_char c :: nat) \<and> (of_char c :: nat) \<le> 13)"

definition digit_val :: "int \<Rightarrow> char \<Rightarrow> int option" where
  "digit_val base c =
     (let n = (of_char c :: int);
          d = (if 48 \<le> n \<and> n \<le> 57 then n - 48
               else if 97 \<le> n \<and> n \<le> 122 then n - 87
               else if 65 \<le> n \<and> n \<le> 90 then n - 55 else base)
      in if d < base then Some d else None)"

fun digits_acc :: "int \<Rightarrow> string \<Rightarrow> int \<Rightarrow> int" where
  "digits_acc base [] acc = acc"
| "digits_acc base (c # cs) acc =
     (case digit_val base c of None \<Rightarrow> acc | Some d \<Rightarrow> digits_acc base cs (acc * base + d))"

fun skip_0x :: "string \<Rightarrow> string" where
  "skip_0x (z # x # d # cs) =
     (if z = CHR ''0'' \<and> (x = CHR ''x'' \<or> x = CHR ''X'') \<and> digit_val 16 d \<noteq> None then d # cs
      else z # x # d # cs)"
| "skip_0x s = s"

text \<open>The value saturates at the range of a 64-bit \<open>long\<close> and is then stored in an \<open>int\<close>.\<close>

definition strtol :: "int \<Rightarrow> string \<Rightarrow> int" where
  "strtol base s =
     (let s1 = dropWhile c_isspace s;
          neg = (case s1 of c # _ \<Rightarrow> c = CHR ''-'' | [] \<Rightarrow> False);
          s2 = (case s1 of c # cs \<Rightarrow> if c = CHR ''-'' \<or> c = CHR ''+'' then cs else s1 | [] \<Rightarrow> []);
          m = digits_acc base (if base = 16 then skip_0x s2 else s2) 0;
          v = (if neg then - m else m)
      in c_int (max (- (2 ^ 63)) (min (2 ^ 63 - 1) v)))"

section \<open>loadConTable\<close>

record xml_cmd =
  x_name :: "string option"
  x_id :: "string option"
  x_entry :: "string option option"      \<comment> \<open>\<open>Entry\<close> element and its \<open>path\<close> attribute\<close>
  x_valid :: "string option"
  x_legacyCmdID :: "string option"
  x_compare :: "string option option"    \<comment> \<open>\<open>Compare\<close> element and its text\<close>
  x_maxVal :: "string option"
  x_minVal :: "string option"
  x_defaultVal :: "string option"
  x_prefix :: "string option option"
  x_initWrite :: "string option"

record xml_scn =
  s_powerhint :: "string option"
  s_data :: "(string option \<times> int) list" \<comment> \<open>\<open>cmd\<close> and \<open>param1\<close> of the \<open>data\<close> elements\<close>

record load_env =
  access_w :: "string \<Rightarrow> bool"
  node_int :: "string \<Rightarrow> int"            \<comment> \<open>\<open>get_int_value(path)\<close>\<close>
  con_xml :: "xml_cmd list option"
  scn_xml :: "xml_scn list option"
  crypto_state :: string
  crypto_type :: string
  vold_decrypt :: string
  data_access :: bool
  scn_alloc_ok :: bool                     \<comment> \<open>\<open>malloc\<close> of \<open>ptScnList\<close>\<close>
  rsc_alloc_ok :: bool                     \<comment> \<open>\<open>malloc\<close> of \<open>gRscCtlTbl\<close>\<close>
  topo_ok :: bool                          \<comment> \<open>\<open>CpuFreqReady\<close> is 0 or \<open>getCputopoInfo\<close> succeeds\<close>
  prop_init :: string
  prop_enable :: string
  mbrain_ok :: bool
  cmd_garbage :: string                    \<comment> \<open>the uninitialised buffer of \<open>perfxml_read_cmddata\<close>\<close>

abbreviation (input) CFG_TBL_INVALID_VALUE :: int where "CFG_TBL_INVALID_VALUE \<equiv> -123456"
abbreviation (input) FIELD_SIZE :: nat where "FIELD_SIZE \<equiv> 1024"

definition text_int :: "string option \<Rightarrow> int \<Rightarrow> int" where
  "text_int t d = (case t of Some s \<Rightarrow> strtol 10 s | None \<Rightarrow> d)"

text \<open>The \<open>Entry\<close> and \<open>Valid\<close> elements.\<close>

definition load_access :: "load_env \<Rightarrow> xml_cmd \<Rightarrow> tScnConTable \<Rightarrow> tScnConTable option" where
  "load_access env x c =
     (case x_entry x of
        None \<Rightarrow> Some c
      | Some None \<Rightarrow> None
      | Some (Some path) \<Rightarrow>
          Some (c\<lparr>c_entry := path, c_isValid := (if access_w env path then 0 else -1)\<rparr>))"

definition load_valid :: "xml_cmd \<Rightarrow> tScnConTable \<Rightarrow> tScnConTable" where
  "load_valid x c =
     (let ig = text_int (x_valid x) 0
      in c\<lparr>c_ignore := ig, c_isValid := (if ig = 1 then 0 else c_isValid c)\<rparr>)"

text \<open>An element with a text: absent gives the empty string, present without text is undefined.\<close>

definition elem_text :: "string option option \<Rightarrow> string option" where
  "elem_text e = (case e of None \<Rightarrow> Some '''' | Some t \<Rightarrow> t)"

text \<open>The \<open>do ... while\<close> loop that replaces the first \<open>^\<close> until there is none.\<close>

fun replace_first :: "char \<Rightarrow> char \<Rightarrow> string \<Rightarrow> string option" where
  "replace_first a b [] = None"
| "replace_first a b (c # cs) = (if c = a then Some (b # cs) else map_option (Cons c) (replace_first a b cs))"

lemma replace_first_fewer:
  "a \<noteq> b \<Longrightarrow> replace_first a b s = Some t \<Longrightarrow> length (filter ((=) a) t) < length (filter ((=) a) s)"
  by (induction s arbitrary: t) (auto split: if_splits)

function replace_caret :: "string \<Rightarrow> string" where
  "replace_caret s = (case replace_first (CHR ''^'') (CHR '' '') s of None \<Rightarrow> s | Some t \<Rightarrow> replace_caret t)"
  by auto
termination
  by (relation "measure (\<lambda>s. length (filter ((=) (CHR ''^'')) s))") 
    (auto elim: replace_first_fewer [rotated])

declare replace_caret.simps [simp del]

text \<open>Default value: written to the node when \<open>InitWrite\<close> is 1, or read from it.\<close>

definition load_default :: "load_env \<Rightarrow> tScnConTable \<Rightarrow> tScnConTable \<times> action list" where
  "load_default env c =
     (if c_defaultVal c \<noteq> CFG_TBL_INVALID_VALUE then
        (c, if c_isValid c = 0 \<and> c_entry c \<noteq> '''' \<and> c_init_set_default c = 1
            then [Write_node (c_entry c)
                    (if c_prefix c = '''' \<and> c_defaultVal c > 0 then show_int (c_defaultVal c)
                     else snprintf_s 64 (c_prefix c @ show_int (c_defaultVal c)))]
            else [])
      else (if c_isValid c = 0 \<and> c_entry c \<noteq> '''' then c\<lparr>c_defaultVal := node_int env (c_entry c)\<rparr> else c, []))"

definition load_reset :: "tScnConTable \<Rightarrow> tScnConTable" where
  "load_reset c =
     (let rv = (if c_comp c = ''less'' then c_int (c_maxVal c + 1) else c_int (c_minVal c - 1))
      in c\<lparr>c_priority := PRIORITY_LOWEST, c_resetVal := rv, c_curVal := rv\<rparr>)"

text \<open>One round of the loop: the new entry and the writes to its node.\<close>

definition load_cmd :: "load_env \<Rightarrow> int \<Rightarrow> xml_cmd \<Rightarrow> tScnConTable \<Rightarrow> (tScnConTable \<times> action list) option" where
  "load_cmd env cmdid x old =
     (case x_name x of None \<Rightarrow> None
      | Some name \<Rightarrow>
         (case load_access env x (old\<lparr>c_cmdName := name, c_cmdID := cmdid\<rparr>) of None \<Rightarrow> None
          | Some c1 \<Rightarrow>
             (case (elem_text (x_compare x), elem_text (x_prefix x)) of
                (Some cmp, Some pre) \<Rightarrow>
                  (let c2 = (load_valid x c1)\<lparr>c_legacyCmdID := text_int (x_legacyCmdID x) (-1), c_comp := cmp,
                         c_maxVal := text_int (x_maxVal x) 0, c_minVal := text_int (x_minVal x) 0,
                         c_defaultVal := text_int (x_defaultVal x) CFG_TBL_INVALID_VALUE,
                         c_prefix := replace_caret pre,
                         c_init_set_default := text_int (x_initWrite x) 0\<rparr>;
                       (c3, w) = load_default env c2
                   in Some (load_reset c3, w))
              | _ \<Rightarrow> None)))"

fun load_cmds :: "load_env \<Rightarrow> xml_cmd list \<Rightarrow> nat \<Rightarrow> int \<Rightarrow> perf \<Rightarrow> perf option" where
  "load_cmds env [] idx cmdid st = Some st"
| "load_cmds env (x # xs) idx cmdid st =
     (if idx < length (tConTable st) then
        (let cmdid' = (case x_id x of Some s \<Rightarrow> strtol 16 s | None \<Rightarrow> cmdid)
         in case load_cmd env cmdid' x (tConTable st ! idx) of None \<Rightarrow> None
            | Some (c, w) \<Rightarrow>
                load_cmds env xs (Suc idx) cmdid' (st\<lparr>tConTable := (tConTable st)[idx := c], acts := acts st @ w\<rparr>))
      else None)"

definition loadConTable :: "load_env \<Rightarrow> perf \<Rightarrow> (int \<times> perf) option" where
  "loadConTable env st =
     (case con_xml env of None \<Rightarrow> Some (0, st)
      | Some xs \<Rightarrow> map_option (Pair 1) (load_cmds env xs 0 0 st))"

section \<open>The scenario table\<close>

text \<open>A node of the zeroed allocation; also the scratch node of \<open>Scn_cmdSetting\<close>.\<close>

definition zero_node :: tScnNode where
  "zero_node = \<lparr>handle_idx = 0, scn_type = 0, scn_state = STATE_OFF, pack_name = '''', act_name = '''',
     sbe_featurename = '''', fps = '''', window_mode = '''', render_pid = 0,
     hint_hold_time = 0, ext_hint = 0, ext_hint_hold_time = 0, launch_time_cold = 0, launch_time_warm = 0,
     act_switch_time = 0, screen_off_action = 0, pid = 0, tid = 0, scn_rsc = [], scn_prev_rsc = [],
     scn_param = [], comm = '''', cus_lock_hint = 0, lock_duration = 0, scn_lock_rsc_size = 0, priority = 0,
     oneshotReset = False, hasReset = False, timestamp = ''''\<rparr>"

definition Scn_cmdSetting :: "perf \<Rightarrow> string \<Rightarrow> int \<Rightarrow> int \<Rightarrow> perf option" where
  "Scn_cmdSetting st cmd scn param_1 =
     (let (ret, tmp, st', rid) = cmdSetting st (-1) (Some cmd) zero_node param_1;
          rsc = (case rid of Some i \<Rightarrow> i | None \<Rightarrow> 0)
      in map_option (\<lambda>t. st'\<lparr>PowerScnTbl := t\<rparr>) (Scn_cmdSetting_append (PowerScnTbl st') scn rsc param_1))"

fun perfxml_read_cmddata :: "(string option \<times> int) list \<Rightarrow> string \<Rightarrow> int \<Rightarrow> perf \<Rightarrow> perf option" where
  "perfxml_read_cmddata [] cmd scn st = Some st"
| "perfxml_read_cmddata ((str, param_1) # ds) cmd scn st =
     (let cmd' = (case str of Some s \<Rightarrow> if length s < 64 then set_str_cpy s 64 else cmd | None \<Rightarrow> cmd)
      in case Scn_cmdSetting st cmd' scn param_1 of None \<Rightarrow> None
         | Some st' \<Rightarrow> perfxml_read_cmddata ds cmd' scn st')"

abbreviation (input) CUS_HINT_BASE :: int where "CUS_HINT_BASE \<equiv> 1001"
abbreviation (input) CUS_HINT_MAX :: int where "CUS_HINT_MAX \<equiv> 10000"

text \<open>The hint of a \<open>scenario\<close> element; \<open>None\<close> when the element is skipped.\<close>

definition scn_of_hint :: "string \<Rightarrow> perf \<Rightarrow> (int \<times> perf) option" where
  "scn_of_hint hintname st =
     (let scn = getHintId hintname
      in if scn \<noteq> -1 then Some (scn, st)
         else (let n = strtol 10 hintname
               in if n = 0 \<or> n < CUS_HINT_BASE \<or> n > CUS_HINT_MAX then None
                  else Some (n, st\<lparr>PowerScnTbl := PowerScnTbl_append (PowerScnTbl st) (Some hintname) n\<rparr>)))"

fun updateCusScn_loop :: "load_env \<Rightarrow> xml_scn list \<Rightarrow> int \<Rightarrow> perf \<Rightarrow> perf option" where
  "updateCusScn_loop env [] scn st = Some st"
| "updateCusScn_loop env (x # xs) scn st =
     (case s_powerhint x of
        None \<Rightarrow>
          (if scn = -1 then updateCusScn_loop env xs scn st
           else (case perfxml_read_cmddata (s_data x) (cmd_garbage env) scn st of None \<Rightarrow> None
                 | Some st' \<Rightarrow> updateCusScn_loop env xs scn st'))
      | Some hintname \<Rightarrow>
          (case scn_of_hint hintname st of
             None \<Rightarrow> updateCusScn_loop env xs (strtol 10 hintname) st
           | Some (scn', st1) \<Rightarrow>
               (case perfxml_read_cmddata (s_data x) (cmd_garbage env) scn' st1 of None \<Rightarrow> None
                | Some st' \<Rightarrow> updateCusScn_loop env xs scn' st')))"

definition updateCusScnTable :: "load_env \<Rightarrow> perf \<Rightarrow> perf option" where
  "updateCusScnTable env st =
     (case scn_xml env of None \<Rightarrow> Some st | Some xs \<Rightarrow> updateCusScn_loop env xs 0 st)"

section \<open>init\<close>

definition check_vendor_partition :: "load_env \<Rightarrow> int" where
  "check_vendor_partition env =
     (if crypto_state env = '''' then -1
      else if crypto_state env \<noteq> ''encrypted'' then 0
      else if crypto_type env = ''file'' then (if data_access env then 0 else -1)
      else if vold_decrypt env \<noteq> ''trigger_restart_framework'' then -1 else 0)"

definition setAPIstatus :: "perf \<Rightarrow> int \<Rightarrow> int \<Rightarrow> int \<times> perf" where
  "setAPIstatus st cmd enable =
     (if cmd < 0 \<or> 3 \<le> cmd then (0, st)
      else (1, st\<lparr>powerhalAPI_status := (powerhalAPI_status st)[nat cmd := (if enable > 0 then 1 else 0)]\<rparr>))"

definition disable_api_at_boot :: "perf \<Rightarrow> perf" where
  "disable_api_at_boot st = snd (setAPIstatus (snd (setAPIstatus (snd (setAPIstatus st 0 0)) 1 0)) 2 0)"

definition reset_all_scn :: "perf \<Rightarrow> perf" where
  "reset_all_scn st = fold (\<lambda>i st. resetScenario st i True) [0..<REG_SCN_MAX] st"

text \<open>The end of \<open>init\<close>, and the part of it after the scenario list is allocated.\<close>

definition init_done :: "load_env \<Rightarrow> perf \<Rightarrow> perf" where
  "init_done env st =
     (let st1 = st\<lparr>nPowerLibEnable := strtol 10 (prop_enable env),
                   isMbrainSupport := (if mbrain_ok env then 1 else 0),
                   acts := acts st @ [Notify ''loadPowerDlTable'' '''', Notify ''createPowerMsgHandler'' '''']\<rparr>;
          st2 = disable_api_at_boot st1
      in st2\<lparr>acts := acts st2 @ [Notify ''createBootHandler'' ''''], nIsReady := True\<rparr>)"

definition init_tables :: "load_env \<Rightarrow> perf \<Rightarrow> (int \<times> perf) option" where
  "init_tables env st =
     (case loadConTable env st of None \<Rightarrow> None
      | Some (r, st1) \<Rightarrow>
         (let prop_value = strtol 10 (prop_init env);
              power_on_init = (if prop_value = 1 then 0 else 1);
              st2 = st1\<lparr>acts := acts st1 @ [Notify ''update_default_core_min'' ''''] @
                       (if prop_value = 0 then [Notify ''vendor.powerhal.init'' ''1''] else [])\<rparr>
          in if \<not> rsc_alloc_ok env then Some (0, st2)
             else map_option (\<lambda>st3. (1, init_done env st3))
                    (updateCusScnTable env (reset_all_scn (loadRscTable st2 power_on_init)))))"

definition init :: "load_env \<Rightarrow> perf \<Rightarrow> (int \<times> perf) option" where
  "init env st =
     (if nIsReady st then Some (1, st)
      else if check_vendor_partition env \<noteq> 0 then Some (0, st)
      else if \<not> topo_ok env then Some (0, st)
      else
        (let st1 = st\<lparr>powerhalAPI_status := [1, 1, 1], PowerScnTbl := HintRscList_init (PowerScnTbl st)\<rparr>
         in if \<not> scn_alloc_ok env then Some (0, st1)
            else init_tables env (st1\<lparr>ptScnList := replicate REG_SCN_MAX zero_node\<rparr>)))"

end
