(* ===== verification/Perf_Lock.thy ===== *)
theory Perf_Lock
  imports Con_Load
begin

text \<open>
  The client interface of \<^verbatim>\<open>perfservice.cpp\<close>: registering a handle, acquiring and
  releasing it, screen-off and dead-process clean-up, switching single resources off and
  on, and the queries. Every entry point first runs \<open>init\<close> if the service is not ready.
  The answers of the operating system are collected in \<open>lock_env\<close>: whether
  \<^verbatim>\<open>/proc/<pid>\<close> exists, the text of \<^verbatim>\<open>/proc/<pid>/comm\<close>, the clock, and what a fresh
  allocation contains.
\<close>

record lock_env = load_env +
  proc_exists :: "int \<Rightarrow> bool"
  task_comm :: "int \<Rightarrow> string"
  now_time :: "(string \<times> nat) option"    \<comment> \<open>text of \<open>strftime\<close>, milliseconds since the epoch\<close>
  malloc_ok :: bool
  heap_ints :: "nat \<Rightarrow> int"               \<comment> \<open>words of a fresh allocation\<close>
  past_end :: int                           \<comment> \<open>the word after the end of the caller's list\<close>

text \<open>The guard \<^verbatim>\<open>if (!nIsReady) if (!init()) return 0;\<close>.\<close>

definition ready :: "'a lock_env_scheme \<Rightarrow> perf \<Rightarrow> (bool \<times> perf) option" where
  "ready env st = map_option (\<lambda>(r, st'). (r \<noteq> 0, st')) (init (load_env.truncate env) st)"

definition when_ready :: "'a lock_env_scheme \<Rightarrow> perf \<Rightarrow> (perf \<Rightarrow> int \<times> perf) \<Rightarrow> (int \<times> perf) option" where
  "when_ready env st f =
     (case ready env st of None \<Rightarrow> None
      | Some (ok, st') \<Rightarrow> Some (if ok then f st' else (0, st')))"

abbreviation (input) TIMESTAMP_MAX :: nat where "TIMESTAMP_MAX \<equiv> 100"

section \<open>Handles\<close>

fun free_slot_from :: "tScnNode list \<Rightarrow> nat \<Rightarrow> nat option" where
  "free_slot_from [] i = None"
| "free_slot_from (s # ss) i = (if scn_type s = -1 then Some i else free_slot_from ss (Suc i))"

definition register_handle :: "'a lock_env_scheme \<Rightarrow> perf \<Rightarrow> nat \<Rightarrow> int \<Rightarrow> int \<Rightarrow> int \<Rightarrow> int \<Rightarrow> int \<times> perf" where
  "register_handle env st i hint p t duration =
     (let (h, st1) = allocNewHandleNum st;
          st2 = resetScenario st1 i True
      in (h, upd_scn i (\<lambda>s.
           (if hint \<noteq> -1 then s\<lparr>scn_type := SCN_CUS_POWER_HINT, cus_lock_hint := hint\<rparr>
            else s\<lparr>scn_type := SCN_PERF_LOCK_HINT\<rparr>)
           \<lparr>handle_idx := h, lock_duration := duration, pid := p, tid := t,
            comm := set_str_cpy (task_comm env p) 64, scn_state := STATE_OFF\<rparr>) st2))"

text \<open>A registered user whose process is gone and whose lock has no short duration of its own.\<close>

definition user_dead :: "'a lock_env_scheme \<Rightarrow> tScnNode \<Rightarrow> bool" where
  "user_dead env s \<longleftrightarrow> scn_type s \<noteq> -1 \<and> screen_off_action s \<noteq> MTKPOWER_SCREEN_OFF_ALWAYS_VALID \<and>
     (scn_type s = SCN_USER_HINT \<or> scn_type s = SCN_PERF_LOCK_HINT \<or> scn_type s = SCN_CUS_POWER_HINT) \<and>
     \<not> proc_exists env (pid s) \<and> \<not> (lock_duration s > 0 \<and> lock_duration s \<le> 30000)"

definition check_user :: "'a lock_env_scheme \<Rightarrow> nat \<Rightarrow> perf \<Rightarrow> perf" where
  "check_user env i st =
     (if user_dead env (ptScnList st ! i) then resetScenario (perfScnDisable st (int i)) i True else st)"

definition check_all_users :: "'a lock_env_scheme \<Rightarrow> perf \<Rightarrow> perf" where
  "check_all_users env st = fold (check_user env) [0..<length (ptScnList st)] st"

text \<open>Return value and, when it is set, the index stored in \<open>*pIndex\<close>.\<close>

definition perfLockCheckHdl_internal ::
  "'a lock_env_scheme \<Rightarrow> perf \<Rightarrow> int \<Rightarrow> int \<Rightarrow> int \<Rightarrow> int \<Rightarrow> int \<Rightarrow> int \<Rightarrow> (int \<times> int option) \<times> perf" where
  "perfLockCheckHdl_internal env st handle hint sz p t duration =
     (if sz > int MAX_ARGS_PER_REQUEST \<or> sz = 0 then ((0, None), st)
      else if \<not> proc_exists env p \<and> (duration = 0 \<or> duration > USER_DURATION_MAX) then ((0, None), st)
      else
        (let idx = findHandleToIndex st handle
         in if idx \<noteq> -1 then ((handle, Some idx), st)
            else
              (case free_slot_from (ptScnList st) 0 of
                 Some i \<Rightarrow> (let (h, st') = register_handle env st i hint p t duration in ((h, Some (int i)), st'))
               | None \<Rightarrow>
                  (let st1 = check_all_users env st
                   in case free_slot_from (ptScnList st1) 0 of
                        Some i \<Rightarrow> (let (h, st') = register_handle env st1 i hint p t duration in ((h, Some (int i)), st'))
                      | None \<Rightarrow> ((0, None),
                          st1\<lparr>acts := acts st1 @ [Dump_all 4, Aee_warning ''perf_lock_acq no more handle'']\<rparr>)))))"

definition perfLockCheckHdl :: "'a lock_env_scheme \<Rightarrow> perf \<Rightarrow> int \<Rightarrow> int \<Rightarrow> int \<Rightarrow> int \<Rightarrow> int \<Rightarrow> int \<Rightarrow> (int \<times> perf) option" where
  "perfLockCheckHdl env st handle hint sz p t duration =
     when_ready env st (\<lambda>st.
       if nPowerLibEnable st = 0 then (0, st)
       else (let ((h, _), st') = perfLockCheckHdl_internal env st handle hint sz p t duration in (h, st')))"

section \<open>perfLockAcq\<close>

definition ms_text :: "nat \<Rightarrow> string" where
  "ms_text ms = (let c = ms mod 1000
     in [char_of (48 + c div 100 mod 10), char_of (48 + c div 10 mod 10), char_of (48 + c mod 10)])"

definition keepTimeStamp :: "'a lock_env_scheme \<Rightarrow> perf \<Rightarrow> int \<Rightarrow> int \<times> perf" where
  "keepTimeStamp env st idx =
     (if idx < 0 \<or> idx \<ge> int REG_SCN_MAX then (-1, st)
      else (case now_time env of
              None \<Rightarrow> (-1, st)
            | Some (timeStr, ms) \<Rightarrow>
                if timeStr = '''' then (-1, st)
                else (0, upd_scn (nat idx) (\<lambda>s. s\<lparr>timestamp :=
                        snprintf_s TIMESTAMP_MAX (timeStr @ ''.'' @ ms_text ms)\<rparr>) st)))"

definition read_list :: "'a lock_env_scheme \<Rightarrow> int list \<Rightarrow> nat \<Rightarrow> int" where
  "read_list env l i = (if i < length l then l ! i else past_end env)"

text \<open>The loop that hands each pair of the list to \<open>cmdSetting\<close>.\<close>

definition lock_cmd :: "'a lock_env_scheme \<Rightarrow> int list \<Rightarrow> nat \<Rightarrow> nat \<Rightarrow> perf \<Rightarrow> perf" where
  "lock_cmd env l idx i st =
     (let (_, s', st', _) = cmdSetting st (read_list env l (2 * i)) None (ptScnList st ! idx) (read_list env l (2 * i + 1))
      in st'\<lparr>ptScnList := (ptScnList st')[idx := s']\<rparr>)"

definition lock_cmds :: "'a lock_env_scheme \<Rightarrow> int list \<Rightarrow> nat \<Rightarrow> perf \<Rightarrow> perf" where
  "lock_cmds env l idx st = fold (lock_cmd env l idx) [0..<(length l + 1) div 2] st"

text \<open>
  Acquiring for the slot \<open>idx\<close>. The old list was freed at the end of the last call, so the
  comparison for a handle that is on reads the fresh allocation.
\<close>

definition lock_modified :: "'a lock_env_scheme \<Rightarrow> int list \<Rightarrow> tScnNode \<Rightarrow> bool" where
  "lock_modified env l s \<longleftrightarrow> scn_lock_rsc_size s \<noteq> int (length l) \<or> map (heap_ints env) [0..<length l] \<noteq> l"

definition lock_apply :: "'a lock_env_scheme \<Rightarrow> int list \<Rightarrow> int \<Rightarrow> nat \<Rightarrow> perf \<Rightarrow> int \<times> perf" where
  "lock_apply env l ret_handle idx st =
     (let hdl_enabled = (scn_state (ptScnList st ! idx) = STATE_ON)
      in if \<not> malloc_ok env then (0, st)
         else
           (let rsc_modified = (hdl_enabled \<and> lock_modified env l (ptScnList st ! idx));
                st1 = upd_scn idx (\<lambda>s. s\<lparr>scn_lock_rsc_size := int (length l)\<rparr>) st;
                st2 = lock_cmds env l idx st1
            in (ret_handle, if hdl_enabled \<and> rsc_modified then perfScnUpdate st2 (int idx) True
                            else perfScnEnable st2 (int idx))))"

definition perfLockAcq ::
  "'a lock_env_scheme \<Rightarrow> perf \<Rightarrow> int list \<Rightarrow> int \<Rightarrow> int \<Rightarrow> int \<Rightarrow> int \<Rightarrow> int \<Rightarrow> (int \<times> perf) option" where
  "perfLockAcq env st l handle p t duration hint =
     when_ready env st (\<lambda>st.
       if nPowerLibEnable st = 0 then (0, st)
       else if length l > MAX_ARGS_PER_REQUEST \<or> l = [] then (0, st)
       else
         (let idx = findHandleToIndex st handle;
              (r, st1) = keepTimeStamp env st idx
          in if r \<noteq> 0 then (0, st1)
             else if idx = -1 then
               (let ((h, pidx), st2) = perfLockCheckHdl_internal env st1 0 hint (int (length l)) p t duration
                in case pidx of
                     Some i \<Rightarrow> if h \<le> 0 then (0, st2) else lock_apply env l h (nat i) st2
                   | None \<Rightarrow> (0, st2))
             else
               lock_apply env l handle (nat idx)
                 (upd_scn (nat idx) (\<lambda>s. s\<lparr>lock_duration := duration\<rparr>) (resetScenario st1 (nat idx) False))))"

definition perfLockRel :: "'a lock_env_scheme \<Rightarrow> perf \<Rightarrow> int \<Rightarrow> (int \<times> perf) option" where
  "perfLockRel env st handle =
     when_ready env st (\<lambda>st.
       if nPowerLibEnable st = 0 then (0, st)
       else
         (let idx = findHandleToIndex st handle
          in if idx < 0 \<or> idx \<ge> int REG_SCN_MAX then (-1, st)
             else
               (let st1 = perfScnDisable st idx
                in if scn_state (ptScnList st1 ! nat idx) = STATE_ON then (-1, st1)
                   else (0, resetScenario st1 (nat idx) True))))"

section \<open>Clean-up of all users\<close>

text \<open>One round of \<open>perfUserScnDisableAll\<close>.\<close>

definition screen_off_user :: "'a lock_env_scheme \<Rightarrow> nat \<Rightarrow> perf \<Rightarrow> perf" where
  "screen_off_user env i st =
     (let s = ptScnList st ! i
      in if scn_type s = -1 \<or> screen_off_action s = MTKPOWER_SCREEN_OFF_ALWAYS_VALID then st
         else
           (let st1 = (if scn_state s = STATE_ON \<and> screen_off_action s \<noteq> MTKPOWER_SCREEN_OFF_ENABLE
                       then (let st' = perfScnDisable st (int i)
                             in if screen_off_action (ptScnList st' ! i) = MTKPOWER_SCREEN_OFF_WAIT_RESTORE
                                then upd_scn i (\<lambda>s. s\<lparr>scn_state := STATE_WAIT_RESTORE\<rparr>) st' else st')
                       else st);
                s1 = ptScnList st1 ! i
            in if (scn_type s1 = SCN_USER_HINT \<or> scn_type s1 = SCN_PERF_LOCK_HINT) \<and> \<not> proc_exists env (pid s1)
               then resetScenario (perfScnDisable st1 (int i)) i True else st1))"

definition setInteractive :: "int \<Rightarrow> perf \<Rightarrow> perf" where
  "setInteractive enable st = st\<lparr>mInteractive := enable\<rparr>"

definition perfUserScnDisableAll :: "'a lock_env_scheme \<Rightarrow> perf \<Rightarrow> (int \<times> perf) option" where
  "perfUserScnDisableAll env st =
     when_ready env st (\<lambda>st. (0, fold (screen_off_user env) [0..<length (ptScnList st)] (setInteractive 0 st)))"

definition perfUserScnRestoreAll :: "'a lock_env_scheme \<Rightarrow> perf \<Rightarrow> (int \<times> perf) option" where
  "perfUserScnRestoreAll env st = when_ready env st (\<lambda>st. (0, setInteractive 1 st))"

definition perfUserScnCheckAll :: "'a lock_env_scheme \<Rightarrow> perf \<Rightarrow> (int \<times> perf) option" where
  "perfUserScnCheckAll env st =
     (if scnCheckSupport st = 0 then Some (0, st)
      else when_ready env st (\<lambda>st. (0, check_all_users env st)))"

fun hint_slot_from :: "tScnNode list \<Rightarrow> int \<Rightarrow> nat \<Rightarrow> nat option" where
  "hint_slot_from [] hint i = None"
| "hint_slot_from (s # ss) hint i =
     (if scn_type s = SCN_CUS_POWER_HINT \<and> cus_lock_hint s = hint then Some i else hint_slot_from ss hint (Suc i))"

definition disableScenarioByHintId :: "perf \<Rightarrow> int \<Rightarrow> perf" where
  "disableScenarioByHintId st hint =
     (case hint_slot_from (ptScnList st) hint 0 of
        None \<Rightarrow> st
      | Some i \<Rightarrow> resetScenario (perfScnDisable st (int i)) i True)"

section \<open>Switching resources off and on\<close>

abbreviation (input) MTKPOWER_CMD_GET_RES_SETTING :: int where "MTKPOWER_CMD_GET_RES_SETTING \<equiv> 42"
abbreviation (input) MTKPOWER_CMD_GET_RES_CTRL_ON :: int where "MTKPOWER_CMD_GET_RES_CTRL_ON \<equiv> 203"
abbreviation (input) MTKPOWER_CMD_GET_RES_CTRL_OFF :: int where "MTKPOWER_CMD_GET_RES_CTRL_OFF \<equiv> 204"

text \<open>The search stops at the first entry without a node path.\<close>

fun find_con :: "int \<Rightarrow> int \<Rightarrow> tScnConTable list \<Rightarrow> nat \<Rightarrow> nat option" where
  "find_con cmd i [] idx = None"
| "find_con cmd i (c # cs) idx =
     (if c_entry c = '''' then None
      else if cmd = MTKPOWER_CMD_GET_RES_SETTING \<and> c_isValid c = -1 then find_con cmd i cs (Suc idx)
      else if c_cmdID c = i then Some idx else find_con cmd i cs (Suc idx))"

fun find_rsc :: "int \<Rightarrow> tRscConfig list \<Rightarrow> nat \<Rightarrow> nat option" where
  "find_rsc i [] idx = None"
| "find_rsc i (r # rs) idx =
     (if \<not> rsc_has_funcs r then None else if cmdID r = i then Some idx else find_rsc i rs (Suc idx))"

definition powerRscCtrl :: "'a lock_env_scheme \<Rightarrow> perf \<Rightarrow> int \<Rightarrow> int \<Rightarrow> int \<times> perf" where
  "powerRscCtrl env st cmd i =
     (let conIdx = find_con cmd i (tConTable st) 0;
          rscIdx = (if conIdx = None \<and> cmd \<noteq> MTKPOWER_CMD_GET_RES_SETTING then find_rsc i (RscCfgTbl st) 0 else None)
      in if cmd = MTKPOWER_CMD_GET_RES_SETTING then
           (case conIdx of Some k \<Rightarrow> (node_int env (c_entry (tConTable st ! k)), st) | None \<Rightarrow> (-1, st))
         else if cmd = MTKPOWER_CMD_GET_RES_CTRL_ON then
           (case conIdx of
              Some k \<Rightarrow> (0, st\<lparr>tConTable := (tConTable st)[k := (tConTable st ! k)\<lparr>c_isValid := 0\<rparr>]\<rparr>)
            | None \<Rightarrow> (case rscIdx of
                Some k \<Rightarrow> (0, st\<lparr>gRscCtlTbl := (gRscCtlTbl st)[k := (gRscCtlTbl st ! k)\<lparr>r_isValid := 1\<rparr>]\<rparr>)
              | None \<Rightarrow> (-1, st)))
         else if cmd = MTKPOWER_CMD_GET_RES_CTRL_OFF then
           (case conIdx of
              Some k \<Rightarrow> (0, st\<lparr>tConTable := (tConTable st)[k := (tConTable st ! k)\<lparr>c_isValid := -1\<rparr>]\<rparr>)
            | None \<Rightarrow> (case rscIdx of
                Some k \<Rightarrow> (0, st\<lparr>gRscCtlTbl := (gRscCtlTbl st)[k := (gRscCtlTbl st ! k)\<lparr>r_isValid := 0\<rparr>]\<rparr>)
              | None \<Rightarrow> (-1, st)))
         else (-1, st))"

section \<open>Hints and small queries\<close>

text \<open>Return value and what is stored through \<open>size\<close> and \<open>rsc_list\<close> when both are given.\<close>

definition perfGetHintRsc :: "'a lock_env_scheme \<Rightarrow> perf \<Rightarrow> int \<Rightarrow> ((int \<times> int option \<times> int list option) \<times> perf) option" where
  "perfGetHintRsc env st hint =
     (case ready env st of None \<Rightarrow> None
      | Some (ok, st) \<Rightarrow>
         Some (if \<not> ok \<or> nPowerLibEnable st = 0 then ((0, None, None), st)
               else
                 (let sz = getHintRscSize (PowerScnTbl st) hint
                  in if sz < 0 \<or> sz > int MAX_ARGS_PER_REQUEST then ((0, None, None), st)
                     else if sz \<le> 0 then ((0, Some sz, None), st)
                     else ((0, Some sz, map_option (take (nat sz)) (getHintRscList (PowerScnTbl st) hint)), st))))"

text \<open>The list that is passed is the one left in the node at index \<open>hint\<close>.\<close>

definition perfCusLockHint :: "'a lock_env_scheme \<Rightarrow> perf \<Rightarrow> int list \<Rightarrow> int \<Rightarrow> int \<Rightarrow> int \<Rightarrow> (int \<times> perf) option" where
  "perfCusLockHint env st l hint duration p =
     (let sz = scn_lock_rsc_size (ptScnList st ! nat hint)
      in if sz = 0 \<or> sz mod 2 \<noteq> 0 then Some (0, st)
         else perfLockAcq env st (take (nat sz) l) 0 p 0 duration hint)"

definition queryAPIstatus :: "perf \<Rightarrow> int \<Rightarrow> int" where
  "queryAPIstatus st cmd = (if cmd < 0 \<or> 3 \<le> cmd then 0 else powerhalAPI_status st ! nat cmd)"

definition setGameMode :: "int \<Rightarrow> perf \<Rightarrow> int \<times> perf" where
  "setGameMode enable st =
     (1, st\<lparr>mode_status := (mode_status st)[1 := enable],
            acts := acts st @ (if isMbrainSupport st \<noteq> 0 then [Mbrain_game_mode (if enable \<noteq> 0 then 1 else 0)] else [])\<rparr>)"

definition getModeStatus :: "perf \<Rightarrow> int \<Rightarrow> int" where
  "getModeStatus st mode_id = (if 0 \<le> mode_id \<and> mode_id < 2 then mode_status st ! nat mode_id else -1)"

definition setInteractiveControl :: "int \<Rightarrow> perf \<Rightarrow> int \<times> perf" where
  "setInteractiveControl data st = (0, st\<lparr>mInteractiveControl := data\<rparr>)"

end
