(* ===== verification/Lock_Inv.thy ===== *)
theory Lock_Inv
  imports Perf_Lock
begin

text \<open>
  The invariant of the service between calls of its client interface, and that every entry
  point keeps it. The node-local part of the arbitration invariant is \<open>node_ok\<close>; what
  \<open>cmdSetting\<close> stores is in range because the bounds of every table entry lie on the good
  side of its reset value.
\<close>

section \<open>Nodes and bounds\<close>

definition node_ok :: "perf \<Rightarrow> tScnNode \<Rightarrow> bool" where
  "node_ok st s \<longleftrightarrow> length (scn_param s) = length (tConTable st) \<and> length (scn_rsc s) = length (RscCfgTbl st) \<and>
     (\<forall>idx < length (tConTable st). con_managed (tConTable st ! idx) \<longrightarrow>
        con_val idx s = c_resetVal (tConTable st ! idx) \<or>
        con_better (tConTable st ! idx) (con_val idx s) (c_resetVal (tConTable st ! idx))) \<and>
     (\<forall>idx < length (RscCfgTbl st). rsc_managed (RscCfgTbl st ! idx) (gRscCtlTbl st ! idx) \<longrightarrow>
        rsc_val idx s = r_resetVal (gRscCtlTbl st ! idx) \<or>
        rsc_better (RscCfgTbl st ! idx) (rsc_val idx s) (r_resetVal (gRscCtlTbl st ! idx)))"

lemma arb_inv_nodes:
  "arb_inv st \<longleftrightarrow> length (gRscCtlTbl st) = length (RscCfgTbl st) \<and> (\<forall>r \<in> set (RscCfgTbl st). rsc_has_funcs r) \<and>
     (\<forall>s \<in> set (ptScnList st). node_ok st s) \<and> arbitrated st"
  by (auto simp: arb_inv_def tables_wf_def requests_ok_def con_vals_def rsc_vals_def vals_ok_def node_ok_def)

definition same_tables :: "perf \<Rightarrow> perf \<Rightarrow> bool" where
  "same_tables st st' \<longleftrightarrow> tConTable st' = tConTable st \<and> RscCfgTbl st' = RscCfgTbl st \<and> gRscCtlTbl st' = gRscCtlTbl st"

lemma same_tables_node_ok: "same_tables st st' \<Longrightarrow> node_ok st' s = node_ok st s"
  by (simp add: same_tables_def node_ok_def)

lemma same_tables_arb_inv: "same_tables st st' \<Longrightarrow> ptScnList st' = ptScnList st \<Longrightarrow> arb_inv st' = arb_inv st"
  by (simp add: arb_inv_nodes same_tables_node_ok) (simp add: same_tables_def arbitrated_def)

lemma arb_inv_edit_off:
  assumes "arb_inv st" "i < length (ptScnList st)" "scn_state (ptScnList st ! i) \<noteq> STATE_ON"
    and "scn_state s' \<noteq> STATE_ON" "node_ok st s'"
    and "same_tables st st'" "ptScnList st' = (ptScnList st)[i := s']"
  shows "arb_inv st'"
proof (rule edit_off_inv [OF assms(1-4) assms(7)])
  have "\<forall>s \<in> set (ptScnList st'). node_ok st' s"
    using assms(1,5,7) set_update_subset_insert [of "ptScnList st" i s']
    by (auto simp: arb_inv_nodes same_tables_node_ok [OF assms(6)])
  with assms(1,6) show "tables_wf st'" "requests_ok st'"
    by (auto simp: arb_inv_nodes tables_wf_def requests_ok_def con_vals_def rsc_vals_def vals_ok_def node_ok_def same_tables_def)
qed (use assms(6) in \<open>auto simp: same_tables_def\<close>)

text \<open>The range of an entry is non-empty and lies on the good side of the reset value.\<close>

definition con_bounds :: "tScnConTable \<Rightarrow> bool" where
  "con_bounds c \<longleftrightarrow> c_minVal c \<le> c_maxVal c \<and>
     (if c_comp c = ''less'' then c_maxVal c < c_resetVal c else c_resetVal c < c_minVal c)"

definition rsc_bounds :: "tRscConfig \<Rightarrow> int \<Rightarrow> bool" where
  "rsc_bounds r reset \<longleftrightarrow> minVal r \<le> maxVal r \<and>
     (if comp r = SMALLEST then maxVal r < reset else reset < minVal r)"

definition bounds_ok :: "perf \<Rightarrow> bool" where
  "bounds_ok st \<longleftrightarrow> (\<forall>c \<in> set (tConTable st). c_cmdName c \<noteq> '''' \<longrightarrow> con_bounds c) \<and>
     length (gRscCtlTbl st) = length (RscCfgTbl st) \<and>
     (\<forall>idx < length (RscCfgTbl st). comp (RscCfgTbl st ! idx) \<noteq> ONESHOT \<longrightarrow>
        rsc_bounds (RscCfgTbl st ! idx) (r_resetVal (gRscCtlTbl st ! idx)))"

lemma clamp_range: "lo \<le> hi \<Longrightarrow> lo \<le> clamp_param lo hi p \<and> clamp_param lo hi p \<le> hi"
  by (auto simp: clamp_param_def)

lemma con_clamp_better: "con_bounds c \<Longrightarrow> con_better c (clamp_param (c_minVal c) (c_maxVal c) p) (c_resetVal c)"
  using clamp_range [of "c_minVal c" "c_maxVal c" p] by (auto simp: con_bounds_def con_better_def)

lemma rsc_clamp_better: "rsc_bounds r v \<Longrightarrow> rsc_better r (clamp_param (minVal r) (maxVal r) p) v"
  using clamp_range [of "minVal r" "maxVal r" p] by (auto simp: rsc_bounds_def rsc_better_def)

section \<open>cmdSetting keeps nodes in range\<close>

lemma node_ok_con_update:
  assumes "node_ok st s" "bounds_ok st" "idx < length (tConTable st)"
  shows "node_ok st (s\<lparr>scn_param := (scn_param s)[idx := clamp_param (c_minVal (tConTable st ! idx)) (c_maxVal (tConTable st ! idx)) p]\<rparr>)"
proof -
  have "con_bounds (tConTable st ! idx)" if "con_managed (tConTable st ! idx)"
    using that assms(2) nth_mem [OF assms(3)] by (auto simp: bounds_ok_def con_managed_def)
  with assms(1,3) show ?thesis
    by (auto simp: node_ok_def nth_list_update con_clamp_better)
qed

lemma node_ok_rsc_update:
  assumes "node_ok st s" "bounds_ok st" "idx < length (RscCfgTbl st)"
  shows "node_ok st (s\<lparr>scn_rsc := (scn_rsc s)[idx := clamp_param (minVal (RscCfgTbl st ! idx)) (maxVal (RscCfgTbl st ! idx)) p]\<rparr>)"
  using assms by (auto simp: node_ok_def nth_list_update bounds_ok_def rsc_managed_def intro!: rsc_clamp_better)

lemma node_ok_same_values:
  "scn_param s' = scn_param s \<Longrightarrow> scn_rsc s' = scn_rsc s \<Longrightarrow> node_ok st s' = node_ok st s"
  by (simp add: node_ok_def)

text \<open>What identifies a slot and its user.\<close>

definition scn_ident :: "tScnNode \<Rightarrow> scn_state \<times> int \<times> int \<times> int \<times> int" where
  "scn_ident s = (scn_state s, scn_type s, handle_idx s, cus_lock_hint s, pid s)"

lemma cmdSetting_special_keeps:
  assumes "cmdSetting_special st icmd scmd s p = Some (s', st', i)"
  shows "scn_param s' = scn_param s \<and> scn_rsc s' = scn_rsc s \<and> scn_ident s' = scn_ident s \<and>
    st'\<lparr>install_max_duration := 0\<rparr> = st\<lparr>install_max_duration := 0\<rparr>"
  using assms unfolding cmdSetting_special_def by (simp split: if_splits) (auto simp: scn_ident_def)

lemma cmdSetting_con_keeps:
  assumes "node_ok st (fst (snd x))" "bounds_ok st" "idx < length (tConTable st)"
  shows "node_ok st (fst (snd (cmdSetting_con st scmd p idx x)))"
    "scn_ident (fst (snd (cmdSetting_con st scmd p idx x))) = scn_ident (fst (snd x))"
  using node_ok_con_update [OF assms, of p] assms(1) by (cases x; simp add: cmdSetting_con_def Let_def scn_ident_def)+

lemma cmdSetting_rsc_keeps:
  assumes "node_ok st (fst (snd x))" "bounds_ok st" "idx < length (RscCfgTbl st)"
  shows "node_ok st (fst (snd (cmdSetting_rsc st scmd p idx x)))"
    "scn_ident (fst (snd (cmdSetting_rsc st scmd p idx x))) = scn_ident (fst (snd x))"
  using node_ok_rsc_update [OF assms, of p] assms(1) by (cases x; simp add: cmdSetting_rsc_def Let_def scn_ident_def)+

lemma cmdSetting_scn_list:
  assumes "cmdSetting st icmd scmd s p = (r, s', st', i)"
  shows "ptScnList st' = ptScnList st"
proof -
  have "ptScnList st1 = ptScnList st" if "cmdSetting_special st icmd n s p = Some (s1, st1, j)" for s1 st1 j n
    using cmdSetting_special_keeps [OF that] by (metis perf.select_convs(3) perf.update_convs(9) perf.surjective)
  with assms show ?thesis by (auto simp: cmdSetting_def Let_def split: if_splits option.splits prod.splits)
qed

text \<open>What \<open>cmdSetting\<close> does to the node and the state.\<close>

lemma cmdSetting_keeps:
  assumes "cmdSetting st icmd scmd s p = (r, s', st', i)" "node_ok st s" "bounds_ok st"
  shows "node_ok st s' \<and> scn_ident s' = scn_ident s \<and> st' = st\<lparr>install_max_duration := install_max_duration st'\<rparr>"
proof -
  let ?name = "case scmd of None \<Rightarrow> '''' | Some n \<Rightarrow> n"
  let ?P = "\<lambda>x :: int \<times> tScnNode \<times> int. node_ok st (fst (snd x)) \<and> scn_ident (fst (snd x)) = scn_ident s"
  let ?x = "fold (cmdSetting_con st ?name p) [0..<length (tConTable st)] (icmd, s, -1)"
  let ?y = "fold (cmdSetting_rsc st ?name p) [0..<length (RscCfgTbl st)] ?x"
  have "?P ?x"
    by (rule fold_invariant_list [where P = ?P]) (simp_all add: assms(2,3) cmdSetting_con_keeps)
  then have y: "?P ?y"
    by (rule fold_invariant_list [where P = ?P]) (simp add: assms(3) cmdSetting_rsc_keeps)
  have dur: "b = a\<lparr>install_max_duration := install_max_duration b\<rparr>"
    if "b\<lparr>install_max_duration := 0\<rparr> = a\<lparr>install_max_duration := 0\<rparr>" for a b :: perf
    using arg_cong [OF that, of "install_max_duration_update (\<lambda>_. install_max_duration b)"] by simp
  show ?thesis
  proof (cases "icmd < 0 \<and> scmd = None")
    case True
    with assms show ?thesis by (simp add: cmdSetting_def)
  next
    case False
    show ?thesis
    proof (cases "cmdSetting_special st icmd ?name s p")
      case None
      with False assms(1) y show ?thesis by (auto simp: cmdSetting_def Let_def split: prod.splits)
    next
      case (Some z)
      then obtain s1 st1 j where z: "cmdSetting_special st icmd ?name s p = Some (s1, st1, j)" by (cases z) auto
      with False assms(1) have "s' = s1" "st' = st1" by (auto simp: cmdSetting_def Let_def)
      moreover note k = cmdSetting_special_keeps [OF z]
      moreover have "node_ok st s1" using k assms(2) node_ok_same_values [of s1 s st] by blast
      moreover have "st1 = st\<lparr>install_max_duration := install_max_duration st1\<rparr>" using k dur by blast
      ultimately show ?thesis by metis
    qed
  qed
qed

lemma lock_cmds_keeps:
  assumes "node_ok st (ptScnList st ! idx)" "bounds_ok st" "idx < length (ptScnList st)"
  shows "\<exists>s' m. lock_cmds env l idx st = st\<lparr>ptScnList := (ptScnList st)[idx := s'], install_max_duration := m\<rparr> \<and>
    node_ok st s' \<and> scn_ident s' = scn_ident (ptScnList st ! idx)"
  unfolding lock_cmds_def
proof (rule fold_invariant_list)
  show "\<exists>s' m. st = st\<lparr>ptScnList := (ptScnList st)[idx := s'], install_max_duration := m\<rparr> \<and>
    node_ok st s' \<and> scn_ident s' = scn_ident (ptScnList st ! idx)"
    using assms by (intro exI [of _ "ptScnList st ! idx"] exI [of _ "install_max_duration st"]) simp
next
  fix i st1
  assume "\<exists>s' m. st1 = st\<lparr>ptScnList := (ptScnList st)[idx := s'], install_max_duration := m\<rparr> \<and>
    node_ok st s' \<and> scn_ident s' = scn_ident (ptScnList st ! idx)"
  then obtain s1 m where st1: "st1 = st\<lparr>ptScnList := (ptScnList st)[idx := s1], install_max_duration := m\<rparr>"
    and s1: "node_ok st s1" "scn_ident s1 = scn_ident (ptScnList st ! idx)" by blast
  obtain r s2 st2 j where c: "cmdSetting st1 (read_list env l (2 * i)) None (ptScnList st1 ! idx)
      (read_list env l (2 * i + 1)) = (r, s2, st2, j)" by (metis prod_cases4)
  have same: "node_ok st1 = node_ok st" "bounds_ok st1"
    using assms(2) by (simp_all add: st1 node_ok_def fun_eq_iff bounds_ok_def)
  have nth: "ptScnList st1 ! idx = s1" using assms(3) by (simp add: st1)
  from cmdSetting_keeps [OF c] same s1 nth
  have "node_ok st s2" "scn_ident s2 = scn_ident (ptScnList st ! idx)"
    and st2: "st2 = st1\<lparr>install_max_duration := install_max_duration st2\<rparr>" by simp_all
  moreover have "lock_cmd env l idx i st1 =
      st\<lparr>ptScnList := (ptScnList st)[idx := s2], install_max_duration := install_max_duration st2\<rparr>"
    unfolding lock_cmd_def c by (subst st2) (simp add: st1)
  ultimately show "\<exists>s' m. lock_cmd env l idx i st1 = st\<lparr>ptScnList := (ptScnList st)[idx := s'], install_max_duration := m\<rparr> \<and>
    node_ok st s' \<and> scn_ident s' = scn_ident (ptScnList st ! idx)" by blast
qed

text \<open>Only the priority command changes the priority of a node.\<close>

lemma cmdSetting_priority:
  assumes "cmdSetting st icmd None s p = (r, s', st', i)" "icmd \<noteq> PERF_RES_POWERHAL_PRIORITY"
  shows "priority s' = priority s"
proof -
  let ?P = "\<lambda>x :: int \<times> tScnNode \<times> int. priority (fst (snd x)) = priority s"
  have "?P (fold (cmdSetting_rsc st '''' p) [0..<length (RscCfgTbl st)]
      (fold (cmdSetting_con st '''' p) [0..<length (tConTable st)] (icmd, s, -1)))"
    by (rule fold_invariant_list, rule fold_invariant_list)
      (auto simp: cmdSetting_con_def cmdSetting_rsc_def Let_def split: prod.splits)
  moreover have "priority s1 = priority s" if "cmdSetting_special st icmd '''' s p = Some (s1, st1, j)" for s1 st1 j
    using that assms(2) unfolding cmdSetting_special_def cmd_is_def by (simp split: if_splits) auto
  ultimately show ?thesis
    using assms(1) by (auto simp: cmdSetting_def Let_def split: if_splits option.splits prod.splits)
qed

definition no_priority_cmd :: "'a lock_env_scheme \<Rightarrow> int list \<Rightarrow> bool" where
  "no_priority_cmd env l \<longleftrightarrow>
     list_all (\<lambda>i. read_list env l (2 * i) \<noteq> PERF_RES_POWERHAL_PRIORITY) [0..<(length l + 1) div 2]"

lemma lock_cmds_priority:
  assumes "no_priority_cmd env l" "idx < length (ptScnList st)"
  shows "priority (ptScnList (lock_cmds env l idx st) ! idx) = priority (ptScnList st ! idx)"
proof -
  have "length (ptScnList (lock_cmds env l idx st)) = length (ptScnList st) \<and>
     priority (ptScnList (lock_cmds env l idx st) ! idx) = priority (ptScnList st ! idx)"
    unfolding lock_cmds_def
  proof (rule fold_invariant_list)
    fix i and st1 :: perf
    assume i: "i \<in> set [0..<(length l + 1) div 2]"
      and st1: "length (ptScnList st1) = length (ptScnList st) \<and> priority (ptScnList st1 ! idx) = priority (ptScnList st ! idx)"
    obtain r s2 st2 j where c: "cmdSetting st1 (read_list env l (2 * i)) None (ptScnList st1 ! idx)
        (read_list env l (2 * i + 1)) = (r, s2, st2, j)" by (metis prod_cases4)
    have "priority s2 = priority (ptScnList st1 ! idx)"
      using cmdSetting_priority [OF c] assms(1) i by (auto simp: no_priority_cmd_def list_all_iff)
    moreover have "length (ptScnList st2) = length (ptScnList st1)"
      using cmdSetting_scn_list [OF c] by simp
    ultimately show "length (ptScnList (lock_cmd env l idx i st1)) = length (ptScnList st) \<and>
        priority (ptScnList (lock_cmd env l idx i st1) ! idx) = priority (ptScnList st ! idx)"
      using st1 assms(2) unfolding lock_cmd_def c by simp
  qed simp
  then show ?thesis ..
qed

section \<open>The invariant between calls\<close>

text \<open>
  The service is ready, arbitration holds, bounds are sane, a free slot is never on, and nothing is on while the
  library is switched off.
\<close>

definition slot_ok :: "perf \<Rightarrow> tScnNode \<Rightarrow> bool" where
  "slot_ok st s \<longleftrightarrow> (scn_type s = -1 \<or> nPowerLibEnable st = 0 \<longrightarrow> scn_state s \<noteq> STATE_ON)"

definition service_inv :: "perf \<Rightarrow> bool" where
  "service_inv st \<longleftrightarrow> nIsReady st \<and> arb_inv st \<and> bounds_ok st \<and> (\<forall>s \<in> set (ptScnList st). slot_ok st s)"

lemma perf_rest_ready: "perf_rest a = perf_rest b \<Longrightarrow> nIsReady a = nIsReady b"
proof -
  have "nIsReady st = nIsReady (perf_rest st)" for st by (simp add: perf_rest_def)
  then show "perf_rest a = perf_rest b \<Longrightarrow> nIsReady a = nIsReady b" by metis
qed

lemma ready_switch [simp]:
  "nIsReady (perfScnEnable st i) = nIsReady st" "nIsReady (perfScnUpdate st i fu) = nIsReady st"
  "nIsReady (perfScnDisable st i) = nIsReady st"
  using perf_rest_ready [OF perfScnEnable_rest, of st i] perf_rest_ready [OF perfScnUpdate_rest, of st i]
  by (simp_all add: perfScnDisable_def)

lemma bounds_ok_config:
  assumes "same_config st st'"
  shows "bounds_ok st' = bounds_ok st"
proof -
  have "bounds_ok st \<longleftrightarrow> (\<forall>c \<in> set (map con_static (tConTable st)). c_cmdName c \<noteq> '''' \<longrightarrow> con_bounds c) \<and>
     length (map rsc_static (gRscCtlTbl st)) = length (RscCfgTbl st) \<and>
     (\<forall>idx < length (RscCfgTbl st). comp (RscCfgTbl st ! idx) \<noteq> ONESHOT \<longrightarrow>
        rsc_bounds (RscCfgTbl st ! idx) (fst (map rsc_static (gRscCtlTbl st) ! idx)))" for st
    by (auto simp: bounds_ok_def con_static_def con_bounds_def rsc_static_def)
  with assms show ?thesis by (simp only: same_config_def)
qed

lemma slot_ok_rest:
  assumes "perf_rest a = perf_rest b"
  shows "(\<forall>s \<in> set (ptScnList a). slot_ok a s) = (\<forall>s \<in> set (ptScnList b). slot_ok b s)"
proof -
  have "(\<forall>s \<in> set (ptScnList st). slot_ok st s) =
      (\<forall>s \<in> set (ptScnList (perf_rest st)). slot_ok (perf_rest st) s)" for st
    by (auto simp: perf_rest_def slot_ok_def)
  with assms show ?thesis by metis
qed

lemma slot_ok_cong: "nPowerLibEnable st' = nPowerLibEnable st \<Longrightarrow> slot_ok st' = slot_ok st"
  by (simp add: slot_ok_def fun_eq_iff)

lemma slots_update:
  "\<forall>s \<in> set ss. slot_ok st s \<Longrightarrow> slot_ok st s' \<Longrightarrow> \<forall>s \<in> set (ss[i := s']). slot_ok st s"
  using set_update_subset_insert [of ss i s'] by auto

lemma all_slots_update:
  assumes "\<forall>s \<in> set (ptScnList st). slot_ok st s" "slot_ok st s'"
    "ptScnList st' = (ptScnList st)[i := s']" "nPowerLibEnable st' = nPowerLibEnable st"
  shows "\<forall>s \<in> set (ptScnList st'). slot_ok st' s"
  using slots_update [OF assms(1,2)] by (simp add: assms(3) slot_ok_cong [OF assms(4)])

lemma service_inv_enable:
  assumes "service_inv st" "i < length (ptScnList st)" "scn_type (ptScnList st ! i) \<noteq> -1"
  shows "service_inv (perfScnEnable st (int i))"
proof -
  have "\<forall>s \<in> set (ptScnList (perfScnEnable st (int i))). slot_ok (perfScnEnable st (int i)) s"
    unfolding slot_ok_rest [OF perfScnEnable_rest]
    using assms all_slots_update [where st = st and s' = "(ptScnList st ! i)\<lparr>scn_state := STATE_ON\<rparr>" and i = i
      and st' = "upd_scn i (\<lambda>s. s\<lparr>scn_state := STATE_ON\<rparr>) st"]
    by (simp add: service_inv_def slot_ok_def checkSuccess_def)
  with assms(1) show ?thesis
    by (simp add: service_inv_def perfScnEnable_inv bounds_ok_config [OF perfScnEnable_config])
qed

lemma service_inv_update_slots:
  assumes "\<forall>s \<in> set (ptScnList st). slot_ok st s"
  shows "\<forall>s \<in> set (ptScnList (perfScnUpdate st i fu)). slot_ok (perfScnUpdate st i fu) s"
  unfolding slot_ok_rest [OF perfScnUpdate_rest]
  using assms all_slots_update [OF assms, where s' = "(ptScnList st ! nat i)\<lparr>scn_state := STATE_OFF\<rparr>" and i = "nat i"
      and st' = "upd_scn (nat i) (\<lambda>s. s\<lparr>scn_state := STATE_OFF\<rparr>) st"]
  by (simp add: slot_ok_def)

lemma service_inv_disable: "service_inv st \<Longrightarrow> service_inv (perfScnDisable st i)"
  using service_inv_update_slots [of st i False]
  by (simp add: service_inv_def perfScnDisable_inv bounds_ok_config [OF perfScnDisable_config])
    (simp add: perfScnDisable_def)

text \<open>After \<open>perfScnDisable\<close> the slot is not on.\<close>

lemma perfScnDisable_off:
  assumes "service_inv st" "i < length (ptScnList st)"
  shows "scn_state (ptScnList (perfScnDisable st (int i)) ! i) \<noteq> STATE_ON"
    and "length (ptScnList (perfScnDisable st (int i))) = length (ptScnList st)"
proof -
  have len: "length (ptScnList (perfScnDisable st (int i))) = length (ptScnList st)"
    using arg_cong [OF perfScnUpdate_rest [of st "int i" False], of "\<lambda>s. length (ptScnList s)"]
    by (simp add: perfScnDisable_def perf_rest_def)
  then show "length (ptScnList (perfScnDisable st (int i))) = length (ptScnList st)" .
  show "scn_state (ptScnList (perfScnDisable st (int i)) ! i) \<noteq> STATE_ON"
  proof (cases "nPowerLibEnable st = 0")
    case True
    then have "perfScnDisable st (int i) = st\<lparr>acts := acts st @ [Record_cpu_freq (int i)]\<rparr>"
      by (simp add: perfScnDisable_def perfScnUpdate_def checkSuccess_def)
    with True assms nth_mem [OF assms(2)] show ?thesis by (auto simp: service_inv_def slot_ok_def)
  next
    case False
    with assms(2) have "requests (perfScnDisable st (int i)) ! i = (STATE_OFF, snd (requests st ! i))"
      using perfScnDisable_requests [of st "int i"] by (simp add: checkSuccess_def requests_def)
    with assms(2) len show ?thesis by (simp add: requests_def scn_key_def)
  qed
qed

lemma node_ok_reset:
  assumes "length (gRscCtlTbl st) = length (RscCfgTbl st)" "scn_param s = map c_resetVal (tConTable st)"
    "scn_rsc s = map r_resetVal (gRscCtlTbl st)"
  shows "node_ok st s"
  using assms by (simp add: node_ok_def)

lemma resetScenario_keeps:
  "same_tables st (resetScenario st i b)" "nPowerLibEnable (resetScenario st i b) = nPowerLibEnable st"
  "nIsReady (resetScenario st i b) = nIsReady st"
  "length (ptScnList (resetScenario st i b)) = length (ptScnList st)"
  by (simp_all add: resetScenario_def same_tables_def)

lemma service_inv_reset:
  assumes "service_inv st" "i < length (ptScnList st)" "scn_state (ptScnList st ! i) \<noteq> STATE_ON"
  shows "service_inv (resetScenario st i True)"
proof -
  let ?s = "ptScnList (resetScenario st i True) ! i"
  have s: "ptScnList (resetScenario st i True) = (ptScnList st)[i := ?s]" and off: "scn_state ?s = STATE_OFF"
    and v: "scn_param ?s = map c_resetVal (tConTable st)" "scn_rsc ?s = map r_resetVal (gRscCtlTbl st)"
    using assms(2) by (simp_all add: resetScenario_def resetScenario_all_def Let_def)
  have "arb_inv (resetScenario st i True)"
  proof (rule arb_inv_edit_off [OF _ assms(2,3) _ _ resetScenario_keeps(1) s])
    show "arb_inv st" using assms(1) by (simp add: service_inv_def)
    then show "node_ok st ?s" using v by (intro node_ok_reset) (auto simp: arb_inv_nodes)
  qed (simp add: off)
  moreover have "bounds_ok (resetScenario st i True)"
    using assms(1) resetScenario_keeps(1) [of st i True] by (simp add: service_inv_def bounds_ok_def same_tables_def)
  moreover have "\<forall>s \<in> set (ptScnList (resetScenario st i True)). slot_ok (resetScenario st i True) s"
    by (rule all_slots_update [OF _ _ s resetScenario_keeps(2)]) (use assms(1) off in \<open>auto simp: service_inv_def slot_ok_def\<close>)
  ultimately show ?thesis using assms(1) by (simp add: service_inv_def resetScenario_keeps(3))
qed

lemma service_inv_release:
  assumes "service_inv st" "i < length (ptScnList st)"
  shows "service_inv (resetScenario (perfScnDisable st (int i)) i True)"
  using service_inv_reset [OF service_inv_disable [OF assms(1)], of i "int i"] perfScnDisable_off [OF assms] assms(2) by simp

section \<open>Acquiring\<close>

text \<open>
  The edits between finding the slot and enabling it: only the slot's node and the install
  duration change, the node stays in range and keeps its identity.
\<close>

definition acq_edit :: "'a lock_env_scheme \<Rightarrow> int list \<Rightarrow> int \<Rightarrow> nat \<Rightarrow> perf \<Rightarrow> perf" where
  "acq_edit env l duration idx st =
     lock_cmds env l idx (upd_scn idx (\<lambda>s. s\<lparr>scn_lock_rsc_size := int (length l)\<rparr>)
       (upd_scn idx (\<lambda>s. s\<lparr>lock_duration := duration\<rparr>) (resetScenario st idx False)))"

lemma acq_edit_keeps:
  assumes "arb_inv st" "bounds_ok st" "idx < length (ptScnList st)"
  shows "\<exists>s' m. acq_edit env l duration idx st = st\<lparr>ptScnList := (ptScnList st)[idx := s'], install_max_duration := m\<rparr> \<and>
    node_ok st s' \<and> scn_ident s' = scn_ident (ptScnList st ! idx)"
proof -
  let ?s = "ptScnList st ! idx"
  define s1 where "s1 = ?s\<lparr>screen_off_action := MTKPOWER_SCREEN_OFF_DISABLE, render_pid := -1,
     scn_param := map c_resetVal (tConTable st), scn_prev_rsc := scn_rsc ?s,
     scn_rsc := map r_resetVal (gRscCtlTbl st), lock_duration := duration, scn_lock_rsc_size := int (length l)\<rparr>"
  define st1 where "st1 = st\<lparr>ptScnList := (ptScnList st)[idx := s1]\<rparr>"
  have e: "acq_edit env l duration idx st = lock_cmds env l idx st1"
    using assms(3) by (simp add: acq_edit_def resetScenario_def Let_def st1_def s1_def)
  have t: "same_tables st st1" by (simp add: st1_def same_tables_def)
  have n: "ptScnList st1 ! idx = s1" "idx < length (ptScnList st1)" using assms(3) by (simp_all add: st1_def)
  have "node_ok st s1" using assms(1) by (intro node_ok_reset) (auto simp: s1_def arb_inv_nodes)
  then have "node_ok st1 (ptScnList st1 ! idx)" "bounds_ok st1"
    using t n assms(2) by (simp_all add: same_tables_node_ok) (simp add: bounds_ok_def same_tables_def)
  from lock_cmds_keeps [OF this n(2), of env l] obtain s' m
    where "lock_cmds env l idx st1 = st1\<lparr>ptScnList := (ptScnList st1)[idx := s'], install_max_duration := m\<rparr>"
      "node_ok st1 s'" "scn_ident s' = scn_ident s1" using n by auto
  moreover have "scn_ident s1 = scn_ident ?s" by (simp add: s1_def scn_ident_def)
  moreover have "node_ok st1 = node_ok st" using same_tables_node_ok [OF t] by (simp add: fun_eq_iff)
  ultimately show ?thesis unfolding e
    by (intro exI [of _ s'] exI [of _ m]) (simp add: st1_def)
qed

lemma acq_edit_priority:
  assumes "no_priority_cmd env l" "idx < length (ptScnList st)"
  shows "priority (ptScnList (acq_edit env l duration idx st) ! idx) = priority (ptScnList st ! idx)"
  using assms by (simp add: acq_edit_def lock_cmds_priority resetScenario_def Let_def)

text \<open>
  What a client must respect for a handle that is already on: no priority command, and the
  list must be recognised as modified.
\<close>

definition acq_safe :: "'a lock_env_scheme \<Rightarrow> int list \<Rightarrow> tScnNode \<Rightarrow> bool" where
  "acq_safe env l s \<longleftrightarrow> (scn_state s = STATE_ON \<longrightarrow> no_priority_cmd env l \<and> lock_modified env l s)"

lemma acq_inv:
  fixes duration :: int
  assumes inv: "service_inv st" and idx: "idx < length (ptScnList st)" and reg: "scn_type (ptScnList st ! idx) \<noteq> -1"
    and safe: "scn_state (ptScnList st ! idx) = STATE_ON \<longrightarrow> no_priority_cmd env l"
  defines "st2 \<equiv> acq_edit env l duration idx st"
  shows "service_inv (if scn_state (ptScnList st ! idx) = STATE_ON then perfScnUpdate st2 (int idx) True
                      else perfScnEnable st2 (int idx))"
proof -
  from inv have a: "arb_inv st" "bounds_ok st" and sl: "\<forall>s \<in> set (ptScnList st). slot_ok st s"
    by (simp_all add: service_inv_def)
  from acq_edit_keeps [OF a idx, of env l duration] obtain s' m
    where st2: "st2 = st\<lparr>ptScnList := (ptScnList st)[idx := s'], install_max_duration := m\<rparr>"
      and ok: "node_ok st s'" and i: "scn_ident s' = scn_ident (ptScnList st ! idx)" by (auto simp: st2_def)
  from i have state: "scn_state s' = scn_state (ptScnList st ! idx)" "scn_type s' = scn_type (ptScnList st ! idx)"
    by (simp_all add: scn_ident_def)
  have tab: "same_tables st st2" and nth: "ptScnList st2 ! idx = s'" and len: "idx < length (ptScnList st2)"
    using idx by (simp_all add: st2 same_tables_def)
  have b2: "bounds_ok st2" using a tab by (simp add: bounds_ok_def same_tables_def)
  have sl2: "\<forall>s \<in> set (ptScnList st2). slot_ok st2 s"
    by (rule all_slots_update [OF sl]) (use state sl nth_mem [OF idx] in \<open>auto simp: st2 slot_ok_def\<close>)
  show ?thesis
  proof (cases "scn_state (ptScnList st ! idx) = STATE_ON")
    case False
    then have "arb_inv st2"
      using state ok tab idx a by (intro arb_inv_edit_off [OF a(1) idx]) (auto simp: st2)
    with b2 sl2 inv have "service_inv st2" by (simp add: service_inv_def st2)
    with service_inv_enable [OF this len] nth state reg False show ?thesis by simp
  next
    case True
    define st0 where "st0 = st\<lparr>install_max_duration := m\<rparr>"
    have st2': "st2 = st0\<lparr>ptScnList := (ptScnList st0)[idx := s']\<rparr>" by (simp add: st2 st0_def)
    have t0: "same_tables st st0" by (simp add: st0_def same_tables_def)
    have "arb_inv st0" using a same_tables_arb_inv [OF t0] by (simp add: st0_def)
    moreover have "nPowerLibEnable st \<noteq> 0" using True sl nth_mem [OF idx] by (auto simp: slot_ok_def)
    then have "checkSuccess st0 (int idx)" using idx by (simp add: checkSuccess_def st0_def)
    moreover have "priority s' = priority (ptScnList st0 ! idx)"
      using acq_edit_priority [of env l idx st duration] True safe idx nth by (simp add: st2_def st0_def)
    moreover have "\<forall>s \<in> set (ptScnList st2). node_ok st2 s"
      using a ok set_update_subset_insert [of "ptScnList st" idx s']
      by (auto simp: arb_inv_nodes same_tables_node_ok [OF tab]) (auto simp: st2)
    then have "requests_ok st2"
      by (auto simp: requests_ok_def con_vals_def rsc_vals_def vals_ok_def node_ok_def)
    ultimately have "arb_inv (perfScnUpdate st2 (int idx) True)"
      using perfScnUpdate_force_inv [of st0 "int idx" s'] True state ok st2'
      by (simp add: node_ok_def st0_def)
    moreover have "nIsReady st2" using inv by (simp add: service_inv_def st2)
    ultimately show ?thesis using True b2 service_inv_update_slots [OF sl2]
      by (simp add: service_inv_def bounds_ok_config [OF perfScnUpdate_config])
  qed
qed

section \<open>Edits that touch no request\<close>

lemma node_ok_key: "scn_key s' = scn_key s \<Longrightarrow> node_ok st s' = node_ok st s"
  by (rule node_ok_same_values) (simp_all add: scn_key_def)

lemma arb_inv_keys:
  assumes "arb_inv st" "same_tables st st'" "map scn_key (ptScnList st') = map scn_key (ptScnList st)"
  shows "arb_inv st'"
proof -
  have "arbitrated st'"
    using assms(1,2) by (simp add: arb_inv_def arbitrated_def same_tables_def keys_cong [OF assms(3)])
  moreover have "\<forall>s' \<in> set (ptScnList st'). node_ok st s'"
  proof
    fix s' assume "s' \<in> set (ptScnList st')"
    then have "scn_key s' \<in> set (map scn_key (ptScnList st))" using assms(3) by (metis imageI list.set_map)
    then obtain s where "s \<in> set (ptScnList st)" "scn_key s' = scn_key s" by auto
    with assms(1) show "node_ok st s'" using node_ok_key [of s' s st] by (simp add: arb_inv_nodes)
  qed
  ultimately show ?thesis
    using assms(1,2) by (auto simp: arb_inv_nodes same_tables_node_ok [OF assms(2)]) (auto simp: same_tables_def)
qed

lemma service_inv_meta:
  assumes "service_inv st" "\<And>s. scn_key (f s) = scn_key s" "\<And>s. scn_type (f s) = scn_type s"
  shows "service_inv (upd_scn i f st)"
proof -
  have "scn_state (f s) = scn_state s" for s using assms(2) [of s] by (simp add: scn_key_def)
  then have so: "slot_ok st (f s) = slot_ok st s" for s using assms(3) by (simp add: slot_ok_def)
  let ?st = "upd_scn i f st"
  from assms(1) have a: "arb_inv st" and b: "bounds_ok ?st" and sl: "\<forall>s \<in> set (ptScnList st). slot_ok st s"
    by (simp_all add: service_inv_def bounds_ok_def)
  have "arb_inv ?st"
    by (rule arb_inv_keys [OF a]) (simp_all add: same_tables_def map_list_update_id assms(2))
  moreover have "\<forall>s \<in> set (ptScnList ?st). slot_ok ?st s"
  proof (cases "i < length (ptScnList st)")
    case True
    then have "slot_ok st (f (ptScnList st ! i))" unfolding so using sl by simp
    then show ?thesis by (rule all_slots_update [OF sl]) simp_all
  next
    case False
    with sl slot_ok_cong [of ?st st] show ?thesis by simp
  qed
  ultimately show ?thesis using assms(1) b by (simp add: service_inv_def)
qed

lemma service_inv_fields:
  assumes "service_inv st" "same_tables st st'" "ptScnList st' = ptScnList st" "nPowerLibEnable st' = nPowerLibEnable st"
    "nIsReady st' = nIsReady st"
  shows "service_inv st'"
  using assms same_tables_arb_inv [OF assms(2,3)] slot_ok_cong [OF assms(4)]
  by (simp add: service_inv_def) (simp add: bounds_ok_def same_tables_def)

section \<open>The entry points keep the invariant\<close>

lemma find_handle_from_range:
  "find_handle_from ss h i = r \<Longrightarrow>
     r = -1 \<or> (\<exists>k < length ss. r = int (i + k) \<and> is_user_scn (ss ! k) \<and> handle_idx (ss ! k) = h)"
proof (induction ss arbitrary: i)
  case (Cons s ss)
  show ?case
  proof (cases "is_user_scn s \<and> h = handle_idx s")
    case True
    with Cons.prems show ?thesis by (intro disjI2 exI [of _ 0]) simp
  next
    case False
    with Cons.prems have "find_handle_from ss h (Suc i) = r" by auto
    from Cons.IH [OF this] show ?thesis by (auto intro: exI [of _ "Suc k" for k])
  qed
qed simp

lemma findHandleToIndex_range:
  assumes "findHandleToIndex st h = r" "r \<noteq> -1"
  shows "0 \<le> r \<and> nat r < length (ptScnList st) \<and> is_user_scn (ptScnList st ! nat r) \<and> handle_idx (ptScnList st ! nat r) = h"
  using assms find_handle_from_range [of "ptScnList st" h 0 r] by (auto simp: findHandleToIndex_def split: if_splits)

lemma user_scn_registered: "is_user_scn s \<Longrightarrow> scn_type s \<noteq> -1"
  by (auto simp: is_user_scn_def)

lemma free_slot_from_range:
  "free_slot_from ss i = Some k \<Longrightarrow> i \<le> k \<and> k - i < length ss \<and> scn_type (ss ! (k - i)) = -1"
proof (induction ss arbitrary: i)
  case (Cons s ss)
  then show ?case
    by (auto split: if_splits) (metis Suc_diff_le Suc_leD diff_Suc_Suc nth_Cons_Suc Suc_less_eq Suc_diff_Suc less_eq_Suc_le)+
qed simp

lemma service_inv_register:
  assumes "service_inv st" "i < length (ptScnList st)" "scn_type (ptScnList st ! i) = -1"
    "register_handle env st i hint p t duration = (h, st')"
  shows "service_inv st'"
proof -
  obtain st1 where a: "allocNewHandleNum st = (h, st1)" and st1: "st1 = st\<lparr>user_handle_now := h\<rparr>"
    using assms(4) by (auto simp: register_handle_def allocNewHandleNum_def Let_def)
  have "service_inv st1" by (rule service_inv_fields [OF assms(1)]) (simp_all add: st1 same_tables_def)
  moreover have "scn_state (ptScnList st1 ! i) \<noteq> STATE_ON"
    using assms(1-3) nth_mem [OF assms(2)] by (auto simp: st1 service_inv_def slot_ok_def)
  ultimately have r: "service_inv (resetScenario st1 i True)" using assms(2) by (intro service_inv_reset) (simp_all add: st1)
  define f :: "tScnNode \<Rightarrow> tScnNode" where "f = (\<lambda>s. (if hint \<noteq> -1 then s\<lparr>scn_type := SCN_CUS_POWER_HINT, cus_lock_hint := hint\<rparr>
            else s\<lparr>scn_type := SCN_PERF_LOCK_HINT\<rparr>)
           \<lparr>handle_idx := h, lock_duration := duration, pid := p, tid := t,
            comm := set_str_cpy (task_comm env p) 64, scn_state := STATE_OFF\<rparr>)"
  let ?st2 = "resetScenario st1 i True"
  have i2: "i < length (ptScnList ?st2)" using assms(2) by (simp add: resetScenario_keeps(4) st1)
  have off: "scn_state (ptScnList ?st2 ! i) = STATE_OFF"
    using assms(2) by (simp add: resetScenario_def resetScenario_all_def Let_def st1)
  have st': "st' = upd_scn i f ?st2"
    using assms(4) a by (simp add: register_handle_def f_def Let_def split: if_splits)
  have v: "scn_param (f s) = scn_param s" "scn_rsc (f s) = scn_rsc s" "scn_state (f s) = STATE_OFF" for s
    by (simp_all add: f_def)
  from r have r1: "arb_inv ?st2" "bounds_ok ?st2" "\<forall>s \<in> set (ptScnList ?st2). slot_ok ?st2 s"
    by (simp_all add: service_inv_def)
  have t: "same_tables ?st2 st'" "ptScnList st' = (ptScnList ?st2)[i := f (ptScnList ?st2 ! i)]"
    "nPowerLibEnable st' = nPowerLibEnable ?st2" by (simp_all add: st' same_tables_def)
  have "node_ok ?st2 (f (ptScnList ?st2 ! i))"
    unfolding node_ok_same_values [OF v(1,2)] using r1(1) nth_mem [OF i2] by (simp add: arb_inv_nodes)
  then have "arb_inv st'"
    by (intro arb_inv_edit_off [OF r1(1) i2 _ _ _ t(1,2)]) (simp_all add: off v(3))
  moreover have "\<forall>s \<in> set (ptScnList st'). slot_ok st' s"
    by (rule all_slots_update [OF r1(3) _ t(2,3)]) (simp add: slot_ok_def v(3))
  moreover have "bounds_ok st'" using r1(2) t(1) by (simp add: bounds_ok_def same_tables_def)
  moreover have "nIsReady st'" using r by (simp add: service_inv_def st')
  ultimately show ?thesis by (simp add: service_inv_def)
qed

lemma service_inv_check_user:
  assumes "service_inv st" "i < length (ptScnList st)"
  shows "service_inv (check_user env i st) \<and> length (ptScnList (check_user env i st)) = length (ptScnList st)"
  using service_inv_release [OF assms] perfScnDisable_off(2) [OF assms] assms(1)
  by (simp add: check_user_def resetScenario_keeps(4))

lemma service_inv_check_all:
  assumes "service_inv st"
  shows "service_inv (check_all_users env st) \<and> length (ptScnList (check_all_users env st)) = length (ptScnList st)"
  unfolding check_all_users_def
  by (rule fold_invariant_list [where P = "\<lambda>x. service_inv x \<and> length (ptScnList x) = length (ptScnList st)"])
    (simp_all add: assms service_inv_check_user)

lemma service_inv_check_hdl:
  assumes "service_inv st" "perfLockCheckHdl_internal env st handle hint sz p t duration = (r, st')"
  shows "service_inv st'"
proof -
  have reg: "service_inv (snd (register_handle env st1 i hint p t duration))"
    if "service_inv st1" "free_slot_from (ptScnList st1) 0 = Some i" for st1 i
    using service_inv_register [OF that(1), of i env hint p t duration] free_slot_from_range [OF that(2)]
    by (metis diff_zero prod.collapse)
  note c = service_inv_check_all [OF assms(1), of env, THEN conjunct1]
  have acts: "service_inv (x\<lparr>acts := a\<rparr>)" if "service_inv x" for x a
    by (rule service_inv_fields [OF that]) (simp_all add: same_tables_def)
  from assms show ?thesis
    using reg [OF assms(1)] reg [OF c] acts [OF c]
    by (auto simp: perfLockCheckHdl_internal_def Let_def split: if_splits option.splits prod.splits)
qed

lemma service_inv_timestamp:
  assumes "service_inv st" "keepTimeStamp env st idx = (r, st1)"
  shows "service_inv st1"
  using assms by (auto simp: keepTimeStamp_def scn_key_def intro!: service_inv_meta split: if_splits option.splits prod.splits)

lemma service_inv_rel:
  assumes "service_inv st" "nIsReady st" "perfLockRel env st handle = Some (r, st')"
  shows "service_inv st'"
proof -
  let ?i = "findHandleToIndex st handle"
  have "service_inv (perfScnDisable st ?i)" by (rule service_inv_disable [OF assms(1)])
  moreover have "service_inv (resetScenario (perfScnDisable st ?i) (nat ?i) True)" if "?i \<noteq> -1"
    using findHandleToIndex_range [OF refl that] service_inv_release [OF assms(1), of "nat ?i"] by simp
  ultimately show ?thesis
    using assms by (auto simp: perfLockRel_def when_ready_def ready_def init_def Let_def split: if_splits)
qed

text \<open>An acquire for a handle that is not registered never gets past the time stamp.\<close>

lemma acq_unregistered:
  assumes "nIsReady st" "findHandleToIndex st handle = -1"
  shows "perfLockAcq env st l handle p t duration hint = Some (0, st)"
  using assms by (simp add: perfLockAcq_def when_ready_def ready_def init_def Let_def keepTimeStamp_def)

lemma service_inv_acq:
  assumes inv: "service_inv st" and rdy: "nIsReady st" and m: "malloc_ok env"
    and safe: "\<And>i. findHandleToIndex st handle = int i \<Longrightarrow> acq_safe env l (ptScnList st ! i)"
    and acq: "perfLockAcq env st l handle p t duration hint = Some (r, st')"
  shows "service_inv st'"
proof (cases "findHandleToIndex st handle = -1")
  case True
  with acq_unregistered [OF rdy True, of env l p t duration hint] acq inv show ?thesis by simp
next
  case False
  define i where "i = nat (findHandleToIndex st handle)"
  from findHandleToIndex_range [OF refl False] have i: "findHandleToIndex st handle = int i"
    "i < length (ptScnList st)" "scn_type (ptScnList st ! i) \<noteq> -1"
    by (auto simp: i_def user_scn_registered)
  obtain q st1 where ts: "keepTimeStamp env st (int i) = (q, st1)" by force
  note inv1 = service_inv_timestamp [OF inv ts]
  have s1: "i < length (ptScnList st1)" "scn_type (ptScnList st1 ! i) \<noteq> -1"
    "scn_state (ptScnList st1 ! i) = scn_state (ptScnList st ! i)"
    "scn_lock_rsc_size (ptScnList st1 ! i) = scn_lock_rsc_size (ptScnList st ! i)"
    using ts i by (auto simp: keepTimeStamp_def split: if_splits option.splits prod.splits)
  let ?st2 = "acq_edit env l duration i st1"
  let ?rs = "upd_scn i (\<lambda>s. s\<lparr>lock_duration := duration\<rparr>) (resetScenario st1 i False)"
  have rs: "scn_state (ptScnList ?rs ! i) = scn_state (ptScnList st1 ! i)"
    "scn_lock_rsc_size (ptScnList ?rs ! i) = scn_lock_rsc_size (ptScnList st1 ! i)"
    using s1(1) by (simp_all add: resetScenario_def Let_def)
  have md: "lock_modified env l (ptScnList ?rs ! i) = lock_modified env l (ptScnList st ! i)"
    unfolding lock_modified_def using rs(2) s1(4) by simp
  have "lock_apply env l handle i ?rs = (handle, if scn_state (ptScnList st1 ! i) = STATE_ON
      then perfScnUpdate ?st2 (int i) True else perfScnEnable ?st2 (int i))"
    using safe [OF i(1)] m md rs(1) s1(3) by (auto simp: lock_apply_def Let_def acq_edit_def acq_safe_def)
  moreover have "service_inv (if scn_state (ptScnList st1 ! i) = STATE_ON
      then perfScnUpdate ?st2 (int i) True else perfScnEnable ?st2 (int i))"
    by (rule acq_inv [OF inv1 s1(1,2)]) (use safe [OF i(1)] s1(3) in \<open>simp add: acq_safe_def\<close>)
  ultimately have "service_inv (snd (lock_apply env l handle i ?rs))" by simp
  moreover have "st' = st \<or> st' = st1 \<or> st' = snd (lock_apply env l handle i ?rs)"
    using acq rdy i(1) ts by (auto simp: perfLockAcq_def when_ready_def ready_def init_def Let_def split: if_splits)
  ultimately show ?thesis using inv inv1 by auto
qed

text \<open>A node that is not on may become \<open>STATE_WAIT_RESTORE\<close>.\<close>

lemma service_inv_wait_restore:
  assumes "service_inv st" "i < length (ptScnList st)" "scn_state (ptScnList st ! i) \<noteq> STATE_ON"
  shows "service_inv (upd_scn i (\<lambda>s. s\<lparr>scn_state := STATE_WAIT_RESTORE\<rparr>) st)"
proof -
  let ?s = "(ptScnList st ! i)\<lparr>scn_state := STATE_WAIT_RESTORE\<rparr>"
  let ?st = "upd_scn i (\<lambda>s. s\<lparr>scn_state := STATE_WAIT_RESTORE\<rparr>) st"
  from assms(1) have r: "arb_inv st" "bounds_ok ?st" "\<forall>s \<in> set (ptScnList st). slot_ok st s"
    by (simp_all add: service_inv_def bounds_ok_def)
  have t: "same_tables st ?st" by (simp add: same_tables_def)
  have "node_ok st ?s"
    using r(1) nth_mem [OF assms(2)] node_ok_same_values [of ?s "ptScnList st ! i" st] by (simp add: arb_inv_nodes)
  then have "arb_inv ?st" by (intro arb_inv_edit_off [OF r(1) assms(2,3) _ _ t]) simp_all
  moreover have "\<forall>s \<in> set (ptScnList ?st). slot_ok ?st s"
    by (rule all_slots_update [OF r(3), of ?s]) (simp_all add: slot_ok_def)
  ultimately show ?thesis using assms(1) r(2) by (simp add: service_inv_def)
qed

lemma service_inv_screen_off:
  assumes "service_inv st" "i < length (ptScnList st)"
  shows "service_inv (screen_off_user env i st) \<and> length (ptScnList (screen_off_user env i st)) = length (ptScnList st)"
proof -
  let ?d = "perfScnDisable st (int i)"
  note d = service_inv_disable [OF assms(1), of "int i"] perfScnDisable_off [OF assms]
  define st1 where "st1 = (if scn_state (ptScnList st ! i) = STATE_ON \<and>
       screen_off_action (ptScnList st ! i) \<noteq> MTKPOWER_SCREEN_OFF_ENABLE
     then (if screen_off_action (ptScnList ?d ! i) = MTKPOWER_SCREEN_OFF_WAIT_RESTORE
           then upd_scn i (\<lambda>s. s\<lparr>scn_state := STATE_WAIT_RESTORE\<rparr>) ?d else ?d) else st)"
  have st1: "service_inv st1 \<and> length (ptScnList st1) = length (ptScnList st)"
    using assms d service_inv_wait_restore [OF d(1)] by (simp add: st1_def)
  then have i1: "i < length (ptScnList st1)" using assms(2) by simp
  have rel: "service_inv (resetScenario (perfScnDisable st1 (int i)) i True) \<and>
     length (ptScnList (resetScenario (perfScnDisable st1 (int i)) i True)) = length (ptScnList st)"
    using service_inv_release [OF _ i1] perfScnDisable_off(2) [OF _ i1] st1 by (simp add: resetScenario_keeps(4))
  have "screen_off_user env i st \<in> {st, st1, resetScenario (perfScnDisable st1 (int i)) i True}"
    unfolding screen_off_user_def Let_def st1_def [symmetric] by simp
  with st1 rel assms(1) show ?thesis by auto
qed

lemma service_inv_disable_all:
  assumes "service_inv st"
  shows "service_inv (fold (screen_off_user env) [0..<length (ptScnList st)] (setInteractive 0 st))"
proof -
  have "service_inv (setInteractive 0 st)"
    by (rule service_inv_fields [OF assms]) (simp_all add: setInteractive_def same_tables_def)
  then have "service_inv (fold (screen_off_user env) [0..<length (ptScnList st)] (setInteractive 0 st)) \<and>
      length (ptScnList (fold (screen_off_user env) [0..<length (ptScnList st)] (setInteractive 0 st))) = length (ptScnList st)"
    by (intro fold_invariant_list [where P = "\<lambda>x. service_inv x \<and> length (ptScnList x) = length (ptScnList st)"])
      (simp_all add: setInteractive_def service_inv_screen_off)
  then show ?thesis ..
qed

lemma hint_slot_from_range: "hint_slot_from ss h i = Some k \<Longrightarrow> i \<le> k \<and> k < i + length ss"
  by (induction ss arbitrary: i) (fastforce split: if_splits)+

lemma service_inv_hint_off: "service_inv st \<Longrightarrow> service_inv (disableScenarioByHintId st hint)"
  using hint_slot_from_range [of "ptScnList st" hint 0]
  by (auto simp: disableScenarioByHintId_def service_inv_release split: option.split)

end
