(* ===== verification/Service.thy ===== *)
theory Service
  imports Lock_Inv
begin

text \<open>
  The service as a whole: \<open>init\<close> establishes the invariant of \<open>Lock_Inv\<close> from the tables the
  program ships and the XML files, and every sequence of client calls keeps it. The step
  relation \<open>reach\<close> interleaves calls in any order, each with its own answers of the
  operating system.
\<close>

section \<open>init establishes the invariant\<close>

definition con_fresh :: "tScnConTable \<Rightarrow> bool" where
  "con_fresh c \<longleftrightarrow> (c_cmdName c \<noteq> '''' \<longrightarrow>
     con_bounds c \<and> c_curVal c = c_resetVal c \<and> c_priority c = PRIORITY_LOWEST)"

definition rsc_cfg_ok :: "tRscConfig \<Rightarrow> bool" where
  "rsc_cfg_ok r \<longleftrightarrow> rsc_has_funcs r \<and>
     (comp r \<noteq> ONESHOT \<longrightarrow> INT_MIN \<le> minVal r \<and> minVal r \<le> maxVal r \<and> maxVal r \<le> INT_MAX \<and>
        (if comp r = SMALLEST then maxVal r < INT_MAX else INT_MIN < minVal r))"

definition boot_ok :: "perf \<Rightarrow> bool" where
  "boot_ok st \<longleftrightarrow> (\<forall>c \<in> set (tConTable st). con_fresh c) \<and> (\<forall>r \<in> set (RscCfgTbl st). rsc_cfg_ok r)"

text \<open>What the node table file must satisfy: each range is non-empty and has a neighbour to reset to.\<close>

definition xml_ok :: "xml_cmd \<Rightarrow> bool" where
  "xml_ok x \<longleftrightarrow>
     (let mx = text_int (x_maxVal x) 0; mn = text_int (x_minVal x) 0
      in mn \<le> mx \<and> (if x_compare x = Some (Some ''less'') then mx < INT_MAX else INT_MIN < mn))"

definition env_ok :: "'a load_env_scheme \<Rightarrow> bool" where
  "env_ok env \<longleftrightarrow> (case con_xml env of None \<Rightarrow> True | Some xs \<Rightarrow> list_all xml_ok xs)"

lemma text_int_range: "INT_MIN \<le> text_int t 0 \<and> text_int t 0 \<le> INT_MAX"
  by (auto simp: text_int_def strtol_def Let_def c_int_range split: option.split)

lemma load_cmd_fresh:
  assumes "load_cmd env cmdid x old = Some (c, w)" "xml_ok x"
  shows "con_fresh c"
proof -
  let ?mx = "text_int (x_maxVal x) 0" and ?mn = "text_int (x_minVal x) 0"
  obtain c2 c3 where c: "c = load_reset c3" and c3: "load_default env c2 = (c3, w)"
    and c2: "c_maxVal c2 = ?mx" "c_minVal c2 = ?mn" "elem_text (x_compare x) = Some (c_comp c2)"
    using assms(1) by (auto simp: load_cmd_def Let_def split: option.splits prod.splits)
  have k: "c_maxVal c3 = ?mx" "c_minVal c3 = ?mn" "c_comp c3 = c_comp c2"
    using c3 c2 by (auto simp: load_default_def split: if_splits)
  have less: "c_comp c2 = ''less'' \<longleftrightarrow> x_compare x = Some (Some ''less'')"
    using c2(3) by (auto simp: elem_text_def split: option.splits)
  show ?thesis
    using assms(2) text_int_range [of "x_maxVal x"] text_int_range [of "x_minVal x"]
    by (auto simp: c con_fresh_def load_reset_def con_bounds_def k less xml_ok_def Let_def)
qed

lemma load_cmds_fresh:
  assumes "load_cmds env xs idx cmdid st = Some st'" "list_all xml_ok xs" "\<forall>c \<in> set (tConTable st). con_fresh c"
  shows "\<exists>t a. st' = st\<lparr>tConTable := t, acts := a\<rparr> \<and> (\<forall>c \<in> set t. con_fresh c)"
  using assms
proof (induction env xs idx cmdid st rule: load_cmds.induct)
  case (1 env idx cmdid st)
  then show ?case by (intro exI [of _ "tConTable st"] exI [of _ "acts st"]) simp
next
  case (2 env x xs idx cmdid st)
  let ?id = "case x_id x of Some s \<Rightarrow> strtol 16 s | None \<Rightarrow> cmdid"
  from "2.prems"(1) have i: "idx < length (tConTable st)" by (simp split: if_splits)
  from "2.prems"(1) i obtain c w where c: "load_cmd env ?id x (tConTable st ! idx) = Some (c, w)"
    by (auto simp: Let_def split: option.splits)
  let ?st = "st\<lparr>tConTable := (tConTable st)[idx := c], acts := acts st @ w\<rparr>"
  have "con_fresh c" using load_cmd_fresh [OF c] "2.prems"(2) by simp
  then have "\<forall>c \<in> set (tConTable ?st). con_fresh c"
    using "2.prems"(3) set_update_subset_insert [of "tConTable st" idx c] by auto
  moreover have "load_cmds env xs (Suc idx) ?id ?st = Some st'"
    using "2.prems"(1) i c by (simp add: Let_def)
  ultimately obtain t a where "st' = ?st\<lparr>tConTable := t, acts := a\<rparr>" "\<forall>c \<in> set t. con_fresh c"
    using "2.IH" [OF i refl c refl] "2.prems"(2) by auto
  then show ?case by auto
qed

lemma loadConTable_fresh:
  assumes "loadConTable env st = Some (r, st')" "env_ok env" "\<forall>c \<in> set (tConTable st). con_fresh c"
  shows "\<exists>t a. st' = st\<lparr>tConTable := t, acts := a\<rparr> \<and> (\<forall>c \<in> set t. con_fresh c)"
proof (cases "con_xml env")
  case None
  with assms show ?thesis by (intro exI [of _ "tConTable st"] exI [of _ "acts st"]) (simp add: loadConTable_def)
next
  case (Some xs)
  with assms load_cmds_fresh [of env xs 0 0 st st'] show ?thesis by (auto simp: loadConTable_def env_ok_def)
qed

text \<open>The loop over all slots.\<close>

definition fresh_node :: "perf \<Rightarrow> tScnNode \<Rightarrow> bool" where
  "fresh_node st s \<longleftrightarrow> scn_state s = STATE_OFF \<and> scn_type s = -1 \<and> handle_idx s = -1 \<and>
     scn_param s = map c_resetVal (tConTable st) \<and> scn_rsc s = map r_resetVal (gRscCtlTbl st)"

lemma reset_fold:
  assumes "k \<le> length (ptScnList st)"
  shows "\<exists>ss. fold (\<lambda>i st. resetScenario st i True) [0..<k] st = st\<lparr>ptScnList := ss\<rparr> \<and>
    length ss = length (ptScnList st) \<and> (\<forall>j < k. fresh_node st (ss ! j))"
  using assms
proof (induction k)
  case 0
  then show ?case by (intro exI [of _ "ptScnList st"]) simp
next
  case (Suc k)
  then obtain ss where ss: "fold (\<lambda>i st. resetScenario st i True) [0..<k] st = st\<lparr>ptScnList := ss\<rparr>"
    "length ss = length (ptScnList st)" "\<forall>j < k. fresh_node st (ss ! j)" by auto
  let ?st = "st\<lparr>ptScnList := ss\<rparr>"
  have n: "ptScnList (resetScenario ?st k True) = ss[k := ptScnList (resetScenario ?st k True) ! k]"
    and r: "resetScenario ?st k True = st\<lparr>ptScnList := ptScnList (resetScenario ?st k True)\<rparr>"
    and f: "fresh_node st (ptScnList (resetScenario ?st k True) ! k)"
    using Suc.prems ss(2) by (simp_all add: resetScenario_def resetScenario_all_def Let_def fresh_node_def)
  show ?case
  proof (intro exI conjI)
    show "fold (\<lambda>i st. resetScenario st i True) [0..<Suc k] st =
        st\<lparr>ptScnList := ptScnList (resetScenario ?st k True)\<rparr>"
      using ss(1) r by simp
    show "length (ptScnList (resetScenario ?st k True)) = length (ptScnList st)"
      using ss(2) by (simp add: resetScenario_keeps(4))
    show "\<forall>j < Suc k. fresh_node st (ptScnList (resetScenario ?st k True) ! j)"
      using ss(3) f n by (metis less_Suc_eq nth_list_update_neq)
  qed
qed

text \<open>The scenario file only fills the hint table (and the install duration).\<close>

definition but_hints :: "perf \<Rightarrow> perf" where
  "but_hints st = st\<lparr>PowerScnTbl := [], install_max_duration := 0\<rparr>"

lemma but_hints_upd [simp]:
  "but_hints (st\<lparr>PowerScnTbl := t\<rparr>) = but_hints st" "but_hints (st\<lparr>install_max_duration := m\<rparr>) = but_hints st"
  by (simp_all add: but_hints_def)

lemma Scn_cmdSetting_frame:
  assumes "Scn_cmdSetting st cmd scn p = Some st'"
  shows "but_hints st' = but_hints st"
proof -
  obtain r tmp st1 rid where c: "cmdSetting st (-1) (Some cmd) zero_node p = (r, tmp, st1, rid)" by (metis prod_cases4)
  have "but_hints s2 = but_hints st" if "cmdSetting_special st (-1) cmd zero_node p = Some (s1, s2, j)" for s1 s2 j
    using arg_cong [OF cmdSetting_special_keeps [OF that, THEN conjunct2, THEN conjunct2, THEN conjunct2], of but_hints] by simp
  with c have "but_hints st1 = but_hints st"
    by (auto simp: cmdSetting_def Let_def split: option.splits prod.splits)
  with assms c show ?thesis by (auto simp: Scn_cmdSetting_def Let_def)
qed

lemma perfxml_read_cmddata_frame:
  "perfxml_read_cmddata ds cmd scn st = Some st' \<Longrightarrow> but_hints st' = but_hints st"
proof (induction ds cmd scn st rule: perfxml_read_cmddata.induct)
  case (2 str p ds cmd scn st)
  from "2.prems" obtain st1 where s: "Scn_cmdSetting st (case str of Some s \<Rightarrow> if length s < 64 then set_str_cpy s 64 else cmd | None \<Rightarrow> cmd) scn p = Some st1"
    by (auto simp: Let_def split: option.splits)
  from "2.IH" [OF refl s] "2.prems" s Scn_cmdSetting_frame [OF s] show ?case by (simp add: Let_def)
qed simp

lemma updateCusScn_loop_frame:
  "updateCusScn_loop env xs scn st = Some st' \<Longrightarrow> but_hints st' = but_hints st"
proof (induction xs arbitrary: scn st)
  case (Cons x xs)
  have step: "but_hints st' = but_hints st1"
    if "perfxml_read_cmddata (s_data x) g scn' st1 = Some st2" "updateCusScn_loop env xs scn' st2 = Some st'" for st1 st2 g scn'
    using perfxml_read_cmddata_frame [OF that(1)] Cons.IH [OF that(2)] by simp
  have hint: "but_hints st1 = but_hints st" if "scn_of_hint h st = Some (scn', st1)" for h scn' st1
    using that by (auto simp: scn_of_hint_def Let_def split: if_splits)
  show ?case
  proof (cases "s_powerhint x")
    case None
    with Cons.prems Cons.IH step show ?thesis by (auto split: if_splits option.splits)
  next
    case (Some h)
    with Cons.prems Cons.IH step hint [of h] show ?thesis by (fastforce split: option.splits)
  qed
qed simp

lemma updateCusScnTable_frame: "updateCusScnTable env st = Some st' \<Longrightarrow> but_hints st' = but_hints st"
  by (auto simp: updateCusScnTable_def updateCusScn_loop_frame split: option.splits)

lemma but_hints_fields:
  assumes "but_hints st' = but_hints st"
  shows "same_tables st st'" "ptScnList st' = ptScnList st" "nPowerLibEnable st' = nPowerLibEnable st"
    "nIsReady st' = nIsReady st" "user_handle_now st' = user_handle_now st"
    "powerhalAPI_status st' = powerhalAPI_status st"
proof -
  have "tConTable st = tConTable (but_hints st)" "RscCfgTbl st = RscCfgTbl (but_hints st)"
    "gRscCtlTbl st = gRscCtlTbl (but_hints st)" "ptScnList st = ptScnList (but_hints st)"
    "nPowerLibEnable st = nPowerLibEnable (but_hints st)" "nIsReady st = nIsReady (but_hints st)"
    "user_handle_now st = user_handle_now (but_hints st)"
    "powerhalAPI_status st = powerhalAPI_status (but_hints st)" for st
    by (simp_all add: but_hints_def)
  with assms show "same_tables st st'" "ptScnList st' = ptScnList st" "nPowerLibEnable st' = nPowerLibEnable st"
    "nIsReady st' = nIsReady st" "user_handle_now st' = user_handle_now st"
    "powerhalAPI_status st' = powerhalAPI_status st"
    by (metis same_tables_def)+
qed

section \<open>A fresh service\<close>

lemma rsc_reset_ok:
  assumes "rsc_cfg_ok r" "comp r \<noteq> ONESHOT"
  shows "rsc_bounds r (rsc_reset_value r)"
  using assms by (cases "comp r") (auto simp: rsc_cfg_ok_def rsc_bounds_def rsc_reset_value_def)

text \<open>Freshly loaded tables with every slot reset satisfy the invariant.\<close>

lemma fresh_service_inv:
  assumes "\<forall>c \<in> set (tConTable st). con_fresh c" "\<forall>r \<in> set (RscCfgTbl st). rsc_cfg_ok r"
    and "gRscCtlTbl st = map loadRscTable_entry (RscCfgTbl st)" "\<forall>s \<in> set (ptScnList st). fresh_node st s"
    and "nIsReady st"
  shows "service_inv st"
proof -
  have none: "cands val reset (ptScnList st) = {}" for val reset
    using assms(4) by (auto simp: cands_def cand_def fresh_node_def)
  have "arbitrated st"
    using assms(1,3) by (auto simp: arbitrated_def con_arbitrated_def rsc_arbitrated_def none arb_def con_fresh_def
        con_managed_def loadRscTable_entry_def dest!: nth_mem)
  moreover have "\<forall>s \<in> set (ptScnList st). node_ok st s"
    using assms(3,4) by (auto intro!: node_ok_reset simp: fresh_node_def)
  ultimately have "arb_inv st" using assms(2,3) by (auto simp: arb_inv_nodes rsc_cfg_ok_def)
  moreover have "bounds_ok st"
    using assms(1-3) rsc_reset_ok by (auto simp: bounds_ok_def con_fresh_def loadRscTable_entry_def)
  moreover have "\<forall>s \<in> set (ptScnList st). slot_ok st s"
    using assms(4) by (auto simp: fresh_node_def slot_ok_def)
  ultimately show ?thesis using assms(5) by (simp add: service_inv_def)
qed

lemma reset_all_fresh:
  assumes "length (ptScnList st) = REG_SCN_MAX"
  shows "\<exists>ss. reset_all_scn st = st\<lparr>ptScnList := ss\<rparr> \<and> length ss = REG_SCN_MAX \<and> (\<forall>s \<in> set ss. fresh_node st s)"
proof -
  from reset_fold [of REG_SCN_MAX st] assms obtain ss where
    "reset_all_scn st = st\<lparr>ptScnList := ss\<rparr>" "length ss = REG_SCN_MAX" "\<forall>j < REG_SCN_MAX. fresh_node st (ss ! j)"
    unfolding reset_all_scn_def by auto
  then show ?thesis by (intro exI [of _ ss]) (auto simp: in_set_conv_nth)
qed

lemma init_tables_inv:
  assumes "init_tables env st = Some (r, st')" "env_ok env" "boot_ok st" "\<not> nIsReady st"
    "length (ptScnList st) = REG_SCN_MAX" "length (powerhalAPI_status st) = 3"
  shows "if nIsReady st' then r = 1 \<and> service_inv st' \<and> (\<forall>s \<in> set (ptScnList st'). fresh_node st' s) \<and>
      length (ptScnList st') = REG_SCN_MAX \<and> powerhalAPI_status st' = [0, 0, 0] else r = 0 \<and> boot_ok st'"
proof -
  from assms(1) obtain q st1 where l: "loadConTable env st = Some (q, st1)"
    by (auto simp: init_tables_def split: option.splits)
  from loadConTable_fresh [OF l assms(2)] assms(3) obtain t a where st1: "st1 = st\<lparr>tConTable := t, acts := a\<rparr>"
    and t: "\<forall>c \<in> set t. con_fresh c" by (auto simp: boot_ok_def)
  define st2 where "st2 = st1\<lparr>acts := acts st1 @ [Notify ''update_default_core_min'' ''''] @
      (if strtol 10 (prop_init env) = 0 then [Notify ''vendor.powerhal.init'' ''1''] else [])\<rparr>"
  define po :: int where "po = (if strtol 10 (prop_init env) = 1 then 0 else 1)"
  have e: "init_tables env st = (if \<not> rsc_alloc_ok env then Some (0, st2)
      else map_option (\<lambda>st3. (1, init_done env st3)) (updateCusScnTable env (reset_all_scn (loadRscTable st2 po))))"
    by (simp add: init_tables_def l Let_def st2_def po_def)
  show ?thesis
  proof (cases "rsc_alloc_ok env")
    case False
    with e assms t show ?thesis by (auto simp: st1 st2_def boot_ok_def)
  next
    case True
    let ?l = "loadRscTable st2 po"
    have l: "length (ptScnList ?l) = REG_SCN_MAX" using assms(5) by (simp add: loadRscTable_def st1 st2_def)
    from reset_all_fresh [OF l] obtain ss where ss: "reset_all_scn ?l = ?l\<lparr>ptScnList := ss\<rparr>"
      "length ss = REG_SCN_MAX" "\<forall>s \<in> set ss. fresh_node ?l s" by blast
    from e True assms(1) obtain st3 where u: "updateCusScnTable env (?l\<lparr>ptScnList := ss\<rparr>) = Some st3"
      and st': "r = 1" "st' = init_done env st3"
      using ss(1) by (cases "updateCusScnTable env (?l\<lparr>ptScnList := ss\<rparr>)") auto
    note f = but_hints_fields [OF updateCusScnTable_frame [OF u]]
    have tabs: "tConTable st' = t" "RscCfgTbl st' = RscCfgTbl st" "gRscCtlTbl st' = map loadRscTable_entry (RscCfgTbl st)"
      "ptScnList st' = ss" "nIsReady st'"
      using f by (simp_all add: st' init_done_def Let_def disable_api_at_boot_def setAPIstatus_def same_tables_def loadRscTable_def st1 st2_def)
    obtain x y z where api: "powerhalAPI_status st = [x, y, z]"
      using assms(6) by (metis length_Suc_conv numeral_3_eq_3 length_0_conv)
    have "powerhalAPI_status st' = [0, 0, 0]"
      using f(6) api by (simp add: st' init_done_def Let_def disable_api_at_boot_def setAPIstatus_def loadRscTable_def st1 st2_def)
    moreover have fr: "\<forall>s \<in> set (ptScnList st'). fresh_node st' s"
      using ss(3) tabs by (simp add: fresh_node_def loadRscTable_def st1 st2_def)
    moreover from fr have "service_inv st'"
      using assms(3) t tabs by (intro fresh_service_inv) (simp_all add: boot_ok_def)
    ultimately show ?thesis using st'(1) tabs ss(2) by simp
  qed
qed

lemma init_inv:
  assumes "init env st = Some (r, st')" "env_ok env" "boot_ok st" "\<not> nIsReady st"
  shows "if nIsReady st' then r = 1 \<and> service_inv st' \<and> (\<forall>s \<in> set (ptScnList st'). fresh_node st' s) \<and>
      length (ptScnList st') = REG_SCN_MAX \<and> powerhalAPI_status st' = [0, 0, 0] else r = 0 \<and> boot_ok st'"
proof -
  let ?st = "st\<lparr>powerhalAPI_status := [1, 1, 1], PowerScnTbl := HintRscList_init (PowerScnTbl st)\<rparr>"
  have "boot_ok ?st" "boot_ok (?st\<lparr>ptScnList := ss\<rparr>)" for ss using assms(3) by (simp_all add: boot_ok_def)
  moreover from this init_tables_inv [of env "?st\<lparr>ptScnList := replicate REG_SCN_MAX zero_node\<rparr>" r st'] assms(2,4)
  have "init_tables env (?st\<lparr>ptScnList := replicate REG_SCN_MAX zero_node\<rparr>) = Some (r, st') \<Longrightarrow> ?thesis" by simp
  ultimately show ?thesis using assms by (auto simp: init_def Let_def split: if_splits)
qed

section \<open>Sequences of calls\<close>

datatype call =
    C_check_hdl int int int int int int
  | C_acq "int list" int int int int int
  | C_rel int
  | C_disable_all
  | C_restore_all
  | C_check_all
  | C_hint_off int
  | C_rsc_off int

fun run_call :: "'a lock_env_scheme \<Rightarrow> call \<Rightarrow> perf \<Rightarrow> (int \<times> perf) option" where
  "run_call env (C_check_hdl h hint sz p t d) st = perfLockCheckHdl env st h hint sz p t d"
| "run_call env (C_acq l h p t d hint) st = perfLockAcq env st l h p t d hint"
| "run_call env (C_rel h) st = perfLockRel env st h"
| "run_call env C_disable_all st = perfUserScnDisableAll env st"
| "run_call env C_restore_all st = perfUserScnRestoreAll env st"
| "run_call env C_check_all st = perfUserScnCheckAll env st"
| "run_call env (C_hint_off hint) st = (if nIsReady st then Some (0, disableScenarioByHintId st hint) else None)"
| "run_call env (C_rsc_off i) st = when_ready env st (\<lambda>st. powerRscCtrl env st MTKPOWER_CMD_GET_RES_CTRL_OFF i)"

text \<open>What is asked of a call: re-acquiring a handle that is on must be safe.\<close>

definition call_ok :: "'a lock_env_scheme \<Rightarrow> call \<Rightarrow> perf \<Rightarrow> bool" where
  "call_ok env c st \<longleftrightarrow> env_ok env \<and> malloc_ok env \<and>
     (case c of C_acq l h p t d hint \<Rightarrow>
        nIsReady st \<and> findHandleToIndex st h \<noteq> -1 \<longrightarrow> acq_safe env l (ptScnList st ! nat (findHandleToIndex st h))
      | _ \<Rightarrow> True)"

inductive reach :: "perf \<Rightarrow> perf \<Rightarrow> bool" where
  reach_start: "reach st0 st0"
| reach_call: "reach st0 st \<Longrightarrow> call_ok (env :: lock_env) c st \<Longrightarrow> run_call env c st = Some (r, st') \<Longrightarrow> reach st0 st'"

definition perf_inv :: "perf \<Rightarrow> bool" where
  "perf_inv st \<longleftrightarrow> (if nIsReady st then service_inv st else boot_ok st)"

lemma service_inv_rsc_off:
  assumes "service_inv st"
  shows "service_inv (snd (powerRscCtrl env st MTKPOWER_CMD_GET_RES_CTRL_OFF i))"
proof -
  have con: "service_inv (st\<lparr>tConTable := (tConTable st)[k := (tConTable st ! k)\<lparr>c_isValid := -1\<rparr>]\<rparr>)" for k
  proof (cases "k < length (tConTable st)")
    case True
    let ?st = "st\<lparr>tConTable := (tConTable st)[k := (tConTable st ! k)\<lparr>c_isValid := -1\<rparr>]\<rparr>"
    have nth: "tConTable ?st ! j = (if j = k then (tConTable st ! k)\<lparr>c_isValid := -1\<rparr> else tConTable st ! j)" for j
      using True by simp
    have "\<not> con_managed ((tConTable st ! k)\<lparr>c_isValid := -1\<rparr>)" by (simp add: con_managed_def)
    then have "arbitrated st \<Longrightarrow> arbitrated ?st" "node_ok st s \<Longrightarrow> node_ok ?st s" for s
      using nth by (simp_all add: arbitrated_def node_ok_def)
    moreover have "con_bounds (c\<lparr>c_isValid := v\<rparr>) = con_bounds c" for c v by (simp add: con_bounds_def)
    then have "bounds_ok st \<Longrightarrow> bounds_ok ?st"
      using set_update_subset_insert [of "tConTable st" k "(tConTable st ! k)\<lparr>c_isValid := -1\<rparr>"] nth_mem [OF True]
      by (auto simp: bounds_ok_def)
    ultimately show ?thesis using assms slot_ok_cong [of ?st st] by (auto simp: service_inv_def arb_inv_nodes)
  qed (use assms in simp)
  have rsc: "service_inv (st\<lparr>gRscCtlTbl := (gRscCtlTbl st)[k := (gRscCtlTbl st ! k)\<lparr>r_isValid := 0\<rparr>]\<rparr>)" for k
  proof (cases "k < length (gRscCtlTbl st)")
    case True
    let ?st = "st\<lparr>gRscCtlTbl := (gRscCtlTbl st)[k := (gRscCtlTbl st ! k)\<lparr>r_isValid := 0\<rparr>]\<rparr>"
    have nth: "gRscCtlTbl ?st ! j = (if j = k then (gRscCtlTbl st ! k)\<lparr>r_isValid := 0\<rparr> else gRscCtlTbl st ! j)" for j
      using True by simp
    have "\<not> rsc_managed r ((gRscCtlTbl st ! k)\<lparr>r_isValid := 0\<rparr>)" for r by (simp add: rsc_managed_def)
    then have "arbitrated st \<Longrightarrow> arbitrated ?st" "node_ok st s \<Longrightarrow> node_ok ?st s" for s
      using nth by (simp_all add: arbitrated_def node_ok_def)
    moreover have "bounds_ok st \<Longrightarrow> bounds_ok ?st" using nth by (auto simp: bounds_ok_def)
    ultimately show ?thesis using assms slot_ok_cong [of ?st st] by (auto simp: service_inv_def arb_inv_nodes)
  qed (use assms in simp)
  show ?thesis using assms con rsc by (auto simp: powerRscCtrl_def Let_def split: option.splits)
qed

text \<open>The guard at the top of every entry point.\<close>

lemma when_ready_inv:
  assumes "perf_inv st" "env_ok env" "when_ready env st f = Some (r, st')"
    and "\<And>st1. service_inv st1 \<Longrightarrow> (if nIsReady st then st1 = st else \<forall>s \<in> set (ptScnList st1). fresh_node st1 s) \<Longrightarrow>
      service_inv (snd (f st1))"
  shows "perf_inv st'"
proof -
  from assms(3) obtain q st1 where i: "init (load_env.truncate env) st = Some (q, st1)"
    and f: "(r, st') = (if q \<noteq> 0 then f st1 else (0, st1))"
    by (auto simp: when_ready_def ready_def split: option.splits)
  have e: "env_ok (load_env.truncate env)" using assms(2) by (simp add: env_ok_def load_env.defs)
  show ?thesis
  proof (cases "nIsReady st")
    case True
    with i have "q = 1" "st1 = st" by (simp_all add: init_def)
    with f assms(1,4) True have "service_inv st'" by (auto simp: perf_inv_def dest: arg_cong [where f = snd])
    then show ?thesis by (simp add: perf_inv_def service_inv_def)
  next
    case False
    with assms(1) have "boot_ok st" by (simp add: perf_inv_def)
    from init_inv [OF i e this False] have c: "if nIsReady st1 then q = 1 \<and> service_inv st1 \<and>
        (\<forall>s \<in> set (ptScnList st1). fresh_node st1 s) else q = 0 \<and> boot_ok st1" by (auto split: if_splits)
    show ?thesis
    proof (cases "nIsReady st1")
      case True
      with c f assms(4) False have "service_inv st'" by (auto dest: arg_cong [where f = snd])
      then show ?thesis by (simp add: perf_inv_def service_inv_def)
    qed (use c f in \<open>simp add: perf_inv_def\<close>)
  qed
qed

lemma fresh_no_handle: "\<forall>s \<in> set (ptScnList st). fresh_node st s \<Longrightarrow> findHandleToIndex st h = -1"
  using findHandleToIndex_range [of st h "findHandleToIndex st h"] nth_mem
  by (fastforce simp: fresh_node_def is_user_scn_def)

lemma ready_fun: "nIsReady st \<Longrightarrow> when_ready env st f = Some (f st)"
  by (simp add: when_ready_def ready_def init_def)

lemma run_call_inv:
  assumes i: "perf_inv st" and ok: "call_ok env c st" and run: "run_call env c st = Some (r, st')"
  shows "perf_inv st'"
proof -
  from ok have e: "env_ok env" and m: "malloc_ok env" by (simp_all add: call_ok_def)
  note go = when_ready_inv [OF i e]
  show ?thesis
  proof (cases c)
    case (C_check_hdl h hint sz p t d)
    have "service_inv (snd (perfLockCheckHdl_internal env st1 h hint sz p t d))" if "service_inv st1" for st1
      using service_inv_check_hdl [OF that] by (metis prod.collapse)
    then show ?thesis
      by (intro go [OF run [unfolded C_check_hdl run_call.simps perfLockCheckHdl_def]])
        (simp add: case_prod_beta Let_def)
  next
    case (C_acq l h p t d hint)
    show ?thesis
    proof (rule go [OF run [unfolded C_acq run_call.simps perfLockAcq_def]], goal_cases)
      case (1 st1)
      then have r: "nIsReady st1" by (simp add: service_inv_def)
      have "findHandleToIndex st1 h = -1" if "\<not> nIsReady st"
        using fresh_no_handle [of st1 h] 1(2) that by simp
      then have "acq_safe env l (ptScnList st1 ! i)" if "findHandleToIndex st1 h = int i" for i
        using that ok 1(2) by (cases "nIsReady st") (auto simp: call_ok_def C_acq)
      from service_inv_acq [OF 1(1) r m this] show ?case
        unfolding perfLockAcq_def ready_fun [OF r] by (metis (no_types, lifting) prod.collapse)
    qed
  next
    case (C_rel h)
    show ?thesis
    proof (rule go [OF run [unfolded C_rel run_call.simps perfLockRel_def]], goal_cases)
      case (1 st1)
      then have r: "nIsReady st1" by (simp add: service_inv_def)
      from service_inv_rel [OF 1(1) r] show ?case
        unfolding perfLockRel_def ready_fun [OF r] by (metis (no_types, lifting) prod.collapse)
    qed
  next
    case C_disable_all
    show ?thesis
      by (rule go [OF run [unfolded C_disable_all run_call.simps perfUserScnDisableAll_def]])
        (simp add: service_inv_disable_all)
  next
    case C_restore_all
    have "service_inv (setInteractive 1 st1)" if "service_inv st1" for st1
      by (rule service_inv_fields [OF that]) (simp_all add: setInteractive_def same_tables_def)
    then show ?thesis
      by (intro go [OF run [unfolded C_restore_all run_call.simps perfUserScnRestoreAll_def]]) simp
  next
    case C_check_all
    show ?thesis
    proof (cases "scnCheckSupport st = 0")
      case True
      with run C_check_all i show ?thesis by (simp add: perfUserScnCheckAll_def)
    next
      case False
      show ?thesis
        by (rule go [OF run [unfolded C_check_all run_call.simps perfUserScnCheckAll_def if_not_P [OF False]]])
          (simp add: service_inv_check_all)
    qed
  next
    case (C_hint_off hint)
    with run i service_inv_hint_off have "service_inv st'" by (auto simp: perf_inv_def split: if_splits)
    then show ?thesis by (simp add: perf_inv_def service_inv_def)
  next
    case (C_rsc_off k)
    show ?thesis
      by (rule go [OF run [unfolded C_rsc_off run_call.simps]]) (rule service_inv_rsc_off)
  qed
qed

lemma reach_inv: "reach st0 st \<Longrightarrow> perf_inv st0 \<Longrightarrow> perf_inv st"
  by (induction rule: reach.induct) (auto intro: run_call_inv)

end
