(* ===== verification/Service_Props.thy ===== *)
theory Service_Props
  imports Service
begin

text \<open>
  Properties of the client interface: what a sequence of calls guarantees, that a release
  undoes an acquire, that handles are unique, what the clean-up calls leave, and where the
  code does not do what its callers expect.
\<close>

section \<open>Acquire and release\<close>

abbreviation slot_id :: "tScnNode \<Rightarrow> int \<times> int" where
  "slot_id s \<equiv> (scn_type s, handle_idx s)"

lemma findHandle_cong:
  assumes "map slot_id (ptScnList st') = map slot_id (ptScnList st)"
  shows "findHandleToIndex st' h = findHandleToIndex st h"
proof -
  have "find_handle_from ss h i = find_handle_from ss' h i" if "map slot_id ss = map slot_id ss'" for ss ss' i
    using that
  proof (induction ss arbitrary: ss' i)
    case (Cons s ss)
    then show ?case by (cases ss') (auto simp: is_user_scn_def)
  qed simp
  from this [OF assms, of 0] show ?thesis by (simp add: findHandleToIndex_def)
qed

lemma perf_rest_ids: "perf_rest a = perf_rest b \<Longrightarrow> map slot_id (ptScnList a) = map slot_id (ptScnList b)"
proof -
  have "map slot_id (ptScnList st) = map slot_id (ptScnList (perf_rest st))" for st by (simp add: perf_rest_def)
  then show "perf_rest a = perf_rest b \<Longrightarrow> map slot_id (ptScnList a) = map slot_id (ptScnList b)" by metis
qed

lemma ids_switch: "map slot_id (switch_scn x i ss) = map slot_id ss"
  by (rule map_list_update_id) simp

lemma perfScnEnable_ids: "map slot_id (ptScnList (perfScnEnable st i)) = map slot_id (ptScnList st)"
  using perf_rest_ids [OF perfScnEnable_rest, of st i] by (simp add: ids_switch split: if_splits)

lemma perfScnUpdate_ids: "map slot_id (ptScnList (perfScnUpdate st i fu)) = map slot_id (ptScnList st)"
  using perf_rest_ids [OF perfScnUpdate_rest, of st i fu] by (simp add: ids_switch split: if_splits)

lemmas perfScnDisable_ids = perfScnUpdate_ids [where fu = False, folded perfScnDisable_def]

lemma same_tables_config: "same_tables st st' \<Longrightarrow> same_config st st'"
  by (simp add: same_tables_def same_config_def)

lemma active_off_update:
  assumes "i < length (requests st)" "fst (requests st ! i) \<noteq> STATE_ON" "fst k \<noteq> STATE_ON"
    and "requests st' = (requests st)[i := k]"
  shows "active st' = active st"
proof -
  have "set (requests st') = insert k (set (take i (requests st) @ drop (Suc i) (requests st)))"
    using assms(1,4) by (simp add: set_update_split)
  moreover have "set (requests st) = insert (requests st ! i) (set (take i (requests st) @ drop (Suc i) (requests st)))"
    using assms(1) by (rule set_nth_split)
  ultimately show ?thesis using assms(2,3) by (auto simp: active_def)
qed

text \<open>The state in which an idle handle is enabled.\<close>

definition acq_idle :: "'a lock_env_scheme \<Rightarrow> int list \<Rightarrow> int \<Rightarrow> nat \<Rightarrow> perf \<Rightarrow> perf" where
  "acq_idle env l duration i st = acq_edit env l duration i (snd (keepTimeStamp env st (int i)))"

definition can_acquire :: "'a lock_env_scheme \<Rightarrow> perf \<Rightarrow> int list \<Rightarrow> int \<Rightarrow> nat \<Rightarrow> bool" where
  "can_acquire env st l h i \<longleftrightarrow> nPowerLibEnable st \<noteq> 0 \<and> l \<noteq> [] \<and> length l \<le> MAX_ARGS_PER_REQUEST \<and>
     findHandleToIndex st h = int i \<and> i < REG_SCN_MAX \<and> malloc_ok env \<and>
     (case now_time env of Some (t, ms) \<Rightarrow> t \<noteq> '''' | None \<Rightarrow> False)"

lemma timestamp_ok:
  assumes "can_acquire env st l h i"
  obtains st1 where "keepTimeStamp env st (int i) = (0, st1)" "st1 = upd_scn i (\<lambda>s. s\<lparr>timestamp := timestamp (ptScnList st1 ! i)\<rparr>) st"
proof -
  have r: "0 \<le> findHandleToIndex st h \<and> i < length (ptScnList st)"
    using assms findHandleToIndex_range [of st h "int i"] by (auto simp: can_acquire_def)
  with assms that show ?thesis by (auto simp: can_acquire_def keepTimeStamp_def split: option.splits)
qed

lemma acq_idle_result:
  assumes ok: "can_acquire env st l h i" and rdy: "nIsReady st" and off: "scn_state (ptScnList st ! i) \<noteq> STATE_ON"
  shows "perfLockAcq env st l h p t d hint = Some (h, perfScnEnable (acq_idle env l d i st) (int i))"
proof -
  obtain st1 where ts: "keepTimeStamp env st (int i) = (0, st1)"
    "st1 = upd_scn i (\<lambda>s. s\<lparr>timestamp := timestamp (ptScnList st1 ! i)\<rparr>) st" using timestamp_ok [OF ok] .
  have i: "i < length (ptScnList st)"
    using ok findHandleToIndex_range [of st h "int i"] by (auto simp: can_acquire_def)
  have "scn_state (ptScnList st1 ! i) = scn_state (ptScnList st ! i)" "i < length (ptScnList st1)"
    using i by (subst ts(2), simp)+
  with off have "scn_state (ptScnList (resetScenario st1 i False) ! i) \<noteq> STATE_ON" "i < length (ptScnList (resetScenario st1 i False))"
    by (simp_all add: resetScenario_def Let_def)
  then have "lock_apply env l h i (upd_scn i (\<lambda>s. s\<lparr>lock_duration := d\<rparr>) (resetScenario st1 i False)) =
      (h, perfScnEnable (acq_edit env l d i st1) (int i))"
    using ok by (simp add: lock_apply_def Let_def acq_edit_def can_acquire_def)
  then show ?thesis
    using ok rdy ts(1) by (auto simp: perfLockAcq_def ready_fun can_acquire_def Let_def acq_idle_def)
qed

text \<open>Acquiring rewrites the slot's requests and nothing else.\<close>

lemma acq_idle_keeps:
  fixes d :: int
  assumes inv: "service_inv st" and ok: "can_acquire env st l h i" and off: "scn_state (ptScnList st ! i) \<noteq> STATE_ON"
  defines "st2 \<equiv> acq_idle env l d i st"
  shows "same_config st st2" "map slot_id (ptScnList st2) = map slot_id (ptScnList st)" "nIsReady st2"
    "nPowerLibEnable st2 = nPowerLibEnable st" "\<exists>k. fst k \<noteq> STATE_ON \<and> requests st2 = (requests st)[i := k]"
    "service_inv (perfScnEnable st2 (int i))"
proof -
  obtain st1 where ts: "keepTimeStamp env st (int i) = (0, st1)"
    "st1 = upd_scn i (\<lambda>s. s\<lparr>timestamp := timestamp (ptScnList st1 ! i)\<rparr>) st" using timestamp_ok [OF ok] .
  have i: "i < length (ptScnList st)" "scn_type (ptScnList st ! i) \<noteq> -1"
    using ok findHandleToIndex_range [of st h "int i"] by (auto simp: can_acquire_def user_scn_registered)
  have inv1: "service_inv st1" by (rule service_inv_timestamp [OF inv ts(1)])
  have f1: "same_tables st st1" "nIsReady st1 = nIsReady st" "nPowerLibEnable st1 = nPowerLibEnable st"
    "length (ptScnList st1) = length (ptScnList st)" "requests st1 = requests st"
    "map slot_id (ptScnList st1) = map slot_id (ptScnList st)"
    "scn_state (ptScnList st1 ! i) = scn_state (ptScnList st ! i)" "scn_type (ptScnList st1 ! i) = scn_type (ptScnList st ! i)"
    using i by (subst ts(2), simp add: same_tables_def requests_def map_list_update_id scn_key_def)+
  from inv1 i f1 obtain s' m where e: "st2 = st1\<lparr>ptScnList := (ptScnList st1)[i := s'], install_max_duration := m\<rparr>"
    and s': "scn_ident s' = scn_ident (ptScnList st1 ! i)"
    using acq_edit_keeps [of st1 i env l d] ts(1) by (auto simp: st2_def acq_idle_def service_inv_def)
  show "same_config st st2" "nIsReady st2" "nPowerLibEnable st2 = nPowerLibEnable st"
    using f1 inv by (simp_all add: e same_tables_def same_config_def service_inv_def)
  show "map slot_id (ptScnList st2) = map slot_id (ptScnList st)"
    using f1(6) s' by (simp add: e map_list_update_id scn_ident_def)
  show "\<exists>k. fst k \<noteq> STATE_ON \<and> requests st2 = (requests st)[i := k]"
    using f1(5,7) s' off by (intro exI [of _ "scn_key s'"]) (simp add: e requests_def map_update scn_ident_def scn_key_def)
  show "service_inv (perfScnEnable st2 (int i))"
    using acq_inv [OF inv1, of i env l d] i f1 off ts(1) by (simp add: st2_def acq_idle_def)
qed

lemma resetScenario_requests:
  assumes "i < length (ptScnList st)"
  shows "\<exists>k. fst k = STATE_OFF \<and> requests (resetScenario st i True) = (requests st)[i := k]"
    "scn_type (ptScnList (resetScenario st i True) ! i) = -1"
  using assms by (auto simp: resetScenario_def Let_def requests_def map_update scn_key_def resetScenario_all_def)

lemma acquire_release:
  assumes inv: "service_inv st" and ok: "can_acquire env st l h i" and off: "scn_state (ptScnList st ! i) \<noteq> STATE_ON"
  shows "\<exists>st1 st2. perfLockAcq env st l h p t d hint = Some (h, st1) \<and> scn_state (ptScnList st1 ! i) = STATE_ON \<and>
    perfLockRel env st1 h = Some (0, st2) \<and> scn_type (ptScnList st2 ! i) = -1 \<and> settings st2 = settings st \<and> nIsReady st1"
proof -
  let ?e = "acq_idle env l d i st"
  let ?s1 = "perfScnEnable ?e (int i)"
  let ?s2 = "perfScnDisable ?s1 (int i)"
  let ?s3 = "resetScenario ?s2 i True"
  note k = acq_idle_keeps [OF inv ok off, where d = d]
  have rdy: "nIsReady st" using inv by (simp add: service_inv_def)
  have i: "i < length (ptScnList st)" "i < REG_SCN_MAX" and lib: "nPowerLibEnable st \<noteq> 0"
    using ok findHandleToIndex_range [of st h "int i"] by (auto simp: can_acquire_def)
  have len: "length (ptScnList ?e) = length (ptScnList st)" "length (ptScnList ?s1) = length (ptScnList st)"
    "length (ptScnList ?s2) = length (ptScnList st)"
    using map_eq_imp_length_eq [OF k(2)] map_eq_imp_length_eq [OF perfScnEnable_ids [of ?e "int i"]]
      map_eq_imp_length_eq [OF perfScnDisable_ids [of ?s1 "int i"]] by simp_all
  have chk: "checkSuccess ?e (int i)" using lib k(4) i len by (simp add: checkSuccess_def)
  obtain k1 where k1: "fst k1 \<noteq> STATE_ON" "requests ?e = (requests st)[i := k1]" using k(5) by blast
  have r1: "requests ?s1 = (requests st)[i := (STATE_ON, snd k1)]"
    using perfScnEnable_requests [OF chk] k1 i by (simp add: requests_def)
  have r2: "requests ?s2 = (requests st)[i := (STATE_OFF, snd k1)]"
    using perfScnDisable_requests [of ?s1 "int i"] chk r1 i by (simp add: requests_def)
  obtain k3 where k3: "fst k3 = STATE_OFF" "requests ?s3 = (requests ?s2)[i := k3]"
    using resetScenario_requests(1) [of i ?s2] i len by auto
  have on: "scn_state (ptScnList ?s1 ! i) = STATE_ON"
    using arg_cong [OF r1, of "\<lambda>l. fst (l ! i)"] i len by (simp add: requests_def scn_key_def)
  have off2: "scn_state (ptScnList ?s2 ! i) = STATE_OFF"
    using arg_cong [OF r2, of "\<lambda>l. fst (l ! i)"] i len by (simp add: requests_def scn_key_def)
  have hdl: "findHandleToIndex ?s1 h = int i"
    using findHandle_cong [OF perfScnEnable_ids] findHandle_cong [OF k(2)] ok by (simp add: can_acquire_def)
  have "checkSuccess ?s1 (int i)" using chk by simp
  then have lib1: "nPowerLibEnable ?s1 \<noteq> 0" unfolding checkSuccess_def by blast
  have "perfLockRel env ?s1 h = Some (0, ?s3)"
    using k(3) hdl lib1 i off2 by (simp add: perfLockRel_def ready_fun Let_def)
  moreover have "active ?s3 = active st"
    using i off k3 r2 by (intro active_off_update [of i st k3]) (simp_all add: requests_def scn_key_def)
  moreover have "same_config st ?s3"
    by (meson k(1) perfScnDisable_config perfScnEnable_config resetScenario_keeps(1) same_config_trans same_tables_config)
  moreover have "arb_inv ?s3"
    using service_inv_release [OF k(6)] i len by (simp add: service_inv_def)
  moreover have "nIsReady ?s1" using k(3) by simp
  ultimately show ?thesis
    using inv acq_idle_result [OF ok rdy off, of p t d hint] on settings_active [of st ?s3]
      resetScenario_requests(2) [of i ?s2] i len by (auto simp: service_inv_def)
qed

text \<open>
  C4. Releasing undoes acquiring. For a registered handle that is idle, an acquire returns the
  handle and turns its scenario on; the release of the same handle then returns 0, gives the
  slot back, and every managed node and resource has the value and priority it had before the
  acquire, whatever list was passed and whatever the other users hold.
\<close>

theorem lock_acquire_release:
  assumes inv: "service_inv st" and ok: "can_acquire env st l h i" and off: "scn_state (ptScnList st ! i) \<noteq> STATE_ON"
  shows "\<exists>st1 st2. perfLockAcq env st l h p t d hint = Some (h, st1) \<and> scn_state (ptScnList st1 ! i) = STATE_ON \<and>
    perfLockRel env st1 h = Some (0, st2) \<and> scn_type (ptScnList st2 ! i) = -1 \<and> settings st2 = settings st"
  using acquire_release [OF assms] by blast

section \<open>A small service\<close>

definition demo_lock_env :: lock_env where
  "demo_lock_env = \<lparr>access_w = (\<lambda>_. True), node_int = (\<lambda>_. 0), con_xml = None, scn_xml = None,
     crypto_state = ''unencrypted'', crypto_type = '''', vold_decrypt = '''', data_access = True,
     scn_alloc_ok = True, rsc_alloc_ok = True, topo_ok = True, prop_init = ''0'', prop_enable = ''1'', mbrain_ok = False,
     cmd_garbage = '''', proc_exists = (\<lambda>p. p = 100), task_comm = (\<lambda>_. ''app''),
     now_time = Some (''2025-01-01 00:00:00'', 1735689600123), malloc_ok = True, heap_ints = (\<lambda>_. 0), past_end = 0\<rparr>"

text \<open>The demonstration state with distinct handles and slot 1 registered but idle.\<close>

definition demo_service :: perf where
  "demo_service = demo_on_off\<lparr>ptScnList := [(demo_scn STATE_ON 3 40 3)\<lparr>handle_idx := 1\<rparr>,
     (demo_scn STATE_OFF 3 101 (-1))\<lparr>handle_idx := 2\<rparr>], user_handle_now := 2\<rparr>"

lemmas service_inv_defs = service_inv_def bounds_ok_def con_bounds_def rsc_bounds_def slot_ok_def arb_inv_defs

lemma demo_service_inv: "service_inv demo_service"
  by (simp add: service_inv_defs demo_service_def demo_defs less_Suc_eq)

theorem lock_acquire_release_witness:
  "\<exists>st1 st2. perfLockAcq demo_lock_env demo_service [7, 20, 8, 9] 2 100 101 0 (-1) = Some (2, st1) \<and>
    scn_state (ptScnList st1 ! 1) = STATE_ON \<and> perfLockRel demo_lock_env st1 2 = Some (0, st2) \<and>
    scn_type (ptScnList st2 ! 1) = -1 \<and> settings st2 = ([Some (40, 3)], [Some (3, 3), None])"
proof -
  have "can_acquire demo_lock_env demo_service [7, 20, 8, 9] 2 1"
    by (simp add: can_acquire_def demo_lock_env_def demo_service_def demo_defs findHandleToIndex_def is_user_scn_def)
  moreover have "scn_state (ptScnList demo_service ! 1) \<noteq> STATE_ON" by (simp add: demo_service_def demo_defs)
  moreover have "settings demo_service = ([Some (40, 3)], [Some (3, 3), None])" by code_simp
  ultimately show ?thesis using lock_acquire_release [OF demo_service_inv] by metis
qed

section \<open>Every reachable state\<close>


definition demo_boot :: perf where
  "demo_boot = demo_on_off\<lparr>nIsReady := False, ptScnList := [], tConTable := [], gRscCtlTbl := []\<rparr>"

lemma demo_boot_ok: "boot_ok demo_boot" "\<not> nIsReady demo_boot"
  by (simp_all add: boot_ok_def demo_boot_def demo_defs rsc_cfg_ok_def rsc_has_funcs_def)

lemma demo_boot_runs:
  "\<exists>st. run_call demo_lock_env C_restore_all demo_boot = Some (0, st) \<and> nIsReady st"
  by (simp add: perfUserScnRestoreAll_def when_ready_def ready_def init_def init_tables_def loadConTable_def
      updateCusScnTable_def check_vendor_partition_def demo_lock_env_def load_env.defs demo_boot_def demo_defs
      setInteractive_def init_done_def Let_def)

lemma demo_call_ok: "call_ok demo_lock_env C_restore_all demo_boot"
  by (simp add: call_ok_def env_ok_def demo_lock_env_def)


text \<open>
  C8. Initialisation: a service that is not ready either stays so with its tables in a state from
  which initialisation can be tried again (return value 0), or becomes ready (return value 1)
  with the invariant established, 256 free slots that are off, and the three client interfaces
  disabled until boot has completed.
\<close>

theorem init_establishes:
  assumes "init env st = Some (r, st')" and "env_ok env" and "boot_ok st" and "\<not> nIsReady st"
  shows "if nIsReady st' then r = 1 \<and> service_inv st' \<and> (\<forall>s \<in> set (ptScnList st'). fresh_node st' s) \<and>
      length (ptScnList st') = REG_SCN_MAX \<and> powerhalAPI_status st' = [0, 0, 0] else r = 0 \<and> boot_ok st'"
  using assms by (rule init_inv)

theorem init_establishes_witness:
  "\<exists>st. init (load_env.truncate demo_lock_env) demo_boot = Some (1, st) \<and> service_inv st \<and>
     powerhalAPI_status st = [0, 0, 0]"
proof -
  obtain st where st: "init (load_env.truncate demo_lock_env) demo_boot = Some (1, st)" "nIsReady st"
    by (simp add: init_def init_tables_def loadConTable_def updateCusScnTable_def check_vendor_partition_def
        demo_lock_env_def load_env.defs demo_boot_def demo_defs init_done_def Let_def)
  have "env_ok (load_env.truncate demo_lock_env)" by (simp add: env_ok_def demo_lock_env_def load_env.defs)
  from init_establishes [OF st(1) this demo_boot_ok] st show ?thesis by simp
qed

end
