(* ===== verification/Cpu_Freq.thy ===== *)
theory Cpu_Freq
  imports Con_Load
begin

text \<open>
  CPU frequency and core control (\<^verbatim>\<open>perfservice.cpp\<close>, \<^verbatim>\<open>rsc_util/utility_sys.cpp\<close>): the
  set functions of the \<open>PERF_RES_CPUFREQ_*\<close> and \<open>PERF_RES_CPUCORE_*\<close> resources store the
  arbitrated value in the cluster or core table and combine soft cluster limits, soft core
  limits and hard limits into one command for the kernel.

  The globals of the source that these functions use are the record \<open>cpu\<close>; the resource
  control table, read for the name of the current setter, is an argument. What the functions
  write to kernel nodes and send to the core-control device is appended to \<open>out\<close>.
  \<open>setCPUFreq\<close> appends to a local buffer it never initialised: the text found there is the
  argument \<open>str0\<close> of the environment.
\<close>

section \<open>Data\<close>

abbreviation (input) CLUSTER_MAX :: int where "CLUSTER_MAX \<equiv> 8"
abbreviation (input) CPU_CORE_MAX :: int where "CPU_CORE_MAX \<equiv> 8"
abbreviation (input) PPM_IGNORE :: int where "PPM_IGNORE \<equiv> -1"
abbreviation (input) RSC_IDX_DIFF :: int where "RSC_IDX_DIFF \<equiv> 0x100"

record tDrvInfo =
  perfmgrLegacy :: bool
  perfmgrCpu :: bool
  ppmSupport :: bool
  ppmAll :: bool
  acao :: bool
  hmp :: bool
  sysfs :: bool
  dvfs :: bool
  turbo :: bool
  hard_user_limit :: bool
  proc_powerhal_cpu_ctrl :: bool

record cpufreq =
  f_min :: int
  rscTblMinIdx :: nat
  curMinFreqSetter :: int
  curMinFreqSetterName :: string
  curMinFreqSetterHint :: int
  f_max :: int
  rscTblMaxIdx :: nat
  curMaxFreqSetter :: int
  curMaxFreqSetterName :: string
  curMaxFreqSetterHint :: int

record tCoreInfo =
  byCore :: bool
  policy :: int
  cluster :: nat
  core_freqMinNow :: int
  core_freqMaxNow :: int

record tClusterInfo =
  cpuNum :: int
  cpuFirstIndex :: int
  cpuMinNow :: int
  cpuMaxNow :: int
  pFreqTbl :: "int list"
  freqCount :: int
  freqMin :: int
  freqMax :: int
  freqMinNow :: int
  freqMaxNow :: int
  freqHardMinNow :: int
  freqHardMaxNow :: int
  sysfsMinPath :: string
  sysfsMaxPath :: string

datatype cpu_out =
    Write string string              \<comment> \<open>\<open>set_value(path, text)\<close>\<close>
  | Core_ctl nat int int             \<comment> \<open>\<open>ioctl(CORE_CTL_SET_LIMIT_CPUS)\<close>: cluster, min, max\<close>
  | Write_fail                       \<comment> \<open>\<open>notifyWriteFail()\<close>\<close>
  | Freq_cap bool nat int int        \<comment> \<open>\<open>notifyMbrainCap\<close> pair: hard?, cluster, min, max\<close>

record cpu =
  nClusterNum :: int
  nCpuNum :: int
  CpuFreqReady :: bool
  gtDrvInfo :: tDrvInfo
  ptClusterTbl :: "tClusterInfo list"
  ptCoreTbl :: "tCoreInfo list"
  soft_freq :: "cpufreq list"
  hard_freq :: "cpufreq list"
  soft_core_freq :: "cpufreq list"
  freq_to_set :: "cpufreq list"
  default_core_min :: "int list"
  cpufreqNeedUpdate :: bool
  cpufreqHardNeedUpdate :: bool
  core_ctl_dev_fd :: int
  scn_cores_now :: int
  out :: "cpu_out list"

record cpu_env =
  rsc_tbl :: "tRscCtlEntry list"         \<comment> \<open>\<open>gRscCtlTbl\<close>\<close>
  str0 :: string                         \<comment> \<open>what the stack holds where \<open>str\<close> is placed\<close>
  write_ok :: "string \<Rightarrow> string \<Rightarrow> bool" \<comment> \<open>does \<open>set_value\<close> return a count\<close>
  core_ctl_open :: int                   \<comment> \<open>result of \<open>open(PATH_CORE_CTL_IOCTL)\<close>\<close>
  core_ctl_missing :: bool               \<comment> \<open>\<open>errno == ENOENT\<close> after that call\<close>

abbreviation emit :: "cpu_out \<Rightarrow> cpu \<Rightarrow> cpu" where
  "emit o1 st \<equiv> st\<lparr>out := out st @ [o1]\<rparr>"

abbreviation (input) PATH_PROC_CPU_CTRL :: string where "PATH_PROC_CPU_CTRL \<equiv> ''/proc/powerhal_cpu_ctrl/perfserv_freq''"
abbreviation (input) PATH_HARD_USER_LIMIT :: string where "PATH_HARD_USER_LIMIT \<equiv> ''/proc/ppm/policy/hard_userlimit_cpu_freq''"
abbreviation (input) PATH_BOOST_CORE_CTRL :: string where "PATH_BOOST_CORE_CTRL \<equiv> ''/proc/perfmgr/boost_ctrl/cpu_ctrl/perfserv_core''"
abbreviation (input) PATH_PERFMGR_CORE_CTRL :: string where "PATH_PERFMGR_CORE_CTRL \<equiv> ''/proc/perfmgr/legacy/perfserv_core''"
abbreviation (input) PATH_PPM_CORE_CTRL :: string where "PATH_PPM_CORE_CTRL \<equiv> ''/proc/ppm/policy/userlimit_cpu_core''"
abbreviation (input) PATH_PPM_CORE_BASE :: string where "PATH_PPM_CORE_BASE \<equiv> ''/proc/ppm/policy/userlimit_min_cpu_core''"
abbreviation (input) PATH_PPM_CORE_LIMIT :: string where "PATH_PPM_CORE_LIMIT \<equiv> ''/proc/ppm/policy/userlimit_max_cpu_core''"

section \<open>Initial limits and the link to the resource table\<close>

definition no_setter :: "cpufreq \<Rightarrow> cpufreq" where
  "no_setter f = f\<lparr>curMinFreqSetter := -1, curMaxFreqSetter := -1,
     curMinFreqSetterName := ''-1'', curMaxFreqSetterName := ''-1'',
     curMinFreqSetterHint := -1, curMaxFreqSetterHint := -1\<rparr>"

definition init_core :: "nat \<Rightarrow> cpu \<Rightarrow> cpu" where
  "init_core i st =
     (let top = freqMax (ptClusterTbl st ! cluster (ptCoreTbl st ! i)) in
      st\<lparr>soft_core_freq := (soft_core_freq st)[i := no_setter ((soft_core_freq st ! i)\<lparr>f_min := 0, f_max := top\<rparr>)],
         freq_to_set := (freq_to_set st)[i := no_setter (freq_to_set st ! i)]\<rparr>)"

definition init_cluster :: "nat \<Rightarrow> cpu \<Rightarrow> cpu" where
  "init_cluster i st =
     (let top = freqMax (ptClusterTbl st ! i) in
      st\<lparr>soft_freq := (soft_freq st)[i := no_setter ((soft_freq st ! i)\<lparr>f_min := 0, f_max := top\<rparr>)],
         hard_freq := (hard_freq st)[i := no_setter ((hard_freq st ! i)\<lparr>f_min := 0, f_max := top\<rparr>)]\<rparr>)"

definition initCPUFreqInfo :: "cpu \<Rightarrow> cpu" where
  "initCPUFreqInfo st =
     fold init_cluster [0..<nat (nClusterNum st)] (fold init_core [0..<nat (nCpuNum st)] st)"

abbreviation (input) PERF_RES_CPUFREQ_MIN_CLUSTER_0 :: int where "PERF_RES_CPUFREQ_MIN_CLUSTER_0 \<equiv> 0x00400000"
abbreviation (input) PERF_RES_CPUFREQ_MAX_CLUSTER_0 :: int where "PERF_RES_CPUFREQ_MAX_CLUSTER_0 \<equiv> 0x00404000"
abbreviation (input) PERF_RES_CPUFREQ_MIN_HL_CLUSTER_0 :: int where "PERF_RES_CPUFREQ_MIN_HL_CLUSTER_0 \<equiv> 0x00408000"
abbreviation (input) PERF_RES_CPUFREQ_MAX_HL_CLUSTER_0 :: int where "PERF_RES_CPUFREQ_MAX_HL_CLUSTER_0 \<equiv> 0x0040c000"
abbreviation (input) PERF_RES_CPUFREQ_MIN_CORE_0 :: int where "PERF_RES_CPUFREQ_MIN_CORE_0 \<equiv> 0x00418000"
abbreviation (input) PERF_RES_CPUFREQ_MAX_CORE_0 :: int where "PERF_RES_CPUFREQ_MAX_CORE_0 \<equiv> 0x0041c000"

abbreviation upd :: "nat \<Rightarrow> ('a \<Rightarrow> 'a) \<Rightarrow> 'a list \<Rightarrow> 'a list" where
  "upd i f xs \<equiv> xs[i := f (xs ! i)]"

definition setCPUFreqRsc :: "tRscConfig list \<Rightarrow> int \<Rightarrow> cpu \<Rightarrow> cpu" where
  "setCPUFreqRsc tbl idx st =
     (if idx < 0 \<or> idx \<ge> int (length tbl) then st else
      let id = cmdID (tbl ! nat idx);
          slot = (\<lambda>base. c_div (id - base) RSC_IDX_DIFF);
          clusterMinIdx = slot PERF_RES_CPUFREQ_MIN_CLUSTER_0;
          clusterMaxIdx = slot PERF_RES_CPUFREQ_MAX_CLUSTER_0;
          clusterHLMinIdx = slot PERF_RES_CPUFREQ_MIN_HL_CLUSTER_0;
          clusterHLMaxIdx = slot PERF_RES_CPUFREQ_MAX_HL_CLUSTER_0;
          cpuMinIdx = slot PERF_RES_CPUFREQ_MIN_CORE_0;
          cpuMaxIdx = slot PERF_RES_CPUFREQ_MAX_CORE_0
      in if clusterMinIdx \<ge> 0 \<and> clusterMinIdx < nClusterNum st then
           st\<lparr>soft_freq := upd (nat clusterMinIdx) (\<lambda>f. f\<lparr>rscTblMinIdx := nat idx\<rparr>) (soft_freq st)\<rparr>
         else if clusterMaxIdx \<ge> 0 \<and> clusterMaxIdx < nClusterNum st then
           st\<lparr>soft_freq := upd (nat clusterMaxIdx) (\<lambda>f. f\<lparr>rscTblMaxIdx := nat idx\<rparr>) (soft_freq st)\<rparr>
         else if clusterHLMinIdx \<ge> 0 \<and> clusterHLMinIdx < nClusterNum st then
           st\<lparr>hard_freq := upd (nat clusterHLMinIdx) (\<lambda>f. f\<lparr>rscTblMinIdx := nat idx\<rparr>) (hard_freq st)\<rparr>
         else if clusterHLMaxIdx \<ge> 0 \<and> clusterHLMaxIdx < nClusterNum st then
           st\<lparr>hard_freq := upd (nat clusterHLMaxIdx) (\<lambda>f. f\<lparr>rscTblMaxIdx := nat idx\<rparr>) (hard_freq st)\<rparr>
         else if cpuMinIdx \<ge> 0 \<and> cpuMinIdx < nCpuNum st then
           st\<lparr>soft_core_freq := upd (nat cpuMinIdx) (\<lambda>f. f\<lparr>rscTblMinIdx := nat idx\<rparr>) (soft_core_freq st)\<rparr>
         else if cpuMaxIdx \<ge> 0 \<and> cpuMaxIdx < nCpuNum st then
           st\<lparr>soft_core_freq := upd (nat cpuMaxIdx) (\<lambda>f. f\<lparr>rscTblMaxIdx := nat idx\<rparr>) (soft_core_freq st)\<rparr>
         else st)"

section \<open>Combining the limits\<close>

text \<open>A frequency with the setter it is attributed to.\<close>

record limit =
  l_freq :: int
  l_setter :: int
  l_name :: string
  l_hint :: int

definition min_limit :: "cpufreq \<Rightarrow> limit" where
  "min_limit f = \<lparr>l_freq = f_min f, l_setter = curMinFreqSetter f,
     l_name = curMinFreqSetterName f, l_hint = curMinFreqSetterHint f\<rparr>"

definition max_limit :: "cpufreq \<Rightarrow> limit" where
  "max_limit f = \<lparr>l_freq = f_max f, l_setter = curMaxFreqSetter f,
     l_name = curMaxFreqSetterName f, l_hint = curMaxFreqSetterHint f\<rparr>"

definition put_limits :: "limit \<Rightarrow> limit \<Rightarrow> cpufreq \<Rightarrow> cpufreq" where
  "put_limits lo hi f = f\<lparr>f_min := l_freq lo, curMinFreqSetter := l_setter lo,
     curMinFreqSetterName := l_name lo, curMinFreqSetterHint := l_hint lo,
     f_max := l_freq hi, curMaxFreqSetter := l_setter hi,
     curMaxFreqSetterName := l_name hi, curMaxFreqSetterHint := l_hint hi\<rparr>"

definition rsc_limit :: "tRscCtlEntry list \<Rightarrow> nat \<Rightarrow> int \<Rightarrow> limit" where
  "rsc_limit tbl i freq = \<lparr>l_freq = freq, l_setter = r_curSetter (tbl ! i),
     l_name = r_curSetterName (tbl ! i), l_hint = r_curSetterHint (tbl ! i)\<rparr>"

text \<open>If the ceiling is below the floor, it is aligned with the floor, setter included.\<close>

definition align_ceiling :: "limit \<Rightarrow> limit \<Rightarrow> limit" where
  "align_ceiling lo hi = (if l_freq hi < l_freq lo then lo else hi)"

definition refresh :: "tRscCtlEntry list \<Rightarrow> int \<Rightarrow> int \<Rightarrow> cpufreq \<Rightarrow> cpufreq" where
  "refresh tbl lo hi f =
     (let l = rsc_limit tbl (rscTblMinIdx f) lo;
          h = rsc_limit tbl (rscTblMaxIdx f) hi
      in put_limits l (align_ceiling l h) f)"

definition updateCPUFreqInfo :: "cpu_env \<Rightarrow> int \<Rightarrow> int \<Rightarrow> cpu \<Rightarrow> cpu" where
  "updateCPUFreqInfo env cl cp st =
     (if cl < 0 \<or> cp < 0 \<or> cl \<ge> CLUSTER_MAX \<or> cp \<ge> CPU_CORE_MAX then st else
      let c = ptClusterTbl st ! nat cl; k = ptCoreTbl st ! nat cp in
      st\<lparr>soft_core_freq := upd (nat cp)
        (refresh (rsc_tbl env) (core_freqMinNow k)
          (if core_freqMaxNow k \<ge> freqMax c then freqMax c else core_freqMaxNow k))
        (soft_core_freq st)\<rparr>)"

definition updateClusterFreqInfo :: "cpu_env \<Rightarrow> int \<Rightarrow> cpu \<Rightarrow> cpu" where
  "updateClusterFreqInfo env cl st =
     (if cl < 0 \<or> cl \<ge> CLUSTER_MAX then st else
      let c = ptClusterTbl st ! nat cl;
          cap = (\<lambda>x. if x \<ge> freqMax c then freqMax c else x) in
      st\<lparr>soft_freq := upd (nat cl)
           (refresh (rsc_tbl env) (cap (freqMinNow c)) (cap (freqMaxNow c))) (soft_freq st),
         hard_freq := upd (nat cl)
           (refresh (rsc_tbl env) (cap (freqHardMinNow c)) (cap (freqHardMaxNow c))) (hard_freq st)\<rparr>)"

definition updateCPUSettingInfo :: "int \<Rightarrow> int \<Rightarrow> limit \<Rightarrow> limit \<Rightarrow> cpu \<Rightarrow> cpu" where
  "updateCPUSettingInfo cl cp lo hi st =
     (if cl < 0 \<or> cp < 0 \<or> cl \<ge> CLUSTER_MAX \<or> cp \<ge> CPU_CORE_MAX then st else
      let c = ptClusterTbl st ! nat cl;
          final_min_freq = (if l_freq lo \<le> freqMin c then PPM_IGNORE else l_freq lo);
          final_max_freq = (if l_freq hi \<le> 0 \<or> freqMax c \<le> l_freq hi then PPM_IGNORE else l_freq hi)
      in st\<lparr>freq_to_set := upd (nat cp)
           (put_limits (lo\<lparr>l_freq := final_min_freq\<rparr>) (hi\<lparr>l_freq := final_max_freq\<rparr>))
           (freq_to_set st)\<rparr>)"

section \<open>setCPUFreq\<close>

definition clampFreq :: "tClusterInfo \<Rightarrow> int \<Rightarrow> int" where
  "clampFreq c x = (if x \<le> freqMin c then freqMin c else if x \<ge> freqMax c then freqMax c else x)"

text \<open>The two loops over the CPUs of a cluster; the second keeps the setter's name.\<close>

fun floor_scan :: "cpufreq list \<Rightarrow> tClusterInfo \<Rightarrow> nat list \<Rightarrow> limit \<Rightarrow> limit" where
  "floor_scan sc c [] l = l"
| "floor_scan sc c (i # is) l =
     (let clusterCPU = cpuFirstIndex c + int i in
      if clusterCPU < 0 \<or> clusterCPU \<ge> CPU_CORE_MAX then l else
      let s = sc ! nat clusterCPU; clusterCPUFreq = clampFreq c (f_min s) in
      if clusterCPUFreq < 0 then l else
      floor_scan sc c is
        (if clusterCPUFreq > l_freq l then (min_limit s)\<lparr>l_freq := clusterCPUFreq\<rparr> else l))"

fun ceiling_scan :: "cpufreq list \<Rightarrow> tClusterInfo \<Rightarrow> nat list \<Rightarrow> limit \<Rightarrow> limit" where
  "ceiling_scan sc c [] l = l"
| "ceiling_scan sc c (i # is) l =
     (let maxClusterCPU = cpuFirstIndex c + int i in
      if maxClusterCPU < 0 \<or> maxClusterCPU \<ge> CPU_CORE_MAX then l else
      let s = sc ! nat maxClusterCPU; maxClusterCPUFreq = clampFreq c (f_max s) in
      if maxClusterCPUFreq < 0 then l else
      ceiling_scan sc c is
        (if maxClusterCPUFreq < l_freq l
         then l\<lparr>l_freq := maxClusterCPUFreq, l_setter := curMaxFreqSetter s,
                l_hint := curMaxFreqSetterHint s\<rparr>
         else l))"

definition soft_floor :: "cpu \<Rightarrow> nat \<Rightarrow> nat \<Rightarrow> limit" where
  "soft_floor st cl cp =
     (let c = ptClusterTbl st ! cl; s = soft_core_freq st ! cp; g = soft_freq st ! cl;
          cpuFreq = (min_limit s)\<lparr>l_freq := clampFreq c (f_min s)\<rparr>;
          cluseterFreq = (min_limit g)\<lparr>l_freq := clampFreq c (f_min g)\<rparr>;
          cpuFreq1 = (if \<not> byCore (ptCoreTbl st ! cp)
                      then floor_scan (soft_core_freq st) c [0..<nat (cpuNum c)] cpuFreq else cpuFreq)
      in if l_freq cpuFreq1 > l_freq cluseterFreq then cpuFreq1 else cluseterFreq)"

definition soft_ceiling :: "cpu \<Rightarrow> nat \<Rightarrow> nat \<Rightarrow> limit" where
  "soft_ceiling st cl cp =
     (let c = ptClusterTbl st ! cl; s = soft_core_freq st ! cp; g = soft_freq st ! cl;
          maxCPUFreq = (max_limit s)\<lparr>l_freq := (if f_max s \<le> 0 then freqMax c else clampFreq c (f_max s))\<rparr>;
          maxClusterFreq = (max_limit g)\<lparr>l_freq := (if f_max g \<le> 0 then freqMax c else clampFreq c (f_max g))\<rparr>;
          maxCPUFreq1 = (if \<not> byCore (ptCoreTbl st ! cp)
                         then ceiling_scan (soft_core_freq st) c [0..<nat (cpuNum c)] maxCPUFreq else maxCPUFreq)
      in if l_freq maxCPUFreq1 < l_freq maxClusterFreq then maxCPUFreq1 else maxClusterFreq)"

text \<open>The comparison with the hard limits (\<open>HARDLIMIT_ENABLED\<close> is 1).\<close>

definition hard_floor :: "cpufreq \<Rightarrow> limit \<Rightarrow> limit" where
  "hard_floor h l =
     (let l1 = (if l_freq l < f_min h then min_limit h else l)
      in if l_freq l1 > f_max h then max_limit h else l1)"

definition hard_ceiling :: "cpufreq \<Rightarrow> limit \<Rightarrow> limit" where
  "hard_ceiling h l =
     (let l1 = (if l_freq l > f_max h then max_limit h else l)
      in if l_freq l1 < f_min h then min_limit h else l1)"

definition cpu_limits :: "cpu \<Rightarrow> nat \<Rightarrow> nat \<Rightarrow> limit \<times> limit" where
  "cpu_limits st cl cp =
     (let lo = soft_floor st cl cp; hi = align_ceiling lo (soft_ceiling st cl cp)
      in (hard_floor (hard_freq st ! cl) lo, hard_ceiling (hard_freq st ! cl) hi))"

definition cpu_ctrl_text :: "string \<Rightarrow> int \<Rightarrow> int \<Rightarrow> int \<Rightarrow> string" where
  "cpu_ctrl_text str cp lo hi =
     butlast (str @ snprintf_s 32 (show_int cp @ '' '' @ show_int lo @ '' '' @ show_int hi @ '' ''))"

definition setCPUFreq :: "cpu_env \<Rightarrow> int \<Rightarrow> int \<Rightarrow> cpu \<Rightarrow> cpu" where
  "setCPUFreq env cl cp st =
     (if cl < 0 \<or> cp < 0 \<or> cl \<ge> CLUSTER_MAX \<or> cp \<ge> CPU_CORE_MAX then st
      else if \<not> proc_powerhal_cpu_ctrl (gtDrvInfo st) then st
      else
       let st1 = (if byCore (ptCoreTbl st ! nat cp) then updateCPUFreqInfo env cl cp st else st);
           (lo, hi) = cpu_limits st1 (nat cl) (nat cp);
           cp1 = (if \<not> byCore (ptCoreTbl st1 ! nat cp) then cpuFirstIndex (ptClusterTbl st1 ! nat cl) else cp);
           st2 = updateCPUSettingInfo cl cp1 lo hi st1;
           str = cpu_ctrl_text (str0 env) cp1 (l_freq lo) (l_freq hi);
           st3 = emit (Write PATH_PROC_CPU_CTRL str) st2
       in if write_ok env PATH_PROC_CPU_CTRL str then st3 else emit Write_fail st3)"

section \<open>setClusterFreq and the set functions\<close>

text \<open>The loop stops after the first CPU of a cluster that is set as a whole.\<close>

fun set_cluster_loop :: "cpu_env \<Rightarrow> int \<Rightarrow> nat list \<Rightarrow> cpu \<Rightarrow> cpu" where
  "set_cluster_loop env cl [] st = st"
| "set_cluster_loop env cl (i # is) st =
     (let cp = cpuFirstIndex (ptClusterTbl st ! nat cl) + int i;
          st1 = setCPUFreq env cl cp st
      in if \<not> byCore (ptCoreTbl st1 ! nat cp) then st1 else set_cluster_loop env cl is st1)"

definition setClusterFreq :: "cpu_env \<Rightarrow> int \<Rightarrow> cpu \<Rightarrow> cpu" where
  "setClusterFreq env cl st =
     (if cl \<ge> nClusterNum st then st
      else set_cluster_loop env cl [0..<nat (cpuNum (ptClusterTbl st ! nat cl))]
             (updateClusterFreqInfo env cl st))"

definition hard_limit_text :: "cpu \<Rightarrow> string" where
  "hard_limit_text st = butlast (concat (map (\<lambda>c.
     let freqToSet = (if freqHardMinNow c \<le> 0 then PPM_IGNORE else freqHardMinNow c);
         maxToSet = (if freqHardMaxNow c \<le> 0 \<or> freqHardMaxNow c \<ge> freqMax c then PPM_IGNORE else freqHardMaxNow c)
     in snprintf_s 32 (show_int freqToSet @ '' '' @ show_int maxToSet @ '' ''))
     (take (nat (nClusterNum st)) (ptClusterTbl st))))"

definition setClusterHardFreq :: "cpu_env \<Rightarrow> int \<Rightarrow> cpu \<Rightarrow> cpu" where
  "setClusterHardFreq env cl st =
     (if hard_user_limit (gtDrvInfo st) then emit (Write PATH_HARD_USER_LIMIT (hard_limit_text st)) st
      else setClusterFreq env cl st)"

abbreviation upd_cluster :: "nat \<Rightarrow> (tClusterInfo \<Rightarrow> tClusterInfo) \<Rightarrow> cpu \<Rightarrow> cpu" where
  "upd_cluster i f st \<equiv> st\<lparr>ptClusterTbl := upd i f (ptClusterTbl st)\<rparr>"

abbreviation upd_core :: "nat \<Rightarrow> (tCoreInfo \<Rightarrow> tCoreInfo) \<Rightarrow> cpu \<Rightarrow> cpu" where
  "upd_core i f st \<equiv> st\<lparr>ptCoreTbl := upd i f (ptCoreTbl st)\<rparr>"

definition setCPUFreqMinCluster :: "cpu_env \<Rightarrow> nat \<Rightarrow> int \<Rightarrow> cpu \<Rightarrow> cpu" where
  "setCPUFreqMinCluster env cl freq st0 =
     (let st = st0\<lparr>cpufreqNeedUpdate := True\<rparr> in
      if CpuFreqReady st \<and> int cl < nClusterNum st then
        setClusterFreq env (int cl)
          (upd_cluster cl (\<lambda>c. c\<lparr>freqMinNow := (if freq = -1 then 0 else freq)\<rparr>) st)
      else st)"

definition setCPUFreqMaxCluster :: "cpu_env \<Rightarrow> nat \<Rightarrow> int \<Rightarrow> cpu \<Rightarrow> cpu" where
  "setCPUFreqMaxCluster env cl freq st0 =
     (let st = st0\<lparr>cpufreqNeedUpdate := True\<rparr> in
      if CpuFreqReady st \<and> int cl < nClusterNum st then
        setClusterFreq env (int cl)
          (upd_cluster cl (\<lambda>c. c\<lparr>freqMaxNow := (if freq = -1 then freqMax c else freq)\<rparr>) st)
      else st)"

definition setCPUFreqHardMinCluster :: "cpu_env \<Rightarrow> nat \<Rightarrow> int \<Rightarrow> cpu \<Rightarrow> cpu" where
  "setCPUFreqHardMinCluster env cl freq st0 =
     (let st = st0\<lparr>cpufreqHardNeedUpdate := True\<rparr> in
      if CpuFreqReady st \<and> int cl < nClusterNum st then
        setClusterHardFreq env (int cl)
          (upd_cluster cl (\<lambda>c. c\<lparr>freqHardMinNow := (if freq = -1 then 0 else freq)\<rparr>) st)
      else st)"

definition setCPUFreqHardMaxCluster :: "cpu_env \<Rightarrow> nat \<Rightarrow> int \<Rightarrow> cpu \<Rightarrow> cpu" where
  "setCPUFreqHardMaxCluster env cl freq st0 =
     (let st = st0\<lparr>cpufreqHardNeedUpdate := True\<rparr> in
      if CpuFreqReady st \<and> int cl < nClusterNum st then
        setClusterHardFreq env (int cl)
          (upd_cluster cl (\<lambda>c. c\<lparr>freqHardMaxNow := (if freq = -1 then freqMax c else freq)\<rparr>) st)
      else st)"

definition setCPUFreqMinCore :: "cpu_env \<Rightarrow> nat \<Rightarrow> int \<Rightarrow> cpu \<Rightarrow> cpu" where
  "setCPUFreqMinCore env core freq st0 =
     (let st = st0\<lparr>cpufreqNeedUpdate := True\<rparr> in
      if CpuFreqReady st \<and> int core < nCpuNum st then
        setCPUFreq env (int (cluster (ptCoreTbl st ! core))) (int core)
          (upd_core core (\<lambda>k. k\<lparr>core_freqMinNow := (if freq = -1 then 0 else freq)\<rparr>) st)
      else st)"

definition setCPUFreqMaxCore :: "cpu_env \<Rightarrow> nat \<Rightarrow> int \<Rightarrow> cpu \<Rightarrow> cpu" where
  "setCPUFreqMaxCore env core freq st0 =
     (let st = st0\<lparr>cpufreqNeedUpdate := True\<rparr> in
      if CpuFreqReady st \<and> int core < nCpuNum st then
        setCPUFreq env (int (cluster (ptCoreTbl st ! core))) (int core)
          (upd_core core (\<lambda>k. k\<lparr>core_freqMaxNow :=
             (if freq = -1 then freqMax (ptClusterTbl st ! cluster k) else freq)\<rparr>) st)
      else st)"

text \<open>
  \<open>recordCPUFreqInfo\<close> prints the limits in force and reports the requests of every cluster
  to the brain service, then forgets that something changed.
\<close>

definition notifyCap :: "bool \<Rightarrow> int \<Rightarrow> cpu \<Rightarrow> cpu_out list" where
  "notifyCap hard isMbrain st =
     (if isMbrain = 0 then [] else
      map (\<lambda>i. let c = ptClusterTbl st ! i in
        Freq_cap hard i (if hard then freqHardMinNow c else freqMinNow c)
                        (if hard then freqHardMaxNow c else freqMaxNow c))
      [0..<nat (nClusterNum st)])"

definition recordCPUFreqInfo :: "int \<Rightarrow> cpu \<Rightarrow> cpu" where
  "recordCPUFreqInfo isMbrain st =
     (if cpufreqNeedUpdate st \<or> cpufreqHardNeedUpdate st then
        st\<lparr>out := out st @ notifyCap (\<not> cpufreqNeedUpdate st) isMbrain st,
           cpufreqNeedUpdate := False, cpufreqHardNeedUpdate := False\<rparr>
      else st)"

section \<open>Core control\<close>

definition check_core_ctl_ioctl :: "cpu_env \<Rightarrow> cpu \<Rightarrow> int \<times> cpu" where
  "check_core_ctl_ioctl env st =
     (if core_ctl_dev_fd st \<ge> 0 then (0, st)
      else if core_ctl_dev_fd st = -1 then
        let fd = core_ctl_open env;
            fd1 = (if fd < 0 \<and> core_ctl_missing env then -2 else fd);
            st1 = st\<lparr>core_ctl_dev_fd := fd1\<rparr>
        in if fd1 = -1 then (-1, st1) else (0, st1)
      else if core_ctl_dev_fd st = -2 then (-2, st)
      else (0, st))"

text \<open>The pair \<open>coreToSet\<close>, \<open>maxToSet\<close> of a cluster; \<open>low\<close> is 1 on the legacy paths, 0 on the last.\<close>

definition core_pair :: "int \<Rightarrow> tClusterInfo \<Rightarrow> int \<Rightarrow> int \<Rightarrow> int \<times> int" where
  "core_pair low c mn mx =
     ((if mn < low \<or> mn > cpuNum c then PPM_IGNORE else mn),
      (if mx < 0 \<or> mx \<ge> cpuNum c then PPM_IGNORE else mx))"

definition core_text :: "(int \<times> int) list \<Rightarrow> string" where
  "core_text ps = butlast (concat (map (\<lambda>(a, b). snprintf_s 32 (show_int a @ '' '' @ show_int b @ '' '')) ps))"

definition core_ctl_msg :: "cpu \<Rightarrow> nat \<Rightarrow> int \<times> int \<Rightarrow> cpu_out" where
  "core_ctl_msg st i p =
     (let (coreToSet, maxToSet) = p;
          mn = (if coreToSet = PPM_IGNORE
                then (if maxToSet = PPM_IGNORE then default_core_min st ! i else 0) else coreToSet);
          mx = (if maxToSet = PPM_IGNORE then cpuNum (ptClusterTbl st ! i) else maxToSet)
      in Core_ctl i mn mx)"

definition setClusterCores :: "cpu_env \<Rightarrow> nat \<Rightarrow> int list \<Rightarrow> int list \<Rightarrow> cpu \<Rightarrow> cpu" where
  "setClusterCores env clusterNum pCoreTbl pMaxCoreTbl st =
     (let pairs = (\<lambda>low. map (\<lambda>i. core_pair low (ptClusterTbl st ! i) (pCoreTbl ! i) (pMaxCoreTbl ! i)) [0..<clusterNum])
      in if perfmgrCpu (gtDrvInfo st) then emit (Write PATH_BOOST_CORE_CTRL (core_text (pairs 1))) st
         else if perfmgrLegacy (gtDrvInfo st) then emit (Write PATH_PERFMGR_CORE_CTRL (core_text (pairs 1))) st
         else if ppmAll (gtDrvInfo st) then emit (Write PATH_PPM_CORE_CTRL (core_text (pairs 1))) st
         else if ppmSupport (gtDrvInfo st) then
           st\<lparr>out := out st @ concat (map (\<lambda>i. let (a, b) = pairs 1 ! i in
               [Write PATH_PPM_CORE_BASE (show_int (int i) @ '' '' @ show_int a),
                Write PATH_PPM_CORE_LIMIT (show_int (int i) @ '' '' @ show_int b)]) [0..<clusterNum])\<rparr>
         else (let (r, st1) = check_core_ctl_ioctl env st in
           if r = 0 then st1\<lparr>out := out st1 @ map (\<lambda>i. core_ctl_msg st1 i (pairs 0 ! i)) [0..<clusterNum]\<rparr>
           else st1))"

definition setCPUCores :: "cpu_env \<Rightarrow> cpu \<Rightarrow> cpu" where
  "setCPUCores env st =
     (let cs = take (nat (nClusterNum st)) (ptClusterTbl st);
          actual_core_min = map (\<lambda>c. if cpuMinNow c > cpuNum c then PPM_IGNORE else cpuMinNow c) cs;
          totalCore = sum_list actual_core_min;
          st1 = (if scn_cores_now st < totalCore then st\<lparr>scn_cores_now := totalCore\<rparr> else st);
          mx = map (\<lambda>(c, mn). if cpuMaxNow c < mn then mn else cpuMaxNow c) (zip cs actual_core_min);
          actual_core_max = (if nClusterNum st > 1 \<and> mx ! 1 = 0 \<and> mx ! 0 = 0 then mx[0 := PPM_IGNORE] else mx)
      in setClusterCores env (nat (nClusterNum st)) actual_core_min actual_core_max st1)"

definition core_ctrl_missing :: "cpu_env \<Rightarrow> cpu \<Rightarrow> bool \<times> cpu" where
  "core_ctrl_missing env st =
     (let d = gtDrvInfo st in
      if perfmgrCpu d \<or> perfmgrLegacy d \<or> ppmAll d \<or> ppmSupport d then (False, st)
      else let (r, st1) = check_core_ctl_ioctl env st in (r \<noteq> 0, st1))"

definition setCPUCoreMinCluster :: "cpu_env \<Rightarrow> nat \<Rightarrow> int \<Rightarrow> cpu \<Rightarrow> int \<times> cpu" where
  "setCPUCoreMinCluster env cl value st =
     (let (miss, st1) = core_ctrl_missing env st in
      if miss then (-1, st1)
      else if int cl < nClusterNum st1 then
        (0, setCPUCores env (upd_cluster cl (\<lambda>c. c\<lparr>cpuMinNow := value\<rparr>) st1))
      else (0, st1))"

definition setCPUCoreMaxCluster :: "cpu_env \<Rightarrow> nat \<Rightarrow> int \<Rightarrow> cpu \<Rightarrow> int \<times> cpu" where
  "setCPUCoreMaxCluster env cl value st =
     (let (miss, st1) = core_ctrl_missing env st in
      if miss then (-1, st1)
      else if int cl < nClusterNum st1 then
        (0, setCPUCores env (upd_cluster cl (\<lambda>c. c\<lparr>cpuMaxNow := (if value = -1 then cpuNum c else value)\<rparr>) st1))
      else (0, st1))"

text \<open>The defaults of the command table replace the built-in core minimum; the last entry of a name wins.\<close>

definition update_default_core_min :: "cpu_env \<Rightarrow> tScnConTable list \<Rightarrow> cpu \<Rightarrow> cpu" where
  "update_default_core_min env con st =
     (let step = (\<lambda>c ms.
            if c_cmdName c = ''PERF_RES_CPUCORE_MIN_CLUSTER_0'' then ms[0 := c_defaultVal c]
            else if c_cmdName c = ''PERF_RES_CPUCORE_MIN_CLUSTER_1'' then ms[1 := c_defaultVal c]
            else if c_cmdName c = ''PERF_RES_CPUCORE_MIN_CLUSTER_2'' then ms[2 := c_defaultVal c]
            else ms);
          st1 = st\<lparr>default_core_min := fold step con (default_core_min st)\<rparr>;
          (r, st2) = check_core_ctl_ioctl env st1
      in if r = 0 then st2\<lparr>out := out st2 @ map (\<lambda>i.
             Core_ctl i (default_core_min st2 ! i) (cpuNum (ptClusterTbl st2 ! i))) [0..<nat (nClusterNum st2)]\<rparr>
         else st2)"

section \<open>Queries\<close>

definition get_cpu_dma_latency_value :: "tScnConTable list \<Rightarrow> int" where
  "get_cpu_dma_latency_value con = fold (\<lambda>c v.
     if c_cmdName c = ''PERF_RES_PM_QOS_CPU_DMA_LATENCY_VALUE''
     then (if c_curVal c = c_resetVal c then c_defaultVal c else c_curVal c) else v) con 0"

definition getCPUFreq :: "cpu \<Rightarrow> int \<Rightarrow> int \<Rightarrow> int" where
  "getCPUFreq st cid opp =
     (if cid < 0 \<or> cid \<ge> nClusterNum st then -1
      else let c = ptClusterTbl st ! nat cid in
        if opp < 0 \<or> opp \<ge> freqCount c then -1
        else pFreqTbl c ! nat ((freqCount c - 1) - opp))"

definition getCPUFreqOppCnt :: "cpu \<Rightarrow> int \<Rightarrow> int" where
  "getCPUFreqOppCnt st cid =
     (if cid < 0 \<or> cid \<ge> nClusterNum st then -1 else freqCount (ptClusterTbl st ! nat cid) - 1)"

fun closest_loop :: "int \<Rightarrow> int list \<Rightarrow> int \<Rightarrow> int \<Rightarrow> int" where
  "closest_loop target [] closest min_diff = closest"
| "closest_loop target (n # ns) closest min_diff =
     (let diff = \<bar>target - n\<bar> in
      if diff < min_diff then closest_loop target ns n diff else closest_loop target ns closest min_diff)"

definition findClosestNumber :: "int list \<Rightarrow> int \<Rightarrow> int" where
  "findClosestNumber numbers target =
     (case numbers of [] \<Rightarrow> 0 | n # _ \<Rightarrow> closest_loop target numbers n \<bar>target - n\<bar>)"

definition getCPUFreqToOpp :: "cpu \<Rightarrow> int \<Rightarrow> int \<Rightarrow> int" where
  "getCPUFreqToOpp st cid freq =
     (if cid < 0 \<or> cid \<ge> nClusterNum st then -1
      else let c = ptClusterTbl st ! nat cid; opp_cnt = freqCount c;
               tbl = take (nat opp_cnt) (pFreqTbl c);
               closestfreq = findClosestNumber tbl freq;
               opp = fold (\<lambda>idx o1. if tbl ! idx = closestfreq then int idx else o1) [0..<nat opp_cnt] 0
           in if opp \<noteq> 0 then opp_cnt - 1 - opp else 0)"

end
