(* ===== verification/Cpu_Props.thy ===== *)
theory Cpu_Props
  imports Cpu_Freq
begin

text \<open>
  Correctness of the CPU frequency control of theory \<open>Cpu_Freq\<close>.
\<close>

section \<open>Well-formed topology\<close>

definition cluster_wf :: "cpu \<Rightarrow> nat \<Rightarrow> bool" where
  "cluster_wf st i \<longleftrightarrow>
     (let c = ptClusterTbl st ! i in
      0 \<le> freqMin c \<and> freqMin c \<le> freqMax c \<and>
      0 \<le> cpuFirstIndex c \<and> 0 \<le> cpuNum c \<and> cpuFirstIndex c + cpuNum c \<le> nCpuNum st)"

definition in_cluster :: "cpu \<Rightarrow> nat \<Rightarrow> nat \<Rightarrow> bool" where
  "in_cluster st i k \<longleftrightarrow>
     (let c = ptClusterTbl st ! i in cpuFirstIndex c \<le> int k \<and> int k < cpuFirstIndex c + cpuNum c)"

definition topo_wf :: "cpu \<Rightarrow> bool" where
  "topo_wf st \<longleftrightarrow>
     0 \<le> nClusterNum st \<and> nClusterNum st \<le> CLUSTER_MAX \<and> 0 \<le> nCpuNum st \<and> nCpuNum st \<le> CPU_CORE_MAX \<and>
     length (ptClusterTbl st) = nat (nClusterNum st) \<and> length (ptCoreTbl st) = nat (nCpuNum st) \<and>
     length (soft_freq st) = 8 \<and> length (hard_freq st) = 8 \<and>
     length (soft_core_freq st) = 8 \<and> length (freq_to_set st) = 8 \<and>
     (\<forall>i < nat (nClusterNum st). cluster_wf st i) \<and>
     (\<forall>k < nat (nCpuNum st). cluster (ptCoreTbl st ! k) < nat (nClusterNum st) \<and>
        (\<forall>i < nat (nClusterNum st). in_cluster st i k \<longleftrightarrow> i = cluster (ptCoreTbl st ! k)))"

text \<open>The requests stored in the tables are frequencies, and hard limits are ordered and reachable.\<close>

definition hard_ok :: "cpu \<Rightarrow> bool" where
  "hard_ok st \<longleftrightarrow> (\<forall>i < nat (nClusterNum st). let h = hard_freq st ! i in
     0 \<le> f_min h \<and> f_min h \<le> f_max h \<and> f_max h \<le> freqMax (ptClusterTbl st ! i))"

definition req_ok :: "cpu \<Rightarrow> bool" where
  "req_ok st \<longleftrightarrow> (\<forall>c \<in> set (ptClusterTbl st). 0 \<le> freqHardMinNow c)"

section \<open>Combining limits\<close>

definition clamp :: "int \<Rightarrow> int \<Rightarrow> int \<Rightarrow> int" where
  "clamp lo hi x = max lo (min hi x)"

lemma clamp_mono: "x \<le> y \<Longrightarrow> clamp lo hi x \<le> clamp lo hi y"
  by (simp add: clamp_def)

lemma clamp_bounds: "lo \<le> hi \<Longrightarrow> lo \<le> clamp lo hi x \<and> clamp lo hi x \<le> hi"
  by (auto simp: clamp_def)

lemma clampFreq_clamp: "freqMin c \<le> freqMax c \<Longrightarrow> clampFreq c x = clamp (freqMin c) (freqMax c) x"
  by (auto simp: clampFreq_def clamp_def)

lemma clampFreq_bounds:
  "freqMin c \<le> freqMax c \<Longrightarrow> freqMin c \<le> clampFreq c x \<and> clampFreq c x \<le> freqMax c"
  by (auto simp: clampFreq_def)

lemma limit_sel [simp]:
  "l_freq (min_limit f) = f_min f" "l_freq (max_limit f) = f_max f"
  "l_freq (rsc_limit tbl i x) = x"
  by (simp_all add: min_limit_def max_limit_def rsc_limit_def)

lemma align_ceiling_freq [simp]: "l_freq (align_ceiling lo hi) = max (l_freq lo) (l_freq hi)"
  by (auto simp: align_ceiling_def)

lemma hard_floor_freq:
  "f_min h \<le> f_max h \<Longrightarrow> l_freq (hard_floor h l) = clamp (f_min h) (f_max h) (l_freq l)"
  by (auto simp: hard_floor_def clamp_def)

lemma hard_ceiling_freq:
  "f_min h \<le> f_max h \<Longrightarrow> l_freq (hard_ceiling h l) = clamp (f_min h) (f_max h) (l_freq l)"
  by (auto simp: hard_ceiling_def clamp_def)

text \<open>The loops take the largest floor and the smallest ceiling of the CPUs they visit.\<close>

lemma floor_scan_freq:
  assumes "\<forall>i \<in> set is. 0 \<le> cpuFirstIndex c + int i \<and> cpuFirstIndex c + int i < CPU_CORE_MAX"
    and "0 \<le> freqMin c" "freqMin c \<le> freqMax c"
  shows "l_freq (floor_scan sc c is l) =
    Max (insert (l_freq l) ((\<lambda>i. clampFreq c (f_min (sc ! nat (cpuFirstIndex c + int i)))) ` set is))"
  using assms(1)
proof (induction "is" arbitrary: l)
  case Nil
  then show ?case by simp
next
  case (Cons i "is")
  let ?f = "\<lambda>i. clampFreq c (f_min (sc ! nat (cpuFirstIndex c + int i)))"
  have pos: "\<not> ?f i < 0" using clampFreq_bounds [OF assms(3)] assms(2) by (smt (verit))
  let ?l = "if ?f i > l_freq l then (min_limit (sc ! nat (cpuFirstIndex c + int i)))\<lparr>l_freq := ?f i\<rparr> else l"
  have "l_freq (floor_scan sc c (i # is) l) = l_freq (floor_scan sc c is ?l)"
    using Cons.prems pos by (simp add: Let_def)
  also have "\<dots> = Max (insert (l_freq ?l) (?f ` set is))"
    using Cons.prems by (intro Cons.IH) auto
  also have "l_freq ?l = max (l_freq l) (?f i)" by auto
  also have "Max (insert (max (l_freq l) (?f i)) (?f ` set is)) =
      Max (insert (l_freq l) (insert (?f i) (?f ` set is)))"
    by (cases "set is = {}") (auto simp: max.assoc max.left_commute)
  finally show ?case by simp
qed

lemma ceiling_scan_freq:
  assumes "\<forall>i \<in> set is. 0 \<le> cpuFirstIndex c + int i \<and> cpuFirstIndex c + int i < CPU_CORE_MAX"
    and "0 \<le> freqMin c" "freqMin c \<le> freqMax c"
  shows "l_freq (ceiling_scan sc c is l) =
    Min (insert (l_freq l) ((\<lambda>i. clampFreq c (f_max (sc ! nat (cpuFirstIndex c + int i)))) ` set is))"
  using assms(1)
proof (induction "is" arbitrary: l)
  case Nil
  then show ?case by simp
next
  case (Cons i "is")
  let ?s = "sc ! nat (cpuFirstIndex c + int i)"
  let ?f = "\<lambda>i. clampFreq c (f_max (sc ! nat (cpuFirstIndex c + int i)))"
  have pos: "\<not> ?f i < 0" using clampFreq_bounds [OF assms(3)] assms(2) by (smt (verit))
  let ?l = "if ?f i < l_freq l then l\<lparr>l_freq := ?f i, l_setter := curMaxFreqSetter ?s,
                l_hint := curMaxFreqSetterHint ?s\<rparr> else l"
  have "l_freq (ceiling_scan sc c (i # is) l) = l_freq (ceiling_scan sc c is ?l)"
    using Cons.prems pos by (simp add: Let_def)
  also have "\<dots> = Min (insert (l_freq ?l) (?f ` set is))"
    using Cons.prems by (intro Cons.IH) auto
  also have "l_freq ?l = min (l_freq l) (?f i)" by auto
  also have "Min (insert (min (l_freq l) (?f i)) (?f ` set is)) =
      Min (insert (l_freq l) (insert (?f i) (?f ` set is)))"
    by (cases "set is = {}") (auto simp: min.assoc min.left_commute)
  finally show ?case by simp
qed

section \<open>The specification of setCPUFreq\<close>

text \<open>The CPUs whose core limits govern CPU \<open>cp\<close>: itself, or all of a cluster set as a whole.\<close>

definition governed :: "cpu \<Rightarrow> nat \<Rightarrow> nat \<Rightarrow> nat list" where
  "governed st cl cp =
     (if byCore (ptCoreTbl st ! cp) then [cp]
      else let c = ptClusterTbl st ! cl in map (\<lambda>i. nat (cpuFirstIndex c) + i) [0..<nat (cpuNum c)])"

definition ceiling_of :: "cpu \<Rightarrow> nat \<Rightarrow> nat \<Rightarrow> nat \<Rightarrow> int" where
  "ceiling_of st cl cp k =
     (let c = ptClusterTbl st ! cl; m = f_max (soft_core_freq st ! k)
      in if byCore (ptCoreTbl st ! cp) \<and> m \<le> 0 then freqMax c else clampFreq c m)"

definition floor_spec :: "cpu \<Rightarrow> nat \<Rightarrow> nat \<Rightarrow> int" where
  "floor_spec st cl cp =
     (let c = ptClusterTbl st ! cl in
      Max (set (clampFreq c (f_min (soft_freq st ! cl))
                # map (\<lambda>k. clampFreq c (f_min (soft_core_freq st ! k))) (governed st cl cp))))"

definition ceiling_spec :: "cpu \<Rightarrow> nat \<Rightarrow> nat \<Rightarrow> int" where
  "ceiling_spec st cl cp =
     (let c = ptClusterTbl st ! cl; m = f_max (soft_freq st ! cl) in
      Min (set ((if m \<le> 0 then freqMax c else clampFreq c m)
                # map (ceiling_of st cl cp) (governed st cl cp))))"

definition limits_spec :: "cpu \<Rightarrow> nat \<Rightarrow> nat \<Rightarrow> int \<times> int" where
  "limits_spec st cl cp =
     (let h = hard_freq st ! cl; lo = floor_spec st cl cp in
      (clamp (f_min h) (f_max h) lo, clamp (f_min h) (f_max h) (max lo (ceiling_spec st cl cp))))"

lemma nat_add_int: "0 \<le> a \<Longrightarrow> nat (a + int i) = nat a + i"
  by (simp add: nat_add_distrib)

text \<open>What \<open>topo_wf\<close> says of a CPU and its cluster.\<close>

lemma topo_wfD:
  assumes "topo_wf st" "int cp < nCpuNum st" "cl = cluster (ptCoreTbl st ! cp)"
  shows "int cl < nClusterNum st" "cluster_wf st cl" "cp < 8" "cl < 8"
    and "cpuFirstIndex (ptClusterTbl st ! cl) \<le> int cp"
    and "int cp < cpuFirstIndex (ptClusterTbl st ! cl) + cpuNum (ptClusterTbl st ! cl)"
proof -
  have "cp < nat (nCpuNum st)" using assms(2) by simp
  then have "cl < nat (nClusterNum st) \<and> in_cluster st cl cp"
    using assms(1,3) unfolding topo_wf_def by blast
  then have *: "int cl < nClusterNum st \<and> cpuFirstIndex (ptClusterTbl st ! cl) \<le> int cp \<and>
      int cp < cpuFirstIndex (ptClusterTbl st ! cl) + cpuNum (ptClusterTbl st ! cl)"
    by (auto simp: in_cluster_def Let_def)
  then show "int cl < nClusterNum st" "cpuFirstIndex (ptClusterTbl st ! cl) \<le> int cp"
    "int cp < cpuFirstIndex (ptClusterTbl st ! cl) + cpuNum (ptClusterTbl st ! cl)" by auto
  from * show "cluster_wf st cl" using assms(1) by (auto simp: topo_wf_def)
  show "cp < 8" "cl < 8" using assms(1,2) * by (auto simp: topo_wf_def)
qed

lemma in_clusterD:
  assumes "topo_wf st" "int cl < nClusterNum st" "in_cluster st cl cp"
  shows "int cp < nCpuNum st" "cluster (ptCoreTbl st ! cp) = cl"
proof -
  have cl: "cl < nat (nClusterNum st)" using assms(2) by simp
  then have "cluster_wf st cl" using assms(1) unfolding topo_wf_def by blast
  then show c: "int cp < nCpuNum st" using assms(3) by (simp add: cluster_wf_def in_cluster_def Let_def)
  then have "cp < nat (nCpuNum st)" by simp
  then show "cluster (ptCoreTbl st ! cp) = cl"
    using assms(1,3) cl unfolding topo_wf_def by blast
qed

lemma cpu_limits_floor:
  assumes "topo_wf st" "int cp < nCpuNum st" "cl = cluster (ptCoreTbl st ! cp)"
  shows "l_freq (soft_floor st cl cp) = floor_spec st cl cp"
proof -
  note d = topo_wfD [OF assms]
  let ?c = "ptClusterTbl st ! cl" and ?s = "soft_core_freq st"
  have w: "0 \<le> freqMin ?c" "freqMin ?c \<le> freqMax ?c" "0 \<le> cpuFirstIndex ?c" "0 \<le> cpuNum ?c"
    "cpuFirstIndex ?c + cpuNum ?c \<le> 8"
    using d(2) assms(1) by (auto simp: cluster_wf_def topo_wf_def Let_def)
  show ?thesis
  proof (cases "byCore (ptCoreTbl st ! cp)")
    case True
    then show ?thesis by (simp add: soft_floor_def floor_spec_def governed_def Let_def max_def)
  next
    case False
    let ?f = "\<lambda>k. clampFreq ?c (f_min (?s ! k))"
    let ?S = "(\<lambda>i. ?f (nat (cpuFirstIndex ?c) + i)) ` {0..<nat (cpuNum ?c)}"
    have "cp = nat (cpuFirstIndex ?c) + (cp - nat (cpuFirstIndex ?c))"
      "cp - nat (cpuFirstIndex ?c) < nat (cpuNum ?c)" using d(5,6) w by auto
    then have mem: "?f cp \<in> ?S" by (metis atLeastLessThan_iff imageI le0)
    have "l_freq (floor_scan ?s ?c [0..<nat (cpuNum ?c)] ((min_limit (?s ! cp))\<lparr>l_freq := ?f cp\<rparr>))
      = Max (insert (?f cp) ?S)"
      using w by (subst floor_scan_freq) (auto simp: nat_add_int)
    also have "\<dots> = Max ?S" using mem by (simp add: insert_absorb)
    finally have scan: "l_freq (floor_scan ?s ?c [0..<nat (cpuNum ?c)] ((min_limit (?s ! cp))\<lparr>l_freq := ?f cp\<rparr>)) = Max ?S" .
    have ne: "?S \<noteq> {}" "finite ?S" using mem by auto
    show ?thesis
      using False ne by (simp add: soft_floor_def floor_spec_def governed_def Let_def scan max_def image_image)
  qed
qed

lemma cpu_limits_ceiling:
  assumes "topo_wf st" "int cp < nCpuNum st" "cl = cluster (ptCoreTbl st ! cp)"
  shows "l_freq (soft_ceiling st cl cp) = ceiling_spec st cl cp"
proof -
  note d = topo_wfD [OF assms]
  let ?c = "ptClusterTbl st ! cl" and ?s = "soft_core_freq st"
  have w: "0 \<le> freqMin ?c" "freqMin ?c \<le> freqMax ?c" "0 \<le> cpuFirstIndex ?c" "0 \<le> cpuNum ?c"
    "cpuFirstIndex ?c + cpuNum ?c \<le> 8"
    using d(2) assms(1) by (auto simp: cluster_wf_def topo_wf_def Let_def)
  show ?thesis
  proof (cases "byCore (ptCoreTbl st ! cp)")
    case True
    then show ?thesis by (simp add: soft_ceiling_def ceiling_spec_def ceiling_of_def governed_def Let_def min_def)
  next
    case False
    let ?f = "\<lambda>k. clampFreq ?c (f_max (?s ! k))"
    let ?r = "if f_max (?s ! cp) \<le> 0 then freqMax ?c else ?f cp"
    let ?S = "(\<lambda>i. ?f (nat (cpuFirstIndex ?c) + i)) ` {0..<nat (cpuNum ?c)}"
    have "cp = nat (cpuFirstIndex ?c) + (cp - nat (cpuFirstIndex ?c))"
      "cp - nat (cpuFirstIndex ?c) < nat (cpuNum ?c)" using d(5,6) w by auto
    then have mem: "?f cp \<in> ?S" by (metis atLeastLessThan_iff imageI le0)
    have ne: "?S \<noteq> {}" "finite ?S" using mem by auto
    have "?f cp \<le> ?r" using clampFreq_bounds [OF w(2)] by auto
    then have ge: "Min ?S \<le> ?r" using mem ne by (meson Min_le order_trans)
    have ins: "Min (insert ?r ?S) = Min ?S" using ne ge by (simp add: min_absorb2)
    have "l_freq (ceiling_scan ?s ?c [0..<nat (cpuNum ?c)] ((max_limit (?s ! cp))\<lparr>l_freq := ?r\<rparr>))
      = Min (insert ?r ?S)"
      using w by (subst ceiling_scan_freq) (auto simp: nat_add_int simp del: Min_insert)
    then have scan: "l_freq (ceiling_scan ?s ?c [0..<nat (cpuNum ?c)] ((max_limit (?s ! cp))\<lparr>l_freq := ?r\<rparr>)) = Min ?S"
      unfolding ins .
    let ?m = "if f_max (soft_freq st ! cl) \<le> 0 then freqMax ?c else clampFreq ?c (f_max (soft_freq st ! cl))"
    have "l_freq (soft_ceiling st cl cp) = min ?m (Min ?S)"
      using False by (simp add: soft_ceiling_def Let_def scan min_def)
    also have "\<dots> = Min (insert ?m ?S)" by (rule Min_insert [OF ne(2,1), symmetric])
    also have "\<dots> = ceiling_spec st cl cp"
      using False by (simp add: ceiling_spec_def ceiling_of_def governed_def Let_def image_image)
    finally show ?thesis .
  qed
qed

lemma cpu_limits_spec:
  assumes "topo_wf st" "hard_ok st" "int cp < nCpuNum st" "cl = cluster (ptCoreTbl st ! cp)"
  shows "map_prod l_freq l_freq (cpu_limits st cl cp) = limits_spec st cl cp"
proof -
  have "f_min (hard_freq st ! cl) \<le> f_max (hard_freq st ! cl)"
    using assms topo_wfD(1) [OF assms(1,3,4)] by (auto simp: hard_ok_def Let_def)
  then show ?thesis
    using cpu_limits_floor [OF assms(1,3,4)] cpu_limits_ceiling [OF assms(1,3,4)]
    by (simp add: cpu_limits_def limits_spec_def Let_def hard_floor_freq hard_ceiling_freq)
qed

lemma limits_spec_bounds:
  assumes "hard_ok st" "int cl < nClusterNum st" "(lo, hi) = limits_spec st cl cp"
  shows "lo \<le> hi" "f_min (hard_freq st ! cl) \<le> lo" "hi \<le> f_max (hard_freq st ! cl)"
    "0 \<le> lo" "hi \<le> freqMax (ptClusterTbl st ! cl)"
proof -
  let ?h = "hard_freq st ! cl"
  have h: "0 \<le> f_min ?h" "f_min ?h \<le> f_max ?h" "f_max ?h \<le> freqMax (ptClusterTbl st ! cl)"
    using assms by (auto simp: hard_ok_def Let_def)
  have e: "lo = clamp (f_min ?h) (f_max ?h) (floor_spec st cl cp)"
    "hi = clamp (f_min ?h) (f_max ?h) (max (floor_spec st cl cp) (ceiling_spec st cl cp))"
    using assms(3) by (auto simp: limits_spec_def Let_def)
  show "lo \<le> hi" unfolding e by (rule clamp_mono) simp
  show "f_min ?h \<le> lo" "hi \<le> f_max ?h" using clamp_bounds [OF h(2)] unfolding e by auto
  then show "0 \<le> lo" "hi \<le> freqMax (ptClusterTbl st ! cl)" using h by auto
qed

section \<open>Every request keeps the limits ordered\<close>

text \<open>
  An event of the frequency control: a set function called with an arbitrated value, or the
  report at the end of an arbitration round.
\<close>

datatype freq_event =
    Cluster_min nat int | Cluster_max nat int | Hard_min nat int | Hard_max nat int
  | Core_min nat int | Core_max nat int | Report int

fun freq_step :: "cpu_env \<Rightarrow> freq_event \<Rightarrow> cpu \<Rightarrow> cpu" where
  "freq_step env (Cluster_min i f) st = setCPUFreqMinCluster env i f st"
| "freq_step env (Cluster_max i f) st = setCPUFreqMaxCluster env i f st"
| "freq_step env (Hard_min i f) st = setCPUFreqHardMinCluster env i f st"
| "freq_step env (Hard_max i f) st = setCPUFreqHardMaxCluster env i f st"
| "freq_step env (Core_min i f) st = setCPUFreqMinCore env i f st"
| "freq_step env (Core_max i f) st = setCPUFreqMaxCore env i f st"
| "freq_step env (Report m) st = recordCPUFreqInfo m st"

fun event_ok :: "freq_event \<Rightarrow> bool" where
  "event_ok (Hard_min i f) = (-1 \<le> f)"
| "event_ok _ = True"

text \<open>A command for the kernel names a CPU and an ordered pair of frequencies its cluster has.\<close>

definition cmd_ok :: "cpu_env \<Rightarrow> cpu \<Rightarrow> cpu_out \<Rightarrow> bool" where
  "cmd_ok env st o1 \<longleftrightarrow> (\<forall>t. o1 = Write PATH_PROC_CPU_CTRL t \<longrightarrow>
     (\<exists>cp lo hi. t = cpu_ctrl_text (str0 env) (int cp) lo hi \<and> int cp < nCpuNum st \<and>
        0 \<le> lo \<and> lo \<le> hi \<and> hi \<le> freqMax (ptClusterTbl st ! cluster (ptCoreTbl st ! cp))))"

definition freq_inv :: "cpu_env \<Rightarrow> cpu \<Rightarrow> bool" where
  "freq_inv env st \<longleftrightarrow> topo_wf st \<and> hard_ok st \<and> req_ok st \<and> (\<forall>o1 \<in> set (out st). cmd_ok env st o1)"

text \<open>The part of the state that no frequency request changes.\<close>

definition same_topo :: "cpu \<Rightarrow> cpu \<Rightarrow> bool" where
  "same_topo st st' \<longleftrightarrow>
     nClusterNum st' = nClusterNum st \<and> nCpuNum st' = nCpuNum st \<and>
     map (\<lambda>c. (cpuNum c, cpuFirstIndex c, freqMin c, freqMax c)) (ptClusterTbl st') =
     map (\<lambda>c. (cpuNum c, cpuFirstIndex c, freqMin c, freqMax c)) (ptClusterTbl st) \<and>
     map (\<lambda>k. (byCore k, cluster k)) (ptCoreTbl st') = map (\<lambda>k. (byCore k, cluster k)) (ptCoreTbl st) \<and>
     length (soft_freq st') = length (soft_freq st) \<and> length (hard_freq st') = length (hard_freq st) \<and>
     length (soft_core_freq st') = length (soft_core_freq st) \<and>
     length (freq_to_set st') = length (freq_to_set st)"

lemma map_eq_nth: "map f xs = map f ys \<Longrightarrow> i < length ys \<Longrightarrow> f (xs ! i) = f (ys ! i)"
  by (metis length_map nth_map)

lemma same_topo_cluster:
  assumes "same_topo st st'" "i < length (ptClusterTbl st)"
  shows "cpuNum (ptClusterTbl st' ! i) = cpuNum (ptClusterTbl st ! i)"
    "cpuFirstIndex (ptClusterTbl st' ! i) = cpuFirstIndex (ptClusterTbl st ! i)"
    "freqMin (ptClusterTbl st' ! i) = freqMin (ptClusterTbl st ! i)"
    "freqMax (ptClusterTbl st' ! i) = freqMax (ptClusterTbl st ! i)"
  using assms map_eq_nth [of "\<lambda>c. (cpuNum c, cpuFirstIndex c, freqMin c, freqMax c)" "ptClusterTbl st'" "ptClusterTbl st" i]
  by (auto simp: same_topo_def)

lemma same_topo_core:
  assumes "same_topo st st'" "k < length (ptCoreTbl st)"
  shows "byCore (ptCoreTbl st' ! k) = byCore (ptCoreTbl st ! k)"
    "cluster (ptCoreTbl st' ! k) = cluster (ptCoreTbl st ! k)"
  using assms map_eq_nth [of "\<lambda>k. (byCore k, cluster k)" "ptCoreTbl st'" "ptCoreTbl st" k]
  by (auto simp: same_topo_def)

lemma same_topo_len:
  assumes "same_topo st st'"
  shows "length (ptClusterTbl st') = length (ptClusterTbl st)"
    "length (ptCoreTbl st') = length (ptCoreTbl st)"
proof -
  have "map (\<lambda>c. (cpuNum c, cpuFirstIndex c, freqMin c, freqMax c)) (ptClusterTbl st') =
      map (\<lambda>c. (cpuNum c, cpuFirstIndex c, freqMin c, freqMax c)) (ptClusterTbl st)"
    "map (\<lambda>k. (byCore k, cluster k)) (ptCoreTbl st') = map (\<lambda>k. (byCore k, cluster k)) (ptCoreTbl st)"
    using assms by (simp_all add: same_topo_def)
  from this [THEN map_eq_imp_length_eq]
  show "length (ptClusterTbl st') = length (ptClusterTbl st)"
    "length (ptCoreTbl st') = length (ptCoreTbl st)" by auto
qed

lemma same_topo_refl [simp]: "same_topo st st"
  by (simp add: same_topo_def)

lemma same_topo_trans: "same_topo a b \<Longrightarrow> same_topo b c \<Longrightarrow> same_topo a c"
  unfolding same_topo_def by metis

lemma same_topo_wf: "same_topo st st' \<Longrightarrow> topo_wf st \<Longrightarrow> topo_wf st'"
proof -
  assume a: "same_topo st st'" and w: "topo_wf st"
  have l: "length (ptClusterTbl st) = nat (nClusterNum st)" "length (ptCoreTbl st) = nat (nCpuNum st)"
    using w by (auto simp: topo_wf_def)
  have n: "nClusterNum st' = nClusterNum st" "nCpuNum st' = nCpuNum st"
    using a by (auto simp: same_topo_def)
  have c: "cluster_wf st' i" if "i < nat (nClusterNum st)" for i
    using w that same_topo_cluster [OF a, of i] n l by (auto simp: topo_wf_def cluster_wf_def Let_def)
  have ic: "in_cluster st' i k = in_cluster st i k" if "i < nat (nClusterNum st)" for i k
    using that same_topo_cluster [OF a, of i] l by (simp add: in_cluster_def Let_def)
  have k: "cluster (ptCoreTbl st' ! k) = cluster (ptCoreTbl st ! k)" if "k < nat (nCpuNum st)" for k
    using that same_topo_core(2) [OF a, of k] l by simp
  show ?thesis
    using w c k ic n same_topo_len [OF a] a
    by (simp add: topo_wf_def [of st'] topo_wf_def [of st] same_topo_def)
qed

lemma same_topo_cmd: "same_topo st st' \<Longrightarrow> topo_wf st \<Longrightarrow> cmd_ok env st o1 \<Longrightarrow> cmd_ok env st' o1"
proof -
  assume a: "same_topo st st'" and w: "topo_wf st" and c: "cmd_ok env st o1"
  have e: "nCpuNum st' = nCpuNum st" using a by (simp add: same_topo_def)
  have "freqMax (ptClusterTbl st' ! cluster (ptCoreTbl st' ! cp)) = freqMax (ptClusterTbl st ! cluster (ptCoreTbl st ! cp))"
    if "int cp < nCpuNum st" for cp
  proof -
    have "cluster (ptCoreTbl st ! cp) < length (ptClusterTbl st)" "cp < length (ptCoreTbl st)"
      using topo_wfD(1) [OF w that refl] w that by (auto simp: topo_wf_def)
    then show ?thesis using same_topo_core(2) [OF a] same_topo_cluster(4) [OF a] by simp
  qed
  then show ?thesis using c e unfolding cmd_ok_def by metis
qed

text \<open>The single update steps and what they leave alone.\<close>

lemma put_limits_sel [simp]:
  "f_min (put_limits lo hi f) = l_freq lo" "f_max (put_limits lo hi f) = l_freq hi"
  "rscTblMinIdx (put_limits lo hi f) = rscTblMinIdx f" "rscTblMaxIdx (put_limits lo hi f) = rscTblMaxIdx f"
  by (simp_all add: put_limits_def)

lemma refresh_sel [simp]:
  "f_min (refresh tbl lo hi f) = lo" "f_max (refresh tbl lo hi f) = max lo hi"
  by (simp_all add: refresh_def Let_def)

lemma updateCPUFreqInfo_frame [frame_simps]:
  "ptClusterTbl (updateCPUFreqInfo env cl cp st) = ptClusterTbl st"
  "ptCoreTbl (updateCPUFreqInfo env cl cp st) = ptCoreTbl st"
  "hard_freq (updateCPUFreqInfo env cl cp st) = hard_freq st"
  "soft_freq (updateCPUFreqInfo env cl cp st) = soft_freq st"
  "freq_to_set (updateCPUFreqInfo env cl cp st) = freq_to_set st"
  "nClusterNum (updateCPUFreqInfo env cl cp st) = nClusterNum st"
  "nCpuNum (updateCPUFreqInfo env cl cp st) = nCpuNum st"
  "gtDrvInfo (updateCPUFreqInfo env cl cp st) = gtDrvInfo st"
  "out (updateCPUFreqInfo env cl cp st) = out st"
  "length (soft_core_freq (updateCPUFreqInfo env cl cp st)) = length (soft_core_freq st)"
  by (simp_all add: updateCPUFreqInfo_def Let_def)

lemma updateCPUSettingInfo_frame [frame_simps]:
  "ptClusterTbl (updateCPUSettingInfo cl cp lo hi st) = ptClusterTbl st"
  "ptCoreTbl (updateCPUSettingInfo cl cp lo hi st) = ptCoreTbl st"
  "hard_freq (updateCPUSettingInfo cl cp lo hi st) = hard_freq st"
  "soft_freq (updateCPUSettingInfo cl cp lo hi st) = soft_freq st"
  "soft_core_freq (updateCPUSettingInfo cl cp lo hi st) = soft_core_freq st"
  "nClusterNum (updateCPUSettingInfo cl cp lo hi st) = nClusterNum st"
  "nCpuNum (updateCPUSettingInfo cl cp lo hi st) = nCpuNum st"
  "gtDrvInfo (updateCPUSettingInfo cl cp lo hi st) = gtDrvInfo st"
  "out (updateCPUSettingInfo cl cp lo hi st) = out st"
  "length (freq_to_set (updateCPUSettingInfo cl cp lo hi st)) = length (freq_to_set st)"
  by (simp_all add: updateCPUSettingInfo_def Let_def)

text \<open>\<open>setCPUFreq\<close> on a CPU of its cluster, unfolded once.\<close>

definition with_core :: "cpu_env \<Rightarrow> nat \<Rightarrow> nat \<Rightarrow> cpu \<Rightarrow> cpu" where
  "with_core env cl cp st =
     (if byCore (ptCoreTbl st ! cp) then updateCPUFreqInfo env (int cl) (int cp) st else st)"

definition target_cpu :: "cpu \<Rightarrow> nat \<Rightarrow> nat \<Rightarrow> int" where
  "target_cpu st cl cp = (if byCore (ptCoreTbl st ! cp) then int cp else cpuFirstIndex (ptClusterTbl st ! cl))"

lemma with_core_frame [frame_simps]:
  "ptClusterTbl (with_core env cl cp st) = ptClusterTbl st" "ptCoreTbl (with_core env cl cp st) = ptCoreTbl st"
  "hard_freq (with_core env cl cp st) = hard_freq st" "soft_freq (with_core env cl cp st) = soft_freq st"
  "freq_to_set (with_core env cl cp st) = freq_to_set st"
  "nClusterNum (with_core env cl cp st) = nClusterNum st" "nCpuNum (with_core env cl cp st) = nCpuNum st"
  "gtDrvInfo (with_core env cl cp st) = gtDrvInfo st" "out (with_core env cl cp st) = out st"
  "length (soft_core_freq (with_core env cl cp st)) = length (soft_core_freq st)"
  by (simp_all add: with_core_def frame_simps)

lemma setCPUFreq_frame [frame_simps]:
  "ptClusterTbl (setCPUFreq env cl cp st) = ptClusterTbl st"
  "ptCoreTbl (setCPUFreq env cl cp st) = ptCoreTbl st"
  "hard_freq (setCPUFreq env cl cp st) = hard_freq st"
  "soft_freq (setCPUFreq env cl cp st) = soft_freq st"
  "nClusterNum (setCPUFreq env cl cp st) = nClusterNum st"
  "nCpuNum (setCPUFreq env cl cp st) = nCpuNum st"
  "gtDrvInfo (setCPUFreq env cl cp st) = gtDrvInfo st"
  "length (soft_core_freq (setCPUFreq env cl cp st)) = length (soft_core_freq st)"
  "length (freq_to_set (setCPUFreq env cl cp st)) = length (freq_to_set st)"
  by (simp_all add: setCPUFreq_def Let_def frame_simps split: prod.split)

lemma setCPUFreq_same_topo: "same_topo st (setCPUFreq env cl cp st)"
  by (simp add: same_topo_def frame_simps)

lemma with_core_same_topo: "same_topo st (with_core env cl cp st)"
  by (simp add: same_topo_def frame_simps)

lemma setCPUFreq_out:
  assumes "topo_wf st" "hard_ok st" "int cp < nCpuNum st" "cl = cluster (ptCoreTbl st ! cp)"
    and "proc_powerhal_cpu_ctrl (gtDrvInfo st)"
  shows "\<exists>tail. set tail \<subseteq> {Write_fail} \<and> out (setCPUFreq env (int cl) (int cp) st) = out st @
    Write PATH_PROC_CPU_CTRL (cpu_ctrl_text (str0 env) (target_cpu st cl cp)
      (fst (limits_spec (with_core env cl cp st) cl cp)) (snd (limits_spec (with_core env cl cp st) cl cp))) # tail"
proof -
  let ?st = "with_core env cl cp st"
  note d = topo_wfD [OF assms(1,3,4)]
  obtain lo hi where l: "cpu_limits ?st cl cp = (lo, hi)" by fastforce
  have "map_prod l_freq l_freq (cpu_limits ?st cl cp) = limits_spec ?st cl cp"
  proof (rule cpu_limits_spec)
    show "topo_wf ?st" by (rule same_topo_wf [OF with_core_same_topo assms(1)])
    show "hard_ok ?st" using assms(2) by (simp add: hard_ok_def frame_simps)
  qed (use assms in \<open>simp_all add: frame_simps\<close>)
  then have s: "limits_spec ?st cl cp = (l_freq lo, l_freq hi)" using l by simp
  have c: "cpu_limits (if byCore (ptCoreTbl st ! cp) then updateCPUFreqInfo env (int cl) (int cp) st else st) cl cp = (lo, hi)"
    using l by (simp add: with_core_def)
  show ?thesis
    using d(3,4) assms(5) c
    by (cases "byCore (ptCoreTbl st ! cp)")
      (auto simp: setCPUFreq_def Let_def s target_cpu_def frame_simps)
qed

lemma freq_inv_transfer:
  assumes "freq_inv env st" "same_topo st st'" "hard_ok st'" "req_ok st'"
    and "\<And>o1. o1 \<in> set (out st') \<Longrightarrow> o1 \<in> set (out st) \<or> cmd_ok env st' o1"
  shows "freq_inv env st'"
proof -
  have "topo_wf st" and old: "\<And>o1. o1 \<in> set (out st) \<Longrightarrow> cmd_ok env st o1"
    using assms(1) by (auto simp: freq_inv_def)
  then have "\<forall>o1 \<in> set (out st'). cmd_ok env st' o1"
    using assms(5) same_topo_cmd [OF assms(2)] by blast
  then show ?thesis using assms(3,4) same_topo_wf [OF assms(2) \<open>topo_wf st\<close>] by (simp add: freq_inv_def)
qed

lemma target_cpu_cluster:
  assumes "topo_wf st" "int cp < nCpuNum st" "cl = cluster (ptCoreTbl st ! cp)"
  shows "int (nat (target_cpu st cl cp)) = target_cpu st cl cp" "target_cpu st cl cp < nCpuNum st"
    "cluster (ptCoreTbl st ! nat (target_cpu st cl cp)) = cl"
proof -
  note d = topo_wfD [OF assms]
  let ?k = "nat (target_cpu st cl cp)"
  show k: "int ?k = target_cpu st cl cp"
    using d(2) by (simp add: target_cpu_def cluster_wf_def Let_def)
  then have "in_cluster st cl ?k" using d by (auto simp: target_cpu_def in_cluster_def Let_def)
  from in_clusterD [OF assms(1) d(1) this]
  show "target_cpu st cl cp < nCpuNum st" "cluster (ptCoreTbl st ! ?k) = cl" using k by auto
qed

lemma setCPUFreq_off:
  "\<not> proc_powerhal_cpu_ctrl (gtDrvInfo st) \<Longrightarrow> setCPUFreq env cl cp st = st"
  by (simp add: setCPUFreq_def)

lemma setCPUFreq_inv:
  assumes inv: "freq_inv env st" and cp: "int cp < nCpuNum st" "cl = cluster (ptCoreTbl st ! cp)"
  shows "freq_inv env (setCPUFreq env (int cl) (int cp) st)"
proof (cases "proc_powerhal_cpu_ctrl (gtDrvInfo st)")
  case False
  then show ?thesis using inv by (simp add: setCPUFreq_off)
next
  case True
  let ?st' = "setCPUFreq env (int cl) (int cp) st" and ?st1 = "with_core env cl cp st"
  have w: "topo_wf st" "hard_ok st" "req_ok st" using inv by (auto simp: freq_inv_def)
  note d = topo_wfD [OF w(1) cp] and t = target_cpu_cluster [OF w(1) cp]
  obtain lo hi where l: "limits_spec ?st1 cl cp = (lo, hi)" by fastforce
  have h1: "hard_ok ?st1" using w(2) by (simp add: hard_ok_def frame_simps)
  have "int cl < nClusterNum ?st1" using d(1) by (simp add: frame_simps)
  note b = limits_spec_bounds [OF h1 this l [symmetric]]
  obtain tail where tail: "set tail \<subseteq> {Write_fail}" "out ?st' = out st @
    Write PATH_PROC_CPU_CTRL (cpu_ctrl_text (str0 env) (target_cpu st cl cp) lo hi) # tail"
    using setCPUFreq_out [OF w(1,2) cp True, of env] l by auto
  have "cmd_ok env ?st' (Write PATH_PROC_CPU_CTRL (cpu_ctrl_text (str0 env) (target_cpu st cl cp) lo hi))"
    unfolding cmd_ok_def using b t
    by (intro allI impI exI [of _ "nat (target_cpu st cl cp)"] exI [of _ lo] exI [of _ hi])
      (auto simp: frame_simps)
  moreover have "cmd_ok env ?st' Write_fail" by (simp add: cmd_ok_def)
  ultimately have "o1 \<in> set (out st) \<or> cmd_ok env ?st' o1" if "o1 \<in> set (out ?st')" for o1
    using that tail by auto
  moreover have "hard_ok ?st'" "req_ok ?st'"
    using w by (simp_all add: hard_ok_def req_ok_def frame_simps)
  ultimately show ?thesis
    using freq_inv_transfer [OF inv setCPUFreq_same_topo] by blast
qed

lemma set_cluster_loop_inv:
  assumes "freq_inv env st" "int cl < nClusterNum st"
    and "\<forall>i \<in> set is. int i < cpuNum (ptClusterTbl st ! cl)"
  shows "freq_inv env (set_cluster_loop env (int cl) is st)"
  using assms
proof (induction "is" arbitrary: st)
  case Nil
  then show ?case by simp
next
  case (Cons i "is")
  have w: "topo_wf st" using Cons.prems(1) by (simp add: freq_inv_def)
  let ?k = "nat (cpuFirstIndex (ptClusterTbl st ! cl) + int i)"
  have cl: "cluster_wf st cl" using w Cons.prems(2) by (simp add: topo_wf_def)
  then have k: "int ?k = cpuFirstIndex (ptClusterTbl st ! cl) + int i" by (simp add: cluster_wf_def Let_def)
  then have "in_cluster st cl ?k" using Cons.prems(3) by (simp add: in_cluster_def Let_def)
  note d = in_clusterD [OF w Cons.prems(2) this]
  let ?st' = "setCPUFreq env (int cl) (int ?k) st"
  have inv: "freq_inv env ?st'" by (rule setCPUFreq_inv [OF Cons.prems(1) d(1) d(2) [symmetric]])
  have "freq_inv env (set_cluster_loop env (int cl) is ?st')"
    using Cons.prems by (intro Cons.IH inv) (simp_all add: frame_simps)
  then show ?case using inv k by (simp add: Let_def)
qed

lemma updateClusterFreqInfo_frame [frame_simps]:
  "ptClusterTbl (updateClusterFreqInfo env cl st) = ptClusterTbl st"
  "ptCoreTbl (updateClusterFreqInfo env cl st) = ptCoreTbl st"
  "soft_core_freq (updateClusterFreqInfo env cl st) = soft_core_freq st"
  "freq_to_set (updateClusterFreqInfo env cl st) = freq_to_set st"
  "nClusterNum (updateClusterFreqInfo env cl st) = nClusterNum st"
  "nCpuNum (updateClusterFreqInfo env cl st) = nCpuNum st"
  "gtDrvInfo (updateClusterFreqInfo env cl st) = gtDrvInfo st"
  "out (updateClusterFreqInfo env cl st) = out st"
  "length (soft_freq (updateClusterFreqInfo env cl st)) = length (soft_freq st)"
  "length (hard_freq (updateClusterFreqInfo env cl st)) = length (hard_freq st)"
  by (simp_all add: updateClusterFreqInfo_def Let_def)

lemma updateClusterFreqInfo_inv:
  assumes "freq_inv env st" "int cl < nClusterNum st"
  shows "freq_inv env (updateClusterFreqInfo env (int cl) st)"
proof -
  let ?st' = "updateClusterFreqInfo env (int cl) st"
  have w: "topo_wf st" "hard_ok st" "req_ok st" using assms by (auto simp: freq_inv_def)
  have "hard_ok ?st'" unfolding hard_ok_def
  proof (intro allI impI)
    fix i assume i: "i < nat (nClusterNum ?st')"
    have cl: "cluster_wf st i" "i < length (ptClusterTbl st)" "i < length (hard_freq st)" "i < 8"
      using w i by (auto simp: topo_wf_def frame_simps)
    then have "0 \<le> freqHardMinNow (ptClusterTbl st ! i)" "0 \<le> freqMax (ptClusterTbl st ! i)"
      using w(3) by (auto simp: req_ok_def cluster_wf_def Let_def)
    moreover have "int cl < 8" using assms(2) w(1) by (simp add: topo_wf_def)
    moreover have "0 \<le> f_min (hard_freq st ! i) \<and> f_min (hard_freq st ! i) \<le> f_max (hard_freq st ! i) \<and>
       f_max (hard_freq st ! i) \<le> freqMax (ptClusterTbl st ! i)"
      using w(2) i by (simp add: hard_ok_def Let_def frame_simps)
    ultimately show "let h = hard_freq ?st' ! i in 0 \<le> f_min h \<and> f_min h \<le> f_max h \<and>
       f_max h \<le> freqMax (ptClusterTbl ?st' ! i)"
      using cl by (cases "cl = i") (simp_all add: updateClusterFreqInfo_def Let_def)
  qed
  moreover have "req_ok ?st'" using w by (simp add: req_ok_def frame_simps)
  moreover have "same_topo st ?st'" by (simp add: same_topo_def frame_simps)
  ultimately show ?thesis by (intro freq_inv_transfer [OF assms(1)]) (simp_all add: frame_simps)
qed

lemma setClusterFreq_inv:
  assumes "freq_inv env st"
  shows "freq_inv env (setClusterFreq env (int cl) st)"
proof (cases "int cl < nClusterNum st")
  case True
  let ?is = "[0..<nat (cpuNum (ptClusterTbl st ! cl))]"
  have "\<forall>i \<in> set ?is. int i < cpuNum (ptClusterTbl st ! cl)" by auto
  then have "freq_inv env (set_cluster_loop env (int cl) ?is (updateClusterFreqInfo env (int cl) st))"
    using True by (intro set_cluster_loop_inv updateClusterFreqInfo_inv assms) (simp_all add: frame_simps)
  then show ?thesis using True by (simp add: setClusterFreq_def)
qed (use assms in \<open>simp add: setClusterFreq_def\<close>)

lemma emit_other_inv:
  "freq_inv env st \<Longrightarrow> p \<noteq> PATH_PROC_CPU_CTRL \<Longrightarrow> freq_inv env (emit (Write p t) st)"
  by (rule freq_inv_transfer [of env st])
    (auto simp: same_topo_def hard_ok_def req_ok_def freq_inv_def cmd_ok_def)

lemma setClusterHardFreq_inv:
  "freq_inv env st \<Longrightarrow> freq_inv env (setClusterHardFreq env (int cl) st)"
  by (simp add: setClusterHardFreq_def setClusterFreq_inv emit_other_inv)

text \<open>Storing a request in a table.\<close>

lemma freq_inv_flags [simp]:
  "freq_inv env (st\<lparr>cpufreqNeedUpdate := b\<rparr>) = freq_inv env st"
  "freq_inv env (st\<lparr>cpufreqHardNeedUpdate := b\<rparr>) = freq_inv env st"
  by (simp_all add: freq_inv_def topo_wf_def cluster_wf_def in_cluster_def hard_ok_def req_ok_def cmd_ok_def Let_def)

lemma upd_cluster_inv:
  assumes "freq_inv env st"
    and "\<And>c. cpuNum (f c) = cpuNum c \<and> cpuFirstIndex (f c) = cpuFirstIndex c \<and>
              freqMin (f c) = freqMin c \<and> freqMax (f c) = freqMax c"
    and "\<And>c. 0 \<le> freqHardMinNow c \<Longrightarrow> 0 \<le> freqHardMinNow (f c)"
  shows "freq_inv env (upd_cluster cl f st)"
proof -
  let ?st' = "upd_cluster cl f st"
  have w: "topo_wf st" "hard_ok st" "req_ok st" using assms by (auto simp: freq_inv_def)
  have "same_topo st ?st'" using assms(2) by (simp add: same_topo_def map_list_update_id)
  moreover have "hard_ok ?st'" using w(2) assms(2)
    by (cases "cl < length (ptClusterTbl st)") (auto simp: hard_ok_def Let_def nth_list_update)
  moreover have "req_ok ?st'"
    using w(3) assms(3)
    by (cases "cl < length (ptClusterTbl st)") (auto simp: req_ok_def dest!: subsetD [OF set_update_subset_insert])
  ultimately show ?thesis by (rule freq_inv_transfer [OF assms(1)]) simp
qed

lemma upd_core_inv:
  assumes "freq_inv env st" "\<And>k. byCore (f k) = byCore k \<and> cluster (f k) = cluster k"
  shows "freq_inv env (upd_core i f st)"
proof -
  let ?st' = "upd_core i f st"
  have "same_topo st ?st'" using assms(2) by (simp add: same_topo_def map_list_update_id)
  moreover have "hard_ok ?st'" using assms(1) by (simp add: freq_inv_def hard_ok_def)
  moreover have "req_ok ?st'" using assms(1) by (simp add: freq_inv_def req_ok_def)
  ultimately show ?thesis by (rule freq_inv_transfer [OF assms(1)]) simp
qed

lemma cluster_request_inv:
  assumes "freq_inv env st"
  shows "freq_inv env (setCPUFreqMinCluster env i f st)" "freq_inv env (setCPUFreqMaxCluster env i f st)"
    "-1 \<le> f \<Longrightarrow> freq_inv env (setCPUFreqHardMinCluster env i f st)"
    "freq_inv env (setCPUFreqHardMaxCluster env i f st)"
proof -
  have if_inv: "freq_inv env (if b then s else t)" if "freq_inv env s" "freq_inv env t" for b s t
    using that by simp
  have soft: "freq_inv env (st\<lparr>cpufreqNeedUpdate := True\<rparr>)" and hard: "freq_inv env (st\<lparr>cpufreqHardNeedUpdate := True\<rparr>)"
    using assms by simp_all
  show "freq_inv env (setCPUFreqMinCluster env i f st)"
    unfolding setCPUFreqMinCluster_def Let_def
    by (intro if_inv soft setClusterFreq_inv upd_cluster_inv) simp_all
  show "freq_inv env (setCPUFreqMaxCluster env i f st)"
    unfolding setCPUFreqMaxCluster_def Let_def
    by (intro if_inv soft setClusterFreq_inv upd_cluster_inv) simp_all
  show "freq_inv env (setCPUFreqHardMinCluster env i f st)" if "-1 \<le> f"
    unfolding setCPUFreqHardMinCluster_def Let_def
    using that by (intro if_inv hard setClusterHardFreq_inv upd_cluster_inv) simp_all
  show "freq_inv env (setCPUFreqHardMaxCluster env i f st)"
    unfolding setCPUFreqHardMaxCluster_def Let_def
    by (intro if_inv hard setClusterHardFreq_inv upd_cluster_inv) simp_all
qed

lemma core_request_inv:
  assumes inv: "freq_inv env st"
  shows "freq_inv env (setCPUFreqMinCore env i f st)" "freq_inv env (setCPUFreqMaxCore env i f st)"
proof -
  have upd: "freq_inv env (setCPUFreq env (int (cluster (ptCoreTbl st ! i))) (int i) (upd_core i g (st\<lparr>cpufreqNeedUpdate := True\<rparr>)))"
    if "int i < nCpuNum st" "\<And>k. byCore (g k) = byCore k \<and> cluster (g k) = cluster k" for g
  proof -
    have "i < length (ptCoreTbl st)" using inv that(1) by (simp add: freq_inv_def topo_wf_def)
    then show ?thesis using inv that by (intro setCPUFreq_inv upd_core_inv) simp_all
  qed
  show "freq_inv env (setCPUFreqMinCore env i f st)" "freq_inv env (setCPUFreqMaxCore env i f st)"
    using inv upd by (simp_all add: setCPUFreqMinCore_def setCPUFreqMaxCore_def Let_def)
qed

lemma report_inv:
  assumes "freq_inv env st" shows "freq_inv env (recordCPUFreqInfo m st)"
proof -
  let ?st' = "recordCPUFreqInfo m st"
  have "same_topo st ?st'" by (simp add: recordCPUFreqInfo_def same_topo_def)
  moreover have "hard_ok ?st'" using assms by (simp add: recordCPUFreqInfo_def freq_inv_def hard_ok_def)
  moreover have "req_ok ?st'" using assms by (simp add: recordCPUFreqInfo_def freq_inv_def req_ok_def)
  ultimately show ?thesis
    by (rule freq_inv_transfer [OF assms])
      (auto simp: recordCPUFreqInfo_def notifyCap_def Let_def cmd_ok_def split: if_splits)
qed

lemma freq_step_inv: "freq_inv env st \<Longrightarrow> event_ok e \<Longrightarrow> freq_inv env (freq_step env e st)"
  by (cases e) (simp_all add: cluster_request_inv core_request_inv report_inv)

text \<open>The limits after \<open>initCPUFreqInfo\<close>.\<close>

lemma init_core_frame [frame_simps]:
  "ptClusterTbl (init_core i st) = ptClusterTbl st" "ptCoreTbl (init_core i st) = ptCoreTbl st"
  "hard_freq (init_core i st) = hard_freq st" "out (init_core i st) = out st"
  "nClusterNum (init_core i st) = nClusterNum st" "nCpuNum (init_core i st) = nCpuNum st"
  "same_topo st (init_core i st)"
  by (simp_all add: init_core_def Let_def same_topo_def)

lemma init_cluster_frame [frame_simps]:
  "ptClusterTbl (init_cluster i st) = ptClusterTbl st" "ptCoreTbl (init_cluster i st) = ptCoreTbl st"
  "out (init_cluster i st) = out st"
  "nClusterNum (init_cluster i st) = nClusterNum st" "nCpuNum (init_cluster i st) = nCpuNum st"
  "length (hard_freq (init_cluster i st)) = length (hard_freq st)"
  "same_topo st (init_cluster i st)"
  by (simp_all add: init_cluster_def Let_def same_topo_def)

lemma init_cores_frame:
  "same_topo st (fold init_core is st) \<and> out (fold init_core is st) = out st \<and>
   ptClusterTbl (fold init_core is st) = ptClusterTbl st"
  by (induction "is" arbitrary: st) (auto simp: frame_simps intro: same_topo_trans [OF init_core_frame(7)])

lemma init_clusters_frame:
  "same_topo st (fold init_cluster is st) \<and> out (fold init_cluster is st) = out st \<and>
   ptClusterTbl (fold init_cluster is st) = ptClusterTbl st"
  by (induction "is" arbitrary: st) (auto simp: frame_simps intro: same_topo_trans [OF init_cluster_frame(7)])

lemma init_clusters_hard:
  assumes "distinct is" "\<forall>i \<in> set is. i < length (hard_freq st)"
  shows "hard_freq (fold init_cluster is st) ! i =
       (if i \<in> set is then no_setter ((hard_freq st ! i)\<lparr>f_min := 0, f_max := freqMax (ptClusterTbl st ! i)\<rparr>)
        else hard_freq st ! i)"
  using assms
proof (induction "is" arbitrary: st)
  case Nil
  then show ?case by simp
next
  case (Cons a "is")
  let ?st = "init_cluster a st"
  have "hard_freq ?st ! i = (if i = a then no_setter ((hard_freq st ! i)\<lparr>f_min := 0, f_max := freqMax (ptClusterTbl st ! i)\<rparr>)
      else hard_freq st ! i)"
    using Cons.prems by (simp add: init_cluster_def Let_def)
  moreover have "\<forall>i \<in> set is. i < length (hard_freq ?st)" using Cons.prems by (simp add: frame_simps)
  ultimately show ?case
    using Cons.IH [of ?st] Cons.prems by (cases "i = a") (simp_all add: frame_simps)
qed

lemma init_freq_inv:
  assumes "topo_wf st" "req_ok st" "out st = []"
  shows "freq_inv env (initCPUFreqInfo st)"
proof -
  let ?s1 = "fold init_core [0..<nat (nCpuNum st)] st" and ?is = "[0..<nat (nClusterNum st)]"
  note c = init_cores_frame [of st "[0..<nat (nCpuNum st)]"]
  have n: "nClusterNum ?s1 = nClusterNum st" using c by (auto simp: same_topo_def)
  have w1: "topo_wf ?s1" using same_topo_wf [OF _ assms(1)] c by blast
  have "length (hard_freq ?s1) = 8" "nClusterNum ?s1 \<le> 8" using w1 unfolding topo_wf_def by blast+
  then have l: "\<forall>i \<in> set ?is. i < length (hard_freq ?s1)" using n by auto
  let ?s2 = "fold init_cluster ?is ?s1"
  note f = init_clusters_frame [of ?s1 ?is]
  have st: "same_topo ?s1 ?s2" using f by blast
  have w2: "topo_wf ?s2" by (rule same_topo_wf [OF st w1])
  have n2: "nClusterNum ?s2 = nClusterNum st" using st n by (auto simp: same_topo_def)
  have "hard_ok ?s2" unfolding hard_ok_def
  proof (intro allI impI)
    fix i assume i: "i < nat (nClusterNum ?s2)"
    then have "cluster_wf ?s2 i" using w2 by (auto simp: topo_wf_def)
    then show "let ha = hard_freq ?s2 ! i in 0 \<le> f_min ha \<and> f_min ha \<le> f_max ha \<and> f_max ha \<le> freqMax (ptClusterTbl ?s2 ! i)"
      using f init_clusters_hard [OF distinct_upt l, of i] i n2 by (simp add: Let_def no_setter_def cluster_wf_def)
  qed
  moreover have "req_ok ?s2" using assms(2) f c by (simp add: req_ok_def)
  moreover have "out ?s2 = []" using f c assms(3) by simp
  ultimately show ?thesis using w2 by (simp add: freq_inv_def initCPUFreqInfo_def)
qed

section \<open>Properties\<close>

text \<open>
  A small machine for the concrete instances: two clusters of two CPUs each, the second set CPU by CPU.
\<close>

definition demo_cf :: cpufreq where
  "demo_cf = \<lparr>f_min = 0, rscTblMinIdx = 0, curMinFreqSetter = -1, curMinFreqSetterName = ''-1'', curMinFreqSetterHint = -1,
     f_max = 0, rscTblMaxIdx = 0, curMaxFreqSetter = -1, curMaxFreqSetterName = ''-1'', curMaxFreqSetterHint = -1\<rparr>"

definition demo_cluster :: "int \<Rightarrow> int list \<Rightarrow> tClusterInfo" where
  "demo_cluster first tbl = \<lparr>cpuNum = 2, cpuFirstIndex = first, cpuMinNow = -1, cpuMaxNow = 2, pFreqTbl = tbl,
     freqCount = int (length tbl), freqMin = hd tbl, freqMax = last tbl, freqMinNow = 0, freqMaxNow = last tbl,
     freqHardMinNow = 0, freqHardMaxNow = last tbl, sysfsMinPath = [], sysfsMaxPath = []\<rparr>"

definition demo_core :: "bool \<Rightarrow> nat \<Rightarrow> int \<Rightarrow> tCoreInfo" where
  "demo_core b cl mx = \<lparr>byCore = b, policy = 0, cluster = cl, core_freqMinNow = 0, core_freqMaxNow = mx\<rparr>"

definition demo_cpu :: cpu where
  "demo_cpu = \<lparr>nClusterNum = 2, nCpuNum = 4, CpuFreqReady = True,
     gtDrvInfo = \<lparr>perfmgrLegacy = False, perfmgrCpu = False, ppmSupport = False, ppmAll = False, acao = False,
       hmp = True, sysfs = True, dvfs = False, turbo = False, hard_user_limit = False, proc_powerhal_cpu_ctrl = True\<rparr>,
     ptClusterTbl = [demo_cluster 0 [500, 1000, 2000], demo_cluster 2 [800, 1500, 3000]],
     ptCoreTbl = [demo_core False 0 2000, demo_core False 0 2000, demo_core True 1 3000, demo_core True 1 3000],
     soft_freq = replicate 8 demo_cf, hard_freq = replicate 8 demo_cf, soft_core_freq = replicate 8 demo_cf,
     freq_to_set = replicate 8 demo_cf, default_core_min = [4, 2, 0, 0, 0, 0, 0, 0],
     cpufreqNeedUpdate = False, cpufreqHardNeedUpdate = False, core_ctl_dev_fd = -1, scn_cores_now = 0, out = []\<rparr>"

definition demo_rsc :: tRscCtlEntry where
  "demo_rsc = \<lparr>r_curVal = 0, r_curSetter = 5, r_curSetterName = ''game'', r_curSetterHint = 7, r_log = 0,
     r_isValid = 0, r_resetVal = -1, r_priority = 6\<rparr>"

definition demo_env :: cpu_env where
  "demo_env = \<lparr>rsc_tbl = [demo_rsc], str0 = '''', write_ok = (\<lambda>_ _. True), core_ctl_open = 5, core_ctl_missing = False\<rparr>"

lemmas demo_cpu_defs = demo_cpu_def demo_cluster_def demo_core_def demo_cf_def

lemma all_less_4: "(\<forall>i < (4::nat). P i) = (P 0 \<and> P 1 \<and> P 2 \<and> P 3)"
  by (simp add: All_less_Suc numeral_eq_Suc conj_ac)

lemma all_less_2: "(\<forall>i < (2::nat). P i) = (P 0 \<and> P 1)"
  by (simp add: All_less_Suc numeral_eq_Suc conj_ac)

lemma demo_topo_wf: "topo_wf demo_cpu"
  by (simp add: topo_wf_def cluster_wf_def in_cluster_def Let_def all_less_4 all_less_2 demo_cpu_defs)

lemma demo_freq_inv: "freq_inv demo_env (initCPUFreqInfo demo_cpu)"
  by (rule init_freq_inv [OF demo_topo_wf]) (simp_all add: req_ok_def demo_cpu_defs)

text \<open>
  C23. On a well-formed topology, setting a CPU computes the specified pair of limits: the floor is
  the largest of the cluster floor and the core floors that govern the CPU, the ceiling the
  smallest of the ceilings but at least the floor, and both are clamped into the hard limits of
  the cluster. The floor never exceeds the ceiling, and exactly this pair is sent to the kernel,
  for the CPU itself or for the first CPU of a cluster that is set as a whole.
\<close>

theorem setCPUFreq_limits:
  assumes "topo_wf st" "hard_ok st" "int cp < nCpuNum st" "cl = cluster (ptCoreTbl st ! cp)"
    and "proc_powerhal_cpu_ctrl (gtDrvInfo st)" "(lo, hi) = limits_spec (with_core env cl cp st) cl cp"
  shows "(\<exists>tail. set tail \<subseteq> {Write_fail} \<and> out (setCPUFreq env (int cl) (int cp) st) = out st @
      Write PATH_PROC_CPU_CTRL (cpu_ctrl_text (str0 env) (target_cpu st cl cp) lo hi) # tail) \<and>
    lo \<le> hi \<and> f_min (hard_freq st ! cl) \<le> lo \<and> hi \<le> f_max (hard_freq st ! cl)"
proof (intro conjI)
  have h: "hard_ok (with_core env cl cp st)" using assms(2) by (simp add: hard_ok_def frame_simps)
  show "\<exists>tail. set tail \<subseteq> {Write_fail} \<and> out (setCPUFreq env (int cl) (int cp) st) = out st @
      Write PATH_PROC_CPU_CTRL (cpu_ctrl_text (str0 env) (target_cpu st cl cp) lo hi) # tail"
    using setCPUFreq_out [OF assms(1-5), of env] assms(6) [symmetric] by simp
  show "lo \<le> hi" "f_min (hard_freq st ! cl) \<le> lo" "hi \<le> f_max (hard_freq st ! cl)"
    using limits_spec_bounds [OF h _ assms(6)] topo_wfD(1) [OF assms(1,3,4)] by (simp_all add: frame_simps)
qed

definition demo_core_req :: cpu where
  "demo_core_req = upd_core 2 (\<lambda>k. k\<lparr>core_freqMinNow := 2500\<rparr>) (initCPUFreqInfo demo_cpu)"

theorem setCPUFreq_limits_witness:
  "limits_spec (with_core demo_env 1 2 demo_core_req) 1 2 = (2500, 3000) \<and>
   (\<exists>tail. set tail \<subseteq> {Write_fail} \<and> out (setCPUFreq demo_env 1 2 demo_core_req) = out demo_core_req @
      Write PATH_PROC_CPU_CTRL ''2 2500 3000'' # tail)"
proof (rule conjI)
  have inv: "freq_inv demo_env demo_core_req"
    unfolding demo_core_req_def by (rule upd_core_inv [OF demo_freq_inv]) simp
  show l: "limits_spec (with_core demo_env 1 2 demo_core_req) 1 2 = (2500, 3000)" by code_simp
  have "int 2 < nCpuNum demo_core_req" "1 = cluster (ptCoreTbl demo_core_req ! 2)"
    "proc_powerhal_cpu_ctrl (gtDrvInfo demo_core_req)" by code_simp+
  note r = setCPUFreq_limits [OF _ _ this l [symmetric], THEN conjunct1]
  have t: "cpu_ctrl_text (str0 demo_env) (target_cpu demo_core_req 1 2) 2500 3000 = ''2 2500 3000''" by code_simp
  show "\<exists>tail. set tail \<subseteq> {Write_fail} \<and> out (setCPUFreq demo_env 1 2 demo_core_req) = out demo_core_req @
      Write PATH_PROC_CPU_CTRL ''2 2500 3000'' # tail"
    using r inv unfolding t by (simp add: freq_inv_def)
qed

text \<open>
  C24. Starting from the initial limits of a well-formed topology, after any sequence of cluster,
  hard and core requests (a hard floor is a frequency or the reset value -1) and reports, the
  hard limits of every cluster are ordered and at most its top frequency, and every command ever
  written to the frequency node names an existing CPU and an ordered pair of non-negative
  frequencies, at most the top frequency of the CPU's cluster.
\<close>

theorem freq_requests_bounded:
  assumes "topo_wf st" "req_ok st" "out st = []" "\<forall>e \<in> set es. event_ok e"
  shows "freq_inv env (fold (freq_step env) es (initCPUFreqInfo st))"
  using assms(4) init_freq_inv [OF assms(1-3), of env]
  by (intro fold_invariant_list [where P = "freq_inv env"]) (auto intro: freq_step_inv)

theorem freq_requests_bounded_witness:
  "freq_inv demo_env (fold (freq_step demo_env)
     [Hard_max 0 1200, Cluster_min 0 1800, Core_min 2 2500, Cluster_max 1 1500, Hard_min 1 (-1), Report 1]
     (initCPUFreqInfo demo_cpu))"
  by (rule freq_requests_bounded [OF demo_topo_wf]) (simp_all add: req_ok_def demo_cpu_defs)

text \<open>
  On a CPU whose cluster is set as a whole, a core request has no effect on the limits: the
  commands sent to the kernel are the same whatever frequency is requested, although the code
  scans the core limits of such a cluster for the largest floor and the smallest ceiling.
\<close>

theorem core_request_ignored:
  assumes "\<not> byCore (ptCoreTbl st ! core)"
  shows "out (setCPUFreqMinCore env core f st) = out (setCPUFreqMinCore env core g st) \<and>
    out (setCPUFreqMaxCore env core f st) = out (setCPUFreqMaxCore env core g st)"
proof -
  have nb: "byCore ((upd core (\<lambda>k. k\<lparr>core_freqMinNow := x\<rparr>) (ptCoreTbl st)) ! i) = byCore (ptCoreTbl st ! i)"
    "byCore ((upd core (\<lambda>k. k\<lparr>core_freqMaxNow := x\<rparr>) (ptCoreTbl st)) ! i) = byCore (ptCoreTbl st ! i)" for x i
    by (cases "core < length (ptCoreTbl st)"; simp add: nth_list_update)+
  have lim: "cpu_limits (st\<lparr>cpufreqNeedUpdate := True, ptCoreTbl := t\<rparr>) cl core = cpu_limits st cl core"
    if "byCore (t ! core) = byCore (ptCoreTbl st ! core)" for t cl
    using that by (simp add: cpu_limits_def soft_floor_def soft_ceiling_def Let_def)
  show ?thesis
    using assms by (simp add: setCPUFreqMinCore_def setCPUFreqMaxCore_def setCPUFreq_def Let_def nb lim frame_simps split: prod.split)
qed

theorem core_request_ignored_witness:
  "out (setCPUFreqMinCore demo_env 1 1000 (initCPUFreqInfo demo_cpu)) = [Write PATH_PROC_CPU_CTRL ''0 500 2000''] \<and>
   out (setCPUFreqMinCore demo_env 1 1000 (initCPUFreqInfo demo_cpu)) = out (setCPUFreqMinCore demo_env 1 (-1) (initCPUFreqInfo demo_cpu))"
proof -
  have b: "\<not> byCore (ptCoreTbl (initCPUFreqInfo demo_cpu) ! 1)" by code_simp
  have "out (setCPUFreqMinCore demo_env 1 1000 (initCPUFreqInfo demo_cpu)) = [Write PATH_PROC_CPU_CTRL ''0 500 2000'']"
    by code_simp
  with core_request_ignored [OF b, of demo_env 1000 "-1"] show ?thesis by simp
qed

section \<open>Operating points\<close>

lemma closest_loop_spec:
  assumes "min_diff = \<bar>target - closest\<bar>"
  shows "closest_loop target ns closest min_diff \<in> insert closest (set ns) \<and>
    (\<forall>n \<in> insert closest (set ns). \<bar>target - closest_loop target ns closest min_diff\<bar> \<le> \<bar>target - n\<bar>)"
  using assms
proof (induction ns arbitrary: closest min_diff)
  case Nil
  then show ?case by simp
next
  case (Cons n ns)
  show ?case
  proof (cases "\<bar>target - n\<bar> < min_diff")
    case True
    then show ?thesis using Cons.IH [of "\<bar>target - n\<bar>" n] Cons.prems by (fastforce simp: Let_def)
  next
    case False
    then show ?thesis using Cons.IH [of min_diff closest] Cons.prems by (fastforce simp: Let_def)
  qed
qed

lemma findClosestNumber_spec:
  assumes "ns \<noteq> []"
  shows "findClosestNumber ns t \<in> set ns"
    "\<forall>n \<in> set ns. \<bar>t - findClosestNumber ns t\<bar> \<le> \<bar>t - n\<bar>"
proof -
  obtain m ms where "ns = m # ms" using assms by (cases ns) auto
  then show "findClosestNumber ns t \<in> set ns" "\<forall>n \<in> set ns. \<bar>t - findClosestNumber ns t\<bar> \<le> \<bar>t - n\<bar>"
    using closest_loop_spec [OF refl, of t ns m] by (auto simp: findClosestNumber_def)
qed

lemma findClosestNumber_member: "t \<in> set ns \<Longrightarrow> findClosestNumber ns t = t"
  using findClosestNumber_spec(2) [of ns t] by fastforce

lemma last_index_fold:
  assumes "distinct xs" "k < length xs" "n \<le> length xs"
  shows "fold (\<lambda>i o1. if xs ! i = xs ! k then int i else o1) [0..<n] a = (if k < n then int k else a)"
  using assms(3)
proof (induction n)
  case 0
  then show ?case by simp
next
  case (Suc n)
  then show ?case using assms(1,2) by (simp add: nth_eq_iff_index_eq less_Suc_eq)
qed

text \<open>A frequency table: as many entries as counted, in strictly increasing order.\<close>

definition opp_table_ok :: "cpu \<Rightarrow> int \<Rightarrow> bool" where
  "opp_table_ok st cid \<longleftrightarrow> 0 \<le> cid \<and> cid < nClusterNum st \<and>
     (let c = ptClusterTbl st ! nat cid in
      freqCount c = int (length (pFreqTbl c)) \<and> sorted_wrt (<) (pFreqTbl c))"

lemma getCPUFreqToOpp_exact:
  assumes "opp_table_ok st cid" "k < length (pFreqTbl (ptClusterTbl st ! nat cid))"
  shows "getCPUFreqToOpp st cid (pFreqTbl (ptClusterTbl st ! nat cid) ! k) =
    (if k = 0 then 0 else freqCount (ptClusterTbl st ! nat cid) - 1 - int k)"
proof -
  let ?c = "ptClusterTbl st ! nat cid" and ?t = "pFreqTbl (ptClusterTbl st ! nat cid)"
  have t: "freqCount ?c = int (length ?t)" "distinct ?t" "0 \<le> cid" "cid < nClusterNum st"
    using assms(1) strict_sorted_iff by (auto simp: opp_table_ok_def Let_def)
  have "findClosestNumber ?t (?t ! k) = ?t ! k" using assms(2) by (intro findClosestNumber_member) simp
  then show ?thesis
    using t assms(2) last_index_fold [OF t(2) assms(2) le_refl, of 0]
    by (simp add: getCPUFreqToOpp_def Let_def)
qed

text \<open>
  Round trip of operating points: for every point but the last of a strictly increasing
  frequency table, the point of the frequency of a point is that point.
\<close>

theorem opp_roundtrip:
  assumes "opp_table_ok st cid" "0 \<le> opp" "opp < getCPUFreqOppCnt st cid"
  shows "getCPUFreqToOpp st cid (getCPUFreq st cid opp) = opp"
proof -
  let ?c = "ptClusterTbl st ! nat cid" and ?t = "pFreqTbl (ptClusterTbl st ! nat cid)"
  have t: "freqCount ?c = int (length ?t)" "0 \<le> cid" "cid < nClusterNum st"
    using assms(1) by (auto simp: opp_table_ok_def Let_def)
  let ?k = "nat (freqCount ?c - 1 - opp)"
  have k: "?k < length ?t" "?k \<noteq> 0" "int ?k = freqCount ?c - 1 - opp"
    using assms(2,3) t by (auto simp: getCPUFreqOppCnt_def)
  have "getCPUFreq st cid opp = ?t ! ?k"
    using assms(2,3) t by (simp add: getCPUFreq_def getCPUFreqOppCnt_def Let_def)
  then show ?thesis using getCPUFreqToOpp_exact [OF assms(1) k(1)] k(2,3) by simp
qed

lemma demo_opp_table: "opp_table_ok demo_cpu 1"
  by (simp add: opp_table_ok_def demo_cpu_defs)

theorem opp_roundtrip_witness:
  "getCPUFreq demo_cpu 1 1 = 1500 \<and> getCPUFreqToOpp demo_cpu 1 (getCPUFreq demo_cpu 1 1) = 1"
proof -
  have "(1::int) < getCPUFreqOppCnt demo_cpu 1" by code_simp
  moreover have "getCPUFreq demo_cpu 1 1 = 1500" by code_simp
  ultimately show ?thesis using opp_roundtrip [OF demo_opp_table, of 1] by simp
qed

text \<open>
  The last point is the exception: the lowest frequency of every table with two or more
  entries is reported as point 0, the point of the highest frequency.
\<close>

theorem lowest_freq_is_opp_zero:
  assumes "opp_table_ok st cid" "0 < getCPUFreqOppCnt st cid"
  shows "getCPUFreqToOpp st cid (getCPUFreq st cid (getCPUFreqOppCnt st cid)) = 0 \<and>
    getCPUFreq st cid 0 > getCPUFreq st cid (getCPUFreqOppCnt st cid)"
proof -
  let ?c = "ptClusterTbl st ! nat cid" and ?t = "pFreqTbl (ptClusterTbl st ! nat cid)"
  have t: "freqCount ?c = int (length ?t)" "sorted_wrt (<) ?t" "0 \<le> cid" "cid < nClusterNum st"
    using assms(1) by (auto simp: opp_table_ok_def Let_def)
  have n: "getCPUFreqOppCnt st cid = int (length ?t) - 1" "1 < length ?t"
    using assms(2) t by (auto simp: getCPUFreqOppCnt_def)
  have lo: "getCPUFreq st cid (getCPUFreqOppCnt st cid) = ?t ! 0" and hi: "getCPUFreq st cid 0 = ?t ! (length ?t - 1)"
    using t n by (auto simp: getCPUFreq_def Let_def nat_diff_distrib)
  have "getCPUFreqToOpp st cid (?t ! 0) = 0"
    using getCPUFreqToOpp_exact [OF assms(1), of 0] n(2) by fastforce
  moreover have "?t ! 0 < ?t ! (length ?t - 1)"
    using sorted_wrt_nth_less [OF t(2), of 0 "length ?t - 1"] n(2) by simp
  ultimately show ?thesis unfolding lo hi by simp
qed

theorem lowest_freq_is_opp_zero_witness:
  "getCPUFreqToOpp demo_cpu 1 (getCPUFreq demo_cpu 1 (getCPUFreqOppCnt demo_cpu 1)) = 0"
proof -
  have "0 < getCPUFreqOppCnt demo_cpu 1" by code_simp
  then show ?thesis using lowest_freq_is_opp_zero [OF demo_opp_table] by simp
qed

section \<open>Core control\<close>

text \<open>What a core request sends: an ordered range of cores that the cluster has.\<close>

definition core_msg_ok :: "cpu \<Rightarrow> cpu_out \<Rightarrow> bool" where
  "core_msg_ok st o1 \<longleftrightarrow> (\<forall>i mn mx. o1 = Core_ctl i mn mx \<longrightarrow>
     0 \<le> mn \<and> mn \<le> mx \<and> mx \<le> cpuNum (ptClusterTbl st ! i))"

definition core_ok :: "cpu \<Rightarrow> bool" where
  "core_ok st \<longleftrightarrow> length (ptClusterTbl st) = nat (nClusterNum st) \<and>
     (\<forall>i < nat (nClusterNum st). 0 \<le> default_core_min st ! i \<and>
        default_core_min st ! i \<le> cpuNum (ptClusterTbl st ! i))"

lemma core_ctl_msg_ok:
  assumes "0 \<le> default_core_min st ! i" "default_core_min st ! i \<le> cpuNum (ptClusterTbl st ! i)"
    and "mn \<le> mx \<or> mx < 0" "c = ptClusterTbl st ! i"
  shows "core_msg_ok st (core_ctl_msg st i (core_pair 0 c mn mx))"
  using assms by (auto simp: core_msg_ok_def core_ctl_msg_def core_pair_def split: if_splits)

lemma upd_nth_cases: "j < length xs \<Longrightarrow> xs[i := x] ! j = xs ! j \<or> xs[i := x] ! j = x"
  by (cases "i = j") simp_all

lemma if_upd_nth_cases:
  "j < length xs \<Longrightarrow> (if b then xs[i := x] else xs) ! j = xs ! j \<or> (if b then xs[i := x] else xs) ! j = x"
  using upd_nth_cases [of j xs i x] by simp

lemma check_core_ctl_frame [frame_simps]:
  "ptClusterTbl (snd (check_core_ctl_ioctl env st)) = ptClusterTbl st"
  "default_core_min (snd (check_core_ctl_ioctl env st)) = default_core_min st"
  "nClusterNum (snd (check_core_ctl_ioctl env st)) = nClusterNum st"
  "out (snd (check_core_ctl_ioctl env st)) = out st"
  by (simp_all add: check_core_ctl_ioctl_def Let_def)

lemma setCPUCores_ok:
  assumes "core_ok st" "o1 \<in> set (out (setCPUCores env st))" "o1 \<notin> set (out st)"
  shows "core_msg_ok st o1"
proof (cases o1)
  case (Core_ctl i a b)
  let ?cs = "take (nat (nClusterNum st)) (ptClusterTbl st)"
  let ?mn = "map (\<lambda>c. if cpuMinNow c > cpuNum c then PPM_IGNORE else cpuMinNow c) ?cs"
  let ?raw = "map (\<lambda>(c, mn). if cpuMaxNow c < mn then mn else cpuMaxNow c) (zip ?cs ?mn)"
  let ?mx = "if nClusterNum st > 1 \<and> ?raw ! 1 = 0 \<and> ?raw ! 0 = 0 then ?raw[0 := PPM_IGNORE] else ?raw"
  let ?sta = "if scn_cores_now st < sum_list ?mn then st\<lparr>scn_cores_now := sum_list ?mn\<rparr> else st"
  have n: "length (ptClusterTbl st) = nat (nClusterNum st)" using assms(1) by (simp add: core_ok_def)
  obtain r s where rs: "check_core_ctl_ioctl env ?sta = (r, s)" by fastforce
  have s: "ptClusterTbl s = ptClusterTbl st" "default_core_min s = default_core_min st" "out s = out st"
    using check_core_ctl_frame [of env ?sta] unfolding rs by auto
  have "\<exists>j < nat (nClusterNum st). o1 = core_ctl_msg s j (core_pair 0 (ptClusterTbl st ! j) (?mn ! j) (?mx ! j))"
    using assms(2,3) Core_ctl rs s
    by (auto simp: setCPUCores_def setClusterCores_def Let_def split: if_splits prod.splits)
  then obtain j where j: "j < nat (nClusterNum st)"
    "o1 = core_ctl_msg s j (core_pair 0 (ptClusterTbl st ! j) (?mn ! j) (?mx ! j))" by blast
  have "?mn ! j \<le> ?raw ! j" using j(1) n by simp
  moreover have "?mx ! j = ?raw ! j \<or> ?mx ! j = -1"
    by (rule if_upd_nth_cases) (use j(1) n in simp)
  ultimately have "?mn ! j \<le> ?mx ! j \<or> ?mx ! j < 0" by linarith
  then have "core_msg_ok s o1"
    unfolding j(2) using assms(1) j(1) s by (intro core_ctl_msg_ok) (simp_all add: core_ok_def)
  then show ?thesis using s by (simp add: core_msg_ok_def)
qed (simp_all add: core_msg_ok_def)

lemma core_ok_upd:
  assumes "core_ok st" "\<And>c. cpuNum (f c) = cpuNum c"
  shows "core_ok (upd_cluster cl f st)" "core_msg_ok (upd_cluster cl f st) o1 = core_msg_ok st o1"
proof -
  have "cpuNum (upd cl f (ptClusterTbl st) ! i) = cpuNum (ptClusterTbl st ! i)" for i
    using assms(2) by (cases "cl < length (ptClusterTbl st)"; cases "cl = i") simp_all
  then show "core_ok (upd_cluster cl f st)" "core_msg_ok (upd_cluster cl f st) o1 = core_msg_ok st o1"
    using assms(1) by (simp_all add: core_ok_def core_msg_ok_def)
qed

lemma core_ctrl_missing_frame:
  "core_ok (snd (core_ctrl_missing env st)) = core_ok st"
  "out (snd (core_ctrl_missing env st)) = out st"
  "core_msg_ok (snd (core_ctrl_missing env st)) o1 = core_msg_ok st o1"
  by (simp_all add: core_ctrl_missing_def Let_def core_ok_def core_msg_ok_def case_prod_beta frame_simps)

text \<open>
  Every message that a core request sends to the core-control device asks for an ordered,
  non-negative range of cores that the cluster has, whatever values are requested, provided the
  default minimum of every cluster is in its range.
\<close>

theorem core_requests_ordered:
  assumes "core_ok st" "o1 \<notin> set (out st)"
    and "o1 \<in> set (out (snd (setCPUCoreMinCluster env cl v st))) \<or> o1 \<in> set (out (snd (setCPUCoreMaxCluster env cl v st)))"
  shows "core_msg_ok st o1"
proof -
  let ?m = "snd (core_ctrl_missing env st)"
  have m: "core_ok ?m" "o1 \<notin> set (out ?m)" using assms(1,2) by (simp_all add: core_ctrl_missing_frame)
  have "core_msg_ok st o1"
    if "o1 \<in> set (out (setCPUCores env (upd_cluster cl f ?m)))" "\<And>c. cpuNum (f c) = cpuNum c" for f
  proof -
    have "core_msg_ok (upd_cluster cl f ?m) o1"
      using setCPUCores_ok [OF core_ok_upd(1) [OF m(1) that(2)] that(1)] m(2) by simp
    then show ?thesis using core_ok_upd(2) [OF m(1) that(2)] by (simp add: core_ctrl_missing_frame)
  qed
  then show ?thesis
    using assms(3) m(2)
    by (auto simp: setCPUCoreMinCluster_def setCPUCoreMaxCluster_def case_prod_beta split: if_splits)
qed

definition demo_core_ctl :: cpu where
  "demo_core_ctl = demo_cpu\<lparr>default_core_min := [2, 1, 0, 0, 0, 0, 0, 0]\<rparr>"

theorem core_requests_ordered_witness:
  "Core_ctl 1 2 2 \<in> set (out (snd (setCPUCoreMinCluster demo_env 1 2 demo_core_ctl))) \<and>
   core_msg_ok demo_core_ctl (Core_ctl 1 2 2)"
proof -
  have o1: "out (snd (setCPUCoreMinCluster demo_env 1 2 demo_core_ctl)) = [Core_ctl 0 2 2, Core_ctl 1 2 2]"
    by code_simp
  have "core_ok demo_core_ctl" by (simp add: core_ok_def demo_core_ctl_def demo_cpu_defs all_less_2)
  then show ?thesis
    using core_requests_ordered [of demo_core_ctl "Core_ctl 1 2 2" demo_env 1 2] o1
    by (simp add: demo_core_ctl_def demo_cpu_defs)
qed

text \<open>
  The first probe for a core-control device that does not exist reports success: the first
  core request of such a system is answered with success and its messages are sent to descriptor
  -2, while every later request fails.
\<close>

theorem missing_core_ctl_first_probe:
  assumes "core_ctl_dev_fd st = -1" "core_ctl_open env < 0" "core_ctl_missing env"
  shows "fst (check_core_ctl_ioctl env st) = 0 \<and> core_ctl_dev_fd (snd (check_core_ctl_ioctl env st)) = -2 \<and>
    fst (check_core_ctl_ioctl env (snd (check_core_ctl_ioctl env st))) = -2"
  using assms by (simp add: check_core_ctl_ioctl_def Let_def)

theorem missing_core_ctl_first_probe_witness:
  "fst (check_core_ctl_ioctl (demo_env\<lparr>core_ctl_open := -1, core_ctl_missing := True\<rparr>) demo_cpu) = 0"
  using missing_core_ctl_first_probe [of demo_cpu "demo_env\<lparr>core_ctl_open := -1, core_ctl_missing := True\<rparr>"]
  by (simp add: demo_cpu_defs)

end
