(* ===== verification/Rsc_Table.thy ===== *)
theory Rsc_Table
  imports Perf_State
begin

text \<open>
  The resource table of \<^verbatim>\<open>perfservice_rsccfgtbl.h\<close>, row by row: command id (the value of the
  \<^verbatim>\<open>PERF_RES_\<close> constant of \<^verbatim>\<open>mtkperf_resource.h\<close>), name, comparison, largest, smallest and default
  value, and the set, unset and init functions. The fields \<open>normalVal\<close>, \<open>sportVal\<close> and
  \<open>force_update\<close> of three rows are read nowhere and are left out of \<open>tRscConfig\<close>.
\<close>

definition rsc_row :: "int \<Rightarrow> string \<Rightarrow> rsc_comp \<Rightarrow> int \<Rightarrow> int \<Rightarrow> int \<Rightarrow> string option \<Rightarrow> string option \<Rightarrow>
    string option \<Rightarrow> tRscConfig" where
  "rsc_row i name cmp mx mn df set_f unset_f init_f = \<lparr>cmdID = i, cmdName = name, comp = cmp, maxVal = mx,
     minVal = mn, defaultVal = df, set_func = set_f, unset_func = unset_f, init_func = init_f\<rparr>"

definition RscCfgTbl_0 :: "tRscConfig list" where
  "RscCfgTbl_0 = [
    rsc_row 0x03404200 ''PERF_RES_POWERHAL_GAME_MODE_ENABLE'' BIGGEST 1 0 0
      (Some ''setGameMode'') (Some ''setGameMode'') None,
    rsc_row 0x00400000 ''PERF_RES_CPUFREQ_MIN_CLUSTER_0'' BIGGEST 5000000 0 (-1)
      (Some ''setCPUFreqMinCluster0'') (Some ''setCPUFreqMinCluster0'') None,
    rsc_row 0x00404000 ''PERF_RES_CPUFREQ_MAX_CLUSTER_0'' SMALLEST 5000000 0 (-1)
      (Some ''setCPUFreqMaxCluster0'') (Some ''setCPUFreqMaxCluster0'') None,
    rsc_row 0x00400100 ''PERF_RES_CPUFREQ_MIN_CLUSTER_1'' BIGGEST 5000000 0 (-1)
      (Some ''setCPUFreqMinCluster1'') (Some ''setCPUFreqMinCluster1'') None,
    rsc_row 0x00404100 ''PERF_RES_CPUFREQ_MAX_CLUSTER_1'' SMALLEST 5000000 0 (-1)
      (Some ''setCPUFreqMaxCluster1'') (Some ''setCPUFreqMaxCluster1'') None,
    rsc_row 0x00400200 ''PERF_RES_CPUFREQ_MIN_CLUSTER_2'' BIGGEST 5000000 0 (-1)
      (Some ''setCPUFreqMinCluster2'') (Some ''setCPUFreqMinCluster2'') None,
    rsc_row 0x00404200 ''PERF_RES_CPUFREQ_MAX_CLUSTER_2'' SMALLEST 5000000 0 (-1)
      (Some ''setCPUFreqMaxCluster2'') (Some ''setCPUFreqMaxCluster2'') None,
    rsc_row 0x00408000 ''PERF_RES_CPUFREQ_MIN_HL_CLUSTER_0'' BIGGEST 5000000 0 (-1)
      (Some ''setCPUFreqHardMinCluster0'') (Some ''setCPUFreqHardMinCluster0'') None,
    rsc_row 0x0040c000 ''PERF_RES_CPUFREQ_MAX_HL_CLUSTER_0'' SMALLEST 5000000 0 (-1)
      (Some ''setCPUFreqHardMaxCluster0'') (Some ''setCPUFreqHardMaxCluster0'') None,
    rsc_row 0x00408100 ''PERF_RES_CPUFREQ_MIN_HL_CLUSTER_1'' BIGGEST 5000000 0 (-1)
      (Some ''setCPUFreqHardMinCluster1'') (Some ''setCPUFreqHardMinCluster1'') None,
    rsc_row 0x0040c100 ''PERF_RES_CPUFREQ_MAX_HL_CLUSTER_1'' SMALLEST 5000000 0 (-1)
      (Some ''setCPUFreqHardMaxCluster1'') (Some ''setCPUFreqHardMaxCluster1'') None,
    rsc_row 0x00408200 ''PERF_RES_CPUFREQ_MIN_HL_CLUSTER_2'' BIGGEST 5000000 0 (-1)
      (Some ''setCPUFreqHardMinCluster2'') (Some ''setCPUFreqHardMinCluster2'') None]"

definition RscCfgTbl_1 :: "tRscConfig list" where
  "RscCfgTbl_1 = [
    rsc_row 0x0040c200 ''PERF_RES_CPUFREQ_MAX_HL_CLUSTER_2'' SMALLEST 5000000 0 (-1)
      (Some ''setCPUFreqHardMaxCluster2'') (Some ''setCPUFreqHardMaxCluster2'') None,
    rsc_row 0x00c00000 ''PERF_RES_GPU_FREQ_MIN'' SMALLEST 100 0 (-1)
      (Some ''setGPUFreqMinOPP'') (Some ''setGPUFreqMinOPP'') (Some ''gpuInit''),
    rsc_row 0x00c00100 ''PERF_RES_GPU_FREQ_MIN_HL'' SMALLEST 100 0 (-1)
      (Some ''setGPUFreqHardMinOPP'') (Some ''setGPUFreqHardMinOPP'') (Some ''gpuInit''),
    rsc_row 0x00c04000 ''PERF_RES_GPU_FREQ_MAX'' BIGGEST 100 0 (-1)
      (Some ''setGPUFreqMaxOPP'') (Some ''setGPUFreqMaxOPP'') (Some ''gpuInit''),
    rsc_row 0x00800000 ''PERF_RES_CPUCORE_MIN_CLUSTER_0'' BIGGEST 10 0 (-1)
      (Some ''setCPUCoreMinCluster0'') (Some ''setCPUCoreMinCluster0'') None,
    rsc_row 0x00804000 ''PERF_RES_CPUCORE_MAX_CLUSTER_0'' SMALLEST 10 0 (-1)
      (Some ''setCPUCoreMaxCluster0'') (Some ''setCPUCoreMaxCluster0'') None,
    rsc_row 0x00800100 ''PERF_RES_CPUCORE_MIN_CLUSTER_1'' BIGGEST 10 0 (-1)
      (Some ''setCPUCoreMinCluster1'') (Some ''setCPUCoreMinCluster1'') None,
    rsc_row 0x00804100 ''PERF_RES_CPUCORE_MAX_CLUSTER_1'' SMALLEST 10 0 (-1)
      (Some ''setCPUCoreMaxCluster1'') (Some ''setCPUCoreMaxCluster1'') None,
    rsc_row 0x00800200 ''PERF_RES_CPUCORE_MIN_CLUSTER_2'' BIGGEST 10 0 (-1)
      (Some ''setCPUCoreMinCluster2'') (Some ''setCPUCoreMinCluster2'') None,
    rsc_row 0x00804200 ''PERF_RES_CPUCORE_MAX_CLUSTER_2'' SMALLEST 10 0 (-1)
      (Some ''setCPUCoreMaxCluster2'') (Some ''setCPUCoreMaxCluster2'') None,
    rsc_row 0x00c04100 ''PERF_RES_GPU_FREQ_MAX_HL'' BIGGEST 100 0 (-1)
      (Some ''setGPUFreqHardMaxOPP'') (Some ''setGPUFreqHardMaxOPP'') (Some ''gpuInit''),
    rsc_row 0x00418000 ''PERF_RES_CPUFREQ_MIN_CORE_0'' BIGGEST 5000000 0 (-1)
      (Some ''setCPUFreqMinCore0'') (Some ''setCPUFreqMinCore0'') None]"

definition RscCfgTbl_2 :: "tRscConfig list" where
  "RscCfgTbl_2 = [
    rsc_row 0x0041c000 ''PERF_RES_CPUFREQ_MAX_CORE_0'' SMALLEST 5000000 0 (-1)
      (Some ''setCPUFreqMaxCore0'') (Some ''setCPUFreqMaxCore0'') None,
    rsc_row 0x00418100 ''PERF_RES_CPUFREQ_MIN_CORE_1'' BIGGEST 5000000 0 (-1)
      (Some ''setCPUFreqMinCore1'') (Some ''setCPUFreqMinCore1'') None,
    rsc_row 0x0041c100 ''PERF_RES_CPUFREQ_MAX_CORE_1'' SMALLEST 5000000 0 (-1)
      (Some ''setCPUFreqMaxCore1'') (Some ''setCPUFreqMaxCore1'') None,
    rsc_row 0x00418200 ''PERF_RES_CPUFREQ_MIN_CORE_2'' BIGGEST 5000000 0 (-1)
      (Some ''setCPUFreqMinCore2'') (Some ''setCPUFreqMinCore2'') None,
    rsc_row 0x0041c200 ''PERF_RES_CPUFREQ_MAX_CORE_2'' SMALLEST 5000000 0 (-1)
      (Some ''setCPUFreqMaxCore2'') (Some ''setCPUFreqMaxCore2'') None,
    rsc_row 0x00418300 ''PERF_RES_CPUFREQ_MIN_CORE_3'' BIGGEST 5000000 0 (-1)
      (Some ''setCPUFreqMinCore3'') (Some ''setCPUFreqMinCore3'') None,
    rsc_row 0x0041c300 ''PERF_RES_CPUFREQ_MAX_CORE_3'' SMALLEST 5000000 0 (-1)
      (Some ''setCPUFreqMaxCore3'') (Some ''setCPUFreqMaxCore3'') None,
    rsc_row 0x00418400 ''PERF_RES_CPUFREQ_MIN_CORE_4'' BIGGEST 5000000 0 (-1)
      (Some ''setCPUFreqMinCore4'') (Some ''setCPUFreqMinCore4'') None,
    rsc_row 0x0041c400 ''PERF_RES_CPUFREQ_MAX_CORE_4'' SMALLEST 5000000 0 (-1)
      (Some ''setCPUFreqMaxCore4'') (Some ''setCPUFreqMaxCore4'') None,
    rsc_row 0x00418500 ''PERF_RES_CPUFREQ_MIN_CORE_5'' BIGGEST 5000000 0 (-1)
      (Some ''setCPUFreqMinCore5'') (Some ''setCPUFreqMinCore5'') None,
    rsc_row 0x0041c500 ''PERF_RES_CPUFREQ_MAX_CORE_5'' SMALLEST 5000000 0 (-1)
      (Some ''setCPUFreqMaxCore5'') (Some ''setCPUFreqMaxCore5'') None,
    rsc_row 0x00418600 ''PERF_RES_CPUFREQ_MIN_CORE_6'' BIGGEST 5000000 0 (-1)
      (Some ''setCPUFreqMinCore6'') (Some ''setCPUFreqMinCore6'') None]"

definition RscCfgTbl_3 :: "tRscConfig list" where
  "RscCfgTbl_3 = [
    rsc_row 0x0041c600 ''PERF_RES_CPUFREQ_MAX_CORE_6'' SMALLEST 5000000 0 (-1)
      (Some ''setCPUFreqMaxCore6'') (Some ''setCPUFreqMaxCore6'') None,
    rsc_row 0x00418700 ''PERF_RES_CPUFREQ_MIN_CORE_7'' BIGGEST 5000000 0 (-1)
      (Some ''setCPUFreqMinCore7'') (Some ''setCPUFreqMinCore7'') None,
    rsc_row 0x0041c700 ''PERF_RES_CPUFREQ_MAX_CORE_7'' SMALLEST 5000000 0 (-1)
      (Some ''setCPUFreqMaxCore7'') (Some ''setCPUFreqMaxCore7'') None,
    rsc_row 0x00410000 ''PERF_RES_CPUFREQ_CCI_FREQ'' BIGGEST 2 0 0
      (Some ''dsu_cci_sport_mode'') (Some ''dsu_cci_sport_mode'') None,
    rsc_row 0x03014000 ''PERF_RES_THERMAL_SPORTS_CG_POLICY'' BIGGEST 1 0 0
      (Some ''set_cg_policy'') (Some ''set_cg_policy'') None,
    rsc_row 0x0105c000 ''PERF_RES_MEM_HUGEPAGE'' BIGGEST 1 0 0
      (Some ''set_hugepage_policy'') (Some ''set_hugepage_policy'') None,
    rsc_row 0x02070000 ''PERF_RES_FRS_ENABLE'' ONESHOT 1 0 0
      (Some ''frs_set'') (Some ''frs_unset'') None,
    rsc_row 0x02070100 ''PERF_RES_FRS_THRESHOLD'' ONESHOT 100 0 (-1)
      (Some ''frs_threshold'') (Some ''frs_unset_threshold'') None,
    rsc_row 0x02070200 ''PERF_RES_FRS_TARGET_TEMP'' ONESHOT 100000 25000 (-1)
      (Some ''frs_target_temp'') (Some ''frs_unset_target_temp'') None,
    rsc_row 0x02070300 ''PERF_RES_FRS_MAX_FPS'' ONESHOT 240 10 (-1)
      (Some ''frs_max_fps'') (Some ''frs_unset_max_fps'') None,
    rsc_row 0x02070400 ''PERF_RES_FRS_MIN_FPS'' ONESHOT 240 10 (-1)
      (Some ''frs_min_fps'') (Some ''frs_unset_min_fps'') None]"

definition RscCfgTbl_4 :: "tRscConfig list" where
  "RscCfgTbl_4 = [
    rsc_row 0x02070500 ''PERF_RES_FRS_CEILING'' ONESHOT 240 10 (-1)
      (Some ''frs_ceiling'') (Some ''frs_unset_ceiling'') None,
    rsc_row 0x02070600 ''PERF_RES_FRS_CEILING_TH'' ONESHOT 100 0 (-1)
      (Some ''frs_ceiling_th'') (Some ''frs_unset_ceiling_th'') None,
    rsc_row 0x02070700 ''PERF_RES_FRS_PTIME'' ONESHOT 1000 0 (-1)
      (Some ''frs_ptime'') (Some ''frs_unset_ptime'') None,
    rsc_row 0x02070800 ''PERF_RES_FRS_OT_PTIME'' ONESHOT 1000 0 (-1)
      (Some ''frs_ot_ptime'') (Some ''frs_unset_ot_ptime'') None,
    rsc_row 0x02070900 ''PERF_RES_FRS_THROTTLED'' ONESHOT 1000 0 (-1)
      (Some ''frs_throttled'') (Some ''frs_unset_throttled'') None,
    rsc_row 0x02070a00 ''PERF_RES_FRS_OT_THROTTLED'' ONESHOT 1000 0 (-1)
      (Some ''frs_ot_throttled'') (Some ''frs_unset_ot_throttled'') None,
    rsc_row 0x02070b00 ''PERF_RES_FRS_MAX_THROTTLED_FPS'' ONESHOT 100000 0 (-1)
      (Some ''frs_max_throttled_fps'') (Some ''frs_unset_max_throttled_fps'') None,
    rsc_row 0x02070c00 ''PERF_RES_FRS_FPS_RATIO'' ONESHOT 100 0 (-1)
      (Some ''frs_fps_ratio'') (Some ''frs_unset_fps_ratio'') None,
    rsc_row 0x02070d00 ''PERF_RES_FRS_FPS_RATIO_STEP'' ONESHOT 100 0 (-1)
      (Some ''frs_fps_ratio_step'') (Some ''frs_unset_fps_ratio_step'') None,
    rsc_row 0x02070e00 ''PERF_RES_FRS_MODE'' ONESHOT 1 0 (-1)
      (Some ''frs_mode'') (Some ''frs_unset_mode'') None,
    rsc_row 0x02070f00 ''PERF_RES_FRS_MAX_FPS_DIFF'' ONESHOT 100 0 0
      (Some ''frs_max_fps_diff'') (Some ''frs_unset_max_fps_diff'') None]"

definition RscCfgTbl_5 :: "tRscConfig list" where
  "RscCfgTbl_5 = [
    rsc_row 0x02071000 ''PERF_RES_FRS_UR_PTIME'' ONESHOT 100 0 0
      (Some ''frs_ur_ptime'') (Some ''frs_unset_ur_ptime'') None,
    rsc_row 0x02071100 ''PERF_RES_FRS_URGENT_TEMP_OFFSET'' ONESHOT 2000 0 0
      (Some ''frs_urgent_temp_offset'') (Some ''frs_unset_urgent_temp_offset'') None,
    rsc_row 0x02071200 ''PERF_RES_FRS_TZ_INDEX'' ONESHOT 100 0 0
      (Some ''frs_tz_idx'') (Some ''frs_unset_tz_idx'') None,
    rsc_row 0x02071300 ''PERF_RES_FRS_SYS_CEILING_ENABLE'' ONESHOT 1 0 0
      (Some ''frs_sys_ceiling'') (Some ''frs_unset_sys_ceiling'') None,
    rsc_row 0x02071400 ''PERF_RES_FRS_COLD_THRESHOLD'' ONESHOT 100 0 0
      (Some ''frs_cold_threshold'') (Some ''frs_unset_cold_threshold'') None,
    rsc_row 0x02071500 ''PERF_RES_FRS_LIMIT_CFREQ'' ONESHOT 3000000 0 0
      (Some ''frs_limit_cfreq'') (Some ''frs_unset_limit_cfreq'') None,
    rsc_row 0x02071600 ''PERF_RES_FRS_LIMIT_RFREQ'' ONESHOT 3000000 0 0
      (Some ''frs_limit_rfreq'') (Some ''frs_unset_limit_rfreq'') None,
    rsc_row 0x02071700 ''PERF_RES_FRS_LIMIT_CFREQ_M'' ONESHOT 2600000 0 0
      (Some ''frs_limit_cfreq_m'') (Some ''frs_unset_limit_cfreq_m'') None,
    rsc_row 0x02071800 ''PERF_RES_FRS_LIMIT_RFREQ_M'' ONESHOT 2600000 0 0
      (Some ''frs_limit_rfreq_m'') (Some ''frs_unset_limit_rfreq_m'') None,
    rsc_row 0x02071900 ''PERF_RES_FRS_CT_PTIME'' ONESHOT 1000 0 (-1)
      (Some ''frs_ct_ptime'') (Some ''frs_unset_ct_ptime'') None,
    rsc_row 0x02071a00 ''PERF_RES_FRS_MIN_FPS_TARGET_TEMP'' ONESHOT 100000 25000 (-1)
      (Some ''frs_min_fps_target_temp'') (Some ''frs_unset_min_fps_target_temp'') None]"

definition RscCfgTbl_6 :: "tRscConfig list" where
  "RscCfgTbl_6 = [
    rsc_row 0x02071b00 ''PERF_RES_FRS_FREQ_TEMP_MAPPING_CLUSTER0_1'' ONESHOT 40000000 0 0
      (Some ''frs_freq_temp_mapping_cluster0_1'') (Some ''frs_unset_freq_temp_mapping_cluster0_1'') None,
    rsc_row 0x02071c00 ''PERF_RES_FRS_FREQ_TEMP_MAPPING_CLUSTER0_2'' ONESHOT 40000000 0 0
      (Some ''frs_freq_temp_mapping_cluster0_2'') (Some ''frs_unset_freq_temp_mapping_cluster0_2'') None,
    rsc_row 0x02071d00 ''PERF_RES_FRS_FREQ_TEMP_MAPPING_CLUSTER0_3'' ONESHOT 40000000 0 0
      (Some ''frs_freq_temp_mapping_cluster0_3'') (Some ''frs_unset_freq_temp_mapping_cluster0_3'') None,
    rsc_row 0x02071e00 ''PERF_RES_FRS_FREQ_TEMP_MAPPING_CLUSTER0_4'' ONESHOT 40000000 0 0
      (Some ''frs_freq_temp_mapping_cluster0_4'') (Some ''frs_unset_freq_temp_mapping_cluster0_4'') None,
    rsc_row 0x02071f00 ''PERF_RES_FRS_FREQ_TEMP_MAPPING_CLUSTER0_5'' ONESHOT 40000000 0 0
      (Some ''frs_freq_temp_mapping_cluster0_5'') (Some ''frs_unset_freq_temp_mapping_cluster0_5'') None,
    rsc_row 0x02072000 ''PERF_RES_FRS_FREQ_TEMP_MAPPING_CLUSTER0_6'' ONESHOT 40000000 0 0
      (Some ''frs_freq_temp_mapping_cluster0_6'') (Some ''frs_unset_freq_temp_mapping_cluster0_6'') None,
    rsc_row 0x02072100 ''PERF_RES_FRS_FREQ_TEMP_MAPPING_CLUSTER0_7'' ONESHOT 40000000 0 0
      (Some ''frs_freq_temp_mapping_cluster0_7'') (Some ''frs_unset_freq_temp_mapping_cluster0_7'') None,
    rsc_row 0x02072200 ''PERF_RES_FRS_FREQ_TEMP_MAPPING_CLUSTER0_8'' ONESHOT 40000000 0 0
      (Some ''frs_freq_temp_mapping_cluster0_8'') (Some ''frs_unset_freq_temp_mapping_cluster0_8'') None,
    rsc_row 0x02072300 ''PERF_RES_FRS_FREQ_TEMP_MAPPING_CLUSTER1_1'' ONESHOT 40000000 0 0
      (Some ''frs_freq_temp_mapping_cluster1_1'') (Some ''frs_unset_freq_temp_mapping_cluster1_1'') None,
    rsc_row 0x02072400 ''PERF_RES_FRS_FREQ_TEMP_MAPPING_CLUSTER1_2'' ONESHOT 40000000 0 0
      (Some ''frs_freq_temp_mapping_cluster1_2'') (Some ''frs_unset_freq_temp_mapping_cluster1_2'') None,
    rsc_row 0x02072500 ''PERF_RES_FRS_FREQ_TEMP_MAPPING_CLUSTER1_3'' ONESHOT 40000000 0 0
      (Some ''frs_freq_temp_mapping_cluster1_3'') (Some ''frs_unset_freq_temp_mapping_cluster1_3'') None]"

definition RscCfgTbl_7 :: "tRscConfig list" where
  "RscCfgTbl_7 = [
    rsc_row 0x02072600 ''PERF_RES_FRS_FREQ_TEMP_MAPPING_CLUSTER1_4'' ONESHOT 40000000 0 0
      (Some ''frs_freq_temp_mapping_cluster1_4'') (Some ''frs_unset_freq_temp_mapping_cluster1_4'') None,
    rsc_row 0x02072700 ''PERF_RES_FRS_FREQ_TEMP_MAPPING_CLUSTER1_5'' ONESHOT 40000000 0 0
      (Some ''frs_freq_temp_mapping_cluster1_5'') (Some ''frs_unset_freq_temp_mapping_cluster1_5'') None,
    rsc_row 0x02072800 ''PERF_RES_FRS_FREQ_TEMP_MAPPING_CLUSTER1_6'' ONESHOT 40000000 0 0
      (Some ''frs_freq_temp_mapping_cluster1_6'') (Some ''frs_unset_freq_temp_mapping_cluster1_6'') None,
    rsc_row 0x02072900 ''PERF_RES_FRS_FREQ_TEMP_MAPPING_CLUSTER1_7'' ONESHOT 40000000 0 0
      (Some ''frs_freq_temp_mapping_cluster1_7'') (Some ''frs_unset_freq_temp_mapping_cluster1_7'') None,
    rsc_row 0x02072a00 ''PERF_RES_FRS_FREQ_TEMP_MAPPING_CLUSTER1_8'' ONESHOT 40000000 0 0
      (Some ''frs_freq_temp_mapping_cluster1_8'') (Some ''frs_unset_freq_temp_mapping_cluster1_8'') None,
    rsc_row 0x02072b00 ''PERF_RES_FRS_FREQ_TEMP_MAPPING_CLUSTER2_1'' ONESHOT 40000000 0 0
      (Some ''frs_freq_temp_mapping_cluster2_1'') (Some ''frs_unset_freq_temp_mapping_cluster2_1'') None,
    rsc_row 0x02072c00 ''PERF_RES_FRS_FREQ_TEMP_MAPPING_CLUSTER2_2'' ONESHOT 40000000 0 0
      (Some ''frs_freq_temp_mapping_cluster2_2'') (Some ''frs_unset_freq_temp_mapping_cluster2_2'') None,
    rsc_row 0x02072d00 ''PERF_RES_FRS_FREQ_TEMP_MAPPING_CLUSTER2_3'' ONESHOT 40000000 0 0
      (Some ''frs_freq_temp_mapping_cluster2_3'') (Some ''frs_unset_freq_temp_mapping_cluster2_3'') None,
    rsc_row 0x02072e00 ''PERF_RES_FRS_FREQ_TEMP_MAPPING_CLUSTER2_4'' ONESHOT 40000000 0 0
      (Some ''frs_freq_temp_mapping_cluster2_4'') (Some ''frs_unset_freq_temp_mapping_cluster2_4'') None,
    rsc_row 0x02072f00 ''PERF_RES_FRS_FREQ_TEMP_MAPPING_CLUSTER2_5'' ONESHOT 40000000 0 0
      (Some ''frs_freq_temp_mapping_cluster2_5'') (Some ''frs_unset_freq_temp_mapping_cluster2_5'') None,
    rsc_row 0x02073000 ''PERF_RES_FRS_FREQ_TEMP_MAPPING_CLUSTER2_6'' ONESHOT 40000000 0 0
      (Some ''frs_freq_temp_mapping_cluster2_6'') (Some ''frs_unset_freq_temp_mapping_cluster2_6'') None]"

definition RscCfgTbl_8 :: "tRscConfig list" where
  "RscCfgTbl_8 = [
    rsc_row 0x02073100 ''PERF_RES_FRS_FREQ_TEMP_MAPPING_CLUSTER2_7'' ONESHOT 40000000 0 0
      (Some ''frs_freq_temp_mapping_cluster2_7'') (Some ''frs_unset_freq_temp_mapping_cluster2_7'') None,
    rsc_row 0x02073200 ''PERF_RES_FRS_FREQ_TEMP_MAPPING_CLUSTER2_8'' ONESHOT 40000000 0 0
      (Some ''frs_freq_temp_mapping_cluster2_8'') (Some ''frs_unset_freq_temp_mapping_cluster2_8'') None,
    rsc_row 0x02073300 ''PERF_RES_FRS_FREQ_TEMP_MAPPING_HYSTERESIS'' ONESHOT 100000 0 (-1)
      (Some ''frs_freq_temp_mapping_hysteresis'') (Some ''frs_unset_freq_temp_mapping_hysteresis'') None,
    rsc_row 0x02073400 ''PERF_RES_FRS_FREQ_TEMP_MAPPING_PTIME'' ONESHOT 1000 0 (-1)
      (Some ''frs_freq_temp_mapping_ptime'') (Some ''frs_unset_freq_temp_mapping_ptime'') None,
    rsc_row 0x02073500 ''PERF_RES_FRS_FREQ_TEMP_MAPPING_TZ_INDEX'' ONESHOT 100 0 0
      (Some ''frs_freq_temp_mapping_tz_idx'') (Some ''frs_unset_freq_temp_mapping_tz_idx'') None,
    rsc_row 0x02073600 ''PERF_RES_FRS_RESET'' ONESHOT 1 0 (-1)
      (Some ''frs_set_reset'') (Some ''frs_unset_reset'') None,
    rsc_row 0x02804600 ''PERF_RES_NET_WIFI_INFO_PRIORITY_UDP'' BIGGEST 1000000 0 0
      (Some ''wifi_set_priority_udp'') (Some ''wifi_set_priority_udp'') None,
    rsc_row 0x02804700 ''PERF_RES_NET_WIFI_INFO_PRIORITY_TCP'' BIGGEST 1000000 0 0
      (Some ''wifi_set_priority_tcp'') (Some ''wifi_set_priority_tcp'') None,
    rsc_row 0x02804300 ''PERF_RES_NET_WIFI_INFO_DELAY_BOUND_UDP'' BIGGEST 1000000 0 0
      (Some ''wifi_set_delay_bound_udp'') (Some ''wifi_set_delay_bound_udp'') None,
    rsc_row 0x02804400 ''PERF_RES_NET_WIFI_INFO_DELAY_BOUND_TCP'' BIGGEST 1000000 0 0
      (Some ''wifi_set_delay_bound_tcp'') (Some ''wifi_set_delay_bound_tcp'') None,
    rsc_row 0x02804000 ''PERF_RES_NET_WIFI_LOW_LATENCY'' BIGGEST 1 0 0
      (Some ''wifi_low_latency'') (Some ''wifi_low_latency'') (Some ''wifi_reset'')]"

definition RscCfgTbl_9 :: "tRscConfig list" where
  "RscCfgTbl_9 = [
    rsc_row 0x02810000 ''PERF_RES_NET_BT_AUDIO_LOW_LATENCY'' BIGGEST 1 0 0
      (Some ''bt_audio_low_latency'') (Some ''bt_audio_low_latency'') None,
    rsc_row 0x02810100 ''PERF_RES_NET_BT_AUDIO_ULTRA_LOW_LATENCY'' BIGGEST 1 0 0
      (Some ''bt_audio_ultra_low_latency'') (Some ''bt_audio_ultra_low_latency'') None,
    rsc_row 0x02804100 ''PERF_RES_NET_WIFI_SMART_PREDICT'' BIGGEST 1 0 0
      (Some ''wifi_smart_predict'') (Some ''wifi_smart_predict'') None,
    rsc_row 0x02808000 ''PERF_RES_NET_NETD_BOOST_UID'' ONESHOT 500000 0 (-1)
      (Some ''netd_set_priority_uid'') (Some ''netd_clear_priority_uid'') (Some ''netd_reset''),
    rsc_row 0x02808200 ''PERF_RES_NET_NETD_BOOST_UID_2'' ONESHOT 500000 0 (-1)
      (Some ''netd_set_priority_uid_2'') (Some ''netd_clear_priority_uid_2'') (Some ''netd_reset''),
    rsc_row 0x02808100 ''PERF_RES_NET_NETD_BLOCK_UID'' ONESHOT 500000 0 (-1)
      (Some ''netd_set_block_uid'') (Some ''netd_unset_block_uid'') None,
    rsc_row 0x02000600 ''PERF_RES_FPS_FPSGO_RENDER_TID'' ONESHOT 32768 0 0
      (Some ''set_fpsgo_render_tid'') (Some ''set_fpsgo_render_tid'') None,
    rsc_row 0x02000700 ''PERF_RES_FPS_FPSGO_RENDER_BQID_HIGH_BITS'' ONESHOT 32768 0 0
      (Some ''set_fpsgo_render_bufID_high_bits'') (Some ''set_fpsgo_render_bufID_high_bits'') None,
    rsc_row 0x02000800 ''PERF_RES_FPS_FPSGO_RENDER_BQID_LOW_BITS'' ONESHOT 536870912 0 0
      (Some ''set_fpsgo_render_bufID_low_bits'') (Some ''set_fpsgo_render_bufID_low_bits'') None,
    rsc_row 0x0201c100 ''PERF_RES_FPS_FSTB_SOFT_FPS_UPPER'' BIGGEST 600 0 (-1)
      (Some ''setFstbSoftFpsHigh'') (Some ''setFstbSoftFpsHigh'') (Some ''fstb_init''),
    rsc_row 0x0201c000 ''PERF_RES_FPS_FSTB_SOFT_FPS_LOWER'' BIGGEST 600 0 (-1)
      (Some ''setFstbSoftFpsLow'') (Some ''setFstbSoftFpsLow'') None,
    rsc_row 0x02044800 ''PERF_RES_FPS_FPSGO_LLF_POLICY_BY_PID'' ONESHOT 2 0 (-1)
      (Some ''set_llf_task_policy_by_pid'') (Some ''unset_llf_task_policy_by_pid'') None]"

definition RscCfgTbl_10 :: "tRscConfig list" where
  "RscCfgTbl_10 = [
    rsc_row 0x02044a00 ''PERF_RES_FPS_FPSGO_LLF_TH_BY_PID'' ONESHOT 100 0 (-1)
      (Some ''set_loading_th_by_pid'') (Some ''unset_loading_th_by_pid'') None,
    rsc_row 0x02044c00 ''PERF_RES_FPS_FPSGO_LLF_LIGHT_LOADING_POLICY_BY_PID'' ONESHOT 100 0 (-1)
      (Some ''set_light_loading_policy_by_pid'') (Some ''unset_light_loading_policy_by_pid'') None,
    rsc_row 0x02004700 ''PERF_RES_FPS_FPSGO_CONTROL_BY_PID'' ONESHOT 1 0 0
      (Some ''set_fpsgo_control_by_pid'') (Some ''unset_fpsgo_control_by_pid'') None,
    rsc_row 0x02078100 ''PERF_RES_FPS_FPSGO_EMA2_ENABLE_BY_PID'' ONESHOT 1 0 0
      (Some ''set_fpsgo_ema2_enable_by_pid'') (Some ''unset_fpsgo_ema2_enable_by_pid'') None,
    rsc_row 0x02080400 ''PERF_RES_FPS_FSTBV2_ENABLE_BY_PID'' ONESHOT 1 0 0
      (Some ''set_fstbv2_enable_by_pid'') (Some ''unset_fstbv2_enable_by_pid'') None,
    rsc_row 0x02078200 ''PERF_RES_FPS_FPSGO_CALCULATE_DEP_ENABLE_BY_PID'' ONESHOT 1 0 0
      (Some ''set_fpsgo_calculate_dep_enable_by_pid'') (Some ''unset_fpsgo_calculate_dep_enable_by_pid'') None,
    rsc_row 0x02060400 ''PERF_RES_FPS_FPSGO_FILTER_DEP_TASK_ENABLE_BY_PID'' ONESHOT 1 0 0
      (Some ''set_fpsgo_filter_dep_task_enable_by_pid'') (Some ''unset_fpsgo_filter_dep_task_enable_by_pid'') None,
    rsc_row 0x02080100 ''PERF_RES_FPS_FSTB_TARGET_FPS_ENABLE_BY_PID'' ONESHOT 2 0 0
      (Some ''set_fstb_target_fps_enable_by_pid'') (Some ''unset_fstb_target_fps_enable_by_pid'') None,
    rsc_row 0x02080300 ''PERF_RES_FPS_FSTB_TARGET_DETECT_ENABLE_BY_RENDER'' ONESHOT 1 0 0
      (Some ''set_fstb_target_detect_enable_by_render'') (Some ''unset_fstb_target_detect_enable_by_render'') None,
    rsc_row 0x0203cd00 ''PERF_RES_FPS_FBT_RESCUE_ENABLE_BY_PID'' ONESHOT 1 0 0
      (Some ''set_rescue_enable_by_pid'') (Some ''unset_rescue_enable_by_pid'') None,
    rsc_row 0x0203d000 ''PERF_RES_FPS_FBT_BOOST_VIP_BY_PID'' ONESHOT 2 0 0
      (Some ''set_boost_VIP_by_pid'') (Some ''unset_boost_VIP_by_pid'') None,
    rsc_row 0x0203d200 ''PERF_RES_FPS_FBT_RTPRIO1_BY_PID'' ONESHOT 98 0 0
      (Some ''set_fpsgo_unsupported_func'') (Some ''unset_fpsgo_unsupported_func'') None]"

definition RscCfgTbl_11 :: "tRscConfig list" where
  "RscCfgTbl_11 = [
    rsc_row 0x0203d400 ''PERF_RES_FPS_FBT_RTPRIO2_BY_PID'' ONESHOT 98 0 0
      (Some ''set_fpsgo_unsupported_func'') (Some ''unset_fpsgo_unsupported_func'') None,
    rsc_row 0x0203d600 ''PERF_RES_FPS_FBT_RTPRIO3_BY_PID'' ONESHOT 98 0 0
      (Some ''set_fpsgo_unsupported_func'') (Some ''unset_fpsgo_unsupported_func'') None,
    rsc_row 0x0203d800 ''PERF_RES_FPS_FBT_GROUP_BY_LR_BY_PID'' ONESHOT 2 0 0
      (Some ''set_group_by_lr_by_pid'') (Some ''unset_group_by_lr_by_pid'') None,
    rsc_row 0x0203da00 ''PERF_RES_FPS_FBT_HEAVY_NUM_BY_PID'' ONESHOT 10 0 0
      (Some ''set_heavy_group_num_by_pid'') (Some ''unset_heavy_group_num_by_pid'') None,
    rsc_row 0x0203dc00 ''PERF_RES_FPS_FBT_SECOND_NUM_BY_PID'' ONESHOT 50 0 0
      (Some ''set_second_group_num_by_pid'') (Some ''unset_second_group_num_by_pid'') None,
    rsc_row 0x0203de00 ''PERF_RES_FPS_FBT_SET_LS_BY_PID'' ONESHOT 1 0 0
      (Some ''set_set_ls_by_pid'') (Some ''unset_set_ls_by_pid'') None,
    rsc_row 0x0203e000 ''PERF_RES_FPS_FBT_LS_GROUPMASK_BY_PID'' ONESHOT 7 0 0
      (Some ''set_ls_groupmask_by_pid'') (Some ''unset_ls_groupmask_by_pid'') None,
    rsc_row 0x0203e200 ''PERF_RES_FPS_FBT_VIP_MASK_BY_PID'' ONESHOT 7 0 0
      (Some ''set_vip_mask_by_pid'') (Some ''unset_vip_mask_by_pid'') None,
    rsc_row 0x0203e400 ''PERF_RES_FPS_FBT_SET_VVIP_BY_PID'' ONESHOT 1 0 0
      (Some ''set_set_vvip_by_pid'') (Some ''unset_set_vvip_by_pid'') None,
    rsc_row 0x0203ef00 ''PERF_RES_FPS_FBT_VIP_THROTTLE_BY_PID'' ONESHOT 1500 0 0
      (Some ''set_vip_throttle_by_pid'') (Some ''unset_vip_throttle_by_pid'') None,
    rsc_row 0x0203f100 ''PERF_RES_FPS_FBT_SET_L3_CACHE_CT_BY_PID'' ONESHOT 3 0 0
      (Some ''set_set_l3_cache_ct_by_pid'') (Some ''unset_set_l3_cache_ct_by_pid'') None,
    rsc_row 0x0203e600 ''PERF_RES_FPS_FBT_TUNEPOINT_BM_TH_BY_PID'' ONESHOT 100 0 0
      (Some ''set_bm_th_by_pid'') (Some ''unset_bm_th_by_pid'') None]"

definition RscCfgTbl_12 :: "tRscConfig list" where
  "RscCfgTbl_12 = [
    rsc_row 0x0203e800 ''PERF_RES_FPS_FBT_TUNEPOINT_ML_TH_BY_PID'' ONESHOT 100 0 0
      (Some ''set_ml_th_by_pid'') (Some ''unset_ml_th_by_pid'') None,
    rsc_row 0x0203ea00 ''PERF_RES_FPS_FBT_TUNEPOINT_POLICY_BY_PID'' ONESHOT 3 0 0
      (Some ''set_tp_policy_by_pid'') (Some ''unset_tp_policy_by_pid'') None,
    rsc_row 0x0203ec00 ''PERF_RES_FPS_FBT_GEARHINT_PREFER_BY_PID'' ONESHOT 4 0 0
      (Some ''set_gh_prefer_by_pid'') (Some ''unset_gh_prefer_by_pid'') None,
    rsc_row 0x0203f300 ''PERF_RES_FPS_FBT_TP_STRICT_MIDDLE_BY_PID'' ONESHOT 1 0 0
      (Some ''set_tp_strict_middle_by_pid'') (Some ''unset_tp_strict_middle_by_pid'') None,
    rsc_row 0x0203f500 ''PERF_RES_FPS_FBT_TP_STRICT_LITTLE_BY_PID'' ONESHOT 1 0 0
      (Some ''set_tp_strict_little_by_pid'') (Some ''unset_tp_strict_little_by_pid'') None,
    rsc_row 0x0203cb00 ''PERF_RES_FPS_FBT_RESCUE_SECOND_ENABLE_BY_PID'' ONESHOT 1 0 0
      (Some ''set_rescue_second_enable_by_pid'') (Some ''unset_rescue_second_enable_by_pid'') None,
    rsc_row 0x02064800 ''PERF_RES_FPS_FBT_FILTER_FRAME_ENABLE_BY_PID'' ONESHOT 1 0 0
      (Some ''set_filter_frame_enable_by_pid'') (Some ''unset_filter_frame_enable_by_pid'') None,
    rsc_row 0x02045200 ''PERF_RES_FPS_FBT_SEPARATE_AA_BY_PID'' ONESHOT 1 0 0
      (Some ''set_separate_aa_by_pid'') (Some ''unset_separate_aa_by_pid'') None,
    rsc_row 0x02045800 ''PERF_RES_FPS_FBT_SEPARATE_RELEASE_SEC_BY_PID'' ONESHOT 1 0 0
      (Some ''set_separate_release_sec_by_pid'') (Some ''unset_separate_release_sec_by_pid'') None,
    rsc_row 0x0205c400 ''PERF_RES_FPS_FBT_BOOST_AFFINITY_BY_PID'' ONESHOT 6 0 0
      (Some ''set_boost_affinity_by_pid'') (Some ''unset_boost_affinity_by_pid'') None,
    rsc_row 0x0205c500 ''PERF_RES_FPS_FBT_BOOST_LR_BY_PID'' ONESHOT 1 0 0
      (Some ''set_boost_lr_by_pid'') (Some ''unset_boost_lr_by_pid'') None,
    rsc_row 0x0205c800 ''PERF_RES_FPS_FBT_CPUMASK_HEAVY_BY_PID'' ONESHOT 255 1 255
      (Some ''set_cpumask_heavy_by_pid'') (Some ''unset_cpumask_heavy_by_pid'') None]"

definition RscCfgTbl_13 :: "tRscConfig list" where
  "RscCfgTbl_13 = [
    rsc_row 0x0205ca00 ''PERF_RES_FPS_FBT_CPUMASK_SECOND_BY_PID'' ONESHOT 255 1 255
      (Some ''set_cpumask_second_by_pid'') (Some ''unset_cpumask_second_by_pid'') None,
    rsc_row 0x0205cc00 ''PERF_RES_FPS_FBT_CPUMASK_OTHERS_BY_PID'' ONESHOT 255 1 255
      (Some ''set_cpumask_others_by_pid'') (Some ''unset_cpumask_others_by_pid'') None,
    rsc_row 0x0205ce00 ''PERF_RES_FPS_FBT_SET_SOFT_AFFINITY_BY_PID'' ONESHOT 1 0 0
      (Some ''set_set_soft_affinity_by_pid'') (Some ''unset_set_soft_affinity_by_pid'') None,
    rsc_row 0x0205d000 ''PERF_RES_FPS_FBT_SEP_LOADING_CTRL_BY_PID'' ONESHOT 2 0 0
      (Some ''set_sep_loading_ctrl_by_pid'') (Some ''unset_sep_loading_ctrl_by_pid'') None,
    rsc_row 0x0205d200 ''PERF_RES_FPS_FBT_LOAD_CTRL_TH_BY_PID'' ONESHOT 100 0 0
      (Some ''set_lc_th_by_pid'') (Some ''unset_lc_th_by_pid'') None,
    rsc_row 0x0205d400 ''PERF_RES_FPS_FBT_LC_TH_UPBOUND_BY_PID'' ONESHOT 100 0 100
      (Some ''set_lc_th_upbound_by_pid'') (Some ''unset_lc_th_upbound_by_pid'') None,
    rsc_row 0x0205d600 ''PERF_RES_FPS_FBT_LC_FRAME_LOWBD_BY_PID'' ONESHOT 200 0 0
      (Some ''set_frame_lowbd_by_pid'') (Some ''unset_frame_lowbd_by_pid'') None,
    rsc_row 0x0205d800 ''PERF_RES_FPS_FBT_LC_FRAME_UPBD_BY_PID'' ONESHOT 100 (-100) 0
      (Some ''set_frame_upbd_by_pid'') (Some ''unset_frame_upbd_by_pid'') None,
    rsc_row 0x02045300 ''PERF_RES_FPS_FBT_LIMIT_UCLAMP_BY_PID'' ONESHOT 100 0 0
      (Some ''set_limit_uclamp_by_pid'') (Some ''unset_limit_uclamp_by_pid'') None,
    rsc_row 0x02045400 ''PERF_RES_FPS_FBT_LIMIT_RUCLAMP_BY_PID'' ONESHOT 100 0 0
      (Some ''set_limit_ruclamp_by_pid'') (Some ''unset_limit_ruclamp_by_pid'') None,
    rsc_row 0x02045500 ''PERF_RES_FPS_FBT_LIMIT_UCLAMP_M_BY_PID'' ONESHOT 100 0 0
      (Some ''set_limit_uclamp_m_by_pid'') (Some ''unset_limit_uclamp_m_by_pid'') None,
    rsc_row 0x02045600 ''PERF_RES_FPS_FBT_LIMIT_RUCLAMP_M_BY_PID'' ONESHOT 100 0 0
      (Some ''set_limit_ruclamp_m_by_pid'') (Some ''unset_limit_ruclamp_m_by_pid'') None]"

definition RscCfgTbl_14 :: "tRscConfig list" where
  "RscCfgTbl_14 = [
    rsc_row 0x02068b00 ''PERF_RES_FPS_FBT_QR_ENABLE_BY_PID'' ONESHOT 1 0 (-1)
      (Some ''set_qr_enable_by_pid'') (Some ''unset_qr_enable_by_pid'') None,
    rsc_row 0x02068c00 ''PERF_RES_FPS_FBT_QR_T2WNT_X_BY_PID'' ONESHOT 100 (-100) (-1)
      (Some ''set_qr_t2wnt_x_by_pid'') (Some ''unset_qr_t2wnt_x_by_pid'') None,
    rsc_row 0x02068d00 ''PERF_RES_FPS_FBT_QR_T2WNT_Y_P_BY_PID'' ONESHOT 100 0 (-1)
      (Some ''set_qr_t2wnt_y_p_by_pid'') (Some ''unset_qr_t2wnt_y_p_by_pid'') None,
    rsc_row 0x02068e00 ''PERF_RES_FPS_FBT_QR_T2WNT_Y_N_BY_PID'' ONESHOT 100 0 (-1)
      (Some ''set_qr_t2wnt_y_n_by_pid'') (Some ''unset_qr_t2wnt_y_n_by_pid'') None,
    rsc_row 0x0206cf00 ''PERF_RES_FPS_FBT_GCC_ENABLE_BY_PID'' ONESHOT 2 0 (-1)
      (Some ''set_gcc_enable_by_pid'') (Some ''unset_gcc_enable_by_pid'') None,
    rsc_row 0x0206d000 ''PERF_RES_FPS_FBT_GCC_FPS_MARGIN_BY_PID'' ONESHOT 6000 (-6000) (-1)
      (Some ''set_gcc_fps_margin_by_pid'') (Some ''unset_gcc_fps_margin_by_pid'') None,
    rsc_row 0x0206d100 ''PERF_RES_FPS_FBT_GCC_ENQ_BOUND_THRS_BY_PID'' ONESHOT 200 0 (-1)
      (Some ''set_gcc_enq_bound_thrs_by_pid'') (Some ''unset_gcc_enq_bound_thrs_by_pid'') None,
    rsc_row 0x0206d200 ''PERF_RES_FPS_FBT_GCC_ENQ_BOUND_QUOTA_BY_PID'' ONESHOT 200 0 (-1)
      (Some ''set_gcc_enq_bound_quota_by_pid'') (Some ''unset_gcc_enq_bound_quota_by_pid'') None,
    rsc_row 0x0206d300 ''PERF_RES_FPS_FBT_GCC_DEQ_BOUND_THRS_BY_PID'' ONESHOT 200 0 (-1)
      (Some ''set_gcc_deq_bound_thrs_by_pid'') (Some ''unset_gcc_deq_bound_thrs_by_pid'') None,
    rsc_row 0x0206d400 ''PERF_RES_FPS_FBT_GCC_DEQ_BOUND_QUOTA_BY_PID'' ONESHOT 200 0 (-1)
      (Some ''set_gcc_deq_bound_quota_by_pid'') (Some ''unset_gcc_deq_bound_quota_by_pid'') None,
    rsc_row 0x0206d500 ''PERF_RES_FPS_FBT_GCC_UP_SEC_PCT_BY_PID'' ONESHOT 100 0 (-1)
      (Some ''set_gcc_up_sec_pct_by_pid'') (Some ''unset_gcc_up_sec_pct_by_pid'') None,
    rsc_row 0x0206d600 ''PERF_RES_FPS_FBT_GCC_UP_STEP_BY_PID'' ONESHOT 100 0 (-1)
      (Some ''set_gcc_up_step_by_pid'') (Some ''unset_gcc_up_step_by_pid'') None]"

definition RscCfgTbl_15 :: "tRscConfig list" where
  "RscCfgTbl_15 = [
    rsc_row 0x0206d700 ''PERF_RES_FPS_FBT_GCC_DOWN_STEP_BY_PID'' ONESHOT 100 0 (-1)
      (Some ''set_gcc_down_step_by_pid'') (Some ''unset_gcc_down_step_by_pid'') None,
    rsc_row 0x0206d800 ''PERF_RES_FPS_FBT_GCC_DOWN_SEC_PCT_BY_PID'' ONESHOT 100 0 (-1)
      (Some ''set_gcc_down_sec_pct_by_pid'') (Some ''unset_gcc_down_sec_pct_by_pid'') None,
    rsc_row 0x0206d900 ''PERF_RES_FPS_FBT_GCC_UP_QUOTA_PCT_BY_PID'' ONESHOT 100 0 (-1)
      (Some ''set_gcc_reserved_up_quota_pct_by_pid'') (Some ''unset_gcc_reserved_up_quota_pct_by_pid'') None,
    rsc_row 0x0206da00 ''PERF_RES_FPS_FBT_GCC_DOWN_QUOTA_PCT_BY_PID'' ONESHOT 100 0 (-1)
      (Some ''set_gcc_reserved_down_quota_pct_by_pid'') (Some ''unset_gcc_reserved_down_quota_pct_by_pid'') None,
    rsc_row 0x03004000 ''PERF_RES_UX_PREDICT_LOW_LATENCY'' BIGGEST 1 0 0
      (Some ''notifyLowLatencyMode'') (Some ''notifyLowLatencyMode'') None,
    rsc_row 0x0280c000 ''PERF_RES_NET_MD_LOW_LATENCY'' BIGGEST 1 0 0
      (Some ''notify_rild_opt_update'') (Some ''notify_rild_opt_update'') (Some ''reset_rild_opt_info''),
    rsc_row 0x0280c200 ''PERF_RES_NET_MD_CERT_PID'' ONESHOT 500000 0 (-1)
      (Some ''notify_rild_cert_pid_set'') (Some ''notify_rild_cert_pid_reset'') None,
    rsc_row 0x0280c300 ''PERF_RES_NET_MD_CRASH_PID'' ONESHOT 500000 0 (-1)
      (Some ''notify_rild_crash_pid_set'') (Some ''notify_rild_crash_pid_reset'') None,
    rsc_row 0x02c0c000 ''PERF_RES_IO_BLKDEV_READAHEAD'' BIGGEST 1024 0 (-1)
      (Some ''setBlkDev_readAhead'') (Some ''setBlkDev_readAhead'') None,
    rsc_row 0x0280c400 ''PERF_RES_NET_MD_WEAK_SIG_OPT'' BIGGEST 1 0 0
      (Some ''notify_rild_weak_sig_opt_set'') (Some ''notify_rild_weak_sig_opt_set'') (Some ''init_rild_weak_sig_opt_set''),
    rsc_row 0x01418000 ''PERF_RES_SCHED_CPU_PREFER_TASK_1_BIG'' ONESHOT 536870912 1 (-1)
      (Some ''setTaskPreferCpu_big'') (Some ''unsetTaskPreferCpu_big'') (Some ''initTaskPreferCpu'')]"

definition RscCfgTbl_16 :: "tRscConfig list" where
  "RscCfgTbl_16 = [
    rsc_row 0x01418100 ''PERF_RES_SCHED_CPU_PREFER_TASK_1_LITTLE'' ONESHOT 536870912 1 (-1)
      (Some ''setTaskPreferCpu_little'') (Some ''unsetTaskPreferCpu_little'') None,
    rsc_row 0x01418300 ''PERF_RES_SCHED_CPU_PREFER_TASK_2_BIG'' ONESHOT 536870912 1 (-1)
      (Some ''setTaskPreferCpu_big'') (Some ''unsetTaskPreferCpu_big'') None,
    rsc_row 0x01418400 ''PERF_RES_SCHED_CPU_PREFER_TASK_2_LITTLE'' ONESHOT 536870912 1 (-1)
      (Some ''setTaskPreferCpu_little'') (Some ''unsetTaskPreferCpu_little'') None,
    rsc_row 0x02c1c000 ''PERF_RES_IO_UFS_AUTO_HIBERN8'' BIGGEST 100000 0 0
      (Some ''set_ufs_auto_hibern8'') (Some ''set_ufs_auto_hibern8'') (Some ''init_ufs_auto_hibern8''),
    rsc_row 0x02c20000 ''PERF_RES_IO_UFS_IRQ_AFFINITY'' BIGGEST 255 0 0
      (Some ''set_ufs_irq_affinity'') (Some ''set_ufs_irq_affinity'') (Some ''init_ufs_irq_affinity''),
    rsc_row 0x02c24000 ''PERF_RES_IO_SCHEDULER'' BIGGEST 4 0 0
      (Some ''set_io_scheduler'') (Some ''set_io_scheduler'') (Some ''init_io_scheduler''),
    rsc_row 0x02c28000 ''PERF_RES_IO_UFS_TRACING_MODE'' BIGGEST 2 0 0
      (Some ''set_ufs_tracing_mode'') (Some ''set_ufs_tracing_mode'') None,
    rsc_row 0x02c1c100 ''PERF_RES_IO_UFS1_AUTO_HIBERN8'' BIGGEST 100000 0 0
      (Some ''set_ufs1_auto_hibern8'') (Some ''set_ufs1_auto_hibern8'') (Some ''init_ufs1_auto_hibern8''),
    rsc_row 0x02c20100 ''PERF_RES_IO_UFS1_IRQ_AFFINITY'' BIGGEST 255 0 0
      (Some ''set_ufs1_irq_affinity'') (Some ''set_ufs1_irq_affinity'') (Some ''init_ufs1_irq_affinity''),
    rsc_row 0x02c28100 ''PERF_RES_IO_UFS1_TRACING_MODE'' BIGGEST 2 0 0
      (Some ''set_ufs1_tracing_mode'') (Some ''set_ufs1_tracing_mode'') None,
    rsc_row 0x00c10000 ''PERF_RES_GPU_POWER_POLICY'' BIGGEST 1 0 0
      (Some ''set_gpu_power_policy'') (Some ''set_gpu_power_policy'') None]"

definition RscCfgTbl_17 :: "tRscConfig list" where
  "RscCfgTbl_17 = [
    rsc_row 0x03000000 ''PERF_RES_THERMAL_POLICY'' ONESHOT 999 0 (-1)
      (Some ''load_thm_api_start'') (Some ''load_thm_api_stop'') (Some ''reset_thermal_policy''),
    rsc_row 0x00c10100 ''PERF_RES_GPU_POWER_ONOFF_INTERVAL'' ONESHOT 1000000 0 25
      (Some ''set_gpu_power_onoff_interval'') (Some ''unset_gpu_power_onoff_interval'') None,
    rsc_row 0x03408500 ''PERF_RES_POWERHAL_TOUCH_BOOST_ENABLE'' BIGGEST 1 0 (-1)
      (Some ''touch_boost_enabled'') (Some ''touch_boost_enabled'') None,
    rsc_row 0x03404600 ''PERF_RES_ADPF_CPU_LOAD_UP_BOOST_SCALE'' BIGGEST 10000 100 125
      (Some ''set_cpu_load_up_boost_scale'') (Some ''set_cpu_load_up_boost_scale'') None,
    rsc_row 0x03404700 ''PERF_RES_ADPF_CPU_LOAD_SPIKE_BOOST_SCALE'' BIGGEST 10000 100 125
      (Some ''set_cpu_load_spike_boost_scale'') (Some ''set_cpu_load_spike_boost_scale'') None,
    rsc_row 0x03404500 ''PERF_RES_ADPF_CPU_LOAD_SPIKE_BOOST_DURATION'' BIGGEST 10000 1 (-1)
      (Some ''set_cpu_load_spike_boost_duration'') (Some ''set_cpu_load_spike_boost_duration'') None,
    rsc_row 0x03404400 ''PERF_RES_ADPF_CPU_LOAD_UP_BOOST_DURATION'' BIGGEST 10000 1 (-1)
      (Some ''set_cpu_load_up_boost_duration'') (Some ''set_cpu_load_up_boost_duration'') None,
    rsc_row 0x01000000 ''PERF_RES_DRAM_OPP_MIN'' SMALLEST 15 0 (-1)
      (Some ''setDvfsrcDevFreqOpp'') (Some ''setDvfsrcDevFreqOpp'') (Some ''initDvfsrcDevFreq''),
    rsc_row 0x01000300 ''PERF_RES_DRAM_OPP_THERMAL_ENABLE'' BIGGEST 1 0 0
      (Some ''setThermalDvfsrcDevFreqOpp'') (Some ''setThermalDvfsrcDevFreqOpp'') None,
    rsc_row 0x0280c500 ''PERF_RES_NET_MD_HSR_MODE'' BIGGEST 1 0 0
      (Some ''set_HSR_mode'') (Some ''set_HSR_mode'') None,
    rsc_row 0x0102c000 ''PERF_RES_DRAM_VM_SWAPINESS'' BIGGEST 100 0 100
      (Some ''setLmkSwappiness'') (Some ''setLmkSwappiness'') None,
    rsc_row 0x0102c200 ''PERF_RES_DRAM_VM_WATERMARK_EXTRAKBYTESADJ'' BIGGEST 100000 0 0
      (Some ''setLmkWatermarkExtrakbytesadj'') (Some ''setLmkWatermarkExtrakbytesadj'') None]"

definition RscCfgTbl_18 :: "tRscConfig list" where
  "RscCfgTbl_18 = [
    rsc_row 0x0102c300 ''PERF_RES_DRAM_VM_WATERMARK_SCALEFACTOR'' BIGGEST 100 0 10
      (Some ''setLmkWatermarkScalefactor'') (Some ''setLmkWatermarkScalefactor'') None,
    rsc_row 0x0102c100 ''PERF_RES_DRAM_VM_DROP_CACHES'' BIGGEST 3 0 0
      (Some ''setLmkDropcaches'') (Some ''setLmkDropcaches'') None,
    rsc_row 0x01030000 ''PERF_RES_DRAM_LMK_KILL_TIMEOUT'' SMALLEST 1000 0 100
      (Some ''setLmkKilltimeout'') (Some ''setLmkKilltimeout'') None,
    rsc_row 0x01030100 ''PERF_RES_DRAM_LMK_KILL_HEAVIEST_TASK'' BIGGEST 1 0 0
      (Some ''setLmkKillheaviesttask'') (Some ''setLmkKillheaviesttask'') None,
    rsc_row 0x01030200 ''PERF_RES_DRAM_LMK_RELEASE_MEM'' BIGGEST 1000 0 0
      (Some ''setLmkReleaseMem'') (Some ''setLmkReleaseMem'') None,
    rsc_row 0x01030300 ''PERF_RES_DRAM_LMK_THRASHING_LIMIT'' SMALLEST 100 0 100
      (Some ''setLmkThrashinglimit'') (Some ''setLmkThrashinglimit'') None,
    rsc_row 0x01030400 ''PERF_RES_DRAM_LMK_SWAP_FREE_LOW_PERCENT'' BIGGEST 100 0 20
      (Some ''setLmkSwapfreelowpercent'') (Some ''unsetLmkSwapfreelowpercent'') None,
    rsc_row 0x01030500 ''PERF_RES_DRAM_LMK_MINFREE_SCALEFACTOR'' BIGGEST 100 0 0
      (Some ''setLmkminfreescalefactor'') (Some ''setLmkminfreescalefactor'') None,
    rsc_row 0x01054000 ''PERF_RES_DRAM_DURASPEED_CPUTHRESHOLD'' SMALLEST 100 0 85
      (Some ''setDuraspeedCpuThreshold'') (Some ''setDuraspeedCpuThreshold'') None,
    rsc_row 0x01054100 ''PERF_RES_DRAM_DURASPEED_CPUTARGET'' SMALLEST 100 0 70
      (Some ''setDuraspeedCpuTarget'') (Some ''setDuraspeedCpuTarget'') None,
    rsc_row 0x01054200 ''PERF_RES_DRAM_DURASPEED_POLICYLEVEL'' SMALLEST 6 1 6
      (Some ''setDuraspeedPolicylevel'') (Some ''setDuraspeedPolicylevel'') None]"

definition RscCfgTbl_19 :: "tRscConfig list" where
  "RscCfgTbl_19 = [
    rsc_row 0x02410000 ''PERF_RES_VIDEO_COLOR_CONVERT_MODE'' BIGGEST 1 0 0
      (Some ''set_video_color_convert_mode'') (Some ''set_video_color_convert_mode'') None,
    rsc_row 0x02420200 ''PERF_RES_DISP_SF_DUR_60'' ONESHOT 100000000 0 0
      (Some ''set_sf_duration_60'') (Some ''unset_sf_duration_60'') None,
    rsc_row 0x02420100 ''PERF_RES_DISP_APP_DUR_60'' ONESHOT 100000000 0 0
      (Some ''set_app_duration_60'') (Some ''unset_app_duration_60'') None,
    rsc_row 0x02420400 ''PERF_RES_DISP_SF_DUR_90'' ONESHOT 100000000 0 0
      (Some ''set_sf_duration_90'') (Some ''unset_sf_duration_90'') None,
    rsc_row 0x02420300 ''PERF_RES_DISP_APP_DUR_90'' ONESHOT 100000000 0 0
      (Some ''set_app_duration_90'') (Some ''unset_app_duration_90'') None,
    rsc_row 0x02420600 ''PERF_RES_DISP_SF_DUR_120'' ONESHOT 100000000 0 0
      (Some ''set_sf_duration_120'') (Some ''unset_sf_duration_120'') None,
    rsc_row 0x02420500 ''PERF_RES_DISP_APP_DUR_120'' ONESHOT 100000000 0 0
      (Some ''set_app_duration_120'') (Some ''unset_app_duration_120'') None,
    rsc_row 0x02420800 ''PERF_RES_SF_CPU_MASK'' ONESHOT 255 0 (-1)
      (Some ''set_sf_cpu_mask'') (Some ''unset_sf_cpu_mask'') None,
    rsc_row 0x02420900 ''PERF_RES_SF_SWITCH_LATCH_UNSIGNAL_CONFIG'' BIGGEST 1 0 0
      (Some ''set_sf_switch_latch_unsignal_config'') (Some ''set_sf_switch_latch_unsignal_config'') None,
    rsc_row 0x02420a00 ''PERF_RES_SF_DISPLAY_DEJITTER_PROCESS_ID'' ONESHOT 536870912 1 (-1)
      (Some ''set_sf_display_dejitter_process_id'') (Some ''unset_sf_display_dejitter_process_id'') None,
    rsc_row 0x02418000 ''PERF_RES_VIDEO_HIGH_CPU_FREQ_MODE'' BIGGEST 1 0 0
      (Some ''set_video_high_cpu_freq_mode'') (Some ''set_video_high_cpu_freq_mode'') None,
    rsc_row 0x0241c000 ''PERF_RES_VIDEO_LOW_LATENCY_MODE'' BIGGEST 1 0 0
      (Some ''set_video_low_latency_mode'') (Some ''set_video_low_latency_mode'') None]"

definition RscCfgTbl_20 :: "tRscConfig list" where
  "RscCfgTbl_20 = [
    rsc_row 0x02424000 ''PERF_RES_DISP_WEBP_USE_THREADS'' BIGGEST 1 0 0
      (Some ''set_webp_use_threads_mode'') (Some ''set_webp_use_threads_mode'') None,
    rsc_row 0x0143c000 ''PERF_RES_SCHED_ISOLATION_CPU'' ONESHOT 1000000 0 0
      (Some ''set_isolation_cpu'') (Some ''unset_isolation_cpu'') (Some ''init_isolation_cpu''),
    rsc_row 0x01430100 ''PERF_RES_SCHED_PELT_HALFLIFE'' SMALLEST 32 8 8
      (Some ''sched_set_pelt_halflife'') (Some ''sched_unset_pelt_halflife'') None,
    rsc_row 0x01430300 ''PERF_RES_SCHED_PELT_HALFLIFE_HIGH_PRIORITY'' SMALLEST 32 8 8
      (Some ''sched_set_pelt_halflife_high_priority'') (Some ''sched_unset_pelt_halflife_high_priority'') None,
    rsc_row 0x01430200 ''PERF_RES_SCHED_PELT_THROTTLE_MS'' SMALLEST 10000 1 100
      (Some ''sched_set_update_pelt_throttle_ms'') (Some ''sched_set_update_pelt_throttle_ms'') None,
    rsc_row 0x02000200 ''PERF_RES_FPS_FSTB_TARGET_FPS_PID'' ONESHOT 1000000 (-1000000) 0
      (Some ''notify_targetFPS_pid'') (Some ''notify_targetFPS_pid'') None,
    rsc_row 0x01c3c100 ''PERF_RES_PM_QOS_CPUIDLE_MCDI_ENABLE'' SMALLEST 1 0 1
      (Some ''set_cpuidle'') (Some ''set_cpuidle'') (Some ''init_cpuidle''),
    rsc_row 0x03004200 ''PERF_RES_UX_SCROLL_SAVE_POWER'' ONESHOT 1 0 0
      (Some ''uxScrollSavePower'') (Some ''uxScrollSavePower'') None,
    rsc_row 0x0300c500 ''PERF_RES_PERF_TASK_TURBO_ENFORCE_CT_VIP_ENABLE'' ONESHOT 100 0 0
      (Some ''set_task_turbo_enforce_ct_enable'') (Some ''unset_task_turbo_enforce_ct_enable'') None,
    rsc_row 0x0300c600 ''PERF_RES_PERF_TASK_TURBO_PER_TASK_VIP_ENABLE'' BIGGEST 1 0 0
      (Some ''set_task_turbo_per_task_vip_enable'') (Some ''set_task_turbo_per_task_vip_enable'') None,
    rsc_row 0x0300c700 ''PERF_RES_PERF_TASK_TURBO_PER_TASK_VIP'' ONESHOT 536870912 0 0
      (Some ''set_task_turbo_per_task_vip'') (Some ''unset_task_turbo_per_task_vip'') None]"

definition RscCfgTbl_21 :: "tRscConfig list" where
  "RscCfgTbl_21 = [
    rsc_row 0x01424200 ''PERF_RES_SCHED_PLUS_SYNC_FLAG'' SMALLEST 1 0 1
      (Some ''set_sync_flag'') (Some ''set_sync_flag'') None,
    rsc_row 0x01404500 ''PERF_RES_SCHED_PREFER_IDLE_PER_TASK'' BIGGEST 1 0 0
      (Some ''set_per_task_prefer_idle'') (Some ''set_per_task_prefer_idle'') None,
    rsc_row 0x03410300 ''PERF_RES_POWER_END_HINT_HOLD_TIME'' ONESHOT 255 0 (-1)
      (Some ''end_default_hold_time'') (Some ''end_default_hold_time'') None,
    rsc_row 0x01c48000 ''PERF_RES_POWER_MPMM_ENABLE'' BIGGEST 1 0 0
      (Some ''set_mpmm_enable'') (Some ''set_mpmm_enable'') None,
    rsc_row 0x01c4c000 ''PERF_RES_POWER_THROTTLE_ENABLE'' BIGGEST 1 0 1
      (Some ''set_pt_enable'') (Some ''set_pt_enable'') None,
    rsc_row 0x00808000 ''PERF_RES_CPUCORE_PERF_MODE'' BIGGEST 1 0 0
      (Some ''set_cpu_boost'') (Some ''set_cpu_boost'') None,
    rsc_row 0x0080c000 ''PERF_RES_CPUCORE_FORCE_PAUSE_CPU'' ONESHOT 100000000 0 0
      (Some ''set_force_cpu_isolated'') (Some ''unset_force_cpu_isolated'') None,
    rsc_row 0x0080c100 ''PERF_RES_CPUCORE_FORCE_PAUSE_CPU_0'' BIGGEST 1 0 0
      (Some ''set_force_cpu_0_isolated'') (Some ''set_force_cpu_0_isolated'') None,
    rsc_row 0x0080c200 ''PERF_RES_CPUCORE_FORCE_PAUSE_CPU_1'' BIGGEST 1 0 0
      (Some ''set_force_cpu_1_isolated'') (Some ''set_force_cpu_1_isolated'') None,
    rsc_row 0x0080c300 ''PERF_RES_CPUCORE_FORCE_PAUSE_CPU_2'' BIGGEST 1 0 0
      (Some ''set_force_cpu_2_isolated'') (Some ''set_force_cpu_2_isolated'') None,
    rsc_row 0x0080c400 ''PERF_RES_CPUCORE_FORCE_PAUSE_CPU_3'' BIGGEST 1 0 0
      (Some ''set_force_cpu_3_isolated'') (Some ''set_force_cpu_3_isolated'') None]"

definition RscCfgTbl_22 :: "tRscConfig list" where
  "RscCfgTbl_22 = [
    rsc_row 0x0080c500 ''PERF_RES_CPUCORE_FORCE_PAUSE_CPU_4'' BIGGEST 1 0 0
      (Some ''set_force_cpu_4_isolated'') (Some ''set_force_cpu_4_isolated'') None,
    rsc_row 0x0080c600 ''PERF_RES_CPUCORE_FORCE_PAUSE_CPU_5'' BIGGEST 1 0 0
      (Some ''set_force_cpu_5_isolated'') (Some ''set_force_cpu_5_isolated'') None,
    rsc_row 0x0080c700 ''PERF_RES_CPUCORE_FORCE_PAUSE_CPU_6'' BIGGEST 1 0 0
      (Some ''set_force_cpu_6_isolated'') (Some ''set_force_cpu_6_isolated'') None,
    rsc_row 0x0080c800 ''PERF_RES_CPUCORE_FORCE_PAUSE_CPU_7'' BIGGEST 1 0 0
      (Some ''set_force_cpu_7_isolated'') (Some ''set_force_cpu_7_isolated'') None,
    rsc_row 0x0143c200 ''PERF_RES_SCHED_OFFLINE_THROTTLE_MS_CLUSTER_0'' BIGGEST 100000000 0 100
      (Some ''set_offline_throttle_cluster0'') (Some ''set_offline_throttle_cluster0'') None,
    rsc_row 0x0143c300 ''PERF_RES_SCHED_OFFLINE_THROTTLE_MS_CLUSTER_1'' BIGGEST 100000000 0 100
      (Some ''set_offline_throttle_cluster1'') (Some ''set_offline_throttle_cluster1'') None,
    rsc_row 0x0143c400 ''PERF_RES_SCHED_OFFLINE_THROTTLE_MS_CLUSTER_2'' BIGGEST 100000000 0 100
      (Some ''set_offline_throttle_cluster2'') (Some ''set_offline_throttle_cluster2'') None,
    rsc_row 0x0143c500 ''PERF_RES_SCHED_BTASK_UP_THRESH_CLUSTER_0'' BIGGEST 100 0 50
      (Some ''set_btask_up_thres_cluster0'') (Some ''set_btask_up_thres_cluster0'') None,
    rsc_row 0x0143c600 ''PERF_RES_SCHED_BTASK_UP_THRESH_CLUSTER_1'' BIGGEST 100 0 50
      (Some ''set_btask_up_thres_cluster1'') (Some ''set_btask_up_thres_cluster1'') None,
    rsc_row 0x0143cd00 ''PERF_RES_SCHED_BTASK_UP_THRESH_CLUSTER_2'' BIGGEST 100 0 50
      (Some ''set_btask_up_thres_cluster2'') (Some ''set_btask_up_thres_cluster2'') None,
    rsc_row 0x0143c700 ''PERF_RES_SCHED_CPU_CORE_NOT_PREFERRED'' BIGGEST 100000000 0 0
      (Some ''set_not_preferred'') (Some ''set_not_preferred'') None]"

definition RscCfgTbl_23 :: "tRscConfig list" where
  "RscCfgTbl_23 = [
    rsc_row 0x0143c800 ''PERF_RES_SCHED_CORE_CTL_CPU_BUSY_THRES_0'' SMALLEST 100 0 60
      (Some ''core_ctl_set_cpu_busy_thres_cluster0'') (Some ''core_ctl_set_cpu_busy_thres_cluster0'') None,
    rsc_row 0x0143c900 ''PERF_RES_SCHED_CORE_CTL_CPU_BUSY_THRES_1'' SMALLEST 100 0 60
      (Some ''core_ctl_set_cpu_busy_thres_cluster1'') (Some ''core_ctl_set_cpu_busy_thres_cluster1'') None,
    rsc_row 0x0143ca00 ''PERF_RES_SCHED_CORE_CTL_CPU_BUSY_THRES_2'' SMALLEST 100 0 60
      (Some ''core_ctl_set_cpu_busy_thres_cluster2'') (Some ''core_ctl_set_cpu_busy_thres_cluster2'') None,
    rsc_row 0x0143cf00 ''PERF_RES_SCHED_CORE_CTL_CPU_NONBUSY_THRES_0'' BIGGEST 100 0 30
      (Some ''core_ctl_set_cpu_nonbusy_thres_cluster0'') (Some ''core_ctl_set_cpu_nonbusy_thres_cluster0'') None,
    rsc_row 0x0143d000 ''PERF_RES_SCHED_CORE_CTL_CPU_NONBUSY_THRES_1'' BIGGEST 100 0 30
      (Some ''core_ctl_set_cpu_nonbusy_thres_cluster1'') (Some ''core_ctl_set_cpu_nonbusy_thres_cluster1'') None,
    rsc_row 0x0143d100 ''PERF_RES_SCHED_CORE_CTL_CPU_NONBUSY_THRES_2'' BIGGEST 100 0 30
      (Some ''core_ctl_set_cpu_nonbusy_thres_cluster2'') (Some ''core_ctl_set_cpu_nonbusy_thres_cluster2'') None,
    rsc_row 0x0143d200 ''PERF_RES_SCHED_CORE_CTL_NR_TASK_THRES_0'' SMALLEST 1000 0 4
      (Some ''core_ctl_set_nr_task_thres_cluster0'') (Some ''core_ctl_set_nr_task_thres_cluster0'') None,
    rsc_row 0x0143d300 ''PERF_RES_SCHED_CORE_CTL_NR_TASK_THRES_1'' SMALLEST 1000 0 4
      (Some ''core_ctl_set_nr_task_thres_cluster1'') (Some ''core_ctl_set_nr_task_thres_cluster1'') None,
    rsc_row 0x0143d400 ''PERF_RES_SCHED_CORE_CTL_NR_TASK_THRES_2'' SMALLEST 1000 0 4
      (Some ''core_ctl_set_nr_task_thres_cluster2'') (Some ''core_ctl_set_nr_task_thres_cluster2'') None,
    rsc_row 0x0143d500 ''PERF_RES_SCHED_CORE_CTL_FREQ_MIN_THRES_0'' SMALLEST 5000000 0 1200000
      (Some ''core_ctl_set_freq_min_thres_cluster0'') (Some ''core_ctl_set_freq_min_thres_cluster0'') None,
    rsc_row 0x0143d600 ''PERF_RES_SCHED_CORE_CTL_FREQ_MIN_THRES_1'' SMALLEST 5000000 0 1500000
      (Some ''core_ctl_set_freq_min_thres_cluster1'') (Some ''core_ctl_set_freq_min_thres_cluster1'') None,
    rsc_row 0x0143d700 ''PERF_RES_SCHED_CORE_CTL_FREQ_MIN_THRES_2'' SMALLEST 5000000 0 1700000
      (Some ''core_ctl_set_freq_min_thres_cluster2'') (Some ''core_ctl_set_freq_min_thres_cluster2'') None]"

definition RscCfgTbl_24 :: "tRscConfig list" where
  "RscCfgTbl_24 = [
    rsc_row 0x0143d800 ''PERF_RES_SCHED_CORE_CTL_ACT_LOAD_THRES_0'' SMALLEST 100 0 80
      (Some ''core_ctl_set_act_loading_thres_cluster0'') (Some ''core_ctl_set_act_loading_thres_cluster0'') None,
    rsc_row 0x0143d900 ''PERF_RES_SCHED_CORE_CTL_ACT_LOAD_THRES_1'' SMALLEST 100 0 80
      (Some ''core_ctl_set_act_loading_thres_cluster1'') (Some ''core_ctl_set_act_loading_thres_cluster1'') None,
    rsc_row 0x0143da00 ''PERF_RES_SCHED_CORE_CTL_ACT_LOAD_THRES_2'' SMALLEST 100 0 80
      (Some ''core_ctl_set_act_loading_thres_cluster2'') (Some ''core_ctl_set_act_loading_thres_cluster2'') None,
    rsc_row 0x0143db00 ''PERF_RES_SCHED_CORE_CTL_RT_NR_TASK_THRES_0'' SMALLEST 1000 0 2
      (Some ''core_ctl_set_rt_nr_task_thres_cluster0'') (Some ''core_ctl_set_rt_nr_task_thres_cluster0'') None,
    rsc_row 0x0143dc00 ''PERF_RES_SCHED_CORE_CTL_RT_NR_TASK_THRES_1'' SMALLEST 1000 0 2
      (Some ''core_ctl_set_rt_nr_task_thres_cluster1'') (Some ''core_ctl_set_rt_nr_task_thres_cluster1'') None,
    rsc_row 0x0143dd00 ''PERF_RES_SCHED_CORE_CTL_RT_NR_TASK_THRES_2'' SMALLEST 1000 0 2
      (Some ''core_ctl_set_rt_nr_task_thres_cluster2'') (Some ''core_ctl_set_rt_nr_task_thres_cluster2'') None,
    rsc_row 0x01418600 ''PERF_RES_SCHED_CPUSET_TA'' ONESHOT 1000000 0 0
      (Some ''set_cpuset_ta_cpus'') (Some ''unset_cpuset_ta_cpus'') None,
    rsc_row 0x01418700 ''PERF_RES_SCHED_CPUSET_DEX2OAT'' ONESHOT 1000000 0 0
      (Some ''set_cpuset_dex2oat_cpus'') (Some ''unset_cpuset_dex2oat_cpus'') (Some ''init_dex2oat_cpus''),
    rsc_row 0x01418800 ''PERF_RES_SCHED_THERMAL_DEX2OAT'' ONESHOT 1000000 0 0
      (Some ''set_thermal_dex2oat_cpus'') (Some ''unset_thermal_dex2oat_cpus'') None,
    rsc_row 0x10000002 ''PERF_RES_DRAM_VM_KSWAPD0_BIND_CORE_ENABLE'' BIGGEST 1 0 0
      (Some ''kswapd0_bind'') (Some ''kswapd0_unbind'') None,
    rsc_row 0x01420200 ''PERF_RES_SCHED_CACHE_SET_CT_ROOT'' ONESHOT 1 0 0
      (Some ''set_root_ct'') (Some ''set_root_ct'') None]"

definition RscCfgTbl_25 :: "tRscConfig list" where
  "RscCfgTbl_25 = [
    rsc_row 0x01420300 ''PERF_RES_SCHED_CACHE_SET_CT_TA'' ONESHOT 1 0 0
      (Some ''set_topapp_ct'') (Some ''set_topapp_ct'') None,
    rsc_row 0x01420400 ''PERF_RES_SCHED_CACHE_SET_CT_FG'' ONESHOT 1 0 0
      (Some ''set_foreground_ct'') (Some ''set_foreground_ct'') None,
    rsc_row 0x01420500 ''PERF_RES_SCHED_CACHE_SET_CT_BG'' ONESHOT 1 0 0
      (Some ''set_background_ct'') (Some ''set_background_ct'') None,
    rsc_row 0x01420600 ''PERF_RES_SCHED_CACHE_SET_CT_SYSBG'' ONESHOT 1 0 0
      (Some ''set_system_background_ct'') (Some ''set_system_background_ct'') None,
    rsc_row 0x01420700 ''PERF_RES_SCHED_CACHE_SET_CT_RT'' ONESHOT 1 0 0
      (Some ''set_rt_ct'') (Some ''set_rt_ct'') None,
    rsc_row 0x01420900 ''PERF_RES_SCHED_CACHE_SET_CT_TASK'' ONESHOT 536870912 0 (-1)
      (Some ''set_per_task_ct'') (Some ''set_per_task_ct'') None,
    rsc_row 0x01420a00 ''PERF_RES_SCHED_CACHE_SET_NCT_TASK'' ONESHOT 536870912 0 (-1)
      (Some ''unset_per_task_ct'') (Some ''unset_per_task_ct'') None,
    rsc_row 0x01420800 ''PERF_RES_SCHED_CACHE_SET_CT_SYS'' ONESHOT 1 0 0
      (Some ''set_system_ct'') (Some ''set_system_ct'') None,
    rsc_row 0x01440000 ''PERF_RES_SCHED_NEWLY_IDLE_BALANCE_INTERVAL'' BIGGEST 1000000000 0 1000
      (Some ''set_newly_idle_balance_interval_us'') (Some ''set_newly_idle_balance_interval_us'') None,
    rsc_row 0x01440100 ''PERF_RES_SCHED_THERMAL_HEADROOM_INTERVAL_TICK'' BIGGEST 1000000000 1 1
      (Some ''set_thermal_headroom_interval_tick'') (Some ''set_thermal_headroom_interval_tick'') None,
    rsc_row 0x01440300 ''PERF_RES_SCHED_GAS_ENABLE'' BIGGEST 1 0 0
      (Some ''enable_top_grp_aware'') (Some ''enable_top_grp_aware'') None,
    rsc_row 0x01440400 ''PERF_RES_SCHED_GAS_THRESHOLD'' SMALLEST 100 0 (-1)
      (Some ''set_top_grp_threshold'') (Some ''reset_top_grp_threshold'') None]"

definition RscCfgTbl_26 :: "tRscConfig list" where
  "RscCfgTbl_26 = [
    rsc_row 0x01444000 ''PERF_RES_SCHED_SBB_ALL_SET'' ONESHOT 32768 0 0
      (Some ''set_sbb_all'') (Some ''set_sbb_all'') None,
    rsc_row 0x01444100 ''PERF_RES_SCHED_SBB_ALL_UNSET'' ONESHOT 32768 0 0
      (Some ''unset_sbb_all'') (Some ''unset_sbb_all'') None,
    rsc_row 0x01444200 ''PERF_RES_SCHED_SBB_GROUP_SET'' ONESHOT 32768 0 0
      (Some ''set_sbb_group'') (Some ''set_sbb_group'') None,
    rsc_row 0x01444300 ''PERF_RES_SCHED_SBB_GROUP_UNSET'' ONESHOT 32768 0 0
      (Some ''unset_sbb_group'') (Some ''unset_sbb_group'') None,
    rsc_row 0x01444400 ''PERF_RES_SCHED_SBB_TASK_SET'' ONESHOT 32768 0 0
      (Some ''set_sbb_task'') (Some ''set_sbb_task'') None,
    rsc_row 0x01444500 ''PERF_RES_SCHED_SBB_TASK_UNSET'' ONESHOT 32768 0 0
      (Some ''unset_sbb_task'') (Some ''unset_sbb_task'') None,
    rsc_row 0x01444600 ''PERF_RES_SCHED_SBB_ACTIVE_RATIO'' ONESHOT 100 0 100
      (Some ''set_sbb_active_ratio'') (Some ''set_sbb_active_ratio'') None,
    rsc_row 0x0144c000 ''PERF_RES_SCHED_IGNORE_IDLE_UTIL_CTRL'' ONESHOT 1 0 0
      (Some ''set_sched_ignore_idle_util_ctrl'') (Some ''set_sched_ignore_idle_util_ctrl'') None,
    rsc_row 0x01420b00 ''PERF_RES_SCHED_CACHE_CPUQOS_MODE'' ONESHOT 3 0 1
      (Some ''set_cpuqos_mode'') (Some ''set_cpuqos_mode'') None,
    rsc_row 0x01444700 ''PERF_RES_SCHED_TASK_IDLE_PREFER_SET'' ONESHOT 1000000 (-1000000) 0
      (Some ''set_task_idle_prefer'') (Some ''set_task_idle_prefer'') None,
    rsc_row 0x01444800 ''PERF_RES_SCHED_UTIL_EST_CONTROL'' BIGGEST 1 0 1
      (Some ''set_sched_ctl_util_est'') (Some ''set_sched_ctl_util_est'') None,
    rsc_row 0x01444900 ''PERF_RES_SCHED_TARGET_FREQ_C0'' BIGGEST 3200000 0 0
      (Some ''set_sched_ctl_target_freq_c0'') (Some ''set_sched_ctl_target_freq_c0'') None]"

definition RscCfgTbl_27 :: "tRscConfig list" where
  "RscCfgTbl_27 = [
    rsc_row 0x01444a00 ''PERF_RES_SCHED_TARGET_MARGIN_C0'' BIGGEST 99 (-2000) 0
      (Some ''set_sched_ctl_target_margin_c0'') (Some ''unset_sched_ctl_target_margin_c0'') None,
    rsc_row 0x01444f00 ''PERF_RES_SCHED_TARGET_MARGIN_LOW_C0'' BIGGEST 99 (-2000) 0
      (Some ''set_sched_ctl_target_margin_low_c0'') (Some ''unset_sched_ctl_target_margin_low_c0'') None,
    rsc_row 0x01444b00 ''PERF_RES_SCHED_TARGET_FREQ_C1'' BIGGEST 3200000 0 0
      (Some ''set_sched_ctl_target_freq_c1'') (Some ''set_sched_ctl_target_freq_c1'') None,
    rsc_row 0x01444c00 ''PERF_RES_SCHED_TARGET_MARGIN_C1'' BIGGEST 99 (-2000) 1
      (Some ''set_sched_ctl_target_margin_c1'') (Some ''unset_sched_ctl_target_margin_c1'') None,
    rsc_row 0x01445000 ''PERF_RES_SCHED_TARGET_MARGIN_LOW_C1'' BIGGEST 99 (-2000) 1
      (Some ''set_sched_ctl_target_margin_low_c1'') (Some ''unset_sched_ctl_target_margin_low_c1'') None,
    rsc_row 0x01444d00 ''PERF_RES_SCHED_TARGET_FREQ_C2'' BIGGEST 3200000 0 0
      (Some ''set_sched_ctl_target_freq_c2'') (Some ''set_sched_ctl_target_freq_c2'') None,
    rsc_row 0x01444e00 ''PERF_RES_SCHED_TARGET_MARGIN_C2'' BIGGEST 99 (-2000) 2
      (Some ''set_sched_ctl_target_margin_c2'') (Some ''unset_sched_ctl_target_margin_c2'') None,
    rsc_row 0x01445100 ''PERF_RES_SCHED_TARGET_MARGIN_LOW_C2'' BIGGEST 99 (-2000) 0
      (Some ''set_sched_ctl_target_margin_low_c2'') (Some ''unset_sched_ctl_target_margin_low_c2'') None,
    rsc_row 0x01448000 ''PERF_RES_SCHED_TA_MASK'' ONESHOT 1000000000 0 (-1)
      (Some ''set_sched_ta_mask'') (Some ''set_sched_ta_mask'') None,
    rsc_row 0x01448100 ''PERF_RES_SCHED_FG_MASK'' ONESHOT 1000000000 0 (-1)
      (Some ''set_sched_fg_mask'') (Some ''set_sched_fg_mask'') None,
    rsc_row 0x01448200 ''PERF_RES_SCHED_BG_MASK'' ONESHOT 1000000000 0 (-1)
      (Some ''set_sched_bg_mask'') (Some ''set_sched_bg_mask'') None,
    rsc_row 0x01448300 ''PERF_RES_SCHED_TASK_LS_SET'' ONESHOT 1000000000 0 (-1)
      (Some ''set_sched_task_ls'') (Some ''unset_sched_task_ls'') None]"

definition RscCfgTbl_28 :: "tRscConfig list" where
  "RscCfgTbl_28 = [
    rsc_row 0x01450000 ''PERF_RES_SCHED_TASK_VIP_SET'' ONESHOT 1000000000 0 (-1)
      (Some ''set_sched_task_vip'') (Some ''unset_sched_task_vip'') None,
    rsc_row 0x01450100 ''PERF_RES_SCHED_TA_VIP_SET'' ONESHOT 120 99 99
      (Some ''set_sched_ta_vip'') (Some ''unset_sched_ta_vip'') None,
    rsc_row 0x01450200 ''PERF_RES_SCHED_FG_VIP_SET'' ONESHOT 1000000000 0 (-1)
      (Some ''set_sched_fg_vip'') (Some ''unset_sched_fg_vip'') None,
    rsc_row 0x01450300 ''PERF_RES_SCHED_BG_VIP_SET'' ONESHOT 1000000000 0 (-1)
      (Some ''set_sched_bg_vip'') (Some ''unset_sched_bg_vip'') None,
    rsc_row 0x01450400 ''PERF_RES_SCHED_LS_VIP_SET'' ONESHOT 1000000000 0 (-1)
      (Some ''set_sched_ls_vip'') (Some ''unset_sched_ls_vip'') None,
    rsc_row 0x01454000 ''PERF_RES_SCHED_GEAR_MIGR_DN_PCT'' ONESHOT 100 0 0
      (Some ''set_sched_gear_migr_dn_pct'') (Some ''set_sched_gear_migr_dn_pct'') None,
    rsc_row 0x01454100 ''PERF_RES_SCHED_GEAR_MIGR_UP_PCT'' ONESHOT 100 0 0
      (Some ''set_sched_gear_migr_up_pct'') (Some ''set_sched_gear_migr_up_pct'') None,
    rsc_row 0x01454200 ''PERF_RES_SCHED_GEAR_MIGR_SET'' ONESHOT 64 0 0
      (Some ''set_sched_gear_migr_cid'') (Some ''unset_sched_gear_migr_cid'') None,
    rsc_row 0x01458000 ''PERF_RES_SCHED_TASK_GEAR_HINTS_START'' ONESHOT 64 0 0
      (Some ''set_sched_task_gear_hints_start'') (Some ''set_sched_task_gear_hints_start'') None,
    rsc_row 0x01458100 ''PERF_RES_SCHED_TASK_GEAR_HINTS_NUM'' ONESHOT 64 0 0
      (Some ''set_sched_task_gear_hints_num'') (Some ''set_sched_task_gear_hints_num'') None,
    rsc_row 0x01458200 ''PERF_RES_SCHED_TASK_GEAR_HINTS_REVERSE'' ONESHOT 1 0 0
      (Some ''set_sched_task_gear_hints_reverse'') (Some ''set_sched_task_gear_hints_reverse'') None,
    rsc_row 0x01458300 ''PERF_RES_SCHED_TASK_GEAR_HINTS_SET'' ONESHOT 536870912 0 0
      (Some ''set_sched_task_gear_hints_pid'') (Some ''unset_sched_task_gear_hints_pid'') None]"

definition RscCfgTbl_29 :: "tRscConfig list" where
  "RscCfgTbl_29 = [
    rsc_row 0x01470000 ''PERF_RES_SCHED_RT_NON_IDLE_PREEMPT'' SMALLEST 1 0 0
      (Some ''set_sched_rt_non_idle_preempt'') (Some ''unset_sched_rt_non_idle_preempt'') None,
    rsc_row 0x01458400 ''PERF_RES_SCHED_CURR_TASK_UCLAMP'' BIGGEST 1 0 0
      (Some ''set_sched_curr_task_uclamp'') (Some ''unset_sched_curr_task_uclamp'') None,
    rsc_row 0x01464000 ''PERF_RES_SCHED_DPT_CTRL'' BIGGEST 1 0 0
      (Some ''set_sched_dpt_ctrl'') (Some ''set_sched_dpt_ctrl'') None,
    rsc_row 0x01468000 ''PERF_RES_SCHED_RUNNABLE_BOOST'' BIGGEST 1 0 1
      (Some ''set_sched_runnable_boost'') (Some ''unset_sched_runnable_boost'') None,
    rsc_row 0x01468100 ''PERF_RES_SCHED_UTIL_EST_BOOST'' BIGGEST 1 0 1
      (Some ''set_sched_util_est_boost'') (Some ''unset_sched_util_est_boost'') None,
    rsc_row 0x0146c000 ''PERF_RES_SCHED_DSU_IDLE'' BIGGEST 1 0 1
      (Some ''set_sched_dsu_idle'') (Some ''set_sched_dsu_idle'') None,
    rsc_row 0x0145c000 ''PERF_RES_SCHED_CPUQOS_USER_GROUP_1'' ONESHOT 536870912 0 0
      (Some ''set_cpuqos_user_group_1'') (Some ''unset_cpuqos_user_group_1'') None,
    rsc_row 0x0145c100 ''PERF_RES_SCHED_CPUQOS_USER_GROUP_2'' ONESHOT 536870912 0 0
      (Some ''set_cpuqos_user_group_2'') (Some ''unset_cpuqos_user_group_2'') None,
    rsc_row 0x0145c200 ''PERF_RES_SCHED_CPUQOS_USER_GROUP_3'' ONESHOT 536870912 0 0
      (Some ''set_cpuqos_user_group_3'') (Some ''unset_cpuqos_user_group_3'') None,
    rsc_row 0x0145c300 ''PERF_RES_SCHED_CPUQOS_USER_GROUP_4'' ONESHOT 536870912 0 0
      (Some ''set_cpuqos_user_group_4'') (Some ''unset_cpuqos_user_group_4'') None,
    rsc_row 0x0145c400 ''PERF_RES_SCHED_CPUQOS_USER_GROUP_5'' ONESHOT 536870912 0 0
      (Some ''set_cpuqos_user_group_5'') (Some ''unset_cpuqos_user_group_5'') None,
    rsc_row 0x0145c500 ''PERF_RES_SCHED_CPUQOS_USER_GROUP_6'' ONESHOT 536870912 0 0
      (Some ''set_cpuqos_user_group_6'') (Some ''unset_cpuqos_user_group_6'') None]"

definition RscCfgTbl_30 :: "tRscConfig list" where
  "RscCfgTbl_30 = [
    rsc_row 0x01460000 ''PERF_RES_SCHED_CPUQOS_CCL_TO_USER_GROUP_1'' ONESHOT 255 0 0
      (Some ''set_cpuqos_ccl_to_user_group_1'') (Some ''set_cpuqos_ccl_to_user_group_1'') None,
    rsc_row 0x01460100 ''PERF_RES_SCHED_CPUQOS_CCL_TO_USER_GROUP_2'' ONESHOT 255 0 0
      (Some ''set_cpuqos_ccl_to_user_group_2'') (Some ''set_cpuqos_ccl_to_user_group_2'') None,
    rsc_row 0x01460200 ''PERF_RES_SCHED_CPUQOS_CCL_TO_USER_GROUP_3'' ONESHOT 255 0 0
      (Some ''set_cpuqos_ccl_to_user_group_3'') (Some ''set_cpuqos_ccl_to_user_group_3'') None,
    rsc_row 0x01460300 ''PERF_RES_SCHED_CPUQOS_CCL_TO_USER_GROUP_4'' ONESHOT 255 0 0
      (Some ''set_cpuqos_ccl_to_user_group_4'') (Some ''set_cpuqos_ccl_to_user_group_4'') None,
    rsc_row 0x01460400 ''PERF_RES_SCHED_CPUQOS_CCL_TO_USER_GROUP_5'' ONESHOT 255 0 0
      (Some ''set_cpuqos_ccl_to_user_group_5'') (Some ''set_cpuqos_ccl_to_user_group_5'') None,
    rsc_row 0x01460500 ''PERF_RES_SCHED_CPUQOS_CCL_TO_USER_GROUP_6'' ONESHOT 255 0 0
      (Some ''set_cpuqos_ccl_to_user_group_6'') (Some ''set_cpuqos_ccl_to_user_group_6'') None,
    rsc_row 0x02000300 ''PERF_RES_FPS_FPSGO_CTL'' ONESHOT 1000000 (-1000000) 0
      (Some ''fpsgo_ctrl_render_thread'') (Some ''fpsgo_ctrl_render_thread'') None,
    rsc_row 0x00c14000 ''PERF_RES_GPU_ACP_HINT'' ONESHOT 1 0 0
      (Some ''utility_gpu_acp_set'') (Some ''utility_gpu_acp_unset'') (Some ''utility_gpu_acp_init''),
    rsc_row 0x02084000 ''PERF_RES_FPS_FPSGO_SET_VIDEO_PID'' ONESHOT 32768 0 0
      (Some ''fpsgo_set_video_pid_thread'') (Some ''fpsgo_set_video_pid_thread'') None,
    rsc_row 0x02084100 ''PERF_RES_FPS_FPSGO_CLEAR_VIDEO_PID'' ONESHOT 32768 0 0
      (Some ''fpsgo_clear_video_pid_thread'') (Some ''fpsgo_clear_video_pid_thread'') None,
    rsc_row 0x02088000 ''PREF_RES_FPS_FSTB_NOTIFY_FPS_BY_PID'' ONESHOT 120 0 0
      (Some ''set_notify_fps_by_pid'') (Some ''unset_notify_fps_by_pid'') None,
    rsc_row 0x02045900 ''PERF_RES_FPS_FBT_SEPARATE_PCT_M_BY_PID'' ONESHOT 100 0 0
      (Some ''set_separate_pct_m_by_pid'') (Some ''unset_separate_pct_m_by_pid'') None]"

definition RscCfgTbl_31 :: "tRscConfig list" where
  "RscCfgTbl_31 = [
    rsc_row 0x02045a00 ''PERF_RES_FPS_FBT_SEPARATE_PCT_B_BY_PID'' ONESHOT 100 0 0
      (Some ''set_separate_pct_b_by_pid'') (Some ''unset_separate_pct_b_by_pid'') None,
    rsc_row 0x02045d00 ''PERF_RES_FPS_FBT_SEPARATE_PCT_OTHER_BY_PID'' ONESHOT 100 0 0
      (Some ''set_separate_pct_other_by_pid'') (Some ''unset_separate_pct_other_by_pid'') None,
    rsc_row 0x02045c00 ''PERF_RES_FPS_FBT_BLC_BOOST_BY_PID'' ONESHOT 2000 0 0
      (Some ''set_blc_boost_by_pid'') (Some ''unset_blc_boost_by_pid'') None,
    rsc_row 0x02045e00 ''PERF_RES_FPS_FBT_LIMIT_CFREQ2CAP_BY_PID'' ONESHOT 4000000 0 0
      (Some ''set_limit_cfreq2cap_by_pid'') (Some ''unset_limit_cfreq2cap_by_pid'') None,
    rsc_row 0x02045f00 ''PERF_RES_FPS_FBT_LIMIT_RFREQ2CAP_BY_PID'' ONESHOT 4000000 0 0
      (Some ''set_limit_rfreq2cap_by_pid'') (Some ''unset_limit_rfreq2cap_by_pid'') None,
    rsc_row 0x02046000 ''PERF_RES_FPS_FBT_LIMIT_CFREQ2CAP_M_BY_PID'' ONESHOT 4000000 0 0
      (Some ''set_limit_cfreq2cap_m_by_pid'') (Some ''unset_limit_cfreq2cap_m_by_pid'') None,
    rsc_row 0x02046100 ''PERF_RES_FPS_FBT_LIMIT_RFREQ2CAP_M_BY_PID'' ONESHOT 4000000 0 0
      (Some ''set_limit_rfreq2cap_m_by_pid'') (Some ''unset_limit_rfreq2cap_m_by_pid'') None,
    rsc_row 0x02046300 ''PERF_RES_FPS_FBT_TARGET_T_UP_BOUND_BY_PID'' ONESHOT 1000 0 0
      (Some ''set_target_time_up_bound_by_pid'') (Some ''unset_target_time_up_bound_by_pid'') None,
    rsc_row 0x0205c600 ''PERF_RES_FPS_FBT_RESET_TASKMASK_BY_PID'' ONESHOT 1 0 0
      (Some ''set_reset_taskmask_by_pid'') (Some ''unset_reset_taskmask_by_pid'') None,
    rsc_row 0x0206dc00 ''PERF_RES_FPS_FBT_EXPECTED_FPS_MARGIN_BY_PID'' ONESHOT 3000 (-3000) (-1)
      (Some ''set_expected_fps_margin_by_pid'') (Some ''unset_expected_fps_margin_by_pid'') None,
    rsc_row 0x0203ce00 ''PERF_RES_FPS_FBT_CHECK_BUFFER_QUOTA_BY_PID'' ONESHOT 1 0 0
      (Some ''set_check_buffer_quota_by_pid'') (Some ''unset_check_buffer_quota_by_pid'') None,
    rsc_row 0x02004800 ''PERF_RES_FPS_FPSGO_BYPASS_NONSF_BY_PID'' ONESHOT 1 0 1
      (Some ''set_bypass_nonsf_by_pid'') (Some ''unset_bypass_nonsf_by_pid'') None,
    rsc_row 0x02004900 ''PERF_RES_FPS_FPSGO_CONTROL_API_MASK_BY_PID'' ONESHOT 100 0 22
      (Some ''set_control_api_mask_by_pid'') (Some ''unset_control_api_mask_by_pid'') None]"

definition RscCfgTbl_32 :: "tRscConfig list" where
  "RscCfgTbl_32 = [
    rsc_row 0x02004a00 ''PERF_RES_FPS_FPSGO_CONTROL_HWUI_BY_PID'' ONESHOT 1 0 0
      (Some ''set_control_hwui_by_pid'') (Some ''unset_control_hwui_by_pid'') None,
    rsc_row 0x02004b00 ''PERF_RES_FPS_FPSGO_CAM_FPS_MARGIN_BY_PID'' ONESHOT 100 0 0
      (Some ''set_app_cam_fps_align_margin_by_pid'') (Some ''unset_app_cam_fps_align_margin_by_pid'') None,
    rsc_row 0x02004c00 ''PERF_RES_FPS_FPSGO_CAM_TIME_RATIO_BY_PID'' ONESHOT 100 0 0
      (Some ''set_app_cam_time_align_ratio_by_pid'') (Some ''unset_app_cam_time_align_ratio_by_pid'') None,
    rsc_row 0x02004d00 ''PERF_RES_FPS_FPSGO_DEP_LOADING_THR_BY_PID'' ONESHOT 100 0 0
      (Some ''set_dep_loading_thr_by_pid'') (Some ''unset_dep_loading_thr_by_pid'') None,
    rsc_row 0x02004f00 ''PERF_RES_FPS_FPSGO_CAM_WINDOW_MS_BY_PID'' ONESHOT 60000 0 0
      (Some ''set_cam_bypass_window_ms_by_pid'') (Some ''unset_cam_bypass_window_ms_by_pid'') None,
    rsc_row 0x0209c100 ''PERF_RES_FPS_FPSGO_CONTROL_MFRC_ACTIVE_BY_PID'' ONESHOT 1 0 0
      (Some ''set_mfrc_enable_by_pid'') (Some ''unset_mfrc_enable_by_pid'') None,
    rsc_row 0x0209c200 ''PERF_RES_FPS_FPSGO_FI_SET_TARGET_FPS_BY_PID'' ONESHOT 200 0 0
      (Some ''set_game_target_fps_by_pid'') (Some ''unset_game_target_fps_by_pid'') None,
    rsc_row 0x020a4000 ''PERF_RES_VIP_LOOM_CFP_APPLY_BY_PID'' ONESHOT 1 0 0
      (Some ''set_loom_enable_by_pid'') (Some ''unset_loom_enable_by_pid'') (Some ''loom_init''),
    rsc_row 0x03004400 ''PERF_RES_UX_SBE_CHECKPOINT'' SMALLEST 100 0 50
      (Some ''set_ux_sbe_check_point'') (Some ''set_ux_sbe_check_point'') (Some ''init_ux_sbe_check_point''),
    rsc_row 0x03005000 ''PERF_RES_UX_SBE_CHECKPOINT_TRAVERSAL'' SMALLEST 1000 10 100
      (Some ''set_ux_sbe_checkpoint_traversal'') (Some ''set_ux_sbe_checkpoint_traversal'') (Some ''init_ux_sbe_checkpoint_traversal''),
    rsc_row 0x03005100 ''PERF_RES_UX_SBE_THRESHOLD_TRAVERSAL'' SMALLEST 1000 10 150
      (Some ''set_ux_sbe_threshold_traversal'') (Some ''set_ux_sbe_threshold_traversal'') (Some ''init_ux_sbe_threshold_traversal''),
    rsc_row 0x03004500 ''PERF_RES_UX_SBE_HORIZONTAL_SCROLL_DURATION'' BIGGEST 100000 0 700
      (Some ''set_ux_sbe_horizontal_duration'') (Some ''set_ux_sbe_horizontal_duration'') (Some ''init_ux_sbe_horizontal_duration''),
    rsc_row 0x03004600 ''PERF_RES_UX_SBE_VERTICAL_SCROLL_DURATION'' BIGGEST 100000 0 3000
      (Some ''set_ux_sbe_vertical_duration'') (Some ''set_ux_sbe_vertical_duration'') (Some ''init_ux_sbe_vertical_duration'')]"

definition RscCfgTbl_33 :: "tRscConfig list" where
  "RscCfgTbl_33 = [
    rsc_row 0x03004700 ''PERF_RES_UX_SBE_SBB_ENABLE_LATER'' SMALLEST 100000 0 1000
      (Some ''set_ux_sbe_sbb_enable_later'') (Some ''set_ux_sbe_sbb_enable_later'') (Some ''init_ux_sbe_sbb_enable_later''),
    rsc_row 0x03004800 ''PERF_RES_UX_SBE_SCROLL_FREQ_FLOOR'' BIGGEST 1 0 0
      (Some ''set_ux_sbe_enable_freq_floor'') (Some ''set_ux_sbe_enable_freq_floor'') None,
    rsc_row 0x03004900 ''PERF_RES_UX_SBE_FRAME_DECISION'' BIGGEST 3 0 2
      (Some ''set_ux_sbe_frame_decision'') (Some ''set_ux_sbe_frame_decision'') (Some ''init_ux_sbe_frame_decision''),
    rsc_row 0x03c04000 ''PERF_RES_PEAK_POWER_BUDGET_MODE'' BIGGEST 100 0 0
      (Some ''set_peak_power_budget_mode'') (Some ''set_peak_power_budget_mode'') None,
    rsc_row 0x03c04100 ''PERF_RES_PEAK_POWER_BUDGET_CG_MIN_POWER'' BIGGEST 100000 0 0
      (Some ''set_cg_min_power'') (Some ''set_cg_min_power'') None,
    rsc_row 0x03c04200 ''PERF_RES_PEAK_POWER_FAVOR_MULTISCENE'' ONESHOT 1 0 0
      (Some ''set_cg_ppt_model_option_favor_multiscene'') (Some ''unset_cg_ppt_model_option_favor_multiscene'') None,
    rsc_row 0x03c08000 ''PERF_RES_LIMIT_PERIPHERALS_BACKLIGHT_LIMIT'' BIGGEST 100 0 0
      (Some ''limit_backlight_power'') (Some ''limit_backlight_power'') None,
    rsc_row 0x03c08100 ''PERF_RES_LIMIT_PERIPHERALS_FLASHLIGHT_LIMIT'' BIGGEST 5 0 0
      (Some ''limit_flashlight_power'') (Some ''limit_flashlight_power'') None,
    rsc_row 0x03c08200 ''PERF_RES_LIMIT_PERIPHERALS_WIFI_LIMIT'' BIGGEST 5 0 0
      (Some ''limit_wifi_power'') (Some ''limit_wifi_power'') None,
    rsc_row 0x03c08300 ''PERF_RES_LIMIT_PERIPHERALS_MD_AUTONOMOUS_CTRL'' SMALLEST 1 0 1
      (Some ''set_md_autonomous_ctrl'') (Some ''set_md_autonomous_ctrl'') None,
    rsc_row 0x03c08400 ''PERF_RES_LIMIT_PERIPHERALS_MD_UL_THROTTLE_LIMIT'' BIGGEST 8 0 0
      (Some ''limit_md_ul_throttle_power'') (Some ''limit_md_ul_throttle_power'') None,
    rsc_row 0x03c08500 ''PERF_RES_LIMIT_PERIPHERALS_MD_TXPOWER_LTE_LIMIT'' BIGGEST 21 0 0
      (Some ''limit_md_txpower_lte_power'') (Some ''limit_md_txpower_lte_power'') None,
    rsc_row 0x03c08600 ''PERF_RES_LIMIT_PERIPHERALS_MD_CC_CTRL_LIMIT'' SMALLEST 16777215 0 16777215
      (Some ''limit_md_cc_ctrl_power'') (Some ''unlimit_md_cc_ctrl_power'') None]"

definition RscCfgTbl_34 :: "tRscConfig list" where
  "RscCfgTbl_34 = [
    rsc_row 0x03c08700 ''PERF_RES_LIMIT_PERIPHERALS_MD_HEADSWITCH_LIMIT'' BIGGEST 7 0 0
      (Some ''limit_md_headswitch_power'') (Some ''limit_md_headswitch_power'') None,
    rsc_row 0x03c08800 ''PERF_RES_LIMIT_PERIPHERALS_MD_RAS_LIMIT'' BIGGEST 65793 0 0
      (Some ''limit_md_ras_power'') (Some ''limit_md_ras_power'') None,
    rsc_row 0x03c08900 ''PERF_RES_LIMIT_PERIPHERALS_MD_TXPOWER_FR2_LIMIT'' BIGGEST 1381653 0 0
      (Some ''limit_md_txpower_fr2_power'') (Some ''limit_md_txpower_fr2_power'') None,
    rsc_row 0x03c08a00 ''PERF_RES_LIMIT_PERIPHERALS_MD_FLIGHTMODE_LIMIT'' BIGGEST 1 0 0
      (Some ''limit_md_flightmode_power'') (Some ''limit_md_flightmode_power'') None,
    rsc_row 0x03c08b00 ''PERF_RES_LIMIT_PERIPHERALS_MD_CHARGER_LIMIT'' BIGGEST 1 0 0
      (Some ''limit_md_charger_power'') (Some ''limit_md_charger_power'') None,
    rsc_row 0x03c08c00 ''PERF_RES_LIMIT_PERIPHERALS_MD_TXPOWER_FR1_LIMIT'' BIGGEST 21 0 0
      (Some ''limit_md_txpower_fr1_power'') (Some ''limit_md_txpower_fr1_power'') None,
    rsc_row 0x03c08d00 ''PERF_RES_LIMIT_PERIPHERALS_MD_UAI_LIMIT'' SMALLEST 2147483646 0 0
      (Some ''limit_md_uai_power'') (Some ''unlimit_md_uai_power'') None,
    rsc_row 0x03c08e00 ''PERF_RES_LIMIT_PERIPHERALS_MD_SW_SHUTDOWN_LIMIT'' BIGGEST 1 0 0
      (Some ''limit_md_sw_shutdown_power'') (Some ''limit_md_sw_shutdown_power'') None,
    rsc_row 0x02040500 ''PERF_RES_FPS_FPSGO_AA_B_MINUS_IDLE_BY_PID'' ONESHOT 1 0 0
      (Some ''set_aa_b_minus_idle_t_by_pid'') (Some ''unset_aa_b_minus_idle_t_by_pid'') None,
    rsc_row 0x0206dd00 ''PERF_RES_FPS_FBT_QUOTA_DIFF_CLAMP_MIN_BY_PID'' ONESHOT 100 (-100) 0
      (Some ''set_quota_v2_diff_clamp_min_by_pid'') (Some ''unset_quota_v2_diff_clamp_min_by_pid'') None,
    rsc_row 0x0206de00 ''PERF_RES_FPS_FBT_QUOTA_DIFF_CLAMP_MAX_BY_PID'' ONESHOT 100 (-100) 0
      (Some ''set_quota_v2_diff_clamp_max_by_pid'') (Some ''unset_quota_v2_diff_clamp_max_by_pid'') None,
    rsc_row 0x0206e000 ''PERF_RES_FPS_FBT_L2Q_ENABLE_BY_PID'' ONESHOT 1 0 0
      (Some ''set_rl_l2q_enable_by_pid'') (Some ''unset_rl_l2q_enable_by_pid'') None,
    rsc_row 0x0206e100 ''PERF_RES_FPS_FBT_L2Q_EXP_US_BY_PID'' ONESHOT 1000000 0 0
      (Some ''set_rl_l2q_exp_us_by_pid'') (Some ''unset_rl_l2q_exp_us_by_pid'') None]"

definition RscCfgTbl_35 :: "tRscConfig list" where
  "RscCfgTbl_35 = [
    rsc_row 0x03420000 ''PERF_RES_POWERHAL_TEST_CMD'' ONESHOT 100 (-100) 0
      (Some ''set_test_val'') (Some ''set_test_val'') None,
    rsc_row 0x03428000 ''PERF_RES_POWERHAL_CUS_HINT_ENABLE'' BIGGEST 1 0 1
      (Some ''set_cus_hint_enable'') (Some ''set_cus_hint_enable'') None,
    rsc_row 0x02098000 ''PERF_RES_FPS_JANK_DETECTION_MASK'' ONESHOT 31 0 0
      (Some ''set_jank_detection_mask'') (Some ''unset_jank_detection_mask'') None,
    rsc_row 0x02040600 ''PERF_RES_FPS_FPSGO_POWERRL_ENABLE_BY_PID'' ONESHOT 1 0 0
      (Some ''set_powerRL_enable_by_pid'') (Some ''unset_powerRL_enable_by_pid'') None,
    rsc_row 0x02040700 ''PERF_RES_FPS_FPSGO_POWERRL_FPS_MARGIN_BY_PID'' ONESHOT 100 (-100) (-20)
      (Some ''set_powerRL_FPS_margin_by_pid'') (Some ''unset_powerRL_FPS_margin_by_pid'') None,
    rsc_row 0x02040800 ''PERF_RES_FPS_FPSGO_POWERRL_CAP_LIMIT_RANGE_BY_PID'' ONESHOT 100 0 20
      (Some ''set_powerRL_cap_limit_range_by_pid'') (Some ''unset_powerRL_cap_limit_range_by_pid'') None,
    rsc_row 0x02040900 ''PERF_RES_FPS_FPSGO_AA_ENABLE_BY_PID'' ONESHOT 1 0 0
      (Some ''set_aa_enable_by_pid'') (Some ''unset_aa_enable_by_pid'') None,
    rsc_row 0x02040a00 ''PERF_RES_FPS_FPSGO_AA_ENABLE_BY_TID'' ONESHOT 1 0 0
      (Some ''set_aa_enable_by_tid'') (Some ''unset_aa_enable_by_tid'') None,
    rsc_row 0x02005000 ''PERF_RES_FPS_FPSGO_CONTROL_BY_RENDER'' ONESHOT 1 (-1) (-1)
      (Some ''set_fpsgo_control_by_render'') (Some ''unset_fpsgo_control_by_render'') None,
    rsc_row 0x02005100 ''PERF_RES_FPS_FPSGO_NO_BOOST_BY_PROCESS'' ONESHOT 32768 (-32768) 0
      (Some ''set_fpsgo_no_boost_by_process'') (Some ''set_fpsgo_no_boost_by_process'') None,
    rsc_row 0x02005200 ''PERF_RES_FPS_FPSGO_NO_BOOST_BY_THREAD'' ONESHOT 32768 (-32768) 0
      (Some ''set_fpsgo_no_boost_by_thread'') (Some ''set_fpsgo_no_boost_by_thread'') None]"

definition shipped_RscCfgTbl :: "tRscConfig list" where
  "shipped_RscCfgTbl =
     RscCfgTbl_0 @ RscCfgTbl_1 @ RscCfgTbl_2 @ RscCfgTbl_3 @ RscCfgTbl_4 @ RscCfgTbl_5 @
     RscCfgTbl_6 @ RscCfgTbl_7 @ RscCfgTbl_8 @ RscCfgTbl_9 @ RscCfgTbl_10 @ RscCfgTbl_11 @
     RscCfgTbl_12 @ RscCfgTbl_13 @ RscCfgTbl_14 @ RscCfgTbl_15 @ RscCfgTbl_16 @ RscCfgTbl_17 @
     RscCfgTbl_18 @ RscCfgTbl_19 @ RscCfgTbl_20 @ RscCfgTbl_21 @ RscCfgTbl_22 @ RscCfgTbl_23 @
     RscCfgTbl_24 @ RscCfgTbl_25 @ RscCfgTbl_26 @ RscCfgTbl_27 @ RscCfgTbl_28 @ RscCfgTbl_29 @
     RscCfgTbl_30 @ RscCfgTbl_31 @ RscCfgTbl_32 @ RscCfgTbl_33 @ RscCfgTbl_34 @ RscCfgTbl_35"

lemmas RscCfgTbl_defs =
  RscCfgTbl_0_def RscCfgTbl_1_def RscCfgTbl_2_def RscCfgTbl_3_def RscCfgTbl_4_def
  RscCfgTbl_5_def RscCfgTbl_6_def RscCfgTbl_7_def RscCfgTbl_8_def RscCfgTbl_9_def
  RscCfgTbl_10_def RscCfgTbl_11_def RscCfgTbl_12_def RscCfgTbl_13_def RscCfgTbl_14_def
  RscCfgTbl_15_def RscCfgTbl_16_def RscCfgTbl_17_def RscCfgTbl_18_def RscCfgTbl_19_def
  RscCfgTbl_20_def RscCfgTbl_21_def RscCfgTbl_22_def RscCfgTbl_23_def RscCfgTbl_24_def
  RscCfgTbl_25_def RscCfgTbl_26_def RscCfgTbl_27_def RscCfgTbl_28_def RscCfgTbl_29_def
  RscCfgTbl_30_def RscCfgTbl_31_def RscCfgTbl_32_def RscCfgTbl_33_def RscCfgTbl_34_def
  RscCfgTbl_35_def

end
