(* ===== verification/Rsc_Link.thy ===== *)
theory Rsc_Link
  imports Service_Props Cpu_Props Rsc_Table
begin

text \<open>
  What the rest of the development needs of the shipped resource table: every row is
  well-formed, ids and names are unique, a command id or name selects exactly one row, and the
  rows of the frequency limits are linked to the clusters and cores they are meant for.
\<close>

section \<open>The rows\<close>

lemma rsc_row_sel [simp]:
  "cmdID (rsc_row i n c mx mn df s u t) = i" "cmdName (rsc_row i n c mx mn df s u t) = n"
  by (simp_all add: rsc_row_def)

lemma rsc_row_ok [simp]:
  "rsc_cfg_ok (rsc_row i n c mx mn df (Some s) (Some u) t) =
    (c \<noteq> ONESHOT \<longrightarrow> INT_MIN \<le> mn \<and> mn \<le> mx \<and> mx \<le> INT_MAX \<and> (if c = SMALLEST then mx < INT_MAX else INT_MIN < mn))"
  by (simp add: rsc_cfg_ok_def rsc_row_def rsc_has_funcs_def)

lemma shipped_rows_ok: "list_all rsc_cfg_ok shipped_RscCfgTbl"
  unfolding shipped_RscCfgTbl_def RscCfgTbl_defs by simp

lemma shipped_length: "length shipped_RscCfgTbl = 422"
  unfolding shipped_RscCfgTbl_def RscCfgTbl_defs by simp

lemma shipped_ids_distinct: "distinct (map cmdID shipped_RscCfgTbl)"
  unfolding shipped_RscCfgTbl_def RscCfgTbl_defs by simp

lemma shipped_ids_range: "list_all (\<lambda>r. 0 < cmdID r \<and> cmdID r \<le> INT_MAX) shipped_RscCfgTbl"
  unfolding shipped_RscCfgTbl_def RscCfgTbl_defs by simp

text \<open>Ids that \<open>cmdSetting\<close> interprets itself.\<close>

definition special_ids :: "int list" where
  "special_ids = [PERF_RES_FPS_FPSGO_RENDER_PID, PERF_RES_POWERHAL_SCREEN_OFF_STATE,
     PERF_RES_POWERHAL_WHITELIST_APP_LAUNCH_TIME_COLD, PERF_RES_POWERHAL_WHITELIST_APP_LAUNCH_TIME_WARM,
     PERF_RES_POWERHAL_WHITELIST_ACT_SWITCH_TIME, PERF_RES_POWER_HINT_EXT_HINT,
     PERF_RES_POWER_HINT_EXT_HINT_HOLD_TIME, PERF_RES_POWER_HINT_EXT_HINT_FOR_GAME, PERF_RES_POWER_HINT_HOLD_TIME,
     PERF_RES_POWER_HINT_INSTALL_MAX_DURATION, PERF_RES_POWERHAL_PRIORITY, PERF_RES_POWERHAL_ONESHOT_RESET]"

lemma shipped_not_special: "list_all (\<lambda>r. cmdID r \<notin> set special_ids) shipped_RscCfgTbl"
  unfolding shipped_RscCfgTbl_def RscCfgTbl_defs special_ids_def by simp

section \<open>A command selects its row\<close>

lemma cmdSetting_special_None: "i \<noteq> -1 \<Longrightarrow> i \<notin> set special_ids \<Longrightarrow> cmdSetting_special st i n s p = None"
  by (simp add: cmdSetting_special_def cmd_is_def special_ids_def)

lemma con_scan_miss:
  assumes "i \<noteq> -1" "\<forall>k \<in> set ks. c_cmdID (tConTable st ! k) \<noteq> i"
  shows "fold (cmdSetting_con st n p) ks (i, s, ret) = (i, s, ret)"
  using assms by (induction ks) (simp_all add: cmdSetting_con_def cmd_is_def)

lemma rsc_scan_hit:
  assumes "i \<noteq> -1" "k < length (RscCfgTbl st)" "cmdID (RscCfgTbl st ! k) = i" "distinct (map cmdID (RscCfgTbl st))"
    and "m \<le> length (RscCfgTbl st)"
  shows "fold (cmdSetting_rsc st n p) [0..<m] (i, s, ret) =
    (if k < m then (i, s\<lparr>scn_rsc := (scn_rsc s)[k := clamp_param (minVal (RscCfgTbl st ! k)) (maxVal (RscCfgTbl st ! k)) p]\<rparr>, 0)
     else (i, s, ret))"
  using assms(5)
proof (induction m)
  case (Suc m)
  have "cmdID (RscCfgTbl st ! m) = i \<longleftrightarrow> m = k"
    using assms(2-4) Suc.prems by (metis Suc_le_lessD length_map nth_eq_iff_index_eq nth_map)
  then show ?case using Suc assms(1,3) by (cases "m = k") (auto simp: cmdSetting_rsc_def cmd_is_def Let_def)
qed simp

lemma shippedD:
  assumes "k < length shipped_RscCfgTbl"
  shows "rsc_cfg_ok (shipped_RscCfgTbl ! k)" "0 < cmdID (shipped_RscCfgTbl ! k)"
    "cmdID (shipped_RscCfgTbl ! k) \<notin> set special_ids"
  using shipped_rows_ok shipped_ids_range shipped_not_special assms by (simp_all add: list_all_length)


definition shipped_boot :: perf where
  "shipped_boot = demo_boot\<lparr>RscCfgTbl := shipped_RscCfgTbl\<rparr>"

lemma shipped_boot_simps [simp]:
  "RscCfgTbl shipped_boot = shipped_RscCfgTbl" "tConTable shipped_boot = []" "\<not> nIsReady shipped_boot"
  by (simp_all add: shipped_boot_def demo_boot_def)




section \<open>The rows of the frequency limits\<close>

definition id_aligned :: "int \<Rightarrow> bool" where
  "id_aligned i \<longleftrightarrow> i mod RSC_IDX_DIFF = 0 \<or> i \<ge> 0x10000000"

text \<open>The sizes that \<open>setCPUFreqRsc\<close> relies on and keeps.\<close>

definition link_ok :: "cpu \<Rightarrow> bool" where
  "link_ok st \<longleftrightarrow> nClusterNum st \<le> CLUSTER_MAX \<and> nCpuNum st \<le> CPU_CORE_MAX \<and> nClusterNum st \<le> int (length (soft_freq st)) \<and>
     nClusterNum st \<le> int (length (hard_freq st)) \<and> nCpuNum st \<le> int (length (soft_core_freq st))"

lemma c_div_aligned:
  assumes "id_aligned i" "b \<le> 0x41c0"
  shows "c_div (i - 0x100 * b) RSC_IDX_DIFF = i div 0x100 - b"
proof (cases "i mod 0x100 = 0")
  case True
  then have "i - 0x100 * b = (i div 0x100 - b) * 0x100"
    using mult_div_mod_eq [of "0x100" i] by (simp add: algebra_simps)
  moreover have "c_div (d * 0x100) 0x100 = d" for d by (simp add: c_div_def sgn_mult abs_mult sgn_mult_abs)
  ultimately show ?thesis by metis
next
  case False
  with assms have "i - 0x100 * b > 0" by (simp add: id_aligned_def)
  then have "c_div (i - 0x100 * b) 0x100 = (i - 0x100 * b) div 0x100" by (simp add: c_div_def)
  also have "\<dots> = i div 0x100 - b" using div_mult_self2 [of "0x100" i "-b"] by simp
  finally show ?thesis .
qed

lemma aligned_eq:
  assumes "id_aligned i" "b \<le> 0x41c0" "k < 64"
  shows "i = 0x100 * b + 0x100 * k \<longleftrightarrow> i div 0x100 = b + k"
  using assms unfolding id_aligned_def by (auto simp: algebra_simps)

lemma link_ok_step:
  "link_ok (setCPUFreqRsc tbl i st) = link_ok st" "nClusterNum (setCPUFreqRsc tbl i st) = nClusterNum st"
  "nCpuNum (setCPUFreqRsc tbl i st) = nCpuNum st"
  by (simp_all add: setCPUFreqRsc_def link_ok_def Let_def)

lemma link_step_field:
  assumes "link_ok st" "i < length tbl" "id_aligned (cmdID (tbl ! i))"
  shows "int k < nClusterNum st \<Longrightarrow> rscTblMinIdx (soft_freq (setCPUFreqRsc tbl (int i) st) ! k) =
     (if cmdID (tbl ! i) = PERF_RES_CPUFREQ_MIN_CLUSTER_0 + 0x100 * int k then i else rscTblMinIdx (soft_freq st ! k))"
   "int k < nClusterNum st \<Longrightarrow> rscTblMaxIdx (soft_freq (setCPUFreqRsc tbl (int i) st) ! k) =
     (if cmdID (tbl ! i) = PERF_RES_CPUFREQ_MAX_CLUSTER_0 + 0x100 * int k then i else rscTblMaxIdx (soft_freq st ! k))"
   "int k < nClusterNum st \<Longrightarrow> rscTblMinIdx (hard_freq (setCPUFreqRsc tbl (int i) st) ! k) =
     (if cmdID (tbl ! i) = PERF_RES_CPUFREQ_MIN_HL_CLUSTER_0 + 0x100 * int k then i else rscTblMinIdx (hard_freq st ! k))"
   "int k < nClusterNum st \<Longrightarrow> rscTblMaxIdx (hard_freq (setCPUFreqRsc tbl (int i) st) ! k) =
     (if cmdID (tbl ! i) = PERF_RES_CPUFREQ_MAX_HL_CLUSTER_0 + 0x100 * int k then i else rscTblMaxIdx (hard_freq st ! k))"
   "int k < nCpuNum st \<Longrightarrow> rscTblMinIdx (soft_core_freq (setCPUFreqRsc tbl (int i) st) ! k) =
     (if cmdID (tbl ! i) = PERF_RES_CPUFREQ_MIN_CORE_0 + 0x100 * int k then i else rscTblMinIdx (soft_core_freq st ! k))"
   "int k < nCpuNum st \<Longrightarrow> rscTblMaxIdx (soft_core_freq (setCPUFreqRsc tbl (int i) st) ! k) =
     (if cmdID (tbl ! i) = PERF_RES_CPUFREQ_MAX_CORE_0 + 0x100 * int k then i else rscTblMaxIdx (soft_core_freq st ! k))"
proof -
  let ?i = "cmdID (tbl ! i)"
  define q where "q = ?i div 0x100"
  have c: "c_div (?i - 0x100 * b) 0x100 = q - b" if "b \<le> 0x41c0" for b
    using c_div_aligned [OF assms(3) that] by (simp add: q_def)
  have s: "c_div (?i - PERF_RES_CPUFREQ_MIN_CLUSTER_0) RSC_IDX_DIFF = q - 0x4000"
   "c_div (?i - PERF_RES_CPUFREQ_MAX_CLUSTER_0) RSC_IDX_DIFF = q - 0x4040"
   "c_div (?i - PERF_RES_CPUFREQ_MIN_HL_CLUSTER_0) RSC_IDX_DIFF = q - 0x4080"
   "c_div (?i - PERF_RES_CPUFREQ_MAX_HL_CLUSTER_0) RSC_IDX_DIFF = q - 0x40c0"
   "c_div (?i - PERF_RES_CPUFREQ_MIN_CORE_0) RSC_IDX_DIFF = q - 0x4180"
   "c_div (?i - PERF_RES_CPUFREQ_MAX_CORE_0) RSC_IDX_DIFF = q - 0x41c0"
    using c [of "0x4000"] c [of "0x4040"] c [of "0x4080"] c [of "0x40c0"] c [of "0x4180"] c [of "0x41c0"] by simp_all
  have e: "?i = base + 0x100 * int k \<longleftrightarrow> q = base div 0x100 + int k" if "k < 64" "base mod 0x100 = 0" "base \<le> 0x41c000" for base
  proof -
    have "base div 0x100 \<le> 0x41c0" "0x100 * (base div 0x100) = base" using that by auto
    then show ?thesis using aligned_eq [OF assms(3), of "base div 0x100" "int k"] that(1) by (simp add: q_def)
  qed
  note t = setCPUFreqRsc_def Let_def s link_ok_def nth_list_update nat_eq_iff
  show "rscTblMinIdx (soft_freq (setCPUFreqRsc tbl (int i) st) ! k) =
     (if ?i = PERF_RES_CPUFREQ_MIN_CLUSTER_0 + 0x100 * int k then i else rscTblMinIdx (soft_freq st ! k))"
   if "int k < nClusterNum st"
    using assms(1,2) that e [of PERF_RES_CPUFREQ_MIN_CLUSTER_0] by (auto simp: t)
  show "rscTblMaxIdx (soft_freq (setCPUFreqRsc tbl (int i) st) ! k) =
     (if ?i = PERF_RES_CPUFREQ_MAX_CLUSTER_0 + 0x100 * int k then i else rscTblMaxIdx (soft_freq st ! k))"
   if "int k < nClusterNum st"
    using assms(1,2) that e [of PERF_RES_CPUFREQ_MAX_CLUSTER_0] by (auto simp: t)
  show "rscTblMinIdx (hard_freq (setCPUFreqRsc tbl (int i) st) ! k) =
     (if ?i = PERF_RES_CPUFREQ_MIN_HL_CLUSTER_0 + 0x100 * int k then i else rscTblMinIdx (hard_freq st ! k))"
   if "int k < nClusterNum st"
    using assms(1,2) that e [of PERF_RES_CPUFREQ_MIN_HL_CLUSTER_0] by (auto simp: t)
  show "rscTblMaxIdx (hard_freq (setCPUFreqRsc tbl (int i) st) ! k) =
     (if ?i = PERF_RES_CPUFREQ_MAX_HL_CLUSTER_0 + 0x100 * int k then i else rscTblMaxIdx (hard_freq st ! k))"
   if "int k < nClusterNum st"
    using assms(1,2) that e [of PERF_RES_CPUFREQ_MAX_HL_CLUSTER_0] by (auto simp: t)
  show "rscTblMinIdx (soft_core_freq (setCPUFreqRsc tbl (int i) st) ! k) =
     (if ?i = PERF_RES_CPUFREQ_MIN_CORE_0 + 0x100 * int k then i else rscTblMinIdx (soft_core_freq st ! k))"
   if "int k < nCpuNum st"
    using assms(1,2) that e [of PERF_RES_CPUFREQ_MIN_CORE_0] by (auto simp: t)
  show "rscTblMaxIdx (soft_core_freq (setCPUFreqRsc tbl (int i) st) ! k) =
     (if ?i = PERF_RES_CPUFREQ_MAX_CORE_0 + 0x100 * int k then i else rscTblMaxIdx (soft_core_freq st ! k))"
   if "int k < nCpuNum st"
    using assms(1,2) that e [of PERF_RES_CPUFREQ_MAX_CORE_0] by (auto simp: t)
qed

lemma fold_link:
  assumes "distinct (map cmdID tbl)" "\<forall>r \<in> set tbl. id_aligned (cmdID r)" "link_ok st" "target \<in> set (map cmdID tbl)"
    and "\<And>s i. link_ok s \<Longrightarrow> nClusterNum s = nClusterNum st \<Longrightarrow> nCpuNum s = nCpuNum st \<Longrightarrow> i < length tbl \<Longrightarrow>
      id_aligned (cmdID (tbl ! i)) \<Longrightarrow> g (setCPUFreqRsc tbl (int i) s) = (if cmdID (tbl ! i) = target then i else g s)"
  shows "cmdID (tbl ! g (fold (\<lambda>i. setCPUFreqRsc tbl (int i)) [0..<length tbl] st)) = target"
proof -
  obtain j where j: "j < length tbl" "cmdID (tbl ! j) = target" using assms(4) by (auto simp: in_set_conv_nth)
  have "link_ok (fold (\<lambda>i. setCPUFreqRsc tbl (int i)) [0..<n] st) \<and>
      nClusterNum (fold (\<lambda>i. setCPUFreqRsc tbl (int i)) [0..<n] st) = nClusterNum st \<and>
      nCpuNum (fold (\<lambda>i. setCPUFreqRsc tbl (int i)) [0..<n] st) = nCpuNum st \<and>
      (j < n \<longrightarrow> g (fold (\<lambda>i. setCPUFreqRsc tbl (int i)) [0..<n] st) = j)" if "n \<le> length tbl" for n
    using that
  proof (induction n)
    case (Suc n)
    have "cmdID (tbl ! n) = target \<longleftrightarrow> n = j"
      using j assms(1) Suc.prems by (metis Suc_le_lessD length_map nth_eq_iff_index_eq nth_map)
    with Suc assms(2,5) show ?case by (auto simp: link_ok_step)
  qed (use assms(3) in simp)
  from this [of "length tbl"] j show ?thesis by simp
qed

definition load_freq_rsc :: "tRscConfig list \<Rightarrow> cpu \<Rightarrow> cpu" where
  "load_freq_rsc tbl st = fold (\<lambda>i. setCPUFreqRsc tbl (int i)) [0..<length tbl] st"

definition freq_linked :: "tRscConfig list \<Rightarrow> cpu \<Rightarrow> bool" where
  "freq_linked tbl st \<longleftrightarrow>
    (\<forall>c. int c < nClusterNum st \<longrightarrow>
      cmdID (tbl ! rscTblMinIdx (soft_freq st ! c)) = PERF_RES_CPUFREQ_MIN_CLUSTER_0 + 0x100 * int c \<and>
      cmdID (tbl ! rscTblMaxIdx (soft_freq st ! c)) = PERF_RES_CPUFREQ_MAX_CLUSTER_0 + 0x100 * int c \<and>
      cmdID (tbl ! rscTblMinIdx (hard_freq st ! c)) = PERF_RES_CPUFREQ_MIN_HL_CLUSTER_0 + 0x100 * int c \<and>
      cmdID (tbl ! rscTblMaxIdx (hard_freq st ! c)) = PERF_RES_CPUFREQ_MAX_HL_CLUSTER_0 + 0x100 * int c) \<and>
    (\<forall>c. int c < nCpuNum st \<longrightarrow>
      cmdID (tbl ! rscTblMinIdx (soft_core_freq st ! c)) = PERF_RES_CPUFREQ_MIN_CORE_0 + 0x100 * int c \<and>
      cmdID (tbl ! rscTblMaxIdx (soft_core_freq st ! c)) = PERF_RES_CPUFREQ_MAX_CORE_0 + 0x100 * int c)"

lemma shipped_aligned: "list_all (\<lambda>r. id_aligned (cmdID r)) shipped_RscCfgTbl"
  unfolding shipped_RscCfgTbl_def RscCfgTbl_defs by (simp add: id_aligned_def)

definition freq_ids :: "int list" where
  "freq_ids = [b + 0x100 * c. b \<leftarrow> [PERF_RES_CPUFREQ_MIN_CLUSTER_0, PERF_RES_CPUFREQ_MAX_CLUSTER_0,
      PERF_RES_CPUFREQ_MIN_HL_CLUSTER_0, PERF_RES_CPUFREQ_MAX_HL_CLUSTER_0], c \<leftarrow> [0..2]] @
    [b + 0x100 * c. b \<leftarrow> [PERF_RES_CPUFREQ_MIN_CORE_0, PERF_RES_CPUFREQ_MAX_CORE_0], c \<leftarrow> [0..7]]"

lemma shipped_has_freq_ids: "set freq_ids \<subseteq> set (map cmdID shipped_RscCfgTbl)"
proof -
  have "list_all (\<lambda>i. i \<in> set (map cmdID (RscCfgTbl_0 @ RscCfgTbl_1 @ RscCfgTbl_2 @ RscCfgTbl_3))) freq_ids"
    unfolding freq_ids_def RscCfgTbl_0_def RscCfgTbl_1_def RscCfgTbl_2_def RscCfgTbl_3_def by (simp add: upto.simps)
  then show ?thesis by (auto simp: list_all_iff shipped_RscCfgTbl_def)
qed

lemma load_freq_rsc_nums:
  "nClusterNum (load_freq_rsc tbl st) = nClusterNum st" "nCpuNum (load_freq_rsc tbl st) = nCpuNum st"
proof -
  have "nClusterNum (fold (\<lambda>i. setCPUFreqRsc tbl (int i)) is st) = nClusterNum st \<and>
      nCpuNum (fold (\<lambda>i. setCPUFreqRsc tbl (int i)) is st) = nCpuNum st" for "is"
    by (induction "is" arbitrary: st) (simp_all add: link_ok_step)
  then show "nClusterNum (load_freq_rsc tbl st) = nClusterNum st" "nCpuNum (load_freq_rsc tbl st) = nCpuNum st"
    by (simp_all add: load_freq_rsc_def)
qed

text \<open>
  Loading the shipped table links the frequency limits of up to three clusters and eight cores
  to the rows of the resource table that set them: the row of every floor, ceiling, hard floor,
  hard ceiling, core floor and core ceiling is the one whose command id belongs to that cluster or
  core, so a limit is always attributed to the scenario that requested it.
\<close>

theorem freq_rows_linked:
  assumes "link_ok st" "nClusterNum st \<le> 3"
  shows "freq_linked shipped_RscCfgTbl (load_freq_rsc shipped_RscCfgTbl st)"
proof -
  have al: "\<forall>r \<in> set shipped_RscCfgTbl. id_aligned (cmdID r)" using shipped_aligned by (simp add: list_all_iff)
  note fl = fold_link [OF shipped_ids_distinct al assms(1), folded load_freq_rsc_def]
  have cl: "PERF_RES_CPUFREQ_MIN_CLUSTER_0 + 0x100 * int c \<in> set freq_ids"
      "PERF_RES_CPUFREQ_MAX_CLUSTER_0 + 0x100 * int c \<in> set freq_ids"
      "PERF_RES_CPUFREQ_MIN_HL_CLUSTER_0 + 0x100 * int c \<in> set freq_ids"
      "PERF_RES_CPUFREQ_MAX_HL_CLUSTER_0 + 0x100 * int c \<in> set freq_ids" if "int c < nClusterNum st" for c
    using that assms(2) by (auto simp: freq_ids_def)
  have cp: "PERF_RES_CPUFREQ_MIN_CORE_0 + 0x100 * int c \<in> set freq_ids"
      "PERF_RES_CPUFREQ_MAX_CORE_0 + 0x100 * int c \<in> set freq_ids" if "int c < nCpuNum st" for c
    using that assms(1) by (auto simp: freq_ids_def link_ok_def)
  show ?thesis
    unfolding freq_linked_def load_freq_rsc_nums
  proof (intro conjI allI impI)
    fix c assume c: "int c < nClusterNum st"
    note m = cl [OF c, THEN subsetD [OF shipped_has_freq_ids]]
    show "cmdID (shipped_RscCfgTbl ! rscTblMinIdx (soft_freq (load_freq_rsc shipped_RscCfgTbl st) ! c)) =
        PERF_RES_CPUFREQ_MIN_CLUSTER_0 + 0x100 * int c"
      by (rule fl [OF m(1)]) (simp add: link_step_field(1) c)
    show "cmdID (shipped_RscCfgTbl ! rscTblMaxIdx (soft_freq (load_freq_rsc shipped_RscCfgTbl st) ! c)) =
        PERF_RES_CPUFREQ_MAX_CLUSTER_0 + 0x100 * int c"
      by (rule fl [OF m(2)]) (simp add: link_step_field(2) c)
    show "cmdID (shipped_RscCfgTbl ! rscTblMinIdx (hard_freq (load_freq_rsc shipped_RscCfgTbl st) ! c)) =
        PERF_RES_CPUFREQ_MIN_HL_CLUSTER_0 + 0x100 * int c"
      by (rule fl [OF m(3)]) (simp add: link_step_field(3) c)
    show "cmdID (shipped_RscCfgTbl ! rscTblMaxIdx (hard_freq (load_freq_rsc shipped_RscCfgTbl st) ! c)) =
        PERF_RES_CPUFREQ_MAX_HL_CLUSTER_0 + 0x100 * int c"
      by (rule fl [OF m(4)]) (simp add: link_step_field(4) c)
  next
    fix c assume c: "int c < nCpuNum st"
    note m = cp [OF c, THEN subsetD [OF shipped_has_freq_ids]]
    show "cmdID (shipped_RscCfgTbl ! rscTblMinIdx (soft_core_freq (load_freq_rsc shipped_RscCfgTbl st) ! c)) =
        PERF_RES_CPUFREQ_MIN_CORE_0 + 0x100 * int c"
      by (rule fl [OF m(1)]) (simp add: link_step_field(5) c)
    show "cmdID (shipped_RscCfgTbl ! rscTblMaxIdx (soft_core_freq (load_freq_rsc shipped_RscCfgTbl st) ! c)) =
        PERF_RES_CPUFREQ_MAX_CORE_0 + 0x100 * int c"
      by (rule fl [OF m(2)]) (simp add: link_step_field(6) c)
  qed
qed

theorem freq_rows_linked_witness:
  "freq_linked shipped_RscCfgTbl (load_freq_rsc shipped_RscCfgTbl demo_cpu) \<and> nClusterNum demo_cpu = 2"
proof -
  have "link_ok demo_cpu" "nClusterNum demo_cpu = 2" by (simp_all add: link_ok_def demo_cpu_defs)
  then show ?thesis using freq_rows_linked [of demo_cpu] by simp
qed

end
