(* ===== verification/Sys_Info.thy ===== *)
theory Sys_Info
  imports Service_Props Cpu_Props
begin

text \<open>
  System information and queries of \<^verbatim>\<open>perfservice.cpp\<close>: \<open>perfSetSysInfo\<close>, \<open>perfUserGetCapability\<close>
  and the vector of scenario-update callbacks.

  The calls into the network, launch and other utilities are appended to \<open>acts\<close> with their text
  argument; what they return is the field \<open>call_ret\<close> of the environment. The clusters are those
  of \<open>Cpu_Freq\<close>; \<open>past_cluster\<close> is what memory holds after the end of \<open>ptClusterTbl\<close>. The
  launch and switch times of the foreground application and the time of the last touch are never
  written and stay 0.
\<close>

record sys_env = lock_env +
  call_ret :: "string \<Rightarrow> string \<Rightarrow> int"
  sys_clusters :: "tClusterInfo list"     \<comment> \<open>\<open>ptClusterTbl\<close>, \<open>nClusterNum\<close> entries\<close>
  past_cluster :: tClusterInfo
  gpu_freq_count :: int
  system_time :: int                      \<comment> \<open>\<open>systemTime()\<close> in ns\<close>
  test_setting :: int
  boost_info :: "string \<Rightarrow> int"           \<comment> \<open>the four ADPF boost getters\<close>

abbreviation (input) SETSYS_MANAGEMENT_PREDICT :: int where "SETSYS_MANAGEMENT_PREDICT \<equiv> 1"
abbreviation (input) SETSYS_MANAGEMENT_PERIODIC :: int where "SETSYS_MANAGEMENT_PERIODIC \<equiv> 4"
abbreviation (input) SETSYS_NETD_STATUS :: int where "SETSYS_NETD_STATUS \<equiv> 6"
abbreviation (input) SETSYS_PREDICT_INFO :: int where "SETSYS_PREDICT_INFO \<equiv> 7"
abbreviation (input) SETSYS_NETD_DUPLICATE_PACKET_LINK :: int where "SETSYS_NETD_DUPLICATE_PACKET_LINK \<equiv> 8"
abbreviation (input) SETSYS_POWERHAL_UNIT_TEST :: int where "SETSYS_POWERHAL_UNIT_TEST \<equiv> 11"
abbreviation (input) SETSYS_API_ENABLED :: int where "SETSYS_API_ENABLED \<equiv> 12"
abbreviation (input) SETSYS_API_DISABLED :: int where "SETSYS_API_DISABLED \<equiv> 13"
abbreviation (input) SETSYS_NETD_SET_FASTPATH_BY_UID :: int where "SETSYS_NETD_SET_FASTPATH_BY_UID \<equiv> 15"
abbreviation (input) SETSYS_NETD_SET_FASTPATH_BY_LINKINFO :: int where "SETSYS_NETD_SET_FASTPATH_BY_LINKINFO \<equiv> 16"
abbreviation (input) SETSYS_NETD_CLEAR_FASTPATH_RULES :: int where "SETSYS_NETD_CLEAR_FASTPATH_RULES \<equiv> 17"
abbreviation (input) SETSYS_NETD_BOOSTER_CONFIG :: int where "SETSYS_NETD_BOOSTER_CONFIG \<equiv> 18"
abbreviation (input) SETSYS_GAME_MODE_PID :: int where "SETSYS_GAME_MODE_PID \<equiv> 20"
abbreviation (input) SETSYS_VIDEO_MODE_PID :: int where "SETSYS_VIDEO_MODE_PID \<equiv> 21"
abbreviation (input) SETSYS_NETD_SET_BOOST_UID :: int where "SETSYS_NETD_SET_BOOST_UID \<equiv> 22"
abbreviation (input) SETSYS_FOREGROUND_APP_PID :: int where "SETSYS_FOREGROUND_APP_PID \<equiv> 24"
abbreviation (input) SETSYS_CAMERA_MODE_PID :: int where "SETSYS_CAMERA_MODE_PID \<equiv> 25"
abbreviation (input) SETSYS_SCN_CHECK_SUPPORT :: int where "SETSYS_SCN_CHECK_SUPPORT \<equiv> 26"
abbreviation (input) SETSYS_NOTIFY_SMART_LAUNCH_ENGINE :: int where "SETSYS_NOTIFY_SMART_LAUNCH_ENGINE \<equiv> 27"
abbreviation (input) SETSYS_INTERACTIVE_CONTROL :: int where "SETSYS_INTERACTIVE_CONTROL \<equiv> 28"
abbreviation (input) MTKPOWER_HINT_BASE :: nat where "MTKPOWER_HINT_BASE \<equiv> 20"

section \<open>Text arguments\<close>

text \<open>The tokens \<open>strtok_r\<close> finds between blanks.\<close>

fun split_blank :: "string \<Rightarrow> string list" where
  "split_blank [] = [[]]"
| "split_blank (c # cs) =
     (case split_blank cs of
        [] \<Rightarrow> [[c]]
      | w # ws \<Rightarrow> if c = CHR '' '' then [] # w # ws else (c # w) # ws)"

definition tokens :: "string \<Rightarrow> string list" where
  "tokens s = filter (\<lambda>w. w \<noteq> []) (split_blank s)"

text \<open>\<open>strncpy\<close> into \<open>char buf[128]\<close>.\<close>

definition buf128 :: "string \<Rightarrow> string" where
  "buf128 s = take 127 s"

definition starts :: "string \<Rightarrow> string \<Rightarrow> bool" where
  "starts s p \<longleftrightarrow> take (length p) s = p"

section \<open>perfSetSysInfo\<close>

definition set_api :: "string \<Rightarrow> int \<Rightarrow> perf \<Rightarrow> perf" where
  "set_api data enable st =
     (if data = ''0'' then snd (setAPIstatus st 0 enable)
      else if data = ''1'' then snd (setAPIstatus st 1 enable)
      else if data = ''2'' then snd (setAPIstatus st 2 enable)
      else st)"

definition testRscTable :: "perf \<Rightarrow> int \<times> perf" where
  "testRscTable st = (1, st\<lparr>acts := acts st @ concat (map (\<lambda>r. case set_func r of
     None \<Rightarrow> [] | Some f \<Rightarrow> [Set_func f (maxVal r) MTKPOWER_HINT_BASE]) (RscCfgTbl st))\<rparr>)"

definition dup_packet_link :: "sys_env \<Rightarrow> string \<Rightarrow> perf \<Rightarrow> int \<times> perf" where
  "dup_packet_link env data st =
     (let call = (if data = ''DELETE_ALL'' then ''deleteAllDupPackerLink''
                  else if starts data ''MULTI'' then ''SetDupPacketMultiLink'' else ''SetOnePacketLink'');
          arg = (if data = ''DELETE_ALL'' then '''' else data)
      in (if call_ret env call arg < 0 then -1 else 0, add_act (Notify call arg) st))"

definition fastpath_by_uid :: "string \<Rightarrow> perf \<Rightarrow> int \<times> perf" where
  "fastpath_by_uid data st =
     (case tokens (buf128 data) of
        [] \<Rightarrow> (-1, st)
      | action # rest \<Rightarrow>
         (let uid = (case rest of [] \<Rightarrow> -1 | w # _ \<Rightarrow> strtol 10 w)
          in if starts action ''SET'' then (0, add_act (Notify ''sdk_netd_set_priority_by_uid'' (show_int uid)) st)
             else if starts action ''CLEAR'' then (0, add_act (Notify ''sdk_netd_clear_priority_by_uid'' (show_int uid)) st)
             else (-1, st)))"

definition fastpath_by_link :: "string \<Rightarrow> perf \<Rightarrow> int \<times> perf" where
  "fastpath_by_link data st =
     (case tokens (buf128 data) of
        action # srcip # srcport # dstip # dstport # proto # _ \<Rightarrow>
          (let link = srcip @ '' '' @ srcport @ '' '' @ dstip @ '' '' @ dstport @ '' '' @ proto
           in if starts action ''SET'' then (0, add_act (Notify ''sdk_netd_set_priority_by_linkinfo'' link) st)
              else if starts action ''CLEAR'' then (0, add_act (Notify ''sdk_netd_clear_priority_by_linkinfo'' link) st)
              else (-1, st))
      | _ \<Rightarrow> (-1, st))"

definition clear_fastpath :: "string \<Rightarrow> perf \<Rightarrow> int \<times> perf" where
  "clear_fastpath data st =
     (if starts data ''UID'' then (0, add_act (Notify ''sdk_netd_clearall'' ''1'') st)
      else if starts data ''LINKINFO'' then (0, add_act (Notify ''sdk_netd_clearall'' ''2'') st)
      else if starts data ''ALL'' then (0, add_act (Notify ''sdk_netd_clearall'' ''3'') st)
      else (-1, st))"

definition predict_info :: "string \<Rightarrow> perf \<Rightarrow> perf" where
  "predict_info data st =
     (case tokens (buf128 data) of
        [] \<Rightarrow> st
      | pack # rest \<Rightarrow>
          add_act (Notify ''notify_APPState''
            (pack @ '' '' @ show_int (case rest of [] \<Rightarrow> -1 | w # _ \<Rightarrow> strtol 10 w))) st)"

definition game_mode :: "sys_env \<Rightarrow> string \<Rightarrow> perf \<Rightarrow> perf" where
  "game_mode env data st =
     (let p = strtol 10 data; st1 = st\<lparr>game_mode_pid := p\<rparr>
      in if notifyGbePid st1 = 1
         then (let st2 = add_act (Write_node ''/sys/kernel/gbe/gbe2_fg_pid'' (show_int p)) st1
               in if call_ret env ''/sys/kernel/gbe/gbe2_fg_pid'' (show_int p) = 0 then st2\<lparr>notifyGbePid := 0\<rparr> else st2)
         else st1)"

definition sysinfo_switch :: "sys_env \<Rightarrow> int \<Rightarrow> string \<Rightarrow> perf \<Rightarrow> int \<times> perf" where
  "sysinfo_switch env ty data st =
     (if ty = SETSYS_API_ENABLED then (0, set_api data 1 st)
      else if ty = SETSYS_API_DISABLED then (0, set_api data 0 st)
      else if ty = SETSYS_GAME_MODE_PID then (0, game_mode env data st)
      else if ty = SETSYS_VIDEO_MODE_PID then (0, st\<lparr>video_mode_pid := strtol 10 data\<rparr>)
      else if ty = SETSYS_CAMERA_MODE_PID then (0, st\<lparr>camera_mode_pid := strtol 10 data\<rparr>)
      else if ty = SETSYS_NETD_SET_BOOST_UID then (0, st\<lparr>fg_uid := strtol 10 data\<rparr>)
      else if ty = SETSYS_FOREGROUND_APP_PID then (0, st\<lparr>fg_pid := strtol 10 data\<rparr>)
      else if ty = SETSYS_MANAGEMENT_PREDICT then
        (0, st\<lparr>acts := acts st @ [Notify ''update_packet'' data, Notify ''notifyCmdMode'' ''CMD_PREDICT_MODE'']\<rparr>)
      else if ty = SETSYS_MANAGEMENT_PERIODIC then
        (0, st\<lparr>acts := acts st @ [Notify ''update_packet'' data, Notify ''notifyCmdMode'' ''CMD_AGGRESSIVE_MODE'']\<rparr>)
      else if ty = SETSYS_NETD_STATUS then
        (call_ret env ''property_set'' data,
         add_act (Notify ''persist.vendor.powerhal.PERF_RES_NET_NETD_BOOST_UID'' data) st)
      else if ty = SETSYS_PREDICT_INFO then (0, predict_info data st)
      else if ty = SETSYS_NETD_DUPLICATE_PACKET_LINK then dup_packet_link env data st
      else if ty = SETSYS_NETD_SET_FASTPATH_BY_UID then fastpath_by_uid data st
      else if ty = SETSYS_NETD_SET_FASTPATH_BY_LINKINFO then fastpath_by_link data st
      else if ty = SETSYS_NETD_CLEAR_FASTPATH_RULES then clear_fastpath data st
      else if ty = SETSYS_NETD_BOOSTER_CONFIG then
        (call_ret env ''booster_netd_process_request'' data, add_act (Notify ''booster_netd_process_request'' data) st)
      else if ty = SETSYS_POWERHAL_UNIT_TEST then
        (if data = ''testRscTable'' then (0, snd (testRscTable st)) else (-1, st))
      else if ty = SETSYS_SCN_CHECK_SUPPORT then (0, st\<lparr>scnCheckSupport := strtol 10 data\<rparr>)
      else if ty = SETSYS_NOTIFY_SMART_LAUNCH_ENGINE then (0, add_act (Notify ''notifySmartLaunchEngine'' data) st)
      else if ty = SETSYS_INTERACTIVE_CONTROL then setInteractiveControl (strtol 10 data) st
      else (0, st))"

definition perfSetSysInfo :: "sys_env \<Rightarrow> perf \<Rightarrow> int \<Rightarrow> string option \<Rightarrow> (int \<times> perf) option" where
  "perfSetSysInfo env st ty data =
     when_ready env st (\<lambda>st.
       if nPowerLibEnable st = 0 then (0, st)
       else (case data of None \<Rightarrow> (-1, st) | Some d \<Rightarrow> sysinfo_switch env ty d st))"

section \<open>perfUserGetCapability\<close>

text \<open>\<open>ptClusterTbl[id]\<close> for the ids the code lets through, which include \<open>nClusterNum\<close> itself.\<close>

definition cluster_at :: "sys_env \<Rightarrow> int \<Rightarrow> tClusterInfo" where
  "cluster_at env i = (if nat i < length (sys_clusters env) then sys_clusters env ! nat i else past_cluster env)"

definition cluster_query :: "sys_env \<Rightarrow> (tClusterInfo \<Rightarrow> int) \<Rightarrow> int \<Rightarrow> int" where
  "cluster_query env f i = (if i \<ge> 0 \<and> i \<le> int (length (sys_clusters env)) then f (cluster_at env i) else -1)"

text \<open>A field of the scenario behind a handle.\<close>

definition handle_query :: "perf \<Rightarrow> (tScnNode \<Rightarrow> int) \<Rightarrow> int \<Rightarrow> int" where
  "handle_query st f h = (let idx = findHandleToIndex st h in if checkSuccess st idx then f (ptScnList st ! nat idx) else -1)"

text \<open>\<open>interval = ns2ms(now - last_touch_time)\<close> stored in an \<open>int\<close>.\<close>

definition time_to_last_touch :: "sys_env \<Rightarrow> int" where
  "time_to_last_touch env =
     (let interval = c_int (c_div (system_time env) 1000000)
      in if interval > 100000 \<or> interval < 0 then 100000 else interval)"

definition process_create_status :: "perf \<Rightarrow> int" where
  "process_create_status st = (if \<exists>s \<in> set (ptScnList st). cus_lock_hint s = 21 \<and> scn_state s = STATE_ON then 1 else 0)"

definition capability_switch :: "sys_env \<Rightarrow> int \<Rightarrow> int \<Rightarrow> perf \<Rightarrow> int \<times> perf" where
  "capability_switch env cmd i st =
     (if cmd = 1 then (int (length (sys_clusters env)), st)
      else if cmd = 2 then (cluster_query env cpuNum i, st)
      else if cmd = 3 then (cluster_query env freqMin i, st)
      else if cmd = 4 then (cluster_query env freqMax i, st)
      else if cmd = 6 then (fg_pid st, st)
      else if cmd = 8 then (fg_uid st, st)
      else if cmd = 107 then (handle_query st hint_hold_time i, st)
      else if cmd = 108 then (handle_query st ext_hint i, st)
      else if cmd = 5 then (gpu_freq_count env, st)
      else if cmd = 40 then (call_ret env ''query_capability'' (show_int i), st)
      else if cmd = 41 then (time_to_last_touch env, st)
      else if cmd = 109 then (handle_query st ext_hint_hold_time i, st)
      else if cmd = 110 then (install_max_duration st, st)
      else if cmd = 100 \<or> cmd = 101 \<or> cmd = 106 then (0, st)
      else if cmd = 9 then (process_create_status st, st)
      else if cmd = 105 then
        (let idx = findHandleToIndex st i in (if idx \<noteq> -1 then scn_type (ptScnList st ! nat idx) else -1, st))
      else if cmd = MTKPOWER_CMD_GET_RES_SETTING \<or> cmd = MTKPOWER_CMD_GET_RES_CTRL_ON \<or> cmd = MTKPOWER_CMD_GET_RES_CTRL_OFF
      then powerRscCtrl env st cmd i
      else if cmd = 201 then (0, add_act (Dump_all 0) st)
      else if cmd = 208 then (0, add_act (Dump_all 5) st)
      else if cmd = 210 then (mInteractive st, st)
      else if cmd = 209 then (getModeStatus st i, st)
      else if cmd = 205 then (queryAPIstatus st i, st)
      else if cmd = 0x03420000 then (test_setting env, st)
      else if cmd = 43 then (scnCheckSupport st, st)
      else if cmd = 211 then
        (let idx = (if i > 0 then findHandleToIndex st i else -1)
         in (if idx \<ge> 0 \<and> idx < int REG_SCN_MAX then pid (ptScnList st ! nat idx) else -1, st))
      else if cmd = 213 then (boost_info env ''cpu_load_up_boost_duration'', st)
      else if cmd = 215 then (boost_info env ''cpu_load_spike_boost_duration'', st)
      else if cmd = 214 then (boost_info env ''cpu_load_up_boost_scale'', st)
      else if cmd = 216 then (boost_info env ''cpu_load_spike_boost_scale'', st)
      else if cmd = 212 then (mInteractiveControl st, st)
      else (-1, st))"

definition perfUserGetCapability :: "sys_env \<Rightarrow> perf \<Rightarrow> int \<Rightarrow> int \<Rightarrow> (int \<times> perf) option" where
  "perfUserGetCapability env st cmd i = when_ready env st (capability_switch env cmd i)"

definition perfDumpAll :: "'a lock_env_scheme \<Rightarrow> perf \<Rightarrow> int \<Rightarrow> (int \<times> perf) option" where
  "perfDumpAll env st cmd = when_ready env st (\<lambda>st. (0, add_act (Dump_all cmd) st))"

definition perfNotifyAppState :: "perf \<Rightarrow> int \<times> perf" where
  "perfNotifyAppState st = (0, st)"

section \<open>Scenario-update callbacks\<close>

text \<open>
  \<open>vEaraCallback\<close>; a callback object is a number, 0 for \<open>nullptr\<close>. Whether a call succeeds is
  the argument \<open>alive\<close>. The result of \<open>invokeScnUpdateCallback\<close> contains the calls it made.
\<close>

record tEaraCallback =
  scn_set :: int
  last_sent_scn :: int
  cb :: nat

definition perfSetScnUpdateCallback :: "int \<Rightarrow> nat \<Rightarrow> tEaraCallback list \<Rightarrow> tEaraCallback list" where
  "perfSetScnUpdateCallback scenario_set callback v =
     (if \<exists>t \<in> set v. scn_set t = scenario_set \<and> cb t = callback then v
      else v @ [\<lparr>scn_set = scenario_set, last_sent_scn = -1, cb = callback\<rparr>])"

text \<open>The first loop: the calls, and the indices of the callbacks that failed, latest first.\<close>

definition notify_one :: "(nat \<Rightarrow> bool) \<Rightarrow> int \<Rightarrow> int \<Rightarrow> nat \<Rightarrow>
    tEaraCallback list \<times> nat list \<times> (nat \<times> int \<times> int) list \<Rightarrow> tEaraCallback list \<times> nat list \<times> (nat \<times> int \<times> int) list" where
  "notify_one alive scn data i = (\<lambda>(v, bad, sent).
     if scn_set (v ! i) = scn \<and> cb (v ! i) \<noteq> 0 then
       (if alive (cb (v ! i)) then (v, bad, sent @ [(cb (v ! i), scn, data)])
        else (v[i := (v ! i)\<lparr>cb := 0\<rparr>], i # bad, sent @ [(cb (v ! i), scn, data)]))
     else (v, bad, sent))"

text \<open>The second loop: \<open>erase\<close> each of them.\<close>

fun erase_all :: "nat list \<Rightarrow> tEaraCallback list \<Rightarrow> tEaraCallback list" where
  "erase_all [] v = v"
| "erase_all (i # is) v = (if i < length v then erase_all is (take i v @ drop (Suc i) v) else v)"

definition invokeScnUpdateCallback :: "(nat \<Rightarrow> bool) \<Rightarrow> int \<Rightarrow> int \<Rightarrow> tEaraCallback list \<Rightarrow>
    tEaraCallback list \<times> (nat \<times> int \<times> int) list" where
  "invokeScnUpdateCallback alive scn data v =
     (let (v', bad, sent) = fold (notify_one alive scn data) [0..<length v] (v, [], [])
      in (erase_all bad v', sent))"


section \<open>The callbacks that are called and kept\<close>

definition cb_due :: "int \<Rightarrow> tEaraCallback \<Rightarrow> bool" where
  "cb_due scn t \<longleftrightarrow> scn_set t = scn \<and> cb t \<noteq> 0"

definition cb_fails :: "(nat \<Rightarrow> bool) \<Rightarrow> int \<Rightarrow> tEaraCallback \<Rightarrow> bool" where
  "cb_fails alive scn t \<longleftrightarrow> cb_due scn t \<and> \<not> alive (cb t)"

lemma notify_loop:
  assumes "k \<le> length v"
  shows "\<exists>w. fold (notify_one alive scn data) [0..<k] (v, [], []) =
     (w, rev (filter (\<lambda>i. cb_fails alive scn (v ! i)) [0..<k]),
      map (\<lambda>t. (cb t, scn, data)) (filter (cb_due scn) (take k v))) \<and>
     length w = length v \<and> (\<forall>i < length v. \<not> (i < k \<and> cb_fails alive scn (v ! i)) \<longrightarrow> w ! i = v ! i)"
  using assms
proof (induction k)
  case (Suc k)
  then obtain w where w: "fold (notify_one alive scn data) [0..<k] (v, [], []) =
     (w, rev (filter (\<lambda>i. cb_fails alive scn (v ! i)) [0..<k]),
      map (\<lambda>t. (cb t, scn, data)) (filter (cb_due scn) (take k v)))"
    "length w = length v" "\<forall>i < length v. \<not> (i < k \<and> cb_fails alive scn (v ! i)) \<longrightarrow> w ! i = v ! i" by auto
  have k: "w ! k = v ! k" "k < length v" using w(3) Suc.prems by auto
  let ?w = "if cb_fails alive scn (v ! k) then w[k := (w ! k)\<lparr>cb := 0\<rparr>] else w"
  have "fold (notify_one alive scn data) [0..<Suc k] (v, [], []) =
     (?w, rev (filter (\<lambda>i. cb_fails alive scn (v ! i)) [0..<Suc k]),
      map (\<lambda>t. (cb t, scn, data)) (filter (cb_due scn) (take (Suc k) v)))"
    using w(1) k by (simp add: notify_one_def cb_fails_def cb_due_def take_Suc_conv_app_nth)
  moreover have "\<forall>i < length v. \<not> (i < Suc k \<and> cb_fails alive scn (v ! i)) \<longrightarrow> ?w ! i = v ! i"
  proof (intro allI impI)
    fix i assume "i < length v" "\<not> (i < Suc k \<and> cb_fails alive scn (v ! i))"
    then show "?w ! i = v ! i" using w(3) k by (cases "i = k") (auto simp: less_Suc_eq)
  qed
  ultimately show ?case using w(2) by (intro exI [of _ ?w]) auto
qed simp

lemma erase_all_filter:
  assumes "n \<le> length w"
  shows "erase_all (rev (filter P [0..<n])) w = map (nth w) (filter (\<lambda>i. \<not> P i) [0..<n]) @ drop n w"
  using assms
proof (induction n arbitrary: w)
  case (Suc n)
  let ?w = "take n w @ drop (Suc n) w"
  show ?case
  proof (cases "P n")
    case True
    have "map (nth ?w) (filter (\<lambda>i. \<not> P i) [0..<n]) = map (nth w) (filter (\<lambda>i. \<not> P i) [0..<n])"
      using Suc.prems by (auto simp: nth_append)
    then show ?thesis using True Suc by simp
  next
    case False
    then show ?thesis using Suc by (simp add: Cons_nth_drop_Suc)
  qed
qed simp

lemma filter_by_index: "map (nth v) (filter (\<lambda>i. Q (v ! i)) [0..<length v]) = filter Q v"
  using filter_map [of Q "nth v" "[0..<length v]"] by (simp add: map_nth o_def)

text \<open>
  A scenario update calls every callback registered for the scenario once, in the order of
  registration, and removes exactly those whose call fails; the others keep their order. The loop
  that erases by index while the vector shrinks is right because the indices are collected
  from the last to the first.
\<close>

theorem invoke_callbacks_exact:
  "invokeScnUpdateCallback alive scn data v =
    (filter (\<lambda>t. \<not> (scn_set t = scn \<and> cb t \<noteq> 0 \<and> \<not> alive (cb t))) v,
     map (\<lambda>t. (cb t, scn, data)) (filter (\<lambda>t. scn_set t = scn \<and> cb t \<noteq> 0) v))"
proof -
  obtain w where w: "fold (notify_one alive scn data) [0..<length v] (v, [], []) =
     (w, rev (filter (\<lambda>i. cb_fails alive scn (v ! i)) [0..<length v]), map (\<lambda>t. (cb t, scn, data)) (filter (cb_due scn) v))"
    "length w = length v" "\<forall>i < length v. \<not> cb_fails alive scn (v ! i) \<longrightarrow> w ! i = v ! i"
    using notify_loop [of "length v" v alive scn data] by auto
  have "erase_all (rev (filter (\<lambda>i. cb_fails alive scn (v ! i)) [0..<length v])) w =
      map (nth w) (filter (\<lambda>i. \<not> cb_fails alive scn (v ! i)) [0..<length v])"
    using erase_all_filter [of "length v" w] w(2) by simp
  also have "\<dots> = map (nth v) (filter (\<lambda>i. \<not> cb_fails alive scn (v ! i)) [0..<length v])" using w(3) by auto
  also have "\<dots> = filter (\<lambda>t. \<not> cb_fails alive scn t) v" by (rule filter_by_index)
  finally show ?thesis
    using w(1) by (simp add: invokeScnUpdateCallback_def cb_fails_def cb_due_def [abs_def])
qed


section \<open>Numbers as text\<close>

lemma of_char_digit: "d < 10 \<Longrightarrow> (of_char (char_of (48 + d) :: char) :: int) = 48 + int d"
proof -
  assume "d < 10"
  then have "(of_char (char_of (48 + d) :: char) :: nat) = 48 + d" by simp
  then show ?thesis by (metis of_nat_add of_nat_numeral of_nat_of_char)
qed

lemma digit_val_digit: "d < 10 \<Longrightarrow> digit_val 10 (char_of (48 + d)) = Some (int d)"
  using of_char_digit [of d] by (simp add: digit_val_def Let_def)

lemma digits_acc_snoc:
  assumes "\<forall>c \<in> set cs. digit_val base c \<noteq> None"
  shows "digits_acc base (cs @ [c]) acc = (case digit_val base c of None \<Rightarrow> digits_acc base cs acc
    | Some d \<Rightarrow> digits_acc base cs acc * base + d)"
  using assms by (induction cs arbitrary: acc) (auto split: option.splits)

lemma nat_digits_digits: "\<forall>c \<in> set (nat_digits n). digit_val 10 c \<noteq> None"
proof (induction n rule: nat_digits.induct)
  case (1 n)
  then show ?case
    using digit_val_digit [of n] digit_val_digit [of "n mod 10"] by (cases "n < 10") (auto simp: nat_digits.simps [of n])
qed

lemma digits_acc_nat: "digits_acc 10 (nat_digits n) 0 = int n"
proof (induction n rule: nat_digits.induct)
  case (1 n)
  show ?case
  proof (cases "n < 10")
    case True
    then show ?thesis using digit_val_digit [of n] by (simp add: nat_digits.simps [of n])
  next
    case False
    then have "digits_acc 10 (nat_digits n) 0 = int (n div 10) * 10 + int (n mod 10)"
      using 1 digits_acc_snoc [OF nat_digits_digits] digit_val_digit [of "n mod 10"] by (simp add: nat_digits.simps [of n])
    then show ?thesis by (simp add: of_nat_div of_nat_mod)
  qed
qed

lemma nat_digits_head:
  obtains c cs where "nat_digits n = c # cs" "\<not> c_isspace c" "c \<noteq> CHR ''-''" "c \<noteq> CHR ''+''"
proof -
  have ne: "nat_digits n \<noteq> []" by (simp add: nat_digits.simps [of n])
  then obtain c cs where c: "nat_digits n = c # cs" by (cases "nat_digits n") auto
  then have "digit_val 10 c \<noteq> None" using nat_digits_digits [of n] by simp
  then have "48 \<le> (of_char c :: int) \<and> (of_char c :: int) \<le> 57" by (auto simp: digit_val_def Let_def split: if_splits)
  then have "48 \<le> (of_char c :: nat)" "(of_char c :: nat) \<le> 57" by (metis of_nat_le_iff of_nat_numeral of_nat_of_char)+
  then have "c \<noteq> CHR '' ''" "c \<noteq> CHR ''-''" "c \<noteq> CHR ''+''" "\<not> (of_char c :: nat) \<le> 13" by auto
  then show thesis using that [OF c] by (auto simp: c_isspace_def)
qed

lemma strtol_show_int:
  assumes "INT_MIN \<le> i" "i \<le> INT_MAX"
  shows "strtol 10 (show_int i) = i"
proof -
  obtain c cs where c: "nat_digits (nat \<bar>i\<bar>) = c # cs" "\<not> c_isspace c" "c \<noteq> CHR ''-''" "c \<noteq> CHR ''+''"
    by (rule nat_digits_head)
  have d: "digits_acc 10 (c # cs) 0 = \<bar>i\<bar>" using digits_acc_nat [of "nat \<bar>i\<bar>"] c(1) by simp
  have m: "\<not> c_isspace (CHR ''-'')" by (simp add: c_isspace_def)
  have "show_int i = (if i < 0 then CHR ''-'' # c # cs else c # cs)" using c(1) by (cases "i < 0") (simp_all add: show_int_def)
  then show ?thesis
    using c d m assms by (cases "i < 0") (simp_all add: strtol_def Let_def)
qed


section \<open>What system information changes\<close>

text \<open>The fields the arbitration depends on are left alone.\<close>

definition core_same :: "perf \<Rightarrow> perf \<Rightarrow> bool" where
  "core_same st st' \<longleftrightarrow> same_tables st st' \<and> ptScnList st' = ptScnList st \<and>
     nPowerLibEnable st' = nPowerLibEnable st \<and> nIsReady st' = nIsReady st"

named_theorems core_frame \<open>operations that leave the tables and the scenarios alone\<close>

lemma core_same_inv: "core_same st st' \<Longrightarrow> service_inv st \<Longrightarrow> service_inv st'"
  unfolding core_same_def by (rule service_inv_fields) auto

lemma core_same_settings: "core_same st st' \<Longrightarrow> settings st' = settings st"
  by (simp add: core_same_def same_tables_def settings_def)

lemma core_same_refl [core_frame]: "core_same st st"
  by (simp add: core_same_def same_tables_def)

lemma set_api_frame [core_frame]: "core_same st (set_api data e st)"
  by (simp add: set_api_def setAPIstatus_def core_same_def same_tables_def)

lemma game_mode_frame [core_frame]: "core_same st (game_mode env data st)"
  by (simp add: game_mode_def Let_def core_same_def same_tables_def)

lemma predict_info_frame [core_frame]: "core_same st (predict_info data st)"
  by (simp add: predict_info_def core_same_def same_tables_def split: list.split)

lemma fastpath_frame [core_frame]:
  "core_same st (snd (fastpath_by_uid data st))" "core_same st (snd (fastpath_by_link data st))"
  "core_same st (snd (clear_fastpath data st))" "core_same st (snd (dup_packet_link env data st))"
  "core_same st (snd (testRscTable st))" "core_same st (snd (setInteractiveControl v st))"
  by (simp_all add: fastpath_by_uid_def fastpath_by_link_def clear_fastpath_def dup_packet_link_def testRscTable_def
      setInteractiveControl_def Let_def core_same_def same_tables_def split: list.split)

lemma core_same_field [core_frame]:
  "core_same st (st\<lparr>acts := a\<rparr>)" "core_same st (st\<lparr>video_mode_pid := v\<rparr>)" "core_same st (st\<lparr>camera_mode_pid := v\<rparr>)"
  "core_same st (st\<lparr>fg_uid := v\<rparr>)" "core_same st (st\<lparr>fg_pid := v\<rparr>)" "core_same st (st\<lparr>scnCheckSupport := v\<rparr>)"
  by (simp_all add: core_same_def same_tables_def)

lemma sysinfo_switch_frame: "core_same st (snd (sysinfo_switch env ty data st))"
  unfolding sysinfo_switch_def by (simp add: core_frame)

text \<open>
  Passing system information to the service never disturbs the arbitration: whatever the
  type and the text, the invariant of the service is kept, and once the service is ready no
  scenario and no setting of a node or resource changes.
\<close>

theorem sysinfo_keeps_settings:
  assumes "perf_inv st" "env_ok env" "perfSetSysInfo env st ty data = Some (r, st')"
  shows "perf_inv st' \<and> (nIsReady st \<longrightarrow> settings st' = settings st \<and> ptScnList st' = ptScnList st)"
proof -
  define f where "f = (\<lambda>st. if nPowerLibEnable st = 0 then (0, st)
    else (case data of None \<Rightarrow> (-1, st) | Some d \<Rightarrow> sysinfo_switch env ty d st))"
  have run: "when_ready env st f = Some (r, st')" using assms(3) by (simp add: perfSetSysInfo_def f_def)
  have fr: "core_same s (snd (f s))" for s
    by (simp add: f_def sysinfo_switch_frame core_same_refl split: option.split)
  have "perf_inv st'" by (rule when_ready_inv [OF assms(1,2) run]) (rule core_same_inv [OF fr])
  moreover have "settings st' = settings st \<and> ptScnList st' = ptScnList st" if "nIsReady st"
    using run fr [of st] core_same_settings [OF fr [of st]] ready_fun [OF that, of env f] by (auto simp: core_same_def)
  ultimately show ?thesis by blast
qed

lemma capability_switch_inv:
  assumes "service_inv st" "cmd \<noteq> MTKPOWER_CMD_GET_RES_CTRL_ON"
  shows "service_inv (snd (capability_switch env cmd i st))"
proof -
  have d: "service_inv (add_act (Dump_all k) st)" for k by (rule core_same_inv [OF core_same_field(1) assms(1)])
  have s: "snd (powerRscCtrl env st MTKPOWER_CMD_GET_RES_SETTING i) = st" by (simp add: powerRscCtrl_def Let_def split: option.split)
  consider "cmd = MTKPOWER_CMD_GET_RES_SETTING" | "cmd = MTKPOWER_CMD_GET_RES_CTRL_OFF"
    | "cmd \<noteq> MTKPOWER_CMD_GET_RES_SETTING" "cmd \<noteq> MTKPOWER_CMD_GET_RES_CTRL_OFF" by blast
  then show ?thesis
  proof cases
    case 3
    then show ?thesis using assms d by (simp add: capability_switch_def Let_def)
  qed (use assms s service_inv_rsc_off [OF assms(1)] in \<open>simp_all add: capability_switch_def\<close>)
qed

text \<open>
  The information that can be read back: the type under which it is set and the query.
\<close>

definition read_back :: "(int \<times> int) list" where
  "read_back = [(SETSYS_FOREGROUND_APP_PID, 6), (SETSYS_NETD_SET_BOOST_UID, 8),
     (SETSYS_SCN_CHECK_SUPPORT, 43), (SETSYS_INTERACTIVE_CONTROL, 212)]"

text \<open>
  C32. What is set can be read back. On a ready service the foreground process, the user id of
  the network boost, the switch of the user check and the interactive control that were set from
  the decimal text of an \<open>int\<close> are the values the matching query returns, and enabling or disabling
  one of the three client interfaces is what the query of its status returns.
\<close>

theorem sysinfo_read_back:
  assumes "nIsReady st" "nPowerLibEnable st \<noteq> 0" "INT_MIN \<le> v" "v \<le> INT_MAX"
    and "(ty, cmd) \<in> set read_back" "length (powerhalAPI_status st) = 3" "k < 3"
  shows "(\<exists>st1. perfSetSysInfo env st ty (Some (show_int v)) = Some (0, st1) \<and>
      perfUserGetCapability env st1 cmd i = Some (v, st1)) \<and>
    (\<exists>st1. perfSetSysInfo env st SETSYS_API_ENABLED (Some (show_int (int k))) = Some (0, st1) \<and>
      perfUserGetCapability env st1 205 (int k) = Some (1, st1)) \<and>
    (\<exists>st1. perfSetSysInfo env st SETSYS_API_DISABLED (Some (show_int (int k))) = Some (0, st1) \<and>
      perfUserGetCapability env st1 205 (int k) = Some (0, st1))"
proof -
  have s: "perfSetSysInfo env st t (Some d) = Some (sysinfo_switch env t d st)" for t d
    using assms(1,2) by (simp add: perfSetSysInfo_def ready_fun)
  have q: "perfUserGetCapability env st1 c j = Some (capability_switch env c j st1)" if "nIsReady st1" for st1 c j
    using that by (simp add: perfUserGetCapability_def ready_fun)
  have v: "strtol 10 (show_int v) = v" by (rule strtol_show_int [OF assms(3,4)])
  have "\<exists>st1. sysinfo_switch env ty (show_int v) st = (0, st1) \<and> nIsReady st1 \<and> capability_switch env cmd i st1 = (v, st1)"
  proof -
    consider "ty = SETSYS_FOREGROUND_APP_PID" "cmd = 6" | "ty = SETSYS_NETD_SET_BOOST_UID" "cmd = 8"
      | "ty = SETSYS_SCN_CHECK_SUPPORT" "cmd = 43" | "ty = SETSYS_INTERACTIVE_CONTROL" "cmd = 212"
      using assms(5) by (auto simp: read_back_def)
    then show ?thesis
    proof cases
      case 1
      then show ?thesis using assms(1) v by (simp add: sysinfo_switch_def capability_switch_def)
    next
      case 2
      then show ?thesis using assms(1) v by (simp add: sysinfo_switch_def capability_switch_def)
    next
      case 3
      then show ?thesis using assms(1) v by (simp add: sysinfo_switch_def capability_switch_def)
    next
      case 4
      then show ?thesis using assms(1) v by (simp add: sysinfo_switch_def capability_switch_def setInteractiveControl_def)
    qed
  qed
  then have "\<exists>st1. perfSetSysInfo env st ty (Some (show_int v)) = Some (0, st1) \<and>
      perfUserGetCapability env st1 cmd i = Some (v, st1)"
    using s q by metis
  moreover have api: "\<exists>st1. perfSetSysInfo env st t (Some (show_int (int k))) = Some (0, st1) \<and>
      perfUserGetCapability env st1 205 (int k) = Some (e, st1)"
    if "t = SETSYS_API_ENABLED \<and> e = 1 \<or> t = SETSYS_API_DISABLED \<and> e = 0" for t e
  proof -
    have "show_int 0 = ''0''" "show_int 1 = ''1''" "show_int 2 = ''2''"
      by (simp_all add: show_int_def nat_digits.simps char_of_def bit_iff_odd)
    then have sa: "set_api (show_int (int k)) e st = snd (setAPIstatus st (int k) e)"
      using assms(7) by (auto simp: set_api_def less_Suc_eq numeral_3_eq_3 numeral_2_eq_2)
    have "sysinfo_switch env t (show_int (int k)) st = (0, set_api (show_int (int k)) e st)"
      using that by (auto simp: sysinfo_switch_def)
    moreover have "powerhalAPI_status (snd (setAPIstatus st (int k) e)) ! k = e" "nIsReady (snd (setAPIstatus st (int k) e))"
      using assms(1,6,7) that by (auto simp: setAPIstatus_def)
    ultimately show ?thesis using s q sa assms(7) by (simp add: capability_switch_def queryAPIstatus_def)
  qed
  ultimately show ?thesis using api [of SETSYS_API_ENABLED 1] api [of SETSYS_API_DISABLED 0] by simp
qed

text \<open>
  The queries about one CPU cluster check the id with \<open>id <= nClusterNum\<close>, so the id one
  past the last cluster is let through and answered from the memory behind the cluster table.
\<close>

theorem cluster_query_past_end:
  assumes "nIsReady st"
  shows "perfUserGetCapability env st 2 (int (length (sys_clusters env))) = Some (cpuNum (past_cluster env), st) \<and>
    perfUserGetCapability env st 2 (int (length (sys_clusters env)) + 1) = Some (-1, st)"
  using assms by (simp add: perfUserGetCapability_def ready_fun capability_switch_def cluster_query_def cluster_at_def)


section \<open>A small environment\<close>

definition demo_sys_env :: sys_env where
  "demo_sys_env = lock_env.extend demo_lock_env (sys_env.fields (\<lambda>_ _. 0) [demo_cluster 0 [500, 1000, 2000]]
     ((demo_cluster 0 [])\<lparr>cpuNum := 99\<rparr>) 8 5000000 0 (\<lambda>_. -1))"

lemmas demo_sys_defs = demo_sys_env_def demo_lock_env_def lock_env.defs sys_env.defs

lemma demo_sys_ok: "env_ok demo_sys_env" "sys_clusters demo_sys_env = [demo_cluster 0 [500, 1000, 2000]]"
  "cpuNum (past_cluster demo_sys_env) = 99"
  by (simp_all add: env_ok_def demo_sys_defs)

lemma demo_service_on: "nIsReady demo_service" "nPowerLibEnable demo_service \<noteq> 0" "perf_inv demo_service"
  using demo_service_inv by (simp_all add: perf_inv_def demo_service_def demo_defs)

theorem sysinfo_keeps_settings_witness:
  "\<exists>st. perfSetSysInfo demo_sys_env demo_service SETSYS_FOREGROUND_APP_PID (Some ''4711'') = Some (0, st) \<and>
     perf_inv st \<and> settings st = settings demo_service \<and> fg_pid st = 4711"
proof -
  have e: "perfSetSysInfo demo_sys_env demo_service SETSYS_FOREGROUND_APP_PID (Some ''4711'') =
      Some (0, demo_service\<lparr>fg_pid := strtol 10 ''4711''\<rparr>)"
    using demo_service_on by (simp add: perfSetSysInfo_def ready_fun sysinfo_switch_def)
  have "strtol 10 ''4711'' = 4711" by code_simp
  then show ?thesis using sysinfo_keeps_settings [OF demo_service_on(3) demo_sys_ok(1) e] e demo_service_on(1) by auto
qed

theorem sysinfo_read_back_witness:
  "\<exists>st1. perfSetSysInfo demo_sys_env (demo_service\<lparr>powerhalAPI_status := [0, 0, 0]\<rparr>) SETSYS_NETD_SET_BOOST_UID (Some (show_int 10123)) = Some (0, st1) \<and>
      perfUserGetCapability demo_sys_env st1 8 0 = Some (10123, st1)"
proof -
  have "(SETSYS_NETD_SET_BOOST_UID, 8) \<in> set read_back" by (simp add: read_back_def)
  moreover have "nIsReady (demo_service\<lparr>powerhalAPI_status := [0, 0, 0]\<rparr>)" "nPowerLibEnable (demo_service\<lparr>powerhalAPI_status := [0, 0, 0]\<rparr>) \<noteq> 0" "length (powerhalAPI_status (demo_service\<lparr>powerhalAPI_status := [0, 0, 0]\<rparr>)) = 3"
    using demo_service_on by (simp_all)
  ultimately show ?thesis
    using sysinfo_read_back [of "demo_service\<lparr>powerhalAPI_status := [0, 0, 0]\<rparr>" 10123 SETSYS_NETD_SET_BOOST_UID 8 0 demo_sys_env 0] by simp
qed

theorem cluster_query_past_end_witness:
  "perfUserGetCapability demo_sys_env demo_service 2 1 = Some (99, demo_service) \<and>
   length (sys_clusters demo_sys_env) = 1"
  using cluster_query_past_end [OF demo_service_on(1), of demo_sys_env] demo_sys_ok by simp

end
