(* ===== verification/Dl_List.thy ===== *)
theory Dl_List
  imports Power_Prelude
begin

text \<open>
  The doubly linked lists of \<^verbatim>\<open>lib/util/mi_util.cpp\<close> on an explicit store.

  An address is a natural number and 0 is \<open>NULL\<close>. The store holds the two link fields of every
  list node and the header (\<open>tMI_DLIST\<close>) of every list; \<open>U32\<close> counters are 32-bit words. A loop
  that follows links may run forever on a cyclic store and is a partial function: not returning
  is \<open>None\<close>.
\<close>

unbundle bit_operations_syntax

type_synonym addr = nat

section \<open>Store\<close>

record tMI_DLIST =
  node_next :: addr
  node_prev :: addr
  l_count :: u32

record store =
  dl_next :: "addr \<Rightarrow> addr"
  dl_prev :: "addr \<Rightarrow> addr"
  dl_hdr :: "addr \<Rightarrow> tMI_DLIST"

abbreviation (input) MI_UTIL_MAXCOUNT :: u32 where "MI_UTIL_MAXCOUNT \<equiv> 0xFFFFFFFE"
abbreviation (input) MI_UTIL_ERROR :: u32 where "MI_UTIL_ERROR \<equiv> 0xFFFFFFFF"
abbreviation (input) NULL :: addr where "NULL \<equiv> 0"

abbreviation set_next :: "addr \<Rightarrow> addr \<Rightarrow> store \<Rightarrow> store" where
  "set_next a b s \<equiv> s\<lparr>dl_next := (dl_next s)(a := b)\<rparr>"

abbreviation set_prev :: "addr \<Rightarrow> addr \<Rightarrow> store \<Rightarrow> store" where
  "set_prev a b s \<equiv> s\<lparr>dl_prev := (dl_prev s)(a := b)\<rparr>"

abbreviation upd_hdr :: "addr \<Rightarrow> (tMI_DLIST \<Rightarrow> tMI_DLIST) \<Rightarrow> store \<Rightarrow> store" where
  "upd_hdr l f s \<equiv> s\<lparr>dl_hdr := (dl_hdr s)(l := f (dl_hdr s l))\<rparr>"

section \<open>Operations\<close>

definition MI_DlInit :: "addr \<Rightarrow> store \<Rightarrow> store" where
  "MI_DlInit pList s =
     (if pList \<noteq> NULL then upd_hdr pList (\<lambda>_. \<lparr>node_next = NULL, node_prev = NULL, l_count = 0\<rparr>) s else s)"

definition MI_DlPushTail :: "addr \<Rightarrow> addr \<Rightarrow> store \<Rightarrow> u32 \<times> store" where
  "MI_DlPushTail pList pNode s =
     (if pList \<noteq> NULL \<and> pNode \<noteq> NULL then
        if l_count (dl_hdr s pList) \<ge> MI_UTIL_MAXCOUNT then (MI_UTIL_ERROR, s)
        else if node_next (dl_hdr s pList) \<noteq> NULL then
          let s1 = set_next pNode NULL s;
              s2 = set_prev pNode (node_prev (dl_hdr s1 pList)) s1;
              s3 = set_next (node_prev (dl_hdr s2 pList)) pNode s2;
              s4 = upd_hdr pList (\<lambda>h. h\<lparr>node_prev := pNode, l_count := l_count h + 1\<rparr>) s3
          in (l_count (dl_hdr s4 pList), s4)
        else
          let s1 = upd_hdr pList (\<lambda>h. h\<lparr>node_next := pNode, node_prev := pNode\<rparr>) s;
              s2 = set_prev pNode NULL (set_next pNode NULL s1);
              s3 = upd_hdr pList (\<lambda>h. h\<lparr>l_count := 1\<rparr>) s2
          in (l_count (dl_hdr s3 pList), s3)
      else (MI_UTIL_ERROR, s))"

definition MI_DlPushHead :: "addr \<Rightarrow> addr \<Rightarrow> store \<Rightarrow> u32 \<times> store" where
  "MI_DlPushHead pList pNode s =
     (if pList \<noteq> NULL \<and> pNode \<noteq> NULL then
        if l_count (dl_hdr s pList) \<ge> MI_UTIL_MAXCOUNT then (MI_UTIL_ERROR, s)
        else if node_next (dl_hdr s pList) \<noteq> NULL then
          let s1 = set_prev pNode NULL s;
              s2 = set_next pNode (node_next (dl_hdr s1 pList)) s1;
              s3 = set_prev (node_next (dl_hdr s2 pList)) pNode s2;
              s4 = upd_hdr pList (\<lambda>h. h\<lparr>node_next := pNode, l_count := l_count h + 1\<rparr>) s3
          in (l_count (dl_hdr s4 pList), s4)
        else
          let s1 = upd_hdr pList (\<lambda>h. h\<lparr>node_next := pNode, node_prev := pNode\<rparr>) s;
              s2 = set_prev pNode NULL (set_next pNode NULL s1);
              s3 = upd_hdr pList (\<lambda>h. h\<lparr>l_count := 1\<rparr>) s2
          in (l_count (dl_hdr s3 pList), s3)
      else (MI_UTIL_ERROR, s))"

definition MI_DlCount :: "addr \<Rightarrow> store \<Rightarrow> u32" where
  "MI_DlCount pList s = (if pList \<noteq> NULL then l_count (dl_hdr s pList) else MI_UTIL_ERROR)"

definition MI_DlDelete :: "addr \<Rightarrow> addr \<Rightarrow> store \<Rightarrow> store" where
  "MI_DlDelete pList pNode s =
     (if pList \<noteq> NULL \<and> pNode \<noteq> NULL then
        if l_count (dl_hdr s pList) = 0 then s
        else
          let s1 = (if dl_next s pNode = NULL then upd_hdr pList (\<lambda>h. h\<lparr>node_prev := dl_prev s pNode\<rparr>) s
                    else set_prev (dl_next s pNode) (dl_prev s pNode) s);
              s2 = (if dl_prev s1 pNode = NULL then upd_hdr pList (\<lambda>h. h\<lparr>node_next := dl_next s1 pNode\<rparr>) s1
                    else set_next (dl_prev s1 pNode) (dl_next s1 pNode) s1);
              s3 = upd_hdr pList (\<lambda>h. h\<lparr>l_count := l_count h - 1\<rparr>) s2
          in set_next pNode NULL (set_prev pNode NULL s3)
      else s)"

definition MI_DlFirst :: "addr \<Rightarrow> store \<Rightarrow> addr" where
  "MI_DlFirst pList s = (if pList \<noteq> NULL then node_next (dl_hdr s pList) else NULL)"

definition MI_DlLast :: "addr \<Rightarrow> store \<Rightarrow> addr" where
  "MI_DlLast pList s = (if pList \<noteq> NULL then node_prev (dl_hdr s pList) else NULL)"

definition MI_DlInsertAfter :: "addr \<Rightarrow> addr \<Rightarrow> addr \<Rightarrow> store \<Rightarrow> u32 \<times> store" where
  "MI_DlInsertAfter pList pPrev pNode s =
     (if pList \<noteq> NULL \<and> pNode \<noteq> NULL then
        if l_count (dl_hdr s pList) \<ge> MI_UTIL_MAXCOUNT then (MI_UTIL_ERROR, s)
        else if pPrev = NULL then MI_DlPushHead pList pNode s
        else if l_count (dl_hdr s pList) = 0 \<or> dl_next s pPrev = NULL then MI_DlPushTail pList pNode s
        else
          let s1 = set_next pNode (dl_next s pPrev) s;
              s2 = set_prev pNode pPrev s1;
              s3 = set_prev (dl_next s2 pPrev) pNode s2;
              s4 = set_next pPrev pNode s3;
              s5 = upd_hdr pList (\<lambda>h. h\<lparr>l_count := l_count h + 1\<rparr>) s4
          in (l_count (dl_hdr s5 pList), s5)
      else (MI_UTIL_ERROR, s))"

definition MI_DlInsertBefore :: "addr \<Rightarrow> addr \<Rightarrow> addr \<Rightarrow> store \<Rightarrow> u32 \<times> store" where
  "MI_DlInsertBefore pList pNext pNode s =
     (if pList \<noteq> NULL \<and> pNode \<noteq> NULL then
        if l_count (dl_hdr s pList) \<ge> MI_UTIL_MAXCOUNT then (MI_UTIL_ERROR, s)
        else if pNext = NULL then MI_DlPushTail pList pNode s
        else if l_count (dl_hdr s pList) = 0 \<or> dl_prev s pNext = NULL then MI_DlPushHead pList pNode s
        else
          let s1 = set_prev pNode (dl_prev s pNext) s;
              s2 = set_next pNode pNext s1;
              s3 = set_next (dl_prev s2 pNext) pNode s2;
              s4 = set_prev pNext pNode s3;
              s5 = upd_hdr pList (\<lambda>h. h\<lparr>l_count := l_count h + 1\<rparr>) s4
          in (l_count (dl_hdr s5 pList), s5)
      else (MI_UTIL_ERROR, s))"

definition MI_DlNext :: "addr \<Rightarrow> store \<Rightarrow> addr" where
  "MI_DlNext pNode s = (if pNode \<noteq> NULL then dl_next s pNode else NULL)"

definition MI_DlPrev :: "addr \<Rightarrow> store \<Rightarrow> addr" where
  "MI_DlPrev pNode s = (if pNode \<noteq> NULL then dl_prev s pNode else NULL)"

definition MI_DlPopHead :: "addr \<Rightarrow> store \<Rightarrow> addr \<times> store" where
  "MI_DlPopHead pList s =
     (if pList \<noteq> NULL then
        let vpN = node_next (dl_hdr s pList)
        in (vpN, if vpN \<noteq> NULL then MI_DlDelete pList vpN s else s)
      else (NULL, s))"

definition MI_DlPopTail :: "addr \<Rightarrow> store \<Rightarrow> addr \<times> store" where
  "MI_DlPopTail pList s =
     (if pList \<noteq> NULL then
        let vpN = node_prev (dl_hdr s pList)
        in (vpN, if vpN \<noteq> NULL then MI_DlDelete pList vpN s else s)
      else (NULL, s))"

fun hop :: "(addr \<Rightarrow> addr) \<Rightarrow> nat \<Rightarrow> addr \<Rightarrow> addr" where
  "hop link 0 vpN = vpN"
| "hop link (Suc i) vpN = (if link vpN \<noteq> NULL then hop link i (link vpN) else NULL)"

text \<open>The hop count is an \<open>S32\<close>; the bound \<open>-nStep\<close> of the first loop wraps at \<open>INT_MIN\<close>.\<close>

definition MI_DlStep :: "addr \<Rightarrow> int \<Rightarrow> store \<Rightarrow> addr" where
  "MI_DlStep pNode nStep s =
     (if pNode \<noteq> NULL then
        if nStep < 0 then hop (dl_prev s) (nat (c_int (- nStep))) pNode
        else if nStep > 0 then hop (dl_next s) (nat nStep) pNode
        else pNode
      else pNode)"

definition MI_DlNth :: "addr \<Rightarrow> u32 \<Rightarrow> store \<Rightarrow> addr" where
  "MI_DlNth pList nodenum s =
     (if pList \<noteq> NULL then MI_DlStep (MI_DlFirst pList s) (sint nodenum) s else NULL)"

partial_function (option) index_loop :: "(addr \<Rightarrow> addr) \<Rightarrow> addr \<Rightarrow> u32 \<Rightarrow> addr \<Rightarrow> u32 option" where
  "index_loop link pNode i vpN =
     (if vpN = pNode then Some i
      else if vpN = NULL then Some MI_UTIL_ERROR
      else index_loop link pNode (i + 1) (link vpN))"

definition MI_DlIndex :: "addr \<Rightarrow> addr \<Rightarrow> store \<Rightarrow> u32 option" where
  "MI_DlIndex pList pNode s =
     (if pList \<noteq> NULL \<and> pNode \<noteq> NULL then index_loop (dl_next s) pNode 0 (MI_DlFirst pList s)
      else Some MI_UTIL_ERROR)"

definition MI_DlConcat :: "addr \<Rightarrow> addr \<Rightarrow> store \<Rightarrow> u32 \<times> store" where
  "MI_DlConcat pDstList pAddList s =
     (if pDstList \<noteq> NULL \<and> pAddList \<noteq> NULL then
        let last = MI_DlLast pDstList s; first = MI_DlFirst pAddList s;
            vSC = MI_UTIL_MAXCOUNT - l_count (dl_hdr s pDstList)
        in if first = NULL then (l_count (dl_hdr s pDstList), s)
           else if vSC < l_count (dl_hdr s pAddList) then (MI_UTIL_ERROR, s)
           else
             let s1 = (if last = NULL then upd_hdr pDstList (\<lambda>h. h\<lparr>node_next := first\<rparr>) s
                       else set_next last first s);
                 s2 = set_prev first last s1;
                 s3 = upd_hdr pDstList (\<lambda>h. h\<lparr>node_prev := node_prev (dl_hdr s2 pAddList)\<rparr>) s2;
                 s4 = upd_hdr pDstList (\<lambda>h. h\<lparr>l_count := l_count h + l_count (dl_hdr s3 pAddList)\<rparr>) s3;
                 s5 = MI_DlInit pAddList s4
             in (l_count (dl_hdr s5 pDstList), s5)
      else (MI_UTIL_ERROR, s))"

text \<open>The walker may change the data of the nodes, not their links; it acts on a state \<open>z\<close>.\<close>

partial_function (option) walk_loop :: "(addr \<Rightarrow> addr) \<Rightarrow> (addr \<Rightarrow> 'z \<Rightarrow> 'z) \<Rightarrow> addr \<Rightarrow> 'z \<Rightarrow> 'z option" where
  "walk_loop link walker vpN z =
     (if vpN = NULL then Some z else walk_loop link walker (link vpN) (walker vpN z))"

definition MI_DlWalk :: "addr \<Rightarrow> (addr \<Rightarrow> 'z \<Rightarrow> 'z) option \<Rightarrow> store \<Rightarrow> 'z \<Rightarrow> 'z option" where
  "MI_DlWalk pList walker s z =
     (case walker of
        Some w \<Rightarrow> if pList \<noteq> NULL then walk_loop (dl_next s) w (MI_DlFirst pList s) z else Some z
      | None \<Rightarrow> Some z)"

partial_function (option) insert_loop ::
  "(addr \<Rightarrow> addr \<Rightarrow> int) \<Rightarrow> addr \<Rightarrow> addr \<Rightarrow> store \<Rightarrow> u32 \<Rightarrow> u32 \<Rightarrow> u32 \<Rightarrow> addr \<Rightarrow> addr \<Rightarrow> store option" where
  "insert_loop cmp L N s vStart vEnd vMid vpStartN vpN =
     (if vpN = NULL then Some s
      else
        let vCompare = cmp N vpN in
        if vCompare = 0 then Some (snd (MI_DlInsertBefore L vpN N s))
        else if vCompare < 0 then
          if vMid + 1 = vEnd then Some (snd (MI_DlInsertAfter L vpN N s))
          else
            let vNewMid = (vMid + 1 + vEnd) div 2
            in insert_loop cmp L N s vMid vEnd vNewMid vpN (MI_DlStep vpN (sint (vNewMid - vMid)) s)
        else if vMid - 1 = vStart then Some (snd (MI_DlInsertBefore L vpN N s))
        else
          let vNewMid = (vStart + 1 + vMid) div 2
          in insert_loop cmp L N s vStart vMid vNewMid vpStartN (MI_DlStep vpStartN (sint (vNewMid - vStart)) s))"

definition MI_DlInsert :: "addr \<Rightarrow> addr \<Rightarrow> (addr \<Rightarrow> 'k) option \<Rightarrow> ('k \<Rightarrow> 'k \<Rightarrow> int) option \<Rightarrow> store \<Rightarrow> (u32 \<times> store) option" where
  "MI_DlInsert L N keyof compare s =
     (case (keyof, compare) of
        (Some key, Some cf) \<Rightarrow>
          if L = NULL \<or> N = NULL then Some (MI_UTIL_ERROR, s)
          else if l_count (dl_hdr s L) \<ge> MI_UTIL_MAXCOUNT then Some (MI_UTIL_ERROR, s)
          else if l_count (dl_hdr s L) = 0 then Some (MI_DlPushTail L N s)
          else
            let cmp = (\<lambda>a b. cf (key a) (key b)); vpStartN = MI_DlFirst L s in
            if cmp N vpStartN \<ge> 0 then Some (MI_DlInsertBefore L vpStartN N s)
            else if l_count (dl_hdr s L) = 1 then Some (MI_DlPushTail L N s)
            else if cmp N (MI_DlLast L s) < 0 then Some (MI_DlPushTail L N s)
            else
              let vEnd = l_count (dl_hdr s L) - 1; vMid = (0 + 1 + vEnd) div 2 in
              (case insert_loop cmp L N s 0 vEnd vMid vpStartN (MI_DlStep vpStartN (sint (vMid - 0)) s) of
                 Some s1 \<Rightarrow> Some (l_count (dl_hdr s1 L), s1)
               | None \<Rightarrow> None)
      | _ \<Rightarrow> Some (MI_UTIL_ERROR, s))"

partial_function (option) find_loop :: "(addr \<Rightarrow> addr) \<Rightarrow> (addr \<Rightarrow> bool) \<Rightarrow> addr \<Rightarrow> addr option" where
  "find_loop link hit vpN =
     (if vpN = NULL then Some NULL else if hit vpN then Some vpN else find_loop link hit (link vpN))"

definition MI_DlFind :: "addr \<Rightarrow> 'k option \<Rightarrow> (addr \<Rightarrow> 'k) option \<Rightarrow> ('k \<Rightarrow> 'k \<Rightarrow> int) option \<Rightarrow> store \<Rightarrow> addr option" where
  "MI_DlFind pList pValue keyof compare s =
     (case (pValue, keyof, compare) of
        (Some v, Some key, Some cf) \<Rightarrow>
          if pList \<noteq> NULL then find_loop (dl_next s) (\<lambda>n. cf v (key n) = 0) (node_next (dl_hdr s pList))
          else Some NULL
      | _ \<Rightarrow> Some NULL)"

declare index_loop.simps [code] walk_loop.simps [code] insert_loop.simps [code] find_loop.simps [code]

section \<open>Representation\<close>

text \<open>
  A segment of nodes linked both ways, between the node \<open>p\<close> before it and the node \<open>q\<close> after it,
  and the list that a header represents.
\<close>

definition hd0 :: "addr list \<Rightarrow> addr \<Rightarrow> addr" where
  "hd0 xs q = (case xs of [] \<Rightarrow> q | x # _ \<Rightarrow> x)"

definition last0 :: "addr \<Rightarrow> addr list \<Rightarrow> addr" where
  "last0 p xs = (if xs = [] then p else last xs)"

fun dls :: "(addr \<Rightarrow> addr) \<Rightarrow> (addr \<Rightarrow> addr) \<Rightarrow> addr \<Rightarrow> addr list \<Rightarrow> addr \<Rightarrow> bool" where
  "dls nx pv p [] q = True"
| "dls nx pv p (x # xs) q = (x \<noteq> NULL \<and> pv x = p \<and> nx x = hd0 xs q \<and> dls nx pv x xs q)"

definition dl_rep :: "store \<Rightarrow> addr \<Rightarrow> addr list \<Rightarrow> bool" where
  "dl_rep s L xs \<longleftrightarrow> L \<noteq> NULL \<and> node_next (dl_hdr s L) = hd0 xs NULL \<and>
     node_prev (dl_hdr s L) = last0 NULL xs \<and> unat (l_count (dl_hdr s L)) = length xs \<and>
     length xs \<le> unat MI_UTIL_MAXCOUNT \<and> distinct xs \<and> dls (dl_next s) (dl_prev s) NULL xs NULL"

lemma hd0_simps [simp]: "hd0 [] q = q" "hd0 (x # xs) q = x" "hd0 (xs @ ys) q = hd0 xs (hd0 ys q)"
  by (simp_all add: hd0_def split: list.split)

lemma last0_simps [simp]: "last0 p [] = p" "last0 p (x # xs) = last0 x xs" "last0 p (xs @ ys) = last0 (last0 p xs) ys"
  by (simp_all add: last0_def)

lemma last0_snoc: "xs \<noteq> [] \<Longrightarrow> last0 p xs = last xs"
  by (simp add: last0_def)

lemma hd0_nonempty: "xs \<noteq> [] \<Longrightarrow> hd0 xs q = hd xs"
  by (simp add: hd0_def split: list.split)

lemma dls_append [simp]:
  "dls nx pv p (xs @ ys) q \<longleftrightarrow> dls nx pv p xs (hd0 ys q) \<and> dls nx pv (last0 p xs) ys q"
  by (induction xs arbitrary: p) auto

lemma dls_nonnull: "dls nx pv p xs q \<Longrightarrow> NULL \<notin> set xs"
  by (induction xs arbitrary: p) auto

text \<open>Links of nodes outside the segment do not matter.\<close>

lemma dls_cong:
  assumes "\<And>x. x \<in> set xs \<Longrightarrow> nx' x = nx x \<and> pv' x = pv x"
  shows "dls nx' pv' p xs q = dls nx pv p xs q"
  using assms by (induction xs arbitrary: p) auto

text \<open>Changing the link at one end of a segment.\<close>

lemma dls_set_next_last:
  assumes "dls nx pv p xs q" "xs \<noteq> []" "distinct xs"
  shows "dls (nx(last0 p xs := q')) pv p xs q'"
  using assms
proof (induction xs arbitrary: p)
  case Nil
  then show ?case by simp
next
  case (Cons x xs)
  show ?case
  proof (cases "xs = []")
    case True
    then show ?thesis using Cons.prems by simp
  next
    case False
    then have "last xs \<noteq> x" using Cons.prems by auto
    then show ?thesis
      using Cons.IH [of x] Cons.prems False by (simp add: last0_snoc) (metis hd0_nonempty)
  qed
qed

lemma dls_set_prev_hd:
  assumes "dls nx pv p xs q" "xs \<noteq> []" "distinct xs"
  shows "dls nx (pv(hd0 xs q := p')) p' xs q"
proof -
  obtain y ys where xs: "xs = y # ys" using assms(2) by (cases xs) auto
  then have "dls nx (pv(y := p')) y ys q = dls nx pv y ys q"
    using assms(3) by (intro dls_cong) auto
  then show ?thesis using assms xs by auto
qed

lemma dl_repD:
  assumes "dl_rep s L xs"
  shows "L \<noteq> NULL" "node_next (dl_hdr s L) = hd0 xs NULL" "node_prev (dl_hdr s L) = last0 NULL xs"
    "unat (l_count (dl_hdr s L)) = length xs" "length xs \<le> unat MI_UTIL_MAXCOUNT" "distinct xs"
    "dls (dl_next s) (dl_prev s) NULL xs NULL" "NULL \<notin> set xs"
  using assms dls_nonnull [of "dl_next s" "dl_prev s" NULL xs NULL] by (auto simp: dl_rep_def)

text \<open>Counters.\<close>

lemma count_room: "unat (c :: u32) = n \<Longrightarrow> \<not> MI_UTIL_MAXCOUNT \<le> c \<longleftrightarrow> n < unat MI_UTIL_MAXCOUNT"
  by (auto simp: word_le_nat_alt)

lemma count_suc: "unat (c :: u32) < unat MI_UTIL_MAXCOUNT \<Longrightarrow> unat (c + 1) = unat c + 1"
  by (simp add: unat_word_ariths)

lemma count_zero: "(c :: u32) = 0 \<longleftrightarrow> unat c = 0"
  by (simp add: unat_eq_0)

lemma count_pred: "(c :: u32) \<noteq> 0 \<Longrightarrow> unat (c - 1) = unat c - 1"
  by (simp add: unat_minus_one)

section \<open>Refinement\<close>

text \<open>What an operation on list \<open>L\<close> and the nodes \<open>A\<close> leaves alone.\<close>

definition dl_frame :: "addr set \<Rightarrow> addr \<Rightarrow> store \<Rightarrow> store \<Rightarrow> bool" where
  "dl_frame A L s s' \<longleftrightarrow> (\<forall>a. a \<notin> A \<longrightarrow> dl_next s' a = dl_next s a \<and> dl_prev s' a = dl_prev s a) \<and>
     (\<forall>l. l \<noteq> L \<longrightarrow> dl_hdr s' l = dl_hdr s l)"

lemma dl_frame_rep:
  assumes "dl_frame A L s s'" "dl_rep s L' ys" "L' \<noteq> L" "set ys \<inter> A = {}"
  shows "dl_rep s' L' ys"
proof -
  have "dls (dl_next s') (dl_prev s') NULL ys NULL = dls (dl_next s) (dl_prev s) NULL ys NULL"
    using assms(1,4) by (intro dls_cong) (auto simp: dl_frame_def)
  then show ?thesis using assms by (auto simp: dl_rep_def dl_frame_def)
qed

lemma MI_DlInit_rep: "L \<noteq> NULL \<Longrightarrow> dl_rep (MI_DlInit L s) L [] \<and> dl_frame {} L s (MI_DlInit L s)"
  by (simp add: MI_DlInit_def dl_rep_def dl_frame_def)

lemma full_list:
  assumes "dl_rep s L xs" "length xs = unat MI_UTIL_MAXCOUNT"
  shows "l_count (dl_hdr s L) \<ge> MI_UTIL_MAXCOUNT"
  using dl_repD(4) [OF assms(1)] assms(2) by (simp add: word_le_nat_alt)

lemma MI_DlPushTail_rep:
  assumes "dl_rep s L xs" "n \<noteq> NULL" "n \<notin> set xs" "length xs < unat MI_UTIL_MAXCOUNT"
  shows "dl_rep (snd (MI_DlPushTail L n s)) L (xs @ [n])"
    "unat (fst (MI_DlPushTail L n s)) = length xs + 1"
    "dl_frame (insert n (set xs)) L s (snd (MI_DlPushTail L n s))"
proof -
  note d = dl_repD [OF assms(1)]
  let ?h = "dl_hdr s L"
  have c: "\<not> MI_UTIL_MAXCOUNT \<le> l_count ?h" using count_room [OF d(4)] assms(4) by simp
  have "dl_rep (snd (MI_DlPushTail L n s)) L (xs @ [n]) \<and>
    unat (fst (MI_DlPushTail L n s)) = length xs + 1 \<and>
    dl_frame (insert n (set xs)) L s (snd (MI_DlPushTail L n s))"
  proof (cases "xs = []")
    case True
    then show ?thesis using d c assms(2) by (simp add: MI_DlPushTail_def dl_rep_def dl_frame_def)
  next
    case False
    let ?z = "last0 NULL xs"
    have z: "?z \<in> set xs" using False by (simp add: last0_snoc)
    have "hd0 xs NULL \<in> set xs" using False by (simp add: hd0_nonempty)
    then have nz: "?z \<noteq> n" "hd0 xs NULL \<noteq> NULL" using z assms(3) d(8) by metis+
    have "dls ((dl_next s)(?z := n)) (dl_prev s) NULL xs n" by (rule dls_set_next_last [OF d(7) False d(6)])
    moreover have "dls ((dl_next s)(n := NULL, ?z := n)) ((dl_prev s)(n := ?z)) NULL xs n
       = dls ((dl_next s)(?z := n)) (dl_prev s) NULL xs n"
      using assms(3) by (intro dls_cong) auto
    moreover have "hd0 xs n = hd0 xs NULL" using False by (simp add: hd0_nonempty)
    ultimately show ?thesis
      using d c nz z assms(2-4) count_suc [of "l_count ?h"]
      by (auto simp: MI_DlPushTail_def Let_def dl_rep_def dl_frame_def)
  qed
  then show "dl_rep (snd (MI_DlPushTail L n s)) L (xs @ [n])"
    "unat (fst (MI_DlPushTail L n s)) = length xs + 1"
    "dl_frame (insert n (set xs)) L s (snd (MI_DlPushTail L n s))" by auto
qed

lemma MI_DlPushHead_rep:
  assumes "dl_rep s L xs" "n \<noteq> NULL" "n \<notin> set xs" "length xs < unat MI_UTIL_MAXCOUNT"
  shows "dl_rep (snd (MI_DlPushHead L n s)) L (n # xs)"
    "unat (fst (MI_DlPushHead L n s)) = length xs + 1"
    "dl_frame (insert n (set xs)) L s (snd (MI_DlPushHead L n s))"
proof -
  note d = dl_repD [OF assms(1)]
  let ?h = "dl_hdr s L"
  have c: "\<not> MI_UTIL_MAXCOUNT \<le> l_count ?h" using count_room [OF d(4)] assms(4) by simp
  have "dl_rep (snd (MI_DlPushHead L n s)) L (n # xs) \<and>
    unat (fst (MI_DlPushHead L n s)) = length xs + 1 \<and>
    dl_frame (insert n (set xs)) L s (snd (MI_DlPushHead L n s))"
  proof (cases "xs = []")
    case True
    then show ?thesis using d c assms(2) by (simp add: MI_DlPushHead_def dl_rep_def dl_frame_def)
  next
    case False
    let ?z = "hd0 xs NULL"
    have z: "?z \<in> set xs" using False by (simp add: hd0_nonempty)
    have nz: "?z \<noteq> n" "?z \<noteq> NULL" using z assms(3) d(8) by metis+
    have l: "last0 n xs = last0 NULL xs" using False by (simp add: last0_snoc)
    have "dls (dl_next s) ((dl_prev s)(?z := n)) n xs NULL" by (rule dls_set_prev_hd [OF d(7) False d(6)])
    moreover have "dls ((dl_next s)(n := ?z)) ((dl_prev s)(n := NULL, ?z := n)) n xs NULL
       = dls (dl_next s) ((dl_prev s)(?z := n)) n xs NULL"
      using assms(3) by (intro dls_cong) auto
    ultimately show ?thesis
      using d c nz z l assms(2-4) count_suc [of "l_count ?h"]
      by (auto simp: MI_DlPushHead_def Let_def dl_rep_def dl_frame_def)
  qed
  then show "dl_rep (snd (MI_DlPushHead L n s)) L (n # xs)"
    "unat (fst (MI_DlPushHead L n s)) = length xs + 1"
    "dl_frame (insert n (set xs)) L s (snd (MI_DlPushHead L n s))" by auto
qed

text \<open>Splitting a represented list around one of its nodes.\<close>

lemma dls_mid:
  "dls nx pv p (as @ x # bs) q \<Longrightarrow> pv x = last0 p as \<and> nx x = hd0 bs q \<and> x \<noteq> NULL"
  by simp

lemma last0_null: "NULL \<notin> set as \<Longrightarrow> last0 NULL as = NULL \<longleftrightarrow> as = []"
  by (metis last0_def last_in_set)

lemma hd0_null: "NULL \<notin> set bs \<Longrightarrow> hd0 bs NULL = NULL \<longleftrightarrow> bs = []"
  by (metis hd0_simps(1) hd0_nonempty list.set_sel(1))

lemma MI_DlInsertAfter_rep:
  assumes "dl_rep s L (as @ p # bs)" "n \<noteq> NULL" "n \<notin> set (as @ p # bs)"
    "length (as @ p # bs) < unat MI_UTIL_MAXCOUNT"
  shows "dl_rep (snd (MI_DlInsertAfter L p n s)) L (as @ p # n # bs)"
    "unat (fst (MI_DlInsertAfter L p n s)) = length (as @ p # bs) + 1"
    "dl_frame (insert n (set (as @ p # bs))) L s (snd (MI_DlInsertAfter L p n s))"
proof -
  note d = dl_repD [OF assms(1)]
  let ?h = "dl_hdr s L" and ?b = "hd0 bs NULL"
  have c: "\<not> MI_UTIL_MAXCOUNT \<le> l_count ?h" "l_count ?h \<noteq> 0"
    using count_room [OF d(4)] assms(4) d(4) by (auto simp: count_zero)
  have p: "dl_next s p = ?b" "p \<noteq> NULL" using dls_mid [OF d(7)] by auto
  have "dl_rep (snd (MI_DlInsertAfter L p n s)) L (as @ p # n # bs) \<and>
    unat (fst (MI_DlInsertAfter L p n s)) = length (as @ p # bs) + 1 \<and>
    dl_frame (insert n (set (as @ p # bs))) L s (snd (MI_DlInsertAfter L p n s))"
  proof (cases "bs = []")
    case True
    then have "MI_DlInsertAfter L p n s = MI_DlPushTail L n s"
      using c p d(1) assms(2) by (simp add: MI_DlInsertAfter_def)
    then show ?thesis using MI_DlPushTail_rep [OF assms] True by simp
  next
    case False
    have b: "?b \<in> set bs" using False by (simp add: hd0_nonempty)
    have nz: "?b \<noteq> n" "?b \<noteq> NULL" "?b \<noteq> p" "p \<noteq> n" "?b \<notin> set as" using b assms(3) d(6,8) by auto
    have A: "dls ((dl_next s)(n := ?b, p := n)) ((dl_prev s)(n := p, ?b := n)) NULL as p = dls (dl_next s) (dl_prev s) NULL as p"
      using assms(3) d(6) nz by (intro dls_cong) auto
    have B: "dls ((dl_next s)(n := ?b, p := n)) ((dl_prev s)(n := p, ?b := n)) n bs NULL = dls (dl_next s) ((dl_prev s)(?b := n)) n bs NULL"
      using assms(3) d(6) by (intro dls_cong) auto
    have "dls (dl_next s) ((dl_prev s)(?b := n)) n bs NULL"
      using dls_set_prev_hd [of "dl_next s" "dl_prev s" p bs NULL n] d(6,7) False by simp
    moreover have "hd0 as p = hd0 as n \<or> as = []" by (cases as) auto
    moreover have "last0 n bs = last0 NULL (as @ p # bs)" using False by (simp add: last0_snoc)
    ultimately show ?thesis
      using d c p nz b assms(2-4) count_suc [of "l_count ?h"] A B
      by (auto simp: MI_DlInsertAfter_def Let_def dl_rep_def dl_frame_def)
  qed
  then show "dl_rep (snd (MI_DlInsertAfter L p n s)) L (as @ p # n # bs)"
    "unat (fst (MI_DlInsertAfter L p n s)) = length (as @ p # bs) + 1"
    "dl_frame (insert n (set (as @ p # bs))) L s (snd (MI_DlInsertAfter L p n s))" by auto
qed

lemma MI_DlInsertBefore_rep:
  assumes "dl_rep s L (as @ p # bs)" "n \<noteq> NULL" "n \<notin> set (as @ p # bs)"
    "length (as @ p # bs) < unat MI_UTIL_MAXCOUNT"
  shows "dl_rep (snd (MI_DlInsertBefore L p n s)) L (as @ n # p # bs)"
    "unat (fst (MI_DlInsertBefore L p n s)) = length (as @ p # bs) + 1"
    "dl_frame (insert n (set (as @ p # bs))) L s (snd (MI_DlInsertBefore L p n s))"
proof -
  note d = dl_repD [OF assms(1)]
  let ?h = "dl_hdr s L" and ?a = "last0 NULL as"
  have c: "\<not> MI_UTIL_MAXCOUNT \<le> l_count ?h" "l_count ?h \<noteq> 0"
    using count_room [OF d(4)] assms(4) d(4) by (auto simp: count_zero)
  have p: "dl_prev s p = ?a" "p \<noteq> NULL" using dls_mid [OF d(7)] by auto
  have "dl_rep (snd (MI_DlInsertBefore L p n s)) L (as @ n # p # bs) \<and>
    unat (fst (MI_DlInsertBefore L p n s)) = length (as @ p # bs) + 1 \<and>
    dl_frame (insert n (set (as @ p # bs))) L s (snd (MI_DlInsertBefore L p n s))"
  proof (cases "as = []")
    case True
    then have "MI_DlInsertBefore L p n s = MI_DlPushHead L n s"
      using c p d(1) assms(2) by (simp add: MI_DlInsertBefore_def)
    then show ?thesis using MI_DlPushHead_rep [OF assms] True by simp
  next
    case False
    have a: "?a \<in> set as" using False by (simp add: last0_snoc)
    have nz: "?a \<noteq> n" "?a \<noteq> NULL" "?a \<noteq> p" "p \<noteq> n" "?a \<notin> set bs" using a assms(3) d(6,8) by auto
    have A: "dls ((dl_next s)(n := p, ?a := n)) ((dl_prev s)(n := ?a, p := n)) NULL as n = dls ((dl_next s)(?a := n)) (dl_prev s) NULL as n"
      using assms(3) d(6) by (intro dls_cong) auto
    have B: "dls ((dl_next s)(n := p, ?a := n)) ((dl_prev s)(n := ?a, p := n)) p bs NULL = dls (dl_next s) (dl_prev s) p bs NULL"
      using assms(3) d(6) nz by (intro dls_cong) auto
    have "dls ((dl_next s)(?a := n)) (dl_prev s) NULL as n"
      using dls_set_next_last [of "dl_next s" "dl_prev s" NULL as p n] d(6,7) False by simp
    moreover have "hd0 as p = hd0 as n" using False by (cases as) auto
    ultimately show ?thesis
      using d c p nz a assms(2-4) count_suc [of "l_count ?h"] A B
      by (auto simp: MI_DlInsertBefore_def Let_def dl_rep_def dl_frame_def)
  qed
  then show "dl_rep (snd (MI_DlInsertBefore L p n s)) L (as @ n # p # bs)"
    "unat (fst (MI_DlInsertBefore L p n s)) = length (as @ p # bs) + 1"
    "dl_frame (insert n (set (as @ p # bs))) L s (snd (MI_DlInsertBefore L p n s))" by auto
qed

lemma MI_DlDelete_rep:
  assumes "dl_rep s L (as @ x # bs)"
  shows "dl_rep (MI_DlDelete L x s) L (as @ bs)" "dl_frame (set (as @ x # bs)) L s (MI_DlDelete L x s)"
proof -
  note d = dl_repD [OF assms]
  let ?h = "dl_hdr s L" and ?a = "last0 NULL as" and ?b = "hd0 bs NULL"
  have c: "l_count ?h \<noteq> 0" "unat (l_count ?h - 1) = length (as @ bs)"
    using d(4) count_pred [of "l_count ?h"] by (auto simp: count_zero)
  have x: "dl_prev s x = ?a" "dl_next s x = ?b" "x \<noteq> NULL" using dls_mid [OF d(7)] by auto
  have dist: "distinct as" "distinct bs" "x \<notin> set as" "x \<notin> set bs" "set as \<inter> set bs = {}" using d(6) by auto
  have n0: "?a = NULL \<longleftrightarrow> as = []" "?b = NULL \<longleftrightarrow> bs = []"
    using last0_null [of as] hd0_null [of bs] d(8) by auto
  have a: "as \<noteq> [] \<Longrightarrow> ?a \<in> set as" by (simp add: last0_snoc)
  have b: "bs \<noteq> [] \<Longrightarrow> ?b \<in> set bs" by (simp add: hd0_nonempty)
  let ?nx = "\<lambda>nx. nx(x := NULL)" and ?pv = "\<lambda>pv. pv(x := NULL)"
  have A: "dls (?nx ((dl_next s)(?a := ?b))) (?pv pv) NULL as ?b"
    if "\<And>y. y \<in> set as \<Longrightarrow> pv y = dl_prev s y" "as \<noteq> []" for pv
  proof -
    have "dls (?nx ((dl_next s)(?a := ?b))) (?pv pv) NULL as ?b = dls ((dl_next s)(?a := ?b)) (dl_prev s) NULL as ?b"
      using dist that(1) by (intro dls_cong) auto
    then show ?thesis using dls_set_next_last [of "dl_next s" "dl_prev s" NULL as x ?b] d(7) dist that(2) by simp
  qed
  have B: "dls (?nx nx) (?pv ((dl_prev s)(?b := ?a))) ?a bs NULL"
    if "\<And>y. y \<in> set bs \<Longrightarrow> nx y = dl_next s y" "bs \<noteq> []" for nx
  proof -
    have "dls (?nx nx) (?pv ((dl_prev s)(?b := ?a))) ?a bs NULL = dls (dl_next s) ((dl_prev s)(?b := ?a)) ?a bs NULL"
      using dist that(1) by (intro dls_cong) auto
    then show ?thesis using dls_set_prev_hd [of "dl_next s" "dl_prev s" x bs NULL ?a] d(7) dist that(2) by simp
  qed
  have ne: "?a \<noteq> x" "?b \<noteq> x" using a b x(3) dist n0 by (metis)+
  consider "as = []" "bs = []" | "as = []" "bs \<noteq> []" | "as \<noteq> []" "bs = []" | "as \<noteq> []" "bs \<noteq> []" by blast
  then have "dl_rep (MI_DlDelete L x s) L (as @ bs) \<and> dl_frame (set (as @ x # bs)) L s (MI_DlDelete L x s)"
  proof cases
    case 1
    then show ?thesis using d c x by (simp add: MI_DlDelete_def Let_def dl_rep_def dl_frame_def)
  next
    case 2
    then show ?thesis using d c x n0 ne b dist B [of "dl_next s"]
      by (auto simp: MI_DlDelete_def Let_def dl_rep_def dl_frame_def last0_def)
  next
    case 3
    then have "hd0 as x = hd0 as NULL" by (simp add: hd0_nonempty)
    then show ?thesis using 3 d c x n0 ne a dist A [of "dl_prev s"]
      by (auto simp: MI_DlDelete_def Let_def dl_rep_def dl_frame_def)
  next
    case 4
    have "?a \<notin> set bs" "?b \<notin> set as" using 4 a b dist(5) by blast+
    moreover have "last0 x bs = last0 ?a bs" "hd0 as x = hd0 as ?b" using 4 by (simp_all add: last0_snoc hd0_nonempty)
    moreover have "dls (?nx ((dl_next s)(?a := ?b))) (?pv ((dl_prev s)(?b := ?a))) NULL as ?b"
      "dls (?nx ((dl_next s)(?a := ?b))) (?pv ((dl_prev s)(?b := ?a))) ?a bs NULL"
      using calculation(1,2) 4 by (intro A B; auto)+
    ultimately show ?thesis
      using 4 d c x n0 ne a b dist
      by (auto simp: MI_DlDelete_def Let_def dl_rep_def dl_frame_def)
  qed
  then show "dl_rep (MI_DlDelete L x s) L (as @ bs)" "dl_frame (set (as @ x # bs)) L s (MI_DlDelete L x s)" by auto
qed

lemma MI_DlDelete_remove1:
  assumes "dl_rep s L xs" "x \<in> set xs"
  shows "dl_rep (MI_DlDelete L x s) L (remove1 x xs)"
proof -
  obtain as bs where xs: "xs = as @ x # bs" "x \<notin> set as" using split_list_first [OF assms(2)] by blast
  then have "remove1 x xs = as @ bs" by (simp add: remove1_append)
  then show ?thesis using MI_DlDelete_rep(1) [of s L as x bs] assms(1) xs by simp
qed

lemma MI_DlFirst_rep: "dl_rep s L xs \<Longrightarrow> MI_DlFirst L s = hd0 xs NULL"
  by (simp add: MI_DlFirst_def dl_rep_def)

lemma MI_DlLast_rep: "dl_rep s L xs \<Longrightarrow> MI_DlLast L s = last0 NULL xs"
  by (simp add: MI_DlLast_def dl_rep_def)

lemma MI_DlPopHead_rep:
  assumes "dl_rep s L xs"
  shows "fst (MI_DlPopHead L s) = hd0 xs NULL" "dl_rep (snd (MI_DlPopHead L s)) L (tl xs)"
proof -
  note d = dl_repD [OF assms]
  show "fst (MI_DlPopHead L s) = hd0 xs NULL" using d by (simp add: MI_DlPopHead_def Let_def)
  show "dl_rep (snd (MI_DlPopHead L s)) L (tl xs)"
  proof (cases xs)
    case Nil
    then show ?thesis using assms d by (simp add: MI_DlPopHead_def Let_def)
  next
    case (Cons y ys)
    then show ?thesis using MI_DlDelete_rep(1) [of s L "[]" y ys] assms d by (simp add: MI_DlPopHead_def Let_def)
  qed
qed

lemma MI_DlPopTail_rep:
  assumes "dl_rep s L xs"
  shows "fst (MI_DlPopTail L s) = last0 NULL xs" "dl_rep (snd (MI_DlPopTail L s)) L (butlast xs)"
proof -
  note d = dl_repD [OF assms]
  show "fst (MI_DlPopTail L s) = last0 NULL xs" using d by (simp add: MI_DlPopTail_def Let_def)
  show "dl_rep (snd (MI_DlPopTail L s)) L (butlast xs)"
  proof (cases xs rule: rev_cases)
    case Nil
    then show ?thesis using assms d by (simp add: MI_DlPopTail_def Let_def)
  next
    case (snoc ys y)
    then show ?thesis using MI_DlDelete_rep(1) [of s L ys y "[]"] assms d by (simp add: MI_DlPopTail_def Let_def)
  qed
qed

lemma sint_small: "unat (i :: u32) \<le> 2147483647 \<Longrightarrow> sint i = int (unat i)"
proof -
  assume a: "unat i \<le> 2147483647"
  have u: "uint i = int (unat i)" by simp
  have b: "-2147483648 \<le> uint i" "uint i \<le> 2147483647" using a u by linarith+
  have "signed_take_bit 31 (uint i) = uint i"
    by (rule signed_take_bit_int_eq_self) (use b in simp_all)
  moreover have "sint i = signed_take_bit 31 (uint i)" by (simp add: sint_uint)
  ultimately show ?thesis using u by metis
qed

text \<open>Hops, positions and searches.\<close>

lemma hop_rep:
  "dls nx pv p (x # xs) NULL \<Longrightarrow> hop nx i x = (if i < length (x # xs) then (x # xs) ! i else NULL)"
proof (induction i arbitrary: p x xs)
  case 0
  then show ?case by simp
next
  case (Suc i)
  show ?case
  proof (cases xs)
    case Nil
    then show ?thesis using Suc.prems by simp
  next
    case (Cons y ys)
    then have "dls nx pv x (y # ys) NULL" "nx x = y" "y \<noteq> NULL" using Suc.prems by simp_all
    then show ?thesis using Suc.IH [of x y ys] Cons by simp
  qed
qed

lemma MI_DlStep_rep:
  assumes "dl_rep s L xs" "i + j < length xs" "j \<le> 2147483647"
  shows "MI_DlStep (xs ! i) (int j) s = xs ! (i + j)"
proof -
  note d = dl_repD [OF assms(1)]
  have "i < length xs" using assms(2) by simp
  then have xs: "xs = take i xs @ xs ! i # drop (Suc i) xs" by (rule id_take_nth_drop)
  have "dls (dl_next s) (dl_prev s) (last0 NULL (take i xs)) (xs ! i # drop (Suc i) xs) NULL"
    using d(7) by (subst (asm) xs) simp
  from hop_rep [OF this, of j]
  have "hop (dl_next s) j (xs ! i) = xs ! (i + j)"
    using assms(2) by (simp add: nth_Cons' nth_drop split: if_splits)
  moreover have "xs ! i \<noteq> NULL" using d(8) assms(2) by (metis add_lessD1 nth_mem)
  ultimately show ?thesis by (simp add: MI_DlStep_def)
qed

lemma MI_DlNth_rep:
  assumes "dl_rep s L xs" "unat i < length xs" "unat i \<le> 2147483647"
  shows "MI_DlNth L i s = xs ! unat i"
proof -
  have "sint i = int (unat i)"
    using assms(3) by (rule sint_small)
  moreover have "MI_DlFirst L s = xs ! 0" "L \<noteq> NULL"
    using assms(2) dl_repD [OF assms(1)] MI_DlFirst_rep [OF assms(1)] by (cases xs; simp)+
  ultimately show ?thesis using MI_DlStep_rep [OF assms(1), of 0 "unat i"] assms by (simp add: MI_DlNth_def)
qed

lemma index_loop_rep:
  assumes "dls nx pv p xs NULL" "n \<noteq> NULL" "unat i + length xs < 2 ^ 32"
  shows "index_loop nx n i (hd0 xs NULL) =
    Some (if n \<in> set xs then i + of_nat (length (takeWhile (\<lambda>x. x \<noteq> n) xs)) else MI_UTIL_ERROR)"
  using assms
proof (induction xs arbitrary: p i)
  case Nil
  then show ?case by (subst index_loop.simps) simp
next
  case (Cons x xs)
  have "unat (i + 1) = unat i + 1" using Cons.prems(3) by (simp add: unat_word_ariths)
  then have "index_loop nx n (i + 1) (hd0 xs NULL) =
      Some (if n \<in> set xs then i + 1 + of_nat (length (takeWhile (\<lambda>x. x \<noteq> n) xs)) else MI_UTIL_ERROR)"
    using Cons.prems by (intro Cons.IH) auto
  then show ?case using Cons.prems by (subst index_loop.simps) (auto simp: add.assoc)
qed

lemma walk_loop_rep:
  "dls nx pv p xs NULL \<Longrightarrow> walk_loop nx w (hd0 xs NULL) z = Some (fold w xs z)"
proof (induction xs arbitrary: p z)
  case Nil
  then show ?case by (subst walk_loop.simps) simp
next
  case (Cons x xs)
  then show ?case using Cons.IH [of x] by (subst walk_loop.simps) simp
qed

lemma find_loop_rep:
  "dls nx pv p xs NULL \<Longrightarrow> find_loop nx hit (hd0 xs NULL) = Some (case List.find hit xs of Some x \<Rightarrow> x | None \<Rightarrow> NULL)"
proof (induction xs arbitrary: p)
  case Nil
  then show ?case by (subst find_loop.simps) simp
next
  case (Cons x xs)
  then show ?case using Cons.IH [of x] by (subst find_loop.simps) simp
qed

lemma MI_DlConcat_rep:
  assumes "dl_rep s D xs" "dl_rep s A ys" "D \<noteq> A" "set xs \<inter> set ys = {}"
    "length xs + length ys \<le> unat MI_UTIL_MAXCOUNT"
  shows "dl_rep (snd (MI_DlConcat D A s)) D (xs @ ys)" "dl_rep (snd (MI_DlConcat D A s)) A []"
    "unat (fst (MI_DlConcat D A s)) = length xs + length ys"
proof -
  note d = dl_repD [OF assms(1)] and e = dl_repD [OF assms(2)]
  let ?cd = "l_count (dl_hdr s D)" and ?ca = "l_count (dl_hdr s A)"
  have "dl_rep (snd (MI_DlConcat D A s)) D (xs @ ys) \<and> dl_rep (snd (MI_DlConcat D A s)) A [] \<and>
    unat (fst (MI_DlConcat D A s)) = length xs + length ys"
  proof (cases "ys = []")
    case True
    then show ?thesis using assms d e by (simp add: MI_DlConcat_def MI_DlFirst_def Let_def)
  next
    case False
    let ?l = "last0 NULL xs" and ?f = "hd0 ys NULL"
    have f: "?f \<in> set ys" using False by (simp add: hd0_nonempty)
    have fn: "?f \<noteq> NULL" using f e(8) by metis
    have room: "\<not> MI_UTIL_MAXCOUNT - ?cd < ?ca"
    proof -
      have "?cd \<le> MI_UTIL_MAXCOUNT" using d(4) assms(5) by (simp add: word_le_nat_alt)
      then have "unat (MI_UTIL_MAXCOUNT - ?cd) = unat MI_UTIL_MAXCOUNT - unat ?cd" by (rule unat_sub)
      then show ?thesis using d(4) e(4) assms(5) by (simp add: word_less_nat_alt)
    qed
    have sum: "unat (?cd + ?ca) = length xs + length ys"
      using d(4) e(4) assms(5) by (simp add: unat_word_ariths)
    have Y: "dls nx ((dl_prev s)(?f := ?l)) ?l ys NULL"
      if "\<And>y. y \<in> set ys \<Longrightarrow> nx y = dl_next s y" for nx
    proof -
      have "dls nx ((dl_prev s)(?f := ?l)) ?l ys NULL = dls (dl_next s) ((dl_prev s)(?f := ?l)) ?l ys NULL"
        using that by (intro dls_cong) auto
      then show ?thesis using dls_set_prev_hd [OF e(7) False e(6)] by simp
    qed
    show ?thesis
    proof (cases "xs = []")
      case True
      then show ?thesis
        using False d e fn room sum assms(3,5) Y [of "dl_next s"]
        by (simp add: MI_DlConcat_def MI_DlFirst_def MI_DlLast_def MI_DlInit_def Let_def dl_rep_def)
    next
      case ne: False
      have l: "?l \<in> set xs" using ne by (simp add: last0_snoc)
      then have ln: "?l \<noteq> NULL" "?l \<notin> set ys" "?f \<notin> set xs" using d(8) f assms(4) by (metis, blast+)
      have X: "dls ((dl_next s)(?l := ?f)) ((dl_prev s)(?f := ?l)) NULL xs ?f"
      proof -
        have "dls ((dl_next s)(?l := ?f)) ((dl_prev s)(?f := ?l)) NULL xs ?f
            = dls ((dl_next s)(?l := ?f)) (dl_prev s) NULL xs ?f"
          using ln by (intro dls_cong) auto
        then show ?thesis using dls_set_next_last [OF d(7) ne d(6)] by simp
      qed
      have "dls ((dl_next s)(?l := ?f)) ((dl_prev s)(?f := ?l)) ?l ys NULL" using ln by (intro Y) auto
      moreover have "hd0 xs NULL = hd0 xs ?f" "last0 ?l ys = last0 NULL ys"
        using ne False by (simp_all add: hd0_nonempty last0_snoc)
      ultimately show ?thesis
        using X d e fn ln room sum assms(3-5)
        by (simp add: MI_DlConcat_def MI_DlFirst_def MI_DlLast_def MI_DlInit_def Let_def dl_rep_def)
    qed
  qed
  then show "dl_rep (snd (MI_DlConcat D A s)) D (xs @ ys)" "dl_rep (snd (MI_DlConcat D A s)) A []"
    "unat (fst (MI_DlConcat D A s)) = length xs + length ys" by auto
qed

section \<open>Sorted insertion\<close>

text \<open>
  The contract of a comparison function: the sign of \<open>cmp n x\<close> never contradicts the order of the
  keys \<open>rank\<close>, and 0 is answered for equal keys only. Keys may be coarser than the
  comparison.
\<close>

lemma u32_arith:
  "n < 2 ^ 32 \<Longrightarrow> unat (of_nat n :: u32) = n"
  "a < 2 ^ 32 \<Longrightarrow> b < 2 ^ 32 \<Longrightarrow> (of_nat a :: u32) = of_nat b \<longleftrightarrow> a = b"
  "n < 2 ^ 32 \<Longrightarrow> (of_nat n :: u32) div 2 = of_nat (n div 2)"
  "b \<le> a \<Longrightarrow> (of_nat a :: u32) - of_nat b = of_nat (a - b)"
proof -
  show u: "unat (of_nat n :: u32) = n" if "n < 2 ^ 32" for n
    using that by (simp add: unat_of_nat)
  show "(of_nat a :: u32) = of_nat b \<longleftrightarrow> a = b" if "a < 2 ^ 32" "b < 2 ^ 32" for a b
    using that u by metis
  show "(of_nat n :: u32) div 2 = of_nat (n div 2)" if "n < 2 ^ 32" for n
    using that u [of n] u [of "n div 2"] by (simp add: word_unat_eq_iff unat_div)
  show "(of_nat a :: u32) - of_nat b = of_nat (a - b)" if "b \<le> a" for a b
    using that by (simp add: of_nat_diff)
qed

lemma list_at: "k < length xs \<Longrightarrow> xs = take k xs @ xs ! k # drop (Suc k) xs"
  by (rule id_take_nth_drop)

text \<open>Inserting at position \<open>k\<close>, before the node there or after the node in front of it.\<close>

lemma insert_before_at:
  assumes "dl_rep s L xs" "n \<noteq> NULL" "n \<notin> set xs" "length xs < unat MI_UTIL_MAXCOUNT" "k < length xs"
  shows "dl_rep (snd (MI_DlInsertBefore L (xs ! k) n s)) L (take k xs @ n # drop k xs)"
    "unat (fst (MI_DlInsertBefore L (xs ! k) n s)) = length xs + 1"
    "dl_frame (insert n (set xs)) L s (snd (MI_DlInsertBefore L (xs ! k) n s))"
  using MI_DlInsertBefore_rep [of s L "take k xs" "xs ! k" "drop (Suc k) xs" n] assms list_at [OF assms(5)]
  by (simp_all add: Cons_nth_drop_Suc)

lemma insert_after_at:
  assumes "dl_rep s L xs" "n \<noteq> NULL" "n \<notin> set xs" "length xs < unat MI_UTIL_MAXCOUNT" "k < length xs"
  shows "dl_rep (snd (MI_DlInsertAfter L (xs ! k) n s)) L (take (Suc k) xs @ n # drop (Suc k) xs)"
    "unat (fst (MI_DlInsertAfter L (xs ! k) n s)) = length xs + 1"
    "dl_frame (insert n (set xs)) L s (snd (MI_DlInsertAfter L (xs ! k) n s))"
  using MI_DlInsertAfter_rep [of s L "take k xs" "xs ! k" "drop (Suc k) xs" n] assms list_at [OF assms(5)]
  by (simp_all add: take_Suc_conv_app_nth)

locale comparator =
  fixes cmp :: "addr \<Rightarrow> addr \<Rightarrow> int" and rank :: "addr \<Rightarrow> 'r::linorder"
  assumes after: "cmp n x < 0 \<Longrightarrow> rank x \<le> rank n"
    and before: "cmp n x > 0 \<Longrightarrow> rank n \<le> rank x"
    and same: "cmp n x = 0 \<Longrightarrow> rank n = rank x"
begin

abbreviation ordered :: "addr list \<Rightarrow> bool" where
  "ordered xs \<equiv> sorted (map rank xs)"

lemma ordered_insert:
  assumes "ordered (as @ bs)" "\<And>a. a \<in> set as \<Longrightarrow> rank a \<le> rank n" "\<And>b. b \<in> set bs \<Longrightarrow> rank n \<le> rank b"
  shows "ordered (as @ n # bs)"
  using assms by (auto simp: sorted_append)

lemma ordered_at:
  assumes "ordered xs" "k \<le> length xs"
    and "k > 0 \<Longrightarrow> rank (xs ! (k - 1)) \<le> rank n" and "k < length xs \<Longrightarrow> rank n \<le> rank (xs ! k)"
  shows "ordered (take k xs @ n # drop k xs)"
proof (rule ordered_insert)
  show "ordered (take k xs @ drop k xs)" using assms(1) by simp
  fix a assume "a \<in> set (take k xs)"
  then obtain i where i: "i < k" "a = xs ! i" using assms(2) by (auto simp: in_set_conv_nth)
  then have "map rank xs ! i \<le> map rank xs ! (k - 1)"
    using assms(1,2) by (intro sorted_nth_mono) auto
  then show "rank a \<le> rank n" using assms(2,3) i by auto
next
  fix b assume "b \<in> set (drop k xs)"
  then obtain i where "i < length (drop k xs)" "b = drop k xs ! i" by (metis in_set_conv_nth)
  then have i: "k + i < length xs" "b = xs ! (k + i)" using assms(2) by auto
  then have "map rank xs ! k \<le> map rank xs ! (k + i)"
    using assms(1) by (intro sorted_nth_mono) auto
  then show "rank n \<le> rank b" using assms(4) i by auto
qed

text \<open>The binary search ends and inserts at a position the keys allow.\<close>

lemma insert_loop_spec:
  assumes "dl_rep s L xs" "n \<noteq> NULL" "n \<notin> set xs" "length xs < 2 ^ 31" "ordered xs"
    and "a < m" "m \<le> e" "e < length xs" "cmp n (xs ! a) < 0" "0 \<le> cmp n (xs ! e)"
  shows "\<exists>k s'. insert_loop cmp L n s (of_nat a) (of_nat e) (of_nat m) (xs ! a) (xs ! m) = Some s' \<and>
    0 < k \<and> k < length xs \<and> rank (xs ! (k - 1)) \<le> rank n \<and> rank n \<le> rank (xs ! k) \<and>
    dl_rep s' L (take k xs @ n # drop k xs) \<and> dl_frame (insert n (set xs)) L s s'"
  using assms(6-10)
proof (induction "2 * (e - a) + (if m = e then 1 else 0)" arbitrary: a m e rule: less_induct)
  case less
  note d = dl_repD [OF assms(1)]
  have len: "length xs < unat MI_UTIL_MAXCOUNT" using assms(4) by simp
  have b: "a < 2 ^ 31" "m < 2 ^ 31" "e < 2 ^ 31" using less.prems assms(4) by auto
  have m1: "m < length xs" using less.prems by simp
  then have "xs ! m \<in> set xs" by simp
  then have m: "m < length xs" "xs ! m \<noteq> NULL" using m1 d(8) by metis+
  have mono: "rank (xs ! i) \<le> rank (xs ! j)" if "i \<le> j" "j < length xs" for i j
    using sorted_nth_mono [of "map rank xs" i j] assms(5) that by simp
  have step: "MI_DlStep (xs ! i) (sint (of_nat j - of_nat i :: u32)) s = xs ! j" if "i < j" "j < length xs" for i j
  proof -
    have w: "(of_nat j - of_nat i :: u32) = of_nat (j - i)" by (rule u32_arith(4)) (use that in simp)
    have u: "unat (of_nat (j - i) :: u32) = j - i" by (rule u32_arith(1)) (use that assms(4) in simp)
    have "unat (of_nat (j - i) :: u32) \<le> 2147483647" unfolding u using that assms(4) by simp
    then have "sint (of_nat j - of_nat i :: u32) = int (j - i)"
      unfolding w using sint_small u by metis
    then show ?thesis using MI_DlStep_rep [OF assms(1), of i "j - i"] that assms(4) by simp
  qed
  consider "cmp n (xs ! m) = 0" | "cmp n (xs ! m) < 0" "m + 1 = e" | "cmp n (xs ! m) < 0" "m + 1 \<noteq> e"
    | "0 < cmp n (xs ! m)" "m - 1 = a" | "0 < cmp n (xs ! m)" "m - 1 \<noteq> a" by linarith
  then show ?case
  proof cases
    case 1
    then show ?thesis
      using insert_before_at [OF assms(1-3) len m(1)] m less.prems mono [of "m - 1" m] same [OF 1]
      by (subst insert_loop.simps) (auto intro!: exI [of _ m])
  next
    case 2
    have e1: "(of_nat m + 1 :: u32) = of_nat e" using 2 by (metis of_nat_1 of_nat_add)
    have "rank n \<le> rank (xs ! e)" using less.prems before [of n "xs ! e"] same [of n "xs ! e"] by (cases "cmp n (xs ! e) = 0") auto
    then show ?thesis
      using insert_after_at [OF assms(1-3) len m(1)] m less.prems after [OF 2(1)] e1 2
      by (subst insert_loop.simps) (auto intro!: exI [of _ e])
  next
    case 3
    let ?m = "(m + 1 + e) div 2"
    have me: "m < e" using 3 less.prems by (cases "m = e") auto
    have r: "m < ?m" "?m \<le> e" "2 * (e - m) + (if ?m = e then 1 else 0) < 2 * (e - a) + (if m = e then 1 else 0)" using me 3 less.prems by auto
    have e1: "(of_nat m + 1 :: u32) = of_nat (m + 1)" "(of_nat (m + 1) + of_nat e :: u32) = of_nat (m + 1 + e)" by simp_all
    have e2: "(of_nat m + 1 :: u32) \<noteq> of_nat e" unfolding e1 using 3(2) b by (subst u32_arith) auto
    have e3: "(of_nat m + 1 + of_nat e :: u32) div 2 = of_nat ?m" unfolding e1 using b by (subst u32_arith) auto
    have "insert_loop cmp L n s (of_nat a) (of_nat e) (of_nat m) (xs ! a) (xs ! m) =
        insert_loop cmp L n s (of_nat m) (of_nat e) (of_nat ?m) (xs ! m) (xs ! ?m)"
      using 3 m e2 e3 step [of m ?m] r less.prems by (subst insert_loop.simps) (simp add: Let_def)
    then show ?thesis using less.hyps [OF r(3) r(1,2) less.prems(3) 3(1) less.prems(5)] by simp
  next
    case 4
    have e1: "(of_nat m - 1 :: u32) = of_nat a" proof -
      have "m = a + 1" using 4 less.prems by simp
      then show ?thesis by simp
    qed
    have "rank (xs ! a) \<le> rank n" by (rule after [OF less.prems(4)])
    then show ?thesis
      using insert_before_at [OF assms(1-3) len m(1)] m less.prems before [OF 4(1)] e1 4
      by (subst insert_loop.simps) (auto intro!: exI [of _ m])
  next
    case 5
    let ?m = "(a + 1 + m) div 2"
    have r: "a < ?m" "?m < m" "2 * (m - a) + (if ?m = m then 1 else 0) < 2 * (e - a) + (if m = e then 1 else 0)"
      using 5 less.prems by auto
    have e1: "(of_nat a + 1 :: u32) = of_nat (a + 1)" "(of_nat (a + 1) + of_nat m :: u32) = of_nat (a + 1 + m)" by simp_all
    have e2: "(of_nat m - 1 :: u32) \<noteq> of_nat a"
    proof -
      have "(of_nat m - 1 :: u32) = of_nat (m - 1)" using less.prems by (simp add: of_nat_diff)
      then show ?thesis using 5(2) b by (simp add: u32_arith)
    qed
    have e3: "(of_nat a + 1 + of_nat m :: u32) div 2 = of_nat ?m" unfolding e1 using b by (subst u32_arith) auto
    have "insert_loop cmp L n s (of_nat a) (of_nat e) (of_nat m) (xs ! a) (xs ! m) =
        insert_loop cmp L n s (of_nat a) (of_nat m) (of_nat ?m) (xs ! a) (xs ! ?m)"
      using 5 m e2 e3 step [of a ?m] r less.prems by (subst insert_loop.simps) (simp add: Let_def)
    then show ?thesis using less.hyps [OF r(3) r(1) _ m(1) less.prems(4)] r(2) 5(1) by simp
  qed
qed

lemma MI_DlInsert_spec:
  assumes "dl_rep s L xs" "n \<noteq> NULL" "n \<notin> set xs" "length xs < 2 ^ 31" "ordered xs"
    and cf: "(\<lambda>a b. cf (key a) (key b)) = cmp"
  shows "\<exists>k c s'. MI_DlInsert L n (Some key) (Some cf) s = Some (c, s') \<and> unat c = length xs + 1 \<and>
    k \<le> length xs \<and> dl_rep s' L (take k xs @ n # drop k xs) \<and> ordered (take k xs @ n # drop k xs) \<and>
    dl_frame (insert n (set xs)) L s s'"
proof -
  note d = dl_repD [OF assms(1)]
  let ?N = "length xs" and ?c = "l_count (dl_hdr s L)"
  have len: "?N < unat MI_UTIL_MAXCOUNT" using assms(4) by simp
  have c: "\<not> MI_UTIL_MAXCOUNT \<le> ?c" using count_room [OF d(4)] len by simp
  have "of_nat (unat ?c) = ?c" by simp
  then have cw: "?c = of_nat ?N" unfolding d(4) by simp
  have cf': "cf (key a) (key b) = cmp a b" for a b using cf by (metis (no_types))
  have fin: "\<exists>k c s'. r = (c, s') \<and> unat c = ?N + 1 \<and> k \<le> ?N \<and> dl_rep s' L (take k xs @ n # drop k xs) \<and>
      ordered (take k xs @ n # drop k xs) \<and> dl_frame (insert n (set xs)) L s s'"
    if "dl_rep (snd r) L (take k xs @ n # drop k xs)" "unat (fst r) = ?N + 1" "dl_frame (insert n (set xs)) L s (snd r)"
      "k \<le> ?N" "k > 0 \<Longrightarrow> rank (xs ! (k - 1)) \<le> rank n" "k < ?N \<Longrightarrow> rank n \<le> rank (xs ! k)" for k r
    using that ordered_at [OF assms(5) that(4-6)] by (cases r) auto
  have tail: "\<exists>k c s'. MI_DlPushTail L n s = (c, s') \<and> unat c = ?N + 1 \<and> k \<le> ?N \<and>
      dl_rep s' L (take k xs @ n # drop k xs) \<and> ordered (take k xs @ n # drop k xs) \<and> dl_frame (insert n (set xs)) L s s'"
    if "?N > 0 \<Longrightarrow> rank (last xs) \<le> rank n"
    using MI_DlPushTail_rep [OF assms(1-3) len] that by (intro fin [of _ ?N]) (auto simp: last_conv_nth)
  show ?thesis
  proof (cases "xs = []")
    case True
    then have "MI_DlInsert L n (Some key) (Some cf) s = Some (MI_DlPushTail L n s)"
      using c d(1) assms(2) cw by (simp add: MI_DlInsert_def)
    then show ?thesis using tail True by simp
  next
    case False
    have ends: "MI_DlFirst L s = xs ! 0" "MI_DlLast L s = last xs" "xs ! 0 = hd xs"
      using MI_DlFirst_rep [OF assms(1)] MI_DlLast_rep [OF assms(1)] False
      by (simp_all add: hd0_nonempty last0_snoc hd_conv_nth)
    have c0: "?c \<noteq> 0" using d(4) False by (auto simp: count_zero)
    have c1: "?c = 1 \<longleftrightarrow> ?N = 1" using d(4) by (metis unat_1 word_unat_eq_iff)
    note unf = MI_DlInsert_def Let_def cf' ends
    consider "0 \<le> cmp n (xs ! 0)" | "cmp n (xs ! 0) < 0" "?N = 1 \<or> cmp n (last xs) < 0"
      | "cmp n (xs ! 0) < 0" "?N \<noteq> 1" "0 \<le> cmp n (last xs)" by linarith
    then show ?thesis
    proof cases
      case 1
      then have "MI_DlInsert L n (Some key) (Some cf) s = Some (MI_DlInsertBefore L (xs ! 0) n s)"
        using c c0 d(1) assms(2) by (simp add: unf)
      moreover have "rank n \<le> rank (xs ! 0)"
        using 1 before [of n "xs ! 0"] same [of n "xs ! 0"] by (cases "cmp n (xs ! 0) = 0") auto
      ultimately show ?thesis
        using fin [of "MI_DlInsertBefore L (xs ! 0) n s" 0] insert_before_at [OF assms(1-3) len, of 0] False by simp
    next
      case 2
      then have "MI_DlInsert L n (Some key) (Some cf) s = Some (MI_DlPushTail L n s)"
        using c c0 c1 d(1) assms(2) by (auto simp: unf)
      moreover have "rank (last xs) \<le> rank n"
        using 2 after [of n "xs ! 0"] after [of n "last xs"] False by (cases "?N = 1") (auto simp: last_conv_nth)
      ultimately show ?thesis using tail by simp
    next
      case 3
      let ?e = "?N - 1" and ?m = "?N div 2"
      have b: "0 < ?m" "?m \<le> ?e" "?e < ?N" using 3(2) False by (cases xs; cases "tl xs"; auto)+
      have w: "?c - 1 = of_nat ?e" using cw False by (simp add: of_nat_diff Suc_leI)
      have w2: "(0 + 1 + of_nat ?e :: u32) div 2 = of_nat ?m"
        using u32_arith(3) [of ?N] assms(4) False by (simp add: of_nat_diff Suc_leI)
      have "cmp n (xs ! ?e) \<ge> 0" using 3(3) False by (simp add: last_conv_nth)
      from insert_loop_spec [OF assms(1-5) b 3(1) this]
      obtain k s' where k: "insert_loop cmp L n s 0 (of_nat ?e) (of_nat ?m) (xs ! 0) (xs ! ?m) = Some s'"
        "0 < k" "k < ?N" "rank (xs ! (k - 1)) \<le> rank n" "rank n \<le> rank (xs ! k)"
        "dl_rep s' L (take k xs @ n # drop k xs)" "dl_frame (insert n (set xs)) L s s'" by auto
      have "MI_DlStep (xs ! 0) (sint (of_nat ?m - 0 :: u32)) s = xs ! ?m"
        using MI_DlNth_rep [OF assms(1), of "of_nat ?m"] u32_arith(1) [of ?m] b assms(4) d(1) ends by (simp add: MI_DlNth_def)
      then have "MI_DlInsert L n (Some key) (Some cf) s = Some (l_count (dl_hdr s' L), s')"
        using c c0 c1 3 d(1) assms(2) k(1) w w2 by (simp add: unf cf)
      moreover have "unat (l_count (dl_hdr s' L)) = ?N + 1" using dl_repD(4) [OF k(6)] k(3) by simp
      ultimately show ?thesis using fin [of "(l_count (dl_hdr s' L), s')" k] k by simp
    qed
  qed
qed

end

end
