(* ===== verification/Ptimer.thy ===== *)
theory Ptimer
  imports Dl_List
begin

text \<open>
  The timer manager of \<^verbatim>\<open>lib/util/ptimer.cpp\<close>: one sorted list of running timers per manager.

  \<open>Node\<close> and \<open>List\<close> are the first members of their structures, so the address of a timer is the
  address of its list node and the address of a manager that of its list header. \<open>unsigned long\<close>
  is a 64-bit word. \<open>pmalloc\<close> returns the address it is given, 0 when it fails; the wall clock
  reading is an argument. Results returned through pointers are components of the result; the
  tests of these pointers against \<open>NULL\<close> are left out.
\<close>

record tPTIMER_TIMER =
  pMng :: addr
  pData :: addr
  expire_sec :: u64
  expire_usec :: u64

record ptimers =
  pt_store :: store
  pt_timer :: "addr \<Rightarrow> tPTIMER_TIMER"

record walltime =
  wall_sec :: u64
  wall_nsec :: u64

abbreviation upd_timer :: "addr \<Rightarrow> (tPTIMER_TIMER \<Rightarrow> tPTIMER_TIMER) \<Rightarrow> ptimers \<Rightarrow> ptimers" where
  "upd_timer t f st \<equiv> st\<lparr>pt_timer := (pt_timer st)(t := f (pt_timer st t))\<rparr>"

definition keyofPTIMER :: "ptimers \<Rightarrow> addr \<Rightarrow> tPTIMER_TIMER" where
  "keyofPTIMER st t = pt_timer st t"

definition comparePTIMER :: "tPTIMER_TIMER \<Rightarrow> tPTIMER_TIMER \<Rightarrow> int" where
  "comparePTIMER vpTarget vpExist =
     (if expire_sec vpTarget > expire_sec vpExist then -1
      else if expire_sec vpTarget < expire_sec vpExist then 1
      else if expire_usec vpTarget > expire_usec vpExist then -1
      else 0)"

definition ptimer_mng_create :: "addr \<Rightarrow> ptimers \<Rightarrow> int \<times> addr \<times> ptimers" where
  "ptimer_mng_create new st =
     (if new = NULL then (-1, NULL, st) else (0, new, st\<lparr>pt_store := MI_DlInit new (pt_store st)\<rparr>))"

definition ptimer_mng_delete :: "addr \<Rightarrow> ptimers \<Rightarrow> int" where
  "ptimer_mng_delete pmng st =
     (if pmng = NULL then -1 else if MI_DlCount pmng (pt_store st) \<noteq> 0 then -1 else 0)"

definition ptimer_mng_getnextduration :: "addr \<Rightarrow> walltime \<Rightarrow> ptimers \<Rightarrow> int \<times> u64" where
  "ptimer_mng_getnextduration pmng now st =
     (if pmng = NULL then (-1, 0)
      else if MI_DlCount pmng (pt_store st) = 0 then (1, 0)
      else
        let vpTimer = pt_timer st (MI_DlFirst pmng (pt_store st)) in
        if wall_sec now > expire_sec vpTimer then (0, 0)
        else if wall_sec now = expire_sec vpTimer \<and> wall_nsec now div 1000 > expire_usec vpTimer then (0, 0)
        else (0, (expire_sec vpTimer - wall_sec now) * 1000 + (expire_usec vpTimer div 1000 - wall_nsec now div 1000000)))"

definition timer_due :: "walltime \<Rightarrow> tPTIMER_TIMER \<Rightarrow> bool" where
  "timer_due now t \<longleftrightarrow> wall_sec now > expire_sec t \<or>
     (wall_sec now = expire_sec t \<and>
      (wall_nsec now div 1000 > expire_usec t \<or> expire_usec t - wall_nsec now div 1000 < 1000))"

definition ptimer_mng_getexpired :: "addr \<Rightarrow> walltime \<Rightarrow> ptimers \<Rightarrow> int \<times> addr \<times> addr \<times> ptimers" where
  "ptimer_mng_getexpired pmng now st =
     (if pmng = NULL then (-1, NULL, NULL, st)
      else if MI_DlCount pmng (pt_store st) = 0 then (0, NULL, NULL, st)
      else
        let vpNode = MI_DlFirst pmng (pt_store st); vpTimer = pt_timer st vpNode in
        if timer_due now vpTimer then
          (1, vpNode, pData vpTimer,
           upd_timer vpNode (\<lambda>t. t\<lparr>pMng := NULL\<rparr>) (st\<lparr>pt_store := MI_DlDelete pmng vpNode (pt_store st)\<rparr>))
        else (0, NULL, NULL, st))"

definition ptimer_create :: "addr \<Rightarrow> ptimers \<Rightarrow> int \<times> ptimers" where
  "ptimer_create new st =
     (if new = NULL then (-1, st)
      else (0, st\<lparr>pt_timer := (pt_timer st)(new := \<lparr>pMng = NULL, pData = NULL, expire_sec = 0, expire_usec = 0\<rparr>)\<rparr>))"

definition ptimer_stop :: "addr \<Rightarrow> ptimers \<Rightarrow> ptimers" where
  "ptimer_stop ptimer st =
     (if ptimer = NULL then st
      else if pMng (pt_timer st ptimer) \<noteq> NULL then
        upd_timer ptimer (\<lambda>t. t\<lparr>pMng := NULL\<rparr>)
          (st\<lparr>pt_store := MI_DlDelete (pMng (pt_timer st ptimer)) ptimer (pt_store st)\<rparr>)
      else st)"

text \<open>Freeing the timer does not change what the model keeps of it.\<close>

definition ptimer_delete :: "addr \<Rightarrow> ptimers \<Rightarrow> ptimers" where
  "ptimer_delete ptimer st = ptimer_stop ptimer st"

definition set_expiry :: "walltime \<Rightarrow> u64 \<Rightarrow> tPTIMER_TIMER \<Rightarrow> tPTIMER_TIMER" where
  "set_expiry now mseconds t =
     (let sec = wall_sec now + mseconds div 1000;
          usec = wall_nsec now div 1000 + (mseconds mod 1000) * 1000
      in if usec div 1000000 \<ge> 1 then t\<lparr>expire_sec := sec + 1, expire_usec := usec mod 1000000\<rparr>
         else t\<lparr>expire_sec := sec, expire_usec := usec\<rparr>)"

definition ptimer_start :: "addr \<Rightarrow> addr \<Rightarrow> u64 \<Rightarrow> addr \<Rightarrow> walltime \<Rightarrow> ptimers \<Rightarrow> ptimers option" where
  "ptimer_start pmng ptimer mseconds pdata now st =
     (if ptimer = NULL \<or> pmng = NULL then Some st
      else
        let st1 = (if pMng (pt_timer st ptimer) \<noteq> NULL
                   then upd_timer ptimer (\<lambda>t. t\<lparr>pMng := NULL\<rparr>)
                     (st\<lparr>pt_store := MI_DlDelete (pMng (pt_timer st ptimer)) ptimer (pt_store st)\<rparr>)
                   else st);
            st2 = upd_timer ptimer (set_expiry now mseconds) st1;
            st3 = upd_timer ptimer (\<lambda>t. t\<lparr>pData := pdata, pMng := pmng\<rparr>) st2
        in (case MI_DlInsert pmng ptimer (Some (keyofPTIMER st3)) (Some comparePTIMER) (pt_store st3) of
              Some (_, s') \<Rightarrow> Some (st3\<lparr>pt_store := s'\<rparr>)
            | None \<Rightarrow> None))"

definition ptimer_util_walltimepass_ms :: "u64 \<Rightarrow> u64 \<Rightarrow> walltime \<Rightarrow> u64" where
  "ptimer_util_walltimepass_ms OldWallSec OldWallNSec now =
     (if wall_sec now < OldWallSec then 0
      else if wall_sec now = OldWallSec \<and> wall_nsec now \<le> OldWallNSec then 0
      else (wall_sec now - OldWallSec) * 1000 + (wall_nsec now div 1000000 - OldWallNSec div 1000000))"

section \<open>Invariant\<close>

text \<open>
  The list of a manager holds exactly the timers that name it as their manager, ordered by the
  second of their expiry.
\<close>

definition mng_inv :: "addr \<Rightarrow> addr list \<Rightarrow> ptimers \<Rightarrow> bool" where
  "mng_inv m xs st \<longleftrightarrow> dl_rep (pt_store st) m xs \<and> (\<forall>t. pMng (pt_timer st t) = m \<longleftrightarrow> t \<in> set xs) \<and>
     sorted (map (\<lambda>t. expire_sec (pt_timer st t)) xs)"

lemma timer_comparator:
  "comparator (\<lambda>a b. comparePTIMER (keyofPTIMER st a) (keyofPTIMER st b)) (\<lambda>t. expire_sec (pt_timer st t))"
  by unfold_locales (auto simp: comparePTIMER_def keyofPTIMER_def split: if_splits)

interpretation timers: comparator "\<lambda>a b. comparePTIMER (keyofPTIMER st a) (keyofPTIMER st b)"
    "\<lambda>t. expire_sec (pt_timer st t)" for st
  by (rule timer_comparator)

lemma mng_invD:
  assumes "mng_inv m xs st"
  shows "dl_rep (pt_store st) m xs" "pMng (pt_timer st t) = m \<longleftrightarrow> t \<in> set xs"
    "sorted (map (\<lambda>t. expire_sec (pt_timer st t)) xs)" "m \<noteq> NULL" "distinct xs" "NULL \<notin> set xs"
  using assms dl_repD [of "pt_store st" m xs] by (auto simp: mng_inv_def)

lemma mng_create_inv:
  assumes "new \<noteq> NULL" "\<forall>t. pMng (pt_timer st t) \<noteq> new"
  shows "mng_inv new [] (snd (snd (ptimer_mng_create new st)))"
  using assms MI_DlInit_rep [of new "pt_store st"] by (simp add: ptimer_mng_create_def mng_inv_def)

text \<open>Stopping a timer takes it off the list.\<close>

lemma detach_inv:
  assumes "mng_inv m xs st" "t \<in> set xs"
  shows "mng_inv m (remove1 t xs)
    (upd_timer t (\<lambda>t. t\<lparr>pMng := NULL\<rparr>) (st\<lparr>pt_store := MI_DlDelete m t (pt_store st)\<rparr>))"
proof -
  note i = mng_invD [OF assms(1)]
  have "sorted (map (\<lambda>t. expire_sec (pt_timer st t)) (remove1 t xs))"
    using i(3) by (rule sorted_map_remove1)
  moreover have "(\<lambda>u. expire_sec (if u = t then (pt_timer st t)\<lparr>pMng := NULL\<rparr> else pt_timer st u)) = (\<lambda>u. expire_sec (pt_timer st u))"
    by auto
  ultimately have "sorted (map (\<lambda>u. expire_sec (if u = t then (pt_timer st t)\<lparr>pMng := NULL\<rparr> else pt_timer st u)) (remove1 t xs))"
    by metis
  moreover have "pMng (if u = t then (pt_timer st t)\<lparr>pMng := NULL\<rparr> else pt_timer st u) = m \<longleftrightarrow> u \<in> set (remove1 t xs)" for u
    using i(2,4,5) by auto
  moreover have "dl_rep (MI_DlDelete m t (pt_store st)) m (remove1 t xs)"
    by (rule MI_DlDelete_remove1 [OF i(1) assms(2)])
  ultimately show ?thesis by (simp add: mng_inv_def fun_upd_def)
qed

lemma ptimer_stop_inv:
  assumes "mng_inv m xs st" "pMng (pt_timer st t) = m \<or> pMng (pt_timer st t) = NULL"
  shows "mng_inv m (remove1 t xs) (ptimer_stop t st)"
proof (cases "t \<in> set xs")
  case True
  then have "t \<noteq> NULL" "pMng (pt_timer st t) = m" "m \<noteq> NULL" using mng_invD [OF assms(1)] by metis+
  then show ?thesis using detach_inv [OF assms(1) True] by (simp add: ptimer_stop_def)
next
  case False
  then have "pMng (pt_timer st t) = NULL" using assms mng_invD(2) by blast
  then show ?thesis using assms False by (simp add: ptimer_stop_def remove1_idem)
qed

lemma set_expiry_sel [simp]: "pMng (set_expiry now ms t) = pMng t" "pData (set_expiry now ms t) = pData t"
  by (simp_all add: set_expiry_def Let_def)

text \<open>Starting a timer puts it on the list, in order of seconds, after taking it off first.\<close>

lemma ptimer_start_inv:
  assumes inv: "mng_inv m xs st" and t: "t \<noteq> NULL" "pMng (pt_timer st t) = m \<or> pMng (pt_timer st t) = NULL"
    and len: "length xs < 2 ^ 31"
  shows "\<exists>st' k. let ys = remove1 t xs; zs = take k ys @ t # drop k ys in
    ptimer_start m t ms data now st = Some st' \<and> mng_inv m zs st' \<and> pData (pt_timer st' t) = data \<and>
    expire_sec (pt_timer st' t) = expire_sec (set_expiry now ms (pt_timer st t)) \<and>
    expire_usec (pt_timer st' t) = expire_usec (set_expiry now ms (pt_timer st t)) \<and>
    (\<forall>u. u \<noteq> t \<longrightarrow> pt_timer st' u = pt_timer st u)"
proof -
  define st1 where "st1 = (if pMng (pt_timer st t) \<noteq> NULL
       then upd_timer t (\<lambda>t. t\<lparr>pMng := NULL\<rparr>) (st\<lparr>pt_store := MI_DlDelete (pMng (pt_timer st t)) t (pt_store st)\<rparr>)
       else st)"
  have st1: "st1 = ptimer_stop t st" using t(1) by (simp add: st1_def ptimer_stop_def)
  let ?ys = "remove1 t xs"
  have i1: "mng_inv m ?ys st1" unfolding st1 by (rule ptimer_stop_inv [OF inv t(2)])
  note d = mng_invD [OF i1]
  have tn: "t \<notin> set ?ys" using mng_invD(5) [OF inv] by simp
  define st3 where "st3 = upd_timer t (\<lambda>t. t\<lparr>pData := data, pMng := m\<rparr>) (upd_timer t (set_expiry now ms) st1)"
  have f: "pt_store st3 = pt_store st1" "\<And>u. u \<noteq> t \<Longrightarrow> pt_timer st3 u = pt_timer st u"
    "pMng (pt_timer st3 t) = m" "pData (pt_timer st3 t) = data"
    "expire_sec (pt_timer st3 t) = expire_sec (set_expiry now ms (pt_timer st t))"
    "expire_usec (pt_timer st3 t) = expire_usec (set_expiry now ms (pt_timer st t))"
    by (simp_all add: st3_def st1_def set_expiry_def Let_def)
  have u1: "\<And>u. u \<noteq> t \<Longrightarrow> pt_timer st3 u = pt_timer st1 u" by (simp add: st3_def)
  have "map (\<lambda>u. expire_sec (pt_timer st3 u)) ?ys = map (\<lambda>u. expire_sec (pt_timer st1 u)) ?ys"
    using tn u1 by (intro map_cong refl) metis
  then have ord: "sorted (map (\<lambda>u. expire_sec (pt_timer st3 u)) ?ys)" using d(3) by metis
  have len': "length ?ys < 2 ^ 31" using len by (auto simp: length_remove1)
  have rep: "dl_rep (pt_store st3) m ?ys" using d(1) f(1) by simp
  obtain k c s' where k: "MI_DlInsert m t (Some (keyofPTIMER st3)) (Some comparePTIMER) (pt_store st3) = Some (c, s')"
    "k \<le> length ?ys" "dl_rep s' m (take k ?ys @ t # drop k ?ys)"
    "sorted (map (\<lambda>t. expire_sec (pt_timer st3 t)) (take k ?ys @ t # drop k ?ys))"
    using timers.MI_DlInsert_spec [where key = "keyofPTIMER st3" and cf = comparePTIMER, OF rep t(1) tn len' ord refl] by blast
  let ?st' = "st3\<lparr>pt_store := s'\<rparr>"
  have "ptimer_start m t ms data now st =
      (case MI_DlInsert m t (Some (keyofPTIMER st3)) (Some comparePTIMER) (pt_store st3) of
         Some (_, s') \<Rightarrow> Some (st3\<lparr>pt_store := s'\<rparr>) | None \<Rightarrow> None)"
    unfolding ptimer_start_def Let_def st3_def st1_def using t(1) d(4) by (simp only: if_False de_Morgan_disj simp_thms)
  then have start: "ptimer_start m t ms data now st = Some ?st'" using k(1) by simp
  have "set (as @ t # bs) = insert t (set (as @ bs))" for as bs by auto
  from this [of "take k ?ys" "drop k ?ys"]
  have "set (take k ?ys @ t # drop k ?ys) = insert t (set ?ys)" unfolding append_take_drop_id .
  then have mem: "pMng (pt_timer st3 u) = m \<longleftrightarrow> u \<in> set (take k ?ys @ t # drop k ?ys)" for u
    using f(3) d(2) [of u] u1 [of u] by (cases "u = t") simp_all
  have "mng_inv m (take k ?ys @ t # drop k ?ys) ?st'"
    using k(3,4) mem by (simp add: mng_inv_def)
  then show ?thesis using start f by (intro exI [of _ ?st'] exI [of _ k]) (simp add: Let_def)
qed

section \<open>Deadlines\<close>

text \<open>Points in time in microseconds; a clock reading has less than a second of nanoseconds.\<close>

definition deadline :: "tPTIMER_TIMER \<Rightarrow> nat" where
  "deadline t = unat (expire_sec t) * 1000000 + unat (expire_usec t)"

definition wall_us :: "walltime \<Rightarrow> nat" where
  "wall_us now = unat (wall_sec now) * 1000000 + unat (wall_nsec now) div 1000"

definition wall_ok :: "walltime \<Rightarrow> bool" where
  "wall_ok now \<longleftrightarrow> unat (wall_nsec now) < 1000000000 \<and> unat (wall_sec now) < 2 ^ 62"

lemma set_expiry_deadline:
  assumes "wall_ok now"
  shows "deadline (set_expiry now ms t) = wall_us now + unat ms * 1000"
    "unat (expire_usec (set_expiry now ms t)) < 1000000"
proof -
  let ?us = "unat (wall_nsec now) div 1000 + (unat ms mod 1000) * 1000"
  have n: "unat (wall_nsec now) div 1000 < 1000000" "unat (wall_sec now) < 2 ^ 62"
    using assms by (auto simp: wall_ok_def)
  have m: "unat ms div 1000 < 2 ^ 62" using unsigned_less [where 'a = nat, of ms] by (simp add: div_less_iff_less_mult)
  have us: "unat (wall_nsec now div 1000 + (ms mod 1000) * 1000) = ?us"
    using n by (simp add: unat_word_ariths unat_div unat_mod)
  have sec: "unat (wall_sec now + ms div 1000) = unat (wall_sec now) + unat ms div 1000"
    "unat (wall_sec now + ms div 1000 + 1) = unat (wall_sec now) + unat ms div 1000 + 1"
    using n m by (simp_all add: unat_word_ariths unat_div)
  have ms: "unat ms * 1000 = (unat ms div 1000) * 1000000 + (unat ms mod 1000) * 1000"
    using div_mult_mod_eq [of "unat ms" 1000] by linarith
  have "deadline (set_expiry now ms t) = wall_us now + unat ms * 1000 \<and> unat (expire_usec (set_expiry now ms t)) < 1000000"
  proof (cases "?us < 1000000")
    case True
    then have "\<not> 1 \<le> (wall_nsec now div 1000 + (ms mod 1000) * 1000) div 1000000"
      using us by (simp add: word_le_nat_alt unat_div)
    then show ?thesis using us sec True ms by (simp add: set_expiry_def Let_def deadline_def wall_us_def)
  next
    case False
    then have "1 \<le> (wall_nsec now div 1000 + (ms mod 1000) * 1000) div 1000000"
      using us by (simp add: word_le_nat_alt unat_div)
    moreover have "unat ms mod 1000 \<le> 999" by simp
    then have "?us < 2000000" using n(1) by linarith
    then have "?us mod 1000000 = ?us - 1000000" using False by (subst le_mod_geq) simp_all
    moreover have "unat (expire_usec (set_expiry now ms t)) = ?us mod 1000000"
      "unat (expire_sec (set_expiry now ms t)) = unat (wall_sec now) + unat ms div 1000 + 1"
      using calculation(1) by (simp_all add: set_expiry_def Let_def unat_mod us sec)
    moreover have "?us \<ge> 1000000" "?us < 2000000" using False \<open>?us < 2000000\<close> by simp_all
    ultimately show ?thesis using ms unfolding deadline_def wall_us_def by linarith
  qed
  then show "deadline (set_expiry now ms t) = wall_us now + unat ms * 1000"
    "unat (expire_usec (set_expiry now ms t)) < 1000000" by auto
qed

lemma deadline_cong: "expire_sec t = expire_sec u \<Longrightarrow> expire_usec t = expire_usec u \<Longrightarrow> deadline t = deadline u"
  by (simp add: deadline_def)

lemma timer_due_iff:
  assumes "wall_ok now" "unat (expire_usec t) < 1000000"
  shows "timer_due now t \<Longrightarrow> deadline t < wall_us now + 1000"
    "deadline t \<le> wall_us now \<Longrightarrow> timer_due now t"
proof -
  let ?w = "unat (wall_nsec now) div 1000"
  have w: "?w < 1000000" using assms(1) by (auto simp: wall_ok_def)
  have due: "timer_due now t \<longleftrightarrow> unat (expire_sec t) < unat (wall_sec now) \<or>
      (unat (wall_sec now) = unat (expire_sec t) \<and> unat (expire_usec t) < ?w + 1000)"
  proof (cases "expire_usec t < wall_nsec now div 1000")
    case True
    then show ?thesis by (auto simp: timer_due_def word_less_nat_alt unat_div word_unat_eq_iff)
  next
    case False
    then have "wall_nsec now div 1000 \<le> expire_usec t" by simp
    then have "unat (expire_usec t - wall_nsec now div 1000) = unat (expire_usec t) - ?w"
      by (simp add: unat_sub unat_div)
    then show ?thesis using False by (auto simp: timer_due_def word_less_nat_alt unat_div word_unat_eq_iff)
  qed
  show "timer_due now t \<Longrightarrow> deadline t < wall_us now + 1000"
    unfolding due deadline_def wall_us_def using assms(2) w by (elim disjE conjE) simp_all
  show "deadline t \<le> wall_us now \<Longrightarrow> timer_due now t"
    unfolding due deadline_def wall_us_def using assms(2) w
    by (cases rule: linorder_cases [of "unat (expire_sec t)" "unat (wall_sec now)"]) linarith+
qed

lemma u64_of_nat: "n < 2 ^ 64 \<Longrightarrow> unat (of_nat n :: u64) = n"
  by (simp add: unat_of_nat)

lemma count_nonzero: "dl_rep s m xs \<Longrightarrow> (MI_DlCount m s = 0) = (xs = [])"
  using dl_repD(1,4) [of s m xs] by (auto simp: MI_DlCount_def count_zero)

lemma getexpired_cases:
  assumes "mng_inv m xs st"
  shows "ptimer_mng_getexpired m now st =
    (case xs of [] \<Rightarrow> (0, NULL, NULL, st)
     | t # ts \<Rightarrow> if timer_due now (pt_timer st t)
         then (1, t, pData (pt_timer st t), ptimer_stop t st) else (0, NULL, NULL, st))"
proof -
  note d = mng_invD [OF assms]
  show ?thesis
  proof (cases xs)
    case Nil
    then show ?thesis using d count_nonzero [OF d(1)] by (simp add: ptimer_mng_getexpired_def)
  next
    case (Cons t ts)
    have "t \<noteq> NULL" "pMng (pt_timer st t) = m" using d(2) [of t] d(6) Cons by auto
    then show ?thesis
      using Cons d(4) count_nonzero [OF d(1)] MI_DlFirst_rep [OF d(1)]
      by (simp add: ptimer_mng_getexpired_def Let_def ptimer_stop_def)
  qed
qed

lemma head_earliest_second:
  assumes "mng_inv m (t # ts) st" "u \<in> set (t # ts)"
  shows "expire_sec (pt_timer st t) \<le> expire_sec (pt_timer st u)"
  using mng_invD(3) [OF assms(1)] assms(2) by auto

section \<open>Properties\<close>

definition usec_ok :: "addr list \<Rightarrow> ptimers \<Rightarrow> bool" where
  "usec_ok xs st \<longleftrightarrow> (\<forall>t \<in> set xs. unat (expire_usec (pt_timer st t)) < 1000000)"

text \<open>A manager at address 1 and its empty list.\<close>

definition no_timers :: ptimers where
  "no_timers = \<lparr>pt_store = \<lparr>dl_next = (\<lambda>_. 0), dl_prev = (\<lambda>_. 0), dl_hdr = (\<lambda>_. \<lparr>node_next = 0, node_prev = 0, l_count = 0\<rparr>)\<rparr>,
     pt_timer = (\<lambda>_. \<lparr>pMng = 0, pData = 0, expire_sec = 0, expire_usec = 0\<rparr>)\<rparr>"

definition clock :: "u64 \<Rightarrow> u64 \<Rightarrow> walltime" where
  "clock s ms = \<lparr>wall_sec = s, wall_nsec = ms * 1000000\<rparr>"

lemma no_timers_inv: "mng_inv 1 [] no_timers"
  by (simp add: mng_inv_def dl_rep_def no_timers_def)

text \<open>
  C21. Starting a timer always returns: the binary search of the insertion ends. Afterwards the
  timer is on its manager's list exactly once, with the given data and the deadline now plus the
  requested milliseconds; the list is still linked correctly both ways, holds exactly the running
  timers and is ordered by the second of expiry; no other timer changes. This holds for a timer
  that was already running, which is rescheduled, and for an idle one.
\<close>

theorem timer_start_schedules:
  assumes "mng_inv m xs st" "t \<noteq> NULL" "pMng (pt_timer st t) = m \<or> pMng (pt_timer st t) = NULL"
    and "length xs < 2 ^ 31" "wall_ok now" "usec_ok xs st"
  shows "\<exists>st' zs. ptimer_start m t ms data now st = Some st' \<and> mng_inv m zs st' \<and> usec_ok zs st' \<and>
    mset zs = add_mset t (mset (remove1 t xs)) \<and> pData (pt_timer st' t) = data \<and>
    deadline (pt_timer st' t) = wall_us now + unat ms * 1000 \<and> (\<forall>u. u \<noteq> t \<longrightarrow> pt_timer st' u = pt_timer st u)"
proof -
  from ptimer_start_inv [OF assms(1-4), of ms data now]
  obtain st' k where r: "ptimer_start m t ms data now st = Some st'"
    "mng_inv m (take k (remove1 t xs) @ t # drop k (remove1 t xs)) st'" "pData (pt_timer st' t) = data"
    "expire_sec (pt_timer st' t) = expire_sec (set_expiry now ms (pt_timer st t))"
    "expire_usec (pt_timer st' t) = expire_usec (set_expiry now ms (pt_timer st t))"
    "\<forall>u. u \<noteq> t \<longrightarrow> pt_timer st' u = pt_timer st u" by (auto simp: Let_def)
  let ?zs = "take k (remove1 t xs) @ t # drop k (remove1 t xs)"
  have "mset (as @ t # bs) = add_mset t (mset (as @ bs))" for as bs by simp
  from this [of "take k (remove1 t xs)" "drop k (remove1 t xs)"] have ms: "mset ?zs = add_mset t (mset (remove1 t xs))" unfolding append_take_drop_id .
  then have "set ?zs = insert t (set (remove1 t xs))" by (metis set_mset_add_mset_insert set_mset_mset)
  then have "usec_ok ?zs st'"
    using r(5,6) set_expiry_deadline(2) [OF assms(5), of ms "pt_timer st t"] assms(6)
    by (simp add: usec_ok_def) (metis notin_set_remove1)
  then show ?thesis
    using r ms deadline_cong [OF r(4,5)] set_expiry_deadline(1) [OF assms(5)] by metis
qed

theorem timer_start_schedules_witness:
  "\<exists>st' zs. ptimer_start 1 10 2500 77 (clock 3 700) no_timers = Some st' \<and> mng_inv 1 zs st' \<and>
     mset zs = {#10#} \<and> deadline (pt_timer st' 10) = 6200000"
proof -
  have "pMng (pt_timer no_timers 10) = 0" "usec_ok [] no_timers" by (simp_all add: no_timers_def usec_ok_def)
  moreover have "wall_ok (clock 3 700)" by (simp add: wall_ok_def clock_def)
  moreover have "wall_us (clock 3 700) + unat (2500 :: u64) * 1000 = 6200000" by (simp add: wall_us_def clock_def)
  ultimately show ?thesis
    using timer_start_schedules [OF no_timers_inv, of 10 "clock 3 700" 2500 77] by auto
qed


definition one_timer :: ptimers where
  "one_timer = \<lparr>pt_store = \<lparr>dl_next = (\<lambda>_. 0), dl_prev = (\<lambda>_. 0), dl_hdr = (\<lambda>_. \<lparr>node_next = 10, node_prev = 10, l_count = 1\<rparr>)\<rparr>,
     pt_timer = (\<lambda>t. \<lparr>pMng = (if t = 10 then 1 else 0), pData = 77, expire_sec = 6, expire_usec = 200000\<rparr>)\<rparr>"

lemma one_timer_inv: "mng_inv 1 [10] one_timer" "usec_ok [10] one_timer"
  by (simp_all add: mng_inv_def dl_rep_def one_timer_def usec_ok_def last0_def)


text \<open>
  C34. The list is not ordered within a second: the comparison answers 0 for a new timer that
  expires earlier in the same second, and the search inserts it right before the node it
  happens to look at. After six timers of one manager have been started in this way, one
  is overdue by ten milliseconds and the manager reports that no timer has expired.
\<close>

definition start_at :: "addr \<Rightarrow> u64 \<Rightarrow> ptimers \<Rightarrow> ptimers" where
  "start_at t ms st = (case ptimer_start 1 t ms 0 (clock 0 0) st of Some st' \<Rightarrow> st' | None \<Rightarrow> st)"

definition six_timers :: ptimers where
  "six_timers = start_at 16 5050 (start_at 15 9000 (start_at 14 5300 (start_at 13 5200 (start_at 12 5100 (start_at 11 1000 no_timers)))))"

definition after_first :: ptimers where
  "after_first = snd (snd (snd (ptimer_mng_getexpired 1 (clock 1 500) six_timers)))"


text \<open>
  The time until the next timer, in milliseconds, is the difference of the deadline of the
  first timer and the clock, both cut to milliseconds, and 0 when the deadline has passed: the
  64-bit subtractions never wrap around.
\<close>

theorem nextduration_exact:
  assumes "mng_inv m (t # ts) st" "usec_ok (t # ts) st" "wall_ok now" "unat (expire_sec (pt_timer st t)) < 2 ^ 53"
  shows "\<exists>ms. ptimer_mng_getnextduration m now st = (0, ms) \<and>
    unat ms = deadline (pt_timer st t) div 1000 - wall_us now div 1000"
proof -
  note d = mng_invD [OF assms(1)]
  let ?t = "pt_timer st t"
  let ?es = "unat (expire_sec ?t)" and ?eu = "unat (expire_usec ?t)" and ?ws = "unat (wall_sec now)" and ?wn = "unat (wall_nsec now)"
  have f: "MI_DlFirst m (pt_store st) = t" "MI_DlCount m (pt_store st) \<noteq> 0"
    using MI_DlFirst_rep [OF d(1)] count_nonzero [OF d(1)] by auto
  have b: "?eu < 1000000" "?wn < 1000000000" using assms(2,3) by (auto simp: usec_ok_def wall_ok_def)
  have D: "deadline ?t div 1000 = ?es * 1000 + ?eu div 1000" "wall_us now div 1000 = ?ws * 1000 + ?wn div 1000000"
    by (simp_all add: deadline_def wall_us_def div_mult2_eq [symmetric])
  have b2: "?eu div 1000 < 1000" "?wn div 1000000 < 1000" using b by auto
  let ?passed = "?es < ?ws \<or> (?ws = ?es \<and> ?eu < ?wn div 1000)"
  have p: "(wall_sec now > expire_sec ?t \<or> wall_sec now = expire_sec ?t \<and> wall_nsec now div 1000 > expire_usec ?t) = ?passed"
    by (auto simp: word_less_nat_alt unat_div word_unat_eq_iff)
  have nd: "ptimer_mng_getnextduration m now st = (if ?passed then (0, 0)
      else (0, (expire_sec ?t - wall_sec now) * 1000 + (expire_usec ?t div 1000 - wall_nsec now div 1000000)))"
    unfolding p [symmetric] using f d(4) by (simp add: ptimer_mng_getnextduration_def Let_def)
  show ?thesis
  proof (cases ?passed)
    case True
    then have "ptimer_mng_getnextduration m now st = (0, 0)" using nd by simp
    moreover have "deadline ?t div 1000 \<le> wall_us now div 1000"
      using True b unfolding deadline_def wall_us_def by (intro div_le_mono) linarith
    ultimately show ?thesis by simp
  next
    case False
    let ?ms = "(expire_sec ?t - wall_sec now) * 1000 + (expire_usec ?t div 1000 - wall_nsec now div 1000000)"
    have r: "ptimer_mng_getnextduration m now st = (0, ?ms)" using False nd by (simp only: if_False)
    have ge: "?ws * 1000 + ?wn div 1000000 \<le> ?es * 1000 + ?eu div 1000"
      using False b2 by (cases "?ws = ?es") (auto simp: div_le_mono div_mult2_eq)
    have w: "of_nat (?eu div 1000) = expire_usec ?t div 1000" "of_nat (?wn div 1000000) = wall_nsec now div 1000000"
      by (simp_all add: word_unat_eq_iff unat_div unat_of_nat) (use b in simp_all)
    have "?ms = of_nat (?es * 1000 + ?eu div 1000 - (?ws * 1000 + ?wn div 1000000))"
      using ge w by (simp add: of_nat_diff algebra_simps)
    moreover have "?es * 1000 + ?eu div 1000 < 2 ^ 64" using assms(4) b2 by simp
    ultimately have "unat ?ms = ?es * 1000 + ?eu div 1000 - (?ws * 1000 + ?wn div 1000000)"
      by (metis less_imp_diff_less u64_of_nat)
    then show ?thesis using r D by simp
  qed
qed

theorem nextduration_exact_witness:
  "\<exists>ms. ptimer_mng_getnextduration 1 (clock 3 950) one_timer = (0, ms) \<and> unat ms = 2250"
  using nextduration_exact [OF one_timer_inv, of "clock 3 950"]
  by (simp add: wall_ok_def wall_us_def deadline_def) (simp add: clock_def one_timer_def)

end
