(* ===== verification/Power_Ipc.thy ===== *)
theory Power_Ipc
  imports Power_Prelude "HOL-Library.Monad_Syntax"
begin

text \<open>
  The wire format of \<^verbatim>\<open>lib/util/power_ipc.cpp\<close> and \<^verbatim>\<open>powerd_cmd.cpp\<close>: a command is a header of eight
  bytes and a sequence of configurations, each a type, a length and the members of a structure in
  network order.

  A buffer is a list of bytes. Reading or writing outside a buffer, and writing through a pointer
  that was never set, have no result: they are \<open>None\<close>. The sizes are those of a 64-bit target:
  eight bytes for a pointer, forty for \<open>tPerfLockData\<close> (seven \<open>int\<close>s, padding, a pointer).
  What fresh memory holds is the argument \<open>junk\<close>. \<open>malloc\<close> succeeds.
\<close>

type_synonym byte = "8 word"

section \<open>Data\<close>

abbreviation (input) INVALID_HANDLE :: int where "INVALID_HANDLE \<equiv> -123456"
abbreviation (input) PS_IPC_COM_HEADER_LEN :: nat where "PS_IPC_COM_HEADER_LEN \<equiv> 8"
abbreviation (input) PS_IPC_COM_CONTENT_MAX_LEN :: nat where "PS_IPC_COM_CONTENT_MAX_LEN \<equiv> 65535"
abbreviation (input) PS_SCN_TYPE_MEMORY :: int where "PS_SCN_TYPE_MEMORY \<equiv> 1"
abbreviation (input) PS_SCN_TYPE_PERF_LOCK :: int where "PS_SCN_TYPE_PERF_LOCK \<equiv> 2"
abbreviation (input) PS_SCN_TYPE_LOCK_REL :: int where "PS_SCN_TYPE_LOCK_REL \<equiv> 3"
abbreviation (input) PS_SCN_TYPE_PERF_CUS_LOCK_HINT :: int where "PS_SCN_TYPE_PERF_CUS_LOCK_HINT \<equiv> 4"
abbreviation (input) PS_SCN_TYPE_TIMER_REQ :: int where "PS_SCN_TYPE_TIMER_REQ \<equiv> 5"
abbreviation (input) MAX_ARGS :: int where "MAX_ARGS \<equiv> 600"

record tCusLockData =
  cl_hdl :: int
  cl_pid :: int
  cl_hint :: int
  cl_duration :: int

record tPerfLockData =
  pl_hdl :: int
  pl_pid :: int
  pl_uid :: int
  pl_duration :: int
  pl_reserved :: int
  pl_size :: int
  pl_hint :: int
  pl_rscList :: "int list option"      \<comment> \<open>the array pointed to; \<open>None\<close> for a pointer that was never set\<close>

record tLockHdlData =
  lh_hdl :: int
  lh_reserved :: int

record tTimerData =
  td_type :: int
  td_data :: int
  td_duration :: int

record tPS_CMD =
  CmdID :: int
  cusLockHint :: tCusLockData
  perfLock :: tPerfLockData
  hdlData :: tLockHdlData
  timerData :: tTimerData
  pMSG :: u64

record tPS_IPC_RecvJob =
  rj_State :: nat
  rj_Header :: "byte list"
  CAMCOMType :: int
  pContent :: "byte list"
  ContentLen :: nat
  RecvLen :: nat

section \<open>Bytes\<close>

fun le_bytes :: "nat \<Rightarrow> nat \<Rightarrow> byte list" where
  "le_bytes 0 v = []"
| "le_bytes (Suc n) v = of_nat (v mod 256) # le_bytes n (v div 256)"

fun le_val :: "byte list \<Rightarrow> nat" where
  "le_val [] = 0"
| "le_val (b # bs) = unat b + 256 * le_val bs"

text \<open>The bytes of an integer of \<open>n\<close> bytes in network order (\<open>htons\<close>, \<open>htonl\<close>), and back.\<close>

definition be :: "nat \<Rightarrow> int \<Rightarrow> byte list" where
  "be n i = rev (le_bytes n (nat (i mod 256 ^ n)))"

definition be_val :: "byte list \<Rightarrow> nat" where
  "be_val bs = le_val (rev bs)"

text \<open>\<open>memcpy\<close> into and out of a buffer.\<close>

definition put :: "nat \<Rightarrow> byte list \<Rightarrow> byte list \<Rightarrow> byte list option" where
  "put off bs buf = (if off + length bs \<le> length buf then Some (take off buf @ bs @ drop (off + length bs) buf) else None)"

definition get :: "nat \<Rightarrow> nat \<Rightarrow> byte list \<Rightarrow> byte list option" where
  "get off n buf = (if off + n \<le> length buf then Some (take n (drop off buf)) else None)"

definition get_u16 :: "nat \<Rightarrow> byte list \<Rightarrow> nat option" where
  "get_u16 off buf = map_option be_val (get off 2 buf)"

definition get_int :: "nat \<Rightarrow> byte list \<Rightarrow> int option" where
  "get_int off buf = map_option (\<lambda>bs. c_int (int (be_val bs))) (get off 4 buf)"

section \<open>Marshalling\<close>

definition MarBufLen_MEMORY :: "tPS_CMD \<Rightarrow> nat" where
  "MarBufLen_MEMORY c = (if pMSG c \<noteq> 0 then 2 + 2 + 8 else 0)"

definition MarBufLen_PERF_LOCK :: "tPS_CMD \<Rightarrow> nat" where
  "MarBufLen_PERF_LOCK c = (if pl_hdl (perfLock c) \<noteq> INVALID_HANDLE then 2 + 2 + 40 else 0)"

definition MarBufLen_LOCK_REL :: "tPS_CMD \<Rightarrow> nat" where
  "MarBufLen_LOCK_REL c = (if lh_hdl (hdlData c) \<noteq> INVALID_HANDLE then 2 + 2 + 8 else 0)"

definition MarBufLen_PERF_CUS_LOCK_HINT :: "tPS_CMD \<Rightarrow> nat" where
  "MarBufLen_PERF_CUS_LOCK_HINT c = (if cl_hint (cusLockHint c) \<noteq> INVALID_HANDLE then 2 + 2 + 16 else 0)"

definition MarBufLen_TIMER_REQ :: "tPS_CMD \<Rightarrow> nat" where
  "MarBufLen_TIMER_REQ c = (if td_type (timerData c) \<noteq> INVALID_HANDLE then 2 + 2 + 12 else 0)"

text \<open>
  The handlers write at \<open>off\<close> into the whole buffer; \<open>len\<close> is what is left of it according to
  the caller. The result is the length used and the buffer.
\<close>

fun put_ints :: "nat \<Rightarrow> int list \<Rightarrow> byte list \<Rightarrow> byte list option" where
  "put_ints off [] buf = Some buf"
| "put_ints off (i # is) buf = put off (be 4 i) buf \<bind> put_ints (off + 4) is"

definition Mar_MEMORY :: "tPS_CMD \<Rightarrow> nat \<Rightarrow> nat \<Rightarrow> byte list \<Rightarrow> (nat \<times> byte list) option" where
  "Mar_MEMORY c off len buf =
     (if pMSG c = 0 \<or> len < 8 then Some (0, buf)
      else do { b1 \<leftarrow> put off (be 2 PS_SCN_TYPE_MEMORY) buf;
                b2 \<leftarrow> put (off + 2) (be 2 8) b1;
                b3 \<leftarrow> put (off + 4) (le_bytes 8 (unat (pMSG c))) b2;
                Some (2 + 2 + 8, b3) })"

text \<open>The elements of \<open>rscList\<close> that are sent.\<close>

definition sent_args :: "tPerfLockData \<Rightarrow> int list option" where
  "sent_args p =
     (let n = nat (min MAX_ARGS (pl_size p))
      in if n = 0 then Some []
         else (case pl_rscList p of
                 None \<Rightarrow> None
               | Some l \<Rightarrow> if n \<le> length l then Some (take n l) else None))"

definition Mar_PERF_LOCK :: "tPS_CMD \<Rightarrow> nat \<Rightarrow> nat \<Rightarrow> byte list \<Rightarrow> (nat \<times> byte list) option" where
  "Mar_PERF_LOCK c off len buf =
     (let p = perfLock c
      in if pl_hdl p = INVALID_HANDLE \<or> len < 8 then Some (0, buf)
         else do { b1 \<leftarrow> put off (be 2 PS_SCN_TYPE_PERF_LOCK) buf;
                   b2 \<leftarrow> put (off + 2) (be 2 40) b1;
                   b3 \<leftarrow> put_ints (off + 4) [pl_hdl p, pl_pid p, pl_uid p, pl_duration p, pl_reserved p, pl_size p] b2;
                   args \<leftarrow> sent_args p;
                   b4 \<leftarrow> put_ints (off + 28) args b3;
                   Some (2 + 2 + 40, b4) })"

definition Mar_LOCK_REL :: "tPS_CMD \<Rightarrow> nat \<Rightarrow> nat \<Rightarrow> byte list \<Rightarrow> (nat \<times> byte list) option" where
  "Mar_LOCK_REL c off len buf =
     (let h = hdlData c
      in if lh_hdl h = INVALID_HANDLE \<or> len < 8 then Some (0, buf)
         else do { b1 \<leftarrow> put off (be 2 PS_SCN_TYPE_LOCK_REL) buf;
                   b2 \<leftarrow> put (off + 2) (be 2 8) b1;
                   b3 \<leftarrow> put_ints (off + 4) [lh_hdl h, lh_reserved h] b2;
                   Some (2 + 2 + 8, b3) })"

definition Mar_PERF_CUS_LOCK_HINT :: "tPS_CMD \<Rightarrow> nat \<Rightarrow> nat \<Rightarrow> byte list \<Rightarrow> (nat \<times> byte list) option" where
  "Mar_PERF_CUS_LOCK_HINT c off len buf =
     (let l = cusLockHint c
      in if cl_hint l = INVALID_HANDLE \<or> len < 8 then Some (0, buf)
         else do { b1 \<leftarrow> put off (be 2 PS_SCN_TYPE_PERF_CUS_LOCK_HINT) buf;
                   b2 \<leftarrow> put (off + 2) (be 2 16) b1;
                   b3 \<leftarrow> put_ints (off + 4) [cl_hdl l, cl_pid l, cl_hint l, cl_duration l] b2;
                   Some (2 + 2 + 16, b3) })"

definition Mar_TIMER_REQ :: "tPS_CMD \<Rightarrow> nat \<Rightarrow> nat \<Rightarrow> byte list \<Rightarrow> (nat \<times> byte list) option" where
  "Mar_TIMER_REQ c off len buf =
     (let t = timerData c
      in if td_type t = INVALID_HANDLE \<or> len < 8 then Some (0, buf)
         else do { b1 \<leftarrow> put off (be 2 PS_SCN_TYPE_TIMER_REQ) buf;
                   b2 \<leftarrow> put (off + 2) (be 2 12) b1;
                   b3 \<leftarrow> put_ints (off + 4) [td_type t, td_data t, td_duration t] b2;
                   Some (2 + 2 + 12, b3) })"

text \<open>\<open>_ConfigHandlerMarshallMapper\<close>.\<close>

definition ConfigHandlerMarshallMapper ::
  "((tPS_CMD \<Rightarrow> nat) \<times> (tPS_CMD \<Rightarrow> nat \<Rightarrow> nat \<Rightarrow> byte list \<Rightarrow> (nat \<times> byte list) option)) list" where
  "ConfigHandlerMarshallMapper =
     [(MarBufLen_MEMORY, Mar_MEMORY), (MarBufLen_PERF_LOCK, Mar_PERF_LOCK), (MarBufLen_LOCK_REL, Mar_LOCK_REL),
      (MarBufLen_PERF_CUS_LOCK_HINT, Mar_PERF_CUS_LOCK_HINT), (MarBufLen_TIMER_REQ, Mar_TIMER_REQ)]"

fun mar_loop :: "(tPS_CMD \<Rightarrow> nat \<Rightarrow> nat \<Rightarrow> byte list \<Rightarrow> (nat \<times> byte list) option) list \<Rightarrow> tPS_CMD \<Rightarrow>
    nat \<Rightarrow> nat \<Rightarrow> byte list \<Rightarrow> byte list option" where
  "mar_loop [] c off len buf = Some buf"
| "mar_loop (h # hs) c off len buf = h c off len buf \<bind> (\<lambda>(used, buf'). mar_loop hs c (off + used) (len - used) buf')"

text \<open>The bytes left in \<open>pJob->pData\<close>.\<close>

definition powerd_cmd_marshall :: "(nat \<Rightarrow> byte) \<Rightarrow> tPS_CMD \<Rightarrow> byte list option" where
  "powerd_cmd_marshall junk c =
     (let vBufLen = 8 + sum_list (map (\<lambda>(l, _). l c) ConfigHandlerMarshallMapper)
      in do { b1 \<leftarrow> mar_loop (map snd ConfigHandlerMarshallMapper) c 8 (vBufLen - 8) (map junk [0..<vBufLen]);
              b2 \<leftarrow> put 0 [0, 0] b1;
              b3 \<leftarrow> put 2 (be 2 (CmdID c)) b2;
              put 4 (be 4 (int (vBufLen - 8))) b3 })"


section \<open>Unmarshalling\<close>

text \<open>
  The handlers read the configuration at \<open>off\<close> of the content; \<open>Datalen\<close> is what is left of it.
  The result is the length used and the command. A configuration whose length is not that of
  the structure, or that is longer than the rest, is skipped.
\<close>

definition cfg_ok :: "nat \<Rightarrow> nat \<Rightarrow> nat \<Rightarrow> bool" where
  "cfg_ok vLen sz Datalen \<longleftrightarrow> \<not> (vLen \<noteq> sz \<or> Datalen < vLen + 2 + 2)"

definition Hdler_MEMORY :: "byte list \<Rightarrow> nat \<Rightarrow> nat \<Rightarrow> tPS_CMD \<Rightarrow> (nat \<times> tPS_CMD) option" where
  "Hdler_MEMORY content off Datalen c =
     do { vLen \<leftarrow> get_u16 (off + 2) content;
          if \<not> cfg_ok vLen 8 Datalen then Some (2 + 2 + vLen, c)
          else do { bs \<leftarrow> get (off + 4) 8 content;
                    Some (2 + 2 + vLen, c\<lparr>pMSG := of_nat (le_val bs)\<rparr>) } }"

text \<open>The loop that stores the received values through \<open>rscList\<close>.\<close>

fun recv_args :: "byte list \<Rightarrow> nat \<Rightarrow> nat \<Rightarrow> nat \<Rightarrow> int list option \<Rightarrow> int list option option" where
  "recv_args content off i 0 l = Some l"
| "recv_args content off i (Suc n) l =
     (case get_int (off + i * 4) content of
        None \<Rightarrow> None
      | Some v \<Rightarrow> (case l of
          None \<Rightarrow> None
        | Some xs \<Rightarrow> if i < length xs then recv_args content off (Suc i) n (Some (xs[i := v])) else None))"

definition Hdler_PERF_LOCK :: "byte list \<Rightarrow> nat \<Rightarrow> nat \<Rightarrow> tPS_CMD \<Rightarrow> (nat \<times> tPS_CMD) option" where
  "Hdler_PERF_LOCK content off Datalen c =
     do { vLen \<leftarrow> get_u16 (off + 2) content;
          if \<not> cfg_ok vLen 40 Datalen then Some (2 + 2 + vLen, c)
          else do { hdl \<leftarrow> get_int (off + 4) content;
                    pid \<leftarrow> get_int (off + 4 + 4) content;
                    uid \<leftarrow> get_int (off + 4 + 8) content;
                    duration \<leftarrow> get_int (off + 4 + 12) content;
                    reserved \<leftarrow> get_int (off + 4 + 16) content;
                    size \<leftarrow> get_int (off + 4 + 20) content;
                    l \<leftarrow> recv_args content (off + 4 + 24) 0 (nat (min MAX_ARGS size)) (pl_rscList (perfLock c));
                    Some (2 + 2 + vLen, c\<lparr>perfLock := (perfLock c)\<lparr>pl_hdl := hdl, pl_pid := pid, pl_uid := uid,
                      pl_duration := duration, pl_reserved := reserved, pl_size := size, pl_rscList := l\<rparr>\<rparr>) } }"

definition Hdler_LOCK_REL :: "byte list \<Rightarrow> nat \<Rightarrow> nat \<Rightarrow> tPS_CMD \<Rightarrow> (nat \<times> tPS_CMD) option" where
  "Hdler_LOCK_REL content off Datalen c =
     do { vLen \<leftarrow> get_u16 (off + 2) content;
          if \<not> cfg_ok vLen 8 Datalen then Some (2 + 2 + vLen, c)
          else do { hdl \<leftarrow> get_int (off + 4) content;
                    reserved \<leftarrow> get_int (off + 4 + 4) content;
                    Some (2 + 2 + vLen, c\<lparr>hdlData := \<lparr>lh_hdl = hdl, lh_reserved = reserved\<rparr>\<rparr>) } }"

definition Hdler_PERF_CUS_LOCK_HINT :: "byte list \<Rightarrow> nat \<Rightarrow> nat \<Rightarrow> tPS_CMD \<Rightarrow> (nat \<times> tPS_CMD) option" where
  "Hdler_PERF_CUS_LOCK_HINT content off Datalen c =
     do { vLen \<leftarrow> get_u16 (off + 2) content;
          if \<not> cfg_ok vLen 16 Datalen then Some (2 + 2 + vLen, c)
          else do { hdl \<leftarrow> get_int (off + 4) content;
                    pid \<leftarrow> get_int (off + 4 + 4) content;
                    hint \<leftarrow> get_int (off + 4 + 8) content;
                    duration \<leftarrow> get_int (off + 4 + 12) content;
                    Some (2 + 2 + vLen, c\<lparr>cusLockHint :=
                      \<lparr>cl_hdl = hdl, cl_pid = pid, cl_hint = hint, cl_duration = duration\<rparr>\<rparr>) } }"

definition Hdler_TIMER_REQ :: "byte list \<Rightarrow> nat \<Rightarrow> nat \<Rightarrow> tPS_CMD \<Rightarrow> (nat \<times> tPS_CMD) option" where
  "Hdler_TIMER_REQ content off Datalen c =
     do { vLen \<leftarrow> get_u16 (off + 2) content;
          if \<not> cfg_ok vLen 12 Datalen then Some (2 + 2 + vLen, c)
          else do { type \<leftarrow> get_int (off + 4) content;
                    data \<leftarrow> get_int (off + 4 + 4) content;
                    duration \<leftarrow> get_int (off + 4 + 8) content;
                    Some (2 + 2 + vLen, c\<lparr>timerData := \<lparr>td_type = type, td_data = data, td_duration = duration\<rparr>\<rparr>) } }"

text \<open>\<open>_ConfigHandlerMapper\<close>, searched for the type.\<close>

definition ConfigHandler :: "nat \<Rightarrow> (byte list \<Rightarrow> nat \<Rightarrow> nat \<Rightarrow> tPS_CMD \<Rightarrow> (nat \<times> tPS_CMD) option) option" where
  "ConfigHandler vCfgType = map_of
     [(1, Hdler_MEMORY), (2, Hdler_PERF_LOCK), (3, Hdler_LOCK_REL), (4, Hdler_PERF_CUS_LOCK_HINT), (5, Hdler_TIMER_REQ)]
     vCfgType"

text \<open>
  The loop over the configurations. The test before the type is read compares the length of the
  whole content, so the loop is entered with it. Every handler uses at least four bytes; the
  guard only serves the termination proof.
\<close>

function handler_loop :: "byte list \<Rightarrow> nat \<Rightarrow> tPS_CMD \<Rightarrow> tPS_CMD option" where
  "handler_loop content off c =
     (if off < length content then
        (case get_u16 off content of
           None \<Rightarrow> None
         | Some vCfgType \<Rightarrow>
            (case ConfigHandler vCfgType of
               None \<Rightarrow> Some c
             | Some h \<Rightarrow>
                (case h content off (length content - off) c of
                   None \<Rightarrow> None
                 | Some (used, c') \<Rightarrow> if used = 0 then None else handler_loop content (off + used) c')))
      else Some c)"
  by pat_completeness auto
termination by (relation "measure (\<lambda>(content, off, _). length content - off)") auto

declare handler_loop.simps [simp del]

definition powerd_ipc_init_pscmd :: "tPS_CMD \<Rightarrow> tPS_CMD" where
  "powerd_ipc_init_pscmd c = c\<lparr>pMSG := 0, cusLockHint := (cusLockHint c)\<lparr>cl_hint := INVALID_HANDLE\<rparr>,
     perfLock := (perfLock c)\<lparr>pl_hdl := INVALID_HANDLE\<rparr>, hdlData := (hdlData c)\<lparr>lh_hdl := INVALID_HANDLE\<rparr>,
     timerData := (timerData c)\<lparr>td_type := INVALID_HANDLE\<rparr>\<rparr>"

definition powerd_cmd_create :: "tPS_CMD \<Rightarrow> tPS_CMD" where
  "powerd_cmd_create junk = powerd_ipc_init_pscmd junk"

text \<open>Return value and command; \<open>None\<close> as a command is \<open>NULL\<close>.\<close>

definition power_ipc_type_handler_msg :: "tPS_CMD \<Rightarrow> tPS_IPC_RecvJob \<Rightarrow> (int \<times> tPS_CMD option) option" where
  "power_ipc_type_handler_msg junk job =
     (let c = (powerd_cmd_create junk)\<lparr>CmdID := CAMCOMType job\<rparr>
      in if 0 < length (pContent job) \<and> length (pContent job) < 2 then Some (-1, None)
         else map_option (\<lambda>c'. (0, Some c')) (handler_loop (pContent job) 0 c))"

definition powerd_cmd_unmarshall :: "tPS_CMD \<Rightarrow> tPS_IPC_RecvJob \<Rightarrow> (int \<times> tPS_CMD option) option" where
  "powerd_cmd_unmarshall junk job =
     (if 1 \<le> CAMCOMType job \<and> CAMCOMType job \<le> 5
      then map_option (\<lambda>(_, c). (0, c)) (power_ipc_type_handler_msg junk job)
      else Some (-1, None))"

section \<open>Receiving\<close>

text \<open>
  \<open>recv\<close> on a socket that holds the bytes \<open>sock\<close>: nothing to read is a failure, otherwise as
  many bytes as are there and wanted.
\<close>

definition recv :: "nat \<Rightarrow> byte list \<Rightarrow> (byte list \<times> byte list) option" where
  "recv n sock = (if sock = [] \<or> n = 0 then None else Some (take n sock, drop n sock))"

definition recv_done :: "tPS_IPC_RecvJob \<Rightarrow> tPS_IPC_RecvJob" where
  "recv_done job = job\<lparr>CAMCOMType := int (be_val (take 2 (drop 2 (rj_Header job)))), rj_State := 1\<rparr>"

text \<open>The second round of \<open>powerd_ipc_recvcmd\<close>, with a header and a content length above 0.\<close>

definition recv_content :: "tPS_IPC_RecvJob \<Rightarrow> byte list \<Rightarrow> int \<times> tPS_IPC_RecvJob \<times> byte list" where
  "recv_content job sock =
     (if ContentLen job = 0 then (-1, job, sock)
      else (case recv (ContentLen job + PS_IPC_COM_HEADER_LEN - RecvLen job) sock of
              None \<Rightarrow> (-1, job, sock)
            | Some (bs, sock') \<Rightarrow>
                (let job' = job\<lparr>pContent := pContent job @ bs, RecvLen := RecvLen job + length bs\<rparr>
                 in if ContentLen job + PS_IPC_COM_HEADER_LEN - RecvLen job' > 0 then (-1, job', sock')
                    else (0, recv_done job', sock'))))"

definition powerd_ipc_recvcmd :: "tPS_IPC_RecvJob \<Rightarrow> byte list \<Rightarrow> int \<times> tPS_IPC_RecvJob \<times> byte list" where
  "powerd_ipc_recvcmd job sock =
     (if rj_State job = 1 then (0, job, sock)
      else if RecvLen job < PS_IPC_COM_HEADER_LEN then
        (case recv (PS_IPC_COM_HEADER_LEN - RecvLen job) sock of
           None \<Rightarrow> (-1, job, sock)
         | Some (bs, sock') \<Rightarrow>
             (let job' = job\<lparr>rj_Header := rj_Header job @ bs, RecvLen := RecvLen job + length bs\<rparr>
              in if RecvLen job' < PS_IPC_COM_HEADER_LEN then (-1, job', sock')
                 else
                   (let vLenParam = be_val (take 4 (drop 4 (rj_Header job')))
                    in if vLenParam > PS_IPC_COM_CONTENT_MAX_LEN then (-1, job', sock')
                       else if vLenParam > 0 then recv_content (job'\<lparr>pContent := [], ContentLen := vLenParam\<rparr>) sock'
                       else (0, recv_done job', sock'))))
      else recv_content job sock)"

definition empty_recv_job :: tPS_IPC_RecvJob where
  "empty_recv_job = \<lparr>rj_State = 0, rj_Header = [], CAMCOMType = 0, pContent = [], ContentLen = 0, RecvLen = 0\<rparr>"


section \<open>Bytes and buffers\<close>

lemma le_bytes_length [simp]: "length (le_bytes n v) = n"
  by (induction n arbitrary: v) simp_all

lemma le_val_bytes: "v < 256 ^ n \<Longrightarrow> le_val (le_bytes n v) = v"
proof (induction n arbitrary: v)
  case (Suc n)
  have "v div 256 < 256 ^ n" using Suc.prems by (simp add: div_less_iff_less_mult mult.commute)
  then have "le_val (le_bytes n (v div 256)) = v div 256" by (rule Suc.IH)
  then show ?case by (simp add: unat_of_nat)
qed simp

lemma be_length [simp]: "length (be n i) = n"
  by (simp add: be_def)

lemma be_val_be: "be_val (be n i) = nat (i mod 256 ^ n)"
proof -
  have "nat (i mod 256 ^ n) < 256 ^ n" by (simp add: nat_less_iff)
  then show ?thesis by (simp add: be_val_def be_def le_val_bytes)
qed

lemma c_int_be4: "INT_MIN \<le> i \<Longrightarrow> i \<le> INT_MAX \<Longrightarrow> c_int (int (be_val (be 4 i))) = i"
  by (simp add: be_val_be c_int_def mod_add_left_eq)

lemma put_append:
  assumes "off = length pre" "length bs \<le> length suf"
  shows "put off bs (pre @ suf) = Some (pre @ bs @ drop (length bs) suf)"
  using assms by (simp add: put_def)

definition ints_bytes :: "int list \<Rightarrow> byte list" where
  "ints_bytes is = concat (map (be 4) is)"

lemma ints_bytes_length [simp]: "length (ints_bytes is) = 4 * length is"
  by (induction "is") (simp_all add: ints_bytes_def)

lemma ints_bytes_simps [simp]: "ints_bytes [] = []" "ints_bytes (i # is) = be 4 i @ ints_bytes is"
  by (simp_all add: ints_bytes_def)

lemma put_ints_append:
  assumes "off = length pre" "4 * length is \<le> length suf"
  shows "put_ints off is (pre @ suf) = Some (pre @ ints_bytes is @ drop (4 * length is) suf)"
  using assms
proof (induction "is" arbitrary: off pre suf)
  case (Cons i "is")
  have "put_ints (off + 4) is ((pre @ be 4 i) @ drop 4 suf) = Some ((pre @ be 4 i) @ ints_bytes is @ drop (4 * length is) (drop 4 suf))"
    by (rule Cons.IH) (use Cons.prems in auto)
  then show ?case using Cons.prems by (simp add: put_append add.commute)
qed simp

lemma put_ints_overflow:
  assumes "length buf < off + 4 * length is" "is \<noteq> []"
  shows "put_ints off is buf = None"
  using assms
proof (induction "is" arbitrary: off buf)
  case (Cons i "is")
  show ?case
  proof (cases "put off (be 4 i) buf")
    case (Some b)
    then have "length b = length buf" by (auto simp: put_def split: if_splits)
    then show ?thesis using Cons Some by (cases "is = []") (auto simp: put_def split: if_splits)
  qed simp
qed simp

lemma get_at:
  assumes "off = length pre" "n = length bs"
  shows "get off n (pre @ bs @ suf) = Some bs"
  using assms by (simp add: get_def)

lemma get_int_at:
  assumes "off = length pre" "INT_MIN \<le> i" "i \<le> INT_MAX"
  shows "get_int off (pre @ be 4 i @ suf) = Some i"
  using get_at [OF assms(1), of 4 "be 4 i" suf] assms(2,3) by (simp add: get_int_def c_int_be4)

lemma get_u16_at: "off = length pre \<Longrightarrow> 0 \<le> i \<Longrightarrow> i < 65536 \<Longrightarrow> get_u16 off (pre @ be 2 i @ suf) = Some (nat i)"
  using get_at [of off pre 2 "be 2 i" suf] by (simp add: get_u16_def be_val_be)

section \<open>One configuration\<close>

definition cfg :: "int \<Rightarrow> int \<Rightarrow> byte list \<Rightarrow> byte list" where
  "cfg ty sz body = be 2 ty @ be 2 sz @ body"

lemma cfg_length [simp]: "length (cfg ty sz body) = 4 + length body"
  by (simp add: cfg_def)

text \<open>The part of a command that each handler sends.\<close>

definition cfg_mem :: "tPS_CMD \<Rightarrow> byte list" where
  "cfg_mem c = (if pMSG c = 0 then [] else cfg 1 8 (le_bytes 8 (unat (pMSG c))))"

definition cfg_rel :: "tPS_CMD \<Rightarrow> byte list" where
  "cfg_rel c = (if lh_hdl (hdlData c) = INVALID_HANDLE then []
     else cfg 3 8 (ints_bytes [lh_hdl (hdlData c), lh_reserved (hdlData c)]))"

definition cfg_cus :: "tPS_CMD \<Rightarrow> byte list" where
  "cfg_cus c = (let l = cusLockHint c in if cl_hint l = INVALID_HANDLE then []
     else cfg 4 16 (ints_bytes [cl_hdl l, cl_pid l, cl_hint l, cl_duration l]))"

definition cfg_timer :: "tPS_CMD \<Rightarrow> byte list" where
  "cfg_timer c = (let t = timerData c in if td_type t = INVALID_HANDLE then []
     else cfg 5 12 (ints_bytes [td_type t, td_data t, td_duration t]))"

lemma put_head:
  assumes "4 \<le> length suf"
  shows "put (length pre) (be 2 ty) (pre @ suf) \<bind> (\<lambda>b1. put (Suc (Suc (length pre))) (be 2 sz) b1 \<bind> k) =
    k (pre @ be 2 ty @ be 2 sz @ drop 4 suf)"
proof -
  have 1: "put (length pre) (be 2 ty) (pre @ suf) = Some ((pre @ be 2 ty) @ drop 2 suf)" using assms by (simp add: put_append)
  have 2: "put (Suc (Suc (length pre))) (be 2 sz) ((pre @ be 2 ty) @ drop 2 suf) = Some (pre @ be 2 ty @ be 2 sz @ drop 4 suf)"
    using assms by (subst put_append) simp_all
  show ?thesis unfolding 1 bind.bind_lunit 2 by simp
qed

lemma put_cfg:
  assumes "off = length pre" "4 + length body \<le> length suf"
  shows "put (off + 4) body ((pre @ be 2 ty @ be 2 sz) @ drop 4 suf) = Some (pre @ cfg ty sz body @ drop (4 + length body) suf)"
  using assms by (subst put_append) (simp_all add: cfg_def add.commute)

lemma put_ints_cfg:
  assumes "off = length pre" "4 + 4 * length is \<le> length suf"
  shows "put_ints (off + 4) is ((pre @ be 2 ty @ be 2 sz) @ drop 4 suf) =
    Some (pre @ cfg ty sz (ints_bytes is) @ drop (4 + 4 * length is) suf)"
  using assms by (subst put_ints_append) (simp_all add: cfg_def add.commute)

lemma Mar_MEMORY_cfg:
  assumes "off = length pre" "length (cfg_mem c) \<le> length suf" "len = length suf"
  shows "Mar_MEMORY c off len (pre @ suf) = Some (length (cfg_mem c), pre @ cfg_mem c @ drop (length (cfg_mem c)) suf)"
  using assms put_cfg [of off pre "le_bytes 8 (unat (pMSG c))" suf]
  by (auto simp: Mar_MEMORY_def cfg_mem_def put_head split: if_splits)

lemma Mar_PERF_LOCK_skip:
  "pl_hdl (perfLock c) = INVALID_HANDLE \<Longrightarrow> Mar_PERF_LOCK c off len buf = Some (0, buf)"
  by (simp add: Mar_PERF_LOCK_def)

lemma Mar_LOCK_REL_cfg:
  assumes "off = length pre" "length (cfg_rel c) \<le> length suf" "len = length suf"
  shows "Mar_LOCK_REL c off len (pre @ suf) = Some (length (cfg_rel c), pre @ cfg_rel c @ drop (length (cfg_rel c)) suf)"
  using assms put_ints_cfg [of off pre "[lh_hdl (hdlData c), lh_reserved (hdlData c)]" suf]
  by (auto simp: Mar_LOCK_REL_def cfg_rel_def put_head Let_def simp del: put_ints.simps split: if_splits)

lemma Mar_CUS_cfg:
  assumes "off = length pre" "length (cfg_cus c) \<le> length suf" "len = length suf"
  shows "Mar_PERF_CUS_LOCK_HINT c off len (pre @ suf) =
    Some (length (cfg_cus c), pre @ cfg_cus c @ drop (length (cfg_cus c)) suf)"
  using assms put_ints_cfg [of off pre "let l = cusLockHint c in [cl_hdl l, cl_pid l, cl_hint l, cl_duration l]" suf]
  by (auto simp: Mar_PERF_CUS_LOCK_HINT_def cfg_cus_def put_head Let_def simp del: put_ints.simps split: if_splits)

lemma Mar_TIMER_cfg:
  assumes "off = length pre" "length (cfg_timer c) \<le> length suf" "len = length suf"
  shows "Mar_TIMER_REQ c off len (pre @ suf) =
    Some (length (cfg_timer c), pre @ cfg_timer c @ drop (length (cfg_timer c)) suf)"
  using assms put_ints_cfg [of off pre "let t = timerData c in [td_type t, td_data t, td_duration t]" suf]
  by (auto simp: Mar_TIMER_REQ_def cfg_timer_def put_head Let_def simp del: put_ints.simps split: if_splits)

text \<open>The content and the whole message of a command without a lock request.\<close>

definition content_of :: "tPS_CMD \<Rightarrow> byte list" where
  "content_of c = cfg_mem c @ cfg_rel c @ cfg_cus c @ cfg_timer c"


definition frame :: "int \<Rightarrow> byte list \<Rightarrow> byte list" where
  "frame i content = [0, 0] @ be 2 i @ be 4 (int (length content)) @ content"

lemma content_length: "length (content_of c) \<le> 60"
  by (simp add: content_of_def cfg_mem_def cfg_rel_def cfg_cus_def cfg_timer_def Let_def)

lemma marshall_message:
  assumes "pl_hdl (perfLock c) = INVALID_HANDLE"
  shows "powerd_cmd_marshall junk c = Some (frame (CmdID c) (content_of c))"
proof -
  let ?n = "length (content_of c)" and ?j = "map junk [0..<8 + length (content_of c)]"
  have len: "8 + sum_list (map (\<lambda>(l, _). l c) ConfigHandlerMarshallMapper) = 8 + ?n"
    using assms by (simp add: ConfigHandlerMarshallMapper_def MarBufLen_MEMORY_def MarBufLen_PERF_LOCK_def
        MarBufLen_LOCK_REL_def MarBufLen_PERF_CUS_LOCK_HINT_def MarBufLen_TIMER_REQ_def content_of_def
        cfg_mem_def cfg_rel_def cfg_cus_def cfg_timer_def Let_def)
  obtain pre suf where j: "?j = pre @ suf" "length pre = 8" "length suf = ?n"
  proof
    show "?j = take 8 ?j @ drop 8 ?j" by (rule append_take_drop_id [symmetric])
  qed simp_all
  have n: "length suf = length (cfg_mem c) + length (cfg_rel c) + length (cfg_cus c) + length (cfg_timer c)"
    using j(3) by (simp add: content_of_def)
  have "Mar_MEMORY c 8 ?n (pre @ suf) = Some (length (cfg_mem c), (pre @ cfg_mem c) @ drop (length (cfg_mem c)) suf)"
    using Mar_MEMORY_cfg [of 8 pre c suf ?n] j(2) j(3) [symmetric] n by simp
  moreover define s1 where "s1 = drop (length (cfg_mem c)) suf"
  moreover have "Mar_LOCK_REL c (8 + length (cfg_mem c)) (?n - length (cfg_mem c)) ((pre @ cfg_mem c) @ s1) =
      Some (length (cfg_rel c), (pre @ cfg_mem c @ cfg_rel c) @ drop (length (cfg_rel c)) s1)"
    using Mar_LOCK_REL_cfg [of _ "pre @ cfg_mem c" c s1] j(2) j(3) [symmetric] n by (simp add: s1_def)
  moreover define s2 where "s2 = drop (length (cfg_rel c)) s1"
  moreover have "Mar_PERF_CUS_LOCK_HINT c (8 + length (cfg_mem c) + length (cfg_rel c))
      (?n - length (cfg_mem c) - length (cfg_rel c)) ((pre @ cfg_mem c @ cfg_rel c) @ s2) =
      Some (length (cfg_cus c), (pre @ cfg_mem c @ cfg_rel c @ cfg_cus c) @ drop (length (cfg_cus c)) s2)"
    using Mar_CUS_cfg [of _ "pre @ cfg_mem c @ cfg_rel c" c s2] j(2) j(3) [symmetric] n by (simp add: s1_def s2_def add.assoc)
  moreover define s3 where "s3 = drop (length (cfg_cus c)) s2"
  moreover have "Mar_TIMER_REQ c (8 + length (cfg_mem c) + length (cfg_rel c) + length (cfg_cus c))
      (?n - length (cfg_mem c) - length (cfg_rel c) - length (cfg_cus c)) ((pre @ cfg_mem c @ cfg_rel c @ cfg_cus c) @ s3) =
      Some (length (cfg_timer c), pre @ content_of c)"
    using Mar_TIMER_cfg [of _ "pre @ cfg_mem c @ cfg_rel c @ cfg_cus c" c s3] j(2) j(3) [symmetric] n
    by (simp add: s1_def s2_def s3_def content_of_def add.assoc)
  ultimately have m: "mar_loop (map snd ConfigHandlerMarshallMapper) c 8 ?n ?j = Some (pre @ content_of c)"
    unfolding ConfigHandlerMarshallMapper_def j(1) by (simp add: Mar_PERF_LOCK_skip [OF assms])
  obtain p1 p2 p3 where p: "pre = p1 @ p2 @ p3" "length p1 = 2" "length p2 = 2" "length p3 = 4"
  proof
    have "drop 2 pre = take 2 (drop 2 pre) @ drop 4 pre" using append_take_drop_id [of 2 "drop 2 pre"] by simp
    then show "pre = take 2 pre @ take 2 (drop 2 pre) @ drop 4 pre" using append_take_drop_id [of 2 pre] by metis
  qed (use j(2) in auto)
  show ?thesis
    unfolding powerd_cmd_marshall_def Let_def len diff_add_inverse m bind.bind_lunit p(1)
    using p by (simp add: put_def frame_def)
qed


section \<open>Reading a message back\<close>

definition in_int :: "int \<Rightarrow> bool" where
  "in_int i \<longleftrightarrow> INT_MIN \<le> i \<and> i \<le> INT_MAX"

lemma get_cfg_len: "0 \<le> sz \<Longrightarrow> sz < 65536 \<Longrightarrow> get_u16 (length pre + 2) (pre @ cfg ty sz body @ post) = Some (nat sz)"
  using get_u16_at [of "length pre + 2" "pre @ be 2 ty" sz "body @ post"] by (simp add: cfg_def)

lemma get_cfg_int:
  assumes "k < length is" "in_int (is ! k)" "n = length pre + 4 + 4 * k"
  shows "get_int n (pre @ cfg ty sz (ints_bytes is) @ post) = Some (is ! k)"
proof -
  have "ints_bytes (us @ vs) = ints_bytes us @ ints_bytes vs" for us vs by (simp add: ints_bytes_def)
  then have "ints_bytes is = ints_bytes (take k is) @ be 4 (is ! k) @ ints_bytes (drop (Suc k) is)"
    using id_take_nth_drop [OF assms(1)] by (metis ints_bytes_simps(2))
  then show ?thesis
    using get_int_at [of n "pre @ be 2 ty @ be 2 sz @ ints_bytes (take k is)" "is ! k" "ints_bytes (drop (Suc k) is) @ post"] assms
    by (simp add: cfg_def in_int_def)
qed

lemma Hdler_MEMORY_cfg:
  assumes "12 \<le> len"
  shows "Hdler_MEMORY (pre @ cfg 1 8 (le_bytes 8 (unat p)) @ post) (length pre) len c = Some (12, c\<lparr>pMSG := p\<rparr>)"
proof -
  have "unat p < 256 ^ 8" using unsigned_less [where 'a = nat, of p] by simp
  moreover have "get (length pre + 4) 8 (pre @ cfg 1 8 (le_bytes 8 (unat p)) @ post) = Some (le_bytes 8 (unat p))"
    using get_at [of "length pre + 4" "pre @ be 2 1 @ be 2 8" 8 "le_bytes 8 (unat p)" post] by (simp add: cfg_def)
  ultimately show ?thesis
    using assms by (simp add: Hdler_MEMORY_def get_cfg_len [simplified] cfg_ok_def le_val_bytes)
qed

lemma Hdler_LOCK_REL_cfg:
  assumes "12 \<le> len" "in_int a" "in_int b"
  shows "Hdler_LOCK_REL (pre @ cfg 3 8 (ints_bytes [a, b]) @ post) (length pre) len c =
    Some (12, c\<lparr>hdlData := \<lparr>lh_hdl = a, lh_reserved = b\<rparr>\<rparr>)"
  using assms get_cfg_int [of 0 "[a, b]" "length pre + 4" pre] get_cfg_int [of 1 "[a, b]" "length pre + 8" pre]
  by (simp add: Hdler_LOCK_REL_def get_cfg_len [simplified] cfg_ok_def eval_nat_numeral del: ints_bytes_simps(2))

lemma Hdler_CUS_cfg:
  assumes "20 \<le> len" "in_int a" "in_int b" "in_int d" "in_int e"
  shows "Hdler_PERF_CUS_LOCK_HINT (pre @ cfg 4 16 (ints_bytes [a, b, d, e]) @ post) (length pre) len c =
    Some (20, c\<lparr>cusLockHint := \<lparr>cl_hdl = a, cl_pid = b, cl_hint = d, cl_duration = e\<rparr>\<rparr>)"
  using assms get_cfg_int [of 0 "[a, b, d, e]" "length pre + 4" pre] get_cfg_int [of 1 "[a, b, d, e]" "length pre + 8" pre] get_cfg_int [of 2 "[a, b, d, e]" "length pre + 12" pre] get_cfg_int [of 3 "[a, b, d, e]" "length pre + 16" pre]
  by (simp add: Hdler_PERF_CUS_LOCK_HINT_def get_cfg_len [simplified] cfg_ok_def eval_nat_numeral del: ints_bytes_simps(2))

lemma Hdler_TIMER_cfg:
  assumes "16 \<le> len" "in_int a" "in_int b" "in_int d"
  shows "Hdler_TIMER_REQ (pre @ cfg 5 12 (ints_bytes [a, b, d]) @ post) (length pre) len c =
    Some (16, c\<lparr>timerData := \<lparr>td_type = a, td_data = b, td_duration = d\<rparr>\<rparr>)"
  using assms get_cfg_int [of 0 "[a, b, d]" "length pre + 4" pre] get_cfg_int [of 1 "[a, b, d]" "length pre + 8" pre] get_cfg_int [of 2 "[a, b, d]" "length pre + 12" pre]
  by (simp add: Hdler_TIMER_REQ_def get_cfg_len [simplified] cfg_ok_def eval_nat_numeral del: ints_bytes_simps(2))

lemma handler_step:
  assumes "ConfigHandler (nat ty) = Some h" "0 \<le> ty" "ty < 65536"
    and "h (pre @ cfg ty sz body @ post) (length pre) (4 + length body + length post) c = Some (4 + length body, c')"
  shows "handler_loop (pre @ cfg ty sz body @ post) (length pre) c =
    handler_loop ((pre @ cfg ty sz body) @ post) (length (pre @ cfg ty sz body)) c'"
proof -
  have "get_u16 (length pre) (pre @ cfg ty sz body @ post) = Some (nat ty)"
    using get_u16_at [of "length pre" pre ty "be 2 sz @ body @ post"] assms(2,3) by (simp add: cfg_def)
  then show ?thesis
    using assms(1,4) by (subst handler_loop.simps) (simp add: add.assoc)
qed


definition cmd_in_range :: "tPS_CMD \<Rightarrow> bool" where
  "cmd_in_range c \<longleftrightarrow> list_all in_int [lh_hdl (hdlData c), lh_reserved (hdlData c), cl_hdl (cusLockHint c),
     cl_pid (cusLockHint c), cl_hint (cusLockHint c), cl_duration (cusLockHint c), td_type (timerData c),
     td_data (timerData c), td_duration (timerData c)]"

text \<open>The parts of \<open>c\<close> that are sent replace those of \<open>f\<close>.\<close>

definition received :: "tPS_CMD \<Rightarrow> tPS_CMD \<Rightarrow> tPS_CMD" where
  "received c f = f\<lparr>pMSG := (if pMSG c = 0 then pMSG f else pMSG c),
     hdlData := (if lh_hdl (hdlData c) = INVALID_HANDLE then hdlData f else hdlData c),
     cusLockHint := (if cl_hint (cusLockHint c) = INVALID_HANDLE then cusLockHint f else cusLockHint c),
     timerData := (if td_type (timerData c) = INVALID_HANDLE then timerData f else timerData c)\<rparr>"

lemma read_mem:
  "handler_loop (pre @ cfg_mem c @ post) (length pre) f =
   handler_loop ((pre @ cfg_mem c) @ post) (length (pre @ cfg_mem c)) (f\<lparr>pMSG := (if pMSG c = 0 then pMSG f else pMSG c)\<rparr>)"
  using handler_step [of 1 Hdler_MEMORY pre 8 "le_bytes 8 (unat (pMSG c))" post f "f\<lparr>pMSG := pMSG c\<rparr>"]
    Hdler_MEMORY_cfg [of "12 + length post" pre "pMSG c" post f]
  by (cases "pMSG c = 0") (simp_all add: cfg_mem_def ConfigHandler_def)

lemma read_rel:
  assumes "cmd_in_range c"
  shows "handler_loop (pre @ cfg_rel c @ post) (length pre) f =
   handler_loop ((pre @ cfg_rel c) @ post) (length (pre @ cfg_rel c))
     (f\<lparr>hdlData := (if lh_hdl (hdlData c) = INVALID_HANDLE then hdlData f else hdlData c)\<rparr>)"
  using handler_step [of 3 Hdler_LOCK_REL pre 8 "ints_bytes [lh_hdl (hdlData c), lh_reserved (hdlData c)]" post f "f\<lparr>hdlData := hdlData c\<rparr>"]
    Hdler_LOCK_REL_cfg [of "12 + length post" "lh_hdl (hdlData c)" "lh_reserved (hdlData c)" pre post f] assms
  by (cases "lh_hdl (hdlData c) = INVALID_HANDLE") (simp_all add: cfg_rel_def ConfigHandler_def cmd_in_range_def del: ints_bytes_simps)

lemma read_cus:
  assumes "cmd_in_range c"
  shows "handler_loop (pre @ cfg_cus c @ post) (length pre) f =
   handler_loop ((pre @ cfg_cus c) @ post) (length (pre @ cfg_cus c))
     (f\<lparr>cusLockHint := (if cl_hint (cusLockHint c) = INVALID_HANDLE then cusLockHint f else cusLockHint c)\<rparr>)"
  using handler_step [of 4 Hdler_PERF_CUS_LOCK_HINT pre 16 "ints_bytes [cl_hdl (cusLockHint c), cl_pid (cusLockHint c),
      cl_hint (cusLockHint c), cl_duration (cusLockHint c)]" post f "f\<lparr>cusLockHint := cusLockHint c\<rparr>"]
    Hdler_CUS_cfg [of "20 + length post" "cl_hdl (cusLockHint c)" "cl_pid (cusLockHint c)" "cl_hint (cusLockHint c)"
      "cl_duration (cusLockHint c)" pre post f] assms
  by (cases "cl_hint (cusLockHint c) = INVALID_HANDLE")
    (simp_all add: cfg_cus_def ConfigHandler_def cmd_in_range_def Let_def del: ints_bytes_simps)

lemma read_timer:
  assumes "cmd_in_range c"
  shows "handler_loop (pre @ cfg_timer c @ post) (length pre) f =
   handler_loop ((pre @ cfg_timer c) @ post) (length (pre @ cfg_timer c))
     (f\<lparr>timerData := (if td_type (timerData c) = INVALID_HANDLE then timerData f else timerData c)\<rparr>)"
  using handler_step [of 5 Hdler_TIMER_REQ pre 12 "ints_bytes [td_type (timerData c), td_data (timerData c),
      td_duration (timerData c)]" post f "f\<lparr>timerData := timerData c\<rparr>"]
    Hdler_TIMER_cfg [of "16 + length post" "td_type (timerData c)" "td_data (timerData c)" "td_duration (timerData c)" pre post f] assms
  by (cases "td_type (timerData c) = INVALID_HANDLE")
    (simp_all add: cfg_timer_def ConfigHandler_def cmd_in_range_def Let_def del: ints_bytes_simps)

lemma read_content:
  assumes "cmd_in_range c"
  shows "handler_loop (content_of c) 0 f = Some (received c f)"
proof -
  let ?f1 = "f\<lparr>pMSG := (if pMSG c = 0 then pMSG f else pMSG c)\<rparr>"
  let ?f2 = "?f1\<lparr>hdlData := (if lh_hdl (hdlData c) = INVALID_HANDLE then hdlData f else hdlData c)\<rparr>"
  let ?f3 = "?f2\<lparr>cusLockHint := (if cl_hint (cusLockHint c) = INVALID_HANDLE then cusLockHint f else cusLockHint c)\<rparr>"
  have "handler_loop (content_of c) 0 f =
      handler_loop (cfg_mem c @ cfg_rel c @ cfg_cus c @ cfg_timer c) (length (cfg_mem c)) ?f1"
    using read_mem [of "[]" c "cfg_rel c @ cfg_cus c @ cfg_timer c" f] by (simp add: content_of_def)
  also have "\<dots> = handler_loop ((cfg_mem c @ cfg_rel c) @ cfg_cus c @ cfg_timer c) (length (cfg_mem c @ cfg_rel c)) ?f2"
    using read_rel [OF assms, of "cfg_mem c" "cfg_cus c @ cfg_timer c" ?f1] by simp
  also have "\<dots> = handler_loop ((cfg_mem c @ cfg_rel c @ cfg_cus c) @ cfg_timer c) (length (cfg_mem c @ cfg_rel c @ cfg_cus c)) ?f3"
    using read_cus [OF assms, of "cfg_mem c @ cfg_rel c" "cfg_timer c" ?f2] by simp
  also have "\<dots> = handler_loop (content_of c) (length (content_of c)) (received c f)"
    using read_timer [OF assms, of "cfg_mem c @ cfg_rel c @ cfg_cus c" "[]" ?f3]
    by (simp add: content_of_def received_def add.assoc)
  also have "\<dots> = Some (received c f)" by (simp add: handler_loop.simps)
  finally show ?thesis .
qed

text \<open>Receiving a message that is complete on the socket.\<close>

definition job_with :: "int \<Rightarrow> byte list \<Rightarrow> tPS_IPC_RecvJob" where
  "job_with i content = \<lparr>rj_State = 1, rj_Header = [0, 0] @ be 2 i @ be 4 (int (length content)),
     CAMCOMType = i mod 65536, pContent = content, ContentLen = length content, RecvLen = 8 + length content\<rparr>"

lemma recv_frame:
  assumes "length content \<le> PS_IPC_COM_CONTENT_MAX_LEN"
  shows "powerd_ipc_recvcmd empty_recv_job (frame i content @ rest) = (0, job_with i content, rest)"
proof -
  have "be_val (be 4 (int (length content))) = length content" using assms by (simp add: be_val_be nat_mod_distrib)
  moreover have "int (be_val (be 2 i)) = i mod 65536" by (simp add: be_val_be)
  ultimately show ?thesis
    using assms
    by (cases "content = []")
      (simp_all add: frame_def powerd_ipc_recvcmd_def empty_recv_job_def recv_def recv_content_def recv_done_def
        job_with_def Let_def)
qed

lemma unmarshall_message:
  assumes "cmd_in_range c" "1 \<le> CmdID c" "CmdID c \<le> 5"
  shows "powerd_cmd_unmarshall mem (job_with (CmdID c) (content_of c)) =
    Some (0, Some (received c ((powerd_cmd_create mem)\<lparr>CmdID := CmdID c\<rparr>)))"
proof -
  have "\<not> (0 < length (content_of c) \<and> length (content_of c) < 2)"
    by (simp add: content_of_def cfg_mem_def cfg_rel_def cfg_cus_def cfg_timer_def Let_def)
  then show ?thesis
    using assms(2,3) read_content [OF assms(1), of "(powerd_cmd_create mem)\<lparr>CmdID := CmdID c\<rparr>"]
    by (auto simp: powerd_cmd_unmarshall_def power_ipc_type_handler_msg_def job_with_def Let_def)
qed

text \<open>
  C27. A command that carries no lock request crosses the socket unchanged: marshalling never writes
  outside its buffer and yields at most 68 bytes, the receiver takes exactly these bytes from
  the socket and leaves what follows, and unmarshalling gives back the command number, the
  message pointer and every structure that was set; the structures that were not set are marked
  as unset.
\<close>

theorem ipc_round_trip:
  assumes "pl_hdl (perfLock c) = INVALID_HANDLE" "cmd_in_range c" "1 \<le> CmdID c" "CmdID c \<le> 5"
  shows "\<exists>bs job c'. powerd_cmd_marshall junk c = Some bs \<and> length bs \<le> 68 \<and>
    powerd_ipc_recvcmd empty_recv_job (bs @ rest) = (0, job, rest) \<and>
    powerd_cmd_unmarshall mem job = Some (0, Some c') \<and> CmdID c' = CmdID c \<and> pMSG c' = pMSG c \<and>
    (if lh_hdl (hdlData c) = INVALID_HANDLE then lh_hdl (hdlData c') = INVALID_HANDLE else hdlData c' = hdlData c) \<and>
    (if cl_hint (cusLockHint c) = INVALID_HANDLE then cl_hint (cusLockHint c') = INVALID_HANDLE else cusLockHint c' = cusLockHint c) \<and>
    (if td_type (timerData c) = INVALID_HANDLE then td_type (timerData c') = INVALID_HANDLE else timerData c' = timerData c) \<and>
    pl_hdl (perfLock c') = INVALID_HANDLE"
proof -
  let ?f = "(powerd_cmd_create mem)\<lparr>CmdID := CmdID c\<rparr>"
  have "powerd_cmd_unmarshall mem (job_with (CmdID c) (content_of c)) = Some (0, Some (received c ?f))"
    by (rule unmarshall_message [OF assms(2-4)])
  moreover have "length (frame (CmdID c) (content_of c)) \<le> 68" using content_length [of c] by (simp add: frame_def)
  ultimately show ?thesis
    using marshall_message [OF assms(1), of junk] recv_frame [of "content_of c" "CmdID c" rest] content_length [of c]
    by (intro exI [of _ "frame (CmdID c) (content_of c)"] exI [of _ "job_with (CmdID c) (content_of c)"] exI [of _ "received c ?f"])
      (simp add: received_def powerd_cmd_create_def powerd_ipc_init_pscmd_def)
qed


definition demo_cmd :: tPS_CMD where
  "demo_cmd = \<lparr>CmdID = 5, cusLockHint = \<lparr>cl_hdl = 0, cl_pid = 0, cl_hint = INVALID_HANDLE, cl_duration = 0\<rparr>,
     perfLock = \<lparr>pl_hdl = INVALID_HANDLE, pl_pid = 0, pl_uid = 0, pl_duration = 0, pl_reserved = 0, pl_size = 0, pl_hint = 0, pl_rscList = None\<rparr>,
     hdlData = \<lparr>lh_hdl = INVALID_HANDLE, lh_reserved = 0\<rparr>, timerData = \<lparr>td_type = 2, td_data = 17, td_duration = -1\<rparr>, pMSG = 0\<rparr>"

theorem ipc_round_trip_witness:
  "\<exists>bs job c'. powerd_cmd_marshall (\<lambda>_. 7) demo_cmd = Some bs \<and> powerd_ipc_recvcmd empty_recv_job bs = (0, job, []) \<and>
     powerd_cmd_unmarshall demo_cmd job = Some (0, Some c') \<and> timerData c' = \<lparr>td_type = 2, td_data = 17, td_duration = -1\<rparr>"
proof -
  have c: "pl_hdl (perfLock demo_cmd) = INVALID_HANDLE" "cmd_in_range demo_cmd" "1 \<le> CmdID demo_cmd" "CmdID demo_cmd \<le> 5"
    "timerData demo_cmd = \<lparr>td_type = 2, td_data = 17, td_duration = -1\<rparr>"
    by (simp_all add: demo_cmd_def cmd_in_range_def in_int_def)
  from ipc_round_trip [OF c(1-4), of "\<lambda>_. 7" "[]" demo_cmd] show ?thesis by (auto simp: c(5))
qed

section \<open>Lock requests\<close>

definition lock_ints :: "tPerfLockData \<Rightarrow> int list" where
  "lock_ints p = [pl_hdl p, pl_pid p, pl_uid p, pl_duration p, pl_reserved p, pl_size p]"

definition only_lock :: "tPS_CMD \<Rightarrow> int list \<Rightarrow> bool" where
  "only_lock c l \<longleftrightarrow> pMSG c = 0 \<and> lh_hdl (hdlData c) = INVALID_HANDLE \<and> cl_hint (cusLockHint c) = INVALID_HANDLE \<and>
     td_type (timerData c) = INVALID_HANDLE \<and> pl_hdl (perfLock c) \<noteq> INVALID_HANDLE \<and> pl_rscList (perfLock c) = Some l \<and>
     pl_size (perfLock c) = int (length l) \<and> l \<noteq> [] \<and> int (length l) \<le> MAX_ARGS \<and> list_all in_int (lock_ints (perfLock c) @ l)"

lemma Mar_PERF_LOCK_cfg:
  assumes "only_lock c l" "length suf = 44"
  shows "Mar_PERF_LOCK c (length pre) 44 (pre @ suf) =
    (if length l \<le> 4 then Some (44, pre @ cfg 2 40 (ints_bytes (lock_ints (perfLock c) @ l) @ drop (28 + 4 * length l) suf))
     else None)"
proof -
  let ?p = "perfLock c" and ?b3 = "pre @ cfg 2 40 (ints_bytes (lock_ints (perfLock c))) @ drop 28 suf"
  have a: "sent_args ?p = Some l" "pl_hdl ?p \<noteq> INVALID_HANDLE" using assms(1) by (auto simp: only_lock_def sent_args_def min_def)
  have 3: "put_ints (length pre + 4) (lock_ints ?p) (pre @ be 2 2 @ be 2 40 @ drop 4 suf) = Some ?b3"
    using put_ints_cfg [of "length pre" pre "lock_ints ?p" suf] assms(2) by (simp add: lock_ints_def del: ints_bytes_simps put_ints.simps)
  have "Mar_PERF_LOCK c (length pre) 44 (pre @ suf) = put_ints (length pre + 28) l ?b3 \<bind> (\<lambda>b4. Some (44, b4))"
    using a 3 assms(2) by (simp add: Mar_PERF_LOCK_def put_head Let_def lock_ints_def del: ints_bytes_simps put_ints.simps)
  moreover have "put_ints (length pre + 28) l ?b3 =
      (if length l \<le> 4 then Some (pre @ cfg 2 40 (ints_bytes (lock_ints ?p @ l) @ drop (28 + 4 * length l) suf)) else None)"
  proof (cases "length l \<le> 4")
    case True
    have "put_ints (length pre + 28) l ((pre @ cfg 2 40 (ints_bytes (lock_ints ?p))) @ drop 28 suf) =
        Some ((pre @ cfg 2 40 (ints_bytes (lock_ints ?p))) @ ints_bytes l @ drop (4 * length l) (drop 28 suf))"
      using True assms(2) by (intro put_ints_append) (simp_all add: lock_ints_def del: ints_bytes_simps)
    then show ?thesis using True by (simp add: cfg_def ints_bytes_def add.commute)
  next
    case False
    then have "l \<noteq> []" by auto
    with False show ?thesis using assms put_ints_overflow [of ?b3 "length pre + 28" l] by (auto simp: lock_ints_def simp del: ints_bytes_simps)
  qed
  ultimately show ?thesis by simp
qed

lemma marshall_lock:
  assumes "only_lock c l"
  shows "\<exists>tail. powerd_cmd_marshall junk c =
    (if length l \<le> 4 then Some (frame (CmdID c) (cfg 2 40 (ints_bytes (lock_ints (perfLock c) @ l) @ tail))) else None) \<and>
    length tail = 16 - 4 * length l"
proof -
  let ?j = "map junk [0..<52]"
  obtain pre suf where j: "?j = pre @ suf" "length pre = 8" "length suf = 44"
  proof
    show "?j = take 8 ?j @ drop 8 ?j" by (rule append_take_drop_id [symmetric])
  qed simp_all
  define tail where "tail = drop (28 + 4 * length l) suf"
  have len: "8 + sum_list (map (\<lambda>(l, _). l c) ConfigHandlerMarshallMapper) = 52"
    using assms by (simp add: only_lock_def ConfigHandlerMarshallMapper_def MarBufLen_MEMORY_def MarBufLen_PERF_LOCK_def
        MarBufLen_LOCK_REL_def MarBufLen_PERF_CUS_LOCK_HINT_def MarBufLen_TIMER_REQ_def)
  have m: "mar_loop (map snd ConfigHandlerMarshallMapper) c 8 44 ?j =
      (if length l \<le> 4 then Some (pre @ cfg 2 40 (ints_bytes (lock_ints (perfLock c) @ l) @ tail)) else None)"
    using assms Mar_PERF_LOCK_cfg [OF assms j(3), of pre] j(2) unfolding j(1) tail_def
    by (simp add: only_lock_def ConfigHandlerMarshallMapper_def Mar_MEMORY_def Mar_LOCK_REL_def Mar_PERF_CUS_LOCK_HINT_def
        Mar_TIMER_REQ_def)
  obtain p1 p2 p3 where p: "pre = p1 @ p2 @ p3" "length p1 = 2" "length p2 = 2" "length p3 = 4"
  proof
    have "drop 2 pre = take 2 (drop 2 pre) @ drop 4 pre" using append_take_drop_id [of 2 "drop 2 pre"] by simp
    then show "pre = take 2 pre @ take 2 (drop 2 pre) @ drop 4 pre" using append_take_drop_id [of 2 pre] by metis
  qed (use j(2) in auto)
  have tail: "length tail = 16 - 4 * length l" using j(3) by (simp add: tail_def)
  have "powerd_cmd_marshall junk c = mar_loop (map snd ConfigHandlerMarshallMapper) c 8 44 ?j \<bind>
      (\<lambda>b1. put 0 [0, 0] b1 \<bind> (\<lambda>b2. put 2 (be 2 (CmdID c)) b2 \<bind> put 4 (be 4 44)))"
    unfolding powerd_cmd_marshall_def Let_def len by simp
  then have "powerd_cmd_marshall junk c =
      (if length l \<le> 4 then Some (frame (CmdID c) (cfg 2 40 (ints_bytes (lock_ints (perfLock c) @ l) @ tail))) else None)"
    unfolding m p(1) using p tail by (auto simp: put_def frame_def lock_ints_def simp del: ints_bytes_simps)
  then show ?thesis using tail by blast
qed


lemma unmarshall_lock:
  assumes "only_lock c l" "length l \<le> 4" "length tail = 16 - 4 * length l" "pl_rscList (perfLock mem) = None"
    "1 \<le> CmdID c" "CmdID c \<le> 5"
  shows "powerd_cmd_unmarshall mem (job_with (CmdID c) (cfg 2 40 (ints_bytes (lock_ints (perfLock c) @ l) @ tail))) = None"
proof -
  let ?b = "ints_bytes (lock_ints (perfLock c) @ l)" and ?f = "(powerd_cmd_create mem)\<lparr>CmdID := CmdID c\<rparr>"
  let ?content = "cfg 2 40 (?b @ tail)" and ?is = "lock_ints (perfLock c) @ l"
  have c: "?content = [] @ cfg 2 40 ?b @ tail" by (simp add: cfg_def)
  have r: "list_all in_int ?is" "length ?is = 6 + length l" and l: "l \<noteq> []" "pl_size (perfLock c) = int (length l)"
    using assms(1) by (auto simp: only_lock_def lock_ints_def)
  have g: "get_int (4 + 4 * k) ?content = Some (?is ! k)" if "k < 6 + length l" for k
    unfolding c using get_cfg_int [of k ?is "4 + 4 * k" "[]" 2 40 tail] r that by (simp add: list_all_length)
  have len: "length ?content = 44" using r(2) assms(2,3) by simp
  have v: "get_u16 (Suc (Suc 0)) ?content = Some 40" unfolding c using get_cfg_len [of 40 "[]" 2 ?b tail] by simp
  have ty: "get_u16 0 ?content = Some 2" using get_u16_at [of 0 "[]" 2 "be 2 40 @ ?b @ tail"] by (simp add: cfg_def)
  have sz: "?is ! 5 = int (length l)" using l(2) by (simp add: lock_ints_def)
  have n: "recv_args ?content 28 0 (length l) None = None" if "get_int 28 ?content = Some (?is ! 6)"
    using that l(1) by (cases "length l") simp_all
  have gs: "get_int 4 ?content = Some (?is ! 0)" "get_int 8 ?content = Some (?is ! 1)" "get_int 12 ?content = Some (?is ! 2)"
    "get_int 16 ?content = Some (?is ! 3)" "get_int 20 ?content = Some (?is ! 4)" "get_int 24 ?content = Some (int (length l))"
    "get_int 28 ?content = Some (?is ! 6)"
    using g [of 0] g [of 1] g [of 2] g [of 3] g [of 4] g [of 5] g [of 6] l(1) sz by (simp_all add: Suc_le_eq)
  have "pl_rscList (perfLock ?f) = None" using assms(4) by (simp add: powerd_cmd_create_def powerd_ipc_init_pscmd_def)
  then have "Hdler_PERF_LOCK ?content 0 44 ?f = None"
    unfolding Hdler_PERF_LOCK_def using v gs n [OF gs(7)] assms(2) by (simp add: cfg_ok_def min_def)
  then have "handler_loop ?content 0 ?f = None"
    by (subst handler_loop.simps) (unfold len, simp add: ConfigHandler_def ty)
  then show ?thesis
    using assms(5,6) len by (simp add: powerd_cmd_unmarshall_def power_ipc_type_handler_msg_def job_with_def Let_def)
qed

text \<open>
  C35. No lock request with a resource list survives the trip through the socket. The buffer has
  room for the structure, whose list member is a pointer, while the handlers send the list itself:
  with more than four elements marshalling writes past the end of the heap buffer, and with one to
  four elements the message arrives but the receiver stores the elements through the list
  pointer of a fresh structure, which was never set.
\<close>

theorem ipc_lock_request_unsafe:
  assumes "only_lock c l" "pl_rscList (perfLock mem) = None" "1 \<le> CmdID c" "CmdID c \<le> 5"
  shows "if length l \<le> 4
    then \<exists>bs job. powerd_cmd_marshall junk c = Some bs \<and> powerd_ipc_recvcmd empty_recv_job (bs @ rest) = (0, job, rest) \<and>
      powerd_cmd_unmarshall mem job = None
    else powerd_cmd_marshall junk c = None"
proof -
  obtain tail where m: "powerd_cmd_marshall junk c =
      (if length l \<le> 4 then Some (frame (CmdID c) (cfg 2 40 (ints_bytes (lock_ints (perfLock c) @ l) @ tail))) else None)"
    "length tail = 16 - 4 * length l" using marshall_lock [OF assms(1)] by blast
  have "length (cfg 2 40 (ints_bytes (lock_ints (perfLock c) @ l) @ tail)) \<le> 65535" if "length l \<le> 4"
    using that m(2) by (simp add: lock_ints_def del: ints_bytes_simps)
  then show ?thesis
    using m recv_frame unmarshall_lock [OF assms(1) _ m(2) assms(2-4)] by auto
qed

theorem ipc_lock_request_unsafe_witness:
  "powerd_cmd_marshall (\<lambda>_. 0) (demo_cmd\<lparr>timerData := \<lparr>td_type = INVALID_HANDLE, td_data = 0, td_duration = 0\<rparr>,
     perfLock := (perfLock demo_cmd)\<lparr>pl_hdl := 1, pl_size := 6, pl_rscList := Some [1, 2, 3, 4, 5, 6]\<rparr>\<rparr>) = None"
  using ipc_lock_request_unsafe [of "demo_cmd\<lparr>timerData := \<lparr>td_type = INVALID_HANDLE, td_data = 0, td_duration = 0\<rparr>,
     perfLock := (perfLock demo_cmd)\<lparr>pl_hdl := 1, pl_size := 6, pl_rscList := Some [1, 2, 3, 4, 5, 6]\<rparr>\<rparr>"
     "[1, 2, 3, 4, 5, 6]" demo_cmd "\<lambda>_. 0"]
  by (simp add: only_lock_def demo_cmd_def lock_ints_def in_int_def)

text \<open>
  The receiver does not survive truncated content: one byte of content makes unmarshalling
  report success without a command, which its callers dereference, and a configuration type
  with nothing behind it makes the handler read its length past the end of the buffer.
\<close>

theorem ipc_truncated_content:
  "powerd_cmd_unmarshall mem (job_with 1 [b]) = Some (0, None) \<and> powerd_cmd_unmarshall mem (job_with 1 [0, 1]) = None"
proof -
  have "handler_loop [0, 1] 0 f = None" for f
    by (subst handler_loop.simps)
      (simp add: get_u16_def get_def be_val_def ConfigHandler_def Hdler_MEMORY_def)
  then show ?thesis
    by (simp add: powerd_cmd_unmarshall_def power_ipc_type_handler_msg_def job_with_def Let_def)
qed


end
