(* ===== verification/Powerd_Core.thy ===== *)
theory Powerd_Core
  imports Sys_Info Ptimer Power_Ipc
begin

text \<open>
  The daemon core of \<^verbatim>\<open>lib/util/powerd_core.cpp\<close>: the requests of the clients, the table of 256
  timer slots, and what an expired timer does.

  The state combines the power service, the timer manager and the slots. The address of
  \<open>powerdTimer[i]\<close>, which a timer carries as its data, is \<open>slot_addr i\<close>. \<open>nPerfSupport\<close> is 1 and never
  changes; \<open>MSG_POST_HANDLE\<close> is not defined, so requests are handled at once. One request starts
  at most one timer: the address \<open>pmalloc\<close> returns for it (0 when it fails) and the clock are
  part of the environment.
\<close>

abbreviation (input) MAX_TIMER_COUNT :: nat where "MAX_TIMER_COUNT \<equiv> 256"
abbreviation (input) CHECK_USER_SCN_DURATION :: int where "CHECK_USER_SCN_DURATION \<equiv> 300000"
abbreviation (input) TIMER_MSG_POWER_HINT_ENABLE_TIMEOUT :: int where "TIMER_MSG_POWER_HINT_ENABLE_TIMEOUT \<equiv> 0"
abbreviation (input) TIMER_MSG_PERF_LOCK_TIMEOUT :: int where "TIMER_MSG_PERF_LOCK_TIMEOUT \<equiv> 1"
abbreviation (input) TIMER_MSG_CHECK_USER_SCN_TIMEOUT :: int where "TIMER_MSG_CHECK_USER_SCN_TIMEOUT \<equiv> 3"
abbreviation (input) TIMER_HINT_DURATION :: int where "TIMER_HINT_DURATION \<equiv> 1"
abbreviation (input) TIMER_PERF_LOCK_DURATION :: int where "TIMER_PERF_LOCK_DURATION \<equiv> 2"
abbreviation (input) MTKPOWER_CMD_GET_DEBUG_DUMP_ALL :: int where "MTKPOWER_CMD_GET_DEBUG_DUMP_ALL \<equiv> 201"
abbreviation (input) MTKPOWER_CMD_GET_POWERHAL_ONOFF :: int where "MTKPOWER_CMD_GET_POWERHAL_ONOFF \<equiv> 202"

record tTimer =
  t_used :: int
  t_idx :: int
  t_msg :: int
  t_handle :: int
  p_pTimer :: addr

record powerd =
  svc :: perf
  timers :: ptimers
  powerdTimer :: "tTimer list"
  gpTimerMng :: addr
  powerdOnOff :: int
  check_idx :: int       \<comment> \<open>the static variable of \<open>start_periodic_check_timer\<close>\<close>

record core_env = sys_env +
  wall :: walltime
  new_timer :: addr
  rsp_alloc :: bool
  buf_alloc :: bool
  cus_list :: "int list"

definition slot_addr :: "nat \<Rightarrow> addr" where
  "slot_addr i = Suc i"

abbreviation slot :: "powerd \<Rightarrow> nat \<Rightarrow> tTimer" where
  "slot st i \<equiv> powerdTimer st ! i"

abbreviation upd_slot :: "nat \<Rightarrow> (tTimer \<Rightarrow> tTimer) \<Rightarrow> powerd \<Rightarrow> powerd" where
  "upd_slot i f st \<equiv> st\<lparr>powerdTimer := (powerdTimer st)[i := f (powerdTimer st ! i)]\<rparr>"

section \<open>Slots\<close>

definition reset_timer :: "int \<Rightarrow> powerd \<Rightarrow> powerd" where
  "reset_timer i st =
     (if i \<ge> 0 \<and> i < int MAX_TIMER_COUNT
      then upd_slot (nat i) (\<lambda>t. t\<lparr>t_used := 0, t_msg := -1, t_handle := -1, p_pTimer := NULL\<rparr>) st else st)"

fun slot_from :: "(tTimer \<Rightarrow> bool) \<Rightarrow> tTimer list \<Rightarrow> nat \<Rightarrow> int" where
  "slot_from P [] i = -1"
| "slot_from P (t # ts) i = (if P t then int i else slot_from P ts (Suc i))"

definition allocate_timer :: "powerd \<Rightarrow> int \<times> powerd" where
  "allocate_timer st =
     (let i = slot_from (\<lambda>t. t_used t = 0) (powerdTimer st) 0
      in (i, if i \<ge> 0 then upd_slot (nat i) (\<lambda>t. t\<lparr>t_used := 1\<rparr>) st else st))"

definition find_timer :: "int \<Rightarrow> int \<Rightarrow> powerd \<Rightarrow> int" where
  "find_timer msg handle st =
     slot_from (\<lambda>t. t_used t \<noteq> 0 \<and> t_handle t = handle \<and> t_msg t = msg) (powerdTimer st) 0"

definition remove_scn_timer :: "int \<Rightarrow> int \<Rightarrow> powerd \<Rightarrow> powerd" where
  "remove_scn_timer msg handle st =
     (let idx = find_timer msg handle st
      in if idx \<ge> 0 then
           (let p = p_pTimer (slot st (nat idx))
            in reset_timer idx (st\<lparr>timers := ptimer_delete p (ptimer_stop p (timers st))\<rparr>))
         else st)"

text \<open>\<open>ptimer_create(&p_pTimer)\<close>: the pointer is left alone when the allocation fails.\<close>

definition create_in_slot :: "core_env \<Rightarrow> nat \<Rightarrow> powerd \<Rightarrow> powerd" where
  "create_in_slot env i st =
     (let (r, tm) = ptimer_create (new_timer env) (timers st)
      in if r = 0 then upd_slot i (\<lambda>t. t\<lparr>p_pTimer := new_timer env\<rparr>) (st\<lparr>timers := tm\<rparr>) else st)"

text \<open>The \<open>int\<close> timeout becomes an \<open>unsigned long\<close>.\<close>

definition start_in_slot :: "core_env \<Rightarrow> nat \<Rightarrow> int \<Rightarrow> powerd \<Rightarrow> powerd option" where
  "start_in_slot env i timeout st =
     map_option (\<lambda>tm. st\<lparr>timers := tm\<rparr>)
       (ptimer_start (gpTimerMng st) (p_pTimer (slot st i)) (word_of_int timeout) (slot_addr i) (wall env) (timers st))"

definition start_scn_timer :: "core_env \<Rightarrow> int \<Rightarrow> int \<Rightarrow> int \<Rightarrow> powerd \<Rightarrow> powerd option" where
  "start_scn_timer env msg handle timeout st =
     (let (idx, st1) = allocate_timer st
      in if idx \<ge> 0 then
           start_in_slot env (nat idx) timeout
             (create_in_slot env (nat idx) (upd_slot (nat idx) (\<lambda>t. t\<lparr>t_msg := msg, t_handle := handle\<rparr>) st1))
         else Some st1)"

definition start_periodic_check_timer :: "core_env \<Rightarrow> bool \<Rightarrow> powerd \<Rightarrow> powerd option" where
  "start_periodic_check_timer env firstLaunch st =
     (let (go, st1) =
        (if firstLaunch then
           (let (idx, st') = allocate_timer st; st2 = st'\<lparr>check_idx := idx\<rparr>
            in if idx \<ge> 0 then
                 (True, create_in_slot env (nat idx)
                   (upd_slot (nat idx) (\<lambda>t. t\<lparr>t_msg := TIMER_MSG_CHECK_USER_SCN_TIMEOUT, t_handle := 0\<rparr>) st2))
               else (False, st2))
         else (True, st))
      in if go \<and> check_idx st1 \<ge> 0 \<and> check_idx st1 < int MAX_TIMER_COUNT
         then start_in_slot env (nat (check_idx st1)) CHECK_USER_SCN_DURATION st1 else Some st1)"

definition powerd_core_init :: "core_env \<Rightarrow> addr \<Rightarrow> powerd \<Rightarrow> powerd option" where
  "powerd_core_init env pTimerMng st =
     start_periodic_check_timer env True
       (st\<lparr>gpTimerMng := pTimerMng,
           powerdTimer := map (\<lambda>i. \<lparr>t_used = 0, t_idx = int i, t_msg = -1, t_handle = -1, p_pTimer = NULL\<rparr>) [0..<MAX_TIMER_COUNT]\<rparr>)"

section \<open>An expired timer\<close>

definition on_svc :: "(perf \<Rightarrow> (int \<times> perf) option) \<Rightarrow> powerd \<Rightarrow> (int \<times> powerd) option" where
  "on_svc f st = map_option (\<lambda>(r, p). (r, st\<lparr>svc := p\<rparr>)) (f (svc st))"

definition powerd_core_timer_handle :: "core_env \<Rightarrow> addr \<Rightarrow> nat \<Rightarrow> powerd \<Rightarrow> (int \<times> powerd) option" where
  "powerd_core_timer_handle env pTimer i st =
     (let t = slot st i
      in if p_pTimer t \<noteq> pTimer \<or> powerdOnOff st = 0 then Some (-1, st)
         else if t_msg t = TIMER_MSG_PERF_LOCK_TIMEOUT then
           on_svc (\<lambda>p. perfLockRel env p (t_handle t)) st \<bind>
             (\<lambda>(_, st1). Some (0, reset_timer (t_idx t) (st1\<lparr>timers := ptimer_delete (p_pTimer t) (timers st1)\<rparr>)))
         else if t_msg t = TIMER_MSG_CHECK_USER_SCN_TIMEOUT then
           on_svc (\<lambda>p. perfUserScnCheckAll env p) st \<bind> (\<lambda>(_, st1).
           on_svc (\<lambda>p. perfDumpAll env p 0) st1 \<bind> (\<lambda>(_, st2).
           map_option (\<lambda>st3. (0, st3)) (start_periodic_check_timer env False st2)))
         else Some (0, st))"

section \<open>Requests\<close>

datatype power_msg =
    MSG_SCN_DISABLE_ALL
  | MSG_SCN_RESTORE_ALL
  | MSG_NOTIFY_STATE
  | MSG_QUERY_INFO int int
  | MSG_SET_SYSINFO int string
  | MSG_PERF_LOCK_ACQ tPerfLockData
  | MSG_CUS_LOCK_HINT tCusLockData
  | MSG_PERF_LOCK_REL int
  | MSG_TIMER_REQ tTimerData
  | MSG_NO_BUF       \<comment> \<open>any message with \<open>pBuf\<close> \<open>NULL\<close>, or an unknown one\<close>

datatype power_rsp = Rsp_empty | Rsp_query int | Rsp_sysinfo int | Rsp_lock int | Rsp_cus_lock int

text \<open>
  The array \<open>perfLockAcq\<close> reads. It is not read when \<open>size\<close> is over the limit; a negative size
  and an array shorter than \<open>size\<close> are outside the model.
\<close>

definition acq_list :: "tPerfLockData \<Rightarrow> int list option" where
  "acq_list d =
     (if pl_size d < 0 then None
      else if pl_size d > int MAX_ARGS_PER_REQUEST then Some (replicate (nat (pl_size d)) 0)
      else if pl_size d = 0 then Some []
      else (case pl_rscList d of None \<Rightarrow> None
            | Some l \<Rightarrow> if pl_size d \<le> int (length l) then Some (take (nat (pl_size d)) l) else None))"

definition start_if_timed :: "core_env \<Rightarrow> int \<Rightarrow> int \<Rightarrow> power_rsp \<Rightarrow> powerd \<Rightarrow> (power_rsp \<times> powerd) option" where
  "start_if_timed env duration hdl rsp st =
     map_option (\<lambda>st'. (rsp, st'))
       (if duration \<noteq> 0 \<and> hdl > 0 then start_scn_timer env TIMER_MSG_PERF_LOCK_TIMEOUT hdl duration st else Some st)"

definition req_lock_acq :: "core_env \<Rightarrow> tPerfLockData \<Rightarrow> powerd \<Rightarrow> (power_rsp \<times> powerd) option" where
  "req_lock_acq env d st =
     (if powerdOnOff st = 0 \<or> \<not> buf_alloc env then Some (Rsp_empty, st)
      else acq_list d \<bind> (\<lambda>l.
        on_svc (\<lambda>p. perfLockAcq env p l (pl_hdl d) (pl_pid d) (pl_reserved d) (pl_duration d) (pl_hint d))
          (remove_scn_timer TIMER_MSG_PERF_LOCK_TIMEOUT (pl_hdl d) st) \<bind>
        (\<lambda>(hdl, st1). start_if_timed env (pl_duration d) hdl (Rsp_lock hdl) st1)))"

definition req_cus_lock :: "core_env \<Rightarrow> tCusLockData \<Rightarrow> powerd \<Rightarrow> (power_rsp \<times> powerd) option" where
  "req_cus_lock env d st =
     (if powerdOnOff st = 0 \<or> \<not> buf_alloc env \<or> cl_hint d \<ge> MTKPOWER_HINT_NUM then Some (Rsp_empty, st)
      else on_svc (\<lambda>p. perfCusLockHint env p (cus_list env) (cl_hint d) (cl_duration d) (cl_pid d)) st \<bind>
        (\<lambda>(hdl, st1). start_if_timed env (cl_duration d) hdl (Rsp_cus_lock hdl) st1))"

definition req_lock_rel :: "core_env \<Rightarrow> int \<Rightarrow> powerd \<Rightarrow> (power_rsp \<times> powerd) option" where
  "req_lock_rel env h st =
     (if powerdOnOff st = 0 then Some (Rsp_empty, st)
      else
        (let st1 = remove_scn_timer TIMER_MSG_PERF_LOCK_TIMEOUT h st
         in if h \<noteq> 0 then map_option (\<lambda>(_, st2). (Rsp_empty, st2)) (on_svc (\<lambda>p. perfLockRel env p h) st1)
            else Some (Rsp_empty, st1)))"

definition req_timer :: "core_env \<Rightarrow> tTimerData \<Rightarrow> powerd \<Rightarrow> (power_rsp \<times> powerd) option" where
  "req_timer env d st =
     (let restart = (\<lambda>msg. let st1 = remove_scn_timer msg (td_data d) st
                           in if td_duration d > 0 then start_scn_timer env msg (td_data d) (td_duration d) st1 else Some st1)
      in map_option (\<lambda>st'. (Rsp_empty, st'))
           (if td_type d = TIMER_PERF_LOCK_DURATION then restart TIMER_MSG_PERF_LOCK_TIMEOUT
            else if td_type d = TIMER_HINT_DURATION then restart TIMER_MSG_POWER_HINT_ENABLE_TIMEOUT
            else Some st))"

definition req_query :: "core_env \<Rightarrow> int \<Rightarrow> int \<Rightarrow> powerd \<Rightarrow> (power_rsp \<times> powerd) option" where
  "req_query env cmd param st =
     (if \<not> buf_alloc env then Some (Rsp_empty, st)
      else if cmd = MTKPOWER_CMD_GET_DEBUG_DUMP_ALL then
        map_option (\<lambda>(_, st'). (Rsp_query (-1), st')) (on_svc (\<lambda>p. perfDumpAll env p param) st)
      else if cmd = MTKPOWER_CMD_GET_POWERHAL_ONOFF then Some (Rsp_query (-1), st\<lparr>powerdOnOff := param\<rparr>)
      else map_option (\<lambda>(r, st'). (Rsp_query r, st'))
        (on_svc (\<lambda>p. perfUserGetCapability (sys_env.truncate env) p cmd param) st))"

definition req_sysinfo :: "core_env \<Rightarrow> int \<Rightarrow> string \<Rightarrow> powerd \<Rightarrow> (power_rsp \<times> powerd) option" where
  "req_sysinfo env ty data st =
     (if powerdOnOff st = 0 \<or> \<not> buf_alloc env then Some (Rsp_empty, st)
      else map_option (\<lambda>(r, st'). (Rsp_sysinfo r, st'))
        (on_svc (\<lambda>p. perfSetSysInfo (sys_env.truncate env) p ty (Some data)) st))"

definition req_all :: "(perf \<Rightarrow> (int \<times> perf) option) \<Rightarrow> powerd \<Rightarrow> (power_rsp \<times> powerd) option" where
  "req_all f st =
     (if powerdOnOff st = 0 then Some (Rsp_empty, st) else map_option (\<lambda>(_, st'). (Rsp_empty, st')) (on_svc f st))"

fun req_switch :: "core_env \<Rightarrow> power_msg \<Rightarrow> powerd \<Rightarrow> (power_rsp \<times> powerd) option" where
  "req_switch env MSG_SCN_DISABLE_ALL st = req_all (perfUserScnDisableAll env) st"
| "req_switch env MSG_SCN_RESTORE_ALL st = req_all (perfUserScnRestoreAll env) st"
| "req_switch env MSG_NOTIFY_STATE st = req_all (\<lambda>p. Some (perfNotifyAppState p)) st"
| "req_switch env (MSG_QUERY_INFO cmd param) st = req_query env cmd param st"
| "req_switch env (MSG_SET_SYSINFO ty data) st = req_sysinfo env ty data st"
| "req_switch env (MSG_PERF_LOCK_ACQ d) st = req_lock_acq env d st"
| "req_switch env (MSG_CUS_LOCK_HINT d) st = req_cus_lock env d st"
| "req_switch env (MSG_PERF_LOCK_REL h) st = req_lock_rel env h st"
| "req_switch env (MSG_TIMER_REQ d) st = req_timer env d st"
| "req_switch env MSG_NO_BUF st = Some (Rsp_empty, st)"

text \<open>Return value, response (\<open>None\<close> when it could not be allocated) and the new state.\<close>

definition powerd_req :: "core_env \<Rightarrow> power_msg \<Rightarrow> powerd \<Rightarrow> (int \<times> power_rsp option \<times> powerd) option" where
  "powerd_req env msg st =
     (if \<not> rsp_alloc env then Some (-1, None, st)
      else map_option (\<lambda>(rsp, st'). (0, Some rsp, st')) (req_switch env msg st))"

definition powerd_post_req :: int where
  "powerd_post_req = 0"


section \<open>The timer queue as an interface\<close>

text \<open>
  The running timers of a queue: the data a timer carries and its deadline in microseconds.
  The laws are all the slots need to know of the manager.
\<close>

locale timer_queue =
  fixes inv :: "'q \<Rightarrow> bool"
    and armed :: "'q \<Rightarrow> addr \<Rightarrow> (addr \<times> nat) option"
    and stop :: "addr \<Rightarrow> 'q \<Rightarrow> 'q"
    and create :: "addr \<Rightarrow> 'q \<Rightarrow> 'q"
    and start :: "addr \<Rightarrow> u64 \<Rightarrow> addr \<Rightarrow> walltime \<Rightarrow> 'q \<Rightarrow> 'q option"
  assumes armed_null: "inv q \<Longrightarrow> armed q NULL = None"
    and stop_law: "inv q \<Longrightarrow> inv (stop t q) \<and> armed (stop t q) = (armed q)(t := None)"
    and create_law: "inv q \<Longrightarrow> t \<noteq> NULL \<Longrightarrow> armed q t = None \<Longrightarrow> inv (create t q) \<and> armed (create t q) = armed q"
    and start_null: "start NULL ms d now q = Some q"
    and start_law: "inv q \<Longrightarrow> t \<noteq> NULL \<Longrightarrow> wall_ok now \<Longrightarrow> finite (dom (armed q)) \<Longrightarrow> card (dom (armed q)) < 2 ^ 31 \<Longrightarrow>
      \<exists>q'. start t ms d now q = Some q' \<and> inv q' \<and> armed q' = (armed q)(t \<mapsto> (d, wall_us now + unat ms * 1000))"

text \<open>
  A well-formed slot table: a free slot is blank, no two slots share a timer or stand for the
  same event, and every running timer belongs to the slot its data names.
\<close>

definition slot_blank :: "tTimer \<Rightarrow> bool" where
  "slot_blank t \<longleftrightarrow> t_msg t = -1 \<and> t_handle t = -1 \<and> p_pTimer t = NULL"

definition event_slot :: "int \<Rightarrow> int \<Rightarrow> tTimer \<Rightarrow> bool" where
  "event_slot msg handle t \<longleftrightarrow> t_used t \<noteq> 0 \<and> t_handle t = handle \<and> t_msg t = msg"

definition owner :: "tTimer list \<Rightarrow> addr \<Rightarrow> addr \<Rightarrow> bool" where
  "owner ts t d \<longleftrightarrow> (\<exists>i < length ts. p_pTimer (ts ! i) = t \<and> d = slot_addr i)"

definition slots_wf :: "(addr \<Rightarrow> (addr \<times> nat) option) \<Rightarrow> tTimer list \<Rightarrow> bool" where
  "slots_wf a ts \<longleftrightarrow> length ts = MAX_TIMER_COUNT \<and> a NULL = None \<and>
     (\<forall>i < length ts. t_idx (ts ! i) = int i \<and> (t_used (ts ! i) = 0 \<longrightarrow> slot_blank (ts ! i))) \<and>
     (\<forall>i < length ts. \<forall>j < length ts. p_pTimer (ts ! i) = p_pTimer (ts ! j) \<and> p_pTimer (ts ! i) \<noteq> NULL \<longrightarrow> i = j) \<and>
     (\<forall>m h. \<forall>i < length ts. \<forall>j < length ts. event_slot m h (ts ! i) \<and> event_slot m h (ts ! j) \<longrightarrow> i = j) \<and>
     (\<forall>t d dl. a t = Some (d, dl) \<longrightarrow> owner ts t d)"

definition blank_slot :: "tTimer \<Rightarrow> tTimer" where
  "blank_slot t = t\<lparr>t_used := 0, t_msg := -1, t_handle := -1, p_pTimer := NULL\<rparr>"

lemma slots_wfI:
  assumes "length ts = MAX_TIMER_COUNT" "a NULL = None"
    and "\<And>i. i < length ts \<Longrightarrow> t_idx (ts ! i) = int i"
    and "\<And>i. i < length ts \<Longrightarrow> t_used (ts ! i) = 0 \<Longrightarrow> slot_blank (ts ! i)"
    and "\<And>i j. i < length ts \<Longrightarrow> j < length ts \<Longrightarrow> p_pTimer (ts ! i) = p_pTimer (ts ! j) \<Longrightarrow> p_pTimer (ts ! i) \<noteq> NULL \<Longrightarrow> i = j"
    and "\<And>m h i j. i < length ts \<Longrightarrow> j < length ts \<Longrightarrow> event_slot m h (ts ! i) \<Longrightarrow> event_slot m h (ts ! j) \<Longrightarrow> i = j"
    and "\<And>t d dl. a t = Some (d, dl) \<Longrightarrow> owner ts t d"
  shows "slots_wf a ts"
  unfolding slots_wf_def by (intro conjI allI impI; (elim conjE)?) (fact assms | (rule assms; assumption))+

lemma slots_wfD:
  assumes "slots_wf a ts"
  shows "length ts = MAX_TIMER_COUNT" "a NULL = None" "i < length ts \<Longrightarrow> t_idx (ts ! i) = int i"
    "i < length ts \<Longrightarrow> t_used (ts ! i) = 0 \<Longrightarrow> slot_blank (ts ! i)"
    "i < length ts \<Longrightarrow> j < length ts \<Longrightarrow> p_pTimer (ts ! i) = p_pTimer (ts ! j) \<Longrightarrow> p_pTimer (ts ! i) \<noteq> NULL \<Longrightarrow> i = j"
    "i < length ts \<Longrightarrow> j < length ts \<Longrightarrow> event_slot m h (ts ! i) \<Longrightarrow> event_slot m h (ts ! j) \<Longrightarrow> i = j"
    "a t = Some (d, dl) \<Longrightarrow> owner ts t d"
  using assms unfolding slots_wf_def by blast+

lemma slots_dom_small:
  assumes "slots_wf a ts"
  shows "finite (dom a)" "card (dom a) < 2 ^ 31"
proof -
  have sub: "dom a \<subseteq> (\<lambda>i. p_pTimer (ts ! i)) ` {..<256}"
    using slots_wfD(1,7) [OF assms] by (fastforce simp: owner_def)
  show "finite (dom a)" by (rule finite_subset [OF sub]) simp
  have "card (dom a) \<le> card ((\<lambda>i. p_pTimer (ts ! i)) ` {..<256 :: nat})" by (rule card_mono [OF _ sub]) simp
  also have "\<dots> \<le> 256" using card_image_le [of "{..<256 :: nat}" "\<lambda>i. p_pTimer (ts ! i)"] by simp
  finally show "card (dom a) < 2 ^ 31" by simp
qed

text \<open>
  Replacing the contents of one slot: what the new contents and the new set of running timers
  have to satisfy.
\<close>

lemma slots_wf_update:
  assumes wf: "slots_wf a ts" and i: "i < length ts" and idx: "t_idx u = int i"
    and blank: "t_used u = 0 \<Longrightarrow> slot_blank u"
    and timer: "p_pTimer u = NULL \<or> (\<forall>j < length ts. j \<noteq> i \<longrightarrow> p_pTimer (ts ! j) \<noteq> p_pTimer u)"
    and event: "\<And>m h j. j < length ts \<Longrightarrow> j \<noteq> i \<Longrightarrow> event_slot m h u \<Longrightarrow> \<not> event_slot m h (ts ! j)"
    and null: "b NULL = None"
    and runs: "\<And>t d dl. b t = Some (d, dl) \<Longrightarrow> (t = p_pTimer u \<and> d = slot_addr i) \<or> (t \<noteq> p_pTimer (ts ! i) \<and> (\<exists>e. a t = Some (d, e)))"
  shows "slots_wf b (ts[i := u])"
proof (rule slots_wfI)
  have nth: "ts[i := u] ! j = (if j = i then u else ts ! j)" if "j < length ts" for j using that by simp
  show "length (ts[i := u]) = MAX_TIMER_COUNT" "b NULL = None" using slots_wfD(1) [OF wf] null by simp_all
  show "t_idx (ts[i := u] ! j) = int j" if "j < length (ts[i := u])" for j
    using that idx slots_wfD(3) [OF wf, of j] by (simp add: nth)
  show "slot_blank (ts[i := u] ! j)" if "j < length (ts[i := u])" "t_used (ts[i := u] ! j) = 0" for j
    using that blank slots_wfD(4) [OF wf, of j] by (simp add: nth split: if_splits)
  show "j = k" if "j < length (ts[i := u])" "k < length (ts[i := u])"
    "p_pTimer (ts[i := u] ! j) = p_pTimer (ts[i := u] ! k)" "p_pTimer (ts[i := u] ! j) \<noteq> NULL" for j k
    using that timer slots_wfD(5) [OF wf, of j k] by (simp add: nth split: if_splits) metis
  show "j = k" if "j < length (ts[i := u])" "k < length (ts[i := u])"
    "event_slot m h (ts[i := u] ! j)" "event_slot m h (ts[i := u] ! k)" for m h j k
    using that event slots_wfD(6) [OF wf, of j k m h] by (simp add: nth split: if_splits)
  show "owner (ts[i := u]) t d" if b: "b t = Some (d, dl)" for t d dl
  proof (cases "t = p_pTimer u \<and> d = slot_addr i")
    case True
    then show ?thesis using i by (auto simp: owner_def)
  next
    case False
    then obtain e where "t \<noteq> p_pTimer (ts ! i)" "a t = Some (d, e)" using runs [OF b] by blast
    then obtain j where j: "j < length ts" "p_pTimer (ts ! j) = t" "d = slot_addr j" "j \<noteq> i"
      using slots_wfD(7) [OF wf] unfolding owner_def by metis
    then have "ts[i := u] ! j = ts ! j" by simp
    then show ?thesis using j by (auto simp: owner_def)
  qed
qed

lemma blank_slot_simps [simp]:
  "t_used (blank_slot t) = 0" "t_idx (blank_slot t) = t_idx t" "slot_blank (blank_slot t)" "p_pTimer (blank_slot t) = NULL"
  "\<not> event_slot m h (blank_slot t)"
  by (simp_all add: blank_slot_def slot_blank_def event_slot_def)

lemma slots_wf_blank:
  assumes "slots_wf a ts" "i < length ts"
  shows "slots_wf (a(p_pTimer (ts ! i) := None)) (ts[i := blank_slot (ts ! i)])"
  by (rule slots_wf_update [OF assms]) (use slots_wfD(2,3) [OF assms(1)] assms(2) in \<open>auto split: if_splits\<close>)

lemma slots_wf_disarm: "slots_wf a ts \<Longrightarrow> slots_wf (a(t := None)) ts"
  unfolding slots_wf_def by (auto split: if_splits)

lemma slots_wf_fill:
  assumes "slots_wf a ts" "i < length ts" "t_used (ts ! i) = 0" "\<forall>j < length ts. \<not> event_slot m h (ts ! j)"
    and "p = NULL \<or> (\<forall>j < length ts. p_pTimer (ts ! j) \<noteq> p)"
  shows "slots_wf a (ts[i := (ts ! i)\<lparr>t_used := 1, t_msg := m, t_handle := h, p_pTimer := p\<rparr>])"
proof (rule slots_wf_update [OF assms(1,2)])
  have "p_pTimer (ts ! i) = NULL" using slots_wfD(4) [OF assms(1-3)] by (simp add: slot_blank_def)
  then show "(t = p_pTimer ((ts ! i)\<lparr>t_used := 1, t_msg := m, t_handle := h, p_pTimer := p\<rparr>) \<and> d = slot_addr i) \<or>
      (t \<noteq> p_pTimer (ts ! i) \<and> (\<exists>e. a t = Some (d, e)))" if "a t = Some (d, dl)" for t d dl
    using that slots_wfD(2) [OF assms(1)] by auto
qed (use assms(4,5) slots_wfD(2,3) [OF assms(1)] assms(2) in \<open>auto simp: event_slot_def\<close>)

lemma slots_wf_arm:
  assumes "slots_wf a ts" "i < length ts" "p_pTimer (ts ! i) \<noteq> NULL"
  shows "slots_wf (a(p_pTimer (ts ! i) \<mapsto> (slot_addr i, dl))) ts"
  using assms unfolding slots_wf_def by (auto simp: owner_def split: if_splits)


context timer_queue begin

lemma stop_slot:
  assumes "inv q" "slots_wf (armed q) ts" "i < length ts"
  shows "inv (stop (p_pTimer (ts ! i)) q)" "armed (stop (p_pTimer (ts ! i)) q) = (armed q)(p_pTimer (ts ! i) := None)"
    "slots_wf (armed (stop (p_pTimer (ts ! i)) q)) (ts[i := blank_slot (ts ! i)])"
  using stop_law [OF assms(1)] slots_wf_blank [OF assms(2,3)] by simp_all

lemma arm_slot:
  assumes "inv q" "slots_wf (armed q) ts" "i < length ts" "wall_ok now"
  shows "\<exists>q'. start (p_pTimer (ts ! i)) ms (slot_addr i) now q = Some q' \<and> inv q' \<and> slots_wf (armed q') ts \<and>
    armed q' = (if p_pTimer (ts ! i) = NULL then armed q
      else (armed q)(p_pTimer (ts ! i) \<mapsto> (slot_addr i, wall_us now + unat ms * 1000)))"
proof (cases "p_pTimer (ts ! i) = NULL")
  case True
  then show ?thesis using assms start_null by simp
next
  case False
  with start_law [OF assms(1) False assms(4) slots_dom_small [OF assms(2)], of ms "slot_addr i"]
    slots_wf_arm [OF assms(2,3)] show ?thesis by auto
qed

text \<open>A new timer is created in a slot that was just filled with it.\<close>

lemma create_slot:
  assumes "inv q" "slots_wf (armed q) ts" "new \<noteq> NULL" "\<forall>j < length ts. p_pTimer (ts ! j) \<noteq> new"
  shows "inv (create new q)" "armed (create new q) = armed q"
proof -
  have "armed q new = None"
  proof (cases "armed q new")
    case (Some x)
    then have "armed q new = Some (fst x, snd x)" by simp
    then show ?thesis using slots_wfD(7) [OF assms(2)] assms(4) unfolding owner_def by blast
  qed simp
  then show "inv (create new q)" "armed (create new q) = armed q" using create_law assms(1,3) by blast+
qed

end

text \<open>Asking for an expired timer is part of the interface of the event loop.\<close>

locale timer_events = timer_queue inv armed stop create start
  for inv :: "'q \<Rightarrow> bool" and armed :: "'q \<Rightarrow> addr \<Rightarrow> (addr \<times> nat) option" and stop :: "addr \<Rightarrow> 'q \<Rightarrow> 'q"
    and create :: "addr \<Rightarrow> 'q \<Rightarrow> 'q" and start :: "addr \<Rightarrow> u64 \<Rightarrow> addr \<Rightarrow> walltime \<Rightarrow> 'q \<Rightarrow> 'q option" +
  fixes expired :: "walltime \<Rightarrow> 'q \<Rightarrow> int \<times> addr \<times> addr \<times> 'q"
  assumes expired_law: "inv q \<Longrightarrow> wall_ok now \<Longrightarrow> expired now q = (r, t, d, q') \<Longrightarrow>
      (r = 1 \<and> (\<exists>dl. armed q t = Some (d, dl) \<and> dl < wall_us now + 1000) \<and> q' = stop t q) \<or> (r = 0 \<and> t = NULL \<and> d = NULL \<and> q' = q)"
begin

lemma expired_slot:
  assumes "inv q" "slots_wf (armed q) ts" "wall_ok now" "expired now q = (r, t, d, q')"
  shows "inv q'" "slots_wf (armed q') ts"
    "r = 1 \<Longrightarrow> \<exists>i dl. i < length ts \<and> p_pTimer (ts ! i) = t \<and> t \<noteq> NULL \<and> d = slot_addr i \<and> armed q t = Some (d, dl) \<and>
        dl < wall_us now + 1000 \<and> armed q' = (armed q)(t := None)"
    "r \<noteq> 1 \<Longrightarrow> q' = q"
proof -
  note e = expired_law [OF assms(1,3,4)]
  note s = stop_law [OF assms(1), of t]
  show "inv q'" "slots_wf (armed q') ts" "r \<noteq> 1 \<Longrightarrow> q' = q"
    using e s assms(1,2) slots_wf_disarm [OF assms(2)] by auto
  show "\<exists>i dl. i < length ts \<and> p_pTimer (ts ! i) = t \<and> t \<noteq> NULL \<and> d = slot_addr i \<and> armed q t = Some (d, dl) \<and>
        dl < wall_us now + 1000 \<and> armed q' = (armed q)(t := None)" if "r = 1"
  proof -
    from e that obtain dl where a: "armed q t = Some (d, dl)" "dl < wall_us now + 1000" "q' = stop t q" by auto
    then obtain i where i: "i < length ts" "p_pTimer (ts ! i) = t" "d = slot_addr i"
      using slots_wfD(7) [OF assms(2)] unfolding owner_def by blast
    have "t \<noteq> NULL" using a(1) slots_wfD(2) [OF assms(2)] by (metis option.distinct(1))
    then show ?thesis using a i s by blast
  qed
qed

end

section \<open>The timer manager provides the interface\<close>

definition queue_inv :: "addr \<Rightarrow> ptimers \<Rightarrow> bool" where
  "queue_inv m q \<longleftrightarrow> (\<exists>xs. mng_inv m xs q \<and> usec_ok xs q) \<and> (\<forall>t. pMng (pt_timer q t) = m \<or> pMng (pt_timer q t) = NULL)"

definition armed :: "addr \<Rightarrow> ptimers \<Rightarrow> addr \<Rightarrow> (addr \<times> nat) option" where
  "armed m q t = (if m \<noteq> NULL \<and> pMng (pt_timer q t) = m then Some (pData (pt_timer q t), deadline (pt_timer q t)) else None)"

lemma armed_dom: "mng_inv m xs q \<Longrightarrow> dom (armed m q) = set xs"
proof -
  assume i: "mng_inv m xs q"
  have "t \<in> dom (armed m q) \<longleftrightarrow> t \<in> set xs" for t
    using mng_invD(2) [OF i, of t] mng_invD(4) [OF i] by (simp add: armed_def dom_def)
  then show ?thesis by blast
qed

lemma ptimer_stop_timers:
  "pt_timer (ptimer_stop t q) u = (if u = t \<and> t \<noteq> NULL then (pt_timer q u)\<lparr>pMng := NULL\<rparr> else pt_timer q u)"
proof (cases "pMng (pt_timer q t) = NULL")
  case True
  then have "(pt_timer q t)\<lparr>pMng := NULL\<rparr> = pt_timer q t" by (cases "pt_timer q t") simp
  with True show ?thesis by (simp add: ptimer_stop_def)
qed (simp add: ptimer_stop_def)

lemma queue_stop:
  assumes "queue_inv m q"
  shows "queue_inv m (ptimer_stop t q)" "armed m (ptimer_stop t q) = (armed m q)(t := None)"
proof -
  from assms obtain xs where xs: "mng_inv m xs q" "usec_ok xs q" and one: "\<And>t. pMng (pt_timer q t) = m \<or> pMng (pt_timer q t) = NULL"
    by (auto simp: queue_inv_def)
  note d = mng_invD [OF xs(1)]
  have "mng_inv m (remove1 t xs) (ptimer_stop t q)" by (rule ptimer_stop_inv [OF xs(1) one])
  moreover have "usec_ok (remove1 t xs) (ptimer_stop t q)"
    using xs(2) by (auto simp: usec_ok_def ptimer_stop_timers dest: notin_set_remove1 [rotated])
  ultimately show "queue_inv m (ptimer_stop t q)" using one by (auto simp: queue_inv_def ptimer_stop_timers)
  have "pMng (pt_timer q NULL) \<noteq> m" using d(2) [of NULL] d(6) by simp
  then show "armed m (ptimer_stop t q) = (armed m q)(t := None)"
    using d(4) by (auto simp: armed_def fun_eq_iff ptimer_stop_timers)
qed


lemma queue_create:
  assumes "queue_inv m q" "t \<noteq> NULL" "armed m q t = None"
  shows "queue_inv m (snd (ptimer_create t q))" "armed m (snd (ptimer_create t q)) = armed m q"
proof -
  from assms obtain xs where xs: "mng_inv m xs q" "usec_ok xs q" and one: "\<And>t. pMng (pt_timer q t) = m \<or> pMng (pt_timer q t) = NULL"
    by (auto simp: queue_inv_def)
  note d = mng_invD [OF xs(1)]
  let ?q = "snd (ptimer_create t q)"
  have f: "pt_store ?q = pt_store q" "pMng (pt_timer ?q t) = NULL" "\<And>u. u \<noteq> t \<Longrightarrow> pt_timer ?q u = pt_timer q u"
    using assms(2) by (simp_all add: ptimer_create_def)
  have t: "t \<notin> set xs" using assms(3) d(2) [of t] d(4) by (simp add: armed_def split: if_splits)
  have eq: "\<And>u. u \<in> set xs \<Longrightarrow> pt_timer ?q u = pt_timer q u" using f(3) t by metis
  have "map (\<lambda>u. expire_sec (pt_timer ?q u)) xs = map (\<lambda>u. expire_sec (pt_timer q u)) xs" using eq by (intro map_cong refl) simp
  moreover have "(pMng (pt_timer ?q u) = m) = (u \<in> set xs)" for u
    using d(2) [of u] d(4) f(2,3) t by (cases "u = t") auto
  ultimately have "mng_inv m xs ?q" unfolding mng_inv_def using d(1,3) f(1) by metis
  moreover have "usec_ok xs ?q" using xs(2) eq by (simp add: usec_ok_def)
  moreover have "pMng (pt_timer ?q u) = m \<or> pMng (pt_timer ?q u) = NULL" for u using f(2,3) one by metis
  ultimately show "queue_inv m ?q" by (auto simp: queue_inv_def)
  show "armed m ?q = armed m q"
  proof
    fix u show "armed m ?q u = armed m q u"
      using f(2,3) assms(3) by (cases "u = t") (auto simp: armed_def)
  qed
qed

lemma queue_start:
  assumes "queue_inv m q" "t \<noteq> NULL" "wall_ok now" "card (dom (armed m q)) < 2 ^ 31"
  shows "\<exists>q'. ptimer_start m t ms d now q = Some q' \<and> queue_inv m q' \<and>
    armed m q' = (armed m q)(t \<mapsto> (d, wall_us now + unat ms * 1000))"
proof -
  from assms obtain xs where xs: "mng_inv m xs q" "usec_ok xs q" and one: "\<And>t. pMng (pt_timer q t) = m \<or> pMng (pt_timer q t) = NULL"
    by (auto simp: queue_inv_def)
  note e = mng_invD [OF xs(1)]
  have len: "length xs < 2 ^ 31" using assms(4) armed_dom [OF xs(1)] distinct_card [OF e(5)] by simp
  from ptimer_start_inv [OF xs(1) assms(2) one len, of ms d now]
  obtain q' k where r: "ptimer_start m t ms d now q = Some q'"
    "mng_inv m (take k (remove1 t xs) @ t # drop k (remove1 t xs)) q'" "pData (pt_timer q' t) = d"
    "expire_sec (pt_timer q' t) = expire_sec (set_expiry now ms (pt_timer q t))"
    "expire_usec (pt_timer q' t) = expire_usec (set_expiry now ms (pt_timer q t))"
    "\<And>u. u \<noteq> t \<Longrightarrow> pt_timer q' u = pt_timer q u" by (auto simp: Let_def)
  let ?zs = "take k (remove1 t xs) @ t # drop k (remove1 t xs)"
  have sub: "set ?zs \<subseteq> insert t (set xs)"
    using set_take_subset [of k "remove1 t xs"] set_drop_subset [of k "remove1 t xs"] set_remove1_subset [of t xs] by auto
  have "unat (expire_usec (pt_timer q' u)) < 1000000" if "u \<in> set ?zs" for u
    using that sub r(5,6) set_expiry_deadline(2) [OF assms(3)] xs(2) by (cases "u = t") (auto simp: usec_ok_def)
  then have us: "usec_ok ?zs q'" by (simp add: usec_ok_def)
  have m: "pMng (pt_timer q' t) = m" using mng_invD(2) [OF r(2), of t] by simp
  then have "pMng (pt_timer q' u) = m \<or> pMng (pt_timer q' u) = NULL" for u using one r(6) by metis
  then have inv: "queue_inv m q'" using r(2) us by (auto simp: queue_inv_def)
  have "deadline (pt_timer q' t) = wall_us now + unat ms * 1000"
    using deadline_cong [OF r(4,5)] set_expiry_deadline(1) [OF assms(3)] by simp
  then have "armed m q' u = ((armed m q)(t \<mapsto> (d, wall_us now + unat ms * 1000))) u" for u
    using m r(3,6) e(4) by (cases "u = t") (simp_all add: armed_def)
  then show ?thesis using r(1) inv by blast
qed

lemma queue_expired:
  assumes "queue_inv m q" "wall_ok now" "ptimer_mng_getexpired m now q = (r, t, d, q')"
  shows "(r = 1 \<and> (\<exists>dl. armed m q t = Some (d, dl) \<and> dl < wall_us now + 1000) \<and> q' = ptimer_stop t q) \<or>
    (r = 0 \<and> t = NULL \<and> d = NULL \<and> q' = q)"
proof -
  from assms obtain xs where xs: "mng_inv m xs q" "usec_ok xs q" by (auto simp: queue_inv_def)
  note e = mng_invD [OF xs(1)]
  show ?thesis
  proof (cases xs)
    case Nil
    then show ?thesis using getexpired_cases [OF xs(1)] assms(3) by simp
  next
    case (Cons h ts)
    have h: "unat (expire_usec (pt_timer q h)) < 1000000" "pMng (pt_timer q h) = m"
      using xs(2) e(2) [of h] Cons by (simp_all add: usec_ok_def)
    show ?thesis
      using Cons getexpired_cases [OF xs(1)] assms(3) h(2) e(4) timer_due_iff(1) [OF assms(2) h(1)]
      by (cases "timer_due now (pt_timer q h)") (auto simp: armed_def)
  qed
qed

interpretation tq: timer_events "queue_inv m" "armed m" ptimer_stop "\<lambda>t q. snd (ptimer_create t q)" "ptimer_start m"
    "ptimer_mng_getexpired m" for m
proof unfold_locales
  fix q t ms d now
  show "armed m q NULL = None" if "queue_inv m q"
    using that mng_invD(2) [of m _ q NULL] mng_invD(6) [of m _ q] unfolding queue_inv_def armed_def by metis
  show "ptimer_start m NULL ms d now q = Some q" by (simp add: ptimer_start_def)
  show "queue_inv m (ptimer_stop t q) \<and> armed m (ptimer_stop t q) = (armed m q)(t := None)" if "queue_inv m q"
    using queue_stop [OF that] by (intro conjI)
  show "queue_inv m (snd (ptimer_create t q)) \<and> armed m (snd (ptimer_create t q)) = armed m q"
    if "queue_inv m q" "t \<noteq> NULL" "armed m q t = None"
    using queue_create [OF that] by (intro conjI)
  show "\<exists>q'. ptimer_start m t ms d now q = Some q' \<and> queue_inv m q' \<and>
      armed m q' = (armed m q)(t \<mapsto> (d, wall_us now + unat ms * 1000))"
    if "queue_inv m q" "t \<noteq> NULL" "wall_ok now" "card (dom (armed m q)) < 2 ^ 31"
    using that by (rule queue_start)
  show "(r = 1 \<and> (\<exists>dl. armed m q t = Some (d, dl) \<and> dl < wall_us now + 1000) \<and> q' = ptimer_stop t q) \<or>
      (r = 0 \<and> t = NULL \<and> d = NULL \<and> q' = q)"
    if "queue_inv m q" "wall_ok now" "ptimer_mng_getexpired m now q = (r, t, d, q')" for r q'
    using that by (rule queue_expired)
qed


section \<open>The schedule\<close>

text \<open>
  Abstractly the daemon keeps a schedule: for an event, given by a message and a handle, the
  deadline of the timer that runs for it. \<open>core_inv\<close> is the invariant of the slots and the queue.
\<close>

abbreviation armed_of :: "powerd \<Rightarrow> addr \<Rightarrow> (addr \<times> nat) option" where
  "armed_of st \<equiv> armed (gpTimerMng st) (timers st)"

definition core_inv :: "powerd \<Rightarrow> bool" where
  "core_inv st \<longleftrightarrow> queue_inv (gpTimerMng st) (timers st) \<and> slots_wf (armed_of st) (powerdTimer st)"

definition sched :: "powerd \<Rightarrow> int \<times> int \<Rightarrow> nat option" where
  "sched st = (\<lambda>(msg, h). let i = find_timer msg h st
     in if i \<ge> 0 then map_option snd (armed_of st (p_pTimer (slot st (nat i)))) else None)"

lemma slot_from_spec:
  obtains (none) "slot_from P ts k = -1" "\<And>t. t \<in> set ts \<Longrightarrow> \<not> P t"
  | (some) i where "i < length ts" "slot_from P ts k = int (k + i)" "P (ts ! i)"
proof -
  have "(slot_from P ts k = -1 \<and> (\<forall>t \<in> set ts. \<not> P t)) \<or> (\<exists>i < length ts. slot_from P ts k = int (k + i) \<and> P (ts ! i))"
  proof (induction ts arbitrary: k)
    case (Cons t ts)
    show ?case
    proof (cases "P t")
      case False
      then show ?thesis using Cons.IH [of "Suc k"] by force
    qed force
  qed simp
  then show thesis using none some by blast
qed

lemma core_invD:
  assumes "core_inv st"
  shows "queue_inv (gpTimerMng st) (timers st)" "slots_wf (armed_of st) (powerdTimer st)" "length (powerdTimer st) = MAX_TIMER_COUNT"
  using assms slots_wfD(1) by (auto simp: core_inv_def)

lemma find_timer_cases:
  assumes "core_inv st"
  obtains (none) "find_timer m h st = -1" "\<And>i. i < MAX_TIMER_COUNT \<Longrightarrow> \<not> event_slot m h (slot st i)"
  | (some) i where "i < MAX_TIMER_COUNT" "find_timer m h st = int i" "event_slot m h (slot st i)"
proof -
  note len = core_invD(3) [OF assms]
  show thesis
  proof (rule slot_from_spec [of "event_slot m h" "powerdTimer st" 0])
    assume a: "slot_from (event_slot m h) (powerdTimer st) 0 = -1" "\<And>t. t \<in> set (powerdTimer st) \<Longrightarrow> \<not> event_slot m h t"
    have "\<not> event_slot m h (slot st i)" if "i < MAX_TIMER_COUNT" for i using a(2) [OF nth_mem] that len by simp
    then show thesis using a(1) none by (simp add: find_timer_def event_slot_def [abs_def])
  next
    fix i assume "i < length (powerdTimer st)" "slot_from (event_slot m h) (powerdTimer st) 0 = int (0 + i)"
      "event_slot m h (slot st i)"
    then show thesis using some [of i] len by (simp add: find_timer_def event_slot_def [abs_def])
  qed
qed

lemma find_timer_eq:
  assumes "core_inv st" "i < MAX_TIMER_COUNT" "event_slot m h (slot st i)"
  shows "find_timer m h st = int i"
using assms(1)
proof (cases rule: find_timer_cases [where m = m and h = h])
  case none
  then show ?thesis using assms by blast
next
  case (some j)
  then show ?thesis using slots_wfD(6) [OF core_invD(2) [OF assms(1)], of i j m h] core_invD(3) [OF assms(1)] assms by simp
qed

lemma sched_iff:
  assumes "core_inv st"
  shows "sched st (m, h) = Some dl \<longleftrightarrow>
    (\<exists>i < MAX_TIMER_COUNT. event_slot m h (slot st i) \<and> (\<exists>d. armed_of st (p_pTimer (slot st i)) = Some (d, dl)))"
using assms
proof (cases rule: find_timer_cases [where m = m and h = h])
  case none
  then show ?thesis by (auto simp: sched_def)
next
  case (some i)
  have "j = i" if "j < MAX_TIMER_COUNT" "event_slot m h (slot st j)" for j
    using find_timer_eq [OF assms that] some(2) by simp
  then have "(\<exists>j < MAX_TIMER_COUNT. event_slot m h (slot st j) \<and> P j) \<longleftrightarrow> P i" for P using some by blast
  moreover have "sched st (m, h) = map_option snd (armed_of st (p_pTimer (slot st i)))" using some(2) by (simp add: sched_def)
  moreover have "map_option snd a = Some dl \<longleftrightarrow> (\<exists>d. a = Some (d, dl))" for a :: "(addr \<times> nat) option" by (cases a) auto
  ultimately show ?thesis by simp
qed

lemma sched_eqI:
  assumes "\<And>m h dl. sched st (m, h) = Some dl \<longleftrightarrow> f (m, h) = Some dl"
  shows "sched st = f"
proof
  fix k show "sched st k = f k"
    using assms [of "fst k" "snd k"] by (cases "sched st k"; cases "f k") auto
qed

lemma ptimer_stop_stop: "ptimer_stop t (ptimer_stop t q) = ptimer_stop t q"
proof (cases "t = NULL")
  case False
  then have "pMng (pt_timer (ptimer_stop t q) t) = NULL" by (simp add: ptimer_stop_timers)
  then show ?thesis by (simp add: ptimer_stop_def [of t "ptimer_stop t q"])
qed (simp add: ptimer_stop_def)

text \<open>Everything of the daemon but the slots and the queue.\<close>

definition core_rest :: "powerd \<Rightarrow> perf \<times> addr \<times> int \<times> int" where
  "core_rest st = (svc st, gpTimerMng st, powerdOnOff st, check_idx st)"

text \<open>No slot holds the address the next allocation returns.\<close>

definition fresh :: "core_env \<Rightarrow> powerd \<Rightarrow> bool" where
  "fresh env st \<longleftrightarrow> new_timer env = NULL \<or> (\<forall>i < length (powerdTimer st). p_pTimer (slot st i) \<noteq> new_timer env)"

text \<open>Stopping the timer of a slot and blanking the slot.\<close>

definition drop_slot :: "nat \<Rightarrow> powerd \<Rightarrow> powerd" where
  "drop_slot i st = st\<lparr>timers := ptimer_stop (p_pTimer (slot st i)) (timers st),
     powerdTimer := (powerdTimer st)[i := blank_slot (slot st i)]\<rparr>"

lemma drop_slot_inv:
  assumes "core_inv st" "i < MAX_TIMER_COUNT"
  shows "core_inv (drop_slot i st)" "armed_of (drop_slot i st) = (armed_of st)(p_pTimer (slot st i) := None)"
    "core_rest (drop_slot i st) = core_rest st" "fresh env st \<Longrightarrow> fresh env (drop_slot i st)"
proof -
  note d = core_invD [OF assms(1)]
  have i: "i < length (powerdTimer st)" using assms(2) d(3) by simp
  show "core_inv (drop_slot i st)" "armed_of (drop_slot i st) = (armed_of st)(p_pTimer (slot st i) := None)"
    using tq.stop_slot [OF d(1,2) i] by (simp_all add: core_inv_def drop_slot_def)
  show "core_rest (drop_slot i st) = core_rest st" by (simp add: core_rest_def drop_slot_def)
  show "fresh env (drop_slot i st)" if "fresh env st"
    using that i by (auto simp: fresh_def drop_slot_def nth_list_update)
qed

lemma drop_slot_sched:
  assumes "core_inv st" "i < MAX_TIMER_COUNT" "event_slot m h (slot st i)"
  shows "sched (drop_slot i st) = (sched st)((m, h) := None)" "find_timer m h (drop_slot i st) = -1"
proof -
  note d = core_invD [OF assms(1)] and i = drop_slot_inv [OF assms(1,2)]
  have ev: "event_slot m' h' (slot (drop_slot i st) j) \<longleftrightarrow> j \<noteq> i \<and> event_slot m' h' (slot st j)" if "j < MAX_TIMER_COUNT" for j m' h'
    using that d(3) assms(2) by (simp add: drop_slot_def nth_list_update)
  have nth: "slot (drop_slot i st) j = slot st j" if "j \<noteq> i" for j using that by (simp add: drop_slot_def)
  have other: "event_slot m h (slot st j) \<longleftrightarrow> j = i" if "j < MAX_TIMER_COUNT" for j
    using that slots_wfD(6) [OF d(2), of i j m h] d(3) assms(2,3) by auto
  show "find_timer m h (drop_slot i st) = -1"
    using i(1)
  proof (cases rule: find_timer_cases [where m = m and h = h])
    case (some j)
    then show ?thesis using ev other by blast
  qed
  show "sched (drop_slot i st) = (sched st)((m, h) := None)"
  proof (rule sched_eqI)
    fix m' h' dl
    have arm: "armed_of (drop_slot i st) (p_pTimer (slot st j)) = armed_of st (p_pTimer (slot st j))"
      if "j < MAX_TIMER_COUNT" "j \<noteq> i" for j
    proof (cases "p_pTimer (slot st i) = NULL")
      case False
      then show ?thesis using that slots_wfD(5) [OF d(2), of i j] d(3) assms(2) i(2) by auto
    qed (use i(2) slots_wfD(2) [OF d(2)] in simp)
    show "sched (drop_slot i st) (m', h') = Some dl \<longleftrightarrow> ((sched st)((m, h) := None)) (m', h') = Some dl"
    proof (cases "(m', h') = (m, h)")
      case True
      then show ?thesis using ev other by (auto simp: sched_iff [OF i(1)])
    next
      case False
      have "\<not> event_slot m' h' (slot st i)" using assms(3) False by (auto simp: event_slot_def)
      then have "sched (drop_slot i st) (m', h') = Some dl \<longleftrightarrow> sched st (m', h') = Some dl"
        unfolding sched_iff [OF i(1)] sched_iff [OF assms(1)] using ev arm nth by metis
      then show ?thesis using False by auto
    qed
  qed
qed


section \<open>The slot operations refine the schedule\<close>

lemma reset_timer_blank: "0 \<le> i \<Longrightarrow> i < int MAX_TIMER_COUNT \<Longrightarrow> reset_timer i st = upd_slot (nat i) blank_slot st"
  by (simp add: reset_timer_def blank_slot_def)

lemma remove_scn_timer_cases:
  assumes "core_inv st"
  obtains "find_timer m h st = -1" "remove_scn_timer m h st = st" "\<And>i. i < MAX_TIMER_COUNT \<Longrightarrow> \<not> event_slot m h (slot st i)"
  | i where "i < MAX_TIMER_COUNT" "event_slot m h (slot st i)" "remove_scn_timer m h st = drop_slot i st"
  using assms
proof (cases rule: find_timer_cases [where m = m and h = h])
  case none
  then show thesis using that(1) by (simp add: remove_scn_timer_def)
next
  case (some i)
  have "remove_scn_timer m h st = drop_slot i st"
    using some by (simp add: remove_scn_timer_def Let_def reset_timer_blank drop_slot_def ptimer_delete_def ptimer_stop_stop)
  then show thesis using some that(2) by blast
qed

lemma remove_scn_timer_sched:
  assumes "core_inv st"
  shows "core_inv (remove_scn_timer m h st)" "sched (remove_scn_timer m h st) = (sched st)((m, h) := None)"
    "find_timer m h (remove_scn_timer m h st) = -1" "core_rest (remove_scn_timer m h st) = core_rest st"
    "fresh env st \<Longrightarrow> fresh env (remove_scn_timer m h st)"
proof -
  have "core_inv (remove_scn_timer m h st) \<and> sched (remove_scn_timer m h st) = (sched st)((m, h) := None) \<and>
    find_timer m h (remove_scn_timer m h st) = -1 \<and> core_rest (remove_scn_timer m h st) = core_rest st \<and>
    (fresh env st \<longrightarrow> fresh env (remove_scn_timer m h st))"
  proof (rule remove_scn_timer_cases [OF assms, of m h])
    assume n: "find_timer m h st = -1" "remove_scn_timer m h st = st" "\<And>i. i < MAX_TIMER_COUNT \<Longrightarrow> \<not> event_slot m h (slot st i)"
    then have "sched st (m, h) = None" by (simp add: sched_def)
    then have "sched st = (sched st)((m, h) := None)" by (simp add: fun_upd_idem)
    then show ?thesis using n assms by simp
  next
    fix i assume i: "i < MAX_TIMER_COUNT" "event_slot m h (slot st i)" "remove_scn_timer m h st = drop_slot i st"
    then show ?thesis using drop_slot_inv [OF assms i(1)] drop_slot_sched [OF assms i(1,2)] by simp
  qed
  then show "core_inv (remove_scn_timer m h st)" "sched (remove_scn_timer m h st) = (sched st)((m, h) := None)"
    "find_timer m h (remove_scn_timer m h st) = -1" "core_rest (remove_scn_timer m h st) = core_rest st"
    "fresh env st \<Longrightarrow> fresh env (remove_scn_timer m h st)" by blast+
qed

text \<open>Whether a timer can be started at all: a free slot and memory.\<close>

definition has_room :: "core_env \<Rightarrow> powerd \<Rightarrow> bool" where
  "has_room env st \<longleftrightarrow> new_timer env \<noteq> NULL \<and> (\<exists>t \<in> set (powerdTimer st). t_used t = 0)"

text \<open>The slot that is filled and the timer that is created in it.\<close>

definition filled :: "core_env \<Rightarrow> nat \<Rightarrow> int \<Rightarrow> int \<Rightarrow> powerd \<Rightarrow> powerd" where
  "filled env i m h st = st\<lparr>timers := snd (ptimer_create (new_timer env) (timers st)),
     powerdTimer := (powerdTimer st)[i := (slot st i)\<lparr>t_used := 1, t_msg := m, t_handle := h, p_pTimer := new_timer env\<rparr>]\<rparr>"

lemma filled_inv:
  assumes "core_inv st" "i < MAX_TIMER_COUNT" "t_used (slot st i) = 0" "find_timer m h st = -1" "fresh env st"
  shows "core_inv (filled env i m h st)" "armed_of (filled env i m h st) = armed_of st"
    "core_rest (filled env i m h st) = core_rest st"
proof -
  note d = core_invD [OF assms(1)]
  have i: "i < length (powerdTimer st)" using assms(2) d(3) by simp
  have none: "\<forall>j < length (powerdTimer st). \<not> event_slot m h (slot st j)"
    using assms(1)
  proof (cases rule: find_timer_cases [where m = m and h = h])
    case (some j)
    then show ?thesis using assms(4) by simp
  qed (use d(3) in simp)
  have q: "queue_inv (gpTimerMng st) (snd (ptimer_create (new_timer env) (timers st)))"
    "armed (gpTimerMng st) (snd (ptimer_create (new_timer env) (timers st))) = armed_of st"
    using tq.create_slot [OF d(1,2)] assms(5) d(1) by (cases "new_timer env = NULL"; simp add: fresh_def ptimer_create_def)+
  have "slots_wf (armed_of st) (powerdTimer (filled env i m h st))"
    using slots_wf_fill [OF d(2) i assms(3) none, of "new_timer env"] assms(5) by (auto simp: filled_def fresh_def)
  then show "core_inv (filled env i m h st)" "armed_of (filled env i m h st) = armed_of st"
    using q by (simp_all add: core_inv_def filled_def)
  show "core_rest (filled env i m h st) = core_rest st" by (simp add: core_rest_def filled_def)
qed

lemma start_in_slot_inv:
  assumes "core_inv st" "i < MAX_TIMER_COUNT" "wall_ok (wall env)"
  shows "\<exists>st'. start_in_slot env i ms st = Some st' \<and> core_inv st' \<and> core_rest st' = core_rest st \<and>
    powerdTimer st' = powerdTimer st \<and>
    armed_of st' = (if p_pTimer (slot st i) = NULL then armed_of st
      else (armed_of st)(p_pTimer (slot st i) \<mapsto> (slot_addr i, wall_us (wall env) + unat (word_of_int ms :: u64) * 1000)))"
proof -
  note d = core_invD [OF assms(1)]
  have i: "i < length (powerdTimer st)" using assms(2) d(3) by simp
  from tq.arm_slot [OF d(1,2) i assms(3), of "word_of_int ms"] obtain q' where
    "ptimer_start (gpTimerMng st) (p_pTimer (slot st i)) (word_of_int ms) (slot_addr i) (wall env) (timers st) = Some q'"
    "queue_inv (gpTimerMng st) q'" "slots_wf (armed (gpTimerMng st) q') (powerdTimer st)"
    "armed (gpTimerMng st) q' = (if p_pTimer (slot st i) = NULL then armed_of st
      else (armed_of st)(p_pTimer (slot st i) \<mapsto> (slot_addr i, wall_us (wall env) + unat (word_of_int ms :: u64) * 1000)))" by blast
  then show ?thesis by (intro exI [of _ "st\<lparr>timers := q'\<rparr>"]) (simp add: start_in_slot_def core_inv_def core_rest_def)
qed


lemma create_fill:
  assumes "core_inv st" "i < MAX_TIMER_COUNT" "t_used (slot st i) = 0"
  shows "create_in_slot env i (upd_slot i (\<lambda>t. t\<lparr>t_msg := m, t_handle := h\<rparr>) (upd_slot i (\<lambda>t. t\<lparr>t_used := 1\<rparr>) st)) = filled env i m h st"
proof -
  note d = core_invD [OF assms(1)]
  have i: "i < length (powerdTimer st)" using assms(2) d(3) by simp
  have p: "p_pTimer (slot st i) = NULL" using slots_wfD(4) [OF d(2) i assms(3)] by (simp add: slot_blank_def)
  have "(slot st i)\<lparr>t_used := 1, t_msg := m, t_handle := h\<rparr> = (slot st i)\<lparr>t_used := 1, t_msg := m, t_handle := h, p_pTimer := NULL\<rparr>"
    using p by (cases "slot st i") simp
  then show ?thesis
    using i by (cases "new_timer env = NULL") (simp_all add: create_in_slot_def filled_def ptimer_create_def)
qed

lemma filled_sched:
  assumes "core_inv st" "i < MAX_TIMER_COUNT" "t_used (slot st i) = 0" "find_timer m h st = -1" "fresh env st"
    and st': "core_inv st'" "powerdTimer st' = powerdTimer (filled env i m h st)"
    "armed_of st' = (if new_timer env = NULL then armed_of st else (armed_of st)(new_timer env \<mapsto> (x, D)))"
  shows "sched st' = (if new_timer env = NULL then sched st else (sched st)((m, h) \<mapsto> D))"
proof (rule sched_eqI)
  fix m' h' dl
  note d = core_invD [OF assms(1)] and f = filled_inv [OF assms(1-5)]
  have i: "i < length (powerdTimer st)" using assms(2) d(3) by simp
  have nth: "slot st' j = (if j = i then (slot st i)\<lparr>t_used := 1, t_msg := m, t_handle := h, p_pTimer := new_timer env\<rparr> else slot st j)" for j
    using i st'(2) by (simp add: filled_def)
  have ev: "event_slot m' h' (slot st' j) \<longleftrightarrow> (if j = i then (m', h') = (m, h) else event_slot m' h' (slot st j))" for j
    by (auto simp: nth event_slot_def)
  have free: "\<not> event_slot m'' h'' (slot st i)" for m'' h'' using assms(3) by (simp add: event_slot_def)
  have none: "sched st (m, h) = None" using assms(4) by (simp add: sched_def)
  have arm: "armed_of st' (p_pTimer (slot st' j)) = armed_of st (p_pTimer (slot st j))" if "j < MAX_TIMER_COUNT" "j \<noteq> i" for j
    using that d(3) st'(3) assms(5) by (auto simp: nth fresh_def)
  show "sched st' (m', h') = Some dl \<longleftrightarrow>
      (if new_timer env = NULL then sched st else (sched st)((m, h) \<mapsto> D)) (m', h') = Some dl"
  proof (cases "(m', h') = (m, h)")
    case True
    have "find_timer m h st' = int i" using find_timer_eq [OF st'(1) assms(2)] ev True by (simp add: nth event_slot_def)
    then have "sched st' (m, h) = map_option snd (armed_of st' (new_timer env))" by (simp add: sched_def nth)
    then show ?thesis using True st'(3) none slots_wfD(2) [OF d(2)] by auto
  next
    case False
    have "sched st' (m', h') = Some dl \<longleftrightarrow> sched st (m', h') = Some dl"
      unfolding sched_iff [OF st'(1)] sched_iff [OF assms(1)] using ev arm free False by metis
    then show ?thesis using False by auto
  qed
qed

lemma start_scn_timer_sched:
  assumes "core_inv st" "wall_ok (wall env)" "fresh env st" "find_timer m h st = -1"
  shows "\<exists>st'. start_scn_timer env m h ms st = Some st' \<and> core_inv st' \<and> core_rest st' = core_rest st \<and>
    sched st' = (if has_room env st then (sched st)((m, h) \<mapsto> wall_us (wall env) + unat (word_of_int ms :: u64) * 1000) else sched st)"
proof (rule slot_from_spec [of "\<lambda>t. t_used t = 0" "powerdTimer st" 0])
  assume n: "slot_from (\<lambda>t. t_used t = 0) (powerdTimer st) 0 = -1" "\<And>t. t \<in> set (powerdTimer st) \<Longrightarrow> t_used t \<noteq> 0"
  then show ?thesis using assms(1) by (simp add: start_scn_timer_def allocate_timer_def has_room_def)
next
  fix i assume i: "i < length (powerdTimer st)" "slot_from (\<lambda>t. t_used t = 0) (powerdTimer st) 0 = int (0 + i)" "t_used (slot st i) = 0"
  note d = core_invD [OF assms(1)]
  have i': "i < MAX_TIMER_COUNT" using i d(3) by simp
  note f = filled_inv [OF assms(1) i' i(3) assms(4,3)]
  have p: "p_pTimer (slot (filled env i m h st) i) = new_timer env" using i(1) by (simp add: filled_def)
  have run: "start_scn_timer env m h ms st = start_in_slot env i ms (filled env i m h st)"
    using i(2) create_fill [OF assms(1) i' i(3), where env = env and m = m and h = h] by (simp add: start_scn_timer_def allocate_timer_def)
  from start_in_slot_inv [OF f(1) i' assms(2), of ms] obtain st' where st': "start_in_slot env i ms (filled env i m h st) = Some st'"
    "core_inv st'" "core_rest st' = core_rest st" "powerdTimer st' = powerdTimer (filled env i m h st)"
    "armed_of st' = (if new_timer env = NULL then armed_of st
      else (armed_of st)(new_timer env \<mapsto> (slot_addr i, wall_us (wall env) + unat (word_of_int ms :: u64) * 1000)))"
    using f(2,3) p by auto
  have "has_room env st \<longleftrightarrow> new_timer env \<noteq> NULL" using i nth_mem [OF i(1)] by (auto simp: has_room_def)
  then show ?thesis
    using run st' filled_sched [OF assms(1) i' i(3) assms(4,3) st'(2,4,5)] by simp
qed


section \<open>Requests and expiries keep both invariants\<close>

lemma core_inv_svc [simp]: "core_inv (st\<lparr>svc := p\<rparr>) = core_inv st" "core_inv (st\<lparr>powerdOnOff := v\<rparr>) = core_inv st"
  by (simp_all add: core_inv_def)

lemma sched_svc [simp]: "sched (st\<lparr>svc := p\<rparr>) = sched st" "sched (st\<lparr>powerdOnOff := v\<rparr>) = sched st"
  "find_timer m h (st\<lparr>svc := p\<rparr>) = find_timer m h st" "fresh env (st\<lparr>svc := p\<rparr>) = fresh env st"
  "has_room env (st\<lparr>svc := p\<rparr>) = has_room env st"
  by (simp_all add: sched_def find_timer_def fresh_def has_room_def fun_eq_iff Let_def)

lemma core_rest_svc: "core_rest st' = core_rest st \<Longrightarrow> svc st' = svc st \<and> gpTimerMng st' = gpTimerMng st \<and>
    powerdOnOff st' = powerdOnOff st \<and> check_idx st' = check_idx st"
  by (simp add: core_rest_def)

text \<open>An acquire returns its handle or fails: an unregistered handle is never registered here.\<close>

lemma when_ready_fst:
  assumes "when_ready env st f = Some (r, st')" "\<And>s. P (fst (f s))" "P 0"
  shows "P r"
  using assms by (auto simp: when_ready_def split: option.splits prod.splits if_splits) (metis fst_conv)

lemma acq_returns_handle:
  assumes "perfLockAcq env st l h p t d hint = Some (r, st')"
  shows "r = h \<or> r = 0"
proof (rule when_ready_fst [where P = "\<lambda>r. r = h \<or> r = 0", OF assms [unfolded perfLockAcq_def]], goal_cases)
  case (1 s)
  show ?case
    by (cases "findHandleToIndex s h = -1") (auto simp: Let_def keepTimeStamp_def lock_apply_def split: prod.splits option.splits)
qed simp

lemma cus_returns_zero: "perfCusLockHint env st l hint d p = Some (r, st') \<Longrightarrow> r = 0"
  using acq_returns_handle [of env st _ 0 p 0 d hint r st'] by (auto simp: perfCusLockHint_def Let_def split: if_splits)


text \<open>
  What a request must satisfy: the node table file is well-formed, allocations succeed and return
  memory that is not in use, the clock is sane, re-acquiring an active handle is safe (as for
  \<open>call_ok\<close>), and resources are not switched on again while they are held.
\<close>

definition request_ok :: "core_env \<Rightarrow> power_msg \<Rightarrow> powerd \<Rightarrow> bool" where
  "request_ok env msg st \<longleftrightarrow> env_ok env \<and> malloc_ok env \<and> wall_ok (wall env) \<and> fresh env st \<and>
     (case msg of
        MSG_PERF_LOCK_ACQ d \<Rightarrow> (case acq_list d of None \<Rightarrow> False
          | Some l \<Rightarrow> call_ok env (C_acq l (pl_hdl d) (pl_pid d) (pl_reserved d) (pl_duration d) (pl_hint d)) (svc st))
      | MSG_QUERY_INFO cmd param \<Rightarrow> cmd \<noteq> MTKPOWER_CMD_GET_RES_CTRL_ON
      | _ \<Rightarrow> True)"

definition daemon_inv :: "powerd \<Rightarrow> bool" where
  "daemon_inv st \<longleftrightarrow> core_inv st \<and> perf_inv (svc st)"

lemma on_svc_Some: "on_svc f st = Some (r, st') \<longleftrightarrow> (\<exists>p. f (svc st) = Some (r, p) \<and> st' = st\<lparr>svc := p\<rparr>)"
  by (auto simp: on_svc_def)

lemma on_svc_inv:
  assumes "on_svc f st = Some (r, st')" "core_inv st" "\<And>p'. f (svc st) = Some (r, p') \<Longrightarrow> perf_inv p'"
  shows "daemon_inv st'"
  using assms by (auto simp: on_svc_Some daemon_inv_def)

lemma env_ok_truncate: "env_ok env \<Longrightarrow> env_ok (sys_env.truncate env)"
  by (simp add: env_ok_def sys_env.defs)

lemma simple_call_ok:
  assumes "env_ok env" "malloc_ok env"
  shows "call_ok env (C_rel h) st" "call_ok env C_disable_all st" "call_ok env C_restore_all st" "call_ok env C_check_all st"
  using assms by (simp_all add: call_ok_def)

lemma dump_inv: "perf_inv st \<Longrightarrow> env_ok env \<Longrightarrow> perfDumpAll env st cmd = Some (r, st') \<Longrightarrow> perf_inv st'"
  unfolding perfDumpAll_def by (rule when_ready_inv) (auto intro: core_same_inv [OF core_same_field(1)])

lemma capability_inv:
  "perf_inv st \<Longrightarrow> env_ok env \<Longrightarrow> cmd \<noteq> MTKPOWER_CMD_GET_RES_CTRL_ON \<Longrightarrow>
    perfUserGetCapability env st cmd i = Some (r, st') \<Longrightarrow> perf_inv st'"
  unfolding perfUserGetCapability_def by (rule when_ready_inv) (auto intro: capability_switch_inv)

lemma set_sysinfo_inv:
  assumes "perf_inv st" "env_ok env" "perfSetSysInfo env st ty data = Some (r, st')"
  shows "perf_inv st'"
  by (rule when_ready_inv [OF assms(1,2) assms(3) [unfolded perfSetSysInfo_def]])
    (auto intro: core_same_inv [OF sysinfo_switch_frame] split: option.split)

lemma cus_lock_inv:
  assumes "perf_inv st" "env_ok env" "malloc_ok env" "perfCusLockHint env st l hint d p = Some (r, st')"
  shows "perf_inv st'"
proof -
  have "findHandleToIndex st 0 = -1" by (simp add: findHandleToIndex_def)
  then have "call_ok env (C_acq l' 0 p 0 d hint) st" for l' using assms(2,3) by (simp add: call_ok_def)
  with run_call_inv [OF assms(1), of env "C_acq l' 0 p 0 d hint" r st' for l'] assms(1,4)
  show ?thesis by (auto simp: perfCusLockHint_def Let_def split: if_splits)
qed

lemma remove_daemon:
  "daemon_inv st \<Longrightarrow> daemon_inv (remove_scn_timer m h st)"
  using remove_scn_timer_sched(1,4) [of st m h] by (auto simp: daemon_inv_def core_rest_def)

lemma start_daemon:
  assumes "daemon_inv st" "wall_ok (wall env)" "fresh env st" "find_timer m h st = -1"
  shows "\<exists>st'. start_scn_timer env m h ms st = Some st' \<and> daemon_inv st'"
  using start_scn_timer_sched [of st env m h ms] assms by (auto simp: daemon_inv_def core_rest_def)


lemma req_all_inv:
  assumes "req_all f st = Some (rsp, st')" "daemon_inv st" "\<And>r p'. f (svc st) = Some (r, p') \<Longrightarrow> perf_inv p'"
  shows "daemon_inv st'"
  using assms by (auto simp: req_all_def on_svc_Some daemon_inv_def split: if_splits)

lemma req_lock_acq_inv:
  assumes "req_lock_acq env d st = Some (rsp, st')" "daemon_inv st" "request_ok env (MSG_PERF_LOCK_ACQ d) st"
  shows "daemon_inv st'"
proof (cases "powerdOnOff st = 0 \<or> \<not> buf_alloc env")
  case True
  then show ?thesis using assms by (auto simp: req_lock_acq_def)
next
  case False
  let ?st0 = "remove_scn_timer TIMER_MSG_PERF_LOCK_TIMEOUT (pl_hdl d) st"
  have c: "core_inv st" "perf_inv (svc st)" using assms(2) by (simp_all add: daemon_inv_def)
  note rm = remove_scn_timer_sched [OF c(1), where m = TIMER_MSG_PERF_LOCK_TIMEOUT and h = "pl_hdl d"]
  from False assms(1) obtain l hdl st1 where l: "acq_list d = Some l"
    and a: "on_svc (\<lambda>p. perfLockAcq env p l (pl_hdl d) (pl_pid d) (pl_reserved d) (pl_duration d) (pl_hint d)) ?st0 = Some (hdl, st1)"
    and s: "start_if_timed env (pl_duration d) hdl (Rsp_lock hdl) st1 = Some (rsp, st')"
    by (auto simp: req_lock_acq_def bind_eq_Some_conv)
  from a obtain p' where p': "perfLockAcq env (svc ?st0) l (pl_hdl d) (pl_pid d) (pl_reserved d) (pl_duration d) (pl_hint d) = Some (hdl, p')"
    "st1 = ?st0\<lparr>svc := p'\<rparr>" by (auto simp: on_svc_Some)
  have svc0: "svc ?st0 = svc st" using rm(4) by (simp add: core_rest_def)
  have ok: "call_ok env (C_acq l (pl_hdl d) (pl_pid d) (pl_reserved d) (pl_duration d) (pl_hint d)) (svc st)"
    and e: "wall_ok (wall env)" "fresh env st" using assms(3) l by (auto simp: request_ok_def)
  have "perf_inv p'" using run_call_inv [OF c(2) ok] p'(1) svc0 by simp
  then have inv1: "daemon_inv st1" using rm(1) p'(2) by (simp add: daemon_inv_def)
  have "hdl = pl_hdl d" if "hdl > 0" using acq_returns_handle [OF p'(1)] that by auto
  then have free: "find_timer TIMER_MSG_PERF_LOCK_TIMEOUT hdl st1 = -1" if "hdl > 0" using that rm(3) p'(2) by simp
  have fr: "fresh env st1" using rm(5) e(2) p'(2) by simp
  show ?thesis
  proof (cases "pl_duration d \<noteq> 0 \<and> hdl > 0")
    case True
    then have "start_scn_timer env TIMER_MSG_PERF_LOCK_TIMEOUT hdl (pl_duration d) st1 = Some st'" using s by (auto simp: start_if_timed_def)
    then show ?thesis using start_daemon [OF inv1 e(1) fr free, of "pl_duration d"] True by auto
  next
    case False
    then show ?thesis using s inv1 by (auto simp: start_if_timed_def)
  qed
qed

lemma req_cus_lock_inv:
  assumes "req_cus_lock env d st = Some (rsp, st')" "daemon_inv st" "env_ok env" "malloc_ok env"
  shows "daemon_inv st'"
proof (cases "powerdOnOff st = 0 \<or> \<not> buf_alloc env \<or> cl_hint d \<ge> MTKPOWER_HINT_NUM")
  case True
  then show ?thesis using assms(1,2) by (simp add: req_cus_lock_def)
next
  case False
  then obtain hdl st1 where a: "on_svc (\<lambda>p. perfCusLockHint env p (cus_list env) (cl_hint d) (cl_duration d) (cl_pid d)) st = Some (hdl, st1)"
    and s: "start_if_timed env (cl_duration d) hdl (Rsp_cus_lock hdl) st1 = Some (rsp, st')"
    using assms(1) unfolding req_cus_lock_def if_not_P [OF False] by (auto simp: bind_eq_Some_conv)
  from a have "hdl = 0" using cus_returns_zero by (auto simp: on_svc_Some)
  then have "st' = st1" using s by (simp add: start_if_timed_def)
  moreover have "daemon_inv st1"
    using assms(2-4) by (intro on_svc_inv [OF a]) (auto simp: daemon_inv_def intro: cus_lock_inv)
  ultimately show ?thesis by simp
qed

lemma req_timer_inv:
  assumes "req_timer env d st = Some (rsp, st')" "daemon_inv st" "request_ok env (MSG_TIMER_REQ d) st"
  shows "daemon_inv st'"
proof -
  have e: "wall_ok (wall env)" "fresh env st" using assms(3) by (auto simp: request_ok_def)
  have c: "core_inv st" using assms(2) by (simp add: daemon_inv_def)
  have "daemon_inv st'" if "(if td_duration d > 0 then start_scn_timer env m (td_data d) (td_duration d) (remove_scn_timer m (td_data d) st)
      else Some (remove_scn_timer m (td_data d) st)) = Some st'" for m
    using that remove_daemon [OF assms(2), of m "td_data d"] remove_scn_timer_sched(3,5) [OF c, where m = m and h = "td_data d"] e
      start_daemon [of "remove_scn_timer m (td_data d) st" env m "td_data d" "td_duration d"]
    by (auto split: if_splits)
  then show ?thesis using assms(1,2) by (auto simp: req_timer_def Let_def split: if_splits)
qed

lemma request_inv:
  assumes "powerd_req env msg st = Some (r, rsp, st')" "daemon_inv st" "request_ok env msg st"
  shows "daemon_inv st'"
proof (cases "rsp_alloc env")
  case False
  then show ?thesis using assms by (simp add: powerd_req_def)
next
  case True
  then obtain rsp' where s: "req_switch env msg st = Some (rsp', st')" using assms(1) by (auto simp: powerd_req_def)
  have e: "env_ok env" "malloc_ok env" and p: "perf_inv (svc st)" and c: "core_inv st"
    using assms(2,3) by (auto simp: request_ok_def daemon_inv_def)
  note call = run_call_inv [OF p simple_call_ok(1) [OF e]] run_call_inv [OF p simple_call_ok(2) [OF e]]
    run_call_inv [OF p simple_call_ok(3) [OF e]]
  show ?thesis
  proof (cases msg)
    case MSG_SCN_DISABLE_ALL
    then show ?thesis using s call(2) by (intro req_all_inv [OF _ assms(2)]) auto
  next
    case MSG_SCN_RESTORE_ALL
    then show ?thesis using s call(3) by (intro req_all_inv [OF _ assms(2)]) auto
  next
    case MSG_NOTIFY_STATE
    then show ?thesis using s p by (intro req_all_inv [OF _ assms(2)]) (auto simp: perfNotifyAppState_def)
  next
    case (MSG_QUERY_INFO cmd i)
    then show ?thesis
      using s c p assms(2,3) dump_inv [OF p e(1)] capability_inv [OF p env_ok_truncate [OF e(1)]]
      by (auto simp: req_query_def on_svc_Some daemon_inv_def request_ok_def split: if_splits)
  next
    case (MSG_SET_SYSINFO ty data)
    then show ?thesis
      using s c p set_sysinfo_inv [OF p env_ok_truncate [OF e(1)]]
      by (auto simp: req_sysinfo_def on_svc_Some daemon_inv_def split: if_splits)
  next
    case (MSG_PERF_LOCK_ACQ d)
    then show ?thesis using s assms(2,3) req_lock_acq_inv by simp
  next
    case (MSG_CUS_LOCK_HINT d)
    then show ?thesis using s assms(2) req_cus_lock_inv [OF _ assms(2) e] by simp
  next
    case (MSG_PERF_LOCK_REL h)
    then show ?thesis
      using s p assms(2) remove_daemon [OF assms(2)] remove_scn_timer_sched(4) [OF c, where m = 1 and h = h] call(1) [of h]
      by (auto simp: req_lock_rel_def on_svc_Some daemon_inv_def core_rest_def Let_def split: if_splits)
  next
    case (MSG_TIMER_REQ d)
    then show ?thesis using s assms(2,3) req_timer_inv by simp
  next
    case MSG_NO_BUF
    then show ?thesis using s assms(2) by simp
  qed
qed


section \<open>The event loop\<close>

text \<open>
  The timer part of \<open>_selectLoop\<close> (\<^verbatim>\<open>powerd.cpp\<close>): one expired timer is fetched and handed to the
  core with the slot its data points to.
\<close>

definition handle_expired :: "core_env \<Rightarrow> powerd \<Rightarrow> (int \<times> powerd) option" where
  "handle_expired env st =
     (let (r, t, d, q) = ptimer_mng_getexpired (gpTimerMng st) (wall env) (timers st); st1 = st\<lparr>timers := q\<rparr>
      in if r = 1 \<and> (t \<noteq> NULL \<or> d \<noteq> NULL) then powerd_core_timer_handle env t (d - 1) st1 else Some (0, st1))"

lemma periodic_daemon:
  assumes "daemon_inv st" "wall_ok (wall env)"
  shows "\<exists>st'. start_periodic_check_timer env False st = Some st' \<and> daemon_inv st'"
proof (cases "check_idx st \<ge> 0 \<and> check_idx st < int MAX_TIMER_COUNT")
  case True
  then have "nat (check_idx st) < MAX_TIMER_COUNT" by (simp add: nat_less_iff)
  with start_in_slot_inv [of st "nat (check_idx st)" env CHECK_USER_SCN_DURATION] assms True show ?thesis
    by (auto simp: start_periodic_check_timer_def daemon_inv_def core_rest_def)
next
  case False
  then show ?thesis using assms(1) by (auto simp: start_periodic_check_timer_def)
qed

lemma lock_timeout_drop:
  assumes "core_inv st" "i < MAX_TIMER_COUNT"
  shows "reset_timer (t_idx (slot st i)) (st\<lparr>svc := p, timers := ptimer_delete (p_pTimer (slot st i)) (timers st)\<rparr>) =
    (drop_slot i st)\<lparr>svc := p\<rparr>"
proof -
  have "t_idx (slot st i) = int i" using slots_wfD(3) [OF core_invD(2) [OF assms(1)]] core_invD(3) [OF assms(1)] assms(2) by simp
  then show ?thesis using assms(2) by (simp add: reset_timer_blank drop_slot_def ptimer_delete_def)
qed

lemma timer_handle_inv:
  assumes "powerd_core_timer_handle env t i st = Some (r, st')" "daemon_inv st" "i < MAX_TIMER_COUNT"
    and e: "env_ok env" "malloc_ok env" "wall_ok (wall env)"
  shows "daemon_inv st'"
proof -
  have c: "core_inv st" "perf_inv (svc st)" using assms(2) by (simp_all add: daemon_inv_def)
  consider "p_pTimer (slot st i) \<noteq> t \<or> powerdOnOff st = 0 \<or>
      (t_msg (slot st i) \<noteq> TIMER_MSG_PERF_LOCK_TIMEOUT \<and> t_msg (slot st i) \<noteq> TIMER_MSG_CHECK_USER_SCN_TIMEOUT)"
    | "p_pTimer (slot st i) = t" "powerdOnOff st \<noteq> 0" "t_msg (slot st i) = TIMER_MSG_PERF_LOCK_TIMEOUT"
    | "p_pTimer (slot st i) = t" "powerdOnOff st \<noteq> 0" "t_msg (slot st i) = TIMER_MSG_CHECK_USER_SCN_TIMEOUT" by blast
  then show ?thesis
  proof cases
    case 1
    then show ?thesis using assms(1,2) by (auto simp: powerd_core_timer_handle_def Let_def split: if_splits)
  next
    case 2
    then obtain r' p where p: "perfLockRel env (svc st) (t_handle (slot st i)) = Some (r', p)"
      "st' = reset_timer (t_idx (slot st i)) (st\<lparr>svc := p, timers := ptimer_delete (p_pTimer (slot st i)) (timers st)\<rparr>)"
      using assms(1) by (auto simp: powerd_core_timer_handle_def Let_def on_svc_Some bind_eq_Some_conv)
    have "perf_inv p" using run_call_inv [OF c(2) simple_call_ok(1) [OF e(1,2)]] p(1) by simp
    then show ?thesis
      using p(2) lock_timeout_drop [OF c(1) assms(3), of p] drop_slot_inv(1) [OF c(1) assms(3)] by (simp add: daemon_inv_def)
  next
    case 3
    then obtain r1 p1 r2 p2 where p: "perfUserScnCheckAll env (svc st) = Some (r1, p1)" "perfDumpAll env p1 0 = Some (r2, p2)"
      "start_periodic_check_timer env False (st\<lparr>svc := p2\<rparr>) = Some st'"
      using assms(1) by (auto simp: powerd_core_timer_handle_def Let_def on_svc_Some bind_eq_Some_conv)
    have "perf_inv p1" using run_call_inv [OF c(2) simple_call_ok(4) [OF e(1,2)]] p(1) by simp
    then have "perf_inv p2" using dump_inv e(1) p(2) by blast
    then have "daemon_inv (st\<lparr>svc := p2\<rparr>)" using c(1) by (simp add: daemon_inv_def)
    then show ?thesis using periodic_daemon [OF _ e(3)] p(3) by fastforce
  qed
qed

text \<open>What fetching an expired timer does to the state.\<close>

lemma fetch_expired:
  assumes "core_inv st" "wall_ok now" "ptimer_mng_getexpired (gpTimerMng st) now (timers st) = (r, t, d, q)"
  shows "core_inv (st\<lparr>timers := q\<rparr>)"
    "r = 1 \<Longrightarrow> \<exists>i dl. i < MAX_TIMER_COUNT \<and> p_pTimer (slot st i) = t \<and> t \<noteq> NULL \<and> d = slot_addr i \<and> armed_of st t = Some (d, dl) \<and>
        dl < wall_us now + 1000 \<and> armed_of (st\<lparr>timers := q\<rparr>) = (armed_of st)(t := None)"
    "r \<noteq> 1 \<Longrightarrow> q = timers st"
proof -
  note c = core_invD [OF assms(1)]
  note x = tq.expired_slot [OF c(1,2) assms(2,3)]
  show "core_inv (st\<lparr>timers := q\<rparr>)" using x(1,2) by (simp add: core_inv_def)
  show "\<exists>i dl. i < MAX_TIMER_COUNT \<and> p_pTimer (slot st i) = t \<and> t \<noteq> NULL \<and> d = slot_addr i \<and> armed_of st t = Some (d, dl) \<and>
        dl < wall_us now + 1000 \<and> armed_of (st\<lparr>timers := q\<rparr>) = (armed_of st)(t := None)" if "r = 1"
    using x(3) [OF that] c(3) by simp
  show "q = timers st" if "r \<noteq> 1" by (rule x(4) [OF that])
qed

lemma handle_expired_inv:
  assumes "handle_expired env st = Some (r, st')" "daemon_inv st" "env_ok env" "malloc_ok env" "wall_ok (wall env)"
  shows "daemon_inv st'"
proof -
  obtain r1 t d q where g: "ptimer_mng_getexpired (gpTimerMng st) (wall env) (timers st) = (r1, t, d, q)" by (metis prod_cases4)
  have c: "core_inv st" using assms(2) by (simp add: daemon_inv_def)
  note f = fetch_expired [OF c assms(5) g]
  have inv: "daemon_inv (st\<lparr>timers := q\<rparr>)" using f(1) assms(2) by (simp add: daemon_inv_def)
  show ?thesis
  proof (cases "r1 = 1")
    case True
    then obtain i where i: "i < MAX_TIMER_COUNT" "t \<noteq> NULL" "d = slot_addr i" using f(2) by blast
    then have "powerd_core_timer_handle env t i (st\<lparr>timers := q\<rparr>) = Some (r, st')"
      using assms(1) g True by (simp add: handle_expired_def slot_addr_def)
    from timer_handle_inv [OF this inv i(1) assms(3-5)] show ?thesis .
  next
    case False
    then show ?thesis using assms(1) g inv by (simp add: handle_expired_def)
  qed
qed

end
