(* ===== verification/Powerd_Props.thy ===== *)
theory Powerd_Props
  imports Powerd_Core
begin

text \<open>
  Properties of the daemon: its invariant over every sequence of requests and expiries, the
  requests as operations on an abstract schedule, that requests always end, that a timed lock ends
  with its timer, and the timers that are lost.
\<close>

section \<open>Starting the daemon\<close>

definition boot_slots :: "tTimer list" where
  "boot_slots = map (\<lambda>i. \<lparr>t_used = 0, t_idx = int i, t_msg = -1, t_handle = -1, p_pTimer = NULL\<rparr>) [0..<MAX_TIMER_COUNT]"

lemma boot_slots_wf: "slots_wf (\<lambda>_. None) boot_slots"
  by (rule slots_wfI) (simp_all add: boot_slots_def slot_blank_def event_slot_def)

lemma boot_slot_first: "slot_from (\<lambda>t. t_used t = 0) boot_slots 0 = 0"
proof -
  have "[0..<MAX_TIMER_COUNT] = 0 # [Suc 0..<MAX_TIMER_COUNT]" by (rule upt_conv_Cons) simp
  then show ?thesis unfolding boot_slots_def by (simp only: list.map slot_from.simps) simp
qed

lemma core_init_inv:
  assumes "queue_inv m (timers st)" "armed m (timers st) = (\<lambda>_. None)" "perf_inv (svc st)" "wall_ok (wall env)"
  shows "\<exists>st'. powerd_core_init env m st = Some st' \<and> daemon_inv st' \<and> svc st' = svc st"
proof -
  define st0 where "st0 = st\<lparr>gpTimerMng := m, powerdTimer := boot_slots, check_idx := 0\<rparr>"
  have c: "core_inv st0" using assms(1,2) boot_slots_wf by (simp add: core_inv_def st0_def)
  have u: "t_used (slot st0 0) = 0" "fresh env st0" "find_timer 3 0 st0 = -1"
  proof -
    show "t_used (slot st0 0) = 0" "fresh env st0" by (auto simp: st0_def boot_slots_def fresh_def)
    show "find_timer 3 0 st0 = -1"
      using c
    proof (cases rule: find_timer_cases [where m = 3 and h = 0])
      case (some i)
      then show ?thesis by (simp add: st0_def boot_slots_def event_slot_def)
    qed
  qed
  let ?f = "filled env 0 3 0 st0"
  note f = filled_inv [OF c _ u(1,3,2), simplified]
  have run: "powerd_core_init env m st = start_in_slot env 0 CHECK_USER_SCN_DURATION ?f"
    using create_fill [OF c _ u(1), where env = env and m = 3 and h = 0] f(3)
    by (simp add: powerd_core_init_def start_periodic_check_timer_def allocate_timer_def
        boot_slots_def [symmetric] boot_slot_first st0_def core_rest_def)
  from start_in_slot_inv [OF f(1) _ assms(4), of 0 CHECK_USER_SCN_DURATION] obtain st' where
    "start_in_slot env 0 CHECK_USER_SCN_DURATION ?f = Some st'" "core_inv st'" "core_rest st' = core_rest ?f" by auto
  then show ?thesis using run f(3) assms(3) by (auto simp: daemon_inv_def core_rest_def st0_def)
qed

section \<open>Every sequence of requests and expiries\<close>

text \<open>The daemon starts with \<open>ptimer_mng_create\<close> and \<open>powerd_core_init\<close>, as \<open>_selectLoop\<close> does.\<close>

inductive daemon_reach :: "powerd \<Rightarrow> powerd \<Rightarrow> bool" where
  daemon_start: "wall_ok (wall env) \<Longrightarrow> ptimer_mng_create new (timers st0) = (0, m, q) \<Longrightarrow>
    powerd_core_init env m (st0\<lparr>timers := q\<rparr>) = Some st \<Longrightarrow> daemon_reach st0 st"
| daemon_request: "daemon_reach st0 st \<Longrightarrow> request_ok env msg st \<Longrightarrow> powerd_req env msg st = Some (r, rsp, st') \<Longrightarrow> daemon_reach st0 st'"
| daemon_expiry: "daemon_reach st0 st \<Longrightarrow> env_ok env \<Longrightarrow> malloc_ok env \<Longrightarrow> wall_ok (wall env) \<Longrightarrow>
    handle_expired env st = Some (r, st') \<Longrightarrow> daemon_reach st0 st'"

text \<open>Before the daemon starts no timer runs and the service was not used yet.\<close>

definition daemon_boot :: "powerd \<Rightarrow> bool" where
  "daemon_boot st \<longleftrightarrow> (\<forall>t. pMng (pt_timer (timers st) t) = NULL) \<and> boot_ok (svc st) \<and> \<not> nIsReady (svc st)"

lemma daemon_boot_queue:
  assumes "daemon_boot st" "ptimer_mng_create new (timers st) = (0, m, q)"
  shows "queue_inv m q" "armed m q = (\<lambda>_. None)"
proof -
  have m: "m = new" "new \<noteq> NULL" "pt_timer q = pt_timer (timers st)"
    using assms(2) by (auto simp: ptimer_mng_create_def split: if_splits)
  have idle: "pMng (pt_timer (timers st) t) = NULL" for t using assms(1) by (simp add: daemon_boot_def)
  have "mng_inv m [] q" using mng_create_inv [of new "timers st"] assms(2) m(1,2) idle by simp
  then show "queue_inv m q" using idle m(3) by (auto simp: queue_inv_def usec_ok_def)
  show "armed m q = (\<lambda>_. None)" using idle m by (auto simp: armed_def)
qed

lemma daemon_reach_inv: "daemon_reach st0 st \<Longrightarrow> daemon_boot st0 \<Longrightarrow> daemon_inv st"
proof (induction rule: daemon_reach.induct)
  case (daemon_start env new st0 m q st)
  have "perf_inv (svc st0)" using daemon_start(4) by (simp add: daemon_boot_def perf_inv_def)
  then show ?case
    using core_init_inv [of m "st0\<lparr>timers := q\<rparr>" env] daemon_boot_queue [OF daemon_start(4,2)] daemon_start(1,3) by auto
qed (auto intro: request_inv handle_expired_inv)


section \<open>Requests on the schedule\<close>

lemma has_room_remove: "core_inv st \<Longrightarrow> has_room env st \<Longrightarrow> has_room env (remove_scn_timer m h st)"
proof (rule remove_scn_timer_cases [of st m h])
  fix i assume c: "core_inv st" "has_room env st" and i: "i < MAX_TIMER_COUNT" "remove_scn_timer m h st = drop_slot i st"
  have "blank_slot (slot st i) \<in> set (powerdTimer (drop_slot i st))"
    using i(1) core_invD(3) [OF c(1)] by (simp add: drop_slot_def set_update_memI)
  then have "\<exists>t \<in> set (powerdTimer (drop_slot i st)). t_used t = 0" by (metis blank_slot_simps(1))
  then show "has_room env (remove_scn_timer m h st)" using c(2) i(2) by (simp add: has_room_def)
qed auto

text \<open>The deadline of a timer started now.\<close>

definition due_at :: "core_env \<Rightarrow> int \<Rightarrow> nat" where
  "due_at env ms = wall_us (wall env) + unat (word_of_int ms :: u64) * 1000"

lemma restart_sched:
  assumes "core_inv st" "wall_ok (wall env)" "fresh env st" "has_room env st"
  shows "\<exists>st'. start_scn_timer env m h ms (remove_scn_timer m h st) = Some st' \<and> core_inv st' \<and> core_rest st' = core_rest st \<and>
    sched st' = (sched st)((m, h) \<mapsto> due_at env ms)"
  using start_scn_timer_sched [OF remove_scn_timer_sched(1) [OF assms(1)] assms(2) remove_scn_timer_sched(5) [OF assms(1,3)]
      remove_scn_timer_sched(3) [OF assms(1)], of m h ms]
    remove_scn_timer_sched(2,4) [OF assms(1), where m = m and h = h] has_room_remove [OF assms(1,4), of m h]
  by (auto simp: due_at_def)

lemma due_at_nat: "0 \<le> ms \<Longrightarrow> ms \<le> INT_MAX \<Longrightarrow> due_at env ms = wall_us (wall env) + nat ms * 1000"
  by (simp add: due_at_def unsigned_of_int take_bit_int_eq_self)

text \<open>
  C10. Timer requests act on the schedule of the daemon as on a finite map from events to deadlines:
  with a free slot and memory, a request with a positive duration sets the deadline of its event to
  the current time plus the duration (replacing an earlier one), a request without one clears it,
  and releasing a lock clears the deadline of the lock. No other event is affected. In
  particular a released handle that is given out again is not released by the old timer.
\<close>

theorem timer_requests_refine:
  assumes "core_inv st" "wall_ok (wall env)" "fresh env st" "has_room env st" "rsp_alloc env"
    and "td_type d = TIMER_PERF_LOCK_DURATION \<and> ev = (TIMER_MSG_PERF_LOCK_TIMEOUT, td_data d) \<or>
      td_type d = TIMER_HINT_DURATION \<and> ev = (TIMER_MSG_POWER_HINT_ENABLE_TIMEOUT, td_data d)"
    and "td_duration d \<le> INT_MAX" "nIsReady (svc st)" "powerdOnOff st \<noteq> 0"
  shows "(\<exists>st'. powerd_req env (MSG_TIMER_REQ d) st = Some (0, Some Rsp_empty, st') \<and> svc st' = svc st \<and>
      sched st' = (sched st)(ev := if td_duration d > 0 then Some (wall_us (wall env) + nat (td_duration d) * 1000) else None)) \<and>
    (\<exists>st'. powerd_req env (MSG_PERF_LOCK_REL h) st = Some (0, Some Rsp_empty, st') \<and>
      sched st' = (sched st)((TIMER_MSG_PERF_LOCK_TIMEOUT, h) := None))"
proof
  obtain m where m: "ev = (m, td_data d)"
    "td_type d = TIMER_PERF_LOCK_DURATION \<and> m = TIMER_MSG_PERF_LOCK_TIMEOUT \<or>
     td_type d = TIMER_HINT_DURATION \<and> m = TIMER_MSG_POWER_HINT_ENABLE_TIMEOUT" using assms(6) by auto
  have req: "req_timer env d st = map_option (\<lambda>st'. (Rsp_empty, st')) (if td_duration d > 0
      then start_scn_timer env m (td_data d) (td_duration d) (remove_scn_timer m (td_data d) st)
      else Some (remove_scn_timer m (td_data d) st))"
    using m(2) by (auto simp: req_timer_def Let_def)
  note rm = remove_scn_timer_sched [OF assms(1)]
  show "\<exists>st'. powerd_req env (MSG_TIMER_REQ d) st = Some (0, Some Rsp_empty, st') \<and> svc st' = svc st \<and>
      sched st' = (sched st)(ev := if td_duration d > 0 then Some (wall_us (wall env) + nat (td_duration d) * 1000) else None)"
  proof (cases "td_duration d > 0")
    case True
    with restart_sched [OF assms(1-4), of m "td_data d" "td_duration d"] due_at_nat [of "td_duration d" env] assms(5,7) req m(1)
    show ?thesis by (auto simp: powerd_req_def core_rest_def)
  next
    case False
    then show ?thesis using req rm(2) [of m "td_data d"] rm(4) [of m "td_data d"] assms(5) m(1)
      by (simp add: powerd_req_def core_rest_def)
  qed
  let ?st1 = "remove_scn_timer TIMER_MSG_PERF_LOCK_TIMEOUT h st"
  have s: "svc ?st1 = svc st" using rm(4) by (simp add: core_rest_def)
  have "\<exists>st'. req_lock_rel env h st = Some (Rsp_empty, st') \<and> sched st' = sched ?st1"
    using assms(8,9) s by (auto simp: req_lock_rel_def Let_def on_svc_def perfLockRel_def ready_fun split: prod.splits)
  then show "\<exists>st'. powerd_req env (MSG_PERF_LOCK_REL h) st = Some (0, Some Rsp_empty, st') \<and>
      sched st' = (sched st)((TIMER_MSG_PERF_LOCK_TIMEOUT, h) := None)"
    using assms(5) rm(2) by (auto simp: powerd_req_def)
qed


section \<open>Requests end\<close>

lemma ready_total: "nIsReady st \<Longrightarrow> \<exists>r st'. when_ready env st f = Some (r, st')"
  by (simp add: ready_fun)

lemma svc_total:
  assumes "nIsReady p"
  shows "\<exists>r p'. perfLockAcq env p l h pp t d hint = Some (r, p')" "\<exists>r p'. perfLockRel env p h = Some (r, p')"
    "\<exists>r p'. perfUserScnDisableAll env p = Some (r, p')" "\<exists>r p'. perfUserScnRestoreAll env p = Some (r, p')"
    "\<exists>r p'. perfDumpAll env p c = Some (r, p')" "\<exists>r p'. perfUserGetCapability env' p c i = Some (r, p')"
    "\<exists>r p'. perfSetSysInfo env' p ty data = Some (r, p')" "\<exists>r p'. perfUserScnCheckAll env p = Some (r, p')"
  using ready_total [OF assms] unfolding perfLockAcq_def perfLockRel_def perfUserScnDisableAll_def perfUserScnRestoreAll_def
    perfDumpAll_def perfUserGetCapability_def perfSetSysInfo_def perfUserScnCheckAll_def by auto

lemma cus_total: "nIsReady p \<Longrightarrow> \<exists>r p'. perfCusLockHint env p l hint d pp = Some (r, p')"
  using svc_total(1) [of p env _ 0 pp 0 d hint] by (simp add: perfCusLockHint_def Let_def)

lemma on_svc_total: "\<exists>r p'. f (svc st) = Some (r, p') \<Longrightarrow> \<exists>r p'. on_svc f st = Some (r, st\<lparr>svc := p'\<rparr>) \<and> f (svc st) = Some (r, p')"
  by (auto simp: on_svc_def)

lemma req_all_total: "\<exists>r p'. f (svc st) = Some (r, p') \<Longrightarrow> \<exists>rsp st'. req_all f st = Some (rsp, st')"
  by (auto simp: req_all_def on_svc_def)

lemma req_lock_acq_total:
  assumes "core_inv st" "nIsReady (svc st)" "request_ok env (MSG_PERF_LOCK_ACQ d) st"
  shows "\<exists>rsp st'. req_lock_acq env d st = Some (rsp, st')"
proof (cases "powerdOnOff st = 0 \<or> \<not> buf_alloc env")
  case True
  then show ?thesis by (auto simp: req_lock_acq_def)
next
  case False
  let ?st0 = "remove_scn_timer TIMER_MSG_PERF_LOCK_TIMEOUT (pl_hdl d) st"
  note rm = remove_scn_timer_sched [OF assms(1), where m = TIMER_MSG_PERF_LOCK_TIMEOUT and h = "pl_hdl d"]
  obtain l where l: "acq_list d = Some l" using assms(3) by (auto simp: request_ok_def split: option.splits)
  let ?f = "\<lambda>p. perfLockAcq env p l (pl_hdl d) (pl_pid d) (pl_reserved d) (pl_duration d) (pl_hint d)"
  have "svc ?st0 = svc st" using rm(4) by (simp add: core_rest_def)
  then have "\<exists>r p'. ?f (svc ?st0) = Some (r, p')" using svc_total(1) assms(2) by metis
  then obtain r p' where a: "on_svc ?f ?st0 = Some (r, ?st0\<lparr>svc := p'\<rparr>)" "?f (svc ?st0) = Some (r, p')"
    using on_svc_total [of ?f ?st0] by auto
  have "find_timer TIMER_MSG_PERF_LOCK_TIMEOUT r (?st0\<lparr>svc := p'\<rparr>) = -1" if "r > 0"
    using acq_returns_handle [OF a(2)] rm(3) that by auto
  moreover have "core_inv (?st0\<lparr>svc := p'\<rparr>)" "fresh env (?st0\<lparr>svc := p'\<rparr>)" "wall_ok (wall env)"
    using rm(1,5) assms(3) by (auto simp: request_ok_def)
  ultimately have "\<exists>st'. start_if_timed env (pl_duration d) r (Rsp_lock r) (?st0\<lparr>svc := p'\<rparr>) = Some (Rsp_lock r, st')"
    using start_scn_timer_sched [of "?st0\<lparr>svc := p'\<rparr>" env TIMER_MSG_PERF_LOCK_TIMEOUT r "pl_duration d"]
    by (auto simp: start_if_timed_def)
  then show ?thesis using False l a(1) by (auto simp: req_lock_acq_def)
qed

lemma req_timer_total:
  assumes "core_inv st" "wall_ok (wall env)" "fresh env st"
  shows "\<exists>rsp st'. req_timer env d st = Some (rsp, st')"
proof -
  have "\<exists>st'. start_scn_timer env m h ms (remove_scn_timer m h st) = Some st'" for m h ms
    using start_scn_timer_sched [OF remove_scn_timer_sched(1) [OF assms(1)] assms(2) remove_scn_timer_sched(5) [OF assms(1,3)]
        remove_scn_timer_sched(3) [OF assms(1)], of m h ms] by blast
  then show ?thesis by (auto simp: req_timer_def Let_def)
qed

lemma request_total:
  assumes "core_inv st" "nIsReady (svc st)" "request_ok env msg st"
  shows "\<exists>rsp st'. req_switch env msg st = Some (rsp, st')"
proof (cases msg)
  case (MSG_QUERY_INFO cmd i)
  then show ?thesis
    using on_svc_total [of "\<lambda>p. perfDumpAll env p i" st] on_svc_total [of "\<lambda>p. perfUserGetCapability (sys_env.truncate env) p cmd i" st]
      svc_total(5,6) [OF assms(2)] by (fastforce simp: req_query_def)
next
  case (MSG_SET_SYSINFO ty data)
  then show ?thesis
    using on_svc_total [of "\<lambda>p. perfSetSysInfo (sys_env.truncate env) p ty (Some data)" st] svc_total(7) [OF assms(2)]
    by (fastforce simp: req_sysinfo_def)
next
  case (MSG_CUS_LOCK_HINT d)
  let ?f = "\<lambda>p. perfCusLockHint env p (cus_list env) (cl_hint d) (cl_duration d) (cl_pid d)"
  obtain r p' where "on_svc ?f st = Some (r, st\<lparr>svc := p'\<rparr>)" "?f (svc st) = Some (r, p')"
    using on_svc_total [of ?f st] cus_total [OF assms(2)] by blast
  then show ?thesis using cus_returns_zero MSG_CUS_LOCK_HINT by (fastforce simp: req_cus_lock_def start_if_timed_def)
next
  case (MSG_PERF_LOCK_REL h)
  have "svc (remove_scn_timer 1 h st) = svc st" using remove_scn_timer_sched(4) [OF assms(1)] by (simp add: core_rest_def)
  then show ?thesis
    using on_svc_total [of "\<lambda>p. perfLockRel env p h" "remove_scn_timer 1 h st"] svc_total(2) [OF assms(2)] MSG_PERF_LOCK_REL
    by (fastforce simp: req_lock_rel_def Let_def)
next
  case (MSG_TIMER_REQ d)
  then show ?thesis using req_timer_total [OF assms(1), of env d] assms(3) by (simp add: request_ok_def)
next
  case MSG_SCN_DISABLE_ALL
  then show ?thesis using req_all_total [of "perfUserScnDisableAll env" st] svc_total(3) [OF assms(2), of env] by simp
next
  case MSG_SCN_RESTORE_ALL
  then show ?thesis using req_all_total [of "perfUserScnRestoreAll env" st] svc_total(4) [OF assms(2), of env] by simp
next
  case MSG_NOTIFY_STATE
  then show ?thesis using req_all_total [of "\<lambda>p. Some (perfNotifyAppState p)" st] by (simp add: perfNotifyAppState_def)
qed (use req_lock_acq_total [OF assms(1,2)] assms(3) in auto)


lemma expiry_total:
  assumes "daemon_inv st" "nIsReady (svc st)" "wall_ok (wall env)"
  shows "\<exists>r st'. handle_expired env st = Some (r, st')"
proof -
  have c: "core_inv st" and s: "service_inv (svc st)" using assms(1,2) by (auto simp: daemon_inv_def perf_inv_def)
  obtain r t d q where g: "ptimer_mng_getexpired (gpTimerMng st) (wall env) (timers st) = (r, t, d, q)" by (metis prod_cases4)
  let ?st = "st\<lparr>timers := q\<rparr>" and ?i = "d - 1"
  have c1: "core_inv ?st" by (rule fetch_expired(1) [OF c assms(3) g])
  obtain r1 p1 where p1: "perfUserScnCheckAll env (svc st) = Some (r1, p1)" using svc_total(8) [OF assms(2)] by blast
  have "nIsReady p1"
  proof (cases "scnCheckSupport (svc st) = 0")
    case True
    then show ?thesis using p1 assms(2) by (simp add: perfUserScnCheckAll_def)
  next
    case False
    then have "p1 = check_all_users env (svc st)" using p1 assms(2) by (simp add: perfUserScnCheckAll_def ready_fun)
    then show ?thesis using service_inv_check_all [OF s, of env] by (simp add: service_inv_def)
  qed
  then obtain r2 p2 where p2: "perfDumpAll env p1 0 = Some (r2, p2)" using svc_total(5) by blast
  obtain r3 p3 where p3: "perfLockRel env (svc st) (t_handle (slot ?st ?i)) = Some (r3, p3)" using svc_total(2) [OF assms(2)] by blast
  have "\<exists>st'. start_periodic_check_timer env False (?st\<lparr>svc := p2\<rparr>) = Some st'"
  proof (cases "check_idx st \<ge> 0 \<and> check_idx st < int MAX_TIMER_COUNT")
    case True
    then have "nat (check_idx st) < MAX_TIMER_COUNT" by (simp add: nat_less_iff)
    then show ?thesis using start_in_slot_inv [of "?st\<lparr>svc := p2\<rparr>" "nat (check_idx st)" env CHECK_USER_SCN_DURATION] c1 assms(3) True
      by (auto simp: start_periodic_check_timer_def)
  qed (auto simp: start_periodic_check_timer_def)
  then have "\<exists>r st'. powerd_core_timer_handle env t ?i ?st = Some (r, st')"
    using p1 p2 p3 by (auto simp: powerd_core_timer_handle_def Let_def on_svc_def)
  then show ?thesis using g by (auto simp: handle_expired_def Let_def)
qed

text \<open>
  C18. Every request and every expiry ends, also the search that inserts a timer into the queue,
  and the daemon is consistent afterwards: on a ready service no message makes the daemon
  hang.
\<close>

theorem request_completes:
  assumes "daemon_inv st" "nIsReady (svc st)" "request_ok env msg st"
  shows "(\<exists>r rsp st'. powerd_req env msg st = Some (r, rsp, st') \<and> daemon_inv st') \<and>
    (\<exists>r st'. handle_expired env st = Some (r, st') \<and> daemon_inv st')"
proof
  have c: "core_inv st" using assms(1) by (simp add: daemon_inv_def)
  have e: "env_ok env" "malloc_ok env" "wall_ok (wall env)" using assms(3) by (auto simp: request_ok_def)
  have "\<exists>r rsp st'. powerd_req env msg st = Some (r, rsp, st')"
    using request_total [OF c assms(2,3)] by (auto simp: powerd_req_def)
  then show "\<exists>r rsp st'. powerd_req env msg st = Some (r, rsp, st') \<and> daemon_inv st'"
    using request_inv [OF _ assms(1,3)] by blast
  show "\<exists>r st'. handle_expired env st = Some (r, st') \<and> daemon_inv st'"
    using expiry_total [OF assms(1,2) e(3)] handle_expired_inv [OF _ assms(1) e] by blast
qed


section \<open>A timed lock\<close>

lemma rel_any_env: "nIsReady st \<Longrightarrow> perfLockRel env st h = perfLockRel env' st h"
  by (simp add: perfLockRel_def ready_fun)

text \<open>Acquiring an idle handle and releasing it through requests.\<close>

lemma lock_request:
  assumes "daemon_inv st" "request_ok env (MSG_PERF_LOCK_ACQ d) st" "rsp_alloc env" "buf_alloc env" "powerdOnOff st \<noteq> 0"
    and "acq_list d = Some l" "can_acquire env (svc st) l (pl_hdl d) i" "nIsReady (svc st)"
    and "scn_state (ptScnList (svc st) ! i) \<noteq> STATE_ON" "0 < pl_hdl d"
  shows "\<exists>st1 p2. powerd_req env (MSG_PERF_LOCK_ACQ d) st = Some (0, Some (Rsp_lock (pl_hdl d)), st1) \<and>
    daemon_inv st1 \<and> powerdOnOff st1 = powerdOnOff st \<and> nIsReady (svc st1) \<and> scn_state (ptScnList (svc st1) ! i) = STATE_ON \<and>
    sched st1 = (sched st)((TIMER_MSG_PERF_LOCK_TIMEOUT, pl_hdl d) :=
      if pl_duration d \<noteq> 0 \<and> has_room env (remove_scn_timer TIMER_MSG_PERF_LOCK_TIMEOUT (pl_hdl d) st) then Some (due_at env (pl_duration d)) else None) \<and>
    perfLockRel env (svc st1) (pl_hdl d) = Some (0, p2) \<and> scn_type (ptScnList p2 ! i) = -1 \<and> settings p2 = settings (svc st)"
proof -
  have c: "core_inv st" and s: "service_inv (svc st)" using assms(1,8) by (auto simp: daemon_inv_def perf_inv_def)
  let ?h = "pl_hdl d" and ?m = TIMER_MSG_PERF_LOCK_TIMEOUT
  let ?st0 = "remove_scn_timer ?m ?h st"
  note rm = remove_scn_timer_sched [OF c, where m = ?m and h = ?h]
  have rest: "svc ?st0 = svc st" "powerdOnOff ?st0 = powerdOnOff st" using rm(4) by (simp_all add: core_rest_def)
  from acquire_release [OF s assms(7,9), of "pl_pid d" "pl_reserved d" "pl_duration d" "pl_hint d"]
  obtain p1 p2 where p: "perfLockAcq env (svc st) l ?h (pl_pid d) (pl_reserved d) (pl_duration d) (pl_hint d) = Some (?h, p1)"
    "scn_state (ptScnList p1 ! i) = STATE_ON" "perfLockRel env p1 ?h = Some (0, p2)" "scn_type (ptScnList p2 ! i) = -1"
    "settings p2 = settings (svc st)" "nIsReady p1" by blast
  let ?st1 = "?st0\<lparr>svc := p1\<rparr>"
  have e: "wall_ok (wall env)" "fresh env st" using assms(2) by (auto simp: request_ok_def)
  have c1: "core_inv ?st1" "fresh env ?st1" "find_timer ?m ?h ?st1 = -1" "has_room env ?st1 = has_room env ?st0" "sched ?st1 = (sched st)((?m, ?h) := None)"
    using rm(1,2,3,5) e(2) by (simp_all add: has_room_def)
  define st1 where "st1 = (if pl_duration d \<noteq> 0 then the (start_scn_timer env ?m ?h (pl_duration d) ?st1) else ?st1)"
  have t: "(if pl_duration d \<noteq> 0 then start_scn_timer env ?m ?h (pl_duration d) ?st1 else Some ?st1) = Some st1"
    "core_rest st1 = core_rest ?st1"
    "sched st1 = (sched st)((?m, ?h) := if pl_duration d \<noteq> 0 \<and> has_room env ?st0 then Some (due_at env (pl_duration d)) else None)"
    using start_scn_timer_sched [OF c1(1) e(1) c1(2,3), of "pl_duration d"] c1(4,5) by (auto simp: st1_def due_at_def)
  have run: "powerd_req env (MSG_PERF_LOCK_ACQ d) st = Some (0, Some (Rsp_lock ?h), st1)"
    using assms(3-6,10) t(1) p(1) rest(1) by (auto simp: powerd_req_def req_lock_acq_def on_svc_def start_if_timed_def)
  moreover have "svc st1 = p1" "powerdOnOff st1 = powerdOnOff st" using t(2) rest by (simp_all add: core_rest_def)
  ultimately show ?thesis using request_inv [OF run assms(1,2)] t(3) p by blast
qed

lemma release_request:
  assumes "core_inv st" "powerdOnOff st \<noteq> 0" "nIsReady (svc st)" "rsp_alloc env" "h \<noteq> 0" "perfLockRel env' (svc st) h = Some (r, p2)"
  shows "\<exists>st'. powerd_req env (MSG_PERF_LOCK_REL h) st = Some (0, Some Rsp_empty, st') \<and> svc st' = p2 \<and>
    sched st' = (sched st)((TIMER_MSG_PERF_LOCK_TIMEOUT, h) := None)"
  using remove_scn_timer_sched(2,4) [OF assms(1), of TIMER_MSG_PERF_LOCK_TIMEOUT h] rel_any_env [OF assms(3), of env h env'] assms(2,4-6)
  by (auto simp: powerd_req_def req_lock_rel_def Let_def on_svc_def core_rest_def)

lemma timed_acquire:
  assumes "daemon_inv st" "request_ok env (MSG_PERF_LOCK_ACQ d) st" "rsp_alloc env" "buf_alloc env" "powerdOnOff st \<noteq> 0"
    and "acq_list d = Some l" "can_acquire env (svc st) l (pl_hdl d) i" "nIsReady (svc st)"
    and "scn_state (ptScnList (svc st) ! i) \<noteq> STATE_ON" "0 < pl_duration d" "pl_duration d \<le> INT_MAX" "0 < pl_hdl d" "has_room env st"
  shows "\<exists>st1 p2. powerd_req env (MSG_PERF_LOCK_ACQ d) st = Some (0, Some (Rsp_lock (pl_hdl d)), st1) \<and>
    core_inv st1 \<and> powerdOnOff st1 = powerdOnOff st \<and> nIsReady (svc st1) \<and> scn_state (ptScnList (svc st1) ! i) = STATE_ON \<and>
    sched st1 = (sched st)((TIMER_MSG_PERF_LOCK_TIMEOUT, pl_hdl d) \<mapsto> wall_us (wall env) + nat (pl_duration d) * 1000) \<and>
    perfLockRel env (svc st1) (pl_hdl d) = Some (0, p2) \<and> scn_type (ptScnList p2 ! i) = -1 \<and> settings p2 = settings (svc st)"
proof -
  have "core_inv st" using assms(1) by (simp add: daemon_inv_def)
  then show ?thesis
    using lock_request [OF assms(1-9,12)] has_room_remove [OF _ assms(13)] due_at_nat [of "pl_duration d" env] assms(10,11)
    by (auto simp: daemon_inv_def)
qed

lemma lock_expiry:
  assumes "core_inv st" "powerdOnOff st \<noteq> 0" "nIsReady (svc st)" "wall_ok (wall env')"
    and "ptimer_mng_getexpired (gpTimerMng st) (wall env') (timers st) = (1, t, slot_addr k, q)"
    and "event_slot TIMER_MSG_PERF_LOCK_TIMEOUT h (slot st k)" "perfLockRel env (svc st) h = Some (0, p2)"
  shows "\<exists>st2. handle_expired env' st = Some (0, st2) \<and> svc st2 = p2 \<and>
    sched st2 = (sched st)((TIMER_MSG_PERF_LOCK_TIMEOUT, h) := None)"
proof -
  note f = fetch_expired [OF assms(1,4,5)]
  let ?st = "st\<lparr>timers := q\<rparr>"
  from f(2) obtain i where i: "i < MAX_TIMER_COUNT" "p_pTimer (slot st i) = t" "t \<noteq> NULL" "slot_addr k = slot_addr i"
    "armed_of ?st = (armed_of st)(t := None)" by blast
  then have k: "k = i" by (simp add: slot_addr_def)
  have ev: "event_slot TIMER_MSG_PERF_LOCK_TIMEOUT h (slot ?st i)" using assms(6) k by simp
  have "handle_expired env' st = Some (0, (drop_slot i ?st)\<lparr>svc := p2\<rparr>)"
    using assms(2,5,7) i(2,3) k ev rel_any_env [OF assms(3), of env' h env] lock_timeout_drop [OF f(1) i(1), of p2]
    by (simp add: handle_expired_def powerd_core_timer_handle_def Let_def on_svc_def slot_addr_def event_slot_def)
  moreover have "sched (drop_slot i ?st) = (sched st)((TIMER_MSG_PERF_LOCK_TIMEOUT, h) := None)"
  proof -
    have "drop_slot i ?st = drop_slot i st"
    proof -
      have "q = ptimer_stop t (timers st)" using queue_expired [OF core_invD(1) [OF assms(1)] assms(4,5)] by auto
      then show ?thesis using i(2) by (simp add: drop_slot_def ptimer_stop_stop)
    qed
    then show ?thesis using drop_slot_sched(1) [OF assms(1) i(1)] ev by simp
  qed
  ultimately show ?thesis by (intro exI [of _ "(drop_slot i ?st)\<lparr>svc := p2\<rparr>"]) simp
qed

text \<open>
  C11. A timed lock ends by itself. For a registered handle that is idle, an acquire with a positive
  duration answers with the handle, turns its scenario on and schedules its timeout for the current
  time plus the duration. When the event loop then fetches the timer of this timeout, the lock
  is released: every managed node and resource has the value it had before the acquire, the slot of
  the scenario is free and the timeout is off the schedule.
\<close>

theorem timed_lock_expires:
  assumes "daemon_inv st" "request_ok env (MSG_PERF_LOCK_ACQ d) st" "rsp_alloc env" "buf_alloc env" "powerdOnOff st \<noteq> 0"
    and "acq_list d = Some l" "can_acquire env (svc st) l (pl_hdl d) i" "nIsReady (svc st)"
    and "scn_state (ptScnList (svc st) ! i) \<noteq> STATE_ON" "0 < pl_duration d" "pl_duration d \<le> INT_MAX" "0 < pl_hdl d" "has_room env st"
  shows "\<exists>st1. powerd_req env (MSG_PERF_LOCK_ACQ d) st = Some (0, Some (Rsp_lock (pl_hdl d)), st1) \<and>
    scn_state (ptScnList (svc st1) ! i) = STATE_ON \<and>
    sched st1 = (sched st)((TIMER_MSG_PERF_LOCK_TIMEOUT, pl_hdl d) \<mapsto> wall_us (wall env) + nat (pl_duration d) * 1000) \<and>
    (\<forall>env' t k q. wall_ok (wall env') \<and> event_slot TIMER_MSG_PERF_LOCK_TIMEOUT (pl_hdl d) (slot st1 k) \<and>
        ptimer_mng_getexpired (gpTimerMng st1) (wall env') (timers st1) = (1, t, slot_addr k, q) \<longrightarrow>
      (\<exists>st2. handle_expired env' st1 = Some (0, st2) \<and> settings (svc st2) = settings (svc st) \<and>
        scn_type (ptScnList (svc st2) ! i) = -1 \<and> sched st2 = (sched st)((TIMER_MSG_PERF_LOCK_TIMEOUT, pl_hdl d) := None)))"
proof -
  from timed_acquire [OF assms] obtain st1 p2 where st1: "powerd_req env (MSG_PERF_LOCK_ACQ d) st = Some (0, Some (Rsp_lock (pl_hdl d)), st1)"
    "core_inv st1" "powerdOnOff st1 = powerdOnOff st" "nIsReady (svc st1)" "scn_state (ptScnList (svc st1) ! i) = STATE_ON"
    "sched st1 = (sched st)((TIMER_MSG_PERF_LOCK_TIMEOUT, pl_hdl d) \<mapsto> wall_us (wall env) + nat (pl_duration d) * 1000)"
    "perfLockRel env (svc st1) (pl_hdl d) = Some (0, p2)" "scn_type (ptScnList p2 ! i) = -1" "settings p2 = settings (svc st)" by blast
  have on: "powerdOnOff st1 \<noteq> 0" using st1(3) assms(5) by simp
  show ?thesis
  proof (rule exI [of _ st1], intro conjI allI impI st1(1,5,6))
    fix env' :: core_env and t k q
    assume a: "wall_ok (wall env') \<and> event_slot TIMER_MSG_PERF_LOCK_TIMEOUT (pl_hdl d) (slot st1 k) \<and>
        ptimer_mng_getexpired (gpTimerMng st1) (wall env') (timers st1) = (1, t, slot_addr k, q)"
    from lock_expiry [OF st1(2) on st1(4) _ _ _ st1(7), of env' t k q] a st1(6,8,9)
    show "\<exists>st2. handle_expired env' st1 = Some (0, st2) \<and> settings (svc st2) = settings (svc st) \<and>
        scn_type (ptScnList (svc st2) ! i) = -1 \<and> sched st2 = (sched st)((TIMER_MSG_PERF_LOCK_TIMEOUT, pl_hdl d) := None)"
      by auto
  qed
qed


text \<open>
  C36. Expiries that are lost. While the daemon is switched off, and for the timeout of a hint at any
  time, an expired timer is taken off the queue but its slot is not given back and nothing is
  done: the lock of that timer stays on, the slot stays occupied, and no timer runs for it any
  more.
\<close>

theorem expiry_lost:
  assumes "core_inv st" "wall_ok (wall env)"
    and "ptimer_mng_getexpired (gpTimerMng st) (wall env) (timers st) = (1, t, slot_addr k, q)"
    and "powerdOnOff st = 0 \<or> t_msg (slot st k) = TIMER_MSG_POWER_HINT_ENABLE_TIMEOUT"
  shows "\<exists>r st'. handle_expired env st = Some (r, st') \<and> svc st' = svc st \<and> powerdTimer st' = powerdTimer st \<and>
    t_used (slot st' k) \<noteq> 0 \<and> armed_of st' (p_pTimer (slot st' k)) = None"
proof -
  note f = fetch_expired [OF assms(1-3)]
  let ?st = "st\<lparr>timers := q\<rparr>"
  from f(2) obtain i where i: "i < MAX_TIMER_COUNT" "p_pTimer (slot st i) = t" "t \<noteq> NULL" "slot_addr k = slot_addr i"
    "armed_of ?st = (armed_of st)(t := None)" by blast
  then have k: "k = i" by (simp add: slot_addr_def)
  have "handle_expired env st = powerd_core_timer_handle env t k ?st"
    using assms(3) i(3) by (simp add: handle_expired_def slot_addr_def)
  then have "\<exists>r. handle_expired env st = Some (r, ?st)"
    using assms(4) i(2) k by (auto simp: powerd_core_timer_handle_def Let_def)
  moreover have "t_used (slot st k) \<noteq> 0"
    using slots_wfD(4) [OF core_invD(2) [OF assms(1)], of k] core_invD(3) [OF assms(1)] i k by (auto simp: slot_blank_def)
  ultimately show ?thesis using i k by auto
qed

section \<open>A small daemon\<close>

definition demo_core_env :: core_env where
  "demo_core_env = sys_env.extend demo_sys_env (core_env.fields (clock 3 700) 10 True True [])"

definition demo_daemon :: powerd where
  "demo_daemon = \<lparr>svc = demo_service, timers = no_timers, powerdTimer = boot_slots, gpTimerMng = 1, powerdOnOff = 1, check_idx = 0\<rparr>"

lemma demo_core_env_sel:
  "wall demo_core_env = clock 3 700" "new_timer demo_core_env = 10" "rsp_alloc demo_core_env" "buf_alloc demo_core_env"
  "env_ok demo_core_env" "malloc_ok demo_core_env" "now_time demo_core_env = Some (''2025-01-01 00:00:00'', 1735689600123)"
  by (simp_all add: demo_core_env_def sys_env.defs core_env.defs demo_sys_defs env_ok_def)

lemma demo_wall: "wall_ok (wall demo_core_env)" "wall_us (wall demo_core_env) = 3700000"
  by (simp_all add: demo_core_env_sel wall_ok_def wall_us_def clock_def)

lemma no_timers_queue: "queue_inv 1 no_timers" "armed 1 no_timers = (\<lambda>_. None)"
proof -
  have "\<forall>t. pMng (pt_timer no_timers t) = NULL" by (simp add: no_timers_def)
  then show "queue_inv 1 no_timers" "armed 1 no_timers = (\<lambda>_. None)"
    using no_timers_inv by (auto simp: queue_inv_def usec_ok_def armed_def)
qed

lemma demo_daemon_inv: "daemon_inv demo_daemon" "core_inv demo_daemon"
  using no_timers_queue boot_slots_wf demo_service_on(3) by (simp_all add: daemon_inv_def core_inv_def demo_daemon_def)

lemma demo_daemon_room: "fresh demo_core_env demo_daemon" "has_room demo_core_env demo_daemon"
proof -
  show "fresh demo_core_env demo_daemon" by (simp add: fresh_def demo_core_env_sel demo_daemon_def boot_slots_def)
  have "boot_slots ! 0 \<in> set boot_slots" "t_used (boot_slots ! 0) = 0" by (rule nth_mem) (simp_all add: boot_slots_def)
  then show "has_room demo_core_env demo_daemon" by (auto simp: has_room_def demo_core_env_sel demo_daemon_def)
qed

lemma demo_request_ok: "request_ok demo_core_env (MSG_PERF_LOCK_REL 2) demo_daemon"
  using demo_core_env_sel demo_wall demo_daemon_room(1) by (simp add: request_ok_def)


theorem timer_requests_refine_witness:
  "\<exists>st'. powerd_req demo_core_env (MSG_TIMER_REQ \<lparr>td_type = 2, td_data = 7, td_duration = 1500\<rparr>) demo_daemon = Some (0, Some Rsp_empty, st') \<and>
     sched st' = (sched demo_daemon)((1, 7) \<mapsto> 5200000)"
proof -
  have "nIsReady (svc demo_daemon)" "powerdOnOff demo_daemon \<noteq> 0" using demo_service_on by (simp_all add: demo_daemon_def)
  from timer_requests_refine [OF demo_daemon_inv(2) demo_wall(1) demo_daemon_room demo_core_env_sel(3) _ _ this,
      of "\<lparr>td_type = 2, td_data = 7, td_duration = 1500\<rparr>" "(1, 7)"] demo_wall(2)
  show ?thesis by auto
qed

theorem request_completes_witness:
  "\<exists>r rsp st'. powerd_req demo_core_env (MSG_PERF_LOCK_REL 2) demo_daemon = Some (r, rsp, st') \<and> daemon_inv st'"
  using request_completes [OF demo_daemon_inv(1) _ demo_request_ok] demo_service_on(1) by (simp add: demo_daemon_def)


definition demo_lock :: tPerfLockData where
  "demo_lock = \<lparr>pl_hdl = 2, pl_pid = 100, pl_uid = 0, pl_duration = 2500, pl_reserved = 101, pl_size = 4, pl_hint = -1,
     pl_rscList = Some [7, 20, 8, 9]\<rparr>"

lemma demo_lock_ok:
  "acq_list demo_lock = Some [7, 20, 8, 9]" "scn_state (ptScnList demo_service ! 1) \<noteq> STATE_ON"
  "findHandleToIndex demo_service 2 = 1" "can_acquire demo_core_env demo_service [7, 20, 8, 9] 2 1"
  by (simp_all add: acq_list_def demo_lock_def can_acquire_def demo_core_env_sel demo_service_def demo_defs findHandleToIndex_def is_user_scn_def)

theorem timed_lock_expires_witness:
  "\<exists>st1. powerd_req demo_core_env (MSG_PERF_LOCK_ACQ demo_lock) demo_daemon = Some (0, Some (Rsp_lock 2), st1) \<and>
     scn_state (ptScnList (svc st1) ! 1) = STATE_ON \<and> sched st1 = (sched demo_daemon)((1, 2) \<mapsto> 6200000)"
proof -
  have d: "svc demo_daemon = demo_service" "powerdOnOff demo_daemon \<noteq> 0" "pl_hdl demo_lock = 2" "pl_duration demo_lock = 2500"
    by (simp_all add: demo_daemon_def demo_lock_def)
  have "request_ok demo_core_env (MSG_PERF_LOCK_ACQ demo_lock) demo_daemon"
    using demo_core_env_sel demo_wall demo_daemon_room(1) demo_lock_ok(1-3) d
    by (simp add: request_ok_def call_ok_def acq_safe_def)
  from timed_lock_expires [OF demo_daemon_inv(1) this demo_core_env_sel(3,4) d(2) demo_lock_ok(1), of 1]
    demo_lock_ok d demo_service_on(1) demo_daemon_room(2) demo_wall(2)
  show ?thesis by auto
qed

text \<open>The slot behind the running timer of \<open>one_timer\<close>, whose data is 77.\<close>

definition demo_expiring :: powerd where
  "demo_expiring = demo_daemon\<lparr>timers := one_timer, powerdOnOff := 0,
     powerdTimer := boot_slots[76 := (boot_slots ! 76)\<lparr>t_used := 1, t_msg := 1, t_handle := 2, p_pTimer := 10\<rparr>]\<rparr>"

lemma demo_expiring_inv: "core_inv demo_expiring"
proof -
  let ?ts = "boot_slots[76 := (boot_slots ! 76)\<lparr>t_used := 1, t_msg := 1, t_handle := 2, p_pTimer := 10\<rparr>]"
  have "slots_wf (\<lambda>_. None) ?ts"
    by (rule slots_wf_fill [OF boot_slots_wf]) (simp_all add: boot_slots_def event_slot_def)
  then have "slots_wf ((\<lambda>_. None)(10 \<mapsto> (slot_addr 76, deadline (pt_timer one_timer 10)))) ?ts"
    using slots_wf_arm [of "\<lambda>_. None" ?ts 76 "deadline (pt_timer one_timer 10)"] by (simp add: boot_slots_def)
  moreover have "armed 1 one_timer = (\<lambda>_. None)(10 \<mapsto> (slot_addr 76, deadline (pt_timer one_timer 10)))"
    by (auto simp: armed_def one_timer_def slot_addr_def fun_eq_iff)
  moreover have "pMng (pt_timer one_timer t) = 1 \<or> pMng (pt_timer one_timer t) = NULL" for t by (simp add: one_timer_def)
  then have "queue_inv 1 one_timer" unfolding queue_inv_def using one_timer_inv by blast
  ultimately show ?thesis by (simp add: core_inv_def demo_expiring_def demo_daemon_def)
qed

theorem expiry_lost_witness:
  "\<exists>r st'. handle_expired (demo_core_env\<lparr>wall := clock 6 200\<rparr>) demo_expiring = Some (r, st') \<and> svc st' = demo_service \<and>
     t_used (slot st' 76) \<noteq> 0 \<and> armed_of st' 10 = None"
proof -
  have "timer_due (clock 6 200) (pt_timer one_timer 10)" "pData (pt_timer one_timer 10) = 77" by code_simp+
  then have e: "ptimer_mng_getexpired 1 (clock 6 200) one_timer = (1, 10, slot_addr 76, ptimer_stop 10 one_timer)"
    unfolding getexpired_cases [OF one_timer_inv(1)] by (simp add: slot_addr_def)
  have w: "wall_ok (clock 6 200)" by (simp add: wall_ok_def clock_def)
  have s: "gpTimerMng demo_expiring = 1" "timers demo_expiring = one_timer" "powerdOnOff demo_expiring = 0"
    "svc demo_expiring = demo_service" "p_pTimer (slot demo_expiring 76) = 10"
    by (simp_all add: demo_expiring_def demo_daemon_def boot_slots_def)
  from expiry_lost [OF demo_expiring_inv, of "demo_core_env\<lparr>wall := clock 6 200\<rparr>" 10 76] e w s show ?thesis by auto
qed

end
