(* ===== verification/Powerd_Loop.thy ===== *)
theory Powerd_Loop
  imports Powerd_Props
begin

text \<open>
  The socket server of \<^verbatim>\<open>lib/util/powerd.cpp\<close>: accepting clients, reading a command from a client,
  answering it, closing the connection, and one round of the select loop.

  \<open>TCPCliCtxtList\<close> is a list of client contexts; the operations used on it are those of
  \<open>Dl_List\<close>. What the socket of a client still holds and what was sent to it are fields of
  its context. Client and daemon are threads of one process. Messages of type
  \<open>PS_IPC_COM_TYPE_MSG\<close> carry a pointer into the memory they share: \<open>msg_at\<close> is the message found
  there, \<open>rsp_ptr\<close> the address \<open>malloc\<close> gives to the response, and \<open>shared\<close> the responses handed over.
  \<open>send\<close> delivers. The set of descriptors waited on for writing is always empty.
\<close>

section \<open>One client\<close>

datatype tcp_state = TCP_CLIENT_RUNNING | TCP_CLIENT_LINGER

record tTCPCliContext =
  TCPCliFD :: int
  TCPState :: tcp_state
  cli_RecvJob :: tPS_IPC_RecvJob
  sock_in :: "byte list"
  sock_out :: "byte list"
  shared :: "u64 \<rightharpoonup> power_rsp"

record loop_env =
  l_core :: core_env
  msg_at :: "u64 \<Rightarrow> power_msg"
  rsp_ptr :: u64
  cmd_mem :: tPS_CMD
  buf_mem :: "nat \<Rightarrow> byte"

text \<open>
  The branches on the command number: the command that is sent back, if any, and the response that
  is left in memory for the client. The responses to the other commands are freed.
\<close>

definition handle_cmd :: "loop_env \<Rightarrow> tPS_CMD \<Rightarrow> powerd \<Rightarrow> (tPS_CMD option \<times> power_rsp option \<times> powerd) option" where
  "handle_cmd env c st =
     (if CmdID c = 1 then
        (if pMSG c = 0 then Some (Some c, None, st)
         else powerd_req (l_core env) (msg_at env (pMSG c)) st \<bind>
           (\<lambda>(_, rsp, st'). Some (Some (c\<lparr>pMSG := (if rsp = None then 0 else rsp_ptr env)\<rparr>), rsp, st')))
      else if CmdID c = 2 then
        powerd_req (l_core env) (MSG_PERF_LOCK_ACQ (perfLock c)) st \<bind>
          (\<lambda>(_, rsp, st'). Some (Some (case rsp of Some (Rsp_lock h) \<Rightarrow> c\<lparr>perfLock := (perfLock c)\<lparr>pl_hdl := h\<rparr>\<rparr> | _ \<Rightarrow> c), None, st'))
      else if CmdID c = 3 then
        powerd_req (l_core env) (MSG_PERF_LOCK_REL (lh_hdl (hdlData c))) st \<bind> (\<lambda>(_, _, st'). Some (Some c, None, st'))
      else if CmdID c = 4 then
        powerd_req (l_core env) (MSG_CUS_LOCK_HINT (cusLockHint c)) st \<bind>
          (\<lambda>(_, rsp, st'). Some (Some (case rsp of Some (Rsp_cus_lock h) \<Rightarrow> c\<lparr>cusLockHint := (cusLockHint c)\<lparr>cl_hdl := h\<rparr>\<rparr> | _ \<Rightarrow> c), None, st'))
      else if CmdID c = 5 then
        powerd_req (l_core env) (MSG_TIMER_REQ (timerData c)) st \<bind> (\<lambda>(_, _, st'). Some (Some c, None, st'))
      else Some (None, None, st))"

text \<open>
  A command that could not be unmarshalled is a null pointer; using it has no result. After the
  command comes \<open>powerd_post_req\<close>, which leaves the state alone.
\<close>

definition reply :: "loop_env \<Rightarrow> tPS_CMD option \<Rightarrow> power_rsp option \<Rightarrow> tTCPCliContext \<Rightarrow> tTCPCliContext option" where
  "reply env cmd rsp cli =
     (let cli' = (case rsp of None \<Rightarrow> cli | Some r \<Rightarrow> cli\<lparr>shared := (shared cli)(rsp_ptr env \<mapsto> r)\<rparr>)
      in case cmd of
           None \<Rightarrow> Some cli'
         | Some c \<Rightarrow> powerd_cmd_marshall (buf_mem env) c \<bind> (\<lambda>bs. Some (cli'\<lparr>sock_out := sock_out cli' @ bs\<rparr>)))"

definition answer :: "loop_env \<Rightarrow> tTCPCliContext \<Rightarrow> powerd \<Rightarrow> (tTCPCliContext \<times> powerd) option" where
  "answer env cli st =
     powerd_cmd_unmarshall (cmd_mem env) (cli_RecvJob cli) \<bind> (\<lambda>(vRet, cmd).
       if vRet = 0 then
         (case cmd of
            None \<Rightarrow> None
          | Some c \<Rightarrow> handle_cmd env c st \<bind> (\<lambda>(c', rsp, st'). map_option (\<lambda>cli'. (cli', st')) (reply env c' rsp cli)))
       else Some (cli, st))"

definition Powerd_handleIPC :: "loop_env \<Rightarrow> bool \<Rightarrow> tTCPCliContext \<Rightarrow> powerd \<Rightarrow> (tTCPCliContext \<times> powerd) option" where
  "Powerd_handleIPC env isRead cli st =
     (if isRead \<and> TCPState cli = TCP_CLIENT_RUNNING then
        (let (vRet, job, rest) = powerd_ipc_recvcmd (cli_RecvJob cli) (sock_in cli);
             cli1 = cli\<lparr>cli_RecvJob := job, sock_in := rest\<rparr>
         in if vRet = -1 then Some (cli1\<lparr>TCPState := TCP_CLIENT_LINGER\<rparr>, st)
            else if rj_State job = 0 then Some (cli1, st)
            else map_option (\<lambda>(cli2, st2). (cli2\<lparr>TCPState := TCP_CLIENT_LINGER\<rparr>, st2)) (answer env cli1 st))
      else Some (cli, st))"

section \<open>The descriptors\<close>

definition WCPROXY_fillfd :: "int \<Rightarrow> tTCPCliContext list \<Rightarrow> int set \<times> int" where
  "WCPROXY_fillfd servFD clis =
     (let fds = servFD # map TCPCliFD (filter (\<lambda>c. TCPState c \<noteq> TCP_CLIENT_LINGER) clis)
      in (set fds, fold max fds servFD + 1))"

text \<open>Accepting: the result of \<open>accept\<close>, the peer's process id if it can be read, and whether the descriptor becomes non-blocking.\<close>

record accept_env =
  acc_malloc :: bool
  acc_fd :: int
  acc_pid :: "int option"
  acc_nonblock :: bool

definition acceptNewLocalClient :: "int \<Rightarrow> accept_env \<Rightarrow> tTCPCliContext option" where
  "acceptNewLocalClient gMyPid e =
     (if \<not> acc_malloc e \<or> acc_fd e < 0 then None
      else if acc_pid e \<noteq> Some gMyPid then None
      else if \<not> acc_nonblock e then None
      else Some \<lparr>TCPCliFD = acc_fd e, TCPState = TCP_CLIENT_RUNNING, cli_RecvJob = empty_recv_job, sock_in = [], sock_out = [], shared = Map.empty\<rparr>)"

text \<open>The first loop of \<open>_Powerd_scanfd\<close>; every client has its own environment.\<close>

fun scan_clients :: "(int \<Rightarrow> loop_env) \<Rightarrow> (int \<Rightarrow> bool) \<Rightarrow> tTCPCliContext list \<Rightarrow> powerd \<Rightarrow> (tTCPCliContext list \<times> powerd) option" where
  "scan_clients envs readable [] st = Some ([], st)"
| "scan_clients envs readable (c # cs) st =
     (if TCPState c = TCP_CLIENT_LINGER \<or> \<not> readable (TCPCliFD c) then Some (c, st)
      else Powerd_handleIPC (envs (TCPCliFD c)) True c st) \<bind> (\<lambda>(c', st1).
      scan_clients envs readable cs st1 \<bind> (\<lambda>(cs', st2). Some (c' # cs', st2)))"

definition accepted :: "bool \<Rightarrow> int \<Rightarrow> accept_env \<Rightarrow> tTCPCliContext list" where
  "accepted servReady gMyPid e =
     (if servReady then (case acceptNewLocalClient gMyPid e of None \<Rightarrow> [] | Some c \<Rightarrow> [c]) else [])"

text \<open>The clients that stay, those that are closed, and the core.\<close>

definition Powerd_scanfd :: "(int \<Rightarrow> loop_env) \<Rightarrow> (int \<Rightarrow> bool) \<Rightarrow> bool \<Rightarrow> int \<Rightarrow> accept_env \<Rightarrow> tTCPCliContext list \<Rightarrow> powerd \<Rightarrow>
    (tTCPCliContext list \<times> tTCPCliContext list \<times> powerd) option" where
  "Powerd_scanfd envs readable servReady gMyPid e clis st =
     scan_clients envs readable clis st \<bind> (\<lambda>(cs, st').
       let cs' = cs @ accepted servReady gMyPid e
       in Some (filter (\<lambda>c. TCPState c \<noteq> TCP_CLIENT_LINGER) cs', filter (\<lambda>c. TCPState c = TCP_CLIENT_LINGER) cs', st'))"

section \<open>The select loop\<close>

text \<open>The timeout given to \<open>select\<close>, in seconds and microseconds.\<close>

definition select_timeout :: "walltime \<Rightarrow> powerd \<Rightarrow> u64 \<times> u64" where
  "select_timeout now st =
     (let (vRet, vmsec) = ptimer_mng_getnextduration (gpTimerMng st) now (timers st)
      in if vRet \<noteq> 0 then (5, 0) else (vmsec div 1000, (vmsec mod 1000) * 1000))"

record select_event =
  ev_ret :: int
  ev_eintr :: bool
  ev_readable :: "int \<Rightarrow> bool"
  ev_server :: bool
  ev_accept :: accept_env
  ev_timer :: core_env
  ev_client :: "int \<Rightarrow> loop_env"

text \<open>One round: whether the loop goes on, the clients, and the core.\<close>

definition select_round :: "int \<Rightarrow> select_event \<Rightarrow> tTCPCliContext list \<Rightarrow> powerd \<Rightarrow> (bool \<times> tTCPCliContext list \<times> powerd) option" where
  "select_round gMyPid ev clis st =
     (if ev_ret ev = 0 then map_option (\<lambda>(_, st'). (True, clis, st')) (handle_expired (ev_timer ev) st)
      else if ev_ret ev < 0 then Some (ev_eintr ev, clis, st)
      else handle_expired (ev_timer ev) st \<bind> (\<lambda>(_, st1).
        Powerd_scanfd (ev_client ev) (ev_readable ev) (ev_server ev) gMyPid (ev_accept ev) clis st1 \<bind>
          (\<lambda>(cs, _, st2). Some (True, cs, st2))))"

section \<open>Connections\<close>

lemma reply_fd: "reply env c r cli = Some cli' \<Longrightarrow> TCPCliFD cli' = TCPCliFD cli"
  by (auto simp: reply_def Let_def bind_eq_Some_conv split: option.splits)

lemma handleIPC_client:
  assumes "Powerd_handleIPC env r cli st = Some (cli', st')"
  shows "TCPCliFD cli' = TCPCliFD cli"
  using assms
  by (auto simp: Powerd_handleIPC_def answer_def bind_eq_Some_conv Let_def dest!: reply_fd split: if_splits prod.splits option.splits)

lemma scan_clients_fds:
  "scan_clients envs readable cs st = Some (cs', st') \<Longrightarrow> map TCPCliFD cs' = map TCPCliFD cs"
proof (induction cs arbitrary: cs' st st')
  case (Cons c cs)
  then show ?case by (auto simp: bind_eq_Some_conv handleIPC_client split: if_splits)
qed simp

lemma scan_clients_idle:
  "scan_clients envs readable cs st = Some (cs', st') \<Longrightarrow> i < length cs \<Longrightarrow> \<not> readable (TCPCliFD (cs ! i)) \<Longrightarrow> cs' ! i = cs ! i"
proof (induction cs arbitrary: cs' st i)
  case (Cons c cs)
  then show ?case by (cases i) (auto simp: bind_eq_Some_conv split: if_splits)
qed simp

lemma accept_new:
  "acceptNewLocalClient me e = Some c \<Longrightarrow> TCPState c = TCP_CLIENT_RUNNING" "acceptNewLocalClient me e = Some c \<Longrightarrow> acc_pid e = Some me"
  "acceptNewLocalClient me e = Some c \<Longrightarrow> TCPCliFD c = acc_fd e"
  by (auto simp: acceptNewLocalClient_def split: if_splits)

lemma accepted_cases:
  obtains "\<not> (r \<and> acceptNewLocalClient me e \<noteq> None)" "accepted r me e = []"
  | c where "r" "acceptNewLocalClient me e = Some c" "accepted r me e = [c]"
  by (cases r; cases "acceptNewLocalClient me e") (simp_all add: accepted_def)

lemma accepted_running: "c \<in> set (accepted r me e) \<Longrightarrow> TCPState c = TCP_CLIENT_RUNNING"
  by (rule accepted_cases [of r me e]) (auto dest: accept_new(1))

lemma accepted_fds:
  "map TCPCliFD (accepted r me e) = (if r \<and> acceptNewLocalClient me e \<noteq> None then [acc_fd e] else [])"
  by (rule accepted_cases [of r me e]) (auto dest: accept_new(3))

lemma scanfd_parts:
  assumes "Powerd_scanfd envs readable r me e clis st = Some (cs, closed, st')"
  obtains ds where "scan_clients envs readable clis st = Some (ds, st')"
    "cs = filter (\<lambda>c. TCPState c \<noteq> TCP_CLIENT_LINGER) (ds @ accepted r me e)"
    "closed = filter (\<lambda>c. TCPState c = TCP_CLIENT_LINGER) (ds @ accepted r me e)"
proof (cases "scan_clients envs readable clis st")
  case (Some a)
  then show thesis using assms that [of "fst a"] by (cases a) (simp add: Powerd_scanfd_def)
qed (use assms in \<open>simp add: Powerd_scanfd_def\<close>)

text \<open>
  C19. Connections. After a scan every client that is kept is waiting for a command; the clients that
  were there are exactly those kept and those closed, only a client with data to read is
  closed, a client without data is kept as it was, and a new client is taken only from the
  daemon's own process.
\<close>

theorem scanfd_connections:
  assumes "Powerd_scanfd envs readable servReady gMyPid e clis st = Some (cs, closed, st')"
    and "\<forall>c \<in> set clis. TCPState c = TCP_CLIENT_RUNNING"
  shows "(\<forall>c \<in> set cs. TCPState c = TCP_CLIENT_RUNNING) \<and>
    mset (map TCPCliFD cs) + mset (map TCPCliFD closed) =
      mset (map TCPCliFD clis) + (if servReady \<and> acceptNewLocalClient gMyPid e \<noteq> None then {#acc_fd e#} else {#}) \<and>
    (\<forall>c \<in> set closed. readable (TCPCliFD c)) \<and> (\<forall>c \<in> set clis. \<not> readable (TCPCliFD c) \<longrightarrow> c \<in> set cs) \<and>
    (servReady \<and> acceptNewLocalClient gMyPid e \<noteq> None \<longrightarrow> acc_pid e = Some gMyPid)"
proof -
  let ?new = "accepted servReady gMyPid e"
  obtain ds where ds: "scan_clients envs readable clis st = Some (ds, st')"
    and r: "cs = filter (\<lambda>c. TCPState c \<noteq> TCP_CLIENT_LINGER) (ds @ ?new)" "closed = filter (\<lambda>c. TCPState c = TCP_CLIENT_LINGER) (ds @ ?new)"
    by (rule scanfd_parts [OF assms(1)])
  note fds = scan_clients_fds [OF ds]
  have len: "length ds = length clis" using arg_cong [OF fds, of length] by simp
  have idle: "ds ! i = clis ! i" if "i < length clis" "\<not> readable (TCPCliFD (clis ! i))" for i using scan_clients_idle [OF ds that] .
  have "TCPState c = TCP_CLIENT_RUNNING" if "c \<in> set cs" for c using that r(1) by (cases "TCPState c") auto
  moreover have "mset (map TCPCliFD cs) + mset (map TCPCliFD closed) = mset (map TCPCliFD (ds @ ?new))"
  proof -
    have "mset cs + mset closed = mset (ds @ ?new)" unfolding r
      using multiset_partition [of "mset (ds @ ?new)" "\<lambda>c. TCPState c \<noteq> TCP_CLIENT_LINGER"] by (simp add: mset_filter)
    then show ?thesis by (metis image_mset_union mset_map)
  qed
  moreover have "readable (TCPCliFD c)" if "c \<in> set closed" for c
  proof -
    from that r(2) accepted_running have "c \<in> set ds" "TCPState c = TCP_CLIENT_LINGER" by auto
    then obtain i where i: "i < length clis" "c = ds ! i" "TCPState (ds ! i) = TCP_CLIENT_LINGER" using len by (auto simp: in_set_conv_nth)
    have "TCPCliFD c = TCPCliFD (clis ! i)" using i fds len by (metis nth_map)
    moreover have "ds ! i \<noteq> clis ! i" using i assms(2) by (metis nth_mem tcp_state.distinct(1))
    ultimately show ?thesis using idle [OF i(1)] by auto
  qed
  moreover have "c \<in> set cs" if "c \<in> set clis" "\<not> readable (TCPCliFD c)" for c
  proof -
    from that obtain i where i: "i < length clis" "c = clis ! i" by (auto simp: in_set_conv_nth)
    then have "ds ! i = c" using idle that(2) by auto
    then have "c \<in> set ds" using i(1) len nth_mem by metis
    then show ?thesis using r(1) assms(2) that(1) by auto
  qed
  ultimately show ?thesis using accepted_fds [of servReady gMyPid e] fds accept_new(2) [of gMyPid e] by (auto simp del: mset_map)
qed

section \<open>Commands from the socket\<close>

text \<open>A message on the socket is handled as the command that was sent.\<close>

definition as_received :: "loop_env \<Rightarrow> tPS_CMD \<Rightarrow> tPS_CMD" where
  "as_received env c = received c ((powerd_cmd_create (cmd_mem env))\<lparr>CmdID := CmdID c\<rparr>)"

lemma job_with_State [simp]: "rj_State (job_with i bs) = 1"
  by (simp add: job_with_def)

lemma handleIPC_message:
  assumes "TCPState cli = TCP_CLIENT_RUNNING" "cli_RecvJob cli = empty_recv_job" "sock_in cli = frame (CmdID c) (content_of c)"
    and "cmd_in_range c" "1 \<le> CmdID c" "CmdID c \<le> 5"
    and "handle_cmd env (as_received env c) st = Some (Some c', rsp, st')" "pl_hdl (perfLock c') = INVALID_HANDLE"
  shows "\<exists>cli'. Powerd_handleIPC env True cli st = Some (cli', st') \<and> TCPState cli' = TCP_CLIENT_LINGER \<and>
    sock_out cli' = sock_out cli @ frame (CmdID c') (content_of c') \<and>
    shared cli' = (case rsp of None \<Rightarrow> shared cli | Some r \<Rightarrow> (shared cli)(rsp_ptr env \<mapsto> r))"
proof -
  have rcv: "powerd_ipc_recvcmd (cli_RecvJob cli) (sock_in cli) = (0, job_with (CmdID c) (content_of c), [])"
    using recv_frame [of "content_of c" "CmdID c" "[]"] content_length [of c] assms(2,3) by simp
  have um: "powerd_cmd_unmarshall (cmd_mem env) (job_with (CmdID c) (content_of c)) = Some (0, Some (as_received env c))"
    using unmarshall_message [OF assms(4-6), of "cmd_mem env"] by (simp add: as_received_def)
  let ?cli = "cli\<lparr>cli_RecvJob := job_with (CmdID c) (content_of c), sock_in := []\<rparr>"
  let ?cli' = "(case rsp of None \<Rightarrow> ?cli | Some r \<Rightarrow> ?cli\<lparr>shared := (shared cli)(rsp_ptr env \<mapsto> r)\<rparr>)"
  have "reply env (Some c') rsp ?cli = Some (?cli'\<lparr>sock_out := sock_out ?cli' @ frame (CmdID c') (content_of c')\<rparr>)"
    using marshall_message [OF assms(8), of "buf_mem env"] by (cases rsp) (simp_all add: reply_def)
  then have "Powerd_handleIPC env True cli st =
      Some (?cli'\<lparr>sock_out := sock_out ?cli' @ frame (CmdID c') (content_of c'), TCPState := TCP_CLIENT_LINGER\<rparr>, st')"
    using assms(1,7) rcv um by (simp add: Powerd_handleIPC_def answer_def)
  then show ?thesis by (cases rsp) simp_all
qed

lemma handleIPC_none:
  assumes "TCPState cli = TCP_CLIENT_RUNNING" "cli_RecvJob cli = empty_recv_job" "sock_in cli = frame (CmdID c) (content_of c)"
    and "cmd_in_range c" "1 \<le> CmdID c" "CmdID c \<le> 5" "handle_cmd env (as_received env c) st = None"
  shows "Powerd_handleIPC env True cli st = None"
  using recv_frame [of "content_of c" "CmdID c" "[]"] content_length [of c] unmarshall_message [OF assms(4-6), of "cmd_mem env"] assms(1-3,7)
  by (simp add: Powerd_handleIPC_def answer_def as_received_def)

text \<open>The command a client reads from the reply.\<close>

lemma reply_read:
  assumes "cmd_in_range c'" "1 \<le> CmdID c'" "CmdID c' \<le> 5"
  shows "powerd_ipc_recvcmd empty_recv_job (frame (CmdID c') (content_of c')) = (0, job_with (CmdID c') (content_of c'), [])"
    "powerd_cmd_unmarshall mem (job_with (CmdID c') (content_of c')) =
      Some (0, Some (received c' ((powerd_cmd_create mem)\<lparr>CmdID := CmdID c'\<rparr>)))"
  using recv_frame [of "content_of c'" "CmdID c'" "[]"] content_length [of c'] unmarshall_message [OF assms, of mem] by simp_all

section \<open>A timer request from end to end\<close>

lemma as_received_range:
  assumes "cmd_in_range c" "cmd_in_range (cmd_mem env)"
  shows "cmd_in_range (as_received env c)" "CmdID (as_received env c) = CmdID c" "pl_hdl (perfLock (as_received env c)) = INVALID_HANDLE"
    "td_type (timerData c) \<noteq> INVALID_HANDLE \<Longrightarrow> timerData (as_received env c) = timerData c"
    "pMSG c \<noteq> 0 \<Longrightarrow> pMSG (as_received env c) = pMSG c"
proof -
  have "in_int INVALID_HANDLE" by (simp add: in_int_def)
  then show "cmd_in_range (as_received env c)"
    using assms by (auto simp: as_received_def received_def powerd_cmd_create_def powerd_ipc_init_pscmd_def cmd_in_range_def)
qed (simp_all add: as_received_def received_def powerd_cmd_create_def powerd_ipc_init_pscmd_def)

text \<open>
  C17. A timer request from end to end. A client marshals a request for the timeout of a lock, and the
  bytes are on the socket of its connection. The daemon reads and decodes them, sets the deadline
  of that lock to the current time plus the duration, touches no other timeout and no
  lock, sends a reply from which the client decodes the same request, and marks the connection for
  closing.
\<close>

theorem timer_request_end_to_end:
  assumes "core_inv st" "wall_ok (wall (l_core env))" "fresh (l_core env) st" "has_room (l_core env) st" "rsp_alloc (l_core env)"
    and "cmd_in_range (cmd_mem env)" "pl_hdl (perfLock c) = INVALID_HANDLE" "cmd_in_range c" "CmdID c = 5"
    and "td_type (timerData c) = TIMER_PERF_LOCK_DURATION" "0 < td_duration (timerData c)"
    and "TCPState cli = TCP_CLIENT_RUNNING" "cli_RecvJob cli = empty_recv_job" "powerd_cmd_marshall junk c = Some (sock_in cli)"
  shows "\<exists>cli' st' bs job c'. Powerd_handleIPC env True cli st = Some (cli', st') \<and> svc st' = svc st \<and>
    sched st' = (sched st)((TIMER_MSG_PERF_LOCK_TIMEOUT, td_data (timerData c)) \<mapsto>
      wall_us (wall (l_core env)) + nat (td_duration (timerData c)) * 1000) \<and>
    TCPState cli' = TCP_CLIENT_LINGER \<and> sock_out cli' = sock_out cli @ bs \<and>
    powerd_ipc_recvcmd empty_recv_job bs = (0, job, []) \<and> powerd_cmd_unmarshall mem job = Some (0, Some c') \<and> timerData c' = timerData c"
proof -
  let ?k = "as_received env c"
  note k = as_received_range [OF assms(8,6)]
  have ty: "td_type (timerData c) \<noteq> INVALID_HANDLE" using assms(10) by simp
  have id: "1 \<le> CmdID c" "CmdID c \<le> 5" using assms(9) by simp_all
  have sock: "sock_in cli = frame (CmdID c) (content_of c)" using marshall_message [OF assms(7), of junk] assms(14) by simp
  have dur: "td_duration (timerData c) \<le> INT_MAX" using assms(8) by (simp add: cmd_in_range_def in_int_def)
  from restart_sched [OF assms(1-4), of TIMER_MSG_PERF_LOCK_TIMEOUT "td_data (timerData c)" "td_duration (timerData c)"]
  obtain st' where st': "start_scn_timer (l_core env) TIMER_MSG_PERF_LOCK_TIMEOUT (td_data (timerData c)) (td_duration (timerData c))
      (remove_scn_timer TIMER_MSG_PERF_LOCK_TIMEOUT (td_data (timerData c)) st) = Some st'" "svc st' = svc st"
    "sched st' = (sched st)((TIMER_MSG_PERF_LOCK_TIMEOUT, td_data (timerData c)) \<mapsto> due_at (l_core env) (td_duration (timerData c)))"
    by (auto simp: core_rest_def)
  have "handle_cmd env ?k st = Some (Some ?k, None, st')"
    using k(2) k(4) [OF ty] st'(1) assms(5,9,10,11) by (simp add: handle_cmd_def powerd_req_def req_timer_def Let_def)
  from handleIPC_message [OF assms(12,13) sock assms(8) id this k(3)] obtain cli' where
    "Powerd_handleIPC env True cli st = Some (cli', st')" "TCPState cli' = TCP_CLIENT_LINGER"
    "sock_out cli' = sock_out cli @ frame (CmdID ?k) (content_of ?k)" by blast
  moreover have "1 \<le> CmdID ?k" "CmdID ?k \<le> 5" using k(2) id by simp_all
  note reply_read(1) [OF k(1) this] reply_read(2) [OF k(1) this, of mem]
  moreover have "timerData (received ?k ((powerd_cmd_create mem)\<lparr>CmdID := CmdID ?k\<rparr>)) = timerData c"
    using k(4) [OF ty] ty by (simp add: received_def)
  ultimately show ?thesis using st'(2,3) due_at_nat [of "td_duration (timerData c)" "l_core env"] dur assms(11) by fastforce
qed

section \<open>A connection\<close>

definition demo_loop_env :: loop_env where
  "demo_loop_env = \<lparr>l_core = demo_core_env, msg_at = (\<lambda>_. MSG_PERF_LOCK_REL 2), rsp_ptr = 8, cmd_mem = demo_cmd, buf_mem = (\<lambda>_. 0)\<rparr>"

definition demo_timer_cmd :: tPS_CMD where
  "demo_timer_cmd = demo_cmd\<lparr>timerData := \<lparr>td_type = 2, td_data = 7, td_duration = 1500\<rparr>\<rparr>"

definition demo_client :: tTCPCliContext where
  "demo_client = \<lparr>TCPCliFD = 12, TCPState = TCP_CLIENT_RUNNING, cli_RecvJob = empty_recv_job, sock_in = [], sock_out = [], shared = Map.empty\<rparr>"

definition demo_accept :: accept_env where
  "demo_accept = \<lparr>acc_malloc = True, acc_fd = 13, acc_pid = Some 500, acc_nonblock = True\<rparr>"

text \<open>Client 12 has nothing to say while client 13 connects.\<close>

theorem scanfd_connections_witness:
  "\<exists>cs closed st'. Powerd_scanfd (\<lambda>_. demo_loop_env) (\<lambda>_. False) True 500 demo_accept [demo_client] demo_daemon = Some (cs, closed, st') \<and>
     closed = [] \<and> demo_client \<in> set cs \<and> mset (map TCPCliFD cs) = {#12, 13#}"
proof -
  have run: "Powerd_scanfd (\<lambda>_. demo_loop_env) (\<lambda>_. False) True 500 demo_accept [demo_client] demo_daemon =
      Some ([demo_client, demo_client\<lparr>TCPCliFD := 13\<rparr>], [], demo_daemon)"
    by (simp add: Powerd_scanfd_def accepted_def acceptNewLocalClient_def demo_accept_def demo_client_def)
  have "acceptNewLocalClient 500 demo_accept \<noteq> None" by (simp add: acceptNewLocalClient_def demo_accept_def)
  with scanfd_connections [OF run] show ?thesis unfolding run
    by (auto simp: demo_client_def demo_accept_def)
qed

theorem timer_request_end_to_end_witness:
  "\<exists>bs cli' st'. powerd_cmd_marshall (\<lambda>_. 7) demo_timer_cmd = Some bs \<and>
     Powerd_handleIPC demo_loop_env True (demo_client\<lparr>sock_in := bs\<rparr>) demo_daemon = Some (cli', st') \<and>
     sched st' = (sched demo_daemon)((1, 7) \<mapsto> 5200000) \<and> TCPState cli' = TCP_CLIENT_LINGER"
proof -
  have c: "cmd_in_range (cmd_mem demo_loop_env)" "pl_hdl (perfLock demo_timer_cmd) = INVALID_HANDLE" "cmd_in_range demo_timer_cmd"
    "CmdID demo_timer_cmd = 5" "timerData demo_timer_cmd = \<lparr>td_type = 2, td_data = 7, td_duration = 1500\<rparr>"
    by (simp_all add: demo_timer_cmd_def demo_cmd_def demo_loop_env_def cmd_in_range_def in_int_def)
  let ?bs = "frame 5 (content_of demo_timer_cmd)" and ?cli = "demo_client\<lparr>sock_in := frame 5 (content_of demo_timer_cmd)\<rparr>"
  have m: "powerd_cmd_marshall (\<lambda>_. 7) demo_timer_cmd = Some (sock_in ?cli)"
    using marshall_message [OF c(2), of "\<lambda>_. 7"] c(4) by simp
  have e: "l_core demo_loop_env = demo_core_env" by (simp add: demo_loop_env_def)
  have r: "TCPState ?cli = TCP_CLIENT_RUNNING" "cli_RecvJob ?cli = empty_recv_job" by (simp_all add: demo_client_def)
  have t: "td_type (timerData demo_timer_cmd) = TIMER_PERF_LOCK_DURATION" "0 < td_duration (timerData demo_timer_cmd)" by (simp_all add: c(5))
  note timer_request_end_to_end [OF demo_daemon_inv(2), of demo_loop_env, unfolded e,
      OF demo_wall(1) demo_daemon_room demo_core_env_sel(3) c(1-4) t r m, of demo_cmd]
  then show ?thesis using m c(5) demo_wall(2) by auto
qed

end
