(* ===== verification/Power_Client.thy ===== *)
theory Power_Client
  imports Powerd_Loop
begin

text \<open>
  The client side of the socket, \<^verbatim>\<open>lib/util/powerc.cpp\<close>: a command is marshalled, sent over a new
  connection, and the reply is waited for and unmarshalled.

  A call includes what the daemon does with the connection (\<open>serve\<close>): the daemon accepts it, reads the
  bytes, answers and closes. \<open>conn\<close> says whether the connection could be made, \<open>msg_ptr\<close> is the
  address of the caller's message; fresh memory is an argument as in \<open>Power_Ipc\<close>.
\<close>

record client_env =
  c_loop :: loop_env
  conn :: bool
  cli_cmd :: tPS_CMD
  rsp_cmd :: tPS_CMD
  send_buf :: "nat \<Rightarrow> byte"
  msg_ptr :: u64

definition serve :: "loop_env \<Rightarrow> byte list \<Rightarrow> powerd \<Rightarrow> (byte list \<times> (u64 \<rightharpoonup> power_rsp) \<times> powerd) option" where
  "serve env bs st =
     map_option (\<lambda>(cli, st'). (sock_out cli, shared cli, st'))
       (Powerd_handleIPC env True
          \<lparr>TCPCliFD = 0, TCPState = TCP_CLIENT_RUNNING, cli_RecvJob = empty_recv_job, sock_in = bs, sock_out = [], shared = Map.empty\<rparr> st)"

partial_function (option) waitRsp :: "tPS_IPC_RecvJob \<Rightarrow> byte list \<Rightarrow> (int \<times> tPS_IPC_RecvJob) option" where
  "waitRsp job sock =
     (if rj_State job = 0 then
        (case powerd_ipc_recvcmd job sock of
           (vRet, job', sock') \<Rightarrow> if vRet = -1 then Some (-1, job') else waitRsp job' sock')
      else Some (0, job))"

definition waitRsploop :: "tPS_IPC_RecvJob \<Rightarrow> byte list \<Rightarrow> (int \<times> tPS_IPC_RecvJob) option" where
  "waitRsploop job sock = waitRsp (job\<lparr>rj_State := 0\<rparr>) sock"

text \<open>What the functions share: return value, the command of the reply, the memory left by the daemon.\<close>

definition transact :: "client_env \<Rightarrow> tPS_CMD \<Rightarrow> powerd \<Rightarrow> (int \<times> tPS_CMD option \<times> (u64 \<rightharpoonup> power_rsp) \<times> powerd) option" where
  "transact env c st =
     powerd_cmd_marshall (send_buf env) c \<bind> (\<lambda>bs.
       if \<not> conn env then Some (-1, None, Map.empty, st)
       else serve (c_loop env) bs st \<bind> (\<lambda>(out, mem, st').
         waitRsploop empty_recv_job out \<bind> (\<lambda>(_, job).
           powerd_cmd_unmarshall (rsp_cmd env) job \<bind> (\<lambda>(vRet, rsp).
             Some (if vRet \<noteq> 0 then (-1, None, mem, st') else (0, rsp, mem, st'))))))"

text \<open>
  The message is at its address while the daemon works on it. The result is what the pointer the
  caller gets points to; a command of the reply that is a null pointer has no result.
\<close>

definition power_msg :: "client_env \<Rightarrow> power_msg \<Rightarrow> powerd \<Rightarrow> (int \<times> power_rsp option \<times> powerd) option" where
  "power_msg env m st =
     (let env' = env\<lparr>c_loop := (c_loop env)\<lparr>msg_at := (msg_at (c_loop env))(msg_ptr env := m)\<rparr>\<rparr>
      in transact env' ((powerd_cmd_create (cli_cmd env))\<lparr>CmdID := 1, pMSG := msg_ptr env\<rparr>) st \<bind> (\<lambda>(vRet, rsp, mem, st').
           if vRet \<noteq> 0 then Some (-1, None, st')
           else (case rsp of
                   None \<Rightarrow> None
                 | Some r \<Rightarrow> if pMSG r = 0 then Some (0, None, st')
                             else map_option (\<lambda>x. (0, Some x, st')) (mem (pMSG r)))))"

text \<open>The other functions copy one structure into the command and back from the reply.\<close>

definition copy_back :: "(tPS_CMD \<Rightarrow> 'b) \<Rightarrow> 'b \<Rightarrow> (int \<times> tPS_CMD option \<times> (u64 \<rightharpoonup> power_rsp) \<times> powerd) option \<Rightarrow> (int \<times> 'b \<times> powerd) option" where
  "copy_back f old r =
     r \<bind> (\<lambda>(vRet, rsp, _, st').
       if vRet \<noteq> 0 then Some (-1, old, st') else (case rsp of None \<Rightarrow> None | Some c \<Rightarrow> Some (0, f c, st')))"

definition power_msg_perf_lock_acq :: "client_env \<Rightarrow> tPerfLockData \<Rightarrow> tPerfLockData \<Rightarrow> powerd \<Rightarrow> (int \<times> tPerfLockData \<times> powerd) option" where
  "power_msg_perf_lock_acq env d rsp st =
     copy_back perfLock rsp (transact env ((powerd_cmd_create (cli_cmd env))\<lparr>CmdID := 2, pMSG := 0, perfLock := d\<rparr>) st)"

definition power_msg_perf_lock_rel :: "client_env \<Rightarrow> tLockHdlData \<Rightarrow> tLockHdlData \<Rightarrow> powerd \<Rightarrow> (int \<times> tLockHdlData \<times> powerd) option" where
  "power_msg_perf_lock_rel env d rsp st =
     copy_back hdlData rsp (transact env ((powerd_cmd_create (cli_cmd env))\<lparr>CmdID := 3, pMSG := 0, hdlData := d\<rparr>) st)"

definition power_msg_cus_lock_hint :: "client_env \<Rightarrow> tCusLockData \<Rightarrow> tCusLockData \<Rightarrow> powerd \<Rightarrow> (int \<times> tCusLockData \<times> powerd) option" where
  "power_msg_cus_lock_hint env d rsp st =
     copy_back cusLockHint rsp (transact env ((powerd_cmd_create (cli_cmd env))\<lparr>CmdID := 4, pMSG := 0, cusLockHint := d\<rparr>) st)"

definition power_msg_timer_req :: "client_env \<Rightarrow> tTimerData \<Rightarrow> tTimerData \<Rightarrow> powerd \<Rightarrow> (int \<times> tTimerData \<times> powerd) option" where
  "power_msg_timer_req env d rsp st =
     copy_back timerData rsp (transact env ((powerd_cmd_create (cli_cmd env))\<lparr>CmdID := 5, pMSG := 0, timerData := d\<rparr>) st)"

section \<open>Waiting for the reply\<close>

lemma recvcmd_complete:
  assumes "powerd_ipc_recvcmd job sock = (vRet, job', sock')" "rj_State job = 0" "vRet \<noteq> -1"
  shows "rj_State job' = 1"
  using assms by (auto simp: powerd_ipc_recvcmd_def recv_content_def recv_done_def Let_def split: if_splits option.splits)

text \<open>One call of \<open>powerd_ipc_recvcmd\<close> fails or completes the command, so the loop always ends.\<close>

lemma waitRsploop_once:
  assumes "powerd_ipc_recvcmd (job\<lparr>rj_State := 0\<rparr>) sock = (vRet, job', sock')"
  shows "waitRsploop job sock = Some (if vRet = -1 then -1 else 0, job')"
proof (cases "vRet = -1")
  case False
  then have "rj_State job' = 1" using recvcmd_complete [OF assms] by simp
  then have "waitRsp job' sock' = Some (0, job')" by (subst waitRsp.simps) simp
  then show ?thesis using assms False unfolding waitRsploop_def by (subst waitRsp.simps) simp
qed (use assms in \<open>simp add: waitRsploop_def waitRsp.simps\<close>)

section \<open>Messages\<close>

definition memory_ok :: "client_env \<Rightarrow> bool" where
  "memory_ok env \<longleftrightarrow> cmd_in_range (cli_cmd env) \<and> cmd_in_range (cmd_mem (c_loop env)) \<and> msg_ptr env \<noteq> 0 \<and> rsp_ptr (c_loop env) \<noteq> 0"

lemma empty_job_State: "empty_recv_job\<lparr>rj_State := 0\<rparr> = empty_recv_job"
  by (simp add: empty_recv_job_def)

lemma created_range:
  "cmd_in_range m \<Longrightarrow> cmd_in_range ((powerd_cmd_create m)\<lparr>CmdID := i, pMSG := p\<rparr>)"
  "pl_hdl (perfLock (powerd_cmd_create m)) = INVALID_HANDLE"
  by (simp_all add: cmd_in_range_def in_int_def powerd_cmd_create_def powerd_ipc_init_pscmd_def)

lemma transact_message:
  assumes "conn env" "cmd_in_range c" "pl_hdl (perfLock c) = INVALID_HANDLE" "1 \<le> CmdID c" "CmdID c \<le> 5"
    and "handle_cmd (c_loop env) (as_received (c_loop env) c) st = Some (Some c', rsp, st')"
    and "pl_hdl (perfLock c') = INVALID_HANDLE" "cmd_in_range c'" "CmdID c' = CmdID c"
  shows "transact env c st = Some (0, Some (received c' ((powerd_cmd_create (rsp_cmd env))\<lparr>CmdID := CmdID c'\<rparr>)),
    (case rsp of None \<Rightarrow> Map.empty | Some r \<Rightarrow> [rsp_ptr (c_loop env) \<mapsto> r]), st')"
proof -
  let ?cli = "\<lparr>TCPCliFD = 0, TCPState = TCP_CLIENT_RUNNING, cli_RecvJob = empty_recv_job,
    sock_in = frame (CmdID c) (content_of c), sock_out = [], shared = Map.empty\<rparr>"
  from handleIPC_message [of ?cli c "c_loop env" st c' rsp st'] assms(2,4-7)
  obtain cli' where "Powerd_handleIPC (c_loop env) True ?cli st = Some (cli', st')" "sock_out cli' = frame (CmdID c') (content_of c')"
    "shared cli' = (case rsp of None \<Rightarrow> Map.empty | Some r \<Rightarrow> [rsp_ptr (c_loop env) \<mapsto> r])" by (auto cong: option.case_cong)
  then have s: "serve (c_loop env) (frame (CmdID c) (content_of c)) st = Some (frame (CmdID c') (content_of c'),
      (case rsp of None \<Rightarrow> Map.empty | Some r \<Rightarrow> [rsp_ptr (c_loop env) \<mapsto> r]), st')"
    by (simp add: serve_def)
  have id: "1 \<le> CmdID c'" "CmdID c' \<le> 5" using assms(4,5,9) by simp_all
  have "waitRsploop empty_recv_job (frame (CmdID c') (content_of c')) = Some (0, job_with (CmdID c') (content_of c'))"
    using waitRsploop_once [of empty_recv_job] reply_read(1) [OF assms(8) id] by (simp add: empty_job_State)
  then show ?thesis
    using marshall_message [OF assms(3), of "send_buf env"] s reply_read(2) [OF assms(8) id, of "rsp_cmd env"] assms(1)
    by (simp add: transact_def)
qed

lemma power_msg_result:
  assumes "conn env" "memory_ok env" "powerd_req (l_core (c_loop env)) m st = Some (r, rsp, st')"
  shows "power_msg env m st = Some (0, rsp, st')"
proof -
  define l where "l = (c_loop env)\<lparr>msg_at := (msg_at (c_loop env))(msg_ptr env := m)\<rparr>"
  define c where "c = (powerd_cmd_create (cli_cmd env))\<lparr>CmdID := 1, pMSG := msg_ptr env\<rparr>"
  let ?env = "env\<lparr>c_loop := l\<rparr>" and ?k = "as_received l c"
  have c: "cmd_in_range c" "pl_hdl (perfLock c) = INVALID_HANDLE" "CmdID c = 1" "pMSG c \<noteq> 0"
    using assms(2) created_range [of "cli_cmd env"] by (simp_all add: c_def memory_ok_def)
  have "cmd_in_range (cmd_mem l)" using assms(2) by (simp add: l_def memory_ok_def)
  note k = as_received_range [OF c(1) this]
  let ?c' = "?k\<lparr>pMSG := (if rsp = None then 0 else rsp_ptr (c_loop env))\<rparr>"
  have "pMSG ?k = msg_ptr env" using k(5) [OF c(4)] by (simp add: c_def)
  then have h: "handle_cmd l ?k st = Some (Some ?c', rsp, st')"
    using k(2) c(3) assms(2,3) by (simp add: handle_cmd_def l_def memory_ok_def)
  have "cmd_in_range ?c'" "pl_hdl (perfLock ?c') = INVALID_HANDLE" "CmdID ?c' = CmdID c"
    using k(1-3) by (simp_all add: cmd_in_range_def)
  moreover have l: "c_loop ?env = l" "conn ?env" "rsp_cmd ?env = rsp_cmd env" "rsp_ptr l = rsp_ptr (c_loop env)"
    using assms(1) by (simp_all add: l_def)
  ultimately have "transact ?env c st = Some (0, Some (received ?c' ((powerd_cmd_create (rsp_cmd env))\<lparr>CmdID := CmdID ?c'\<rparr>)),
      (case rsp of None \<Rightarrow> Map.empty | Some r \<Rightarrow> [rsp_ptr (c_loop env) \<mapsto> r]), st')"
    using transact_message [of ?env c st ?c' rsp st', unfolded l, OF l(2)] c h by simp
  then show ?thesis
    using assms(2) unfolding power_msg_def Let_def l_def [symmetric] c_def [symmetric]
    by (cases rsp) (simp_all add: received_def powerd_cmd_create_def powerd_ipc_init_pscmd_def memory_ok_def)
qed

lemma power_msg_none:
  assumes "conn env" "memory_ok env" "powerd_req (l_core (c_loop env)) m st = None"
  shows "power_msg env m st = None"
proof -
  define l where "l = (c_loop env)\<lparr>msg_at := (msg_at (c_loop env))(msg_ptr env := m)\<rparr>"
  define c where "c = (powerd_cmd_create (cli_cmd env))\<lparr>CmdID := 1, pMSG := msg_ptr env\<rparr>"
  have c: "cmd_in_range c" "pl_hdl (perfLock c) = INVALID_HANDLE" "CmdID c = 1" "pMSG c = msg_ptr env" "msg_ptr env \<noteq> 0"
    using assms(2) created_range [of "cli_cmd env"] by (simp_all add: c_def memory_ok_def)
  have "cmd_in_range (cmd_mem l)" using assms(2) by (simp add: l_def memory_ok_def)
  note k = as_received_range [OF c(1) this]
  have "handle_cmd l (as_received l c) st = None" using k(2,5) c assms(3) by (simp add: handle_cmd_def l_def)
  then have "serve l (frame (CmdID c) (content_of c)) st = None"
    using c handleIPC_none [of _ c l st] by (simp add: serve_def)
  then show ?thesis
    using marshall_message [OF c(2), of "send_buf env"] assms(1) unfolding power_msg_def Let_def l_def [symmetric] c_def [symmetric]
    by (simp add: transact_def l_def)
qed

lemma power_msg_down: "\<not> conn env \<Longrightarrow> power_msg env m st = Some (-1, None, st)"
  using marshall_message [of "(powerd_cmd_create (cli_cmd env))\<lparr>CmdID := 1, pMSG := msg_ptr env\<rparr>" "send_buf env"]
    created_range(2) [of "cli_cmd env"] by (simp add: power_msg_def transact_def)

lemma power_msg_eq:
  assumes "conn env" "memory_ok env"
  shows "power_msg env m st = map_option (\<lambda>(_, rsp, st'). (0, rsp, st')) (powerd_req (l_core (c_loop env)) m st)"
  using power_msg_result [OF assms, of m st] power_msg_none [OF assms, of m st]
  by (cases "powerd_req (l_core (c_loop env)) m st") auto

text \<open>
  C14. The socket is transparent for messages. Whatever the memory of the daemon and the unused parts
  of the commands hold, \<open>power_msg\<close> has exactly the effect of calling \<open>powerd_req\<close> on the message and
  hands its response to the caller; without a connection it fails and has no effect.
\<close>

theorem power_msg_transparent:
  assumes "memory_ok env"
  shows "power_msg env m st = (if conn env then map_option (\<lambda>(_, rsp, st'). (0, rsp, st')) (powerd_req (l_core (c_loop env)) m st)
    else Some (-1, None, st))"
  using power_msg_eq [OF _ assms] power_msg_down by simp

definition demo_client_env :: client_env where
  "demo_client_env = \<lparr>c_loop = demo_loop_env, conn = True, cli_cmd = demo_cmd, rsp_cmd = demo_cmd, send_buf = (\<lambda>_. 0), msg_ptr = 4096\<rparr>"

lemma demo_memory_ok: "memory_ok demo_client_env"
  by (simp add: memory_ok_def demo_client_env_def demo_loop_env_def demo_cmd_def cmd_in_range_def in_int_def)

theorem power_msg_transparent_witness:
  "power_msg demo_client_env MSG_NO_BUF demo_daemon = Some (0, Some Rsp_empty, demo_daemon)"
  using power_msg_transparent [OF demo_memory_ok, of MSG_NO_BUF demo_daemon] demo_core_env_sel(3)
  by (simp add: powerd_req_def demo_client_env_def demo_loop_env_def)

end
