(* ===== verification/Power_Api.thy ===== *)
theory Power_Api
  imports Power_Client
begin

text \<open>
  The interface of the library, \<^verbatim>\<open>lib/powerhal/powerhal_api.cpp\<close>, which the services call. A lock is
  registered at once, so that its handle can be returned, and put on the queue \<open>vWorkMsg\<close>; a worker
  thread sends the queued messages to the daemon.

  \<open>__INTRA_PROCESS_ONLY__\<close> is defined: messages are passed by address. One round of the worker runs
  with the queue locked and is a step of the model, \<open>mtkPowerMsgWorker\<close>; every message of the round
  meets its own environment. A pointer that was never set is \<open>None\<close>; using it has no result.
\<close>

text \<open>The threads that \<open>libpowerhal_Init\<close> starts for touch events and errors are not part of the model.\<close>

datatype work_kind = WORK_MSG_LOCK_ACQ | WORK_MSG_LOCK_REL | WORK_MSG_EXIT

record tWorkMsg =
  w_msg :: work_kind
  w_hint :: int
  w_hdl :: int
  w_size :: int
  w_pid :: int
  w_tid :: int
  w_duration :: int
  w_rsc :: "int list option"

record api =
  dmn :: powerd
  vWorkMsg :: "tWorkMsg list"
  gWorkerExist :: bool
  api_init :: bool
  worker_up :: bool       \<comment> \<open>the worker thread runs\<close>

abbreviation core :: "client_env \<Rightarrow> core_env" where
  "core env \<equiv> l_core (c_loop env)"

abbreviation aservice :: "api \<Rightarrow> perf" where
  "aservice a \<equiv> svc (dmn a)"

section \<open>The queue\<close>

definition add_work_req :: "client_env \<Rightarrow> work_kind \<Rightarrow> int \<Rightarrow> int \<Rightarrow> int \<Rightarrow> int \<Rightarrow> int \<Rightarrow> int \<Rightarrow> int list option \<Rightarrow> api \<Rightarrow> api option" where
  "add_work_req env msg hdl sz p t duration hint l a =
     (let push = (\<lambda>rsc. a\<lparr>vWorkMsg := vWorkMsg a @ [\<lparr>w_msg = msg, w_hint = hint, w_hdl = hdl, w_size = sz,
                           w_pid = p, w_tid = t, w_duration = duration, w_rsc = rsc\<rparr>]\<rparr>)
      in if \<not> gWorkerExist a then Some a
         else if sz > 0 \<and> sz \<le> int MAX_ARGS_PER_REQUEST \<and> l \<noteq> None then
           (if \<not> malloc_ok (core env) then Some a
            else if sz \<le> int (length (the l)) then Some (push (Some (take (nat sz) (the l)))) else None)
         else Some (push None))"

section \<open>Messages to the daemon\<close>

text \<open>
  A negative size makes the allocation fail. The member \<open>uid\<close> is not set by the code.
\<close>

definition LockAcq_internal :: "client_env \<Rightarrow> int list option \<Rightarrow> int \<Rightarrow> int \<Rightarrow> int \<Rightarrow> int \<Rightarrow> int \<Rightarrow> int \<Rightarrow> powerd \<Rightarrow> (int \<times> powerd) option" where
  "LockAcq_internal env l hdl sz p t duration hint st =
     (if sz < 0 \<or> \<not> malloc_ok (core env) then Some (0, st)
      else if sz > 0 \<and> (l = None \<or> int (length (the l)) < sz) then None
      else power_msg env (MSG_PERF_LOCK_ACQ
             \<lparr>pl_hdl = hdl, pl_pid = p, pl_uid = pl_uid (perfLock (cli_cmd env)), pl_duration = duration, pl_reserved = t,
              pl_size = sz, pl_hint = hint, pl_rscList = Some (if sz = 0 then [] else take (nat sz) (the l))\<rparr>) st \<bind>
        (\<lambda>(_, rsp, st'). Some (case rsp of Some (Rsp_lock h) \<Rightarrow> h | _ \<Rightarrow> hdl, st')))"

definition LockRel_internal :: "client_env \<Rightarrow> int \<Rightarrow> powerd \<Rightarrow> powerd option" where
  "LockRel_internal env hdl st = map_option (\<lambda>(_, _, st'). st') (power_msg env (MSG_PERF_LOCK_REL hdl) st)"

section \<open>The worker\<close>

definition work_one :: "client_env \<Rightarrow> tWorkMsg \<Rightarrow> powerd \<Rightarrow> powerd option" where
  "work_one env m st =
     (case w_msg m of
        WORK_MSG_LOCK_ACQ \<Rightarrow>
          LockAcq_internal env (w_rsc m) (w_hdl m) (w_size m) (w_pid m) (w_tid m) (w_duration m) (w_hint m) st \<bind>
            (\<lambda>(_, st'). if w_rsc m = None then None else Some st')
      | WORK_MSG_LOCK_REL \<Rightarrow> LockRel_internal env (w_hdl m) st
      | WORK_MSG_EXIT \<Rightarrow> Some st)"

fun work_all :: "(nat \<Rightarrow> client_env) \<Rightarrow> tWorkMsg list \<Rightarrow> powerd \<Rightarrow> powerd option" where
  "work_all envs [] st = Some st"
| "work_all envs (m # ms) st = work_one (envs 0) m st \<bind> (\<lambda>st'. work_all (\<lambda>i. envs (Suc i)) ms st')"

definition mtkPowerMsgWorker :: "(nat \<Rightarrow> client_env) \<Rightarrow> api \<Rightarrow> api option" where
  "mtkPowerMsgWorker envs a =
     (if \<not> worker_up a then Some a
      else map_option (\<lambda>st. a\<lparr>dmn := st, vWorkMsg := [], worker_up := (\<forall>m \<in> set (vWorkMsg a). w_msg m \<noteq> WORK_MSG_EXIT)\<rparr>)
        (work_all envs (vWorkMsg a) (dmn a)))"

text \<open>
  The caller sleeps until the message is gone, which takes a round of the worker; without the
  worker it sleeps forever.
\<close>

definition check_work_req :: "(nat \<Rightarrow> client_env) \<Rightarrow> work_kind \<Rightarrow> int \<Rightarrow> api \<Rightarrow> api option" where
  "check_work_req envs msg hdl a =
     (if gWorkerExist a \<and> (\<exists>m \<in> set (vWorkMsg a). w_msg m = msg \<and> w_hdl m = hdl)
      then (if worker_up a then mtkPowerMsgWorker envs a else None)
      else Some a)"

section \<open>The interface\<close>

definition perfLibpowerInit :: "'a lock_env_scheme \<Rightarrow> perf \<Rightarrow> (int \<times> perf) option" where
  "perfLibpowerInit env st = map_option (\<lambda>(ok, st'). (if ok then 0 else -1, st')) (ready env st)"

definition libpowerhal_Init :: "client_env \<Rightarrow> bool \<Rightarrow> api \<Rightarrow> (int \<times> api) option" where
  "libpowerhal_Init env needWorker a =
     (if api_init a then Some (0, a)
      else map_option (\<lambda>(r, st). (r, a\<lparr>dmn := st, api_init := True, vWorkMsg := [],
               gWorkerExist := (needWorker \<or> gWorkerExist a), worker_up := (needWorker \<or> worker_up a)\<rparr>))
        (on_svc (perfLibpowerInit (core env)) (dmn a)))"

text \<open>The part that \<open>LockAcq\<close> and the two hint functions share.\<close>

definition lock_via :: "client_env \<Rightarrow> int list \<Rightarrow> int \<Rightarrow> int \<Rightarrow> int \<Rightarrow> int \<Rightarrow> int \<Rightarrow> int \<Rightarrow> api \<Rightarrow> (int \<times> api) option" where
  "lock_via env l hdl sz p t duration hint a =
     (if gWorkerExist a then
        on_svc (\<lambda>st. perfLockCheckHdl (core env) st hdl hint sz p t duration) (dmn a) \<bind> (\<lambda>(h, st).
          map_option (\<lambda>a'. (h, a')) (add_work_req env WORK_MSG_LOCK_ACQ h sz p t duration hint (Some l) (a\<lparr>dmn := st\<rparr>)))
      else map_option (\<lambda>(h, st). (h, a\<lparr>dmn := st\<rparr>)) (LockAcq_internal env (Some l) hdl sz p t duration hint (dmn a)))"

definition libpowerhal_LockAcq :: "(nat \<Rightarrow> client_env) \<Rightarrow> client_env \<Rightarrow> int list \<Rightarrow> int \<Rightarrow> int \<Rightarrow> int \<Rightarrow> int \<Rightarrow> int \<Rightarrow> api \<Rightarrow> (int \<times> api) option" where
  "libpowerhal_LockAcq envs env l hdl sz p t duration a =
     (if queryAPIstatus (aservice a) 0 = 0 then Some (0, a)
      else if sz mod 2 \<noteq> 0 \<or> sz > int MAX_ARGS_PER_REQUEST \<or> sz = 0 then Some (0, a)
      else (if gWorkerExist a \<and> hdl > 0 then check_work_req envs WORK_MSG_LOCK_REL hdl a else Some a) \<bind>
        lock_via env l hdl sz p t duration (-1))"

text \<open>\<open>size\<close> is 0 unless \<open>perfGetHintRsc\<close> sets it, the list is fresh memory unless it is copied.\<close>

definition hint_list :: "client_env \<Rightarrow> int \<Rightarrow> perf \<Rightarrow> (int \<times> int list \<times> perf) option" where
  "hint_list env hint st =
     perfGetHintRsc (core env) st hint \<bind> (\<lambda>((_, sz, l), st').
       let n = (case sz of None \<Rightarrow> 0 | Some n \<Rightarrow> n)
       in Some (n, case l of None \<Rightarrow> map (heap_ints (core env)) [0..<nat n] | Some l \<Rightarrow> l, st'))"

definition libpowerhal_CusLockHint :: "client_env \<Rightarrow> int \<Rightarrow> int \<Rightarrow> int \<Rightarrow> api \<Rightarrow> (int \<times> api) option" where
  "libpowerhal_CusLockHint env hint duration p a =
     (if queryAPIstatus (aservice a) 1 = 0 \<or> getHintRscSize (PowerScnTbl (aservice a)) hint = -1 \<or> \<not> malloc_ok (core env) then Some (0, a)
      else hint_list env hint (aservice a) \<bind> (\<lambda>(sz, l, st).
        let a' = a\<lparr>dmn := (dmn a)\<lparr>svc := st\<rparr>\<rparr>
        in if sz = 0 then Some (0, a') else lock_via env l 0 sz p 0 duration hint a'))"

text \<open>The extended list comes first. Its size may not be negative or exceed the list.\<close>

definition libpowerhal_CusLockHint_data :: "client_env \<Rightarrow> int \<Rightarrow> int \<Rightarrow> int \<Rightarrow> int list option \<Rightarrow> int \<Rightarrow> api \<Rightarrow> (int \<times> api) option" where
  "libpowerhal_CusLockHint_data env hint duration p extendedList extendedListSize a =
     (if queryAPIstatus (aservice a) 1 = 0 \<or> getHintRscSize (PowerScnTbl (aservice a)) hint = -1 \<or> \<not> malloc_ok (core env) then Some (0, a)
      else case extendedList of
        None \<Rightarrow> Some (0, a)
      | Some ext \<Rightarrow>
          if extendedListSize mod 2 \<noteq> 0 then Some (0, a)
          else if extendedListSize < 0 \<or> int (length ext) < extendedListSize then None
          else hint_list env hint (aservice a) \<bind> (\<lambda>(sz, l, st).
            let a' = a\<lparr>dmn := (dmn a)\<lparr>svc := st\<rparr>\<rparr>
            in if sz = 0 then Some (0, a')
               else lock_via env (take (nat extendedListSize) ext @ l) 0 (sz + extendedListSize) p 0 duration hint a'))"

definition libpowerhal_LockRel :: "client_env \<Rightarrow> int \<Rightarrow> api \<Rightarrow> (int \<times> api) option" where
  "libpowerhal_LockRel env hdl a =
     (if gWorkerExist a then map_option (\<lambda>a'. (0, a')) (add_work_req env WORK_MSG_LOCK_REL hdl 0 0 0 0 0 None a)
      else map_option (\<lambda>st. (0, a\<lparr>dmn := st\<rparr>)) (LockRel_internal env hdl (dmn a)))"

definition libpowerhal_ExitWorker :: "client_env \<Rightarrow> api \<Rightarrow> (int \<times> api) option" where
  "libpowerhal_ExitWorker env a =
     (if gWorkerExist a then map_option (\<lambda>a'. (0, a')) (add_work_req env WORK_MSG_EXIT 0 0 0 0 0 0 None a) else Some (0, a))"

text \<open>The functions that only send a message.\<close>

definition send_msg :: "client_env \<Rightarrow> power_msg \<Rightarrow> api \<Rightarrow> (power_rsp option \<times> api) option" where
  "send_msg env m a = map_option (\<lambda>(_, rsp, st). (rsp, a\<lparr>dmn := st\<rparr>)) (power_msg env m (dmn a))"

definition libpowerhal_UserScnDisableAll :: "client_env \<Rightarrow> api \<Rightarrow> (int \<times> api) option" where
  "libpowerhal_UserScnDisableAll env a = map_option (\<lambda>(_, a'). (0, a')) (send_msg env MSG_SCN_DISABLE_ALL a)"

definition libpowerhal_UserScnRestoreAll :: "client_env \<Rightarrow> api \<Rightarrow> (int \<times> api) option" where
  "libpowerhal_UserScnRestoreAll env a = map_option (\<lambda>(_, a'). (0, a')) (send_msg env MSG_SCN_RESTORE_ALL a)"

definition libpowerhal_NotifyAppState :: "client_env \<Rightarrow> api \<Rightarrow> (int \<times> api) option" where
  "libpowerhal_NotifyAppState env a =
     (if queryAPIstatus (aservice a) 2 = 0 then Some (0, a) else map_option (\<lambda>(_, a'). (0, a')) (send_msg env MSG_NOTIFY_STATE a))"

definition libpowerhal_UserGetCapability :: "client_env \<Rightarrow> int \<Rightarrow> int \<Rightarrow> api \<Rightarrow> (int \<times> api) option" where
  "libpowerhal_UserGetCapability env cmd i a =
     map_option (\<lambda>(r, st). (r, a\<lparr>dmn := st\<rparr>)) (on_svc (\<lambda>st. perfUserGetCapability (sys_env.truncate (core env)) st cmd i) (dmn a))"

text \<open>The text is cut to 520 characters. Without a response the return value is what the stack held.\<close>

definition libpowerhal_SetSysInfo :: "client_env \<Rightarrow> int \<Rightarrow> int \<Rightarrow> string \<Rightarrow> api \<Rightarrow> (int \<times> api) option" where
  "libpowerhal_SetSysInfo env stack ty data a =
     map_option (\<lambda>(rsp, a'). (case rsp of Some (Rsp_sysinfo r) \<Rightarrow> r | _ \<Rightarrow> stack, a')) (send_msg env (MSG_SET_SYSINFO ty (take 520 data)) a)"

end
