(* ===== verification/Api_Props.thy ===== *)
theory Api_Props
  imports Power_Api
begin

text \<open>
  Properties of the library interface: registering a handle, a lock from the call of a client to
  the kernel settings and back, every interleaving of calls with the worker and the timers, and
  where the queue is left with messages that cannot be handled.
\<close>

section \<open>Registering a handle\<close>

lemma find_handle_from_set:
  "find_handle_from ss h n = -1 \<Longrightarrow> i < length ss \<Longrightarrow> is_user_scn s \<Longrightarrow> handle_idx s = h \<Longrightarrow>
    find_handle_from (ss[i := s]) h n = int (n + i)"
proof (induction ss arbitrary: n i)
  case (Cons x ss)
  then show ?case by (cases i) (auto split: if_splits)
qed simp

lemma handle_positive: "0 \<le> user_handle_now st \<Longrightarrow> 0 < fst (allocNewHandleNum st)"
proof -
  have "0 \<le> (user_handle_now st + 1) mod HANDLE_RAND_MAX" by simp
  then show "0 < fst (allocNewHandleNum st)" unfolding allocNewHandleNum_def Let_def by (auto simp del: pos_mod_sign)
qed

lemma register_slot:
  assumes "i < length (ptScnList st)" "register_handle env st i hint p t d = (h, st')"
  shows "\<exists>s. ptScnList st' = (ptScnList st)[i := s] \<and> scn_state s = STATE_OFF \<and> is_user_scn s \<and> handle_idx s = h"
    "h = fst (allocNewHandleNum st)" "same_config st st'" "nPowerLibEnable st' = nPowerLibEnable st"
    "powerhalAPI_status st' = powerhalAPI_status st"
  using assms
  by (auto simp: register_handle_def allocNewHandleNum_def Let_def resetScenario_def resetScenario_all_def same_config_def is_user_scn_def
      split: if_splits)

text \<open>A new handle: nothing is requested yet and every setting stays.\<close>

lemma register_new:
  assumes "service_inv st" "nPowerLibEnable st \<noteq> 0" "0 < sz" "sz \<le> int MAX_ARGS_PER_REQUEST"
    and "proc_exists env p \<or> \<not> (d = 0 \<or> d > USER_DURATION_MAX)" "findHandleToIndex st h0 = -1"
    and "free_slot_from (ptScnList st) 0 = Some i" "findHandleToIndex st (fst (allocNewHandleNum st)) = -1" "0 \<le> user_handle_now st"
  defines "h \<equiv> fst (allocNewHandleNum st)"
  shows "\<exists>st'. perfLockCheckHdl env st h0 hint sz p t d = Some (h, st') \<and> service_inv st' \<and> findHandleToIndex st' h = int i \<and>
    scn_state (ptScnList st' ! i) = STATE_OFF \<and> i < length (ptScnList st') \<and> settings st' = settings st \<and>
    nPowerLibEnable st' = nPowerLibEnable st \<and> powerhalAPI_status st' = powerhalAPI_status st \<and> length (ptScnList st') = length (ptScnList st)"
proof -
  obtain h' st' where r: "register_handle env st i hint p t d = (h', st')" by (cases "register_handle env st i hint p t d")
  have i: "i < length (ptScnList st)" "scn_type (ptScnList st ! i) = -1" using free_slot_from_range [OF assms(7)] by simp_all
  note s = register_slot [OF i(1) r]
  have h: "h' = h" using s(2) by (simp add: h_def)
  then obtain s where l: "ptScnList st' = (ptScnList st)[i := s]" "scn_state s = STATE_OFF" "is_user_scn s" "handle_idx s = h" using s(1) by auto
  have inv: "service_inv st'" by (rule service_inv_register [OF assms(1) i r])
  have rdy: "nIsReady st" using assms(1) by (simp add: service_inv_def)
  have pos: "0 < h" using handle_positive [OF assms(9)] by (simp add: h_def)
  have "find_handle_from (ptScnList st) h 0 = -1" using assms(8) pos by (simp add: findHandleToIndex_def h_def)
  then have "findHandleToIndex st' h = int i" using find_handle_from_set [of "ptScnList st" h 0 i s] i(1) l pos by (simp add: findHandleToIndex_def)
  moreover have "settings st' = settings st"
  proof (rule settings_active)
    show "arb_inv st" "arb_inv st'" "same_config st st'" using assms(1) inv s(3) by (simp_all add: service_inv_def)
    have "scn_state (ptScnList st ! i) \<noteq> STATE_ON" using assms(1) i nth_mem [OF i(1)] by (auto simp: service_inv_def slot_ok_def)
    then show "active st' = active st"
      using i(1) l(1,2) by (intro active_off_update [of i st "scn_key s"]) (simp_all add: requests_def scn_key_def map_update)
  qed
  moreover have "perfLockCheckHdl env st h0 hint sz p t d = Some (h, st')"
    using assms(2-7) rdy r h by (auto simp: perfLockCheckHdl_def ready_fun perfLockCheckHdl_internal_def)
  ultimately show ?thesis using inv l i(1) s(4,5) by auto
qed

section \<open>Messages of the worker\<close>

definition lock_data :: "client_env \<Rightarrow> tWorkMsg \<Rightarrow> tPerfLockData" where
  "lock_data env m = \<lparr>pl_hdl = w_hdl m, pl_pid = w_pid m, pl_uid = pl_uid (perfLock (cli_cmd env)), pl_duration = w_duration m,
     pl_reserved = w_tid m, pl_size = w_size m, pl_hint = w_hint m, pl_rscList = w_rsc m\<rparr>"

text \<open>A queued message that the worker can handle.\<close>

definition msg_wf :: "tWorkMsg \<Rightarrow> bool" where
  "msg_wf m \<longleftrightarrow> (w_msg m = WORK_MSG_LOCK_ACQ \<longrightarrow>
     (\<exists>l. w_rsc m = Some l \<and> w_size m = int (length l) \<and> l \<noteq> [] \<and> length l \<le> MAX_ARGS_PER_REQUEST))"

definition as_request :: "client_env \<Rightarrow> tWorkMsg \<Rightarrow> power_msg" where
  "as_request env m = (case w_msg m of WORK_MSG_LOCK_ACQ \<Rightarrow> MSG_PERF_LOCK_ACQ (lock_data env m)
     | WORK_MSG_LOCK_REL \<Rightarrow> MSG_PERF_LOCK_REL (w_hdl m) | WORK_MSG_EXIT \<Rightarrow> MSG_NO_BUF)"

lemma lock_data_list: "msg_wf m \<Longrightarrow> w_msg m = WORK_MSG_LOCK_ACQ \<Longrightarrow> acq_list (lock_data env m) = w_rsc m"
  by (auto simp: msg_wf_def acq_list_def lock_data_def)

lemma work_one_request:
  assumes "msg_wf m" "conn env" "memory_ok env" "malloc_ok (core env)" "w_msg m \<noteq> WORK_MSG_EXIT"
    and "powerd_req (core env) (as_request env m) st = Some (r, rsp, st')"
  shows "work_one env m st = Some st'"
proof (cases "w_msg m")
  case WORK_MSG_LOCK_ACQ
  then obtain l where l: "w_rsc m = Some l" "w_size m = int (length l)" "l \<noteq> []" using assms(1) by (auto simp: msg_wf_def)
  have "power_msg env (MSG_PERF_LOCK_ACQ (lock_data env m)) st = Some (0, rsp, st')"
    using assms(6) WORK_MSG_LOCK_ACQ by (intro power_msg_result [OF assms(2,3), of _ _ r]) (simp add: as_request_def)
  then show ?thesis using WORK_MSG_LOCK_ACQ l assms(4)
    by (simp add: work_one_def LockAcq_internal_def lock_data_def)
next
  case WORK_MSG_LOCK_REL
  have "power_msg env (MSG_PERF_LOCK_REL (w_hdl m)) st = Some (0, rsp, st')"
    using assms(6) WORK_MSG_LOCK_REL by (intro power_msg_result [OF assms(2,3), of _ _ r]) (simp add: as_request_def)
  then show ?thesis using WORK_MSG_LOCK_REL by (simp add: work_one_def LockRel_internal_def)
qed (use assms(5) in simp)

section \<open>A lock from the client to the settings and back\<close>

text \<open>What a client needs for a new lock: the interface is on, the list is sound, and a slot and a number are free.\<close>

definition can_register :: "core_env \<Rightarrow> perf \<Rightarrow> int list \<Rightarrow> int \<Rightarrow> int \<Rightarrow> nat \<Rightarrow> bool" where
  "can_register env st l p d i \<longleftrightarrow> queryAPIstatus st 0 \<noteq> 0 \<and> nPowerLibEnable st \<noteq> 0 \<and> l \<noteq> [] \<and> even (length l) \<and> length l \<le> MAX_ARGS_PER_REQUEST \<and>
     (proc_exists env p \<or> \<not> (d = 0 \<or> d > USER_DURATION_MAX)) \<and> free_slot_from (ptScnList st) 0 = Some i \<and> i < REG_SCN_MAX \<and>
     findHandleToIndex st (fst (allocNewHandleNum st)) = -1 \<and> 0 \<le> user_handle_now st"

text \<open>The daemon can be reached and has memory.\<close>

definition reaches :: "client_env \<Rightarrow> bool" where
  "reaches env \<longleftrightarrow> conn env \<and> memory_ok env \<and> rsp_alloc (core env) \<and> buf_alloc (core env) \<and> env_ok (core env) \<and> malloc_ok (core env) \<and>
     wall_ok (wall (core env)) \<and> (case now_time (core env) of Some (t, ms) \<Rightarrow> t \<noteq> '''' | None \<Rightarrow> False)"

definition acq_msg :: "int \<Rightarrow> int list \<Rightarrow> int \<Rightarrow> int \<Rightarrow> int \<Rightarrow> int \<Rightarrow> tWorkMsg" where
  "acq_msg h l p t d hint = \<lparr>w_msg = WORK_MSG_LOCK_ACQ, w_hint = hint, w_hdl = h, w_size = int (length l), w_pid = p, w_tid = t,
     w_duration = d, w_rsc = Some l\<rparr>"

definition rel_msg :: "int \<Rightarrow> tWorkMsg" where
  "rel_msg h = \<lparr>w_msg = WORK_MSG_LOCK_REL, w_hint = 0, w_hdl = h, w_size = 0, w_pid = 0, w_tid = 0, w_duration = 0, w_rsc = None\<rparr>"

lemma lock_via_queued:
  assumes "daemon_inv (dmn a)" "nIsReady (aservice a)" "gWorkerExist a" "can_register (core env) (aservice a) l p d i" "malloc_ok (core env)"
  defines "h \<equiv> fst (allocNewHandleNum (aservice a))"
  shows "\<exists>st'. lock_via env l 0 (int (length l)) p t d hint a =
      Some (h, a\<lparr>dmn := (dmn a)\<lparr>svc := st'\<rparr>, vWorkMsg := vWorkMsg a @ [acq_msg h l p t d hint]\<rparr>) \<and> 0 < h \<and> service_inv st' \<and>
    settings st' = settings (aservice a) \<and> findHandleToIndex st' h = int i \<and> scn_state (ptScnList st' ! i) = STATE_OFF \<and> nPowerLibEnable st' \<noteq> 0"
proof -
  have s: "service_inv (aservice a)" using assms(1,2) by (simp add: daemon_inv_def perf_inv_def)
  note c = assms(4) [unfolded can_register_def]
  have sz: "0 < int (length l)" "int (length l) \<le> int MAX_ARGS_PER_REQUEST" "int (length l) mod 2 = 0" using c by (auto simp: zmod_int)
  from register_new [OF s, of "int (length l)" "core env" p d 0 i hint t] c sz
  obtain st' where st': "perfLockCheckHdl (core env) (aservice a) 0 hint (int (length l)) p t d = Some (h, st')" "service_inv st'"
    "findHandleToIndex st' h = int i" "scn_state (ptScnList st' ! i) = STATE_OFF" "settings st' = settings (aservice a)"
    "nPowerLibEnable st' = nPowerLibEnable (aservice a)" by (auto simp: h_def findHandleToIndex_def)
  have "0 < h" using handle_positive c by (simp add: h_def)
  then show ?thesis using st' c sz assms(3,5)
    by (auto simp: lock_via_def on_svc_def add_work_req_def acq_msg_def)
qed

lemma acquire_via:
  assumes "can_register (core env) (aservice a) l p d i"
  shows "libpowerhal_LockAcq envs env l 0 (int (length l)) p t d a = lock_via env l 0 (int (length l)) p t d (-1) a"
  using assms by (auto simp: libpowerhal_LockAcq_def can_register_def zmod_int)

lemma release_queued:
  assumes "gWorkerExist a"
  shows "libpowerhal_LockRel env h a = Some (0, a\<lparr>vWorkMsg := vWorkMsg a @ [rel_msg h]\<rparr>)"
  using assms by (simp add: libpowerhal_LockRel_def add_work_req_def rel_msg_def)

text \<open>The worker carries out the acquire, and later the release.\<close>

lemma worked_off:
  assumes "daemon_inv st" "service_inv (svc st)" "powerdOnOff st \<noteq> 0" "reaches w1" "fresh (core w1) st" "reaches w2"
    and "findHandleToIndex (svc st) h = int i" "i < REG_SCN_MAX" "scn_state (ptScnList (svc st) ! i) = STATE_OFF" "nPowerLibEnable (svc st) \<noteq> 0"
    and "0 < h" "l \<noteq> []" "length l \<le> MAX_ARGS_PER_REQUEST"
  shows "\<exists>st1 st2. work_one w1 (acq_msg h l p t d hint) st = Some st1 \<and> daemon_inv st1 \<and> scn_state (ptScnList (svc st1) ! i) = STATE_ON \<and>
    work_one w2 (rel_msg h) st1 = Some st2 \<and> settings (svc st2) = settings (svc st) \<and> scn_type (ptScnList (svc st2) ! i) = -1 \<and>
    sched st2 = (sched st)((TIMER_MSG_PERF_LOCK_TIMEOUT, h) := None)"
proof -
  let ?m = "acq_msg h l p t d hint"
  let ?d = "lock_data w1 ?m"
  have rdy: "nIsReady (svc st)" using assms(2) by (simp add: service_inv_def)
  have d: "acq_list ?d = Some l" "pl_hdl ?d = h" using assms(12,13) by (simp_all add: acq_list_def lock_data_def acq_msg_def)
  have ca: "can_acquire (core w1) (svc st) l (pl_hdl ?d) i" using assms(4,7,8,10,12,13) d by (simp add: can_acquire_def reaches_def)
  have ok: "request_ok (core w1) (MSG_PERF_LOCK_ACQ ?d) st"
    using assms(4,5,7,9) d by (simp add: request_ok_def reaches_def call_ok_def acq_safe_def)
  have r1: "rsp_alloc (core w1)" "buf_alloc (core w1)" "rsp_alloc (core w2)" using assms(4,6) by (simp_all add: reaches_def)
  from lock_request [OF assms(1) ok r1(1,2) assms(3) d(1) ca rdy _ ] assms(9,11) d(2)
  obtain st1 p2 where st1: "powerd_req (core w1) (MSG_PERF_LOCK_ACQ ?d) st = Some (0, Some (Rsp_lock h), st1)" "daemon_inv st1"
    "powerdOnOff st1 = powerdOnOff st" "nIsReady (svc st1)" "scn_state (ptScnList (svc st1) ! i) = STATE_ON"
    "perfLockRel (core w1) (svc st1) h = Some (0, p2)" "scn_type (ptScnList p2 ! i) = -1" "settings p2 = settings (svc st)"
    and sc: "(sched st1)((TIMER_MSG_PERF_LOCK_TIMEOUT, h) := None) = (sched st)((TIMER_MSG_PERF_LOCK_TIMEOUT, h) := None)" by auto
  have on: "powerdOnOff st1 \<noteq> 0" using st1(3) assms(3) by simp
  have c1: "core_inv st1" using st1(2) by (simp add: daemon_inv_def)
  from release_request [OF c1 on st1(4) r1(3) _ st1(6)] assms(11)
  obtain st2 where st2: "powerd_req (core w2) (MSG_PERF_LOCK_REL h) st1 = Some (0, Some Rsp_empty, st2)" "svc st2 = p2"
    "sched st2 = (sched st1)((TIMER_MSG_PERF_LOCK_TIMEOUT, h) := None)" by auto
  have wf: "msg_wf ?m" "msg_wf (rel_msg h)" using assms(12,13) by (simp_all add: msg_wf_def acq_msg_def rel_msg_def)
  have "work_one w1 ?m st = Some st1"
    using st1(1) assms(4) by (intro work_one_request [OF wf(1)]) (auto simp: reaches_def as_request_def acq_msg_def)
  moreover have "work_one w2 (rel_msg h) st1 = Some st2"
    using st2(1) assms(6) by (intro work_one_request [OF wf(2)]) (auto simp: reaches_def as_request_def rel_msg_def)
  ultimately show ?thesis using st1 st2 sc by auto
qed

text \<open>A lock that is registered through \<open>lock_via\<close>, then worked off, released and worked off.\<close>

lemma lock_cycle:
  assumes "daemon_inv (dmn a)" "nIsReady (aservice a)" "powerdOnOff (dmn a) \<noteq> 0" "gWorkerExist a" "worker_up a" "vWorkMsg a = []"
    and "can_register (core env) (aservice a) l p d i" "malloc_ok (core env)"
    and "reaches (w1 0)" "fresh (core (w1 0)) (dmn a)" "reaches (w2 0)"
  shows "\<exists>h a1 a2 a3 a4 a5. lock_via env l 0 (int (length l)) p t d hint a = Some (h, a1) \<and> 0 < h \<and>
    settings (aservice a1) = settings (aservice a) \<and> mtkPowerMsgWorker w1 a1 = Some a2 \<and>
    scn_state (ptScnList (aservice a2) ! i) = STATE_ON \<and>
    libpowerhal_LockRel env' h a2 = Some (0, a3) \<and> mtkPowerMsgWorker w2 a3 = Some a4 \<and>
    libpowerhal_LockRel env' h a1 = Some (0, a5) \<and> mtkPowerMsgWorker (case_nat (w1 0) w2) a5 = Some a4 \<and>
    settings (aservice a4) = settings (aservice a) \<and> scn_type (ptScnList (aservice a4) ! i) = -1 \<and> vWorkMsg a4 = [] \<and>
    sched (dmn a4) = (sched (dmn a))((TIMER_MSG_PERF_LOCK_TIMEOUT, h) := None)"
proof -
  let ?h = "fst (allocNewHandleNum (aservice a))"
  from lock_via_queued [OF assms(1,2,4,7,8), of t hint] obtain p' where q:
    "lock_via env l 0 (int (length l)) p t d hint a =
      Some (?h, a\<lparr>dmn := (dmn a)\<lparr>svc := p'\<rparr>, vWorkMsg := [acq_msg ?h l p t d hint]\<rparr>)"
    "0 < ?h" "service_inv p'" "settings p' = settings (aservice a)" "findHandleToIndex p' ?h = int i"
    "scn_state (ptScnList p' ! i) = STATE_OFF" "nPowerLibEnable p' \<noteq> 0" using assms(6) by auto
  let ?st = "(dmn a)\<lparr>svc := p'\<rparr>"
  let ?a1 = "a\<lparr>dmn := ?st, vWorkMsg := [acq_msg ?h l p t d hint]\<rparr>"
  have "daemon_inv ?st" using assms(1) q(3) by (simp add: daemon_inv_def perf_inv_def service_inv_def)
  moreover have "sched ?st = sched (dmn a)" "fresh (core (w1 0)) ?st" using assms(10) by simp_all
  moreover have "l \<noteq> []" "length l \<le> MAX_ARGS_PER_REQUEST" "i < REG_SCN_MAX" using assms(7) by (simp_all add: can_register_def)
  ultimately obtain st1 st2 where w: "work_one (w1 0) (acq_msg ?h l p t d hint) ?st = Some st1" "scn_state (ptScnList (svc st1) ! i) = STATE_ON"
    "work_one (w2 0) (rel_msg ?h) st1 = Some st2" "settings (svc st2) = settings (aservice a)" "scn_type (ptScnList (svc st2) ! i) = -1"
    "sched st2 = (sched (dmn a))((TIMER_MSG_PERF_LOCK_TIMEOUT, ?h) := None)"
    using worked_off [of ?st "w1 0" "w2 0" ?h i l p t d hint] q assms(3,9,11) by auto
  let ?a2 = "a\<lparr>dmn := st1, vWorkMsg := [], worker_up := True\<rparr>" and ?a4 = "a\<lparr>dmn := st2, vWorkMsg := [], worker_up := True\<rparr>"
  have "mtkPowerMsgWorker w1 ?a1 = Some ?a2" using w(1) assms(5) by (simp add: mtkPowerMsgWorker_def acq_msg_def)
  moreover have "libpowerhal_LockRel env' ?h ?a2 = Some (0, ?a2\<lparr>vWorkMsg := [rel_msg ?h]\<rparr>)"
    "libpowerhal_LockRel env' ?h ?a1 = Some (0, ?a1\<lparr>vWorkMsg := [acq_msg ?h l p t d hint, rel_msg ?h]\<rparr>)"
    using assms(4) by (simp_all add: release_queued)
  moreover have "mtkPowerMsgWorker w2 (?a2\<lparr>vWorkMsg := [rel_msg ?h]\<rparr>) = Some ?a4"
    using w(3) by (simp add: mtkPowerMsgWorker_def rel_msg_def)
  moreover have "mtkPowerMsgWorker (case_nat (w1 0) w2) (?a1\<lparr>vWorkMsg := [acq_msg ?h l p t d hint, rel_msg ?h]\<rparr>) = Some ?a4"
    using w(1,3) assms(5) by (simp add: mtkPowerMsgWorker_def acq_msg_def rel_msg_def)
  ultimately show ?thesis using q(1,2,4) w(2,4-6)
    by (intro exI [of _ ?h] exI [of _ ?a1] exI [of _ ?a2] exI [of _ "?a2\<lparr>vWorkMsg := [rel_msg ?h]\<rparr>"] exI [of _ ?a4]
        exI [of _ "?a1\<lparr>vWorkMsg := [acq_msg ?h l p t d hint, rel_msg ?h]\<rparr>"]) simp
qed

text \<open>
  C12. The life of a lock, from the call of a client to the settings and back. On a running service
  with the worker idle, a client asks for a new lock: it gets a handle at once, and nothing
  else changes. The next round of the worker sends the request through the socket to the daemon and
  the scenario is on. After the client released the handle, the next round leaves every managed
  setting as it was, the slot free and no timeout behind. If the client releases the handle before
  the worker has run, one round does both in order, with the same final state.
\<close>

theorem api_lock_lifecycle:
  assumes "daemon_inv (dmn a)" "nIsReady (aservice a)" "powerdOnOff (dmn a) \<noteq> 0" "gWorkerExist a" "worker_up a" "vWorkMsg a = []"
    and "can_register (core env) (aservice a) l p d i" "malloc_ok (core env)"
    and "reaches (w1 0)" "fresh (core (w1 0)) (dmn a)" "reaches (w2 0)"
  shows "\<exists>h a1 a2 a3 a4 a5. libpowerhal_LockAcq envs env l 0 (int (length l)) p t d a = Some (h, a1) \<and>
    settings (aservice a1) = settings (aservice a) \<and> mtkPowerMsgWorker w1 a1 = Some a2 \<and>
    scn_state (ptScnList (aservice a2) ! i) = STATE_ON \<and>
    libpowerhal_LockRel env' h a2 = Some (0, a3) \<and> mtkPowerMsgWorker w2 a3 = Some a4 \<and>
    libpowerhal_LockRel env' h a1 = Some (0, a5) \<and> mtkPowerMsgWorker (case_nat (w1 0) w2) a5 = Some a4 \<and>
    settings (aservice a4) = settings (aservice a) \<and> scn_type (ptScnList (aservice a4) ! i) = -1 \<and> vWorkMsg a4 = [] \<and>
    sched (dmn a4) = (sched (dmn a))((TIMER_MSG_PERF_LOCK_TIMEOUT, h) := None)"
  using lock_cycle [where ?w1.0 = w1 and ?w2.0 = w2 and t = t and hint = "-1" and env' = env', OF assms]
  unfolding acquire_via [OF assms(7)] by blast

section \<open>Every interleaving of calls, worker and timers\<close>

definition caller_ok :: "client_env \<Rightarrow> bool" where
  "caller_ok env \<longleftrightarrow> env_ok (core env) \<and> malloc_ok (core env)"

text \<open>The worker meets environments in which its messages can be carried out.\<close>

fun work_ok :: "(nat \<Rightarrow> client_env) \<Rightarrow> tWorkMsg list \<Rightarrow> powerd \<Rightarrow> bool" where
  "work_ok envs [] st \<longleftrightarrow> True"
| "work_ok envs (m # ms) st \<longleftrightarrow> reaches (envs 0) \<and> request_ok (core (envs 0)) (as_request (envs 0) m) st \<and>
     (\<forall>st'. work_one (envs 0) m st = Some st' \<longrightarrow> work_ok (\<lambda>i. envs (Suc i)) ms st')"

inductive api_reach :: "api \<Rightarrow> api \<Rightarrow> bool" where
  api_start: "api_reach a0 a0"
| api_acquire: "api_reach a0 a \<Longrightarrow> caller_ok env \<Longrightarrow> 0 \<le> sz \<Longrightarrow> work_ok envs (vWorkMsg a) (dmn a) \<Longrightarrow>
    libpowerhal_LockAcq envs env l hdl sz p t d a = Some (r, a') \<Longrightarrow> gWorkerExist a \<Longrightarrow> api_reach a0 a'"
| api_hint: "api_reach a0 a \<Longrightarrow> caller_ok env \<Longrightarrow> nIsReady (aservice a) \<Longrightarrow> gWorkerExist a \<Longrightarrow>
    libpowerhal_CusLockHint env hint d p a = Some (r, a') \<Longrightarrow> api_reach a0 a'"
| api_release: "api_reach a0 a \<Longrightarrow> gWorkerExist a \<Longrightarrow> libpowerhal_LockRel env hdl a = Some (r, a') \<Longrightarrow> api_reach a0 a'"
| api_exit: "api_reach a0 a \<Longrightarrow> libpowerhal_ExitWorker env a = Some (r, a') \<Longrightarrow> api_reach a0 a'"
| api_worker: "api_reach a0 a \<Longrightarrow> work_ok envs (vWorkMsg a) (dmn a) \<Longrightarrow> mtkPowerMsgWorker envs a = Some a' \<Longrightarrow> api_reach a0 a'"
| api_message: "api_reach a0 a \<Longrightarrow> reaches env \<Longrightarrow> request_ok (core env) m (dmn a) \<Longrightarrow> send_msg env m a = Some (rsp, a') \<Longrightarrow> api_reach a0 a'"
| api_expiry: "api_reach a0 a \<Longrightarrow> caller_ok env \<Longrightarrow> wall_ok (wall (core env)) \<Longrightarrow> handle_expired (core env) (dmn a) = Some (r, st') \<Longrightarrow>
    api_reach a0 (a\<lparr>dmn := st'\<rparr>)"

definition api_inv :: "api \<Rightarrow> bool" where
  "api_inv a \<longleftrightarrow> daemon_inv (dmn a) \<and> (\<forall>m \<in> set (vWorkMsg a). msg_wf m)"

lemma work_one_exact:
  assumes "msg_wf m" "reaches env"
  shows "work_one env m st = (if w_msg m = WORK_MSG_EXIT then Some st else map_option (\<lambda>(_, _, st'). st') (powerd_req (core env) (as_request env m) st))"
proof (cases "w_msg m = WORK_MSG_EXIT \<or> powerd_req (core env) (as_request env m) st \<noteq> None")
  case True
  then show ?thesis using work_one_request [OF assms(1)] assms(2) by (auto simp: reaches_def work_one_def)
next
  case False
  then have n: "w_msg m \<noteq> WORK_MSG_EXIT" "powerd_req (core env) (as_request env m) st = None" by blast+
  then have "power_msg env (as_request env m) st = None" using power_msg_none assms(2) by (simp add: reaches_def)
  then show ?thesis using n assms
    by (cases "w_msg m") (auto simp: work_one_def LockAcq_internal_def LockRel_internal_def as_request_def lock_data_def msg_wf_def reaches_def)
qed

lemma work_all_inv:
  "work_all envs ms st = Some st' \<Longrightarrow> work_ok envs ms st \<Longrightarrow> daemon_inv st \<Longrightarrow> (\<forall>m \<in> set ms. msg_wf m) \<Longrightarrow> daemon_inv st'"
proof (induction ms arbitrary: envs st)
  case (Cons m ms)
  then obtain st1 where st1: "work_one (envs 0) m st = Some st1" "work_all (\<lambda>i. envs (Suc i)) ms st1 = Some st'" by (auto simp: bind_eq_Some_conv)
  have "daemon_inv st1"
  proof (cases "w_msg m = WORK_MSG_EXIT")
    case True
    then show ?thesis using st1(1) Cons.prems(3) by (simp add: work_one_def)
  next
    case False
    then obtain r rsp where "powerd_req (core (envs 0)) (as_request (envs 0) m) st = Some (r, rsp, st1)"
      using st1(1) work_one_exact [of m "envs 0" st] Cons.prems(2,4)
      by (cases "powerd_req (core (envs 0)) (as_request (envs 0) m) st") auto
    then show ?thesis using request_inv Cons.prems(2,3) by auto
  qed
  then show ?case using Cons.IH [OF st1(2)] Cons.prems(2,4) st1(1) by simp
qed simp

lemma worker_inv:
  assumes "mtkPowerMsgWorker envs a = Some a'" "work_ok envs (vWorkMsg a) (dmn a)" "api_inv a"
  shows "api_inv a'" "gWorkerExist a' = gWorkerExist a"
  using assms work_all_inv by (auto simp: mtkPowerMsgWorker_def api_inv_def split: if_splits)

lemma take_size: "0 < sz \<Longrightarrow> sz \<le> int (length l) \<Longrightarrow> int (length (take (nat sz) l)) = sz \<and> take (nat sz) l \<noteq> []"
  by (auto simp: min_def nat_le_iff)

lemma add_acquire_wf:
  assumes "add_work_req env WORK_MSG_LOCK_ACQ h sz p t d hint (Some l) a = Some a'" "0 < sz" "sz \<le> int MAX_ARGS_PER_REQUEST" "\<forall>m \<in> set (vWorkMsg a). msg_wf m"
  shows "dmn a' = dmn a" "\<forall>m \<in> set (vWorkMsg a'). msg_wf m"
  using assms take_size [of sz l] by (auto simp: add_work_req_def Let_def msg_wf_def nat_le_iff split: if_splits)

lemma lock_via_inv:
  assumes "lock_via env l hdl sz p t d hint a = Some (r, a')" "caller_ok env" "api_inv a" "gWorkerExist a" "0 < sz" "sz \<le> int MAX_ARGS_PER_REQUEST"
  shows "api_inv a'"
proof -
  obtain p' where p': "perfLockCheckHdl (core env) (aservice a) hdl hint sz p t d = Some (r, p')"
    "add_work_req env WORK_MSG_LOCK_ACQ r sz p t d hint (Some l) (a\<lparr>dmn := (dmn a)\<lparr>svc := p'\<rparr>\<rparr>) = Some a'"
    using assms(1,4) by (auto simp: lock_via_def on_svc_def bind_eq_Some_conv)
  have "call_ok (core env) (C_check_hdl hdl hint sz p t d) (aservice a)" using assms(2) by (simp add: call_ok_def caller_ok_def)
  then have "perf_inv p'" using run_call_inv [of "aservice a" "core env" "C_check_hdl hdl hint sz p t d" r p'] p'(1) assms(3)
    by (simp add: api_inv_def daemon_inv_def)
  then have "daemon_inv ((dmn a)\<lparr>svc := p'\<rparr>)" using assms(3) by (simp add: api_inv_def daemon_inv_def)
  then show ?thesis using add_acquire_wf [OF p'(2) assms(5,6)] assms(3) by (simp add: api_inv_def)
qed

lemma acquire_inv:
  assumes "libpowerhal_LockAcq envs env l hdl sz p t d a = Some (r, a')" "caller_ok env" "0 \<le> sz" "work_ok envs (vWorkMsg a) (dmn a)"
    "api_inv a" "gWorkerExist a"
  shows "api_inv a'"
proof (cases "queryAPIstatus (aservice a) 0 = 0 \<or> sz mod 2 \<noteq> 0 \<or> sz > int MAX_ARGS_PER_REQUEST \<or> sz = 0")
  case True
  then show ?thesis using assms(1,5) by (auto simp: libpowerhal_LockAcq_def split: if_splits)
next
  case False
  then obtain a1 where a1: "(if gWorkerExist a \<and> hdl > 0 then check_work_req envs WORK_MSG_LOCK_REL hdl a else Some a) = Some a1"
    "lock_via env l hdl sz p t d (-1) a1 = Some (r, a')" using assms(1) by (auto simp: libpowerhal_LockAcq_def bind_eq_Some_conv)
  have "api_inv a1" "gWorkerExist a1"
    using a1(1) worker_inv [OF _ assms(4,5)] assms(5,6) by (auto simp: check_work_req_def split: if_splits)
  then show ?thesis using lock_via_inv [OF a1(2) assms(2)] False assms(3) by simp
qed

lemma hint_inv:
  assumes "libpowerhal_CusLockHint env hint d p a = Some (r, a')" "caller_ok env" "nIsReady (aservice a)" "api_inv a" "gWorkerExist a"
  shows "api_inv a'"
proof (cases "queryAPIstatus (aservice a) 1 = 0 \<or> getHintRscSize (PowerScnTbl (aservice a)) hint = -1 \<or> \<not> malloc_ok (core env)")
  case True
  then show ?thesis using assms(1,4) by (auto simp: libpowerhal_CusLockHint_def)
next
  case False
  then obtain sz l st where h: "hint_list env hint (aservice a) = Some (sz, l, st)"
    "(if sz = 0 then Some (0, a\<lparr>dmn := (dmn a)\<lparr>svc := st\<rparr>\<rparr>) else lock_via env l 0 sz p 0 d hint (a\<lparr>dmn := (dmn a)\<lparr>svc := st\<rparr>\<rparr>)) = Some (r, a')"
    using assms(1) by (auto simp: libpowerhal_CusLockHint_def bind_eq_Some_conv Let_def)
  have "ready (core env) (aservice a) = Some (True, aservice a)" using assms(3) by (simp add: ready_def init_def)
  then have "st = aservice a" "0 \<le> sz" "sz \<le> int MAX_ARGS_PER_REQUEST"
    using h(1) by (auto simp: hint_list_def perfGetHintRsc_def bind_eq_Some_conv Let_def split: if_splits)
  then show ?thesis using h(2) lock_via_inv [of env l 0 sz p 0 d hint a r a'] assms(2,4,5) by (auto split: if_splits)
qed

lemma api_reach_inv: "api_reach a0 a \<Longrightarrow> api_inv a0 \<Longrightarrow> api_inv a"
proof (induction rule: api_reach.induct)
  case (api_acquire a0 a env sz envs l hdl p t d r a')
  then show ?case by (intro acquire_inv [OF api_acquire(5,2-4)]) simp_all
next
  case (api_hint a0 a env hint d p r a')
  then show ?case by (intro hint_inv [OF api_hint(5,2,3)]) simp_all
next
  case (api_worker a0 a envs a')
  then show ?case by (intro worker_inv(1) [OF api_worker(3,2)]) simp
next
  case (api_release a0 a env hdl r a')
  then show ?case using release_queued [of a env hdl] by (auto simp: api_inv_def msg_wf_def rel_msg_def)
next
  case (api_exit a0 a env r a')
  then show ?case by (auto simp: libpowerhal_ExitWorker_def add_work_req_def api_inv_def msg_wf_def split: if_splits)
next
  case (api_message a0 a env m rsp a')
  then obtain r st' where "powerd_req (core env) m (dmn a) = Some (r, rsp, st')" "a' = a\<lparr>dmn := st'\<rparr>"
    using power_msg_eq [of env m "dmn a"] by (auto simp: send_msg_def reaches_def)
  then show ?case using request_inv api_message by (auto simp: api_inv_def)
next
  case (api_expiry a0 a env r st')
  then show ?case using handle_expired_inv by (auto simp: api_inv_def caller_ok_def)
qed


section \<open>Lists that are never set\<close>

lemma work_unset: "w_msg m = WORK_MSG_LOCK_ACQ \<Longrightarrow> w_rsc m = None \<Longrightarrow> work_one env m st = None"
  by (simp add: work_one_def split: bind_split)

lemma work_all_stuck: "m \<in> set ms \<Longrightarrow> w_msg m = WORK_MSG_LOCK_ACQ \<Longrightarrow> w_rsc m = None \<Longrightarrow> work_all envs ms st = None"
proof (induction ms arbitrary: envs st)
  case (Cons x ms)
  then show ?case by (cases "work_one (envs 0) x st") (auto simp: work_unset)
qed simp

lemma lock_via_stuck:
  assumes "lock_via env l hdl sz p t d hint a = Some (r, a')" "gWorkerExist a" "worker_up a" "sz < 0 \<or> sz > int MAX_ARGS_PER_REQUEST"
  shows "mtkPowerMsgWorker w a' = None"
proof -
  let ?m = "\<lparr>w_msg = WORK_MSG_LOCK_ACQ, w_hint = hint, w_hdl = r, w_size = sz, w_pid = p, w_tid = t, w_duration = d, w_rsc = None\<rparr>"
  have add: "add_work_req env WORK_MSG_LOCK_ACQ r sz p t d hint (Some l) x = Some (x\<lparr>vWorkMsg := vWorkMsg x @ [?m]\<rparr>)" if "gWorkerExist x" for x
    using that assms(4) by (auto simp: add_work_req_def Let_def)
  obtain st where "a' = a\<lparr>dmn := st, vWorkMsg := vWorkMsg a @ [?m]\<rparr>"
    using assms(1,2) add by (auto simp: lock_via_def bind_eq_Some_conv)
  then show ?thesis using work_all_stuck [of ?m "vWorkMsg a'"] assms(3) by (simp add: mtkPowerMsgWorker_def)
qed

lemma hint_list_ready:
  assumes "nIsReady st" "nPowerLibEnable st \<noteq> 0" "getHintRscSize (PowerScnTbl st) hint = k" "0 < k" "k \<le> int MAX_ARGS_PER_REQUEST"
  shows "\<exists>l. hint_list env hint st = Some (k, l, st)"
  using assms by (simp add: hint_list_def perfGetHintRsc_def ready_def init_def Let_def)

text \<open>
  C37. Sizes that are not checked. An acquire with a negative even size, and a hint whose own list
  and extended list together exceed the limit, are put on the queue without a list. Whatever
  happens then, the worker uses a pointer that was never set.
\<close>

theorem api_unset_list:
  assumes "gWorkerExist a" "worker_up a" "nIsReady (aservice a)" "nPowerLibEnable (aservice a) \<noteq> 0"
  shows "(libpowerhal_LockAcq envs env l 0 sz p t d a = Some (r, a') \<and> sz < 0 \<and> even sz \<and> queryAPIstatus (aservice a) 0 \<noteq> 0 \<longrightarrow>
      mtkPowerMsgWorker w a' = None) \<and>
    (libpowerhal_CusLockHint_data env hint d p (Some ext) n a = Some (r, a') \<and> queryAPIstatus (aservice a) 1 \<noteq> 0 \<and> malloc_ok (core env) \<and>
      getHintRscSize (PowerScnTbl (aservice a)) hint = k \<and> 0 < k \<and> k \<le> int MAX_ARGS_PER_REQUEST \<and> even n \<and> 0 \<le> n \<and> n \<le> int (length ext) \<and>
      k + n > int MAX_ARGS_PER_REQUEST \<longrightarrow> mtkPowerMsgWorker w a' = None)"
proof (intro conjI impI)
  assume "libpowerhal_LockAcq envs env l 0 sz p t d a = Some (r, a') \<and> sz < 0 \<and> even sz \<and> queryAPIstatus (aservice a) 0 \<noteq> 0"
  then have "lock_via env l 0 sz p t d (-1) a = Some (r, a')" "sz < 0" by (auto simp: libpowerhal_LockAcq_def split: if_splits)
  then show "mtkPowerMsgWorker w a' = None" using lock_via_stuck assms(1,2) by blast
next
  assume h: "libpowerhal_CusLockHint_data env hint d p (Some ext) n a = Some (r, a') \<and> queryAPIstatus (aservice a) 1 \<noteq> 0 \<and> malloc_ok (core env) \<and>
      getHintRscSize (PowerScnTbl (aservice a)) hint = k \<and> 0 < k \<and> k \<le> int MAX_ARGS_PER_REQUEST \<and> even n \<and> 0 \<le> n \<and> n \<le> int (length ext) \<and>
      k + n > int MAX_ARGS_PER_REQUEST"
  then obtain l where "hint_list env hint (aservice a) = Some (k, l, aservice a)" using hint_list_ready [OF assms(3,4)] by blast
  then have "lock_via env (take (nat n) ext @ l) 0 (k + n) p 0 d hint a = Some (r, a')"
    using h by (auto simp: libpowerhal_CusLockHint_data_def split: if_splits)
  then show "mtkPowerMsgWorker w a' = None" using lock_via_stuck assms(1,2) h by blast
qed

section \<open>A small system\<close>

text \<open>The demonstration service with a third slot that is free, under the daemon and the library.\<close>

definition demo_api :: api where
  "demo_api = \<lparr>dmn = demo_daemon\<lparr>svc := demo_service\<lparr>ptScnList := ptScnList demo_service @ [(demo_scn STATE_OFF 3 101 (-1))\<lparr>scn_type := -1\<rparr>]\<rparr>\<rparr>,
     vWorkMsg = [], gWorkerExist = True, api_init = True, worker_up = True\<rparr>"

lemma demo_api_inv: "daemon_inv (dmn demo_api)" "nIsReady (aservice demo_api)" "powerdOnOff (dmn demo_api) \<noteq> 0" "nPowerLibEnable (aservice demo_api) \<noteq> 0"
proof -
  have "service_inv (aservice demo_api)"
    by (simp add: demo_api_def service_inv_defs demo_service_def demo_defs less_Suc_eq)
  then show "daemon_inv (dmn demo_api)" using demo_daemon_inv(1) by (simp add: daemon_inv_def perf_inv_def service_inv_def demo_api_def)
qed (simp_all add: demo_api_def demo_daemon_def demo_service_def demo_defs)

lemma demo_reaches: "reaches demo_client_env" "core demo_client_env = demo_core_env" "fresh demo_core_env (dmn demo_api)"
proof -
  show c: "core demo_client_env = demo_core_env" by (simp add: demo_client_env_def demo_loop_env_def)
  show "reaches demo_client_env" using demo_memory_ok demo_core_env_sel demo_wall
    by (simp add: reaches_def c) (simp add: demo_client_env_def)
  show "fresh demo_core_env (dmn demo_api)" using demo_daemon_room(1) by (simp add: demo_api_def)
qed

theorem api_lock_lifecycle_witness:
  "\<exists>a1 a2 a3 a4. libpowerhal_LockAcq (\<lambda>_. demo_client_env) demo_client_env [7, 20, 8, 9] 0 4 100 101 0 demo_api = Some (3, a1) \<and>
     mtkPowerMsgWorker (\<lambda>_. demo_client_env) a1 = Some a2 \<and> scn_state (ptScnList (aservice a2) ! 2) = STATE_ON \<and>
     libpowerhal_LockRel demo_client_env 3 a2 = Some (0, a3) \<and> mtkPowerMsgWorker (\<lambda>_. demo_client_env) a3 = Some a4 \<and>
     settings (aservice a4) = settings (aservice demo_api)"
proof -
  have "proc_exists demo_core_env 100" by (simp add: demo_core_env_def sys_env.defs core_env.defs demo_sys_defs)
  then have reg: "can_register (core demo_client_env) (aservice demo_api) [7, 20, 8, 9] 100 0 2"
    unfolding demo_reaches(2)
    by (simp add: can_register_def demo_api_def demo_daemon_def demo_service_def demo_defs queryAPIstatus_def findHandleToIndex_def
        is_user_scn_def allocNewHandleNum_def)
  have h: "fst (allocNewHandleNum (aservice demo_api)) = 3" by (simp add: demo_api_def demo_service_def demo_defs allocNewHandleNum_def)
  have e: "gWorkerExist demo_api" "worker_up demo_api" "vWorkMsg demo_api = []" "malloc_ok (core demo_client_env)"
    "fresh (core demo_client_env) (dmn demo_api)"
    using demo_reaches demo_core_env_sel by (simp_all add: demo_api_def)
  have acq: "\<exists>st'. libpowerhal_LockAcq (\<lambda>_. demo_client_env) demo_client_env [7, 20, 8, 9] 0 4 100 101 0 demo_api = Some (3, st')"
    using lock_via_queued [OF demo_api_inv(1,2) e(1) reg e(4), of 101 "-1"] acquire_via [OF reg, of "\<lambda>_. demo_client_env" 101] h by auto
  from api_lock_lifecycle [OF demo_api_inv(1-3) e(1-3) reg e(4), of "\<lambda>_. demo_client_env" "\<lambda>_. demo_client_env" "\<lambda>_. demo_client_env" 101 demo_client_env]
    demo_reaches(1) e(5) acq show ?thesis by auto
qed


theorem api_unset_list_witness:
  "\<exists>r a'. libpowerhal_LockAcq (\<lambda>_. demo_client_env) demo_client_env [] 0 (-2) 100 101 0 demo_api = Some (r, a') \<and>
     mtkPowerMsgWorker (\<lambda>_. demo_client_env) a' = None"
proof -
  obtain r p' where f: "perfLockCheckHdl (core demo_client_env) (aservice demo_api) 0 (-1) (-2) 100 101 0 = Some (r, p')"
    using ready_total [OF demo_api_inv(2)] unfolding perfLockCheckHdl_def by blast
  have d: "gWorkerExist demo_api" "worker_up demo_api" "queryAPIstatus (aservice demo_api) 0 \<noteq> 0"
    by (simp_all add: demo_api_def demo_daemon_def demo_service_def demo_defs queryAPIstatus_def)
  have "\<exists>a'. libpowerhal_LockAcq (\<lambda>_. demo_client_env) demo_client_env [] 0 (-2) 100 101 0 demo_api = Some (r, a')"
    using f d(1,3) by (simp add: libpowerhal_LockAcq_def lock_via_def on_svc_def add_work_req_def)
  then obtain a' where run: "libpowerhal_LockAcq (\<lambda>_. demo_client_env) demo_client_env [] 0 (-2) 100 101 0 demo_api = Some (r, a')" by blast
  have "mtkPowerMsgWorker (\<lambda>_. demo_client_env) a' = None"
    by (rule api_unset_list [OF d(1,2) demo_api_inv(2,4), THEN conjunct1, THEN mp]) (rule conjI [OF run], use d(3) in simp)
  with run show ?thesis by blast
qed

end
