(* ===== verification/Hint_Session.thy ===== *)
theory Hint_Session
  imports Api_Props
begin

text \<open>
  The AIDL power service, \<^verbatim>\<open>service/Power_aidl/\<close>: modes and boosts (\<^verbatim>\<open>Power.cpp\<close>), hint sessions
  (\<^verbatim>\<open>PowerHintSession.cpp\<close>, \<^verbatim>\<open>PowerHintSessionManager.cpp\<close>) and the messages to the kernel driver
  (\<^verbatim>\<open>include/sysctl.cpp\<close>). The wrapper functions of \<^verbatim>\<open>libpowerhal_wrap.cpp\<close> call the library of
  \<open>Power_Api\<close>.

  A session object is known by its address; \<open>objects\<close> are the objects that exist, the argument \<open>p\<close> of a
  creation is the address of the new one. Using an object that does not exist has no result.
  The enumerations list the values the code names. The refresh rate is read once, at the start, and is
  an argument. The channel of a session (a stub), the lists of supported modes and boosts, which the
  generated interface defines, and the unused reading direction of the driver are not modelled.
\<close>

section \<open>Data\<close>

datatype session_hint = CPU_LOAD_UP | CPU_LOAD_DOWN | CPU_LOAD_RESET | CPU_LOAD_RESUME | HINT_POWER_EFFICIENCY
  | GPU_LOAD_UP | GPU_LOAD_DOWN | GPU_LOAD_RESET | CPU_LOAD_SPIKE | GPU_LOAD_SPIKE | OTHER_SESSION_HINT

datatype adpf =
    CREATE_HINT_SESSION int int "int list" int
  | UPDATE_TARGET_WORK_DURATION int
  | REPORT_ACTUAL_WORK_DURATION "(int \<times> int) list"
  | ADPF_PAUSE
  | ADPF_RESUME
  | ADPF_CLOSE
  | SENT_HINT session_hint
  | SET_THREADS "int list"

datatype session_tag = TAG_OTHER | TAG_SURFACEFLINGER | TAG_HWUI | TAG_GAME | TAG_APP | TAG_SYSUI

record session =
  s_id :: int
  s_tgid :: int
  s_uid :: int
  s_threadIds :: "int list"
  s_durationNanos :: int
  s_tag :: session_tag

datatype status = OK | EX_ILLEGAL_ARGUMENT | EX_UNSUPPORTED_OPERATION | EX_SERVICE_SPECIFIC

record hal =
  lib :: api
  objects :: "addr \<rightharpoonup> session"
  mPowerHintSessions :: "addr set"
  sessionHintIds :: "int list"
  powerhalsysdevfd :: int
  driver :: "(int \<times> adpf) list"         \<comment> \<open>the messages the driver got: session id and command\<close>
  blc_boost_hdl :: int
  gtCusHintTbl :: "int list"
  bBacklightOn :: bool
  modeCount :: int

abbreviation (input) ADPF_MAX_SESSION :: nat where "ADPF_MAX_SESSION \<equiv> 64"
abbreviation (input) ADPF_MAX_THREAD :: nat where "ADPF_MAX_THREAD \<equiv> 32"
abbreviation (input) PERF_RES_FPS_FBT_BLC_BOOST :: int where "PERF_RES_FPS_FBT_BLC_BOOST \<equiv> 0x02045b00"

section \<open>The driver\<close>

text \<open>What \<open>open\<close> returns, and whether it fails because the file does not exist.\<close>

record ctl_env =
  ctl_open :: int
  ctl_enoent :: bool

definition check_powerhal_ioctl_valid :: "ctl_env \<Rightarrow> hal \<Rightarrow> int \<times> hal" where
  "check_powerhal_ioctl_valid e st =
     (if powerhalsysdevfd st \<ge> 0 then (0, st)
      else if powerhalsysdevfd st = -1 then
        (let fd = (if ctl_open e < 0 \<and> ctl_enoent e then -2 else ctl_open e)
         in (if fd = -1 then -1 else 0, st\<lparr>powerhalsysdevfd := fd\<rparr>))
      else if powerhalsysdevfd st = -2 then (-2, st)
      else (0, st))"

text \<open>A message reaches the driver when the descriptor is open.\<close>

definition adpf_sys_set_data :: "ctl_env \<Rightarrow> int \<Rightarrow> adpf \<Rightarrow> hal \<Rightarrow> int \<times> hal" where
  "adpf_sys_set_data e sid cmd st =
     (let (r, st1) = check_powerhal_ioctl_valid e st
      in if r = 0 then (0, if powerhalsysdevfd st1 \<ge> 0 then st1\<lparr>driver := driver st1 @ [(sid, cmd)]\<rparr> else st1) else (-2, st1))"

abbreviation send :: "ctl_env \<Rightarrow> int \<Rightarrow> adpf \<Rightarrow> hal \<Rightarrow> hal" where
  "send e sid cmd st \<equiv> snd (adpf_sys_set_data e sid cmd st)"

section \<open>The session manager\<close>

definition PowerHintSessionManager_new :: "hal \<Rightarrow> hal" where
  "PowerHintSessionManager_new st = st\<lparr>sessionHintIds := replicate ADPF_MAX_SESSION 0, mPowerHintSessions := {}\<rparr>"

definition addPowerSession :: "addr \<Rightarrow> hal \<Rightarrow> hal" where
  "addPowerSession p st = st\<lparr>mPowerHintSessions := insert p (mPowerHintSessions st)\<rparr>"

text \<open>The result is the number of erased elements.\<close>

definition removePowerSession :: "addr \<Rightarrow> session \<Rightarrow> hal \<Rightarrow> int \<times> hal" where
  "removePowerSession p s st =
     (let ids = (if s_id s \<ge> 0 \<and> s_id s < int ADPF_MAX_SESSION then (sessionHintIds st)[nat (s_id s) := 0] else sessionHintIds st)
      in (if p \<in> mPowerHintSessions st then 1 else 0, st\<lparr>sessionHintIds := ids, mPowerHintSessions := mPowerHintSessions st - {p}\<rparr>))"

fun first_free :: "int list \<Rightarrow> nat \<Rightarrow> nat option" where
  "first_free [] i = None"
| "first_free (x # xs) i = (if x = 0 then Some i else first_free xs (Suc i))"

definition checkPowerSesssion :: "hal \<Rightarrow> int \<times> hal" where
  "checkPowerSesssion st =
     (case first_free (sessionHintIds st) 0 of
        None \<Rightarrow> (-1, st)
      | Some i \<Rightarrow> (int i, st\<lparr>sessionHintIds := (sessionHintIds st)[i := 1]\<rparr>))"

definition checkThreads :: "int list \<Rightarrow> int list \<Rightarrow> int" where
  "checkThreads session_threadIds threadIds = (if \<exists>a \<in> set session_threadIds. \<exists>b \<in> set threadIds. a = b then 1 else 0)"

section \<open>Sessions\<close>

definition PowerHintSession_new :: "addr \<Rightarrow> session \<Rightarrow> hal \<Rightarrow> hal" where
  "PowerHintSession_new p s st = addPowerSession p (st\<lparr>objects := (objects st)(p \<mapsto> s)\<rparr>)"

text \<open>\<open>close\<close> and the first part of the destructor.\<close>

definition session_end :: "ctl_env \<Rightarrow> addr \<Rightarrow> session \<Rightarrow> hal \<Rightarrow> hal" where
  "session_end e p s st =
     (let (ret, st1) = removePowerSession p s st
      in if ret \<noteq> 0 then send e (s_id s) ADPF_CLOSE st1 else st1)"

definition session_close :: "ctl_env \<Rightarrow> addr \<Rightarrow> hal \<Rightarrow> (status \<times> hal) option" where
  "session_close e p st = map_option (\<lambda>s. (OK, session_end e p s st)) (objects st p)"

definition PowerHintSession_delete :: "ctl_env \<Rightarrow> addr \<Rightarrow> hal \<Rightarrow> hal option" where
  "PowerHintSession_delete e p st =
     map_option (\<lambda>s. let st1 = session_end e p s st in st1\<lparr>objects := (objects st1)(p := None)\<rparr>) (objects st p)"

definition updateTargetWorkDuration :: "ctl_env \<Rightarrow> addr \<Rightarrow> int \<Rightarrow> hal \<Rightarrow> (status \<times> hal) option" where
  "updateTargetWorkDuration e p target st =
     map_option (\<lambda>s. (OK, send e (s_id s) (UPDATE_TARGET_WORK_DURATION target) st)) (objects st p)"

definition reportActualWorkDuration :: "ctl_env \<Rightarrow> addr \<Rightarrow> (int \<times> int) list \<Rightarrow> hal \<Rightarrow> (status \<times> hal) option" where
  "reportActualWorkDuration e p durations st =
     map_option (\<lambda>s. if length durations \<ge> ADPF_MAX_THREAD then (EX_ILLEGAL_ARGUMENT, st)
                     else (OK, send e (s_id s) (REPORT_ACTUAL_WORK_DURATION durations) st)) (objects st p)"

definition session_pause :: "ctl_env \<Rightarrow> addr \<Rightarrow> hal \<Rightarrow> (status \<times> hal) option" where
  "session_pause e p st = map_option (\<lambda>s. (OK, send e (s_id s) ADPF_PAUSE st)) (objects st p)"

definition session_resume :: "ctl_env \<Rightarrow> addr \<Rightarrow> hal \<Rightarrow> (status \<times> hal) option" where
  "session_resume e p st = map_option (\<lambda>s. (OK, send e (s_id s) ADPF_RESUME st)) (objects st p)"

definition setThreads :: "ctl_env \<Rightarrow> addr \<Rightarrow> int list \<Rightarrow> hal \<Rightarrow> (status \<times> hal) option" where
  "setThreads e p threadIds st =
     map_option (\<lambda>s. if length threadIds = 0 \<or> length threadIds \<ge> ADPF_MAX_THREAD then (EX_ILLEGAL_ARGUMENT, st)
                     else (OK, send e (s_id s) (SET_THREADS threadIds) st)) (objects st p)"

datatype session_mode = MODE_POWER_EFFICIENCY | GRAPHICS_PIPELINE | AUTO_CPU | AUTO_GPU | OTHER_SESSION_MODE

definition session_setMode :: "session_mode \<Rightarrow> status" where
  "session_setMode mode = (if mode = OTHER_SESSION_MODE then EX_ILLEGAL_ARGUMENT else OK)"

definition getSessionConfig :: "addr \<Rightarrow> hal \<Rightarrow> int option" where
  "getSessionConfig p st = map_option s_id (objects st p)"

text \<open>Hints. The environments of the calls into the library are \<open>env 0\<close>, \<open>env 1\<close>, ... in their order.\<close>

definition predictWorkload :: "(nat \<Rightarrow> client_env) \<Rightarrow> client_env \<Rightarrow> int \<Rightarrow> int \<Rightarrow> int \<Rightarrow> hal \<Rightarrow> hal option" where
  "predictWorkload envs env who scale duration st =
     map_option (\<lambda>(h, a). st\<lparr>lib := a, blc_boost_hdl := h\<rparr>)
       (libpowerhal_LockAcq envs env [PERF_RES_FPS_FBT_BLC_BOOST, scale] (blc_boost_hdl st) 2 who who duration (lib st))"

definition frame_ms :: "session \<Rightarrow> int" where
  "frame_ms s = c_int (if s_durationNanos s < 0 then - ((- s_durationNanos s) div 1000000) else s_durationNanos s div 1000000)"

definition load_boost :: "(nat \<Rightarrow> client_env) \<Rightarrow> (nat \<Rightarrow> client_env) \<Rightarrow> int \<Rightarrow> int \<Rightarrow> session \<Rightarrow> hal \<Rightarrow> hal option" where
  "load_boost envs env scaleCmd durationCmd s st =
     libpowerhal_UserGetCapability (env 0) scaleCmd 0 (lib st) \<bind> (\<lambda>(scale, a1).
     libpowerhal_UserGetCapability (env 1) durationCmd 0 a1 \<bind> (\<lambda>(duration, a2).
       predictWorkload envs (env 2) (s_tgid s) scale (if duration = -1 then frame_ms s else duration) (st\<lparr>lib := a2\<rparr>)))"

definition sendHint :: "ctl_env \<Rightarrow> (nat \<Rightarrow> client_env) \<Rightarrow> (nat \<Rightarrow> client_env) \<Rightarrow> addr \<Rightarrow> session_hint \<Rightarrow> hal \<Rightarrow> (status \<times> hal) option" where
  "sendHint e envs env p hint st =
     objects st p \<bind> (\<lambda>s.
       let st1 = send e (s_id s) (SENT_HINT hint) st
       in case hint of
            CPU_LOAD_UP \<Rightarrow> map_option (\<lambda>st'. (OK, st')) (load_boost envs env 214 213 s st1)
          | CPU_LOAD_SPIKE \<Rightarrow> map_option (\<lambda>st'. (OK, st')) (load_boost envs env 216 215 s st1)
          | OTHER_SESSION_HINT \<Rightarrow> Some (EX_ILLEGAL_ARGUMENT, st1)
          | _ \<Rightarrow> Some (OK, st1))"

section \<open>The service\<close>

definition Power_new :: "client_env \<Rightarrow> hal \<Rightarrow> hal option" where
  "Power_new env st =
     map_option (\<lambda>(_, a). st\<lparr>lib := a, gtCusHintTbl := replicate (nat MTKPOWER_HINT_NUM) 0\<rparr>) (libpowerhal_Init env True (lib st))"

definition createHintSessionWithConfig ::
  "ctl_env \<Rightarrow> addr \<Rightarrow> int \<Rightarrow> int \<Rightarrow> int list \<Rightarrow> int \<Rightarrow> session_tag \<Rightarrow> hal \<Rightarrow> status \<times> addr option \<times> hal" where
  "createHintSessionWithConfig e p tgid uid threadIds durationNanos tag st =
     (if tag = TAG_SYSUI \<or> tag = TAG_HWUI \<or> tag = TAG_SURFACEFLINGER then (EX_UNSUPPORTED_OPERATION, None, st)
      else if threadIds = [] then (EX_ILLEGAL_ARGUMENT, None, st)
      else if length threadIds \<ge> ADPF_MAX_THREAD then (EX_ILLEGAL_ARGUMENT, None, st)
      else
        (let (sid, st1) = checkPowerSesssion st
         in if sid = -1 then (EX_SERVICE_SPECIFIC, None, st1)
            else
              (let s = \<lparr>s_id = sid, s_tgid = tgid, s_uid = uid, s_threadIds = threadIds, s_durationNanos = durationNanos, s_tag = tag\<rparr>;
                   st2 = PowerHintSession_new p s st1
               in (OK, Some p, send e sid (CREATE_HINT_SESSION tgid uid threadIds durationNanos) st2))))"

definition createHintSession :: "ctl_env \<Rightarrow> addr \<Rightarrow> int \<Rightarrow> int \<Rightarrow> int list \<Rightarrow> int \<Rightarrow> hal \<Rightarrow> status \<times> addr option \<times> hal" where
  "createHintSession e p tgid uid threadIds durationNanos st =
     createHintSessionWithConfig e p tgid uid threadIds durationNanos TAG_OTHER st"

datatype hal_mode = MODE_LAUNCH | MODE_GAME_LOADING | MODE_INTERACTIVE | MODE_DISPLAY_INACTIVE | MODE_FIXED_PERFORMANCE
  | MODE_SUSTAINED_PERFORMANCE | MODE_OTHER

text \<open>The hint and the duration of a mode that takes a lock; a negative duration releases it.\<close>

definition mode_lock :: "hal_mode \<Rightarrow> bool \<Rightarrow> hal \<Rightarrow> (int \<times> int) option" where
  "mode_lock mode enabled st =
     (case mode of
        MODE_LAUNCH \<Rightarrow> Some (LAUNCH, if enabled \<and> bBacklightOn st then 30000 else -1)
      | MODE_GAME_LOADING \<Rightarrow> Some (GAME_LOADING, if enabled then 5000 else -1)
      | MODE_SUSTAINED_PERFORMANCE \<Rightarrow> Some (SUSTAINED_PERFORMANCE, if enabled then 0 else -1)
      | _ \<Rightarrow> None)"

definition count_mode :: "hal_mode \<Rightarrow> bool \<Rightarrow> hal \<Rightarrow> hal" where
  "count_mode mode enabled st =
     (if mode = MODE_GAME_LOADING \<and> enabled then st\<lparr>modeCount := (if modeCount st + 1 = 100 then 0 else modeCount st + 1)\<rparr> else st)"

definition set_interactive :: "(nat \<Rightarrow> client_env) \<Rightarrow> bool \<Rightarrow> hal \<Rightarrow> hal option" where
  "set_interactive env enabled st =
     libpowerhal_UserGetCapability (env 0) 212 0 (lib st) \<bind> (\<lambda>(ret, a1).
       if ret = 0 then Some (st\<lparr>lib := a1\<rparr>)
       else map_option (\<lambda>(_, a2). st\<lparr>lib := a2, bBacklightOn := enabled\<rparr>)
         (if enabled then libpowerhal_UserScnRestoreAll (env 1) a1 else libpowerhal_UserScnDisableAll (env 1) a1))"

definition release_old :: "client_env \<Rightarrow> int \<Rightarrow> hal \<Rightarrow> hal option" where
  "release_old env hdl1 st =
     (if hdl1 \<noteq> 0 then map_option (\<lambda>(_, a). st\<lparr>lib := a\<rparr>) (libpowerhal_LockRel env hdl1 (lib st)) else Some st)"

definition trigger_lock :: "(nat \<Rightarrow> client_env) \<Rightarrow> int \<Rightarrow> int \<Rightarrow> int \<Rightarrow> hal \<Rightarrow> hal option" where
  "trigger_lock env mypid hint dur st =
     (let hdl1 = gtCusHintTbl st ! nat hint
      in if dur \<ge> 0 then
           libpowerhal_CusLockHint (env 0) hint dur mypid (lib st) \<bind> (\<lambda>(hdl2, a).
             release_old (env 1) hdl1 (st\<lparr>lib := a, gtCusHintTbl := (gtCusHintTbl st)[nat hint := hdl2]\<rparr>))
         else map_option (\<lambda>st'. st'\<lparr>gtCusHintTbl := (gtCusHintTbl st')[nat hint := 0]\<rparr>) (release_old (env 1) hdl1 st))"

definition Power_setMode :: "(nat \<Rightarrow> client_env) \<Rightarrow> int \<Rightarrow> hal_mode \<Rightarrow> bool \<Rightarrow> hal \<Rightarrow> hal option" where
  "Power_setMode env mypid mode enabled st =
     (if mode = MODE_INTERACTIVE then set_interactive env enabled st
      else case mode_lock mode enabled st of
             None \<Rightarrow> Some st
           | Some (hint, dur) \<Rightarrow> trigger_lock env mypid hint dur (count_mode mode enabled st))"

datatype hal_boost = BOOST_INTERACTION | BOOST_DISPLAY_UPDATE_IMMINENT | BOOST_OTHER

definition Power_setBoost :: "client_env \<Rightarrow> int \<Rightarrow> hal_boost \<Rightarrow> int \<Rightarrow> hal \<Rightarrow> hal option" where
  "Power_setBoost env mypid boost durationMs st =
     (case boost of
        BOOST_INTERACTION \<Rightarrow> map_option (\<lambda>(_, a). st\<lparr>lib := a\<rparr>)
          (libpowerhal_CusLockHint env INTERACTION (if durationMs > 0 then durationMs else 80) mypid (lib st))
      | BOOST_DISPLAY_UPDATE_IMMINENT \<Rightarrow> map_option (\<lambda>(_, a). st\<lparr>lib := a\<rparr>)
          (libpowerhal_CusLockHint env DISPLAY_UPDATE_IMMINENT durationMs mypid (lib st))
      | BOOST_OTHER \<Rightarrow> Some st)"

text \<open>\<open>devicePreferredRate\<close> is read once at the start; \<open>None\<close> is the division by zero.\<close>

definition getHintSessionPreferredRate :: "int \<Rightarrow> (status \<times> int option) option" where
  "getHintSessionPreferredRate rate =
     (if rate = -1 then Some (EX_UNSUPPORTED_OPERATION, None)
      else if rate = 0 then None
      else Some (OK, Some (if rate < 0 then - (1000000000 div (- rate)) else 1000000000 div rate)))"

end
