(* ===== verification/Session_Props.thy ===== *)
theory Session_Props
  imports Hint_Session
begin

text \<open>
  Hint sessions: live sessions have different ids, and the driver knows exactly the live ones, as long
  as closed sessions are gone before new ones are created. Modes: a mode that is switched on and off
  leaves no trace in the settings.
\<close>

section \<open>Messages\<close>

lemma send_keeps [simp]:
  "objects (send e i c st) = objects st" "mPowerHintSessions (send e i c st) = mPowerHintSessions st"
  "sessionHintIds (send e i c st) = sessionHintIds st" "lib (send e i c st) = lib st"
  by (simp_all add: adpf_sys_set_data_def check_powerhal_ioctl_valid_def Let_def)

lemma send_open: "powerhalsysdevfd st \<ge> 0 \<Longrightarrow> send e i c st = st\<lparr>driver := driver st @ [(i, c)]\<rparr>"
  by (simp add: adpf_sys_set_data_def check_powerhal_ioctl_valid_def)

text \<open>The sessions that are open in the view of the driver.\<close>

fun track :: "int set \<Rightarrow> int \<times> adpf \<Rightarrow> int set" where
  "track S (i, CREATE_HINT_SESSION _ _ _ _) = insert i S"
| "track S (i, ADPF_CLOSE) = S - {i}"
| "track S (i, _) = S"

definition driver_view :: "(int \<times> adpf) list \<Rightarrow> int set" where
  "driver_view ms = foldl track {} ms"

lemma driver_view_snoc: "driver_view (ms @ [m]) = track (driver_view ms) m"
  by (simp add: driver_view_def)

section \<open>Sessions and their ids\<close>

definition used :: "int list \<Rightarrow> int set" where
  "used ids = {int i | i. i < length ids \<and> ids ! i \<noteq> 0}"

text \<open>
  The ids of all objects (\<open>f\<close>), the live objects (\<open>L\<close>), the table of used ids, and the view of the driver
  (\<open>D\<close>): live objects have different ids, which are the used ones and those the driver knows, and the id
  of a closed object is not used.
\<close>

definition sess_ok :: "int list \<Rightarrow> (addr \<rightharpoonup> int) \<Rightarrow> addr set \<Rightarrow> int set \<Rightarrow> bool" where
  "sess_ok ids f L D \<longleftrightarrow> length ids = ADPF_MAX_SESSION \<and> L \<subseteq> dom f \<and> inj_on f L \<and> f ` L = Some ` used ids \<and>
     (\<forall>p i. f p = Some i \<and> p \<notin> L \<longrightarrow> i \<notin> used ids) \<and> D = used ids"

abbreviation obj_ids :: "hal \<Rightarrow> addr \<rightharpoonup> int" where
  "obj_ids st \<equiv> \<lambda>p. map_option s_id (objects st p)"

definition session_inv :: "hal \<Rightarrow> bool" where
  "session_inv st \<longleftrightarrow> powerhalsysdevfd st \<ge> 0 \<and>
     sess_ok (sessionHintIds st) (obj_ids st) (mPowerHintSessions st) (driver_view (driver st))"

lemma used_range: "used ids \<subseteq> {0..<int (length ids)}"
  by (auto simp: used_def)

lemma used_set:
  assumes "0 \<le> i" "i < int (length ids)"
  shows "used (ids[nat i := 0]) = used ids - {i}" "used (ids[nat i := 1]) = insert i (used ids)"
  using assms by (force simp: used_def nth_list_update)+

lemma used_out: "\<not> (0 \<le> i \<and> i < int (length ids)) \<Longrightarrow> i \<notin> used ids"
  by (auto simp: used_def)

lemma first_free_spec:
  "case first_free ids n of None \<Rightarrow> \<forall>x \<in> set ids. x \<noteq> 0
   | Some k \<Rightarrow> n \<le> k \<and> k - n < length ids \<and> ids ! (k - n) = 0"
proof (induction ids n rule: first_free.induct)
  case (2 x xs i)
  then show ?case by (cases "x = 0"; cases "first_free xs (Suc i)") (auto simp: nth_Cons' Suc_le_eq)
qed simp

lemma checkPowerSesssion_cases:
  assumes "length (sessionHintIds st) = ADPF_MAX_SESSION" "checkPowerSesssion st = (i, st')"
  shows "(i = -1 \<and> st' = st \<and> used (sessionHintIds st) = {0..<int ADPF_MAX_SESSION}) \<or>
    (0 \<le> i \<and> i < int ADPF_MAX_SESSION \<and> i \<notin> used (sessionHintIds st) \<and> first_free (sessionHintIds st) 0 = Some (nat i) \<and> st' = st\<lparr>sessionHintIds := (sessionHintIds st)[nat i := 1]\<rparr>)"
proof (cases "first_free (sessionHintIds st) 0")
  case None
  then have "\<forall>k < ADPF_MAX_SESSION. sessionHintIds st ! k \<noteq> 0" using first_free_spec [of "sessionHintIds st" 0] assms(1) by simp
  then have "used (sessionHintIds st) = {0..<int ADPF_MAX_SESSION}"
    unfolding used_def assms(1) by (force simp: zle_iff_zadd)
  then show ?thesis using None assms(2) by (simp add: checkPowerSesssion_def)
next
  case (Some k)
  then have "k < ADPF_MAX_SESSION" "sessionHintIds st ! k = 0" using first_free_spec [of "sessionHintIds st" 0] assms(1) by auto
  then have "int k \<notin> used (sessionHintIds st)" by (simp add: used_def)
  then show ?thesis using Some assms(2) \<open>k < ADPF_MAX_SESSION\<close> by (auto simp: checkPowerSesssion_def)
qed

section \<open>Operations\<close>

text \<open>What the remaining operations of a session may do: send messages that open or close nothing.\<close>

definition session_same :: "hal \<Rightarrow> hal \<Rightarrow> bool" where
  "session_same st st' \<longleftrightarrow> objects st' = objects st \<and> mPowerHintSessions st' = mPowerHintSessions st \<and> sessionHintIds st' = sessionHintIds st \<and>
     (powerhalsysdevfd st \<ge> 0 \<longrightarrow> powerhalsysdevfd st' \<ge> 0 \<and> driver_view (driver st') = driver_view (driver st))"

lemma session_same_inv: "session_same st st' \<Longrightarrow> session_inv st \<Longrightarrow> session_inv st'"
  by (simp add: session_same_def session_inv_def)

lemma session_same_refl [simp]: "session_same st st"
  by (simp add: session_same_def)

lemma session_same_trans: "session_same st st' \<Longrightarrow> session_same st' st'' \<Longrightarrow> session_same st st''"
  by (auto simp: session_same_def)

lemma send_same:
  assumes "\<And>S. track S (i, c) = S"
  shows "session_same st (send e i c st)"
  using assms send_open [of st e i c] by (auto simp: session_same_def driver_view_snoc)

lemma lib_same [simp]: "session_same st (st\<lparr>lib := a\<rparr>)" "session_same st (st\<lparr>lib := a, blc_boost_hdl := h\<rparr>)"
  "session_same st (st\<lparr>gtCusHintTbl := t\<rparr>)" "session_same st (st\<lparr>lib := a, gtCusHintTbl := t\<rparr>)"
  "session_same st (st\<lparr>lib := a, bBacklightOn := b\<rparr>)"
  by (simp_all add: session_same_def)

lemma message_same:
  "updateTargetWorkDuration e p n st = Some (r, st') \<Longrightarrow> session_same st st'"
  "reportActualWorkDuration e p ds st = Some (r, st') \<Longrightarrow> session_same st st'"
  "session_pause e p st = Some (r, st') \<Longrightarrow> session_same st st'"
  "session_resume e p st = Some (r, st') \<Longrightarrow> session_same st st'"
  "setThreads e p ts st = Some (r, st') \<Longrightarrow> session_same st st'"
  by (auto simp: updateTargetWorkDuration_def reportActualWorkDuration_def session_pause_def session_resume_def setThreads_def
      intro: send_same split: if_splits)

lemma load_boost_same: "load_boost envs env c d s st = Some st' \<Longrightarrow> session_same st st'"
  by (auto simp: load_boost_def predictWorkload_def bind_eq_Some_conv session_same_def)

lemma sendHint_same:
  assumes "sendHint e envs env p hint st = Some (r, st')"
  shows "session_same st st'"
proof -
  obtain s where s: "objects st p = Some s" using assms by (auto simp: sendHint_def bind_eq_Some_conv)
  have "session_same (send e (s_id s) (SENT_HINT hint) st) st'"
    using assms s load_boost_same by (cases hint) (auto simp: sendHint_def)
  moreover have "session_same st (send e (s_id s) (SENT_HINT hint) st)" by (rule send_same) simp
  ultimately show ?thesis using session_same_trans by blast
qed

lemma release_old_same: "release_old env h st = Some st' \<Longrightarrow> session_same st st'"
  by (auto simp: release_old_def split: if_splits)

lemma trigger_lock_same: "trigger_lock env who hint dur st = Some st' \<Longrightarrow> session_same st st'"
  by (auto simp: trigger_lock_def Let_def bind_eq_Some_conv session_same_def dest!: release_old_same split: if_splits)

lemma mode_same:
  assumes "Power_setMode env who mode enabled st = Some st'"
  shows "session_same st st'"
proof -
  have "session_same st (count_mode mode enabled st)" by (simp add: count_mode_def session_same_def)
  then show ?thesis using assms
    by (auto simp: Power_setMode_def set_interactive_def bind_eq_Some_conv intro: session_same_trans dest!: trigger_lock_same
        split: if_splits option.splits)
qed

lemma boost_same: "Power_setBoost env who boost d st = Some st' \<Longrightarrow> session_same st st'"
  by (auto simp: Power_setBoost_def split: hal_boost.splits)


section \<open>Creation and removal\<close>

text \<open>The session gets the first free id.\<close>

definition created :: "addr \<Rightarrow> session \<Rightarrow> adpf \<Rightarrow> hal \<Rightarrow> hal" where
  "created p s m st = st\<lparr>sessionHintIds := (sessionHintIds st)[nat (s_id s) := 1], objects := (objects st)(p \<mapsto> s),
     mPowerHintSessions := insert p (mPowerHintSessions st), driver := driver st @ [(s_id s, m)]\<rparr>"

lemma create_cases:
  assumes "createHintSessionWithConfig e p g u ts d tag st = (r, q, st')" "powerhalsysdevfd st \<ge> 0" "length (sessionHintIds st) = ADPF_MAX_SESSION"
  shows "st' = st \<and> r \<noteq> OK \<or>
    (\<exists>s. r = OK \<and> first_free (sessionHintIds st) 0 = Some (nat (s_id s)) \<and> s_id s \<notin> used (sessionHintIds st) \<and>
      0 \<le> s_id s \<and> s_id s < int ADPF_MAX_SESSION \<and> st' = created p s (CREATE_HINT_SESSION g u ts d) st)"
proof -
  obtain i st1 where c: "checkPowerSesssion st = (i, st1)" by fastforce
  let ?s = "\<lparr>s_id = i, s_tgid = g, s_uid = u, s_threadIds = ts, s_durationNanos = d, s_tag = tag\<rparr>"
  consider "i = -1" "st1 = st"
    | "0 \<le> i" "i < int ADPF_MAX_SESSION" "i \<notin> used (sessionHintIds st)" "first_free (sessionHintIds st) 0 = Some (nat i)"
      "st1 = st\<lparr>sessionHintIds := (sessionHintIds st)[nat i := 1]\<rparr>"
    using checkPowerSesssion_cases [OF assms(3) c] by blast
  then show ?thesis
  proof cases
    case 1
    then show ?thesis using assms(1) c by (auto simp: createHintSessionWithConfig_def split: if_splits)
  next
    case 2
    then have "send e i (CREATE_HINT_SESSION g u ts d) (PowerHintSession_new p ?s st1) = created p ?s (CREATE_HINT_SESSION g u ts d) st"
      using assms(2) by (simp add: send_open PowerHintSession_new_def addPowerSession_def created_def)
    then show ?thesis using assms(1) c 2
      by (auto simp: createHintSessionWithConfig_def Let_def split: if_splits intro!: exI [of _ ?s])
  qed
qed

lemma sess_create:
  assumes "sess_ok ids f L D" "f p = None" "dom f \<subseteq> L" "0 \<le> i" "i < int ADPF_MAX_SESSION" "i \<notin> used ids"
  shows "sess_ok (ids[nat i := 1]) (f(p \<mapsto> i)) (insert p L) (insert i D)"
proof -
  note s = assms(1) [unfolded sess_ok_def]
  have p: "p \<notin> L" using s assms(2) by auto
  have im: "(f(p \<mapsto> i)) ` L = f ` L" using p by (intro image_cong) auto
  have u: "used (ids[nat i := 1]) = insert i (used ids)" using used_set(2) assms(4,5) s by simp
  have "Some i \<notin> f ` L" using s assms(6) by auto
  moreover have "inj_on (f(p \<mapsto> i)) L" using s p by (auto simp: inj_on_def)
  ultimately have "inj_on (f(p \<mapsto> i)) (insert p L)" using im p by (simp add: inj_on_insert)
  moreover have "(f(p \<mapsto> i)) ` insert p L = Some ` used (ids[nat i := 1])" unfolding image_insert im u using s by (simp add: fun_upd_def)
  moreover have "\<forall>x j. (f(p \<mapsto> i)) x = Some j \<and> x \<notin> insert p L \<longrightarrow> j \<notin> used (ids[nat i := 1])" using assms(3) by auto
  moreover have "insert p L \<subseteq> dom (f(p \<mapsto> i))" using s by auto
  ultimately show ?thesis using s u unfolding sess_ok_def by simp
qed

lemma sess_close:
  assumes "sess_ok ids f L D" "f p = Some i"
  shows "sess_ok (if 0 \<le> i \<and> i < int ADPF_MAX_SESSION then ids[nat i := 0] else ids) f (L - {p}) (if p \<in> L then D - {i} else D)"
proof -
  let ?ids = "if 0 \<le> i \<and> i < int ADPF_MAX_SESSION then ids[nat i := 0] else ids"
  note s = assms(1) [unfolded sess_ok_def]
  have u: "used ?ids = used ids - {i}" using used_set(1) [of i ids] used_out [of i ids] s by auto
  have i: "p \<notin> L \<Longrightarrow> i \<notin> used ids" using s assms(2) by blast
  have "f ` (L - {p}) = f ` L - f ` {p}" if "p \<in> L" using s that by (intro inj_on_image_set_diff [of f L]) auto
  then have "f ` (L - {p}) = Some ` (used ids - {i})" using s assms(2) i by (cases "p \<in> L") (auto simp: image_set_diff)
  moreover have "\<forall>x j. f x = Some j \<and> x \<notin> L - {p} \<longrightarrow> j \<notin> used ids - {i}" using s assms(2) by auto
  moreover have "(if p \<in> L then D - {i} else D) = used ids - {i}" using s i by auto
  moreover have "length ?ids = ADPF_MAX_SESSION" "L - {p} \<subseteq> dom f" "inj_on f (L - {p})" using s by (auto intro: inj_on_diff)
  ultimately show ?thesis using u unfolding sess_ok_def by simp
qed

lemma sess_drop: "sess_ok ids f L D \<Longrightarrow> p \<notin> L \<Longrightarrow> sess_ok ids (f(p := None)) L D"
  by (auto simp: sess_ok_def inj_on_def image_def)

lemma create_inv:
  assumes "createHintSessionWithConfig e p g u ts d tag st = (r, q, st')" "session_inv st" "objects st p = None"
    "dom (objects st) \<subseteq> mPowerHintSessions st"
  shows "session_inv st'"
proof -
  have "powerhalsysdevfd st \<ge> 0" "length (sessionHintIds st) = ADPF_MAX_SESSION" using assms(2) by (simp_all add: session_inv_def sess_ok_def)
  then consider "st' = st" | s where "s_id s \<notin> used (sessionHintIds st)" "0 \<le> s_id s" "s_id s < int ADPF_MAX_SESSION"
      "st' = created p s (CREATE_HINT_SESSION g u ts d) st" using create_cases [OF assms(1)] by blast
  then show ?thesis
  proof cases
    case 2
    have "obj_ids st p = None" "dom (obj_ids st) \<subseteq> mPowerHintSessions st" using assms(3,4) by auto
    with sess_create [of _ "obj_ids st", OF _ this 2(2,3,1)] assms(2)
    have "sess_ok ((sessionHintIds st)[nat (s_id s) := 1]) ((obj_ids st)(p \<mapsto> s_id s)) (insert p (mPowerHintSessions st))
      (insert (s_id s) (driver_view (driver st)))" by (simp add: session_inv_def)
    moreover have "obj_ids st' = (obj_ids st)(p \<mapsto> s_id s)" using 2(4) by (auto simp: created_def)
    ultimately show ?thesis using 2(4) assms(2) by (simp add: session_inv_def driver_view_snoc created_def)
  qed (use assms(2) in simp)
qed

text \<open>Closing removes the id of a live session, and changes nothing that matters for a closed one.\<close>

lemma session_end_eq:
  assumes "powerhalsysdevfd st \<ge> 0"
  shows "session_end e p s st = st\<lparr>sessionHintIds := (if 0 \<le> s_id s \<and> s_id s < int ADPF_MAX_SESSION then (sessionHintIds st)[nat (s_id s) := 0] else sessionHintIds st),
    mPowerHintSessions := mPowerHintSessions st - {p},
    driver := (if p \<in> mPowerHintSessions st then driver st @ [(s_id s, ADPF_CLOSE)] else driver st)\<rparr>"
  using assms by (simp add: session_end_def removePowerSession_def Let_def send_open)

lemma session_end_inv:
  assumes "session_inv st" "objects st p = Some s"
  shows "session_inv (session_end e p s st)"
proof -
  have "powerhalsysdevfd st \<ge> 0" using assms(1) by (simp add: session_inv_def)
  then show ?thesis using sess_close [of "sessionHintIds st" "obj_ids st" "mPowerHintSessions st" "driver_view (driver st)" p "s_id s"] assms
    by (simp add: session_end_eq session_inv_def driver_view_snoc if_distrib cong: if_cong)
qed

lemma delete_inv:
  assumes "PowerHintSession_delete e p st = Some st'" "session_inv st"
  shows "session_inv st'"
proof -
  obtain s where s: "objects st p = Some s" "st' = (session_end e p s st)\<lparr>objects := (objects (session_end e p s st))(p := None)\<rparr>"
    using assms(1) by (auto simp: PowerHintSession_delete_def Let_def)
  let ?st = "session_end e p s st"
  have inv: "session_inv ?st" by (rule session_end_inv [OF assms(2) s(1)])
  have "p \<notin> mPowerHintSessions ?st" using assms(2) by (simp add: session_end_eq session_inv_def)
  then have "sess_ok (sessionHintIds ?st) ((obj_ids ?st)(p := None)) (mPowerHintSessions ?st) (driver_view (driver ?st))"
    using sess_drop inv by (simp add: session_inv_def)
  moreover have "obj_ids st' = (obj_ids ?st)(p := None)" using s(2) by auto
  ultimately show ?thesis using inv s(2) by (simp add: session_inv_def)
qed

section \<open>Sequences of calls\<close>

text \<open>
  Any client may create, use, close and drop sessions at any time. The one restriction is on creation:
  every session that was closed has also been destroyed.
\<close>

inductive adpf_reach :: "hal \<Rightarrow> bool" where
  adpf_start: "objects st = Map.empty \<Longrightarrow> powerhalsysdevfd st \<ge> 0 \<Longrightarrow> driver st = [] \<Longrightarrow> adpf_reach (PowerHintSessionManager_new st)"
| adpf_create: "adpf_reach st \<Longrightarrow> objects st p = None \<Longrightarrow> dom (objects st) \<subseteq> mPowerHintSessions st \<Longrightarrow>
    createHintSessionWithConfig e p tgid uid threadIds durationNanos tag st = (r, q, st') \<Longrightarrow> adpf_reach st'"
| adpf_close: "adpf_reach st \<Longrightarrow> session_close e p st = Some (r, st') \<Longrightarrow> adpf_reach st'"
| adpf_delete: "adpf_reach st \<Longrightarrow> PowerHintSession_delete e p st = Some st' \<Longrightarrow> adpf_reach st'"
| adpf_target: "adpf_reach st \<Longrightarrow> updateTargetWorkDuration e p n st = Some (r, st') \<Longrightarrow> adpf_reach st'"
| adpf_report: "adpf_reach st \<Longrightarrow> reportActualWorkDuration e p ds st = Some (r, st') \<Longrightarrow> adpf_reach st'"
| adpf_pause: "adpf_reach st \<Longrightarrow> session_pause e p st = Some (r, st') \<Longrightarrow> adpf_reach st'"
| adpf_resume: "adpf_reach st \<Longrightarrow> session_resume e p st = Some (r, st') \<Longrightarrow> adpf_reach st'"
| adpf_threads: "adpf_reach st \<Longrightarrow> setThreads e p ts st = Some (r, st') \<Longrightarrow> adpf_reach st'"
| adpf_hint: "adpf_reach st \<Longrightarrow> sendHint e envs env p hint st = Some (r, st') \<Longrightarrow> adpf_reach st'"
| adpf_mode: "adpf_reach st \<Longrightarrow> Power_setMode env who mode enabled st = Some st' \<Longrightarrow> adpf_reach st'"
| adpf_boost: "adpf_reach st \<Longrightarrow> Power_setBoost cenv who boost d st = Some st' \<Longrightarrow> adpf_reach st'"

lemma start_inv:
  assumes "objects st = Map.empty" "powerhalsysdevfd st \<ge> 0" "driver st = []"
  shows "session_inv (PowerHintSessionManager_new st)"
proof -
  have "used (replicate ADPF_MAX_SESSION 0) = {}" unfolding used_def by auto
  then show ?thesis using assms unfolding session_inv_def sess_ok_def PowerHintSessionManager_new_def by (simp add: driver_view_def)
qed

lemma adpf_reach_inv: "adpf_reach st \<Longrightarrow> session_inv st"
proof (induction rule: adpf_reach.induct)
  case (adpf_close st e p r st')
  then obtain s where "objects st p = Some s" "st' = session_end e p s st" by (auto simp: session_close_def)
  then show ?case using session_end_inv adpf_close.IH by simp
qed (rule start_inv create_inv delete_inv session_same_inv, (rule message_same sendHint_same mode_same boost_same)?, assumption+)+

lemma session_limit:
  assumes "session_inv st" "tag \<notin> {TAG_SYSUI, TAG_HWUI, TAG_SURFACEFLINGER}" "ts \<noteq> []" "length ts < ADPF_MAX_THREAD"
  shows "fst (createHintSessionWithConfig e p g u ts d tag st) = (if card (mPowerHintSessions st) = ADPF_MAX_SESSION then EX_SERVICE_SPECIFIC else OK)"
proof -
  note s = assms(1) [unfolded session_inv_def sess_ok_def]
  obtain i st1 where c: "checkPowerSesssion st = (i, st1)" by fastforce
  have card: "card (mPowerHintSessions st) = card (used (sessionHintIds st))"
    using s card_image [of "obj_ids st" "mPowerHintSessions st"] card_image [of Some "used (sessionHintIds st)"] by simp
  have r: "used (sessionHintIds st) \<subseteq> {0..<int ADPF_MAX_SESSION}" using used_range [of "sessionHintIds st"] s by simp
  have full: "card (used (sessionHintIds st)) = ADPF_MAX_SESSION \<longleftrightarrow> used (sessionHintIds st) = {0..<int ADPF_MAX_SESSION}"
    using card_subset_eq [OF _ r] by auto
  have "i = -1 \<longleftrightarrow> card (used (sessionHintIds st)) = ADPF_MAX_SESSION"
    using checkPowerSesssion_cases [OF _ c] s full by fastforce
  then show ?thesis using c assms(2-4) card by (auto simp: createHintSessionWithConfig_def)
qed

text \<open>
  C16. Hint sessions. However clients create, use, close and drop sessions, provided that closed
  sessions are destroyed before others are created: live sessions have different ids between 0 and 63,
  the driver knows exactly the live sessions, and a well-formed request for a session is refused only
  when 64 are alive.
\<close>

theorem session_ids_unique:
  assumes "adpf_reach st"
  shows "inj_on (\<lambda>p. map_option s_id (objects st p)) (mPowerHintSessions st) \<and>
    (\<lambda>p. map_option s_id (objects st p)) ` mPowerHintSessions st = Some ` driver_view (driver st) \<and>
    driver_view (driver st) \<subseteq> {0..63} \<and>
    (tag \<notin> {TAG_SYSUI, TAG_HWUI, TAG_SURFACEFLINGER} \<and> threadIds \<noteq> [] \<and> length threadIds < ADPF_MAX_THREAD \<longrightarrow>
      fst (createHintSessionWithConfig e p tgid uid threadIds durationNanos tag st) =
        (if card (mPowerHintSessions st) = ADPF_MAX_SESSION then EX_SERVICE_SPECIFIC else OK))"
proof -
  note inv = adpf_reach_inv [OF assms]
  have "used (sessionHintIds st) \<subseteq> {0..63}" using used_range [of "sessionHintIds st"] inv by (auto simp: session_inv_def sess_ok_def)
  then show ?thesis using inv session_limit [OF inv] by (simp add: session_inv_def sess_ok_def)
qed

text \<open>
  C38. Without the proviso an id is given out twice. A client closes its session and keeps the object, a
  second client creates a session and gets the id, then the object of the first is destroyed:
  the destructor frees the id a second time, and the next session gets it as well. Both are live.
\<close>

theorem session_id_reused:
  assumes "session_inv st" "objects st a = None" "objects st b = None" "objects st c = None" "distinct [a, b, c]"
    and "createHintSessionWithConfig e a g1 u1 ts1 d1 tag1 st = (OK, q1, st1)" "session_close e a st1 = Some (OK, st2)"
    and "createHintSessionWithConfig e b g2 u2 ts2 d2 tag2 st2 = (OK, q2, st3)" "PowerHintSession_delete e a st3 = Some st4"
    and "createHintSessionWithConfig e c g3 u3 ts3 d3 tag3 st4 = (OK, q3, st5)"
  shows "{b, c} \<subseteq> mPowerHintSessions st5 \<and> map_option s_id (objects st5 b) = map_option s_id (objects st5 c)"
proof -
  note i = assms(1) [unfolded session_inv_def sess_ok_def]
  obtain s1 where s1: "first_free (sessionHintIds st) 0 = Some (nat (s_id s1))" "0 \<le> s_id s1" "s_id s1 < int ADPF_MAX_SESSION"
      "s_id s1 \<notin> used (sessionHintIds st)" "st1 = created a s1 (CREATE_HINT_SESSION g1 u1 ts1 d1) st"
    using create_cases [OF assms(6)] i by auto
  have z: "(sessionHintIds st)[nat (s_id s1) := 0] = sessionHintIds st" using s1(2-4) i by (auto simp: used_def intro: list_update_same_conv [THEN iffD2])
  have st2: "st2 = session_end e a s1 st1" using assms(7) s1(5) by (simp add: session_close_def created_def)
  have f2: "powerhalsysdevfd st2 \<ge> 0" "sessionHintIds st2 = sessionHintIds st" "objects st2 a = Some s1"
    using i s1 z unfolding st2 by (simp_all add: session_end_eq created_def)
  obtain s2 where s2: "s_id s2 = s_id s1" "st3 = created b s2 (CREATE_HINT_SESSION g2 u2 ts2 d2) st2"
    using create_cases [OF assms(8)] f2 i s1 by (auto simp: eq_nat_nat_iff)
  have st4: "st4 = (session_end e a s1 st3)\<lparr>objects := (objects (session_end e a s1 st3))(a := None)\<rparr>"
    using assms(5,9) s2 f2(3) by (simp add: PowerHintSession_delete_def Let_def created_def)
  have f4: "powerhalsysdevfd st4 \<ge> 0" "sessionHintIds st4 = sessionHintIds st" "objects st4 b = Some s2" "b \<in> mPowerHintSessions st4"
    using i s1 s2 z f2 assms(5) unfolding st4 by (simp_all add: session_end_eq created_def)
  obtain s3 where "s_id s3 = s_id s1" "st5 = created c s3 (CREATE_HINT_SESSION g3 u3 ts3 d3) st4"
    using create_cases [OF assms(10)] f4 i s1 by (auto simp: eq_nat_nat_iff)
  then show ?thesis using f4 s2(1) assms(5) by (simp add: created_def)
qed

section \<open>Modes\<close>

lemma hint_list_exact:
  assumes "nIsReady st" "nPowerLibEnable st \<noteq> 0" "hint_find (PowerScnTbl st) hint = Some e" "lock_rsc_size e = int (length l)" "l \<noteq> []"
    "length l \<le> MAX_ARGS_PER_REQUEST" "take (length l) (lock_rsc_list e) = l"
  shows "hint_list env hint st = Some (int (length l), l, st)"
  using assms by (simp add: hint_list_def perfGetHintRsc_def ready_def init_def Let_def getHintRscSize_def getHintRscList_def)

lemma hint_via:
  assumes "nIsReady (aservice a)" "nPowerLibEnable (aservice a) \<noteq> 0" "queryAPIstatus (aservice a) 1 \<noteq> 0" "malloc_ok (core env)"
    "hint_find (PowerScnTbl (aservice a)) hint = Some e" "lock_rsc_size e = int (length l)" "l \<noteq> []"
    "length l \<le> MAX_ARGS_PER_REQUEST" "take (length l) (lock_rsc_list e) = l"
  shows "libpowerhal_CusLockHint env hint d p a = lock_via env l 0 (int (length l)) p 0 d hint a"
  using assms hint_list_exact [OF assms(1,2,5-9), of env] by (simp add: libpowerhal_CusLockHint_def getHintRscSize_def)

lemma mode_lock_off: "mode_lock mode True st = Some (hint, d) \<Longrightarrow> mode_lock mode False st' = Some (hint, -1)"
  by (auto simp: mode_lock_def split: hal_mode.splits)

lemma mode_lock_interactive: "mode_lock mode enabled st = Some x \<Longrightarrow> mode \<noteq> MODE_INTERACTIVE"
  by (auto simp: mode_lock_def)

text \<open>
  C15. The life of a mode. A mode that takes a lock is switched on: the list of its hint is locked, the
  handle is kept, and the next round of the worker turns the scenario on. When the mode is switched
  off, the handle is given up, and the next round leaves every managed setting, the slot and
  the timers as they were.
\<close>

theorem mode_lifecycle:
  assumes "mode_lock mode True st = Some (hint, d)" "d \<ge> 0" "gtCusHintTbl st ! nat hint = 0" "nat hint < length (gtCusHintTbl st)"
    and "daemon_inv (dmn (lib st))" "nIsReady (aservice (lib st))" "powerdOnOff (dmn (lib st)) \<noteq> 0"
    and "gWorkerExist (lib st)" "worker_up (lib st)" "vWorkMsg (lib st) = []"
    and "can_register (core (env 0)) (aservice (lib st)) l who d i" "queryAPIstatus (aservice (lib st)) 1 \<noteq> 0" "malloc_ok (core (env 0))"
    and "hint_find (PowerScnTbl (aservice (lib st))) hint = Some e" "lock_rsc_size e = int (length l)" "take (length l) (lock_rsc_list e) = l"
    and "reaches (w1 0)" "fresh (core (w1 0)) (dmn (lib st))" "reaches (w2 0)"
  shows "\<exists>h st1 a2 st3 a4. Power_setMode env who mode True st = Some st1 \<and> gtCusHintTbl st1 = (gtCusHintTbl st)[nat hint := h] \<and> h \<noteq> 0 \<and>
    mtkPowerMsgWorker w1 (lib st1) = Some a2 \<and> scn_state (ptScnList (aservice a2) ! i) = STATE_ON \<and>
    Power_setMode env' who mode False (st1\<lparr>lib := a2\<rparr>) = Some st3 \<and> gtCusHintTbl st3 = gtCusHintTbl st \<and>
    mtkPowerMsgWorker w2 (lib st3) = Some a4 \<and> settings (aservice a4) = settings (aservice (lib st)) \<and>
    scn_type (ptScnList (aservice a4) ! i) = -1 \<and> sched (dmn a4) = (sched (dmn (lib st)))((TIMER_MSG_PERF_LOCK_TIMEOUT, h) := None)"
proof -
  note reg = assms(11) [unfolded can_register_def]
  have via: "libpowerhal_CusLockHint (env 0) hint d who (lib st) = lock_via (env 0) l 0 (int (length l)) who 0 d hint (lib st)"
    using hint_via [OF assms(6) _ assms(12,13,14,15)] reg assms(16) by simp
  from lock_cycle [where ?w1.0 = w1 and ?w2.0 = w2 and t = 0 and hint = hint and env' = "env' 1", OF assms(5-11,13,17-19)]
  obtain h a1 a2 a3 a4 where c: "lock_via (env 0) l 0 (int (length l)) who 0 d hint (lib st) = Some (h, a1)" "0 < h"
    "mtkPowerMsgWorker w1 a1 = Some a2" "scn_state (ptScnList (aservice a2) ! i) = STATE_ON"
    "libpowerhal_LockRel (env' 1) h a2 = Some (0, a3)" "mtkPowerMsgWorker w2 a3 = Some a4" "settings (aservice a4) = settings (aservice (lib st))"
    "scn_type (ptScnList (aservice a4) ! i) = -1" "sched (dmn a4) = (sched (dmn (lib st)))((TIMER_MSG_PERF_LOCK_TIMEOUT, h) := None)" by blast
  let ?st1 = "(count_mode mode True st)\<lparr>lib := a1, gtCusHintTbl := (gtCusHintTbl st)[nat hint := h]\<rparr>"
  let ?st3 = "?st1\<lparr>lib := a3, gtCusHintTbl := gtCusHintTbl st\<rparr>"
  have m: "mode \<noteq> MODE_INTERACTIVE" by (rule mode_lock_interactive [OF assms(1)])
  have cm: "lib (count_mode mode True st) = lib st" "gtCusHintTbl (count_mode mode True st) = gtCusHintTbl st"
    "count_mode mode False x = x" for x by (simp_all add: count_mode_def)
  have "Power_setMode env who mode True st = Some ?st1"
    using m assms(1-3) via c(1) cm by (simp add: Power_setMode_def trigger_lock_def release_old_def)
  moreover have "(gtCusHintTbl st)[nat hint := 0] = gtCusHintTbl st" using assms(3) by (metis list_update_id)
  then have "Power_setMode env' who mode False (?st1\<lparr>lib := a2\<rparr>) = Some ?st3"
    using m mode_lock_off [OF assms(1), of "?st1\<lparr>lib := a2\<rparr>"] c(2,5) cm assms(4) by (simp add: Power_setMode_def trigger_lock_def release_old_def)
  ultimately show ?thesis using c by (intro exI [of _ h] exI [of _ ?st1] exI [of _ a2] exI [of _ ?st3] exI [of _ a4]) simp
qed

section \<open>A small system\<close>

text \<open>The demonstration library with a resource list for one hint, below a service without sessions.\<close>

definition demo_hint :: tHintMap where
  "demo_hint = \<lparr>hintId = SUSTAINED_PERFORMANCE, hintCmd = ''SUSTAINED_PERFORMANCE'', lock_rsc_size = 4, lock_rsc_list = [7, 20, 8, 9]\<rparr>"

definition demo_hal :: hal where
  "demo_hal = \<lparr>lib = demo_api\<lparr>dmn := (dmn demo_api)\<lparr>svc := (aservice demo_api)\<lparr>PowerScnTbl := [demo_hint]\<rparr>\<rparr>\<rparr>, objects = Map.empty,
     mPowerHintSessions = {}, sessionHintIds = replicate ADPF_MAX_SESSION 0, powerhalsysdevfd = 5, driver = [], blc_boost_hdl = 0,
     gtCusHintTbl = replicate (nat MTKPOWER_HINT_NUM) 0, bBacklightOn = True, modeCount = 0\<rparr>"

definition demo_ctl :: ctl_env where
  "demo_ctl = \<lparr>ctl_open = 5, ctl_enoent = False\<rparr>"

lemma demo_hal_reach: "adpf_reach demo_hal"
  using adpf_start [of demo_hal] by (simp add: demo_hal_def PowerHintSessionManager_new_def)

lemma demo_limit: "fst (createHintSessionWithConfig demo_ctl p g u [100] d TAG_OTHER demo_hal) = OK"
  using session_limit [OF adpf_reach_inv [OF demo_hal_reach], of TAG_OTHER "[100]"] by (simp add: demo_hal_def)

lemma create_head:
  assumes "sessionHintIds st = 0 # ids" "powerhalsysdevfd st \<ge> 0"
  shows "\<exists>s. createHintSession e p g u [t] d st = (OK, Some p, created p s (CREATE_HINT_SESSION g u [t] d) st) \<and> s_id s = 0"
  using assms by (auto simp: createHintSession_def createHintSessionWithConfig_def checkPowerSesssion_def send_open PowerHintSession_new_def
      addPowerSession_def created_def intro!: exI [of _ "\<lparr>s_id = 0, s_tgid = g, s_uid = u, s_threadIds = [t], s_durationNanos = d, s_tag = TAG_OTHER\<rparr>"])

theorem session_ids_unique_witness:
  "\<exists>st q. createHintSessionWithConfig demo_ctl 4096 100 1000 [100] 16000000 TAG_OTHER demo_hal = (OK, q, st) \<and>
     (\<lambda>p. map_option s_id (objects st p)) ` mPowerHintSessions st = Some ` driver_view (driver st) \<and> driver_view (driver st) \<subseteq> {0..63}"
proof -
  obtain q st where c: "createHintSessionWithConfig demo_ctl 4096 100 1000 [100] 16000000 TAG_OTHER demo_hal = (OK, q, st)"
    using demo_limit [of 4096 100 1000 16000000] by (metis prod.collapse)
  have "adpf_reach st" by (rule adpf_create [OF demo_hal_reach _ _ c]) (simp_all add: demo_hal_def)
  then show ?thesis using session_ids_unique [of st] c by blast
qed

theorem session_id_reused_witness:
  "\<exists>st1 st2 st3 st4 st5. createHintSession demo_ctl 4096 100 1000 [100] 16 demo_hal = (OK, Some 4096, st1) \<and>
     session_close demo_ctl 4096 st1 = Some (OK, st2) \<and> createHintSession demo_ctl 4224 200 1000 [200] 16 st2 = (OK, Some 4224, st3) \<and>
     PowerHintSession_delete demo_ctl 4096 st3 = Some st4 \<and> createHintSession demo_ctl 4352 300 1000 [300] 16 st4 = (OK, Some 4352, st5) \<and>
     {4224, 4352} \<subseteq> mPowerHintSessions st5 \<and> map_option s_id (objects st5 4224) = map_option s_id (objects st5 4352)"
proof -
  have i: "sessionHintIds demo_hal = 0 # replicate 63 0" "powerhalsysdevfd demo_hal \<ge> 0" "objects demo_hal = Map.empty"
    by (simp_all add: demo_hal_def flip: replicate_Suc)
  obtain s1 where c1: "createHintSession demo_ctl 4096 100 1000 [100] 16 demo_hal = (OK, Some 4096, created 4096 s1 (CREATE_HINT_SESSION 100 1000 [100] 16) demo_hal)"
    "s_id s1 = 0" using create_head [OF i(1,2)] by blast
  let ?st1 = "created 4096 s1 (CREATE_HINT_SESSION 100 1000 [100] 16) demo_hal"
  have c2: "session_close demo_ctl 4096 ?st1 = Some (OK, session_end demo_ctl 4096 s1 ?st1)" by (simp add: session_close_def created_def)
  let ?st2 = "session_end demo_ctl 4096 s1 ?st1"
  have j: "sessionHintIds ?st2 = 0 # replicate 63 0" "powerhalsysdevfd ?st2 \<ge> 0" "objects ?st2 4096 = Some s1"
    using i c1(2) by (simp_all add: session_end_eq created_def)
  obtain s2 where c3: "createHintSession demo_ctl 4224 200 1000 [200] 16 ?st2 = (OK, Some 4224, created 4224 s2 (CREATE_HINT_SESSION 200 1000 [200] 16) ?st2)"
    "s_id s2 = 0" using create_head [OF j(1,2)] by blast
  let ?st3 = "created 4224 s2 (CREATE_HINT_SESSION 200 1000 [200] 16) ?st2"
  obtain st4 where c4: "PowerHintSession_delete demo_ctl 4096 ?st3 = Some st4" "sessionHintIds st4 = 0 # replicate 63 0" "powerhalsysdevfd st4 \<ge> 0"
    using j c1(2) c3(2) by (simp add: PowerHintSession_delete_def created_def session_end_eq)
  obtain st5 where c5: "createHintSession demo_ctl 4352 300 1000 [300] 16 st4 = (OK, Some 4352, st5)" using create_head [OF c4(2,3)] by blast
  have "session_inv demo_hal" by (rule adpf_reach_inv [OF demo_hal_reach])
  from session_id_reused [OF this _ _ _ _ c1(1) [unfolded createHintSession_def] c2 c3(1) [unfolded createHintSession_def] c4(1)
      c5 [unfolded createHintSession_def]] show ?thesis using c1(1) c2 c3(1) c4(1) c5 i(3) by auto
qed

theorem mode_lifecycle_witness:
  "\<exists>st1 a2 st3 a4. Power_setMode (\<lambda>_. demo_client_env) 100 MODE_SUSTAINED_PERFORMANCE True demo_hal = Some st1 \<and>
     mtkPowerMsgWorker (\<lambda>_. demo_client_env) (lib st1) = Some a2 \<and> scn_state (ptScnList (aservice a2) ! 2) = STATE_ON \<and>
     Power_setMode (\<lambda>_. demo_client_env) 100 MODE_SUSTAINED_PERFORMANCE False (st1\<lparr>lib := a2\<rparr>) = Some st3 \<and>
     mtkPowerMsgWorker (\<lambda>_. demo_client_env) (lib st3) = Some a4 \<and> settings (aservice a4) = settings (aservice (lib demo_hal))"
proof -
  let ?a = "lib demo_hal" and ?e = "\<lambda>_::nat. demo_client_env"
  have dmn: "dmn ?a = (dmn demo_api)\<lparr>svc := (aservice demo_api)\<lparr>PowerScnTbl := [demo_hint]\<rparr>\<rparr>" by (simp add: demo_hal_def)
  have s: "service_inv (aservice demo_api)" using demo_api_inv(1,2) by (simp add: daemon_inv_def perf_inv_def)
  have "service_inv (aservice ?a)" unfolding dmn by (rule service_inv_fields [OF s]) (simp_all add: same_tables_def)
  then have inv: "daemon_inv (dmn ?a)" using demo_api_inv(1) by (simp add: dmn daemon_inv_def perf_inv_def service_inv_def)
  have "proc_exists demo_core_env 100" by (simp add: demo_core_env_def sys_env.defs core_env.defs demo_sys_defs)
  then have reg: "can_register (core (?e 0)) (aservice ?a) [7, 20, 8, 9] 100 0 2"
    unfolding demo_reaches(2) dmn
    by (simp add: can_register_def demo_api_def demo_daemon_def demo_service_def demo_defs queryAPIstatus_def findHandleToIndex_def
        is_user_scn_def allocNewHandleNum_def)
  have e: "gWorkerExist ?a" "worker_up ?a" "vWorkMsg ?a = []" "malloc_ok (core (?e 0))" "fresh (core (?e 0)) (dmn ?a)" "reaches (?e 0)"
    "nIsReady (aservice ?a)" "powerdOnOff (dmn ?a) \<noteq> 0" "queryAPIstatus (aservice ?a) 1 \<noteq> 0"
  proof -
    show "fresh (core (?e 0)) (dmn ?a)" using demo_reaches(2,3) unfolding dmn by simp
  qed (use demo_reaches(1,2) demo_core_env_sel in \<open>simp_all add: dmn demo_hal_def demo_api_def demo_daemon_def demo_service_def demo_defs queryAPIstatus_def\<close>)
  have h: "mode_lock MODE_SUSTAINED_PERFORMANCE True demo_hal = Some (79, 0)" "gtCusHintTbl demo_hal ! nat 79 = 0"
    "nat 79 < length (gtCusHintTbl demo_hal)" "hint_find (PowerScnTbl (aservice ?a)) 79 = Some demo_hint"
    "lock_rsc_size demo_hint = int (length [7, 20, 8, 9::int])" "take (length [7, 20, 8, 9::int]) (lock_rsc_list demo_hint) = [7, 20, 8, 9]"
    by (simp_all add: mode_lock_def demo_hal_def demo_hint_def)
  from mode_lifecycle [where ?w1.0 = ?e and ?w2.0 = ?e and env = ?e and env' = ?e, OF h(1) _ h(2,3) inv e(7,8,1,2,3) reg e(9,4) h(4-6) e(6,5,6)]
  show ?thesis by auto
qed

end
