(* ===== verification/Smart_Launch.thy ===== *)
theory Smart_Launch
  imports Sys_Info Complex_Main
begin

unbundle bit_operations_syntax

text \<open>
  The smart-launch engine of \<^verbatim>\<open>rsc_util/utility_sbe_handle.cpp\<close> and its table on disk
  (\<^verbatim>\<open>perfservice_xmlparse.cpp\<close>). The engine learns, for each package, how far the frequency of the big
  cluster can be lowered while the package starts, and edits the resource list of the launch hint.

  The XML library and the kernel algorithm are parameters (\<open>launch_env\<close>): \<open>x_parse\<close> is \<open>None\<close> for a parse
  error and \<open>Some None\<close> for a document without a root; \<open>x_int\<close> reads an integer attribute; \<open>algo\<close> is
  the answer of the ioctl; \<open>written\<close> is what the file holds after a write. The pressure files give the
  ten-second averages of the two kinds, or nothing. Access outside an array is \<open>None\<close>.
\<close>

section \<open>Data\<close>

record dl_elem =
  de_tag :: string
  de_name :: "string option"
  de_power :: "string option option"     \<comment> \<open>\<open>Power\<close> element and its \<open>value\<close> attribute\<close>

record launch_env =
  x_parse :: "string \<Rightarrow> dl_elem list option option"
  x_print :: "dl_elem list \<Rightarrow> string"
  x_int :: "string \<Rightarrow> int option"
  written :: "string option \<Rightarrow> string \<Rightarrow> string option"
  psi_mem :: "(rat \<times> rat) option"        \<comment> \<open>some, full\<close>
  psi_cpu :: "(rat \<times> rat) option"
  psi_io :: "(rat \<times> rat) option"
  dev_open :: int
  algo :: "int \<Rightarrow> int \<Rightarrow> int \<Rightarrow> int \<Rightarrow> int"

record launch =
  l_perf :: perf
  l_cpu :: cpu
  gSmartLaunchPackageInfo :: "string \<rightharpoonup> int"
  dl_file :: "string option"
  gLaunchPolicyInitFlag :: bool
  gClusterNumMax :: int
  gAnimationTimeTarget :: int
  gBigClusterDefaultFreq :: int
  gBigClusterOPPMinLevel :: int
  gBigClusterOPPCnt :: int
  gBigClusterDefaultOPP :: int
  gBigClusterCapabilityRation :: int
  gAdjustCapabilitySpanMax :: int
  gSmartLaunchEnable :: bool
  gIsOverPressureThreshold :: bool
  gDefaultBigClusterFreqSupported :: bool
  devfd :: int
  mem_threshold :: int
  cpu_threshold :: int
  io_threshold :: int
  policy_size :: int                      \<comment> \<open>\<open>gDefaultLuanchPolcy\<close>\<close>
  policy_list :: "int list"

abbreviation (input) PACKAGE_NAME_LEN_MAX :: nat where "PACKAGE_NAME_LEN_MAX \<equiv> 256"
abbreviation (input) PACKAGE_CODE_LEN_MAX :: nat where "PACKAGE_CODE_LEN_MAX \<equiv> 10"
abbreviation (input) PACKAGE_DATA_LEN_MAX :: nat where "PACKAGE_DATA_LEN_MAX \<equiv> 10"
abbreviation (input) SMART_LAUNCH_ANIMATION_TARGET_TIME :: int where "SMART_LAUNCH_ANIMATION_TARGET_TIME \<equiv> 500"
abbreviation (input) SMART_LAUNCH_BIG_CLUSTER_LOW_FREQ_LIMIT :: int where "SMART_LAUNCH_BIG_CLUSTER_LOW_FREQ_LIMIT \<equiv> 1200000"
abbreviation (input) SMART_LAUNCH_BUFFER_TIME_MS :: int where "SMART_LAUNCH_BUFFER_TIME_MS \<equiv> 50"
abbreviation (input) SMART_LAUNCH_CAPABILITY_RATION :: int where "SMART_LAUNCH_CAPABILITY_RATION \<equiv> 25"
abbreviation (input) SMART_LAUNCH_CAPABILITY_SPAN_MAX :: int where "SMART_LAUNCH_CAPABILITY_SPAN_MAX \<equiv> 6"
abbreviation (input) PERF_RES_CPUFREQ_MAX_CLUSTER_2 :: int where "PERF_RES_CPUFREQ_MAX_CLUSTER_2 \<equiv> 0x00404200"
abbreviation (input) DL_PWR_SIZE_LIMIT :: nat where "DL_PWR_SIZE_LIMIT \<equiv> 1024 * 1024"

section \<open>The table on disk\<close>

definition DL_KEY :: string where
  "DL_KEY = ''ZWX''"

definition xor_char :: "char \<Rightarrow> char \<Rightarrow> char" where
  "xor_char a b = char_of ((of_char a :: nat) XOR of_char b)"

definition xor_encrypt_decrypt :: "string \<Rightarrow> string \<Rightarrow> string" where
  "xor_encrypt_decrypt data key = map (\<lambda>i. xor_char (data ! i) (key ! (i mod length key))) [0..<length data]"

text \<open>The text is a C string: it ends at the first zero character.\<close>

definition c_str :: "string \<Rightarrow> string" where
  "c_str s = takeWhile (\<lambda>c. c \<noteq> CHR 0x00) s"

text \<open>The children of the root; \<open>None\<close> is an empty or missing file, a parse error or no root.\<close>

definition load_dl :: "launch_env \<Rightarrow> launch \<Rightarrow> dl_elem list option" where
  "load_dl env st =
     (case dl_file st of
        None \<Rightarrow> None
      | Some data \<Rightarrow>
          if data = '''' then None
          else (case x_parse env (c_str (xor_encrypt_decrypt data DL_KEY)) of None \<Rightarrow> None | Some r \<Rightarrow> r))"

definition write_dl :: "launch_env \<Rightarrow> string \<Rightarrow> launch \<Rightarrow> launch" where
  "write_dl env text st = st\<lparr>dl_file := written env (dl_file st) (xor_encrypt_decrypt text DL_KEY)\<rparr>"

text \<open>The loops start at the first \<open>Package\<close> and then visit every sibling.\<close>

definition from_package :: "dl_elem list \<Rightarrow> dl_elem list" where
  "from_package es = dropWhile (\<lambda>e. de_tag e \<noteq> ''Package'') es"

definition before_package :: "dl_elem list \<Rightarrow> dl_elem list" where
  "before_package es = takeWhile (\<lambda>e. de_tag e \<noteq> ''Package'') es"

fun read_packages :: "(string \<Rightarrow> int option) \<Rightarrow> dl_elem list \<Rightarrow> (string \<rightharpoonup> int) \<Rightarrow> (string \<rightharpoonup> int)" where
  "read_packages rd [] m = m"
| "read_packages rd (e # es) m =
     read_packages rd es
       (case (de_name e, de_power e) of
          (Some n, Some (Some v)) \<Rightarrow> (case rd v of Some i \<Rightarrow> m(n \<mapsto> i) | None \<Rightarrow> m)
        | _ \<Rightarrow> m)"

definition parsePackInfo :: "launch_env \<Rightarrow> launch \<Rightarrow> int \<times> launch" where
  "parsePackInfo env st =
     (case load_dl env st of
        None \<Rightarrow> (-1, st)
      | Some es \<Rightarrow> (0, st\<lparr>gSmartLaunchPackageInfo := read_packages (x_int env) (from_package es) (gSmartLaunchPackageInfo st)\<rparr>))"

definition auto_generated :: "dl_elem list" where
  "auto_generated = [\<lparr>de_tag = ''Package'', de_name = Some ''This File is auto generated, NOT modify'', de_power = Some (Some ''15'')\<rparr>]"

definition creatPowerDlXml :: "launch_env \<Rightarrow> launch \<Rightarrow> launch" where
  "creatPowerDlXml env st = (if dl_file st = None then write_dl env (x_print env auto_generated) st else st)"

definition loadPowerDlTable :: "launch_env \<Rightarrow> launch \<Rightarrow> launch" where
  "loadPowerDlTable env st = (if dl_file st \<noteq> None then snd (parsePackInfo env st) else creatPowerDlXml env st)"

definition insertNewElement2DlTable :: "launch_env \<Rightarrow> string \<Rightarrow> string \<Rightarrow> launch \<Rightarrow> int \<times> launch" where
  "insertNewElement2DlTable env packageName val st =
     (case load_dl env st of
        None \<Rightarrow> (-1, st)
      | Some es \<Rightarrow>
          (let text = x_print env (es @ [\<lparr>de_tag = ''Package'', de_name = Some packageName, de_power = Some (Some val)\<rparr>])
           in if length text \<ge> DL_PWR_SIZE_LIMIT then (-1, st) else (0, write_dl env text st)))"

fun delete_named :: "string \<Rightarrow> dl_elem list \<Rightarrow> dl_elem list" where
  "delete_named n [] = []"
| "delete_named n (e # es) = (if de_name e = Some n then es else e # delete_named n es)"

definition deleteElement2DlTable :: "launch_env \<Rightarrow> string \<Rightarrow> launch \<Rightarrow> int \<times> launch" where
  "deleteElement2DlTable env packageName st =
     (case load_dl env st of
        None \<Rightarrow> (-1, st)
      | Some es \<Rightarrow> (0, write_dl env (x_print env (before_package es @ delete_named packageName (from_package es))) st))"

fun modify_named :: "string \<Rightarrow> string \<Rightarrow> dl_elem list \<Rightarrow> dl_elem list" where
  "modify_named n v [] = []"
| "modify_named n v (e # es) =
     (if de_name e = Some n \<and> de_power e \<noteq> None then e\<lparr>de_power := Some (Some v)\<rparr> # es else e # modify_named n v es)"

definition modifyElement2DlTable :: "launch_env \<Rightarrow> string \<Rightarrow> string \<Rightarrow> launch \<Rightarrow> int \<times> launch" where
  "modifyElement2DlTable env packageName new_val st =
     (case load_dl env st of
        None \<Rightarrow> (-1, st)
      | Some es \<Rightarrow> (0, write_dl env (x_print env (before_package es @ modify_named packageName new_val (from_package es))) st))"

section \<open>The message\<close>

text \<open>The text after the first occurrence of \<open>p\<close>.\<close>

fun strstr_after :: "string \<Rightarrow> string \<Rightarrow> string option" where
  "strstr_after p [] = (if p = '''' then Some '''' else None)"
| "strstr_after p (c # cs) =
     (if take (length p) (c # cs) = p then Some (drop (length p) (c # cs)) else strstr_after p cs)"

definition msg_field :: "string \<Rightarrow> nat \<Rightarrow> string \<Rightarrow> string option" where
  "msg_field p n s =
     (case strstr_after p s of
        None \<Rightarrow> None
      | Some t \<Rightarrow> if CHR '','' \<in> set t then Some (take (n - 1) (takeWhile (\<lambda>c. c \<noteq> CHR '','') t)) else None)"

definition field_text :: "string option \<Rightarrow> string" where
  "field_text f = (case f of None \<Rightarrow> '''' | Some s \<Rightarrow> s)"

definition parsePackageinfo :: "string \<Rightarrow> string \<times> int \<times> int \<times> int" where
  "parsePackageinfo packinfo =
     (field_text (msg_field ''Package:'' PACKAGE_NAME_LEN_MAX packinfo),
      strtol 10 (field_text (msg_field ''Code:'' PACKAGE_CODE_LEN_MAX packinfo)),
      strtol 10 (field_text (msg_field ''Data:'' PACKAGE_DATA_LEN_MAX packinfo)),
      strtol 10 (field_text (msg_field ''LaunchType:'' PACKAGE_DATA_LEN_MAX packinfo)))"

section \<open>The defaults\<close>

text \<open>\<open>tConTable\<close> is searched by name; the first entry with the name counts.\<close>

definition con_default :: "string \<Rightarrow> perf \<Rightarrow> int option" where
  "con_default n st = map_option c_defaultVal (find (\<lambda>c. c_cmdName c = n) (tConTable st))"

definition positive_default :: "string \<Rightarrow> int \<Rightarrow> perf \<Rightarrow> int" where
  "positive_default n d st = (case con_default n st of Some v \<Rightarrow> if v > 0 then v else d | None \<Rightarrow> d)"

definition getDefaultTargetTime :: "perf \<Rightarrow> int" where
  "getDefaultTargetTime st =
     (case con_default ''PERF_RES_SMART_LAUNCH_TIME_TARGET'' st of
        Some v \<Rightarrow> if v \<ge> 0 then v else SMART_LAUNCH_ANIMATION_TARGET_TIME
      | None \<Rightarrow> SMART_LAUNCH_ANIMATION_TARGET_TIME)"

definition getDefaultDlCPUFreqMax :: "perf \<Rightarrow> int" where
  "getDefaultDlCPUFreqMax = positive_default ''PERF_RES_SMART_LAUNCH_CLUSTER_2_CPU_MAX_FREQ'' SMART_LAUNCH_BIG_CLUSTER_LOW_FREQ_LIMIT"

definition getDefaultDlPowerMigration :: "perf \<Rightarrow> int" where
  "getDefaultDlPowerMigration = positive_default ''PERF_RES_SMART_LAUNCH_CLUSTER_2_CAP_RATION'' SMART_LAUNCH_CAPABILITY_RATION"

definition getDefaultOppOffsetScale :: "perf \<Rightarrow> int" where
  "getDefaultOppOffsetScale = positive_default ''PERF_RES_SMART_LAUNCH_CLUSTER_2_OPP_SPA_MAX'' SMART_LAUNCH_CAPABILITY_SPAN_MAX"

definition getDefaultMemPSIThreshold :: "perf \<Rightarrow> int" where
  "getDefaultMemPSIThreshold = positive_default ''PERF_RES_SMART_LAUNCH_MEM_PSI_THRESHOLD'' 7"

definition getDefaultCpuPSIThreshold :: "perf \<Rightarrow> int" where
  "getDefaultCpuPSIThreshold = positive_default ''PERF_RES_SMART_LAUNCH_CPU_PSI_THRESHOLD'' 20"

definition getDefaultIoPSIThreshold :: "perf \<Rightarrow> int" where
  "getDefaultIoPSIThreshold = positive_default ''PERF_RES_SMART_LAUNCH_IO_PSI_THRESHOLD'' 20"

definition initSystemPressureStats :: "launch \<Rightarrow> launch" where
  "initSystemPressureStats st =
     st\<lparr>mem_threshold := getDefaultMemPSIThreshold (l_perf st), cpu_threshold := getDefaultCpuPSIThreshold (l_perf st),
        io_threshold := getDefaultIoPSIThreshold (l_perf st)\<rparr>"

text \<open>The scan visits commands and values alike.\<close>

definition getDefaultBigClusterFreqSupported :: "launch \<Rightarrow> bool" where
  "getDefaultBigClusterFreqSupported st \<longleftrightarrow> PERF_RES_CPUFREQ_MAX_CLUSTER_2 \<in> set (take (nat (policy_size st)) (policy_list st))"

definition getDefaultBigClusterFreq :: "launch \<Rightarrow> int option" where
  "getDefaultBigClusterFreq st =
     (case rsc_scan (policy_list st) (policy_size st) PERF_RES_CPUFREQ_MAX_CLUSTER_2 0 of
        None \<Rightarrow> None
      | Some None \<Rightarrow> Some (-1)
      | Some (Some i) \<Rightarrow> arr_get (policy_list st) (int i + 1))"

definition getDefaultScnHintRsc :: "int \<Rightarrow> launch \<Rightarrow> int \<times> launch" where
  "getDefaultScnHintRsc hint st =
     (let tbl = PowerScnTbl (l_perf st); n = getHintRscSize tbl hint; st1 = st\<lparr>policy_size := n\<rparr>
      in if n \<le> 0 \<or> n > int MAX_ARGS_PER_REQUEST then (-1, st1)
         else (case getHintRscList tbl hint of
                 None \<Rightarrow> (-1, st1)
               | Some l \<Rightarrow> (0, st1\<lparr>policy_list := take (nat n) l @ drop (nat n) (policy_list st)\<rparr>)))"

definition getClusterNum :: "cpu \<Rightarrow> int" where
  "getClusterNum st = (if nClusterNum st \<noteq> 0 then nClusterNum st else -1)"

definition uclampRation :: "int \<Rightarrow> int" where
  "uclampRation migration =
     (let m = (if migration \<le> 0 then 0 else migration) in if m \<ge> 100 then 100 else m)"

definition default_freq :: "launch \<Rightarrow> launch option" where
  "default_freq st =
     (let cid = gClusterNumMax st - 1; cpu = l_cpu st
      in if gDefaultBigClusterFreqSupported st then
           map_option (\<lambda>freq.
               let opp = getCPUFreqToOpp cpu cid freq
               in st\<lparr>gBigClusterOPPCnt := getCPUFreqOppCnt cpu cid, gBigClusterDefaultOPP := opp, gBigClusterDefaultFreq := getCPUFreq cpu cid opp\<rparr>)
             (getDefaultBigClusterFreq st)
         else Some (st\<lparr>gBigClusterDefaultFreq := getCPUFreq cpu cid 0\<rparr>))"

definition storeDefaultLaunchBoostPolicy :: "launch \<Rightarrow> launch option" where
  "storeDefaultLaunchBoostPolicy st0 =
     (let (ret, st) = getDefaultScnHintRsc MTKPOWER_HINT_PROCESS_CREATE (initSystemPressureStats st0)
      in if ret < 0 then Some (st\<lparr>gSmartLaunchEnable := False\<rparr>)
         else
           (let st1 = st\<lparr>gAnimationTimeTarget := getDefaultTargetTime (l_perf st), gClusterNumMax := getClusterNum (l_cpu st),
                         gDefaultBigClusterFreqSupported := getDefaultBigClusterFreqSupported st\<rparr>
            in map_option (\<lambda>st2.
                 st2\<lparr>gBigClusterOPPMinLevel := getCPUFreqToOpp (l_cpu st2) (gClusterNumMax st2 - 1) (getDefaultDlCPUFreqMax (l_perf st2)),
                     gBigClusterCapabilityRation := uclampRation (getDefaultDlPowerMigration (l_perf st2)),
                     gAdjustCapabilitySpanMax := getDefaultOppOffsetScale (l_perf st2),
                     gLaunchPolicyInitFlag := True, gSmartLaunchEnable := True\<rparr>) (default_freq st1)))"

section \<open>Pressure\<close>

text \<open>The averages of memory (full), processor (some) and input/output (full).\<close>

definition getSystemPressureInfo :: "launch_env \<Rightarrow> (rat \<times> rat \<times> rat) option" where
  "getSystemPressureInfo env =
     (case (psi_mem env, psi_cpu env, psi_io env) of
        (Some m, Some c, Some i) \<Rightarrow> Some (snd m, fst c, snd i)
      | _ \<Rightarrow> None)"

definition isSystemOverPressureThreshold :: "launch_env \<Rightarrow> launch \<Rightarrow> bool \<times> launch" where
  "isSystemOverPressureThreshold env st =
     (let over = (case getSystemPressureInfo env of
                    None \<Rightarrow> True
                  | Some (m, c, i) \<Rightarrow> m \<ge> of_int (mem_threshold st) \<or> c \<ge> of_int (cpu_threshold st) \<or> i \<ge> of_int (io_threshold st))
      in (over, st\<lparr>gIsOverPressureThreshold := over\<rparr>))"

section \<open>The hint list\<close>

definition edit_hints :: "(tHintMap list \<Rightarrow> tHintMap list option) \<Rightarrow> launch \<Rightarrow> launch option" where
  "edit_hints f st =
     map_option (\<lambda>tbl. st\<lparr>l_perf := (l_perf st)\<lparr>PowerScnTbl := tbl\<rparr>\<rparr>) (f (PowerScnTbl (l_perf st)))"

definition resetLaunchPolicyToDefault :: "launch \<Rightarrow> launch option" where
  "resetLaunchPolicyToDefault st =
     (if gDefaultBigClusterFreqSupported st
      then edit_hints (\<lambda>tbl. HintRscList_modify tbl MTKPOWER_HINT_PROCESS_CREATE PERF_RES_CPUFREQ_MAX_CLUSTER_2 (gBigClusterDefaultFreq st)) st
      else edit_hints (\<lambda>tbl. HintRscList_remove tbl MTKPOWER_HINT_PROCESS_CREATE PERF_RES_CPUFREQ_MAX_CLUSTER_2) st)"

definition pickCurrentFreq :: "launch_env \<Rightarrow> string \<Rightarrow> launch \<Rightarrow> int \<times> launch" where
  "pickCurrentFreq env packname st =
     (if gAnimationTimeTarget st = 0 then (gBigClusterDefaultFreq st, st)
      else (case gSmartLaunchPackageInfo st packname of
              None \<Rightarrow> (gBigClusterDefaultFreq st, st)
            | Some opp \<Rightarrow>
                (let (over, st1) = isSystemOverPressureThreshold env st
                 in if over then (gBigClusterDefaultFreq st1, st1)
                    else (getCPUFreq (l_cpu st1) (gClusterNumMax st1 - 1) opp, st1))))"

definition handleCurrentLaunchPolicy :: "launch_env \<Rightarrow> string \<Rightarrow> launch \<Rightarrow> launch option" where
  "handleCurrentLaunchPolicy env packname st0 =
     (let (freq, st) = pickCurrentFreq env packname st0
      in if gDefaultBigClusterFreqSupported st
         then edit_hints (\<lambda>tbl. HintRscList_modify tbl MTKPOWER_HINT_PROCESS_CREATE PERF_RES_CPUFREQ_MAX_CLUSTER_2 freq) st
         else if freq \<noteq> gBigClusterDefaultFreq st
         then edit_hints (\<lambda>tbl. HintRscList_append tbl MTKPOWER_HINT_PROCESS_CREATE PERF_RES_CPUFREQ_MAX_CLUSTER_2 freq) st
         else edit_hints (\<lambda>tbl. HintRscList_remove tbl MTKPOWER_HINT_PROCESS_CREATE PERF_RES_CPUFREQ_MAX_CLUSTER_2) st)"

section \<open>Learning\<close>

text \<open>The results of the file operations are ignored.\<close>

definition modifyNextFreqAndSaveToDisk :: "launch_env \<Rightarrow> string \<Rightarrow> int \<Rightarrow> launch \<Rightarrow> launch" where
  "modifyNextFreqAndSaveToDisk env packname next_opp st =
     snd (modifyElement2DlTable env packname (show_int next_opp) (st\<lparr>gSmartLaunchPackageInfo := (gSmartLaunchPackageInfo st)(packname \<mapsto> next_opp)\<rparr>))"

definition insertNewFreqAndInsertToDisk :: "launch_env \<Rightarrow> string \<Rightarrow> int \<Rightarrow> launch \<Rightarrow> launch" where
  "insertNewFreqAndInsertToDisk env packname next_opp st =
     snd (insertNewElement2DlTable env packname (show_int next_opp) (st\<lparr>gSmartLaunchPackageInfo := (gSmartLaunchPackageInfo st)(packname \<mapsto> next_opp)\<rparr>))"

definition deletePackageAndUpdateToDisk :: "launch_env \<Rightarrow> string \<Rightarrow> launch \<Rightarrow> launch" where
  "deletePackageAndUpdateToDisk env packname st =
     snd (deleteElement2DlTable env packname (st\<lparr>gSmartLaunchPackageInfo := (gSmartLaunchPackageInfo st)(packname := None)\<rparr>))"

definition clampFreqOpp :: "int \<Rightarrow> launch \<Rightarrow> int" where
  "clampFreqOpp next_opp st =
     (let o1 = (if next_opp \<le> gBigClusterDefaultOPP st then gBigClusterDefaultOPP st else next_opp)
      in if o1 \<ge> gBigClusterOPPMinLevel st then gBigClusterOPPMinLevel st else o1)"

definition check_perf_ioctl_valid :: "launch_env \<Rightarrow> launch \<Rightarrow> int \<times> launch" where
  "check_perf_ioctl_valid env st =
     (if devfd st \<ge> 0 then (0, st) else (if dev_open env < 0 then -1 else 0, st\<lparr>devfd := dev_open env\<rparr>))"

definition coreAlgorith :: "launch_env \<Rightarrow> int \<Rightarrow> int \<Rightarrow> int \<Rightarrow> int \<Rightarrow> launch \<Rightarrow> int \<times> launch" where
  "coreAlgorith env feedback_time target_time pre_opp ration st0 =
     (let (r, st) = check_perf_ioctl_valid env st0;
          next_opp = (if r = 0 then algo env feedback_time target_time pre_opp ration else -1)
      in (if next_opp \<ge> 0 then clampFreqOpp next_opp st else pre_opp, st))"

definition handlePackageUninstall :: "launch_env \<Rightarrow> string \<Rightarrow> launch \<Rightarrow> launch" where
  "handlePackageUninstall env packname st =
     (if gSmartLaunchPackageInfo st packname \<noteq> None then deletePackageAndUpdateToDisk env packname st else st)"

definition checkIfNeedAdjust :: "int \<Rightarrow> launch \<Rightarrow> bool" where
  "checkIfNeedAdjust feedback_time st \<longleftrightarrow> \<not> \<bar>feedback_time - gAnimationTimeTarget st\<bar> \<le> SMART_LAUNCH_BUFFER_TIME_MS div 2"

definition span_limit :: "int \<Rightarrow> int \<Rightarrow> int" where
  "span_limit pre_opp next_opp =
     (if next_opp - pre_opp \<ge> SMART_LAUNCH_CAPABILITY_SPAN_MAX then pre_opp + SMART_LAUNCH_CAPABILITY_SPAN_MAX else next_opp)"

definition adjust_known :: "launch_env \<Rightarrow> string \<Rightarrow> int \<Rightarrow> int \<Rightarrow> launch \<Rightarrow> launch" where
  "adjust_known env packname feedback_time pre_opp st0 =
     (let (next_opp, st) = coreAlgorith env feedback_time (gAnimationTimeTarget st0) pre_opp (gBigClusterCapabilityRation st0) st0
      in if next_opp \<le> gBigClusterDefaultOPP st then deletePackageAndUpdateToDisk env packname st
         else (let o1 = span_limit pre_opp next_opp
               in if o1 \<noteq> pre_opp then modifyNextFreqAndSaveToDisk env packname o1 st else st))"

definition adjust_new :: "launch_env \<Rightarrow> string \<Rightarrow> int \<Rightarrow> launch \<Rightarrow> launch" where
  "adjust_new env packname feedback_time st0 =
     (let (next_opp, st) = coreAlgorith env feedback_time (gAnimationTimeTarget st0) (gBigClusterDefaultOPP st0) (gBigClusterCapabilityRation st0) st0
      in if next_opp > gBigClusterDefaultOPP st
         then insertNewFreqAndInsertToDisk env packname (span_limit (gBigClusterDefaultOPP st) next_opp) st else st)"

definition calcNextLaunchPower :: "launch_env \<Rightarrow> string \<Rightarrow> int \<Rightarrow> launch \<Rightarrow> launch" where
  "calcNextLaunchPower env packname feedback_time st =
     (if gAnimationTimeTarget st = 0 \<or> gIsOverPressureThreshold st \<or> \<not> checkIfNeedAdjust feedback_time st then st
      else (case gSmartLaunchPackageInfo st packname of
              Some pre_opp \<Rightarrow> adjust_known env packname feedback_time pre_opp st
            | None \<Rightarrow> adjust_new env packname feedback_time st))"

section \<open>Notifications\<close>

definition notify_switch :: "launch_env \<Rightarrow> string \<times> int \<times> int \<times> int \<Rightarrow> launch \<Rightarrow> launch option" where
  "notify_switch env msg st =
     (case msg of (packname, code, data, launchtype) \<Rightarrow>
        if code = 0 then
          (if data = 1 then handleCurrentLaunchPolicy env packname st else resetLaunchPolicyToDefault st)
        else if code = 1 then
          (if launchtype = 1 then resetLaunchPolicyToDefault (calcNextLaunchPower env packname data st) else Some st)
        else if code = 2 then Some (handlePackageUninstall env packname st)
        else Some st)"

definition notifySmartLaunchEngine :: "launch_env \<Rightarrow> string option \<Rightarrow> launch \<Rightarrow> launch option" where
  "notifySmartLaunchEngine env packinfo st0 =
     Option.bind (if gLaunchPolicyInitFlag st0 then Some st0 else storeDefaultLaunchBoostPolicy st0) (\<lambda>st.
       case packinfo of
         None \<Rightarrow> Some st
       | Some s \<Rightarrow> if \<not> gSmartLaunchEnable st then Some st else notify_switch env (parsePackageinfo s) st)"

section \<open>Scrolling\<close>

text \<open>
  The set function of one row of the resource table turns a scenario of the application list on and off
  by itself. The names are pointers of the caller; \<open>str_at\<close> is what they point to, an unset pointer
  has no result. The foreground application is a global of the service and always exists.
\<close>

record ux_scroll =
  featureName :: string
  curentPackName :: "nat option"
  currentActName :: "nat option"
  currentIsBoost :: bool
  whiteListTypeSupport :: bool
  currentScnIndex :: int

definition uxScrollSavePowerWithNoAppList :: "nat \<Rightarrow> nat \<Rightarrow> ux_scroll \<Rightarrow> ux_scroll" where
  "uxScrollSavePowerWithNoAppList pack act u =
     u\<lparr>curentPackName := Some pack, currentActName := Some act, currentScnIndex := -1,
       featureName := ''SBE_Not_Support'', whiteListTypeSupport := False\<rparr>"

definition uxScrollSavePowerWithAppList :: "nat \<Rightarrow> nat \<Rightarrow> string \<Rightarrow> int \<Rightarrow> ux_scroll \<Rightarrow> int \<times> ux_scroll" where
  "uxScrollSavePowerWithAppList pack act feature idex u0 =
     (let u = u0\<lparr>curentPackName := Some pack, currentActName := Some act, currentScnIndex := idex\<rparr>
      in if feature = '''' then (1, u\<lparr>featureName := ''SBE_Not_Support'', whiteListTypeSupport := False\<rparr>)
         else if take 8 feature = ''UxScroll''
         then (0, u\<lparr>featureName := ''UxScroll'', whiteListTypeSupport := True, currentIsBoost := False\<rparr>)
         else (1, u))"

definition uxScrollSavePower :: "(nat \<Rightarrow> string) \<Rightarrow> string \<Rightarrow> int \<Rightarrow> ux_scroll \<Rightarrow> perf \<Rightarrow> (int \<times> ux_scroll \<times> perf) option" where
  "uxScrollSavePower str_at foreground_pack stat u st =
     (if \<not> whiteListTypeSupport u then Some (0, u, st)
      else (case curentPackName u of
              None \<Rightarrow> None
            | Some p \<Rightarrow>
                if foreground_pack \<noteq> str_at p then Some (0, u, st)
                else if currentScnIndex u < 0 then Some (-1, u, st)
                else if stat = 1 \<and> \<not> currentIsBoost u then Some (0, u\<lparr>currentIsBoost := True\<rparr>, perfScnEnable st (currentScnIndex u))
                else if stat = 0 \<and> currentIsBoost u then Some (0, u\<lparr>currentIsBoost := False\<rparr>, perfScnDisable st (currentScnIndex u))
                else Some (0, u, st)))"


text \<open>The set function that ends the hold time of the launch hints.\<close>

definition end_default_hold_time :: "int \<Rightarrow> perf \<Rightarrow> int \<times> perf" where
  "end_default_hold_time hindId st =
     (if hindId < 0 then (-1, st)
      else if hindId = MTKPOWER_HINT_PROCESS_CREATE \<or> hindId = MTKPOWER_HINT_PROCESS_CREATE_PERF_MODE
      then (0, disableScenarioByHintId (disableScenarioByHintId st MTKPOWER_HINT_PROCESS_CREATE) MTKPOWER_HINT_PROCESS_CREATE_PERF_MODE)
      else (0, st))"

section \<open>Properties for the framework\<close>

text \<open>The remaining set functions of the file publish their value as a system property.\<close>

definition sbe_set_property_value :: "string \<Rightarrow> int \<Rightarrow> (string \<rightharpoonup> string) \<Rightarrow> int \<times> (string \<rightharpoonup> string)" where
  "sbe_set_property_value propertyName val props = (0, props(propertyName \<mapsto> show_int val))"

definition set_ux_sbe_check_point :: "int \<Rightarrow> (string \<rightharpoonup> string) \<Rightarrow> int \<times> (string \<rightharpoonup> string)" where
  "set_ux_sbe_check_point val = sbe_set_property_value ''vendor.boostfwk.rescue.checkpoint'' val"

definition init_ux_sbe_check_point :: "int \<Rightarrow> (string \<rightharpoonup> string) \<Rightarrow> int \<times> (string \<rightharpoonup> string)" where
  "init_ux_sbe_check_point val = sbe_set_property_value ''vendor.boostfwk.rescue.checkpoint'' 50"

definition set_ux_sbe_horizontal_duration :: "int \<Rightarrow> (string \<rightharpoonup> string) \<Rightarrow> int \<times> (string \<rightharpoonup> string)" where
  "set_ux_sbe_horizontal_duration val = sbe_set_property_value ''vendor.boostfwk.scroll.duration.h'' val"

definition init_ux_sbe_horizontal_duration :: "int \<Rightarrow> (string \<rightharpoonup> string) \<Rightarrow> int \<times> (string \<rightharpoonup> string)" where
  "init_ux_sbe_horizontal_duration val = sbe_set_property_value ''vendor.boostfwk.scroll.duration.h'' 700"

definition set_ux_sbe_vertical_duration :: "int \<Rightarrow> (string \<rightharpoonup> string) \<Rightarrow> int \<times> (string \<rightharpoonup> string)" where
  "set_ux_sbe_vertical_duration val = sbe_set_property_value ''vendor.boostfwk.scroll.duration.v'' val"

definition init_ux_sbe_vertical_duration :: "int \<Rightarrow> (string \<rightharpoonup> string) \<Rightarrow> int \<times> (string \<rightharpoonup> string)" where
  "init_ux_sbe_vertical_duration val = sbe_set_property_value ''vendor.boostfwk.scroll.duration.v'' 3000"

definition set_ux_sbe_sbb_enable_later :: "int \<Rightarrow> (string \<rightharpoonup> string) \<Rightarrow> int \<times> (string \<rightharpoonup> string)" where
  "set_ux_sbe_sbb_enable_later val = sbe_set_property_value ''vendor.boostfwk.sbb.touch.duration'' val"

definition init_ux_sbe_sbb_enable_later :: "int \<Rightarrow> (string \<rightharpoonup> string) \<Rightarrow> int \<times> (string \<rightharpoonup> string)" where
  "init_ux_sbe_sbb_enable_later val = sbe_set_property_value ''vendor.boostfwk.sbb.touch.duration'' 1000"

definition set_ux_sbe_enable_freq_floor :: "int \<Rightarrow> (string \<rightharpoonup> string) \<Rightarrow> int \<times> (string \<rightharpoonup> string)" where
  "set_ux_sbe_enable_freq_floor val = sbe_set_property_value ''vendor.boostfwk.scroll.floor'' val"

definition init_ux_sbe_enable_freq_floor :: "int \<Rightarrow> (string \<rightharpoonup> string) \<Rightarrow> int \<times> (string \<rightharpoonup> string)" where
  "init_ux_sbe_enable_freq_floor val = sbe_set_property_value ''vendor.boostfwk.scroll.floor'' 0"

definition set_ux_sbe_frame_decision :: "int \<Rightarrow> (string \<rightharpoonup> string) \<Rightarrow> int \<times> (string \<rightharpoonup> string)" where
  "set_ux_sbe_frame_decision val = sbe_set_property_value ''vendor.boostfwk.frame.decision'' val"

definition init_ux_sbe_frame_decision :: "int \<Rightarrow> (string \<rightharpoonup> string) \<Rightarrow> int \<times> (string \<rightharpoonup> string)" where
  "init_ux_sbe_frame_decision val = sbe_set_property_value ''vendor.boostfwk.frame.decision'' 2"

definition set_ux_sbe_checkpoint_traversal :: "int \<Rightarrow> (string \<rightharpoonup> string) \<Rightarrow> int \<times> (string \<rightharpoonup> string)" where
  "set_ux_sbe_checkpoint_traversal val = sbe_set_property_value ''vendor.boostfwk.rescue.checkpoint.traversal'' val"

definition init_ux_sbe_checkpoint_traversal :: "int \<Rightarrow> (string \<rightharpoonup> string) \<Rightarrow> int \<times> (string \<rightharpoonup> string)" where
  "init_ux_sbe_checkpoint_traversal val = sbe_set_property_value ''vendor.boostfwk.rescue.checkpoint.traversal'' 100"

definition set_ux_sbe_threshold_traversal :: "int \<Rightarrow> (string \<rightharpoonup> string) \<Rightarrow> int \<times> (string \<rightharpoonup> string)" where
  "set_ux_sbe_threshold_traversal val = sbe_set_property_value ''vendor.boostfwk.rescue.checkpoint.threshold'' val"

definition init_ux_sbe_threshold_traversal :: "int \<Rightarrow> (string \<rightharpoonup> string) \<Rightarrow> int \<times> (string \<rightharpoonup> string)" where
  "init_ux_sbe_threshold_traversal val = sbe_set_property_value ''vendor.boostfwk.rescue.checkpoint.threshold'' 150"

end
