(* ===== verification/Launch_Props.thy ===== *)
theory Launch_Props
  imports Smart_Launch "HOL-Library.Sublist"
begin

text \<open>
  What the smart-launch engine guarantees: the learned operating points stay within the bounds of the
  policy, the table on disk is the table in memory, a start and an end leave the resource list as it
  was; and where it does not.
\<close>

section \<open>The file\<close>

text \<open>What learning needs of a document: it is a finite map that can be edited.\<close>

locale package_file =
  fixes ok :: "'d \<Rightarrow> bool"
    and valid :: "string \<Rightarrow> bool"
    and view :: "'d \<Rightarrow> string \<rightharpoonup> string"
    and ins :: "string \<Rightarrow> string \<Rightarrow> 'd \<Rightarrow> 'd"
    and del :: "string \<Rightarrow> 'd \<Rightarrow> 'd"
    and upd :: "string \<Rightarrow> string \<Rightarrow> 'd \<Rightarrow> 'd"
  assumes ins_law: "ok d \<Longrightarrow> view d n = None \<Longrightarrow> valid n \<Longrightarrow> valid v \<Longrightarrow> ok (ins n v d) \<and> view (ins n v d) = (view d)(n \<mapsto> v)"
    and del_law: "ok d \<Longrightarrow> ok (del n d) \<and> view (del n d) = (view d)(n := None)"
    and upd_law: "ok d \<Longrightarrow> view d n \<noteq> None \<Longrightarrow> valid v \<Longrightarrow> ok (upd n v d) \<and> view (upd n v d) = (view d)(n \<mapsto> v)"
    and text_law: "valid (show_int i)"
begin

text \<open>The document holds the numbers of a table as texts.\<close>

definition agree :: "(string \<rightharpoonup> int) \<Rightarrow> 'd \<Rightarrow> bool" where
  "agree m d \<longleftrightarrow> ok d \<and> view d = (\<lambda>n. map_option show_int (m n))"

lemma agree_ins: "agree m d \<Longrightarrow> m n = None \<Longrightarrow> valid n \<Longrightarrow> agree (m(n \<mapsto> i)) (ins n (show_int i) d)"
  using ins_law [of d n "show_int i"] text_law by (auto simp: agree_def)

lemma agree_del: "agree m d \<Longrightarrow> agree (m(n := None)) (del n d)"
  using del_law [of d n] by (auto simp: agree_def)

lemma agree_upd: "agree m d \<Longrightarrow> m n \<noteq> None \<Longrightarrow> agree (m(n \<mapsto> i)) (upd n (show_int i) d)"
  using upd_law [of d n "show_int i"] text_law by (auto simp: agree_def)

end

definition package :: "string \<Rightarrow> string \<Rightarrow> dl_elem" where
  "package n v = \<lparr>de_tag = ''Package'', de_name = Some n, de_power = Some (Some v)\<rparr>"

text \<open>Printable characters only.\<close>

definition plain :: "string \<Rightarrow> bool" where
  "plain s \<longleftrightarrow> (\<forall>c \<in> set s. 32 \<le> (of_char c :: nat) \<and> (of_char c :: nat) < 127)"

definition entries_ok :: "dl_elem list \<Rightarrow> bool" where
  "entries_ok es \<longleftrightarrow> (\<forall>e \<in> set es. \<exists>n v. e = package n v \<and> plain n \<and> plain v) \<and> distinct (map de_name es)"

definition entries :: "dl_elem list \<Rightarrow> string \<rightharpoonup> string" where
  "entries es = map_of (map (\<lambda>e. (the (de_name e), the (the (de_power e)))) es)"

definition dl_insert :: "string \<Rightarrow> string \<Rightarrow> dl_elem list \<Rightarrow> dl_elem list" where
  "dl_insert n v es = es @ [package n v]"

definition dl_delete :: "string \<Rightarrow> dl_elem list \<Rightarrow> dl_elem list" where
  "dl_delete n es = before_package es @ delete_named n (from_package es)"

definition dl_modify :: "string \<Rightarrow> string \<Rightarrow> dl_elem list \<Rightarrow> dl_elem list" where
  "dl_modify n v es = before_package es @ modify_named n v (from_package es)"

lemma package_simps [simp]:
  "de_name (package n v) = Some n" "de_power (package n v) = Some (Some v)" "de_tag (package n v) = ''Package''"
  "(package n v)\<lparr>de_power := Some (Some w)\<rparr> = package n w"
  "package n v = package m w \<longleftrightarrow> n = m \<and> v = w"
  by (simp_all add: package_def)

lemma entries_simps [simp]:
  "entries [] = Map.empty" "entries (package n v # es) = (entries es)(n \<mapsto> v)"
  "entries_ok []" "entries_ok (e # es) \<longleftrightarrow> (\<exists>n v. e = package n v \<and> plain n \<and> plain v) \<and> de_name e \<notin> set (map de_name es) \<and> entries_ok es"
  by (auto simp: entries_def entries_ok_def)

lemma entries_None: "entries_ok es \<Longrightarrow> entries es n = None \<longleftrightarrow> Some n \<notin> set (map de_name es)"
  by (induction es) (auto simp del: set_map split: if_splits)

lemma entries_snoc:
  assumes "entries_ok es" "entries es n = None" "plain n" "plain v"
  shows "entries_ok (es @ [package n v]) \<and> entries (es @ [package n v]) = (entries es)(n \<mapsto> v)"
  using assms by (induction es) (auto split: if_splits)

lemma entries_delete:
  assumes "entries_ok es"
  shows "entries_ok (delete_named n es) \<and> entries (delete_named n es) = (entries es)(n := None) \<and>
    set (map de_name (delete_named n es)) \<subseteq> set (map de_name es)"
  using assms
proof (induction es)
  case (Cons e es)
  then obtain m v where e: "e = package m v" by auto
  show ?case
  proof (cases "m = n")
    case True
    then show ?thesis using Cons.prems e entries_None [of es n] by (auto simp: fun_eq_iff)
  next
    case False
    then show ?thesis using Cons e by (auto simp: fun_eq_iff)
  qed
qed simp

lemma entries_modify:
  assumes "entries_ok es" "entries es n \<noteq> None" "plain v"
  shows "entries_ok (modify_named n v es) \<and> entries (modify_named n v es) = (entries es)(n \<mapsto> v) \<and>
    map de_name (modify_named n v es) = map de_name es"
  using assms
proof (induction es)
  case (Cons e es)
  then obtain m w where e: "e = package m w" by auto
  show ?case
  proof (cases "m = n")
    case False
    then have "entries_ok es" "entries es n \<noteq> None" using Cons.prems e by auto
    note ih = Cons.IH [OF this assms(3), THEN conjunct1] Cons.IH [OF this assms(3), THEN conjunct2, THEN conjunct1] Cons.IH [OF this assms(3), THEN conjunct2, THEN conjunct2]
    have "de_name ` set (modify_named n v es) = de_name ` set es" using arg_cong [OF ih(3), of set] by simp
    then show ?thesis using Cons.prems(1) False e ih by (auto simp: fun_eq_iff)
  qed (use Cons.prems e in \<open>auto simp: fun_eq_iff\<close>)
qed simp

lemma from_entries: "entries_ok es \<Longrightarrow> from_package es = es"
  by (cases es) (auto simp: from_package_def)

lemma before_entries: "entries_ok es \<Longrightarrow> before_package es = []"
  by (cases es) (auto simp: before_package_def)

lemma show_int_plain: "plain (show_int i)"
proof -
  have "32 \<le> (of_char c :: nat) \<and> (of_char c :: nat) < 127" if "digit_val 10 c \<noteq> None" for c
    using that of_nat_of_char [of c, where 'a = int] unfolding digit_val_def Let_def by (auto split: if_splits)
  then show ?thesis using nat_digits_digits by (fastforce simp: plain_def show_int_def)
qed

interpretation dl: package_file entries_ok plain entries dl_insert dl_delete dl_modify
proof
  fix d n v
  assume d: "entries_ok d"
  note splits = from_entries [OF d] before_entries [OF d]
  show "entries d n = None \<Longrightarrow> plain n \<Longrightarrow> plain v \<Longrightarrow> entries_ok (dl_insert n v d) \<and> entries (dl_insert n v d) = (entries d)(n \<mapsto> v)"
    using entries_snoc [OF d] by (simp add: dl_insert_def)
  show "entries_ok (dl_delete n d) \<and> entries (dl_delete n d) = (entries d)(n := None)"
    using entries_delete [OF d, of n] by (simp add: dl_delete_def splits)
  show "entries d n \<noteq> None \<Longrightarrow> plain v \<Longrightarrow> entries_ok (dl_modify n v d) \<and> entries (dl_modify n v d) = (entries d)(n \<mapsto> v)"
    using entries_modify [OF d] by (simp add: dl_modify_def splits)
qed (rule show_int_plain)

section \<open>Reading and writing\<close>

lemma xor_char_twice [simp]: "xor_char (xor_char a b) b = a"
proof -
  have "take_bit 8 (of_char a XOR of_char b :: nat) = of_char a XOR of_char b"
    unfolding take_bit_xor by (simp add: take_bit_eq_mod)
  then have "of_char (xor_char a b) = (of_char a XOR of_char b :: nat)" by (simp add: xor_char_def take_bit_eq_mod)
  then show ?thesis by (simp add: xor_char_def [of "xor_char a b"] xor.assoc)
qed

lemma xor_encrypt_decrypt_twice [simp]: "xor_encrypt_decrypt (xor_encrypt_decrypt s k) k = s"
  unfolding xor_encrypt_decrypt_def by (rule nth_equalityI) simp_all

text \<open>What is assumed of the XML library and of the file system.\<close>

definition xml_sound :: "launch_env \<Rightarrow> bool" where
  "xml_sound env \<longleftrightarrow> (\<forall>d. entries_ok d \<longrightarrow> x_parse env (x_print env d) = Some (Some d) \<and> x_print env d \<noteq> '''' \<and> CHR 0x00 \<notin> set (x_print env d)) \<and>
     (\<forall>i. INT_MIN \<le> i \<and> i \<le> INT_MAX \<longrightarrow> x_int env (show_int i) = Some i) \<and> (\<forall>old new. written env old new = Some new)"

lemma c_str_id: "CHR 0x00 \<notin> set s \<Longrightarrow> c_str s = s"
  by (auto simp: c_str_def takeWhile_eq_all_conv)

lemma load_written:
  assumes "xml_sound env" "entries_ok d"
  shows "load_dl env (write_dl env (x_print env d) st) = Some d"
proof -
  have p: "x_print env d \<noteq> ''''" "CHR 0x00 \<notin> set (x_print env d)" "x_parse env (x_print env d) = Some (Some d)"
    using assms by (auto simp: xml_sound_def)
  have "xor_encrypt_decrypt (x_print env d) DL_KEY \<noteq> ''''" using p(1) by (simp add: xor_encrypt_decrypt_def)
  then show ?thesis using p assms by (simp add: load_dl_def write_dl_def xml_sound_def c_str_id)
qed

text \<open>The table in memory is the table on disk.\<close>

definition on_disk :: "launch_env \<Rightarrow> launch \<Rightarrow> bool" where
  "on_disk env st \<longleftrightarrow> (\<exists>d. load_dl env st = Some d \<and> dl.agree (gSmartLaunchPackageInfo st) d)"

lemma load_dl_cong [simp]:
  "load_dl env (st\<lparr>gSmartLaunchPackageInfo := m\<rparr>) = load_dl env st" "load_dl env (st\<lparr>l_perf := p\<rparr>) = load_dl env st"
  "load_dl env (st\<lparr>devfd := k\<rparr>) = load_dl env st" "load_dl env (st\<lparr>gIsOverPressureThreshold := b\<rparr>) = load_dl env st"
  by (simp_all add: load_dl_def)

lemma on_disk_written:
  assumes "xml_sound env" "dl.agree m d"
  shows "on_disk env (write_dl env (x_print env d) (st\<lparr>gSmartLaunchPackageInfo := m\<rparr>))"
  using load_written [OF assms(1)] assms(2) by (auto simp: on_disk_def dl.agree_def) (simp add: write_dl_def)

lemma modify_on_disk:
  assumes "xml_sound env" "on_disk env st" "gSmartLaunchPackageInfo st n \<noteq> None"
  shows "on_disk env (modifyNextFreqAndSaveToDisk env n i st)"
proof -
  obtain d where d: "load_dl env st = Some d" "dl.agree (gSmartLaunchPackageInfo st) d" using assms(2) by (auto simp: on_disk_def)
  then have "modifyNextFreqAndSaveToDisk env n i st =
      write_dl env (x_print env (dl_modify n (show_int i) d)) (st\<lparr>gSmartLaunchPackageInfo := (gSmartLaunchPackageInfo st)(n \<mapsto> i)\<rparr>)"
    by (simp add: modifyNextFreqAndSaveToDisk_def modifyElement2DlTable_def dl_modify_def)
  then show ?thesis using on_disk_written [OF assms(1) dl.agree_upd [OF d(2) assms(3)]] by simp
qed

lemma delete_on_disk:
  assumes "xml_sound env" "on_disk env st"
  shows "on_disk env (deletePackageAndUpdateToDisk env n st)"
proof -
  obtain d where d: "load_dl env st = Some d" "dl.agree (gSmartLaunchPackageInfo st) d" using assms(2) by (auto simp: on_disk_def)
  then have "deletePackageAndUpdateToDisk env n st =
      write_dl env (x_print env (dl_delete n d)) (st\<lparr>gSmartLaunchPackageInfo := (gSmartLaunchPackageInfo st)(n := None)\<rparr>)"
    by (simp add: deletePackageAndUpdateToDisk_def deleteElement2DlTable_def dl_delete_def)
  then show ?thesis using on_disk_written [OF assms(1) dl.agree_del [OF d(2)]] by simp
qed

text \<open>There is room for one more package.\<close>

definition file_room :: "launch_env \<Rightarrow> string \<Rightarrow> launch \<Rightarrow> bool" where
  "file_room env n st \<longleftrightarrow> (\<forall>d i. load_dl env st = Some d \<and> gBigClusterDefaultOPP st < i \<and> i \<le> gBigClusterOPPMinLevel st \<longrightarrow>
     length (x_print env (d @ [package n (show_int i)])) < DL_PWR_SIZE_LIMIT)"

lemma insert_on_disk:
  assumes "xml_sound env" "on_disk env st" "gSmartLaunchPackageInfo st n = None" "file_room env n st" "plain n"
    "gBigClusterDefaultOPP st < i" "i \<le> gBigClusterOPPMinLevel st"
  shows "on_disk env (insertNewFreqAndInsertToDisk env n i st)"
proof -
  obtain d where d: "load_dl env st = Some d" "dl.agree (gSmartLaunchPackageInfo st) d" using assms(2) by (auto simp: on_disk_def)
  then have "insertNewFreqAndInsertToDisk env n i st =
      write_dl env (x_print env (dl_insert n (show_int i) d)) (st\<lparr>gSmartLaunchPackageInfo := (gSmartLaunchPackageInfo st)(n \<mapsto> i)\<rparr>)"
    using assms(4,6,7) by (auto simp: insertNewFreqAndInsertToDisk_def insertNewElement2DlTable_def dl_insert_def file_room_def package_def)
  then show ?thesis using on_disk_written [OF assms(1) dl.agree_ins [OF d(2) assms(3,5)]] by simp
qed

lemma read_entries:
  assumes "entries_ok es"
  shows "read_packages rd es m n = (case entries es n of None \<Rightarrow> m n | Some v \<Rightarrow> (case rd v of Some i \<Rightarrow> Some i | None \<Rightarrow> m n))"
  using assms
proof (induction es arbitrary: m)
  case (Cons e es)
  then obtain k v where e: "e = package k v" by auto
  then show ?case using Cons entries_None [of es k] by (auto split: option.split)
qed simp

lemma on_disk_reload:
  assumes "xml_sound env" "on_disk env st" "\<forall>n i. gSmartLaunchPackageInfo st n = Some i \<longrightarrow> INT_MIN \<le> i \<and> i \<le> INT_MAX"
  shows "gSmartLaunchPackageInfo (snd (parsePackInfo env (st\<lparr>gSmartLaunchPackageInfo := Map.empty\<rparr>))) = gSmartLaunchPackageInfo st"
proof -
  obtain d where d: "load_dl env st = Some d" "entries_ok d"
    "entries d = (\<lambda>n. map_option show_int (gSmartLaunchPackageInfo st n))"
    using assms(2) by (auto simp: on_disk_def dl.agree_def)
  have "x_int env (show_int i) = Some i" if "gSmartLaunchPackageInfo st n = Some i" for n i
    using assms(1,3) that by (auto simp: xml_sound_def)
  then show ?thesis using d by (auto simp: parsePackInfo_def from_entries read_entries fun_eq_iff split: option.split)
qed

section \<open>The policy\<close>

text \<open>What the notifications do not change once the policy is stored.\<close>

definition policy :: "launch \<Rightarrow> bool \<times> bool \<times> int \<times> int \<times> int \<times> int \<times> int \<times> bool \<times> cpu" where
  "policy st = (gLaunchPolicyInitFlag st, gSmartLaunchEnable st, gClusterNumMax st, gBigClusterDefaultFreq st, gBigClusterDefaultOPP st,
     gBigClusterOPPMinLevel st, gAnimationTimeTarget st, gDefaultBigClusterFreqSupported st, l_cpu st)"

lemma write_keeps [simp]:
  "policy (write_dl env s st) = policy st" "gSmartLaunchPackageInfo (write_dl env s st) = gSmartLaunchPackageInfo st"
  "policy (st\<lparr>gSmartLaunchPackageInfo := m\<rparr>) = policy st" "policy (st\<lparr>devfd := k\<rparr>) = policy st"
  "policy (st\<lparr>gIsOverPressureThreshold := b\<rparr>) = policy st" "policy (st\<lparr>l_perf := p\<rparr>) = policy st"
  "gIsOverPressureThreshold (write_dl env s st) = gIsOverPressureThreshold st"
  by (simp_all add: write_dl_def policy_def)

lemma save_keeps [simp]:
  "policy (modifyNextFreqAndSaveToDisk env n i st) = policy st" "policy (insertNewFreqAndInsertToDisk env n i st) = policy st"
  "policy (deletePackageAndUpdateToDisk env n st) = policy st"
  "gSmartLaunchPackageInfo (modifyNextFreqAndSaveToDisk env n i st) = (gSmartLaunchPackageInfo st)(n \<mapsto> i)"
  "gSmartLaunchPackageInfo (insertNewFreqAndInsertToDisk env n i st) = (gSmartLaunchPackageInfo st)(n \<mapsto> i)"
  "gSmartLaunchPackageInfo (deletePackageAndUpdateToDisk env n st) = (gSmartLaunchPackageInfo st)(n := None)"
  by (simp_all add: modifyNextFreqAndSaveToDisk_def insertNewFreqAndInsertToDisk_def deletePackageAndUpdateToDisk_def
      modifyElement2DlTable_def insertNewElement2DlTable_def deleteElement2DlTable_def Let_def split: option.split)

lemma policyD:
  assumes "policy st' = policy st"
  shows "gLaunchPolicyInitFlag st' = gLaunchPolicyInitFlag st" "gSmartLaunchEnable st' = gSmartLaunchEnable st"
    "gClusterNumMax st' = gClusterNumMax st" "gBigClusterDefaultFreq st' = gBigClusterDefaultFreq st"
    "gBigClusterDefaultOPP st' = gBigClusterDefaultOPP st" "gBigClusterOPPMinLevel st' = gBigClusterOPPMinLevel st"
    "gAnimationTimeTarget st' = gAnimationTimeTarget st" "gDefaultBigClusterFreqSupported st' = gDefaultBigClusterFreqSupported st"
    "l_cpu st' = l_cpu st"
  using assms by (simp_all add: policy_def)

lemmas save_fields [simp] = save_keeps(1-3) [THEN policyD(5)] save_keeps(1-3) [THEN policyD(6)]

text \<open>Every learned point is beyond the default and within the lowest level.\<close>

definition launch_ok :: "launch \<Rightarrow> bool" where
  "launch_ok st \<longleftrightarrow> (\<forall>n i. gSmartLaunchPackageInfo st n = Some i \<longrightarrow> gBigClusterDefaultOPP st < i \<and> i \<le> gBigClusterOPPMinLevel st)"

lemma coreAlgorith_bounds:
  assumes "coreAlgorith env t a pre r st = (i, st')"
  shows "i = pre \<or> i \<le> gBigClusterOPPMinLevel st" "st' = snd (check_perf_ioctl_valid env st)" "\<exists>k. st' = st\<lparr>devfd := k\<rparr>"
proof -
  show "st' = snd (check_perf_ioctl_valid env st)" using assms by (auto simp: coreAlgorith_def Let_def split: prod.splits)
  then show d: "\<exists>k. st' = st\<lparr>devfd := k\<rparr>" by (auto simp: check_perf_ioctl_valid_def intro: exI [of _ "devfd st"])
  then show "i = pre \<or> i \<le> gBigClusterOPPMinLevel st"
    using assms by (auto simp: coreAlgorith_def clampFreqOpp_def Let_def split: prod.splits if_splits)
qed

text \<open>The possible effects of a measured start; \<open>st0\<close> is the state with the device opened.\<close>

lemma calc_cases:
  assumes "launch_ok st"
  obtains k where "calcNextLaunchPower env n t st = st\<lparr>devfd := k\<rparr>"
  | k where "calcNextLaunchPower env n t st = deletePackageAndUpdateToDisk env n (st\<lparr>devfd := k\<rparr>)"
  | k pre i where "calcNextLaunchPower env n t st = modifyNextFreqAndSaveToDisk env n i (st\<lparr>devfd := k\<rparr>)" "gSmartLaunchPackageInfo st n = Some pre"
      "gBigClusterDefaultOPP st < i" "i \<le> gBigClusterOPPMinLevel st" "i \<le> pre + 6"
  | k i where "calcNextLaunchPower env n t st = insertNewFreqAndInsertToDisk env n i (st\<lparr>devfd := k\<rparr>)" "gSmartLaunchPackageInfo st n = None"
      "gBigClusterDefaultOPP st < i" "i \<le> gBigClusterOPPMinLevel st" "i \<le> gBigClusterDefaultOPP st + 6"
proof (cases "gAnimationTimeTarget st = 0 \<or> gIsOverPressureThreshold st \<or> \<not> checkIfNeedAdjust t st")
  case True
  then have "calcNextLaunchPower env n t st = st\<lparr>devfd := devfd st\<rparr>" by (auto simp: calcNextLaunchPower_def)
  then show ?thesis using that(1) by blast
next
  case False
  show ?thesis
  proof (cases "gSmartLaunchPackageInfo st n")
    case None
    obtain i st' where c: "coreAlgorith env t (gAnimationTimeTarget st) (gBigClusterDefaultOPP st) (gBigClusterCapabilityRation st) st = (i, st')" by fastforce
    obtain k where k: "st' = st\<lparr>devfd := k\<rparr>" using coreAlgorith_bounds(3) [OF c] by blast
    have "calcNextLaunchPower env n t st = (if i > gBigClusterDefaultOPP st then insertNewFreqAndInsertToDisk env n (span_limit (gBigClusterDefaultOPP st) i) st' else st')"
      using False None c k by (simp add: calcNextLaunchPower_def adjust_new_def)
    moreover have "span_limit (gBigClusterDefaultOPP st) i \<le> gBigClusterOPPMinLevel st" "gBigClusterDefaultOPP st < span_limit (gBigClusterDefaultOPP st) i"
      if "i > gBigClusterDefaultOPP st" using that coreAlgorith_bounds(1) [OF c] by (auto simp: span_limit_def)
    moreover have "span_limit (gBigClusterDefaultOPP st) i \<le> gBigClusterDefaultOPP st + 6" by (simp add: span_limit_def)
    ultimately show ?thesis using None k that(1) [of k] that(4) [of "span_limit (gBigClusterDefaultOPP st) i" k] by argo
  next
    case (Some pre)
    obtain i st' where c: "coreAlgorith env t (gAnimationTimeTarget st) pre (gBigClusterCapabilityRation st) st = (i, st')" by fastforce
    obtain k where k: "st' = st\<lparr>devfd := k\<rparr>" using coreAlgorith_bounds(3) [OF c] by blast
    have pre: "gBigClusterDefaultOPP st < pre" "pre \<le> gBigClusterOPPMinLevel st" using assms Some by (auto simp: launch_ok_def)
    then have b: "i \<le> gBigClusterOPPMinLevel st" using coreAlgorith_bounds(1) [OF c] by auto
    have "calcNextLaunchPower env n t st = (if i \<le> gBigClusterDefaultOPP st then deletePackageAndUpdateToDisk env n st'
        else if span_limit pre i \<noteq> pre then modifyNextFreqAndSaveToDisk env n (span_limit pre i) st' else st')"
      using False Some c k by (simp add: calcNextLaunchPower_def adjust_known_def Let_def)
    moreover have "gBigClusterDefaultOPP st < span_limit pre i" if "\<not> i \<le> gBigClusterDefaultOPP st" using that pre by (simp add: span_limit_def)
    moreover have "span_limit pre i \<le> gBigClusterOPPMinLevel st" "span_limit pre i \<le> pre + 6" using b by (simp_all add: span_limit_def)
    ultimately show ?thesis using Some k that(1) [of k] that(2) [of k] that(3) [of "span_limit pre i" k pre] by argo
  qed
qed

section \<open>Notifications\<close>

lemma edit_hints_eq: "edit_hints f st = Some st' \<Longrightarrow> \<exists>tbl. st' = st\<lparr>l_perf := (l_perf st)\<lparr>PowerScnTbl := tbl\<rparr>\<rparr>"
  by (auto simp: edit_hints_def)

lemma reset_eq: "resetLaunchPolicyToDefault st = Some st' \<Longrightarrow> \<exists>p. st' = st\<lparr>l_perf := p\<rparr>"
  by (auto simp: resetLaunchPolicyToDefault_def dest!: edit_hints_eq split: if_splits)

lemma pick_eq: "pickCurrentFreq env n st = (f, st') \<Longrightarrow> \<exists>b. st' = st\<lparr>gIsOverPressureThreshold := b\<rparr>"
  by (cases "gSmartLaunchPackageInfo st n")
    (auto simp: pickCurrentFreq_def isSystemOverPressureThreshold_def Let_def split: if_splits intro: exI [of _ "gIsOverPressureThreshold st"])

lemma handle_eq:
  assumes "handleCurrentLaunchPolicy env n st = Some st'"
  shows "\<exists>b p. st' = st\<lparr>gIsOverPressureThreshold := b, l_perf := p\<rparr>"
proof -
  obtain f st1 where f: "pickCurrentFreq env n st = (f, st1)" by fastforce
  then obtain b where "st1 = st\<lparr>gIsOverPressureThreshold := b\<rparr>" using pick_eq by blast
  then show ?thesis using assms f by (auto simp: handleCurrentLaunchPolicy_def dest!: edit_hints_eq split: if_splits)
qed

text \<open>Any sequence of notifications, each in its own environment.\<close>

inductive launch_reach :: "launch \<Rightarrow> launch \<Rightarrow> bool" where
  launch_start: "launch_reach st st"
| launch_notify: "launch_reach st0 st \<Longrightarrow> notifySmartLaunchEngine env s st = Some st' \<Longrightarrow> launch_reach st0 st'"

lemma switch_elim:
  assumes "notify_switch env (n, c, t, l) st = Some st'"
  obtains "st' = st" | "handleCurrentLaunchPolicy env n st = Some st'" | "resetLaunchPolicyToDefault st = Some st'"
    | "resetLaunchPolicyToDefault (calcNextLaunchPower env n t st) = Some st'" | "st' = handlePackageUninstall env n st"
  using assms unfolding notify_switch_def prod.case by (cases "c = 0"; cases "c = 1"; cases "c = 2"; cases "t = 1"; cases "l = 1"; simp)

lemma notify_elim:
  assumes "notifySmartLaunchEngine env s st = Some st'" "gLaunchPolicyInitFlag st"
  obtains "st' = st" | x n c t l where "s = Some x" "parsePackageinfo x = (n, c, t, l)" "notify_switch env (n, c, t, l) st = Some st'"
proof (cases s)
  case None
  then show ?thesis using assms that(1) by (simp add: notifySmartLaunchEngine_def)
next
  case (Some x)
  obtain n c t l where p: "parsePackageinfo x = (n, c, t, l)" by (rule prod_cases4)
  have "st' = st \<or> notify_switch env (n, c, t, l) st = Some st'"
    using assms Some p by (simp add: notifySmartLaunchEngine_def split: if_splits)
  then show ?thesis using that(1) that(2) [OF Some p] by blast
qed

text \<open>What one notification does to the table; all other parts of the policy stay.\<close>

lemma notify_cases:
  assumes "notifySmartLaunchEngine env s st = Some st'" "gLaunchPolicyInitFlag st" "launch_ok st"
  shows "policy st' = policy st"
    and "launch_ok st'"
    and "\<forall>n. gSmartLaunchPackageInfo st n = None \<and> gIsOverPressureThreshold st \<longrightarrow> gSmartLaunchPackageInfo st' n = None"
proof -
  define calc where "calc = (\<lambda>n t. calcNextLaunchPower env n t st)"
  have cn: "policy (calc n t) = policy st \<and> launch_ok (calc n t)" for n t
    unfolding calc_def by (rule calc_cases [OF assms(3), of env n t]) (use assms(3) in \<open>auto simp: launch_ok_def\<close>)
  consider "st' = st" | n where "handleCurrentLaunchPolicy env n st = Some st'" | "resetLaunchPolicyToDefault st = Some st'"
    | n t where "resetLaunchPolicyToDefault (calc n t) = Some st'" | n where "st' = handlePackageUninstall env n st"
    unfolding calc_def by (rule notify_elim [OF assms(1,2)]) (blast, elim switch_elim, blast+)
  then have "policy st' = policy st \<and> launch_ok st' \<and>
    (\<forall>n. gSmartLaunchPackageInfo st n = None \<and> gIsOverPressureThreshold st \<longrightarrow> gSmartLaunchPackageInfo st' n = None)"
  proof cases
    case (2 n)
    then show ?thesis using handle_eq [OF 2] assms(3) by (auto simp: launch_ok_def)
  next
    case 3
    then show ?thesis using reset_eq [OF 3] assms(3) by (auto simp: launch_ok_def)
  next
    case (4 n t)
    then show ?thesis using reset_eq [OF 4] cn [of n t] by (auto simp: launch_ok_def calc_def calcNextLaunchPower_def)
  next
    case (5 n)
    then show ?thesis using assms(3) by (auto simp: handlePackageUninstall_def launch_ok_def)
  qed (use assms(3) in simp)
  then show "policy st' = policy st" "launch_ok st'"
    "\<forall>n. gSmartLaunchPackageInfo st n = None \<and> gIsOverPressureThreshold st \<longrightarrow> gSmartLaunchPackageInfo st' n = None" by blast+
qed

lemma launch_reach_keeps:
  "launch_reach st0 st \<Longrightarrow> gLaunchPolicyInitFlag st0 \<Longrightarrow> launch_ok st0 \<Longrightarrow> policy st = policy st0 \<and> launch_ok st"
proof (induction rule: launch_reach.induct)
  case (launch_notify st0 st env s st')
  then have k: "policy st = policy st0" "launch_ok st" by simp_all
  have "gLaunchPolicyInitFlag st" using policyD(1) [OF k(1)] launch_notify.prems(1) by simp
  then show ?case using notify_cases(1,2) [OF launch_notify.hyps(2) _ k(2)] k(1) by simp
qed simp

section \<open>Bounds\<close>

lemma opp_range:
  assumes "opp_table_ok st cid" "pFreqTbl (ptClusterTbl st ! nat cid) \<noteq> []"
  shows "0 \<le> getCPUFreqToOpp st cid f" "getCPUFreqToOpp st cid f < freqCount (ptClusterTbl st ! nat cid)"
proof -
  let ?c = "ptClusterTbl st ! nat cid"
  have n: "freqCount ?c = int (length (pFreqTbl ?c))" "0 \<le> cid" "cid < nClusterNum st" using assms(1) by (auto simp: opp_table_ok_def Let_def)
  have fold: "0 \<le> fold (\<lambda>idx o1. if P idx then int idx else o1) xs a \<and> fold (\<lambda>idx o1. if P idx then int idx else o1) xs a < k"
    if "\<forall>x \<in> set xs. int x < k" "0 \<le> a" "a < k" for P xs a k
    using that by (induction xs arbitrary: a) auto
  define o1 where "o1 = fold (\<lambda>idx o1. if take (nat (freqCount ?c)) (pFreqTbl ?c) ! idx = findClosestNumber (take (nat (freqCount ?c)) (pFreqTbl ?c)) f
      then int idx else o1) [0..<nat (freqCount ?c)] 0"
  have "0 \<le> o1" "o1 < freqCount ?c" unfolding o1_def using fold [of "[0..<nat (freqCount ?c)]" "freqCount ?c" 0] n(1) assms(2) by auto
  moreover have "getCPUFreqToOpp st cid f = (if o1 \<noteq> 0 then freqCount ?c - 1 - o1 else 0)"
    using n(2,3) by (simp add: getCPUFreqToOpp_def Let_def o1_def)
  ultimately show "0 \<le> getCPUFreqToOpp st cid f" "getCPUFreqToOpp st cid f < freqCount ?c" by auto
qed

lemma freq_decreasing:
  assumes "opp_table_ok st cid" "0 \<le> a" "a < b" "b < freqCount (ptClusterTbl st ! nat cid)"
  shows "getCPUFreq st cid b < getCPUFreq st cid a"
proof -
  let ?c = "ptClusterTbl st ! nat cid"
  have n: "freqCount ?c = int (length (pFreqTbl ?c))" "0 \<le> cid" "cid < nClusterNum st" "sorted_wrt (<) (pFreqTbl ?c)"
    using assms(1) by (auto simp: opp_table_ok_def Let_def)
  then have "pFreqTbl ?c ! nat (freqCount ?c - 1 - b) < pFreqTbl ?c ! nat (freqCount ?c - 1 - a)"
    using assms(2-4) by (intro sorted_wrt_nth_less [OF n(4)]) auto
  then show ?thesis using n assms by (simp add: getCPUFreq_def Let_def)
qed

lemma freq_decreasing_le:
  assumes "opp_table_ok st cid" "0 \<le> a" "a \<le> b" "b < freqCount (ptClusterTbl st ! nat cid)"
  shows "getCPUFreq st cid b \<le> getCPUFreq st cid a"
  using freq_decreasing [OF assms(1,2) _ assms(4)] assms(3) by (cases "a = b") auto

text \<open>A stored policy fits the frequency table of the big cluster.\<close>

definition policy_wf :: "launch \<Rightarrow> bool" where
  "policy_wf st \<longleftrightarrow> (let cid = gClusterNumMax st - 1 in opp_table_ok (l_cpu st) cid \<and> 0 \<le> gBigClusterDefaultOPP st \<and>
     gBigClusterOPPMinLevel st < freqCount (ptClusterTbl (l_cpu st) ! nat cid) \<and>
     gBigClusterDefaultFreq st = getCPUFreq (l_cpu st) cid (gBigClusterDefaultOPP st))"

lemma store_policy:
  assumes "storeDefaultLaunchBoostPolicy st0 = Some st" "gSmartLaunchEnable st" "gBigClusterDefaultOPP st0 = 0"
    "opp_table_ok (l_cpu st0) (nClusterNum (l_cpu st0) - 1)" "pFreqTbl (ptClusterTbl (l_cpu st0) ! nat (nClusterNum (l_cpu st0) - 1)) \<noteq> []"
  shows "policy_wf st" "gLaunchPolicyInitFlag st" "l_cpu st = l_cpu st0" "gClusterNumMax st = nClusterNum (l_cpu st0)"
proof -
  have n: "nClusterNum (l_cpu st0) \<noteq> 0" using assms(4) by (auto simp: opp_table_ok_def)
  note r = opp_range [OF assms(4,5)]
  obtain st1 where s: "getDefaultScnHintRsc 21 (initSystemPressureStats st0) = (0, st1)" "l_cpu st1 = l_cpu st0" "gBigClusterDefaultOPP st1 = 0"
    using assms(1-3) by (auto simp: storeDefaultLaunchBoostPolicy_def getDefaultScnHintRsc_def initSystemPressureStats_def Let_def
        split: if_splits option.splits)
  show "policy_wf st" "gLaunchPolicyInitFlag st" "l_cpu st = l_cpu st0" "gClusterNumMax st = nClusterNum (l_cpu st0)"
    using assms(1) s n r assms(4)
    by (auto simp: storeDefaultLaunchBoostPolicy_def default_freq_def getClusterNum_def policy_wf_def Let_def split: if_splits)
qed


section \<open>The table survives a restart\<close>

lemma on_disk_cong [simp]:
  "on_disk env (st\<lparr>devfd := k\<rparr>) = on_disk env st" "on_disk env (st\<lparr>l_perf := p\<rparr>) = on_disk env st"
  "on_disk env (st\<lparr>gIsOverPressureThreshold := b\<rparr>) = on_disk env st"
  by (simp_all add: on_disk_def load_dl_def)

lemma calc_on_disk:
  assumes "xml_sound env" "on_disk env st" "launch_ok st" "file_room env n st" "plain n"
  shows "on_disk env (calcNextLaunchPower env n t st)"
proof -
  have room: "file_room env n (st\<lparr>devfd := k\<rparr>)" for k using assms(4) by (simp add: file_room_def)
  show ?thesis
    by (rule calc_cases [OF assms(3), of env n t])
      (use assms(1,2) room modify_on_disk delete_on_disk insert_on_disk in \<open>simp_all add: assms\<close>)
qed


section \<open>Pressure that is never measured again\<close>

text \<open>
  C40. The pressure flag can stay set forever. Pressure is measured only when a known package
  starts, and a start is learned from only while the flag is clear. Once the flag is set and no package
  is known, no sequence of notifications ever clears it or learns anything.
\<close>

theorem pressure_latched:
  assumes "launch_reach st st'" "gLaunchPolicyInitFlag st" "gIsOverPressureThreshold st" "gSmartLaunchPackageInfo st = Map.empty"
  shows "gIsOverPressureThreshold st' \<and> gSmartLaunchPackageInfo st' = Map.empty"
proof -
  have "gLaunchPolicyInitFlag st' \<and> gIsOverPressureThreshold st' \<and> gSmartLaunchPackageInfo st' = Map.empty"
    using assms
  proof (induction rule: launch_reach.induct)
    case (launch_notify st0 st env s st')
    then have i: "gLaunchPolicyInitFlag st" "gIsOverPressureThreshold st" "gSmartLaunchPackageInfo st = Map.empty" by simp_all
    have same: "calcNextLaunchPower env n t st = st" "handlePackageUninstall env n st = st" "snd (pickCurrentFreq env n st) = st" for n t
      using i by (simp_all add: calcNextLaunchPower_def handlePackageUninstall_def pickCurrentFreq_def)
    have h: "\<exists>p. st' = st\<lparr>l_perf := p\<rparr>" if "handleCurrentLaunchPolicy env n st = Some st'" for n
      using that same(3) [of n] by (auto simp: handleCurrentLaunchPolicy_def Let_def dest!: edit_hints_eq split: prod.splits if_splits)
    have "st' = st \<or> (\<exists>p. st' = st\<lparr>l_perf := p\<rparr>)"
      by (rule notify_elim [OF launch_notify.hyps(2) i(1)]) (blast, elim switch_elim, use same h reset_eq in auto)
    then show ?case using i by auto
  qed simp
  then show ?thesis by simp
qed

section \<open>The resource list of the launch hint\<close>

definition first_at :: "int list \<Rightarrow> int \<Rightarrow> int \<Rightarrow> nat \<Rightarrow> bool" where
  "first_at l n cmd i \<longleftrightarrow> i < length l \<and> int i < n \<and> l ! i = cmd \<and> (\<forall>j < i. l ! j \<noteq> cmd)"

lemma scan_first:
  assumes "first_at l n cmd i" "k \<le> i"
  shows "rsc_scan l n cmd k = Some (Some i)"
  using assms(2)
proof (induction "i - k" arbitrary: k)
  case 0
  then show ?case using assms(1) by (subst rsc_scan.simps) (simp add: first_at_def arr_get_def)
next
  case (Suc d)
  then have "k < i" "rsc_scan l n cmd (Suc k) = Some (Some i)" by auto
  then show ?case using assms(1) by (subst rsc_scan.simps) (auto simp: first_at_def arr_get_def)
qed

text \<open>The hint has one entry, which is not the first of the table.\<close>

definition hint_at :: "tHintMap list \<Rightarrow> tHintMap list \<Rightarrow> tHintMap \<Rightarrow> tHintMap list \<Rightarrow> bool" where
  "hint_at tbl pre e post \<longleftrightarrow> tbl = pre @ e # post \<and> pre \<noteq> [] \<and> hintId e = MTKPOWER_HINT_PROCESS_CREATE \<and>
     (\<forall>x \<in> set (pre @ post). hintId x \<noteq> MTKPOWER_HINT_PROCESS_CREATE)"

lemma last_index_skip: "\<forall>x \<in> set xs. hintId x \<noteq> h \<Longrightarrow> last_hint_index (xs @ ys) h k acc = last_hint_index ys h (k + int (length xs)) acc"
  by (induction xs arbitrary: k) (auto simp: algebra_simps)

lemma hint_at_index:
  assumes "hint_at tbl pre e post"
  shows "last_hint_index tbl MTKPOWER_HINT_PROCESS_CREATE 0 (-1) = int (length pre)" "tbl ! length pre = e"
    "tbl[length pre := e'] = pre @ e' # post" "0 < int (length pre)"
  using assms last_index_skip [of pre MTKPOWER_HINT_PROCESS_CREATE "e # post" 0 "-1"] last_index_skip [of post MTKPOWER_HINT_PROCESS_CREATE "[]"]
  by (auto simp: hint_at_def)

lemma modify_at:
  assumes "hint_at tbl pre e post" "first_at (lock_rsc_list e) (lock_rsc_size e) cmd i" "Suc i < length (lock_rsc_list e)"
  shows "HintRscList_modify tbl MTKPOWER_HINT_PROCESS_CREATE cmd v = Some (pre @ e\<lparr>lock_rsc_list := (lock_rsc_list e)[Suc i := v]\<rparr> # post)"
  using hint_at_index [OF assms(1)] scan_first [OF assms(2), of 0] assms(3)
  by (simp add: HintRscList_modify_def arr_set_def nat_add_distrib)

lemma remove_at:
  assumes "hint_at tbl pre e post" "first_at (lock_rsc_list e) (lock_rsc_size e) cmd i" "Suc i < length (lock_rsc_list e)"
  shows "HintRscList_remove tbl MTKPOWER_HINT_PROCESS_CREATE cmd = Some (pre @ e\<lparr>lock_rsc_list := (lock_rsc_list e)[i := 0, Suc i := 0]\<rparr> # post)"
  using hint_at_index [OF assms(1)] scan_first [OF assms(2), of 0] assms(3)
  by (simp add: HintRscList_remove_def arr_set_def nat_add_distrib)

lemma append_skip:
  "\<forall>x \<in> set xs. hintId x \<noteq> h \<Longrightarrow> HintRscList_append (xs @ ys) h cmd v = map_option ((@) xs) (HintRscList_append ys h cmd v)"
  by (induction xs; cases "HintRscList_append ys h cmd v") simp_all

lemma append_at:
  assumes "hint_at tbl pre e post" "0 \<le> lock_rsc_size e"
  shows "HintRscList_append tbl MTKPOWER_HINT_PROCESS_CREATE cmd v =
    (if nat (lock_rsc_size e) + 1 < length (lock_rsc_list e)
     then Some (pre @ e\<lparr>lock_rsc_list := (lock_rsc_list e)[nat (lock_rsc_size e) := cmd, nat (lock_rsc_size e) + 1 := v], lock_rsc_size := lock_rsc_size e + 2\<rparr> # post)
     else None)"
proof -
  have "HintRscList_append tbl 21 cmd v = map_option ((@) pre) (HintRscList_append (e # post) 21 cmd v)"
    using assms(1) append_skip [of pre 21 "e # post" cmd v] by (simp add: hint_at_def)
  then show ?thesis using assms by (simp add: hint_at_def arr_set_def nat_add_distrib)
qed

lemma hint_at_replace: "hint_at tbl pre e post \<Longrightarrow> hintId e' = hintId e \<Longrightarrow> hint_at (pre @ e' # post) pre e' post"
  by (simp add: hint_at_def)


section \<open>A list that only grows\<close>

text \<open>A package with a learned point on a system whose configured list has no frequency limit.\<close>

definition learned :: "launch_env \<Rightarrow> string \<Rightarrow> launch \<Rightarrow> bool" where
  "learned env n st \<longleftrightarrow> gLaunchPolicyInitFlag st \<and> gSmartLaunchEnable st \<and> \<not> gDefaultBigClusterFreqSupported st \<and> gAnimationTimeTarget st \<noteq> 0 \<and>
     \<not> fst (isSystemOverPressureThreshold env st) \<and>
     (\<exists>opp. gSmartLaunchPackageInfo st n = Some opp \<and> getCPUFreq (l_cpu st) (gClusterNumMax st - 1) opp \<noteq> gBigClusterDefaultFreq st)"

definition list_wf :: "tHintMap \<Rightarrow> bool" where
  "list_wf e \<longleftrightarrow> length (lock_rsc_list e) = MAX_ARGS_PER_REQUEST \<and> 0 \<le> lock_rsc_size e \<and> even (lock_rsc_size e) \<and>
     lock_rsc_size e \<le> int MAX_ARGS_PER_REQUEST \<and> PERF_RES_CPUFREQ_MAX_CLUSTER_2 \<notin> set (take (nat (lock_rsc_size e)) (lock_rsc_list e))"

fun launches :: "launch_env \<Rightarrow> string \<Rightarrow> string \<Rightarrow> nat \<Rightarrow> launch \<Rightarrow> launch option" where
  "launches env s s' 0 st = Some st"
| "launches env s s' (Suc k) st =
     Option.bind (Option.bind (notifySmartLaunchEngine env (Some s) st) (notifySmartLaunchEngine env (Some s'))) (launches env s s' k)"

lemma learned_keeps [simp]: "learned env n (st\<lparr>gIsOverPressureThreshold := b, l_perf := p\<rparr>) = learned env n st"
  by (simp add: learned_def isSystemOverPressureThreshold_def Let_def split: option.split)

lemma learned_start:
  assumes "learned env n st" "parsePackageinfo s = (n, 0, 1, l)"
  shows "\<exists>f. notifySmartLaunchEngine env (Some s) st =
    edit_hints (\<lambda>tbl. HintRscList_append tbl MTKPOWER_HINT_PROCESS_CREATE PERF_RES_CPUFREQ_MAX_CLUSTER_2 f) (st\<lparr>gIsOverPressureThreshold := False\<rparr>)"
  using assms by (auto simp: learned_def notifySmartLaunchEngine_def notify_switch_def handleCurrentLaunchPolicy_def pickCurrentFreq_def
      isSystemOverPressureThreshold_def Let_def)

lemma launch_round:
  assumes "learned env n st" "parsePackageinfo s = (n, 0, 1, l)" "parsePackageinfo s' = (n', 0, d, l')" "d \<noteq> 1"
    "hint_at (PowerScnTbl (l_perf st)) pre e post" "list_wf e"
  shows "if lock_rsc_size e < int MAX_ARGS_PER_REQUEST
    then (\<exists>st1 st2 e'. notifySmartLaunchEngine env (Some s) st = Some st1 \<and> notifySmartLaunchEngine env (Some s') st1 = Some st2 \<and>
      learned env n st2 \<and> hint_at (PowerScnTbl (l_perf st2)) pre e' post \<and> list_wf e' \<and> lock_rsc_size e' = lock_rsc_size e + 2)
    else notifySmartLaunchEngine env (Some s) st = None"
proof -
  note e = assms(6) [unfolded list_wf_def]
  let ?k = "nat (lock_rsc_size e)"
  obtain f where f: "notifySmartLaunchEngine env (Some s) st =
      edit_hints (\<lambda>tbl. HintRscList_append tbl 21 PERF_RES_CPUFREQ_MAX_CLUSTER_2 f) (st\<lparr>gIsOverPressureThreshold := False\<rparr>)"
    using learned_start [OF assms(1,2)] by blast
  note app = append_at [OF assms(5), of PERF_RES_CPUFREQ_MAX_CLUSTER_2 f]
  show ?thesis
  proof (cases "lock_rsc_size e < int MAX_ARGS_PER_REQUEST")
    case False
    then show ?thesis using f app e by (simp add: edit_hints_def)
  next
    case True
    then have k: "Suc ?k < length (lock_rsc_list e)" "nat (lock_rsc_size e + 2) = Suc (Suc ?k)" "int ?k = lock_rsc_size e" using e by (auto elim!: evenE)
    let ?e1 = "e\<lparr>lock_rsc_list := (lock_rsc_list e)[?k := PERF_RES_CPUFREQ_MAX_CLUSTER_2, Suc ?k := f], lock_rsc_size := lock_rsc_size e + 2\<rparr>"
    let ?e2 = "e\<lparr>lock_rsc_list := (lock_rsc_list e)[?k := 0, Suc ?k := 0], lock_rsc_size := lock_rsc_size e + 2\<rparr>"
    let ?st1 = "st\<lparr>gIsOverPressureThreshold := False, l_perf := (l_perf st)\<lparr>PowerScnTbl := pre @ ?e1 # post\<rparr>\<rparr>"
    let ?st2 = "st\<lparr>gIsOverPressureThreshold := False, l_perf := (l_perf st)\<lparr>PowerScnTbl := pre @ ?e2 # post\<rparr>\<rparr>"
    have 1: "notifySmartLaunchEngine env (Some s) st = Some ?st1" using f app e k by (simp add: edit_hints_def)
    have h: "hint_at (pre @ ?e1 # post) pre ?e1 post" "hint_at (pre @ ?e2 # post) pre ?e2 post"
      using hint_at_replace [OF assms(5)] by simp_all
    have "\<forall>j < ?k. lock_rsc_list e ! j \<noteq> PERF_RES_CPUFREQ_MAX_CLUSTER_2" using e k by (auto simp: in_set_conv_nth)
    then have "first_at (lock_rsc_list ?e1) (lock_rsc_size ?e1) PERF_RES_CPUFREQ_MAX_CLUSTER_2 ?k" using k by (auto simp: first_at_def)
    from remove_at [OF h(1) this] have "HintRscList_remove (pre @ ?e1 # post) 21 PERF_RES_CPUFREQ_MAX_CLUSTER_2 = Some (pre @ ?e2 # post)"
      using k(1) by (simp add: list_update_swap [of ?k "Suc ?k"])
    then have 2: "notifySmartLaunchEngine env (Some s') ?st1 = Some ?st2"
      using assms(1,3,4) by (simp add: learned_def notifySmartLaunchEngine_def notify_switch_def resetLaunchPolicyToDefault_def edit_hints_def)
    have "take (Suc (Suc ?k)) ((lock_rsc_list e)[?k := 0, Suc ?k := 0]) = take ?k (lock_rsc_list e) @ [0, 0]"
      using k(1) by (simp add: take_Suc_conv_app_nth)
    then have "list_wf ?e2" using e k True by (auto simp: list_wf_def elim!: evenE)
    moreover have "learned env n ?st2" using assms(1) by (subst learned_keeps)
    ultimately show ?thesis unfolding if_P [OF True] using 1 2 h(2) by (intro exI [of _ ?st1] exI [of _ ?st2] exI [of _ ?e2]) simp
  qed
qed

text \<open>
  C39. Launches wear the list out. Where the configured list has no frequency limit, the start of a
  package with a learned point appends the limit, and the end only overwrites it with zeros, so
  the list grows by two with every launch. When it is full, the next start writes past the end
  of the array.
\<close>

theorem launch_list_overflow:
  assumes "learned env n st" "parsePackageinfo s = (n, 0, 1, l)" "parsePackageinfo s' = (n', 0, d, l')" "d \<noteq> 1"
    and "hint_at (PowerScnTbl (l_perf st)) pre e post" "list_wf e"
  shows "\<exists>st'. launches env s s' (nat ((int MAX_ARGS_PER_REQUEST - lock_rsc_size e) div 2)) st = Some st' \<and>
    getHintRscSize (PowerScnTbl (l_perf st')) MTKPOWER_HINT_PROCESS_CREATE = int MAX_ARGS_PER_REQUEST \<and>
    notifySmartLaunchEngine env (Some s) st' = None"
  using assms(1,5,6)
proof (induction "nat ((int MAX_ARGS_PER_REQUEST - lock_rsc_size e) div 2)" arbitrary: st e)
  case 0
  then have "lock_rsc_size e = int MAX_ARGS_PER_REQUEST" by (auto simp: list_wf_def elim!: evenE)
  moreover have "hint_find (pre @ e # post) 21 = Some e" if "\<forall>x \<in> set pre. hintId x \<noteq> 21" "hintId e = 21"
    using that by (induction pre) auto
  ultimately show ?case using launch_round [OF 0(2) assms(2-4) 0(3,4)] 0 by (auto simp: hint_at_def getHintRscSize_def)
next
  case (Suc k)
  then have "lock_rsc_size e < int MAX_ARGS_PER_REQUEST" by (auto simp: list_wf_def elim!: evenE)
  then obtain st1 st2 e' where r: "notifySmartLaunchEngine env (Some s) st = Some st1" "notifySmartLaunchEngine env (Some s') st1 = Some st2"
    "learned env n st2" "hint_at (PowerScnTbl (l_perf st2)) pre e' post" "list_wf e'" "lock_rsc_size e' = lock_rsc_size e + 2"
    using launch_round [OF Suc(3) assms(2-4) Suc(4,5)] by (auto split: if_splits)
  have "k = nat ((int MAX_ARGS_PER_REQUEST - lock_rsc_size e') div 2)" using Suc(2) r(6) by linarith
  from Suc(1) [OF this r(3-5)] Suc(2) [symmetric] r(1,2) this show ?case by auto
qed

section \<open>The message\<close>

lemma starts_with_segment:
  assumes "c \<notin> set q" "c \<notin> set u"
  shows "take (Suc (length q)) (u @ c # r) = q @ [c] \<longleftrightarrow> u = q"
proof
  assume h: "take (Suc (length q)) (u @ c # r) = q @ [c]"
  have "u @ c # r = take (Suc (length q)) (u @ c # r) @ drop (Suc (length q)) (u @ c # r)" by (rule append_take_drop_id [symmetric])
  also have "\<dots> = q @ c # drop (Suc (length q)) (u @ c # r)" unfolding h by simp
  finally have "takeWhile (\<lambda>x. x \<noteq> c) (u @ c # r) = takeWhile (\<lambda>x. x \<noteq> c) (q @ c # drop (Suc (length q)) (u @ c # r))" by (rule arg_cong)
  moreover have "takeWhile (\<lambda>x. x \<noteq> c) (w @ c # z) = w" if "c \<notin> set w" for w z using that by (induction w) auto
  ultimately show "u = q" using assms by simp
qed simp

text \<open>In a text of segments that end with \<open>c\<close>, the first occurrence of \<open>q c\<close> ends the first segment with the suffix \<open>q\<close>.\<close>

lemma strstr_segment:
  assumes "c \<notin> set q" "c \<notin> set u"
  shows "strstr_after (q @ [c]) (u @ c # r) = (if suffix q u then Some r else strstr_after (q @ [c]) r)"
  using assms(2)
proof (induction u)
  case Nil
  then show ?case using starts_with_segment [OF assms(1), of "[]" r] by auto
next
  case (Cons x u)
  then show ?case using starts_with_segment [OF assms(1), of "x # u" r] by (auto simp: suffix_Cons)
qed

lemma show_int_chars: "x \<in> set (show_int i) \<Longrightarrow> x \<noteq> CHR '':'' \<and> x \<noteq> CHR '',''"
proof -
  assume "x \<in> set (show_int i)"
  then have "x = CHR ''-'' \<or> digit_val 10 x \<noteq> None" using nat_digits_digits by (auto simp: show_int_def split: if_splits)
  moreover have "digit_val 10 CHR '':'' = None" "digit_val 10 CHR '','' = None" by (simp_all add: digit_val_def)
  ultimately show ?thesis by auto
qed

definition launch_message :: "string \<Rightarrow> int \<Rightarrow> int \<Rightarrow> int \<Rightarrow> string" where
  "launch_message n c d t =
     ''Package:'' @ n @ '',Code:'' @ show_int c @ '',Data:'' @ show_int d @ '',LaunchType:'' @ show_int t @ '',''"

lemma message_segments: "launch_message n c d t = ''Package'' @ CHR '':'' # ((n @ '',Code'') @ CHR '':'' #
    ((show_int c @ '',Data'') @ CHR '':'' # ((show_int d @ '',LaunchType'') @ CHR '':'' # (show_int t @ '',''))))"
  by (simp add: launch_message_def)

lemma field_value: "CHR '','' \<notin> set v \<Longrightarrow> length v < n \<Longrightarrow> strstr_after p s = Some (v @ CHR '','' # r) \<Longrightarrow> msg_field p n s = Some v"
  by (auto simp: msg_field_def takeWhile_append)

text \<open>
  C31. Messages are understood. A message with a package name without separators and with short
  numbers is taken apart into the name and the numbers it was made of.
\<close>

theorem launch_message_parsed:
  assumes "CHR '':'' \<notin> set n" "CHR '','' \<notin> set n" "length n < PACKAGE_NAME_LEN_MAX"
    and "length (show_int c) < PACKAGE_CODE_LEN_MAX" "length (show_int d) < PACKAGE_DATA_LEN_MAX" "length (show_int t) < PACKAGE_DATA_LEN_MAX"
    and "\<forall>i \<in> {c, d, t}. INT_MIN \<le> i \<and> i \<le> INT_MAX"
  shows "parsePackageinfo (launch_message n c d t) = (n, c, d, t)"
proof -
  have v: "CHR '':'' \<notin> set (show_int i)" "CHR '','' \<notin> set (show_int i)" for i using show_int_chars [of _ i] by blast+
  have "strstr_after (''Package'' @ '':'') (launch_message n c d t) = Some (n @ CHR '','' # ''Code:'' @ show_int c @ '',Data:'' @ show_int d @ '',LaunchType:'' @ show_int t @ '','')"
    unfolding message_segments using assms(1) v by (subst strstr_segment) (simp_all add: suffix_to_prefix)
  moreover have "strstr_after (''Code'' @ '':'') (launch_message n c d t) = Some (show_int c @ CHR '','' # ''Data:'' @ show_int d @ '',LaunchType:'' @ show_int t @ '','')"
    unfolding message_segments using assms(1) v by (subst strstr_segment, simp, simp, subst strstr_segment) (simp_all add: suffix_to_prefix)
  moreover have "strstr_after (''Data'' @ '':'') (launch_message n c d t) = Some (show_int d @ CHR '','' # ''LaunchType:'' @ show_int t @ '','')"
    unfolding message_segments using assms(1) v
    by (subst strstr_segment, simp, simp, subst strstr_segment, simp, simp, subst strstr_segment) (simp_all add: suffix_to_prefix)
  moreover have "strstr_after (''LaunchType'' @ '':'') (launch_message n c d t) = Some (show_int t @ CHR '','' # '''')"
    unfolding message_segments using assms(1) v
    by (subst strstr_segment, simp, simp, subst strstr_segment, simp, simp, subst strstr_segment, simp, simp, subst strstr_segment) (simp_all add: suffix_to_prefix)
  ultimately have "msg_field ''Package:'' PACKAGE_NAME_LEN_MAX (launch_message n c d t) = Some n"
    "msg_field ''Code:'' PACKAGE_CODE_LEN_MAX (launch_message n c d t) = Some (show_int c)"
    "msg_field ''Data:'' PACKAGE_DATA_LEN_MAX (launch_message n c d t) = Some (show_int d)"
    "msg_field ''LaunchType:'' PACKAGE_DATA_LEN_MAX (launch_message n c d t) = Some (show_int t)"
    using assms(2-6) v by (simp_all add: field_value)
  then show ?thesis using assms(7) by (simp add: parsePackageinfo_def field_text_def strtol_show_int)
qed

end
