(* ===== verification/Launch_Demo.thy ===== *)
theory Launch_Demo
  imports Launch_Props
begin

text \<open>
  A small smart-launch system on which the theorems of \<open>Launch_Props\<close> apply, with a concrete codec in the
  place of the XML library: characters are written as two letters, so that no separator occurs in them.
\<close>

section \<open>A codec for documents\<close>

definition hi_letter :: "char \<Rightarrow> char" where
  "hi_letter c = char_of (65 + (of_char c :: nat) div 16)"

definition lo_letter :: "char \<Rightarrow> char" where
  "lo_letter c = char_of (65 + (of_char c :: nat) mod 16)"

definition join_letters :: "char \<Rightarrow> char \<Rightarrow> char" where
  "join_letters x y = char_of ((of_char x - 65) * 16 + (of_char y - 65 :: nat))"

fun enc_str :: "string \<Rightarrow> string" where
  "enc_str [] = ''.''"
| "enc_str (c # cs) = hi_letter c # lo_letter c # enc_str cs"

fun dec_str :: "string \<Rightarrow> (string \<times> string) option" where
  "dec_str (x # y # r) = (if x = CHR ''.'' then Some ([], y # r) else map_option (\<lambda>(s, t). (join_letters x y # s, t)) (dec_str r))"
| "dec_str [x] = (if x = CHR ''.'' then Some ([], []) else None)"
| "dec_str [] = None"

definition enc_opt :: "('a \<Rightarrow> string) \<Rightarrow> 'a option \<Rightarrow> string" where
  "enc_opt f x = (case x of None \<Rightarrow> ''-'' | Some y \<Rightarrow> CHR ''+'' # f y)"

definition dec_opt :: "(string \<Rightarrow> ('a \<times> string) option) \<Rightarrow> string \<Rightarrow> ('a option \<times> string) option" where
  "dec_opt g s = (case s of [] \<Rightarrow> None | c # r \<Rightarrow> if c = CHR ''-'' then Some (None, r) else map_option (\<lambda>(y, t). (Some y, t)) (g r))"

definition enc_elem :: "dl_elem \<Rightarrow> string" where
  "enc_elem e = enc_str (de_tag e) @ enc_opt enc_str (de_name e) @ enc_opt (enc_opt enc_str) (de_power e)"

definition dec_elem :: "string \<Rightarrow> (dl_elem \<times> string) option" where
  "dec_elem s =
     Option.bind (dec_str s) (\<lambda>(t, r1). Option.bind (dec_opt dec_str r1) (\<lambda>(n, r2).
       map_option (\<lambda>(p, r3). (\<lparr>de_tag = t, de_name = n, de_power = p\<rparr>, r3)) (dec_opt (dec_opt dec_str) r2)))"

fun enc_doc :: "dl_elem list \<Rightarrow> string" where
  "enc_doc [] = ''>''"
| "enc_doc (e # es) = CHR ''<'' # enc_elem e @ enc_doc es"

fun dec_doc :: "nat \<Rightarrow> string \<Rightarrow> dl_elem list option" where
  "dec_doc (Suc n) (c # s) =
     (if c = CHR ''>'' then Some []
      else (case dec_elem s of None \<Rightarrow> None | Some (e, r) \<Rightarrow> map_option (\<lambda>es. e # es) (dec_doc n r)))"
| "dec_doc n s = None"

lemma letter_code: "(of_char (hi_letter c) :: nat) = 65 + of_char c div 16" "(of_char (lo_letter c) :: nat) = 65 + of_char c mod 16"
proof -
  have "(of_char c :: nat) < 256" by (metis of_char_mod_256 mod_less_divisor zero_less_numeral)
  then have "(of_char c :: nat) div 16 < 16" "(of_char c :: nat) mod 16 < 16" by (simp_all add: less_mult_imp_div_less)
  then show "(of_char (hi_letter c) :: nat) = 65 + of_char c div 16" "(of_char (lo_letter c) :: nat) = 65 + of_char c mod 16"
    by (simp_all add: hi_letter_def lo_letter_def)
qed

lemma join_split [simp]: "join_letters (hi_letter c) (lo_letter c) = c"
  by (simp add: join_letters_def letter_code)

lemma letter_chars: "hi_letter c \<notin> {CHR ''.'', CHR 0x00}" "lo_letter c \<noteq> CHR 0x00"
proof -
  have "(of_char x :: nat) \<ge> 65 \<Longrightarrow> x \<notin> {CHR ''.'', CHR 0x00}" for x by auto
  then show "hi_letter c \<notin> {CHR ''.'', CHR 0x00}" "lo_letter c \<noteq> CHR 0x00" using letter_code [of c] by auto
qed

lemma dec_enc_str [simp]: "dec_str (enc_str s @ r) = Some (s, r)"
proof (induction s)
  case Nil
  then show ?case by (cases r) simp_all
next
  case (Cons c s)
  then show ?case using letter_chars(1) [of c] by simp
qed

lemma dec_enc_opt: "(\<And>y r. g (f y @ r) = Some (y, r)) \<Longrightarrow> dec_opt g (enc_opt f x @ r) = Some (x, r)"
  by (cases x) (simp_all add: dec_opt_def enc_opt_def)

lemma dec_enc_elem: "dec_elem (enc_elem e @ r) = Some (e, r)"
  by (simp add: dec_elem_def enc_elem_def dec_enc_opt)

lemma dec_enc_doc: "length (enc_doc es) \<le> n \<Longrightarrow> dec_doc n (enc_doc es) = Some es"
proof (induction es arbitrary: n)
  case Nil
  then show ?case by (cases n) simp_all
next
  case (Cons e es)
  then show ?case by (cases n) (simp_all add: dec_enc_elem)
qed

lemma enc_str_chars: "CHR 0x00 \<notin> set (enc_str s)"
proof (induction s)
  case (Cons c s)
  then show ?case using letter_chars [of c] by (simp add: eq_commute [of "CHR 0x00"])
qed simp

lemma enc_doc_chars: "CHR 0x00 \<notin> set (enc_doc es)" "enc_doc es \<noteq> ''''"
  using enc_str_chars by (induction es) (auto simp: enc_elem_def enc_opt_def split: option.splits)

section \<open>The system\<close>

definition demo_launch_env :: launch_env where
  "demo_launch_env = \<lparr>x_parse = (\<lambda>s. map_option Some (dec_doc (length s) s)), x_print = enc_doc, x_int = (\<lambda>s. Some (strtol 10 s)),
     written = (\<lambda>old new. Some new), psi_mem = Some (0, 0), psi_cpu = Some (1, 0), psi_io = Some (0, 0), dev_open = 3,
     algo = (\<lambda>feedback target opp ration. opp + 2)\<rparr>"

lemma demo_xml_sound: "xml_sound demo_launch_env"
  by (auto simp: xml_sound_def demo_launch_env_def dec_enc_doc enc_doc_chars strtol_show_int)

text \<open>The state of the file before the first notification, on a machine of two clusters.\<close>

definition demo_launch :: "tHintMap \<Rightarrow> launch" where
  "demo_launch e = \<lparr>l_perf = (demo_perf [] ((demo_con 50 0)\<lparr>c_cmdName := ''PERF_RES_SMART_LAUNCH_CLUSTER_2_CPU_MAX_FREQ'', c_defaultVal := 1500\<rparr>) 3 3)
       \<lparr>PowerScnTbl := [hint_entry 20 ''demo'', e]\<rparr>,
     l_cpu = demo_cpu, gSmartLaunchPackageInfo = Map.empty, dl_file = Some (xor_encrypt_decrypt (enc_doc []) DL_KEY),
     gLaunchPolicyInitFlag = False, gClusterNumMax = -1, gAnimationTimeTarget = 500, gBigClusterDefaultFreq = -1,
     gBigClusterOPPMinLevel = 15, gBigClusterOPPCnt = 24, gBigClusterDefaultOPP = 0, gBigClusterCapabilityRation = 25,
     gAdjustCapabilitySpanMax = 6, gSmartLaunchEnable = True, gIsOverPressureThreshold = False,
     gDefaultBigClusterFreqSupported = False, devfd = -1, mem_threshold = 0, cpu_threshold = 0, io_threshold = 0,
     policy_size = 0, policy_list = replicate 600 0\<rparr>"

text \<open>A configured list without and one with a limit for the big cluster.\<close>

definition free_hint :: tHintMap where
  "free_hint = \<lparr>hintId = 21, hintCmd = ''MTKPOWER_HINT_PROCESS_CREATE'', lock_rsc_size = 2, lock_rsc_list = 1 # 2 # replicate 598 0\<rparr>"

definition limited_hint :: tHintMap where
  "limited_hint = \<lparr>hintId = 21, hintCmd = ''MTKPOWER_HINT_PROCESS_CREATE'', lock_rsc_size = 2, lock_rsc_list = 0x404200 # 3000 # replicate 598 0\<rparr>"

text \<open>The policy that is stored for them.\<close>

definition demo_stored :: "tHintMap \<Rightarrow> launch" where
  "demo_stored e = (demo_launch e)\<lparr>mem_threshold := 7, cpu_threshold := 20, io_threshold := 20, policy_size := 2, policy_list := lock_rsc_list e,
     gClusterNumMax := 2, gDefaultBigClusterFreqSupported := (e = limited_hint), gBigClusterDefaultFreq := 3000,
     gBigClusterOPPCnt := (if e = limited_hint then 2 else 24), gBigClusterOPPMinLevel := 1, gLaunchPolicyInitFlag := True\<rparr>"

lemmas demo_launch_defs = demo_launch_def demo_perf_def demo_con_def hint_entry_def

lemma demo_opps: "getCPUFreqToOpp demo_cpu 1 3000 = 0" "getCPUFreqToOpp demo_cpu 1 1500 = 1" "getCPUFreq demo_cpu 1 0 = 3000"
  "getCPUFreq demo_cpu 1 1 = 1500" "getCPUFreqOppCnt demo_cpu 1 = 2" "nClusterNum demo_cpu = 2"
  by code_simp+

lemma demo_hints: "HintRscList_remove [hint_entry 20 ''demo'', free_hint] 21 0x404200 = Some [hint_entry 20 ''demo'', free_hint]"
  "HintRscList_modify [hint_entry 20 ''demo'', limited_hint] 21 0x404200 3000 = Some [hint_entry 20 ''demo'', limited_hint]"
  by code_simp+

lemma hints_differ: "free_hint \<noteq> limited_hint"
  by (simp add: free_hint_def limited_hint_def)

lemma demo_store: "storeDefaultLaunchBoostPolicy (demo_launch free_hint) = Some (demo_stored free_hint)"
  by (simp add: storeDefaultLaunchBoostPolicy_def initSystemPressureStats_def getDefaultScnHintRsc_def demo_stored_def demo_launch_defs
      getHintRscSize_def getHintRscList_def free_hint_def limited_hint_def getDefaultBigClusterFreqSupported_def default_freq_def
      getClusterNum_def getDefaultTargetTime_def getDefaultDlCPUFreqMax_def getDefaultDlPowerMigration_def getDefaultOppOffsetScale_def
      getDefaultMemPSIThreshold_def getDefaultCpuPSIThreshold_def getDefaultIoPSIThreshold_def positive_default_def con_default_def
      uclampRation_def demo_opps)

definition demo_msg :: "string \<Rightarrow> string" where
  "demo_msg s = ''Package:web,'' @ s"

lemma demo_msgs:
  "parsePackageinfo (demo_msg ''Code:0,Data:1,LaunchType:0,'') = (''web'', 0, 1, 0)"
  "parsePackageinfo (demo_msg ''Code:0,Data:0,LaunchType:0,'') = (''web'', 0, 0, 0)"
  "parsePackageinfo (demo_msg ''Code:1,Data:600,LaunchType:1,'') = (''web'', 1, 600, 1)"
  by code_simp+

text \<open>A slow first start of a package: its point is learned and stored.\<close>

definition demo_learned :: launch where
  "demo_learned = insertNewFreqAndInsertToDisk demo_launch_env ''web'' 1 ((demo_stored free_hint)\<lparr>devfd := 3\<rparr>)"

lemma demo_calc: "calcNextLaunchPower demo_launch_env ''web'' 600 (demo_stored free_hint) = demo_learned"
  by (simp add: calcNextLaunchPower_def checkIfNeedAdjust_def adjust_new_def coreAlgorith_def check_perf_ioctl_valid_def clampFreqOpp_def
      span_limit_def demo_stored_def demo_launch_def demo_launch_env_def demo_learned_def hints_differ)

lemma demo_insert_perf: "l_perf (insertNewFreqAndInsertToDisk env n i st) = l_perf st"
  "gSmartLaunchPackageInfo (insertNewFreqAndInsertToDisk env n i st) = (gSmartLaunchPackageInfo st)(n \<mapsto> i)"
  "gAnimationTimeTarget (insertNewFreqAndInsertToDisk env n i st) = gAnimationTimeTarget st"
  "gIsOverPressureThreshold (insertNewFreqAndInsertToDisk env n i st) = gIsOverPressureThreshold st"
  "mem_threshold (insertNewFreqAndInsertToDisk env n i st) = mem_threshold st" "cpu_threshold (insertNewFreqAndInsertToDisk env n i st) = cpu_threshold st"
  "io_threshold (insertNewFreqAndInsertToDisk env n i st) = io_threshold st"
  by (simp_all add: insertNewFreqAndInsertToDisk_def insertNewElement2DlTable_def write_dl_def Let_def split: option.split)

lemma demo_learned_fields: "policy demo_learned = policy (demo_stored free_hint)" "l_perf demo_learned = l_perf (demo_launch free_hint)"
  "gSmartLaunchPackageInfo demo_learned = [''web'' \<mapsto> 1]" "gAnimationTimeTarget demo_learned = 500"
  "mem_threshold demo_learned = 7" "cpu_threshold demo_learned = 20" "io_threshold demo_learned = 20"
  unfolding demo_learned_def by simp (simp_all add: demo_insert_perf demo_stored_def demo_launch_def)

lemma demo_notify:
  "notifySmartLaunchEngine demo_launch_env (Some (demo_msg ''Code:1,Data:600,LaunchType:1,'')) (demo_stored free_hint) = Some demo_learned"
proof -
  have "gDefaultBigClusterFreqSupported demo_learned = False" using policyD(8) [OF demo_learned_fields(1)] hints_differ by (simp add: demo_stored_def)
  moreover have "PowerScnTbl (l_perf demo_learned) = [hint_entry 20 ''demo'', free_hint]" by (simp add: demo_learned_fields demo_launch_def)
  ultimately have "resetLaunchPolicyToDefault demo_learned = Some demo_learned"
    using demo_hints(1) by (simp add: resetLaunchPolicyToDefault_def edit_hints_def)
  moreover have "gLaunchPolicyInitFlag (demo_stored free_hint)" "gSmartLaunchEnable (demo_stored free_hint)" by (simp_all add: demo_stored_def demo_launch_def)
  ultimately show ?thesis by (simp add: notifySmartLaunchEngine_def notify_switch_def demo_msgs demo_calc)
qed


theorem pressure_latched_witness:
  "\<exists>st'. notifySmartLaunchEngine demo_launch_env (Some (demo_msg ''Code:1,Data:600,LaunchType:1,'')) ((demo_stored free_hint)\<lparr>gIsOverPressureThreshold := True\<rparr>) = Some st' \<and>
    gIsOverPressureThreshold st' \<and> gSmartLaunchPackageInfo st' = Map.empty"
proof -
  let ?st = "(demo_stored free_hint)\<lparr>gIsOverPressureThreshold := True\<rparr>"
  have i: "gLaunchPolicyInitFlag ?st" "gIsOverPressureThreshold ?st" "gSmartLaunchPackageInfo ?st = Map.empty" "gSmartLaunchEnable ?st"
    "\<not> gDefaultBigClusterFreqSupported ?st" "PowerScnTbl (l_perf ?st) = [hint_entry 20 ''demo'', free_hint]"
    using hints_differ by (simp_all add: demo_stored_def demo_launch_def)
  then have "notifySmartLaunchEngine demo_launch_env (Some (demo_msg ''Code:1,Data:600,LaunchType:1,'')) ?st = Some ?st"
    using demo_hints(1) by (simp add: notifySmartLaunchEngine_def notify_switch_def demo_msgs calcNextLaunchPower_def resetLaunchPolicyToDefault_def edit_hints_def)
  then show ?thesis using pressure_latched [OF launch_notify [OF launch_start] i(1-3)] by blast
qed

lemma demo_hint_at: "hint_at (PowerScnTbl (l_perf (demo_launch e))) [hint_entry 20 ''demo''] e [] = (hintId e = 21)"
  by (simp add: hint_at_def demo_launch_def hint_entry_def)


theorem launch_list_overflow_witness:
  "\<exists>st'. launches demo_launch_env (demo_msg ''Code:0,Data:1,LaunchType:0,'') (demo_msg ''Code:0,Data:0,LaunchType:0,'') 299 demo_learned = Some st' \<and>
    notifySmartLaunchEngine demo_launch_env (Some (demo_msg ''Code:0,Data:1,LaunchType:0,'')) st' = None"
proof -
  note d = policyD [OF demo_learned_fields(1)]
  have "learned demo_launch_env ''web'' demo_learned"
    using d demo_learned_fields hints_differ demo_opps
    by (simp add: learned_def isSystemOverPressureThreshold_def getSystemPressureInfo_def demo_launch_env_def demo_stored_def demo_launch_def)
  moreover have "hint_at (PowerScnTbl (l_perf demo_learned)) [hint_entry 20 ''demo''] free_hint []"
    using demo_hint_at [of free_hint] by (simp add: demo_learned_fields free_hint_def)
  moreover have "list_wf free_hint" by (simp add: list_wf_def free_hint_def)
  moreover have "nat ((600 - lock_rsc_size free_hint) div 2) = 299" by (simp add: free_hint_def)
  ultimately show ?thesis using launch_list_overflow [OF _ demo_msgs(1,2), of demo_launch_env demo_learned "[hint_entry 20 ''demo'']" free_hint "[]"] by auto
qed

theorem launch_message_parsed_witness:
  "parsePackageinfo (launch_message ''com.demo.web'' 1 (-600) 1) = (''com.demo.web'', 1, -600, 1)"
proof -
  have "length (show_int 1) < 10" "length (show_int (-600)) < 10" by code_simp+
  then show ?thesis using launch_message_parsed [of "''com.demo.web''" 1 "-600" 1] by simp
qed

lemma demo_disk: "load_dl demo_launch_env (demo_stored free_hint) = Some []" "on_disk demo_launch_env (demo_stored free_hint)"
proof -
  have "write_dl demo_launch_env (x_print demo_launch_env []) (demo_stored free_hint) = demo_stored free_hint"
    by (simp add: write_dl_def demo_launch_env_def demo_stored_def demo_launch_def)
  then show l: "load_dl demo_launch_env (demo_stored free_hint) = Some []"
    using load_written [OF demo_xml_sound, of "[]" "demo_stored free_hint"] by simp
  have "gSmartLaunchPackageInfo (demo_stored free_hint) = Map.empty" by (simp add: demo_stored_def demo_launch_def)
  then show "on_disk demo_launch_env (demo_stored free_hint)" using l by (simp add: on_disk_def dl.agree_def)
qed

lemma demo_room: "file_room demo_launch_env ''web'' (demo_stored free_hint)"
proof -
  have "length (enc_doc [package ''web'' (show_int 1)]) < 64" by code_simp
  then have "length (enc_doc [package ''web'' (show_int 1)]) < 1024 * 1024" by simp
  moreover have "gBigClusterDefaultOPP (demo_stored free_hint) = 0" "gBigClusterOPPMinLevel (demo_stored free_hint) = 1" "x_print demo_launch_env = enc_doc"
    by (simp_all add: demo_stored_def demo_launch_def demo_launch_env_def)
  moreover have "0 < i \<and> i \<le> 1 \<longleftrightarrow> i = 1" for i :: int by auto
  ultimately show ?thesis using demo_disk(1) by (simp add: file_room_def)
qed


end
