(* ===== verification/Spec2Isabelle.thy ===== *)
theory Spec2Isabelle
  imports Rsc_Link Session_Props Launch_Demo
begin

text \<open>
  \<^bold>\<open>The power HAL.\<close> The program decides, on behalf of the applications and services of a phone, how
  the kernel manages power: CPU frequencies and core counts, scheduler, GPU, memory, network. A
  client asks for a \<^emph>\<open>lock\<close>, a list of (command, value) pairs, for some time; the service finds out
  which of the active requests wins for each setting and writes the winner to the kernel. This
  development models the service, the daemon around it and the libraries they rest on.

  \<^bold>\<open>Parts and theories.\<close> All paths are relative to \<^verbatim>\<open>src/power/\<close>.

  \<^item> \<open>Power_Prelude\<close>: C integers and strings, loops over table indices, the collections of facts the
    other theories extend.
  \<^item> \<open>Hint_Table\<close> (\<^verbatim>\<open>lib/powerhal/perfservice_scn.cpp\<close>): the names of the hints and the vector of
    their resource lists. The locale \<open>hint_store\<close> is what the loader needs of the vector.
  \<^item> \<open>Perf_State\<close> (\<^verbatim>\<open>perfservice.h\<close>, \<^verbatim>\<open>perfservice_types.h\<close>, \<^verbatim>\<open>perfservice.cpp\<close>): the globals of the
    service as the record \<open>perf\<close>, the scenario nodes, \<open>resetScenario\<close>, \<open>cmdSetting\<close>, the handles.
  \<^item> \<open>Arbiter\<close>: \<open>perfScnEnable\<close>, \<open>perfScnDisable\<close>, \<open>perfScnUpdate\<close>. \<open>Arbiter_Inv\<close>: the contract of arbitration
    as the locale \<open>arbitration\<close> over a strict order on values, interpreted for both directions
    of both tables. \<open>Arbiter_Props\<close>: what follows for sequences of operations.
  \<^item> \<open>Con_Load\<close> (\<^verbatim>\<open>perfservice_xmlparse.cpp\<close>, \<open>init\<close>): the XML tables and the start of the service.
  \<^item> \<open>Perf_Lock\<close>: the client interface (\<open>perfLockCheckHdl\<close>, \<open>perfLockAcq\<close>, \<open>perfLockRel\<close>, the clean-up
    calls, \<open>powerRscCtrl\<close>). \<open>Lock_Inv\<close>: its invariant. \<open>Service\<close>: the step relation of all calls.
    \<open>Service_Props\<close>: what a sequence of calls guarantees.
  \<^item> \<open>Rsc_Table\<close> (\<^verbatim>\<open>perfservice_rsccfgtbl.h\<close>): the 422 rows of the shipped resource table. \<open>Rsc_Link\<close>: the
    table meets what the service assumes of it.
  \<^item> \<open>Cpu_Freq\<close>, \<open>Cpu_Props\<close> (\<^verbatim>\<open>perfservice.cpp\<close>, \<^verbatim>\<open>rsc_util/utility_sys.cpp\<close>): the functions behind the
    CPU rows of the table.
  \<^item> \<open>Sys_Info\<close> (\<^verbatim>\<open>perfservice.cpp\<close>): system information, queries, update callbacks.
  \<^item> \<open>Dl_List\<close> (\<^verbatim>\<open>lib/util/mi_util.cpp\<close>): doubly linked lists on an explicit store; the locale
    \<open>comparator\<close> is what an ordered insert needs of its comparison.
  \<^item> \<open>Ptimer\<close> (\<^verbatim>\<open>lib/util/ptimer.cpp\<close>): the queue of running timers on these lists, an interpretation of
    \<open>comparator\<close>.
  \<^item> \<open>Power_Ipc\<close> (\<^verbatim>\<open>lib/util/power_ipc.cpp\<close>, \<^verbatim>\<open>powerd_cmd.cpp\<close>): the bytes between client and daemon.
  \<^item> \<open>Powerd_Core\<close>, \<open>Powerd_Props\<close> (\<^verbatim>\<open>lib/util/powerd_core.cpp\<close>): the requests of the daemon and its 256
    timer slots, which turn a duration into a release. The locale \<open>timer_queue\<close> is the contract of the
    timer manager, \<open>timer_events\<close> extends it to the slots; \<open>tq\<close> interprets both on \<open>Ptimer\<close>.
  \<^item> \<open>Powerd_Loop\<close> (\<^verbatim>\<open>lib/util/powerd.cpp\<close>): connections and one round of the event loop.
  \<^item> \<open>Power_Client\<close> (\<^verbatim>\<open>lib/util/powerc.cpp\<close>): the client side of the socket.
  \<^item> \<open>Power_Api\<close>, \<open>Api_Props\<close> (\<^verbatim>\<open>lib/powerhal/powerhal_api.cpp\<close>): the library the services call, its work
    queue and the worker that empties it.
  \<^item> \<open>Hint_Session\<close>, \<open>Session_Props\<close> (\<^verbatim>\<open>service/Power_aidl/\<close>): the AIDL service, its modes and boosts on top
    of the library, and the hint sessions it opens in the kernel driver.
  \<^item> \<open>Smart_Launch\<close>, \<open>Launch_Props\<close>, \<open>Launch_Demo\<close> (\<^verbatim>\<open>rsc_util/utility_sbe_handle.cpp\<close> and the package table of
    \<^verbatim>\<open>perfservice_xmlparse.cpp\<close>): the engine that learns a launch frequency for each package, the
    encrypted file it keeps them in, and a concrete system for the theorems. The locale \<open>package_file\<close>
    is what learning needs of the file.

  \<^bold>\<open>How they interact.\<close> A call of the library (\<open>libpowerhal_LockAcq\<close>) registers the lock and queues a
  message; a round of the worker (\<open>mtkPowerMsgWorker\<close>) sends it through the socket (\<open>power_msg\<close>). A round of the event loop (\<open>select_round\<close>) takes one expired timer from the queue
  and hands it to \<open>powerd_core_timer_handle\<close>, then reads the clients. The bytes of a client become a
  command (\<open>powerd_ipc_recvcmd\<close>, \<open>powerd_cmd_unmarshall\<close>), the command a request (\<open>powerd_req\<close>), the request
  a call of the service (\<open>perfLockAcq\<close>), which stores the values in a scenario node (\<open>cmdSetting\<close>) and
  lets the node compete (\<open>perfScnEnable\<close>). The calls of the set functions are recorded in \<open>acts\<close>
  in their order; for the CPU rows \<open>Cpu_Freq\<close> models what the functions then do. The smart-launch engine
  (\<open>notifySmartLaunchEngine\<close>) is told about starting packages through \<open>perfSetSysInfo\<close>, reads the frequency
  tables of \<open>Cpu_Freq\<close> and edits the list of the launch hint in \<open>Hint_Table\<close>.

  \<^bold>\<open>What is shown.\<close>

  \<^item> Arbitration: in every reachable state each setting has the value of the best active request or
    its reset value; enabling and disabling keep this, undo each other, and do not depend on the
    order. An acquire followed by a release leaves every setting as it was.
  \<^item> The service: \<open>init\<close> establishes the invariant, each call keeps it, also with the tables as shipped.
  \<^item> Tables: hint names and ids, command ids and rows correspond; lists never overflow.
  \<^item> CPU: limits are clamped into the hard limits, and commands ask for ordered ranges.
  \<^item> Lists and timers: the pointer operations implement operations on sequences; starting a timer
    keeps the queue ordered by second, a reported timer is due, durations do not wrap.
  \<^item> Wire format: commands survive the socket, except lock requests.
  \<^item> Daemon: requests act on the slots as on a finite map from events to deadlines, always end,
    and keep slots, queue and service consistent; a timed lock is released by its timer; a timer
    request is followed from the bytes of the client to the reply.
  \<^item> Library: the socket is transparent for messages; a lock is followed from the call of a client
    through queue, worker, socket and daemon to the settings and back; every interleaving of calls,
    worker rounds and timers keeps the daemon consistent.
  \<^item> AIDL service: a mode switched on and off leaves no trace in the settings; live hint sessions have
    different ids and are exactly those the driver knows.
  \<^item> Smart launch: learned operating points and launch frequencies stay within the bounds of the policy;
    the file on disk is the table in memory; a start and its end leave the hint as it was.
  \<^item> Deviations: the theorems of kind error state what the code does where this is not what it means
    to do.

  \<^bold>\<open>Conventions.\<close> A C struct is a record, a table a list of the length of the array. \<open>int\<close> is \<open>int\<close> where
  the code cannot leave its range or the range is a hypothesis, and a word of its width where
  wrap-around matters (list counters, times, bytes). Undefined behaviour (access outside an array, a
  null pointer) is \<open>None\<close>. Loops over tables are structural recursions. Loops that follow pointers are
  partial functions into \<open>option\<close>, and the invariants of lists and queues give that they return; no
  fuel is used. What the operating system answers is an argument, collected in records that grow with
  the theories: \<open>load_env\<close>, \<open>lock_env\<close>, \<open>sys_env\<close>, \<open>core_env\<close>, \<open>loop_env\<close>, \<open>client_env\<close>; and
  \<open>launch_env\<close> for the XML library, the pressure files and the kernel algorithm of the engine.

  \<^bold>\<open>Not modelled.\<close> Threads and locks: calls are atomic, as the mutexes of the library and the service make
  them, and a round of the worker is a step of its own.
  The functions of the resource table outside CPU control and \<^verbatim>\<open>utility_sbe_handle.cpp\<close> (\<^verbatim>\<open>rsc_util/\<close>: thermal, network, scheduler,
  video and others) write single kernel nodes or call vendor drivers; their calls are recorded. The
  other Binder services (\<^verbatim>\<open>service/\<close>) forward requests to the library. The application
  list (\<^verbatim>\<open>power_applist/\<close>) reads an XML file through a third-party parser. Of \<^verbatim>\<open>mi_util.cpp\<close> the list
  sort, the hash table and the priority queue, which the program does not use, are left out;
  \<^verbatim>\<open>timer/\<close> holds copies of \<^verbatim>\<open>mi_util.cpp\<close> and \<^verbatim>\<open>ptimer.cpp\<close>. Logging and tracing are left out.
\<close>

end
